(* ===== verification/Prelude.thy ===== *)
theory Prelude
  imports Main "HOL-Library.State_Monad" "HOL-Library.Monad_Syntax"
begin

text \<open>
  The vocabulary shared by every component: the error type of Go, the result
  conventions \<open>(T, error)\<close> and \<open>(ctrl.Result, error)\<close>, the state monad in which the
  handlers run, and two small program logics for it.

  \<^item> \<open>wp m Q s\<close>: running \<open>m\<close> in \<open>s\<close> ends with a result and a state that satisfy \<open>Q\<close>;
    the rules in the collection \<open>wp_rules\<close> compute it.
  \<^item> \<open>keeps I m\<close>: the relation \<open>I\<close> holds between the state before and the state after \<open>m\<close>; the
    rules in the collection \<open>keeps_rules\<close> compose it for reflexive and transitive relations.
\<close>

section \<open>Collections\<close>

named_theorems wp_rules
named_theorems keeps_rules
named_theorems go_simps


section \<open>Go errors\<close>

text \<open>
  The error values that the code compares by identity with \<open>errors.Is\<close> (and \<open>ErrPanic\<close>, a panic on its
  way up to the controller runtime, which recovers it and reports an error), the
  errors it builds itself (\<open>errors.New\<close>, \<open>fmt.Errorf\<close> with \<open>%w\<close>, \<open>errors.Join\<close>) and the errors of
  third-party code, which carry an opaque identity, a text and possibly an inner error.
\<close>

datatype sentinel =
    ErrRateLimit
  | ErrReconcileAgain
  | ErrTooManyIPs
  | ErrNilFirewall
  | ErrVPCNotFound
  | ErrHandlerTimeout
  | ErrDeadlineExceeded
  | ErrUnexpectedEOF
  | ErrSyntax
  | ErrRange
  | ErrPanic

datatype error =
    ErrSentinel sentinel
  | ErrNew string
  | ErrWrap string error
  | ErrJoin "error list"
  | ErrExt int string "error option"

type_synonym 'a res = "error + 'a"

fun errIs :: "error \<Rightarrow> sentinel \<Rightarrow> bool" where
  "errIs (ErrSentinel a) t = (a = t)"
| "errIs (ErrNew _) t = False"
| "errIs (ErrWrap _ e) t = errIs e t"
| "errIs (ErrJoin es) t = (\<exists>e\<in>set es. errIs e t)"
| "errIs (ErrExt _ _ None) t = False"
| "errIs (ErrExt _ _ (Some e)) t = errIs e t"

definition errors_Is :: "error option \<Rightarrow> sentinel \<Rightarrow> bool" where
  "errors_Is err t = (case err of None \<Rightarrow> False | Some e \<Rightarrow> errIs e t)"

lemma errors_Is_simps [simp]:
  "errors_Is None t = False"
  "errors_Is (Some e) t = errIs e t"
  by (simp_all add: errors_Is_def)

text \<open>\<open>errors.Join\<close> drops nil errors and returns nil when nothing is left.\<close>

definition errors_Join :: "error option list \<Rightarrow> error option" where
  "errors_Join es = (case List.map_filter id es of [] \<Rightarrow> None | e # es' \<Rightarrow> Some (ErrJoin (e # es')))"

text \<open>\<open>errors.Unwrap\<close>: the single inner error; an error made by \<open>errors.Join\<close> has none.\<close>

fun errors_Unwrap :: "error \<Rightarrow> error option" where
  "errors_Unwrap (ErrWrap _ e) = Some e"
| "errors_Unwrap (ErrExt _ _ i) = i"
| "errors_Unwrap _ = None"

lemma size_errors_Unwrap: "errors_Unwrap e = Some e' \<Longrightarrow> size e' < size e"
  by (cases e rule: errors_Unwrap.cases) auto


section \<open>Results of reconcilers\<close>

text \<open>
  Durations are nanoseconds. \<open>ctrl.Result\<close> has the requeue delay only: the code never sets
  another field. Its method \<open>IsZero\<close> is the test of the zero value.
\<close>

type_synonym duration = int
type_synonym gotime = int

record Result =
  RequeueAfter :: duration

abbreviation noResult :: Result where
  "noResult \<equiv> \<lparr>RequeueAfter = 0\<rparr>"

abbreviation requeue :: "duration \<Rightarrow> Result" where
  "requeue d \<equiv> \<lparr>RequeueAfter = d\<rparr>"

definition Result_IsZero :: "Result \<Rightarrow> bool" where
  [simp]: "Result_IsZero r = (RequeueAfter r = 0)"

type_synonym outcome = "Result \<times> error option"


section \<open>The monad of the handlers\<close>

type_synonym ('s, 'a) m = "('s, 'a) State_Monad.state"

abbreviation ret :: "'a \<Rightarrow> ('s, 'a) m" where
  "ret \<equiv> State_Monad.return"

abbreviation gets :: "('s \<Rightarrow> 'a) \<Rightarrow> ('s, 'a) m" where
  "gets f \<equiv> State_Monad.bind State_Monad.get (\<lambda>s. State_Monad.return (f s))"

abbreviation modify :: "('s \<Rightarrow> 's) \<Rightarrow> ('s, unit) m" where
  "modify f \<equiv> State_Monad.update f"

text \<open>Go's \<open>x, err := m(); if err != nil { return err }\<close>.\<close>

definition bindE :: "('s, 'a res) m \<Rightarrow> ('a \<Rightarrow> ('s, 'b res) m) \<Rightarrow> ('s, 'b res) m" where
  "bindE m f = State_Monad.bind m (\<lambda>r. case r of Inl e \<Rightarrow> ret (Inl e) | Inr x \<Rightarrow> f x)"

text \<open>\<open>if err := m(); err != nil { return ..., fmt.Errorf("text %w", err) }\<close>.\<close>

definition wrapE :: "string \<Rightarrow> ('s, 'a res) m \<Rightarrow> ('s, 'a res) m" where
  "wrapE t m = State_Monad.bind m
     (\<lambda>r. ret (case r of Inl e \<Rightarrow> Inl (ErrWrap t e) | Inr x \<Rightarrow> Inr x))"

text \<open>A loop over a slice whose body may return an error, which ends the loop.\<close>

fun forE :: "'a list \<Rightarrow> ('a \<Rightarrow> ('s, unit res) m) \<Rightarrow> ('s, unit res) m" where
  "forE [] f = ret (Inr ())"
| "forE (x # xs) f = bindE (f x) (\<lambda>_. forE xs f)"

text \<open>The same loop with a value threaded through the iterations.\<close>

fun foldE :: "('a \<Rightarrow> 'b \<Rightarrow> ('s, 'b res) m) \<Rightarrow> 'a list \<Rightarrow> 'b \<Rightarrow> ('s, 'b res) m" where
  "foldE f [] b = ret (Inr b)"
| "foldE f (x # xs) b = bindE (f x b) (foldE f xs)"

text \<open>
  A loop over a slice whose iterations also update the element they visit. An error ends the
  loop; the elements after the failing one are left as they were.
\<close>

fun mapAccumE :: "('a \<Rightarrow> 'b \<Rightarrow> ('s, 'a \<times> 'b res) m) \<Rightarrow> 'a list \<Rightarrow> 'b \<Rightarrow> ('s, 'a list \<times> 'b res) m" where
  "mapAccumE f [] b = ret ([], Inr b)"
| "mapAccumE f (x # xs) b = State_Monad.bind (f x b) (\<lambda>(x', r). case r of
       Inl e \<Rightarrow> ret (x' # xs, Inl e)
     | Inr b' \<Rightarrow> State_Monad.bind (mapAccumE f xs b') (\<lambda>(xs', r'). ret (x' # xs', r')))"

text \<open>Run a handler on a part of the state.\<close>

definition zoom :: "('s \<Rightarrow> 't) \<Rightarrow> ('t \<Rightarrow> 's \<Rightarrow> 's) \<Rightarrow> ('t, 'a) m \<Rightarrow> ('s, 'a) m" where
  "zoom g p m = State_Monad.State (\<lambda>s. case State_Monad.run_state m (g s) of (r, t) \<Rightarrow> (r, p t s))"

subsection \<open>Weakest preconditions\<close>

definition wp :: "('s, 'a) m \<Rightarrow> ('a \<Rightarrow> 's \<Rightarrow> bool) \<Rightarrow> 's \<Rightarrow> bool" where
  "wp m Q s = (case State_Monad.run_state m s of (r, s') \<Rightarrow> Q r s')"

lemma wp_return [wp_rules]: "wp (ret x) Q = Q x"
  by (rule ext) (simp add: wp_def)

lemma wp_bind [wp_rules]: "wp (State_Monad.bind m f) Q s = wp m (\<lambda>r. wp (f r) Q) s"
  by (simp add: wp_def split: prod.splits)

lemma wp_get [wp_rules]: "wp State_Monad.get Q s = Q s s"
  by (simp add: wp_def)

lemma wp_set [wp_rules]: "wp (State_Monad.set t) Q s = Q () t"
  by (simp add: wp_def)

lemma wp_update [wp_rules]: "wp (modify f) Q s = Q () (f s)"
  by (simp add: State_Monad.update_def wp_bind wp_get wp_set)

lemma wp_bindE [wp_rules]:
  "wp (bindE m f) Q s = wp m (\<lambda>r. case r of Inl e \<Rightarrow> Q (Inl e) | Inr x \<Rightarrow> wp (f x) Q) s"
  by (auto simp: bindE_def wp_bind wp_def split: sum.splits prod.splits)

lemma wp_wrapE [wp_rules]:
  "wp (wrapE t m) Q s = wp m (\<lambda>r. Q (case r of Inl e \<Rightarrow> Inl (ErrWrap t e) | Inr x \<Rightarrow> Inr x)) s"
  by (simp add: wrapE_def wp_def split: prod.splits)

lemma wp_zoom [wp_rules]: "wp (zoom g p m) Q s = wp m (\<lambda>r t. Q r (p t s)) (g s)"
  by (simp add: wp_def zoom_def split: prod.splits)

lemma wp_mono: "wp m P s \<Longrightarrow> (\<And>r t. P r t \<Longrightarrow> Q r t) \<Longrightarrow> wp m Q s"
  by (auto simp: wp_def split: prod.splits)

lemma wp_conj: "wp m (\<lambda>r t. P r t \<and> Q r t) s = (wp m P s \<and> wp m Q s)"
  by (auto simp: wp_def split: prod.splits)

lemma wp_conjI: "wp m P s \<Longrightarrow> wp m Q s \<Longrightarrow> wp m (\<lambda>r t. P r t \<and> Q r t) s"
  by (simp add: wp_conj)

lemma wp_run: "wp m Q s \<Longrightarrow> State_Monad.run_state m s = (r, t) \<Longrightarrow> Q r t"
  by (simp add: wp_def)

lemma wpI: "(\<And>r t. State_Monad.run_state m s = (r, t) \<Longrightarrow> Q r t) \<Longrightarrow> wp m Q s"
  by (auto simp: wp_def split: prod.splits)

lemma wp_if [wp_rules]: "wp (if b then m else n) Q s = (if b then wp m Q s else wp n Q s)"
  by simp

lemma wp_case_option [wp_rules]:
  "wp (case x of None \<Rightarrow> m | Some y \<Rightarrow> f y) Q s = (case x of None \<Rightarrow> wp m Q s | Some y \<Rightarrow> wp (f y) Q s)"
  by (cases x) simp_all

lemma wp_case_sum [wp_rules]:
  "wp (case x of Inl a \<Rightarrow> f a | Inr b \<Rightarrow> g b) Q s = (case x of Inl a \<Rightarrow> wp (f a) Q s | Inr b \<Rightarrow> wp (g b) Q s)"
  by (cases x) simp_all

lemma wp_case_prod [wp_rules]:
  "wp (case x of (a, b) \<Rightarrow> f a b) Q s = (case x of (a, b) \<Rightarrow> wp (f a b) Q s)"
  by (cases x) simp_all

lemma wp_case_list [wp_rules]:
  "wp (case x of [] \<Rightarrow> m | y # ys \<Rightarrow> f y ys) Q s = (case x of [] \<Rightarrow> wp m Q s | y # ys \<Rightarrow> wp (f y ys) Q s)"
  by (cases x) simp_all

lemma wp_Let [wp_rules]: "wp (let x = e in f x) Q s = (let x = e in wp (f x) Q s)"
  by (simp add: Let_def)

lemma wp_seq: "wp m P s \<Longrightarrow> (\<And>r t. P r t \<Longrightarrow> wp (f r) Q t) \<Longrightarrow> wp (State_Monad.bind m f) Q s"
  unfolding wp_bind by (erule wp_mono)

lemma wp_seqE:
  assumes "wp m P s" and "\<And>e t. P (Inl e) t \<Longrightarrow> Q (Inl e) t" and "\<And>x t. P (Inr x) t \<Longrightarrow> wp (f x) Q t"
  shows "wp (bindE m f) Q s"
  unfolding wp_bindE by (rule wp_mono [OF assms(1)]) (auto intro: assms(2,3) split: sum.splits)

lemma wp_gets: "wp (State_Monad.bind (gets g) f) Q s = wp (f (g s)) Q s"
  by (simp add: wp_rules)

lemma wp_ifI: "(b \<Longrightarrow> wp m Q s) \<Longrightarrow> (\<not> b \<Longrightarrow> wp n Q s) \<Longrightarrow> wp (if b then m else n) Q s"
  by simp

lemma wp_getsI: "wp (f (g s)) Q s \<Longrightarrow> wp (State_Monad.bind (gets g) f) Q s"
  by (simp add: wp_bind wp_get)

text \<open>A loop keeps what every iteration keeps.\<close>

lemma wp_forE:
  assumes body: "\<And>x s. x \<in> set xs \<Longrightarrow> I s \<Longrightarrow> wp (f x) (\<lambda>r. case r of Inl e \<Rightarrow> Q (Inl e) | Inr _ \<Rightarrow> I) s"
    and fin: "\<And>s. I s \<Longrightarrow> Q (Inr ()) s"
    and start: "I s"
  shows "wp (forE xs f) Q s"
  using body start
proof (induction xs arbitrary: s)
  case Nil
  then show ?case by (simp add: wp_return fin)
next
  case (Cons x xs)
  have "wp (f x) (\<lambda>r. case r of Inl e \<Rightarrow> Q (Inl e) | Inr _ \<Rightarrow> I) s"
    by (rule Cons.prems) (use Cons.prems(2) in auto)
  then show ?case
    unfolding forE.simps wp_bindE
    by (rule wp_mono) (auto split: sum.splits intro!: Cons.IH Cons.prems(1))
qed

lemma wp_foldE:
  assumes body: "\<And>x b s. x \<in> set xs \<Longrightarrow> I b s \<Longrightarrow> wp (f x b) (\<lambda>r. case r of Inl e \<Rightarrow> Q (Inl e) | Inr b' \<Rightarrow> I b') s"
    and fin: "\<And>b s. I b s \<Longrightarrow> Q (Inr b) s"
    and start: "I b s"
  shows "wp (foldE f xs b) Q s"
  using body start
proof (induction xs arbitrary: b s)
  case Nil
  then show ?case by (simp add: wp_return fin)
next
  case (Cons x xs)
  have "wp (f x b) (\<lambda>r. case r of Inl e \<Rightarrow> Q (Inl e) | Inr b' \<Rightarrow> I b') s"
    by (rule Cons.prems) (use Cons.prems(2) in auto)
  then show ?case
    unfolding foldE.simps wp_bindE
    by (rule wp_mono) (auto split: sum.splits intro!: Cons.IH Cons.prems(1))
qed

lemma wp_mapAccumE:
  assumes body: "\<And>x b s. x \<in> set xs \<Longrightarrow> I b s \<Longrightarrow> wp (f x b) (\<lambda>(x', r). case r of Inl e \<Rightarrow> J e | Inr b' \<Rightarrow> I b') s"
    and start: "I b s"
  shows "wp (mapAccumE f xs b) (\<lambda>(xs', r). case r of Inl e \<Rightarrow> J e | Inr b' \<Rightarrow> I b') s"
  using body start
proof (induction xs arbitrary: b s)
  case Nil
  then show ?case by (simp add: wp_return)
next
  case (Cons x xs)
  have "wp (f x b) (\<lambda>(x', r). case r of Inl e \<Rightarrow> J e | Inr b' \<Rightarrow> I b') s"
    by (rule Cons.prems) (use Cons.prems(2) in auto)
  then show ?case
    unfolding mapAccumE.simps wp_bind
  proof (rule wp_mono, clarify)
    fix x' q t assume q: "(case q of Inl e \<Rightarrow> J e | Inr b' \<Rightarrow> I b') t"
    have "wp (mapAccumE f xs b') (\<lambda>(xs', r). case r of Inl e \<Rightarrow> J e | Inr b' \<Rightarrow> I b') t" if "I b' t" for b'
      using that by (intro Cons.IH Cons.prems(1)) auto
    then have "wp (State_Monad.bind (mapAccumE f xs b') (\<lambda>(xs', r'). ret (x' # xs', r')))
       (\<lambda>(xs', r). case r of Inl e \<Rightarrow> J e | Inr b' \<Rightarrow> I b') t" if "I b' t" for b'
      unfolding wp_bind by (rule wp_mono) (use that in \<open>auto simp: wp_return\<close>)
    with q show "wp (case q of Inl e \<Rightarrow> ret (x' # xs, Inl e)
        | Inr b' \<Rightarrow> State_Monad.bind (mapAccumE f xs b') (\<lambda>(xs', r'). ret (x' # xs', r')))
       (\<lambda>(xs', r). case r of Inl e \<Rightarrow> J e | Inr b' \<Rightarrow> I b') t"
      by (cases q) (simp_all add: wp_return)
  qed
qed

subsection \<open>What a handler keeps\<close>

definition keeps :: "('s \<Rightarrow> 's \<Rightarrow> bool) \<Rightarrow> ('s, 'a) m \<Rightarrow> bool" where
  "keeps I m = (\<forall>s. wp m (\<lambda>_ t. I s t) s)"

text \<open>The relations the development uses are reflexive and transitive.\<close>

locale preorder_rel =
  fixes I :: "'s \<Rightarrow> 's \<Rightarrow> bool"
  assumes refl: "I s s"
    and trans: "I s t \<Longrightarrow> I t u \<Longrightarrow> I s u"
begin

lemma keeps_return: "keeps I (ret x)"
  by (simp add: keeps_def wp_return refl)

lemma keeps_get: "keeps I State_Monad.get"
  by (simp add: keeps_def wp_get refl)

lemma keeps_update: "(\<And>s. I s (f s)) \<Longrightarrow> keeps I (modify f)"
  by (simp add: keeps_def wp_update)

lemma keeps_bind:
  assumes "keeps I m" and "\<And>x. keeps I (f x)"
  shows "keeps I (State_Monad.bind m f)"
  unfolding keeps_def wp_bind
proof
  fix s
  have "wp m (\<lambda>_ t. I s t) s" using assms(1) by (simp add: keeps_def)
  then show "wp m (\<lambda>r. wp (f r) (\<lambda>_ t. I s t)) s"
  proof (rule wp_mono)
    fix r t assume st: "I s t"
    have "wp (f r) (\<lambda>_ u. I t u) t" using assms(2) by (simp add: keeps_def)
    then show "wp (f r) (\<lambda>_ t. I s t) t" by (rule wp_mono) (rule trans [OF st])
  qed
qed

lemma keeps_bindE:
  assumes "keeps I m" and "\<And>x. keeps I (f x)"
  shows "keeps I (bindE m f)"
  unfolding bindE_def
  by (intro keeps_bind assms) (auto split: sum.splits intro: keeps_return assms)

lemma keeps_wrapE: "keeps I m \<Longrightarrow> keeps I (wrapE t m)"
  unfolding wrapE_def by (intro keeps_bind keeps_return)

lemma keeps_forE: "(\<And>x. x \<in> set xs \<Longrightarrow> keeps I (f x)) \<Longrightarrow> keeps I (forE xs f)"
  by (induction xs) (auto intro!: keeps_return keeps_bindE)

lemma keeps_foldE: "(\<And>x b. x \<in> set xs \<Longrightarrow> keeps I (f x b)) \<Longrightarrow> keeps I (foldE f xs b)"
  by (induction xs arbitrary: b) (auto intro!: keeps_return keeps_bindE)

lemma keeps_mapAccumE: "(\<And>x b. x \<in> set xs \<Longrightarrow> keeps I (f x b)) \<Longrightarrow> keeps I (mapAccumE f xs b)"
  by (induction xs arbitrary: b) (auto intro!: keeps_return keeps_bind split: prod.splits sum.splits)

lemmas keeps_all = keeps_mapAccumE keeps_return keeps_get keeps_bind keeps_bindE keeps_wrapE keeps_forE keeps_foldE

end

lemma keeps_wp: "keeps I m \<Longrightarrow> wp m (\<lambda>_ t. I s t) s"
  by (simp add: keeps_def)

lemma keepsI: "(\<And>s. wp m (\<lambda>_ t. I s t) s) \<Longrightarrow> keeps I m"
  by (simp add: keeps_def)

text \<open>Case distinctions, one rule for each, so that a proof does not have to split the values.\<close>

lemma keeps_case:
  "(b \<Longrightarrow> keeps I m) \<Longrightarrow> (\<not> b \<Longrightarrow> keeps I n) \<Longrightarrow> keeps I (if b then m else n)"
  "(\<And>a b. x = (a, b) \<Longrightarrow> keeps I (f a b)) \<Longrightarrow> keeps I (case x of (a, b) \<Rightarrow> f a b)"
  "(y = None \<Longrightarrow> keeps I m) \<Longrightarrow> (\<And>z. y = Some z \<Longrightarrow> keeps I (g z)) \<Longrightarrow> keeps I (case y of None \<Rightarrow> m | Some z \<Rightarrow> g z)"
  "(\<And>e. r = Inl e \<Longrightarrow> keeps I (g1 e)) \<Longrightarrow> (\<And>z. r = Inr z \<Longrightarrow> keeps I (g2 z)) \<Longrightarrow> keeps I (case r of Inl e \<Rightarrow> g1 e | Inr z \<Rightarrow> g2 z)"
  "(xs = [] \<Longrightarrow> keeps I m) \<Longrightarrow> (\<And>z zs. xs = z # zs \<Longrightarrow> keeps I (h z zs)) \<Longrightarrow> keeps I (case xs of [] \<Rightarrow> m | z # zs \<Rightarrow> h z zs)"
  "(\<And>z. z = v \<Longrightarrow> keeps I (g z)) \<Longrightarrow> keeps I (let z = v in g z)"
  by (cases b, simp_all, cases x, simp, cases y, simp_all, cases r, simp_all, cases xs, simp_all)

text \<open>A handler that begins by reading the state may use what is known of it.\<close>

lemma keeps_gets: "(\<And>s. wp (f (g s)) (\<lambda>_ t. I s t) s) \<Longrightarrow> keeps I (State_Monad.bind (gets g) f)"
  by (simp add: keeps_def wp_rules)

lemma keeps_mono: "keeps I m \<Longrightarrow> (\<And>s t. I s t \<Longrightarrow> J s t) \<Longrightarrow> keeps J m"
  by (rule keepsI, rule wp_mono, erule keeps_wp) auto

lemma keeps_run: "keeps I m \<Longrightarrow> State_Monad.run_state m s = (r, t) \<Longrightarrow> I s t"
  by (auto simp: keeps_def wp_def dest!: spec [of _ s])


section \<open>Lists\<close>

text \<open>\<open>slices.Contains\<close> is membership; \<open>find\<close> is a \<open>range\<close> loop that returns at the first hit.\<close>

lemma find_append: "find P (xs @ ys) = (case find P xs of None \<Rightarrow> find P ys | Some x \<Rightarrow> Some x)"
  by (induction xs) auto

lemma find_eq_None [simp]: "(find P xs = None) = (\<forall>x\<in>set xs. \<not> P x)"
  by (auto simp: find_None_iff)

lemma find_SomeD: "find P xs = Some x \<Longrightarrow> x \<in> set xs \<and> P x"
  by (auto simp: find_Some_iff)

lemma sum_list_ge_member: "x \<in> set xs \<Longrightarrow> (x :: nat) \<le> sum_list xs"
  by (simp add: member_le_sum_list)

end
