(* ===== verification/GoStd.thy ===== *)
theory GoStd
  imports Prelude "HOL-Library.Word" "HOL-Library.Sublist"
begin

text \<open>
  What the program uses of Go and of its standard library: strings as byte lists, \<open>strconv\<close>,
  \<open>time\<close>, the IP parsers of \<open>net\<close> and \<open>net/netip\<close>, and the key order of a \<open>range\<close> over a map.
\<close>

section \<open>Integers of 64 bits\<close>

definition wrap64 :: "int \<Rightarrow> int" where
  "wrap64 x = (x + 2 ^ 63) mod 2 ^ 64 - 2 ^ 63"

definition int64 :: "int \<Rightarrow> bool" where
  "int64 x = (- (2 ^ 63) \<le> x \<and> x < 2 ^ 63)"

lemma wrap64_id [simp]: "int64 x \<Longrightarrow> wrap64 x = x"
  by (simp add: int64_def wrap64_def)

lemma int64_wrap64 [simp]: "int64 (wrap64 x)"
  by (auto simp: int64_def wrap64_def algebra_simps add.commute intro: add_increasing)


text \<open>The conversion to \<open>int32\<close>.\<close>

definition wrap32 :: "int \<Rightarrow> int" where
  "wrap32 x = (x + 2 ^ 31) mod 2 ^ 32 - 2 ^ 31"

lemma wrap32_id [simp]: "- (2 ^ 31) \<le> x \<Longrightarrow> x < 2 ^ 31 \<Longrightarrow> wrap32 x = x"
  by (simp add: wrap32_def)


section \<open>Strings\<close>

definition HasPrefix :: "string \<Rightarrow> string \<Rightarrow> bool" where
  "HasPrefix s p = (take (length p) s = p)"

definition HasSuffix :: "string \<Rightarrow> string \<Rightarrow> bool" where
  "HasSuffix s p = (length p \<le> length s \<and> drop (length s - length p) s = p)"

definition TrimPrefix :: "string \<Rightarrow> string \<Rightarrow> string" where
  "TrimPrefix s p = (if HasPrefix s p then drop (length p) s else s)"

fun strings_Contains :: "string \<Rightarrow> string \<Rightarrow> bool" where
  "strings_Contains [] p = (p = [])"
| "strings_Contains (c # s) p = (HasPrefix (c # s) p \<or> strings_Contains s p)"

fun strings_Join :: "string list \<Rightarrow> string \<Rightarrow> string" where
  "strings_Join [] sep = []"
| "strings_Join [x] sep = x"
| "strings_Join (x # y # xs) sep = x @ sep @ strings_Join (y # xs) sep"

text \<open>\<open>strings.Replace(s, old, new, n)\<close> for a non-empty \<open>old\<close> and a count that is not negative.\<close>

function strings_Replace :: "string \<Rightarrow> string \<Rightarrow> string \<Rightarrow> nat \<Rightarrow> string" where
  "strings_Replace s old new n =
     (if n = 0 \<or> s = [] \<or> old = [] then s
      else if HasPrefix s old then new @ strings_Replace (drop (length old) s) old new (n - 1)
      else hd s # strings_Replace (tl s) old new n)"
  by pat_completeness auto
termination
  by (relation "measure (\<lambda>(s, _, _, _). length s)") auto

declare strings_Replace.simps [simp del]

text \<open>Split at every occurrence of one byte.\<close>

fun splitOn :: "char \<Rightarrow> string \<Rightarrow> string list" where
  "splitOn d [] = [[]]"
| "splitOn d (c # s) = (if c = d then [] # splitOn d s
     else (case splitOn d s of [] \<Rightarrow> [[c]] | w # ws \<Rightarrow> (c # w) # ws))"

lemma HasPrefix_append [simp]: "HasPrefix (p @ s) p"
  by (simp add: HasPrefix_def)

lemma TrimPrefix_append [simp]: "TrimPrefix (p @ s) p = s"
  by (simp add: TrimPrefix_def)

lemma HasSuffix_append [simp]: "HasSuffix (s @ p) p"
  by (simp add: HasSuffix_def)

lemma splitOn_single: "d \<notin> set s \<Longrightarrow> splitOn d s = [s]"
  by (induction s) auto

lemma splitOn_append: "d \<notin> set s \<Longrightarrow> splitOn d (s @ d # t) = s # splitOn d t"
  by (induction s) auto


section \<open>Decimal numbers\<close>

abbreviation digit :: "nat \<Rightarrow> char" where
  "digit n \<equiv> char_of (48 + n)"

definition isDigit :: "char \<Rightarrow> bool" where
  "isDigit c = (48 \<le> (of_char c :: nat) \<and> (of_char c :: nat) \<le> 57)"

definition digitVal :: "char \<Rightarrow> nat" where
  "digitVal c = of_char c - 48"

fun showNat :: "nat \<Rightarrow> string" where
  "showNat n = (if n < 10 then [digit n] else showNat (n div 10) @ [digit (n mod 10)])"

declare showNat.simps [simp del]

definition Itoa :: "int \<Rightarrow> string" where
  "Itoa i = (if i < 0 then ''-'' @ showNat (nat (- i)) else showNat (nat i))"

definition readNat :: "string \<Rightarrow> nat" where
  "readNat s = foldl (\<lambda>a c. 10 * a + digitVal c) 0 s"

text \<open>
  \<open>strconv.Atoi\<close> and \<open>strconv.ParseInt(s, 10, 64)\<close>: an optional sign, at least one digit, nothing
  else, and the value in the range of the type. (Base 10 admits no underscores.)
\<close>

definition Atoi :: "string \<Rightarrow> int res" where
  "Atoi s =
     (let (neg, ds) = (case s of [] \<Rightarrow> (False, [])
        | c # t \<Rightarrow> if c = CHR ''-'' then (True, t) else if c = CHR ''+'' then (False, t) else (False, s))
      in if ds = [] \<or> \<not> list_all isDigit ds then Inl (ErrWrap ''strconv.Atoi: '' (ErrSentinel ErrSyntax))
         else let v = (if neg then - int (readNat ds) else int (readNat ds))
              in if int64 v then Inr v else Inl (ErrWrap ''strconv.Atoi: '' (ErrSentinel ErrRange)))"

text \<open>The value Go returns beside the error: zero, or the nearest value of the type.\<close>

definition AtoiPair :: "string \<Rightarrow> int \<times> error option" where
  "AtoiPair s = (case Atoi s of Inr v \<Rightarrow> (v, None)
     | Inl e \<Rightarrow> (if errIs e ErrRange then (if hd s = CHR ''-'' then - (2 ^ 63) else 2 ^ 63 - 1) else 0, Some e))"

lemma digit_facts [simp]:
  assumes "n < 10"
  shows "isDigit (digit n)" "digitVal (digit n) = n" "(of_char (digit n) :: nat) = 48 + n"
  using assms by (simp_all add: isDigit_def digitVal_def)

lemma showNat_digits: "list_all isDigit (showNat n)"
proof (induction n rule: showNat.induct)
  case (1 n)
  then show ?case by (subst showNat.simps) simp
qed

lemma showNat_nonempty [simp]: "showNat n \<noteq> []"
  by (subst showNat.simps) simp

lemma readNat_showNat [simp]: "readNat (showNat n) = n"
proof (induction n rule: showNat.induct)
  case (1 n)
  show ?case
  proof (cases "n < 10")
    case True
    then show ?thesis by (subst showNat.simps) (simp add: readNat_def)
  next
    case False
    then have "readNat (showNat (n div 10)) = n div 10" by (rule 1)
    with False show ?thesis by (subst showNat.simps) (simp add: readNat_def)
  qed
qed

lemma showNat_inj: "showNat m = showNat n \<Longrightarrow> m = n"
  using readNat_showNat by metis

lemma isDigit_not_sign: "isDigit c \<Longrightarrow> c \<noteq> CHR ''-'' \<and> c \<noteq> CHR ''+'' \<and> c \<noteq> CHR ''.''"
  by (auto simp: isDigit_def)

lemma Atoi_Itoa: "int64 i \<Longrightarrow> Atoi (Itoa i) = Inr i"
proof (cases "i < 0")
  case True
  moreover assume "int64 i"
  ultimately show ?thesis by (simp add: Itoa_def Atoi_def showNat_digits)
next
  case False
  assume i: "int64 i"
  obtain c t where ct: "showNat (nat i) = c # t" by (cases "showNat (nat i)") simp_all
  have "isDigit c" using showNat_digits [of "nat i"] ct by simp
  with False i ct isDigit_not_sign [of c] showNat_digits [of "nat i"] readNat_showNat [of "nat i"]
  show ?thesis by (simp add: Itoa_def Atoi_def)
qed


section \<open>Time\<close>

text \<open>
  A \<open>time.Time\<close> is a number of nanoseconds since the Unix epoch, unbounded below and above; its
  zero value is the first of January of the year 1. A \<open>time.Duration\<close> has 64 bits and
  \<open>Time.Sub\<close> saturates.
\<close>

definition second :: duration where "second = 1000000000"
definition minute :: duration where "minute = 60 * second"

definition zeroTime :: gotime where "zeroTime = - 62135596800 * second"

definition Time_Sub :: "gotime \<Rightarrow> gotime \<Rightarrow> duration" where
  "Time_Sub t u = max (- (2 ^ 63)) (min (2 ^ 63 - 1) (t - u))"

definition time_Unix :: "int \<Rightarrow> gotime" where
  "time_Unix sec = sec * second"

lemmas time_defs = second_def minute_def zeroTime_def Time_Sub_def time_Unix_def


section \<open>IP addresses\<close>

text \<open>
  An address is the list of its bytes, 4 or 16 of them (\<open>net.IP\<close>; the empty list is the nil
  address). The parsers follow \<open>netip.ParseAddr\<close>.
\<close>

type_synonym ip = "nat list"

definition parseIPv4Field :: "string \<Rightarrow> nat option" where
  "parseIPv4Field f =
     (if f \<noteq> [] \<and> list_all isDigit f \<and> (length f = 1 \<or> hd f \<noteq> CHR ''0'') \<and> readNat f \<le> 255
      then Some (readNat f) else None)"

definition parseIPv4 :: "string \<Rightarrow> ip option" where
  "parseIPv4 s = (let fs = map parseIPv4Field (splitOn CHR ''.'' s)
     in if length fs = 4 \<and> None \<notin> set fs then Some (map the fs) else None)"

definition hexVal :: "char \<Rightarrow> nat option" where
  "hexVal c = (let n = of_char c :: nat in
     if 48 \<le> n \<and> n \<le> 57 then Some (n - 48)
     else if 97 \<le> n \<and> n \<le> 102 then Some (n - 87)
     else if 65 \<le> n \<and> n \<le> 70 then Some (n - 55) else None)"

definition readHex :: "string \<Rightarrow> nat" where
  "readHex s = foldl (\<lambda>a c. 16 * a + the (hexVal c)) 0 s"

text \<open>
  The loop of \<open>parseIPv6\<close>: \<open>k\<close> groups of two bytes may still follow, \<open>bs\<close> are the bytes read so far
  and \<open>ell\<close> the position of the ellipsis. The result is the bytes, the ellipsis and what is left
  of the input.
\<close>

fun parseIPv6Loop :: "nat \<Rightarrow> ip \<Rightarrow> nat option \<Rightarrow> string \<Rightarrow> (ip \<times> nat option \<times> string) option" where
  "parseIPv6Loop 0 bs ell s = Some (bs, ell, s)"
| "parseIPv6Loop (Suc k) bs ell s =
     (let h = takeWhile (\<lambda>c. hexVal c \<noteq> None) s; rest = dropWhile (\<lambda>c. hexVal c \<noteq> None) s in
      if h = [] \<or> 4 < length h then None
      else if rest \<noteq> [] \<and> hd rest = CHR ''.'' then
        (if ell = None \<and> length bs \<noteq> 12 then None
         else if 16 < length bs + 4 then None
         else case parseIPv4 s of None \<Rightarrow> None | Some v \<Rightarrow> Some (bs @ v, ell, []))
      else
        (let bs' = bs @ [readHex h div 256, readHex h mod 256] in
         case rest of [] \<Rightarrow> Some (bs', ell, [])
         | c # t \<Rightarrow>
           if c \<noteq> CHR '':'' \<or> t = [] then None
           else if hd t = CHR '':'' then
             (if ell \<noteq> None then None
              else if tl t = [] then Some (bs', Some (length bs'), [])
              else parseIPv6Loop k bs' (Some (length bs')) (tl t))
           else parseIPv6Loop k bs' ell t))"

definition parseIPv6 :: "string \<Rightarrow> (ip \<times> string) option" where
  "parseIPv6 inp =
     (let s = takeWhile (\<lambda>c. c \<noteq> CHR ''%'') inp; z = dropWhile (\<lambda>c. c \<noteq> CHR ''%'') inp; zone = tl z in
      if z \<noteq> [] \<and> zone = [] then None
      else if s = ''::'' then Some (replicate 16 0, zone)
      else case (if take 2 s = ''::'' then parseIPv6Loop 8 [] (Some 0) (drop 2 s) else parseIPv6Loop 8 [] None s) of
        None \<Rightarrow> None
      | Some (bs, ell, rest) \<Rightarrow>
          if rest \<noteq> [] then None
          else if length bs < 16 then
            (case ell of None \<Rightarrow> None
             | Some e \<Rightarrow> Some (take e bs @ replicate (16 - length bs) 0 @ drop e bs, zone))
          else if ell \<noteq> None then None else Some (bs, zone))"

text \<open>\<open>netip.ParseAddr\<close> picks the parser by the first of the bytes \<open>.\<close>, \<open>:\<close> and \<open>%\<close>.\<close>

definition netip_ParseAddr :: "string \<Rightarrow> (ip \<times> string) option" where
  "netip_ParseAddr s =
     (case dropWhile (\<lambda>c. c \<noteq> CHR ''.'' \<and> c \<noteq> CHR '':'' \<and> c \<noteq> CHR ''%'') s of
        [] \<Rightarrow> None
      | c # _ \<Rightarrow> if c = CHR ''.'' then map_option (\<lambda>v. (v, [])) (parseIPv4 s)
                 else if c = CHR '':'' then parseIPv6 s else None)"

text \<open>\<open>net.ParseIP\<close> always gives the 16 byte form and refuses a zone; nil is the empty list.\<close>

definition v4InV6Prefix :: ip where
  "v4InV6Prefix = replicate 10 0 @ [255, 255]"

definition ParseIP :: "string \<Rightarrow> ip" where
  "ParseIP s = (case netip_ParseAddr s of None \<Rightarrow> []
     | Some (bs, zone) \<Rightarrow> if zone \<noteq> [] then [] else if length bs = 4 then v4InV6Prefix @ bs else bs)"

definition To4 :: "ip \<Rightarrow> ip" where
  "To4 bs = (if length bs = 4 then bs
     else if length bs = 16 \<and> take 12 bs = v4InV6Prefix then drop 12 bs else [])"

text \<open>\<open>IPNet.Contains\<close> for a network given by its address bytes and the length of its prefix.\<close>

definition bytesVal :: "ip \<Rightarrow> nat" where
  "bytesVal bs = foldl (\<lambda>a b. 256 * a + b) 0 bs"

definition IPNet_Contains :: "ip \<Rightarrow> nat \<Rightarrow> ip \<Rightarrow> bool" where
  "IPNet_Contains net ones addr =
     (let x = (if To4 addr \<noteq> [] then To4 addr else addr); w = 8 * length net in
      length x = length net \<and> drop_bit (w - ones) (bytesVal net) = drop_bit (w - ones) (bytesVal x))"

text \<open>The text of an IPv4 address.\<close>

definition showIPv4 :: "nat \<Rightarrow> string" where
  "showIPv4 n = showNat (n div 16777216 mod 256) @ ''.'' @ showNat (n div 65536 mod 256) @ ''.''
     @ showNat (n div 256 mod 256) @ ''.'' @ showNat (n mod 256)"

lemma dot_notin_showNat [simp]: "CHR ''.'' \<notin> set (showNat n)"
  using showNat_digits [of n] by (auto simp: list_all_iff dest: isDigit_not_sign)

lemma splitOn_showIPv4:
  "splitOn CHR ''.'' (showIPv4 n) =
     [showNat (n div 16777216 mod 256), showNat (n div 65536 mod 256), showNat (n div 256 mod 256), showNat (n mod 256)]"
  by (simp add: showIPv4_def splitOn_append splitOn_single)

lemma parseIPv4Field_showNat: "n \<le> 255 \<Longrightarrow> parseIPv4Field (showNat n) = Some n"
proof -
  assume n: "n \<le> 255"
  have "length (showNat n) = 1 \<or> hd (showNat n) \<noteq> CHR ''0''"
  proof (induction n rule: showNat.induct)
    case (1 n)
    show ?case
    proof (cases "n < 10")
      case True
      then show ?thesis by (subst showNat.simps) simp
    next
      case False
      have "hd (showNat (n div 10)) \<noteq> CHR ''0''"
      proof (cases "length (showNat (n div 10)) = 1")
        case True
        then have lt: "n div 10 < 10"
          by (subst (asm) showNat.simps) (auto split: if_splits)
        then have "hd (showNat (n div 10)) = digit (n div 10)" by (subst showNat.simps) simp
        moreover have "(of_char (digit (n div 10)) :: nat) \<noteq> of_char CHR ''0''"
          using False lt by simp
        ultimately show ?thesis by metis
      next
        case False2: False
        then show ?thesis using 1 False by simp
      qed
      then show ?thesis by (subst (2) showNat.simps) (use False in simp)
    qed
  qed
  with n show ?thesis by (auto simp: parseIPv4Field_def showNat_digits)
qed

lemma parseIPv4_showIPv4:
  "n < 2 ^ 32 \<Longrightarrow> parseIPv4 (showIPv4 n) =
     Some [n div 16777216 mod 256, n div 65536 mod 256, n div 256 mod 256, n mod 256]"
  by (simp add: parseIPv4_def splitOn_showIPv4 parseIPv4Field_showNat less_Suc_eq_le [symmetric])

lemma bytes_combine:
  fixes n :: nat
  assumes "n < 2 ^ 32"
  shows "256 * (256 * (256 * (n div 16777216 mod 256) + n div 65536 mod 256) + n div 256 mod 256) + n mod 256 = n"
proof -
  have a: "256 * (n div 256) + n mod 256 = n" by simp
  have b: "256 * (n div 65536) + n div 256 mod 256 = n div 256"
    using mult_div_mod_eq [of 256 "n div 256"] by (simp flip: div_mult2_eq)
  have c: "256 * (n div 16777216) + n div 65536 mod 256 = n div 65536"
    using mult_div_mod_eq [of 256 "n div 65536"] by (simp flip: div_mult2_eq)
  have d: "n div 16777216 mod 256 = n div 16777216"
    using assms by (simp add: less_mult_imp_div_less)
  show ?thesis unfolding d c b a ..
qed

lemma showIPv4_inj: "showIPv4 m = showIPv4 n \<Longrightarrow> m < 2 ^ 32 \<Longrightarrow> n < 2 ^ 32 \<Longrightarrow> m = n"
proof -
  assume eq: "showIPv4 m = showIPv4 n" and m: "m < 2 ^ 32" and n: "n < 2 ^ 32"
  have "splitOn CHR ''.'' (showIPv4 m) = splitOn CHR ''.'' (showIPv4 n)" using eq by simp
  then have "m div 16777216 mod 256 = n div 16777216 mod 256" "m div 65536 mod 256 = n div 65536 mod 256"
    "m div 256 mod 256 = n div 256 mod 256" "m mod 256 = n mod 256"
    unfolding splitOn_showIPv4 by (auto dest: showNat_inj)
  with bytes_combine [OF m] bytes_combine [OF n] show "m = n" by metis
qed


section \<open>Sets as maps\<close>

text \<open>
  A \<open>map[K]struct{}\<close> is the list of its keys without repetitions. A \<open>range\<close> over a map visits the keys
  once each in an order the runtime picks: \<open>permuteKeys p ks\<close> is \<open>ks\<close> in the order the runtime's choice
  \<open>p\<close> of indices induces. Every \<open>p\<close> gives a permutation and every permutation is given by some \<open>p\<close>.
\<close>

definition setAdd :: "'a \<Rightarrow> 'a list \<Rightarrow> 'a list" where
  "setAdd k ks = (if k \<in> set ks then ks else ks @ [k])"

definition indexOrder :: "nat list \<Rightarrow> nat \<Rightarrow> nat list" where
  "indexOrder p n = filter (\<lambda>i. i < n) (remdups p) @ filter (\<lambda>i. i \<notin> set p) [0..<n]"

definition permuteKeys :: "nat list \<Rightarrow> 'a list \<Rightarrow> 'a list" where
  "permuteKeys p ks = map (nth ks) (indexOrder p (length ks))"

lemma set_setAdd [simp]: "set (setAdd k ks) = insert k (set ks)"
  by (auto simp: setAdd_def)

lemma distinct_setAdd [simp]: "distinct ks \<Longrightarrow> distinct (setAdd k ks)"
  by (simp add: setAdd_def)

lemma set_fold_setAdd [simp]: "set (fold (\<lambda>x. setAdd (f x)) xs ks) = f ` set xs \<union> set ks"
  by (induction xs arbitrary: ks) auto

lemma distinct_fold_setAdd [simp]: "distinct ks \<Longrightarrow> distinct (fold (\<lambda>x. setAdd (f x)) xs ks)"
  by (induction xs arbitrary: ks) auto

lemma set_indexOrder: "set (indexOrder p n) = {0..<n}"
  by (auto simp: indexOrder_def)

lemma distinct_indexOrder: "distinct (indexOrder p n)"
  by (auto simp: indexOrder_def)

lemma set_permuteKeys [simp]: "set (permuteKeys p ks) = set ks"
  by (auto simp: permuteKeys_def set_indexOrder in_set_conv_nth image_iff Bex_def)

lemma distinct_permuteKeys [simp]: "distinct ks \<Longrightarrow> distinct (permuteKeys p ks)"
  unfolding permuteKeys_def distinct_map
  by (auto simp: distinct_indexOrder set_indexOrder inj_on_def nth_eq_iff_index_eq)

lemma length_permuteKeys [simp]: "length (permuteKeys p ks) = length ks"
  using distinct_card [OF distinct_indexOrder, of p "length ks"]
  by (simp add: permuteKeys_def set_indexOrder)

lemma permuteKeys_Nil [simp]: "permuteKeys p [] = []"
  by (metis length_0_conv length_permuteKeys)

lemma permuteKeys_all:
  assumes "distinct p" and "set p = {0..<length ks}"
  shows "permuteKeys p ks = map (nth ks) p"
proof -
  have "filter (\<lambda>i. i < length ks) p = p" using assms by (intro filter_True) auto
  moreover have "filter (\<lambda>i. i \<notin> set p) [0..<length ks] = []" using assms by (simp add: filter_empty_conv)
  ultimately show ?thesis using assms(1) by (simp add: permuteKeys_def indexOrder_def distinct_remdups_id)
qed

end
