(* ===== verification/ApiMeta.thy ===== *)
theory ApiMeta
  imports GoStd
begin

text \<open>
  The Kubernetes types that the custom resources are made of (object metadata, references,
  conditions) and the two list operations behind every \<open>SetCondition\<close> and \<open>GetCondition\<close> method of
  \<open>api/v1alpha2\<close>, with the interface \<open>condition_owner\<close> that each custom resource implements.
\<close>

section \<open>Metadata and references\<close>

record OwnerReference =
  or_APIVersion :: string
  or_Kind :: string
  or_Name :: string

text \<open>\<open>TypeMeta\<close> is inlined in front of \<open>ObjectMeta\<close>: the group and the kind of the object.\<close>

record ObjectMeta =
  om_Group :: string
  om_Kind :: string
  om_Name :: string
  om_Namespace :: string
  om_UID :: string
  om_Labels :: "string \<rightharpoonup> string"
  om_Annotations :: "string \<rightharpoonup> string"
  om_Finalizers :: "string list"
  om_OwnerReferences :: "OwnerReference list"
  om_DeletionTimestamp :: "gotime option"
  om_CreationTimestamp :: gotime

record SecretReference =
  sr_Name :: string
  sr_Namespace :: string

record ObjectReference =
  obr_Kind :: string
  obr_Namespace :: string
  obr_Name :: string

record NamespacedName =
  nn_Namespace :: string
  nn_Name :: string

definition meta0 :: ObjectMeta where
  "meta0 = \<lparr>om_Group = [], om_Kind = [], om_Name = [], om_Namespace = [], om_UID = [], om_Labels = Map.empty, om_Annotations = Map.empty,
     om_Finalizers = [], om_OwnerReferences = [], om_DeletionTimestamp = None, om_CreationTimestamp = zeroTime\<rparr>"


section \<open>Conditions\<close>

record Condition =
  cd_Type :: string
  cd_Status :: string
  cd_LastTransitionTime :: gotime
  cd_Reason :: string
  cd_Message :: string

abbreviation "statusTrue \<equiv> ''True''"
abbreviation "statusFalse \<equiv> ''False''"

definition ConditionPaused :: string where "ConditionPaused = ''Paused''"
definition DefaultConditionReason :: string where "DefaultConditionReason = ''None''"

text \<open>A condition as the controllers build it: the transition time is left at its zero value.\<close>

definition mkCond :: "string \<Rightarrow> string \<Rightarrow> string \<Rightarrow> string \<Rightarrow> Condition" where
  "mkCond ty st rs msg = \<lparr>cd_Type = ty, cd_Status = st, cd_LastTransitionTime = zeroTime, cd_Reason = rs, cd_Message = msg\<rparr>"

lemma mkCond_simps [simp]:
  "cd_Type (mkCond ty st rs msg) = ty"
  "cd_Status (mkCond ty st rs msg) = st"
  "cd_LastTransitionTime (mkCond ty st rs msg) = zeroTime"
  "cd_Reason (mkCond ty st rs msg) = rs"
  "cd_Message (mkCond ty st rs msg) = msg"
  by (simp_all add: mkCond_def)

text \<open>The first statement of every \<open>SetCondition\<close>: a missing transition time is the present.\<close>

definition stampCond :: "gotime \<Rightarrow> Condition \<Rightarrow> Condition" where
  "stampCond now c = (if cd_LastTransitionTime c = zeroTime then c\<lparr>cd_LastTransitionTime := now\<rparr> else c)"

text \<open>The loop of every \<open>SetCondition\<close>: replace the first condition of the type, or append.\<close>

fun putCond :: "Condition \<Rightarrow> Condition list \<Rightarrow> Condition list" where
  "putCond c [] = [c]"
| "putCond c (d # ds) = (if cd_Type d = cd_Type c then c # ds else d # putCond c ds)"

definition lookupCond :: "string \<Rightarrow> Condition list \<Rightarrow> Condition option" where
  "lookupCond t cs = find (\<lambda>c. cd_Type c = t) cs"

definition pausedCond :: "Condition list \<Rightarrow> bool" where
  "pausedCond cs = (case find (\<lambda>c. cd_Type c = ConditionPaused) cs of
     None \<Rightarrow> False | Some c \<Rightarrow> cd_Status c = statusTrue)"

definition defaultReasons :: "Condition list \<Rightarrow> Condition list" where
  "defaultReasons cs = map (\<lambda>c. if cd_Reason c = [] then c\<lparr>cd_Reason := DefaultConditionReason\<rparr> else c) cs"

definition deleteCond :: "string \<Rightarrow> Condition list \<Rightarrow> Condition list" where
  "deleteCond t cs = filter (\<lambda>c. cd_Type c \<noteq> t) cs"

text \<open>The API server treats the list as a map keyed by the type: no type occurs twice.\<close>

definition conds_wf :: "Condition list \<Rightarrow> bool" where
  "conds_wf cs = distinct (map cd_Type cs)"

lemma stampCond_simps [simp]:
  "cd_Type (stampCond now c) = cd_Type c"
  "cd_Status (stampCond now c) = cd_Status c"
  "cd_Reason (stampCond now c) = cd_Reason c"
  "cd_Message (stampCond now c) = cd_Message c"
  by (simp_all add: stampCond_def)

lemma set_types_putCond: "set (map cd_Type (putCond c cs)) = insert (cd_Type c) (set (map cd_Type cs))"
  by (induction cs) auto

lemma putCond_wf [simp, intro]: "conds_wf cs \<Longrightarrow> conds_wf (putCond c cs)"
  unfolding conds_wf_def
proof (induction cs)
  case (Cons d ds)
  then show ?case using set_types_putCond [of c ds] by auto
qed simp

lemma lookup_putCond: "lookupCond t (putCond c cs) = (if t = cd_Type c then Some c else lookupCond t cs)"
  by (induction cs) (auto simp: lookupCond_def)

lemma paused_putCond:
  "pausedCond (putCond c cs) = (if cd_Type c = ConditionPaused then cd_Status c = statusTrue else pausedCond cs)"
  using lookup_putCond [of ConditionPaused c cs] by (auto simp: pausedCond_def lookupCond_def)

lemma deleteCond_wf: "conds_wf cs \<Longrightarrow> conds_wf (deleteCond t cs)"
  by (simp add: conds_wf_def deleteCond_def distinct_map_filter)

lemma lookup_deleteCond: "lookupCond t (deleteCond u cs) = (if t = u then None else lookupCond t cs)"
  by (induction cs) (auto simp: lookupCond_def deleteCond_def)

lemma lookup_defaultReasons:
  "map_option cd_Status (lookupCond t (defaultReasons cs)) = map_option cd_Status (lookupCond t cs)"
  by (induction cs) (auto simp: lookupCond_def defaultReasons_def)


section \<open>The interface of a resource with conditions\<close>

text \<open>
  What a resource type promises of its methods. \<open>view\<close> is everything of the resource that is not
  the list of conditions, so that the frame law says a condition update changes nothing else.
\<close>

locale condition_owner =
  fixes Conditions :: "'o \<Rightarrow> Condition list"
    and SetCondition :: "gotime \<Rightarrow> Condition \<Rightarrow> 'o \<Rightarrow> 'o"
    and view :: "'o \<Rightarrow> 'v"
  assumes Conditions_SetCondition: "Conditions (SetCondition now c x) = putCond (stampCond now c) (Conditions x)"
    and view_SetCondition: "view (SetCondition now c x) = view x"
begin

lemma wf_SetCondition: "conds_wf (Conditions x) \<Longrightarrow> conds_wf (Conditions (SetCondition now c x))"
  by (simp add: Conditions_SetCondition putCond_wf)

lemma lookup_SetCondition:
  "lookupCond t (Conditions (SetCondition now c x)) =
     (if t = cd_Type c then Some (stampCond now c) else lookupCond t (Conditions x))"
  by (simp add: Conditions_SetCondition lookup_putCond)

lemma paused_SetCondition:
  "pausedCond (Conditions (SetCondition now c x)) =
     (if cd_Type c = ConditionPaused then cd_Status c = statusTrue else pausedCond (Conditions x))"
  by (simp add: Conditions_SetCondition paused_putCond)

text \<open>Setting the same condition again at a later time only moves the time.\<close>

lemma SetCondition_again:
  "cd_Type c = cd_Type d \<Longrightarrow>
   lookupCond t (Conditions (SetCondition n2 d (SetCondition n1 c x))) = lookupCond t (Conditions (SetCondition n2 d x))"
  by (simp add: lookup_SetCondition)

text \<open>A sequence of updates keeps the list well formed and leaves the rest of the resource alone.\<close>

lemma fold_SetCondition:
  "conds_wf (Conditions x) \<Longrightarrow>
   conds_wf (Conditions (fold (\<lambda>(now, c). SetCondition now c) ups x)) \<and>
   view (fold (\<lambda>(now, c). SetCondition now c) ups x) = view x"
  by (induction ups arbitrary: x) (auto simp: wf_SetCondition view_SetCondition)

end

end
