(* ===== verification/ApiNet.thy ===== *)
theory ApiNet
  imports ApiMeta
begin

text \<open>
  The network resources of \<open>api/v1alpha2\<close>: \<open>LinodeFirewall\<close>, \<open>FirewallRule\<close>, \<open>AddressSet\<close>, \<open>LinodeVPC\<close>
  and \<open>LinodePlacementGroup\<close>, one record per struct with the fields of the source, and their
  condition methods. Pointers are options; a nil slice and an empty one are both the empty list.
\<close>

section \<open>FirewallRule and AddressSet\<close>

record NetworkAddresses =
  na_IPv4 :: "string list option"
  na_IPv6 :: "string list option"

record FirewallRuleSpec =
  fr_Action :: string
  fr_Label :: string
  fr_Description :: string
  fr_Ports :: string
  fr_Protocol :: string
  fr_Addresses :: "NetworkAddresses option"
  fr_AddressSetRefs :: "ObjectReference list"

record FirewallRule =
  frl_Meta :: ObjectMeta
  frl_Spec :: FirewallRuleSpec

record AddressSetSpec =
  as_IPv4 :: "string list option"
  as_IPv6 :: "string list option"

record AddressSet =
  ads_Meta :: ObjectMeta
  ads_Spec :: AddressSetSpec


section \<open>LinodeFirewall\<close>

definition FirewallFinalizer :: string where
  "FirewallFinalizer = ''linodefirewall.infrastructure.cluster.x-k8s.io''"

record LinodeFirewallSpec =
  fw_FirewallID :: "int option"
  fw_Enabled :: bool
  fw_InboundRules :: "FirewallRuleSpec list"
  fw_InboundRuleRefs :: "ObjectReference list"
  fw_InboundPolicy :: string
  fw_OutboundRules :: "FirewallRuleSpec list"
  fw_OutboundRuleRefs :: "ObjectReference list"
  fw_OutboundPolicy :: string
  fw_CredentialsRef :: "SecretReference option"

record LinodeFirewallStatus =
  fw_Conditions :: "Condition list"
  fw_Ready :: bool
  fw_FailureReason :: "string option"
  fw_FailureMessage :: "string option"

record LinodeFirewall =
  lfw_Meta :: ObjectMeta
  lfw_Spec :: LinodeFirewallSpec
  lfw_Status :: LinodeFirewallStatus

definition CreateFirewallError :: string where "CreateFirewallError = ''CreateError''"
definition UpdateFirewallError :: string where "UpdateFirewallError = ''UpdateError''"
definition DeleteFirewallError :: string where "DeleteFirewallError = ''DeleteError''"

definition LinodeFirewall_GetConditions :: "LinodeFirewall \<Rightarrow> LinodeFirewall \<times> Condition list" where
  "LinodeFirewall_GetConditions lfw =
     (let cs = defaultReasons (fw_Conditions (lfw_Status lfw))
      in (lfw_Status_update (fw_Conditions_update (\<lambda>_. cs)) lfw, cs))"

definition LinodeFirewall_SetConditions :: "Condition list \<Rightarrow> LinodeFirewall \<Rightarrow> LinodeFirewall" where
  "LinodeFirewall_SetConditions cs = lfw_Status_update (fw_Conditions_update (\<lambda>_. cs))"

definition LinodeFirewall_SetCondition :: "gotime \<Rightarrow> Condition \<Rightarrow> LinodeFirewall \<Rightarrow> LinodeFirewall" where
  "LinodeFirewall_SetCondition now c = lfw_Status_update (fw_Conditions_update (putCond (stampCond now c)))"

definition LinodeFirewall_GetCondition :: "string \<Rightarrow> LinodeFirewall \<Rightarrow> Condition option" where
  "LinodeFirewall_GetCondition t lfw = lookupCond t (fw_Conditions (lfw_Status lfw))"

definition LinodeFirewall_IsPaused :: "LinodeFirewall \<Rightarrow> bool" where
  "LinodeFirewall_IsPaused lfw = pausedCond (fw_Conditions (lfw_Status lfw))"

interpretation fwc: condition_owner "\<lambda>lfw. fw_Conditions (lfw_Status lfw)" LinodeFirewall_SetCondition
  "\<lambda>lfw. (lfw_Meta lfw, lfw_Spec lfw, fw_Ready (lfw_Status lfw), fw_FailureReason (lfw_Status lfw), fw_FailureMessage (lfw_Status lfw))"
  by unfold_locales (simp_all add: LinodeFirewall_SetCondition_def)


section \<open>LinodeVPC\<close>

definition VPCFinalizer :: string where
  "VPCFinalizer = ''linodevpc.infrastructure.cluster.x-k8s.io''"

text \<open>\<open>linodego.VPCIPv6Range\<close> and \<open>linodego.VPCIPv4Range\<close> are ranges given by their text.\<close>

record VPCIPv6Range =
  r6_Range :: string

record VPCIPv4Range =
  r4_Range :: string

record VPCCreateOptionsIPv6 =
  vo6_Range :: "string option"
  vo6_AllocationClass :: "string option"
  vo6_AllocationClassLegacy :: "string option"

record VPCSubnetCreateOptionsIPv6 =
  vs6_Range :: "string option"

record VPCSubnetCreateOptions =
  sn_Label :: string
  sn_IPv4 :: string
  sn_IPv6 :: "VPCIPv6Range list"
  sn_IPv6Range :: "VPCSubnetCreateOptionsIPv6 list"
  sn_SubnetID :: int
  sn_Retain :: bool

record LinodeVPCSpec =
  vpc_VPCID :: "int option"
  vpc_Description :: string
  vpc_Region :: string
  vpc_IPv6 :: "VPCIPv6Range list"
  vpc_IPv4 :: "VPCIPv4Range list"
  vpc_IPv6Range :: "VPCCreateOptionsIPv6 list"
  vpc_IPv4Range :: "string list"
  vpc_Subnets :: "VPCSubnetCreateOptions list"
  vpc_Retain :: bool
  vpc_CredentialsRef :: "SecretReference option"

record LinodeVPCStatus =
  vpc_Conditions :: "Condition list"
  vpc_Ready :: bool
  vpc_FailureReason :: "string option"
  vpc_FailureMessage :: "string option"

record LinodeVPC =
  lv_Meta :: ObjectMeta
  lv_Spec :: LinodeVPCSpec
  lv_Status :: LinodeVPCStatus

definition CreateVPCError :: string where "CreateVPCError = ''CreateError''"
definition UpdateVPCError :: string where "UpdateVPCError = ''UpdateError''"
definition DeleteVPCError :: string where "DeleteVPCError = ''DeleteError''"

definition LinodeVPC_GetConditions :: "LinodeVPC \<Rightarrow> LinodeVPC \<times> Condition list" where
  "LinodeVPC_GetConditions lv =
     (let cs = defaultReasons (vpc_Conditions (lv_Status lv))
      in (lv_Status_update (vpc_Conditions_update (\<lambda>_. cs)) lv, cs))"

definition LinodeVPC_SetConditions :: "Condition list \<Rightarrow> LinodeVPC \<Rightarrow> LinodeVPC" where
  "LinodeVPC_SetConditions cs = lv_Status_update (vpc_Conditions_update (\<lambda>_. cs))"

definition LinodeVPC_SetCondition :: "gotime \<Rightarrow> Condition \<Rightarrow> LinodeVPC \<Rightarrow> LinodeVPC" where
  "LinodeVPC_SetCondition now c = lv_Status_update (vpc_Conditions_update (putCond (stampCond now c)))"

definition LinodeVPC_GetCondition :: "string \<Rightarrow> LinodeVPC \<Rightarrow> Condition option" where
  "LinodeVPC_GetCondition t lv = lookupCond t (vpc_Conditions (lv_Status lv))"

definition LinodeVPC_IsPaused :: "LinodeVPC \<Rightarrow> bool" where
  "LinodeVPC_IsPaused lv = pausedCond (vpc_Conditions (lv_Status lv))"

interpretation vpcc: condition_owner "\<lambda>lv. vpc_Conditions (lv_Status lv)" LinodeVPC_SetCondition
  "\<lambda>lv. (lv_Meta lv, lv_Spec lv, vpc_Ready (lv_Status lv), vpc_FailureReason (lv_Status lv), vpc_FailureMessage (lv_Status lv))"
  by unfold_locales (simp_all add: LinodeVPC_SetCondition_def)


section \<open>LinodePlacementGroup\<close>

definition PlacementGroupFinalizer :: string where
  "PlacementGroupFinalizer = ''linodeplacementgroup.infrastructure.cluster.x-k8s.io''"

record LinodePlacementGroupSpec =
  pg_PGID :: "int option"
  pg_Region :: string
  pg_PlacementGroupPolicy :: string
  pg_PlacementGroupType :: string
  pg_CredentialsRef :: "SecretReference option"

record LinodePlacementGroupStatus =
  pg_Conditions :: "Condition list"
  pg_Ready :: bool
  pg_FailureReason :: "string option"
  pg_FailureMessage :: "string option"

record LinodePlacementGroup =
  lpg_Meta :: ObjectMeta
  lpg_Spec :: LinodePlacementGroupSpec
  lpg_Status :: LinodePlacementGroupStatus

definition CreatePlacementGroupError :: string where "CreatePlacementGroupError = ''CreateError''"
definition DeletePlacementGroupError :: string where "DeletePlacementGroupError = ''DeleteError''"

definition LinodePlacementGroup_GetConditions :: "LinodePlacementGroup \<Rightarrow> LinodePlacementGroup \<times> Condition list" where
  "LinodePlacementGroup_GetConditions lpg =
     (let cs = defaultReasons (pg_Conditions (lpg_Status lpg))
      in (lpg_Status_update (pg_Conditions_update (\<lambda>_. cs)) lpg, cs))"

definition LinodePlacementGroup_SetConditions :: "Condition list \<Rightarrow> LinodePlacementGroup \<Rightarrow> LinodePlacementGroup" where
  "LinodePlacementGroup_SetConditions cs = lpg_Status_update (pg_Conditions_update (\<lambda>_. cs))"

definition LinodePlacementGroup_SetCondition :: "gotime \<Rightarrow> Condition \<Rightarrow> LinodePlacementGroup \<Rightarrow> LinodePlacementGroup" where
  "LinodePlacementGroup_SetCondition now c = lpg_Status_update (pg_Conditions_update (putCond (stampCond now c)))"

definition LinodePlacementGroup_GetCondition :: "string \<Rightarrow> LinodePlacementGroup \<Rightarrow> Condition option" where
  "LinodePlacementGroup_GetCondition t lpg = lookupCond t (pg_Conditions (lpg_Status lpg))"

definition LinodePlacementGroup_IsPaused :: "LinodePlacementGroup \<Rightarrow> bool" where
  "LinodePlacementGroup_IsPaused lpg = pausedCond (pg_Conditions (lpg_Status lpg))"

interpretation pgc: condition_owner "\<lambda>lpg. pg_Conditions (lpg_Status lpg)" LinodePlacementGroup_SetCondition
  "\<lambda>lpg. (lpg_Meta lpg, lpg_Spec lpg, pg_Ready (lpg_Status lpg), pg_FailureReason (lpg_Status lpg), pg_FailureMessage (lpg_Status lpg))"
  by unfold_locales (simp_all add: LinodePlacementGroup_SetCondition_def)

end
