(* ===== verification/ApiCluster.thy ===== *)
theory ApiCluster
  imports ApiMeta
begin

text \<open>
  The cluster resource and the object storage resources of \<open>api/v1alpha2\<close>, with their condition
  methods; and the part of the Cluster API resource \<open>Cluster\<close> that the controllers read.
\<close>

section \<open>LinodeCluster\<close>

definition ClusterFinalizer :: string where
  "ClusterFinalizer = ''linodecluster.infrastructure.cluster.x-k8s.io''"

record LinodeNBPortConfig =
  nbp_Port :: int
  nbp_NodeBalancerConfigID :: "int option"

record NetworkSpec =
  net_LoadBalancerType :: string
  net_DNSProvider :: string
  net_DNSRootDomain :: string
  net_DNSUniqueIdentifier :: string
  net_DNSTTLSec :: int
  net_DNSSubDomainOverride :: string
  net_ApiserverLoadBalancerPort :: int
  net_NodeBalancerID :: "int option"
  net_NodeBalancerFirewallID :: "int option"
  net_ApiserverNodeBalancerConfigID :: "int option"
  net_AdditionalPorts :: "LinodeNBPortConfig list"
  net_SubnetName :: string
  net_UseVlan :: bool
  net_NodeBalancerBackendIPv4Range :: string
  net_EnableVPCBackends :: bool

record ObjectStore =
  os_PresignedURLDuration :: "duration option"
  os_CredentialsRef :: SecretReference
  os_SecondaryCredentialsRef :: "SecretReference option"

record APIEndpoint =
  ep_Host :: string
  ep_Port :: int

record LinodeClusterSpec =
  lcs_Region :: string
  lcs_ControlPlaneEndpoint :: APIEndpoint
  lcs_Network :: NetworkSpec
  lcs_VPCRef :: "ObjectReference option"
  lcs_VPCID :: "int option"
  lcs_NodeBalancerFirewallRef :: "ObjectReference option"
  lcs_ObjectStore :: "ObjectStore option"
  lcs_CredentialsRef :: "SecretReference option"

record LinodeClusterStatus =
  lcs_Conditions :: "Condition list"
  lcs_Ready :: bool
  lcs_FailureReason :: "string option"
  lcs_FailureMessage :: "string option"

record LinodeCluster =
  lc_Meta :: ObjectMeta
  lc_Spec :: LinodeClusterSpec
  lc_Status :: LinodeClusterStatus

definition LinodeCluster_GetConditions :: "LinodeCluster \<Rightarrow> LinodeCluster \<times> Condition list" where
  "LinodeCluster_GetConditions lc =
     (let cs = defaultReasons (lcs_Conditions (lc_Status lc))
      in (lc_Status_update (lcs_Conditions_update (\<lambda>_. cs)) lc, cs))"

definition LinodeCluster_SetConditions :: "Condition list \<Rightarrow> LinodeCluster \<Rightarrow> LinodeCluster" where
  "LinodeCluster_SetConditions cs = lc_Status_update (lcs_Conditions_update (\<lambda>_. cs))"

definition LinodeCluster_SetCondition :: "gotime \<Rightarrow> Condition \<Rightarrow> LinodeCluster \<Rightarrow> LinodeCluster" where
  "LinodeCluster_SetCondition now c = lc_Status_update (lcs_Conditions_update (putCond (stampCond now c)))"

definition LinodeCluster_GetCondition :: "string \<Rightarrow> LinodeCluster \<Rightarrow> Condition option" where
  "LinodeCluster_GetCondition t lc = lookupCond t (lcs_Conditions (lc_Status lc))"

definition LinodeCluster_IsPaused :: "LinodeCluster \<Rightarrow> bool" where
  "LinodeCluster_IsPaused lc = pausedCond (lcs_Conditions (lc_Status lc))"

interpretation lcc: condition_owner "\<lambda>lc. lcs_Conditions (lc_Status lc)" LinodeCluster_SetCondition
  "\<lambda>lc. (lc_Meta lc, lc_Spec lc, lcs_Ready (lc_Status lc), lcs_FailureReason (lc_Status lc), lcs_FailureMessage (lc_Status lc))"
  by unfold_locales (simp_all add: LinodeCluster_SetCondition_def)


section \<open>LinodeObjectStorageBucket\<close>

definition BucketFinalizer :: string where
  "BucketFinalizer = ''linodeobjectstoragebucket.infrastructure.cluster.x-k8s.io''"

definition ACLPrivate :: string where "ACLPrivate = ''private''"
definition ACLPublicRead :: string where "ACLPublicRead = ''public-read''"
definition ACLAuthenticatedRead :: string where "ACLAuthenticatedRead = ''authenticated-read''"
definition ACLPublicReadWrite :: string where "ACLPublicReadWrite = ''public-read-write''"

record LinodeObjectStorageBucketSpec =
  bk_Region :: string
  bk_ACL :: string
  bk_CorsEnabled :: bool
  bk_CredentialsRef :: "SecretReference option"
  bk_AccessKeyRef :: "ObjectReference option"
  bk_ForceDeleteBucket :: bool

record LinodeObjectStorageBucketStatus =
  bk_Conditions :: "Condition list"
  bk_Ready :: bool
  bk_FailureMessage :: "string option"
  bk_FailureReason :: "string option"
  bk_Hostname :: "string option"
  bk_CreationTime :: "gotime option"

record LinodeObjectStorageBucket =
  lobj_Meta :: ObjectMeta
  lobj_Spec :: LinodeObjectStorageBucketSpec
  lobj_Status :: LinodeObjectStorageBucketStatus

definition LinodeObjectStorageBucket_SetCondition :: "gotime \<Rightarrow> Condition \<Rightarrow> LinodeObjectStorageBucket \<Rightarrow> LinodeObjectStorageBucket" where
  "LinodeObjectStorageBucket_SetCondition now c = lobj_Status_update (bk_Conditions_update (putCond (stampCond now c)))"

definition LinodeObjectStorageBucket_GetCondition :: "string \<Rightarrow> LinodeObjectStorageBucket \<Rightarrow> Condition option" where
  "LinodeObjectStorageBucket_GetCondition t b = lookupCond t (bk_Conditions (lobj_Status b))"

interpretation bkc: condition_owner "\<lambda>b. bk_Conditions (lobj_Status b)" LinodeObjectStorageBucket_SetCondition
  "\<lambda>b. (lobj_Meta b, lobj_Spec b, bk_Ready (lobj_Status b), bk_FailureMessage (lobj_Status b), bk_FailureReason (lobj_Status b),
        bk_Hostname (lobj_Status b), bk_CreationTime (lobj_Status b))"
  by unfold_locales (simp_all add: LinodeObjectStorageBucket_SetCondition_def)


section \<open>LinodeObjectStorageKey\<close>

definition ObjectStorageKeyFinalizer :: string where
  "ObjectStorageKeyFinalizer = ''linodeobjectstoragekey.infrastructure.cluster.x-k8s.io''"

record BucketAccessRef =
  ba_BucketName :: string
  ba_Permissions :: string
  ba_Region :: string

record GeneratedSecret =
  gs_Name :: string
  gs_Namespace :: string
  gs_Type :: string
  gs_Format :: "(string \<times> string) list"

record LinodeObjectStorageKeySpec =
  ky_BucketAccess :: "BucketAccessRef list"
  ky_CredentialsRef :: "SecretReference option"
  ky_KeyGeneration :: "int option"
  ky_GeneratedSecret :: GeneratedSecret
  ky_SecretType :: string
  ky_SecretDataFormat :: "(string \<times> string) list"

record LinodeObjectStorageKeyStatus =
  ky_Conditions :: "Condition list"
  ky_Ready :: bool
  ky_FailureMessage :: "string option"
  ky_FailureReason :: "string option"
  ky_CreationTime :: "gotime option"
  ky_LastKeyGeneration :: "int option"
  ky_AccessKeyRef :: "int option"

record LinodeObjectStorageKey =
  lok_Meta :: ObjectMeta
  lok_Spec :: LinodeObjectStorageKeySpec
  lok_Status :: LinodeObjectStorageKeyStatus

definition LinodeObjectStorageKey_SetCondition :: "gotime \<Rightarrow> Condition \<Rightarrow> LinodeObjectStorageKey \<Rightarrow> LinodeObjectStorageKey" where
  "LinodeObjectStorageKey_SetCondition now c = lok_Status_update (ky_Conditions_update (putCond (stampCond now c)))"

definition LinodeObjectStorageKey_GetCondition :: "string \<Rightarrow> LinodeObjectStorageKey \<Rightarrow> Condition option" where
  "LinodeObjectStorageKey_GetCondition t k = lookupCond t (ky_Conditions (lok_Status k))"

interpretation kyc: condition_owner "\<lambda>k. ky_Conditions (lok_Status k)" LinodeObjectStorageKey_SetCondition
  "\<lambda>k. (lok_Meta k, lok_Spec k, ky_Ready (lok_Status k), ky_FailureMessage (lok_Status k), ky_FailureReason (lok_Status k),
        ky_CreationTime (lok_Status k), ky_LastKeyGeneration (lok_Status k), ky_AccessKeyRef (lok_Status k))"
  by unfold_locales (simp_all add: LinodeObjectStorageKey_SetCondition_def)

end
