(* ===== verification/ApiMachine.thy ===== *)
theory ApiMachine
  imports ApiMeta
begin

text \<open>
  The machine resources of \<open>api/v1alpha2\<close> (\<open>LinodeMachine\<close> with its disks and interfaces, and
  \<open>LinodeMachineTemplate\<close>), with their condition methods. A \<open>resource.Quantity\<close> is the integer
  number of bytes it stands for.
\<close>

section \<open>Disks and interfaces\<close>

record IPv6CreateOptions =
  i6_EnableSLAAC :: "bool option"
  i6_EnableRanges :: "bool option"
  i6_IsPublicIPv6 :: "bool option"

text \<open>
  The size of a disk is a \<open>resource.Quantity\<close> of bytes. The model has whole numbers of bytes; a quantity such as \<open>500m\<close>,
  a fraction of a byte, has no counterpart.
\<close>

record InstanceDisk =
  dk_DiskID :: int
  dk_Size :: int
  dk_Label :: string
  dk_Filesystem :: string

record InstanceDisks =
  dks_SDB :: "InstanceDisk option"
  dks_SDC :: "InstanceDisk option"
  dks_SDD :: "InstanceDisk option"
  dks_SDE :: "InstanceDisk option"
  dks_SDF :: "InstanceDisk option"
  dks_SDG :: "InstanceDisk option"
  dks_SDH :: "InstanceDisk option"

record InstanceConfiguration =
  ic_Kernel :: string

record VPCIPv4 =
  v4_VPC :: string
  v4_NAT1To1 :: string

record InstanceConfigInterfaceCreateOptions =
  ci_IPAMAddress :: string
  ci_Label :: string
  ci_Purpose :: string
  ci_Primary :: bool
  ci_SubnetID :: "int option"
  ci_IPv4 :: "VPCIPv4 option"
  ci_IPRanges :: "string list"

record InterfaceDefaultRoute =
  dr_IPv4 :: "bool option"
  dr_IPv6 :: "bool option"

record PublicInterfaceIPv4AddressCreateOptions =
  pa4_Address :: string
  pa4_Primary :: "bool option"

record PublicInterfaceIPv4CreateOptions =
  pi4_Addresses :: "PublicInterfaceIPv4AddressCreateOptions list"

record PublicInterfaceIPv6RangeCreateOptions =
  pr6_Range :: string

record PublicInterfaceIPv6CreateOptions =
  pi6_Ranges :: "PublicInterfaceIPv6RangeCreateOptions list"

record PublicInterfaceCreateOptions =
  pub_IPv4 :: "PublicInterfaceIPv4CreateOptions option"
  pub_IPv6 :: "PublicInterfaceIPv6CreateOptions option"

record VPCInterfaceIPv4AddressCreateOptions =
  va4_Address :: string
  va4_Primary :: "bool option"
  va4_NAT1To1Address :: "string option"
  va4_NAT1To1AddressLegacy :: "string option"

record VPCInterfaceIPv4RangeCreateOptions =
  vr4_Range :: string

record VPCInterfaceIPv4CreateOptions =
  vi4_Addresses :: "VPCInterfaceIPv4AddressCreateOptions list"
  vi4_Ranges :: "VPCInterfaceIPv4RangeCreateOptions list"

record VPCInterfaceIPv6SLAACCreateOptions =
  vsl_Range :: string

record VPCInterfaceIPv6RangeCreateOptions =
  vr6_Range :: string

record VPCInterfaceIPv6CreateOptions =
  vi6_SLAAC :: "VPCInterfaceIPv6SLAACCreateOptions list"
  vi6_Ranges :: "VPCInterfaceIPv6RangeCreateOptions list"
  vi6_IsPublic :: "bool option"
  vi6_IsPublicLegacy :: "bool option"

record VPCInterfaceCreateOptions =
  vi_SubnetID :: "int option"
  vi_SubnetIDLegacy :: "int option"
  vi_IPv4 :: "VPCInterfaceIPv4CreateOptions option"
  vi_IPv6 :: "VPCInterfaceIPv6CreateOptions option"

record VLANInterface =
  vl_VLANLabel :: string
  vl_VLANLabelLegacy :: string
  vl_IPAMAddress :: "string option"
  vl_IPAMAddressLegacy :: "string option"

record LinodeInterfaceCreateOptions =
  li_FirewallID :: "int option"
  li_FirewallIDLegacy :: "int option"
  li_DefaultRoute :: "InterfaceDefaultRoute option"
  li_DefaultRouteLegacy :: "InterfaceDefaultRoute option"
  li_Public :: "PublicInterfaceCreateOptions option"
  li_VPC :: "VPCInterfaceCreateOptions option"
  li_VLAN :: "VLANInterface option"


section \<open>LinodeMachine\<close>

definition MachineFinalizer :: string where
  "MachineFinalizer = ''linodemachine.infrastructure.cluster.x-k8s.io''"

text \<open>
  A list of interfaces that is given and empty is the same here as one that is left out. What the program writes
  itself never has an empty list: the fields are \<open>omitempty\<close>.
\<close>

record LinodeMachineSpec =
  lms_ProviderID :: "string option"
  lms_InstanceID :: "int option"
  lms_Region :: string
  lms_Type :: string
  lms_Group :: string
  lms_RootPass :: string
  lms_AuthorizedKeys :: "string list"
  lms_AuthorizedUsers :: "string list"
  lms_BackupID :: int
  lms_Image :: string
  lms_Interfaces :: "InstanceConfigInterfaceCreateOptions list"
  lms_LinodeInterfaces :: "LinodeInterfaceCreateOptions list"
  lms_BackupsEnabled :: bool
  lms_PrivateIP :: "bool option"
  lms_Tags :: "string list"
  lms_FirewallID :: int
  lms_OSDisk :: "InstanceDisk option"
  lms_DataDisks :: "InstanceDisks option"
  lms_DiskEncryption :: string
  lms_CredentialsRef :: "SecretReference option"
  lms_Configuration :: "InstanceConfiguration option"
  lms_PlacementGroupRef :: "ObjectReference option"
  lms_FirewallRef :: "ObjectReference option"
  lms_VPCRef :: "ObjectReference option"
  lms_VPCID :: "int option"
  lms_IPv6Options :: "IPv6CreateOptions option"
  lms_NetworkHelper :: "bool option"
  lms_InterfaceGeneration :: string

record MachineAddress =
  ma_Type :: string
  ma_Address :: string

definition MachineInternalIP :: string where "MachineInternalIP = ''InternalIP''"
definition MachineExternalIP :: string where "MachineExternalIP = ''ExternalIP''"

record LinodeMachineStatus =
  lms_Conditions :: "Condition list"
  lms_Ready :: bool
  lms_Addresses :: "MachineAddress list"
  lms_CloudinitMetadataSupport :: bool
  lms_InstanceState :: "string option"
  lms_FailureReason :: "string option"
  lms_FailureMessage :: "string option"
  lms_StatusTags :: "string list"

record LinodeMachine =
  lm_Meta :: ObjectMeta
  lm_Spec :: LinodeMachineSpec
  lm_Status :: LinodeMachineStatus

definition LinodeMachine_GetConditions :: "LinodeMachine \<Rightarrow> LinodeMachine \<times> Condition list" where
  "LinodeMachine_GetConditions lm =
     (let cs = defaultReasons (lms_Conditions (lm_Status lm))
      in (lm_Status_update (lms_Conditions_update (\<lambda>_. cs)) lm, cs))"

definition LinodeMachine_SetConditions :: "Condition list \<Rightarrow> LinodeMachine \<Rightarrow> LinodeMachine" where
  "LinodeMachine_SetConditions cs = lm_Status_update (lms_Conditions_update (\<lambda>_. cs))"

definition LinodeMachine_SetCondition :: "gotime \<Rightarrow> Condition \<Rightarrow> LinodeMachine \<Rightarrow> LinodeMachine" where
  "LinodeMachine_SetCondition now c = lm_Status_update (lms_Conditions_update (putCond (stampCond now c)))"

definition LinodeMachine_GetCondition :: "string \<Rightarrow> LinodeMachine \<Rightarrow> Condition option" where
  "LinodeMachine_GetCondition t lm = lookupCond t (lms_Conditions (lm_Status lm))"

definition LinodeMachine_DeleteCondition :: "string \<Rightarrow> LinodeMachine \<Rightarrow> LinodeMachine" where
  "LinodeMachine_DeleteCondition t = lm_Status_update (lms_Conditions_update (deleteCond t))"

definition LinodeMachine_IsPaused :: "LinodeMachine \<Rightarrow> bool" where
  "LinodeMachine_IsPaused lm = pausedCond (lms_Conditions (lm_Status lm))"

interpretation lmc: condition_owner "\<lambda>lm. lms_Conditions (lm_Status lm)" LinodeMachine_SetCondition
  "\<lambda>lm. (lm_Meta lm, lm_Spec lm, lms_Ready (lm_Status lm), lms_Addresses (lm_Status lm),
         lms_CloudinitMetadataSupport (lm_Status lm), lms_InstanceState (lm_Status lm),
         lms_FailureReason (lm_Status lm), lms_FailureMessage (lm_Status lm), lms_StatusTags (lm_Status lm))"
  by unfold_locales (simp_all add: LinodeMachine_SetCondition_def)


section \<open>LinodeMachineTemplate\<close>

record LinodeMachineTemplateResource =
  lmtr_Spec :: LinodeMachineSpec

record LinodeMachineTemplateSpec =
  lmts_Template :: LinodeMachineTemplateResource

record LinodeMachineTemplateStatus =
  lmts_Conditions :: "Condition list"
  lmts_Tags :: "string list"
  lmts_FirewallID :: int

record LinodeMachineTemplate =
  lmt_Meta :: ObjectMeta
  lmt_Spec :: LinodeMachineTemplateSpec
  lmt_Status :: LinodeMachineTemplateStatus

definition LinodeMachineTemplate_SetCondition :: "gotime \<Rightarrow> Condition \<Rightarrow> LinodeMachineTemplate \<Rightarrow> LinodeMachineTemplate" where
  "LinodeMachineTemplate_SetCondition now c = lmt_Status_update (lmts_Conditions_update (putCond (stampCond now c)))"

interpretation lmtc: condition_owner "\<lambda>t. lmts_Conditions (lmt_Status t)" LinodeMachineTemplate_SetCondition
  "\<lambda>t. (lmt_Meta t, lmt_Spec t, lmts_Tags (lmt_Status t), lmts_FirewallID (lmt_Status t))"
  by unfold_locales (simp_all add: LinodeMachineTemplate_SetCondition_def)

end
