(* ===== verification/LinodeApi.thy ===== *)
theory LinodeApi
  imports ApiNet ApiCluster ApiMachine
begin

text \<open>
  The data of the Linode API: of every struct of \<open>linodego\<close> that passes between the program and the
  services, the fields the program reads or writes. Pointers are options; a nil slice and an empty
  one are both the empty list.
\<close>

section \<open>Firewalls, VPCs and placement groups\<close>

record LFirewallRule =
  lr_Action :: string
  lr_Label :: string
  lr_Description :: string
  lr_Protocol :: string
  lr_Ports :: string
  lr_IPv4 :: "string list"
  lr_IPv6 :: "string list"

record LFirewallRules =
  lrs_Inbound :: "LFirewallRule list"
  lrs_InboundPolicy :: string
  lrs_Outbound :: "LFirewallRule list"
  lrs_OutboundPolicy :: string

record LFirewall =
  lf_ID :: int
  lf_Label :: string

record LSubnet =
  lsn_ID :: int
  lsn_Label :: string
  lsn_IPv4 :: string
  lsn_IPv6 :: "VPCIPv6Range list"
  lsn_Linodes :: "int list"

text \<open>\<open>Updated\<close> is a pointer in linodego, which the API sets in every answer.\<close>

record LVPC =
  lvpc_ID :: int
  lvpc_Label :: string
  lvpc_IPv4 :: "VPCIPv4Range list"
  lvpc_IPv6 :: "VPCIPv6Range list"
  lvpc_Subnets :: "LSubnet list"
  lvpc_Updated :: gotime

record LSubnetCreateOptions =
  lso_Label :: string
  lso_IPv4 :: string
  lso_IPv6 :: "string option list"

record LVPCIPv6CreateOptions =
  lvo6_Range :: "string option"
  lvo6_AllocationClass :: "string option"

record LVPCCreateOptions =
  lvo_Label :: string
  lvo_Description :: string
  lvo_Region :: string
  lvo_Subnets :: "LSubnetCreateOptions list"
  lvo_IPv6 :: "LVPCIPv6CreateOptions list"
  lvo_IPv4 :: "string list"

record LPlacementGroup =
  lpgr_ID :: int
  lpgr_Members :: "int list"

record LPlacementGroupCreateOptions =
  lpo_Label :: string
  lpo_Region :: string
  lpo_Type :: string
  lpo_Policy :: string


section \<open>Instances\<close>

text \<open>The states of an instance are strings: \<open>running\<close>, \<open>offline\<close> and so on.\<close>

record LInstance =
  inst_ID :: int
  inst_Status :: string
  inst_Tags :: "string list"
  inst_Updated :: gotime

text \<open>Addresses of an instance.\<close>

record LVPCIPv6 =
  va6_IsPublic :: "bool option"
  va6_SLAACAddresses :: "string list"

record LIPv6Response =
  ip6_VPC :: "LVPCIPv6 list"
  ip6_SLAAC :: "string option"

record LInstanceIPAddresses =
  ip_Public :: "string list"
  ip_VPC :: "string option list"
  ip_Private :: "string list"
  ip_IPv6 :: "LIPv6Response option"

text \<open>Legacy interfaces, which belong to the configuration profile of an instance.\<close>

record LVPCIPv4CreateOptions =
  lc4_VPC :: string
  lc4_NAT1To1 :: "string option"

record LConfigIPv6 =
  lc6_SLAAC :: "string list"
  lc6_Ranges :: "string option list"
  lc6_IsPublic :: "bool option"

record LConfigInterface =
  lci_IPAMAddress :: string
  lci_Label :: string
  lci_Purpose :: string
  lci_Primary :: bool
  lci_SubnetID :: "int option"
  lci_IPv4 :: "LVPCIPv4CreateOptions option"
  lci_IPv6 :: "LConfigIPv6 option"
  lci_IPRanges :: "string list"

text \<open>Linode interfaces.\<close>

record LVPCIfaceAddress =
  la4_Address :: "string option"
  la4_Primary :: "bool option"
  la4_NAT1To1Address :: "string option"

record LVPCIface4 =
  lv4_Addresses :: "LVPCIfaceAddress list"
  lv4_Ranges :: "string list"

record LVPCIface6 =
  lv6_SLAAC :: "string list"
  lv6_Ranges :: "string list"
  lv6_IsPublic :: "bool option"

record LVPCIface =
  lvi_SubnetID :: int
  lvi_IPv4 :: "LVPCIface4 option"
  lvi_IPv6 :: "LVPCIface6 option"

record LPublicIfaceAddress =
  lpa_Address :: "string option"
  lpa_Primary :: "bool option"

record LPublicIface =
  lpi_IPv4 :: "LPublicIfaceAddress list"
  lpi_IPv6 :: "string list"

record LVLANIface =
  lvl_VLANLabel :: string
  lvl_IPAMAddress :: "string option"

record LInterface =
  lif_FirewallID :: "int option"
  lif_DefaultRoute :: "InterfaceDefaultRoute option"
  lif_Public :: "LPublicIface option"
  lif_VPC :: "LVPCIface option"
  lif_VLAN :: "LVLANIface option"

text \<open>An existing Linode interface: its ID and, if it is on a VLAN, the address there.\<close>

record LInterfaceInfo =
  lii_ID :: int
  lii_VLAN :: "string option option"

record LInstanceCreateOptions =
  ico_Region :: string
  ico_Type :: string
  ico_Label :: string
  ico_RootPass :: string
  ico_AuthorizedKeys :: "string list"
  ico_AuthorizedUsers :: "string list"
  ico_Image :: string
  ico_Tags :: "string list"
  ico_FirewallID :: int
  ico_InterfaceGeneration :: string
  ico_DiskEncryption :: string
  ico_PrivateIP :: bool
  ico_NetworkHelper :: "bool option"
  ico_LinodeInterfaces :: "LInterface list"
  ico_Interfaces :: "LConfigInterface list"
  ico_Booted :: "bool option"
  ico_BootSize :: "int option"
  ico_UserData :: "string option"
  ico_PlacementGroup :: "int option"

text \<open>
  The devices of a configuration profile: the disk at each name, as far as the program sets it. The map is a pointer
  in linodego, which the API sets in every answer; a profile without devices has an empty one.
\<close>

type_synonym LDeviceMap = "string \<rightharpoonup> int"

record LInstanceConfig =
  lcfg_ID :: int
  lcfg_Devices :: LDeviceMap
  lcfg_Interfaces :: "LConfigInterface list"

record LInstanceConfigUpdateOptions =
  lcu_Kernel :: string
  lcu_HelpersNetwork :: "bool option"
  lcu_Devices :: "LDeviceMap option"

record LDiskCreateOptions =
  ldo_Label :: string
  ldo_Size :: int
  ldo_Filesystem :: string

section \<open>NodeBalancers\<close>

record LNodeBalancer =
  lnb_ID :: int
  lnb_IPv4 :: "string option"

record LNodeBalancerVPCOptions =
  nbv_SubnetID :: int
  nbv_IPv4Range :: string

record LNodeBalancerCreateOptions =
  nbo_Label :: string
  nbo_Region :: string
  nbo_Tags :: "string list"
  nbo_VPCs :: "LNodeBalancerVPCOptions list"
  nbo_FirewallID :: int

record LNodeBalancerConfig =
  ncf_ID :: int
  ncf_Port :: int

record LNodeBalancerConfigCreateOptions =
  nco_Port :: int
  nco_Protocol :: string
  nco_Algorithm :: string
  nco_Check :: string

record LNodeBalancerNode =
  nbn_ID :: int
  nbn_Address :: string
  nbn_ConfigID :: int
  nbn_NodeBalancerID :: int

record LNodeBalancerNodeCreateOptions =
  nno_Label :: string
  nno_Address :: string
  nno_Mode :: string
  nno_SubnetID :: int


section \<open>Domains\<close>

record LDomain =
  ldm_ID :: int
  ldm_Domain :: string

record LDomainRecord =
  ldr_ID :: int
  ldr_Type :: string
  ldr_Target :: string

record LDomainRecordCreateOptions =
  dro_Type :: string
  dro_Name :: string
  dro_Target :: string
  dro_TTLSec :: int

text \<open>A record set of Akamai's Edge DNS.\<close>

record AkamaiRecord =
  akr_Name :: string
  akr_RecordType :: string
  akr_TTL :: int
  akr_Active :: bool
  akr_Target :: "string list"


section \<open>Object storage\<close>

record LBucket =
  lbk_Label :: string
  lbk_Region :: string
  lbk_Hostname :: string
  lbk_Created :: "gotime option"

record LBucketCreateOptions =
  lbo_Region :: string
  lbo_Label :: string
  lbo_ACL :: string
  lbo_CorsEnabled :: bool

record LBucketAccess =
  lba_ACL :: string
  lba_CorsEnabled :: "bool option"

record LBucketUpdateAccessOptions =
  lbu_ACL :: string
  lbu_CorsEnabled :: bool

record LObjectStorageKey =
  lky_ID :: int
  lky_AccessKey :: string
  lky_SecretKey :: string

record LKeyBucketAccess =
  lka_Region :: string
  lka_BucketName :: string
  lka_Permissions :: string

record LKeyCreateOptions =
  lko_Label :: string
  lko_BucketAccess :: "LKeyBucketAccess list"

text \<open>An object of a bucket, one of its versions, and a page of a listing.\<close>

record S3Object =
  so_Key :: string
  so_VersionId :: "string option"

record S3VersionPage =
  svp_Versions :: "S3Object list"
  svp_DeleteMarkers :: "S3Object list"


section \<open>HTTP\<close>

text \<open>What \<open>OnAfterResponse\<close> sees of an HTTP response: the request line and two rate limit headers.\<close>

record HttpResponse =
  hr_Method :: string
  hr_Path :: string
  hr_Remaining :: string
  hr_Reset :: string

end
