(* ===== verification/World.thy ===== *)
theory World
  imports LinodeApi
begin

text \<open>
  Everything outside the program: the services behind the interfaces of \<open>clients/clients.go\<close>, the
  Kubernetes API server, the third-party helper functions, and the sources of nondeterminism of
  the Go runtime (the clock, the random numbers, the order of a map).

  Every use of one of them is an event. A run keeps the history of its events, newest first, and
  an environment answers an event as an arbitrary function of the history before it. The theorems
  quantify over the environment, so they hold whatever the services answer and whatever other
  actors do between two calls. Requests that change a service are found in the history with
  their arguments, and that is where safety properties look for them.
\<close>

section \<open>Kubernetes objects of other projects\<close>

record Cluster =
  cl_Meta :: ObjectMeta
  cl_InfrastructureRefKind :: string
  cl_InfrastructureRefName :: string

record Machine =
  mc_Meta :: ObjectMeta
  mc_DataSecretName :: "string option"
  mc_ProviderID :: string
  mc_Phase :: string
  mc_InfrastructureRefKind :: string
  mc_InfrastructureRefName :: string
  mc_Conditions :: "Condition list"

record Secret =
  sec_Meta :: ObjectMeta
  sec_Type :: string
  sec_Data :: "string \<rightharpoonup> string"

datatype kobj =
    OFirewall LinodeFirewall
  | OVPC LinodeVPC
  | OPlacementGroup LinodePlacementGroup
  | OCluster LinodeCluster
  | OMachine LinodeMachine
  | OMachineTemplate LinodeMachineTemplate
  | OBucket LinodeObjectStorageBucket
  | OKey LinodeObjectStorageKey
  | OSecret Secret

datatype kind =
    KFirewall | KFirewallRule | KAddressSet | KVPC | KPlacementGroup | KCluster | KMachine | KMachineTemplate
  | KBucket | KKey | KSecret | KKubeadmControlPlane


section \<open>Events\<close>

datatype runtime_call = TimeNow | RandInt64N int | MapKeys | NewUUID | CtxErr

datatype k8s_call =
    KGet kind NamespacedName
  | KList kind string "(string \<times> string) list"
  | KUpdate kobj
  | KPatch kobj
  | KDelete kobj
  | KGetClusterFromMetadata ObjectMeta
  | KEnsurePaused kobj
  | KNewHelper kobj
  | KGetOwnerMachine ObjectMeta
  | KGetOwnerCluster ObjectMeta
  | KListCAPIMachines string "(string \<times> string) list"
  | KCreateOrUpdateSecret Secret

datatype firewall_call =
    CCreateFirewall string LFirewallRules
  | CGetFirewall int
  | CListFirewalls string
  | CUpdateFirewall int string
  | CUpdateFirewallRules int LFirewallRules
  | CDeleteFirewall int

datatype vpc_call =
    CGetVPC int
  | CListVPCs string
  | CCreateVPC LVPCCreateOptions
  | CUpdateVPC int "string list"
  | CDeleteVPC int
  | CCreateVPCSubnet LSubnetCreateOptions int
  | CDeleteVPCSubnet int int

datatype pg_call =
    CGetPlacementGroup int
  | CListPlacementGroups string
  | CCreatePlacementGroup LPlacementGroupCreateOptions
  | CDeletePlacementGroup int

datatype instance_call =
    CGetInstanceIPAddresses int
  | CListInstances string
  | CCreateInstance LInstanceCreateOptions
  | CBootInstance int
  | CListInstanceConfigs int
  | CUpdateInstanceConfig int int LInstanceConfigUpdateOptions
  | CUpdateInstance int "string list"
  | CCreateInstanceDisk int LDiskCreateOptions
  | CGetInstance int
  | CDeleteInstance int
  | CGetRegion string
  | CGetImage string
  | CGetType string
  | CListInstanceFirewalls int
  | CUpdateInstanceFirewalls int "int list"
  | CListInterfaces int
  | CListInterfaceFirewalls int int

datatype s3_call =
    CS3Clients Secret
  | CPutObject string string string
  | CPresignGetObject string string "duration option"
  | CHeadObject string string
  | CDeleteObject string string
  | CAccessKeyClient Secret
  | CGetBucketVersioning string
  | CHasMorePages
  | CNextPage string
  | CNextVersionPage string string
  | CDeleteObjects string "S3Object list" bool

datatype nb_call =
    CCreateNodeBalancer LNodeBalancerCreateOptions
  | CGetNodeBalancer int
  | CListNodeBalancers string
  | CListNodeBalancerNodes int int
  | CGetNodeBalancerConfig int int
  | CCreateNodeBalancerConfig int LNodeBalancerConfigCreateOptions
  | CDeleteNodeBalancerNode int int int
  | CDeleteNodeBalancer int
  | CCreateNodeBalancerNode int int LNodeBalancerNodeCreateOptions

datatype dns_call =
    CListDomains string
  | CListDomainRecords int string
  | CCreateDomainRecord int LDomainRecordCreateOptions
  | CDeleteDomainRecord int int

datatype akam_call =
    CGetRecord string string string
  | CCreateRecord AkamaiRecord string
  | CUpdateRecord AkamaiRecord string
  | CDeleteRecord string string string

datatype obj_call =
    CGetObjectStorageBucket string string
  | CCreateObjectStorageBucket LBucketCreateOptions
  | CGetObjectStorageBucketAccess string string
  | CUpdateObjectStorageBucketAccess string string LBucketUpdateAccessOptions
  | CGetObjectStorageKey int
  | CCreateObjectStorageKey LKeyCreateOptions
  | CDeleteObjectStorageKey int
  | CDeleteObjectStorageBucket string string

datatype call =
    Runtime runtime_call
  | K8s k8s_call
  | FW firewall_call
  | VPC vpc_call
  | PG pg_call
  | INST instance_call
  | S3 s3_call
  | NB nb_call
  | DNS dns_call
  | AKAM akam_call
  | OBJ obj_call
  | SetToken string
  | SetDomainsToken string
  | NewLinodeClient
  | NewEdgeDNSClient

type_synonym hist = "call list"


section \<open>Environments\<close>

record runtime_env =
  rt_Now :: "hist \<Rightarrow> gotime"
  rt_Rand :: "hist \<Rightarrow> int"
  rt_MapOrder :: "hist \<Rightarrow> nat list"
  rt_UUID :: "hist \<Rightarrow> string"
  rt_CtxErr :: "hist \<Rightarrow> error option"

record lib_env =
  lib_ErrHasStatus :: "error option \<Rightarrow> int list \<Rightarrow> bool"
  lib_ErrorFromError :: int
  lib_APIErrorIs :: "int \<Rightarrow> error option \<Rightarrow> bool"
  lib_IsNotFound :: "error option \<Rightarrow> bool"
  lib_IsConflict :: "error option \<Rightarrow> bool"
  lib_FilterOutNotFound :: "error option \<Rightarrow> error option"
  lib_AddFinalizer :: "string list \<Rightarrow> string \<Rightarrow> string list \<times> bool"
  lib_RemoveFinalizer :: "string list \<Rightarrow> string \<Rightarrow> string list"
  lib_ContainsFinalizer :: "string list \<Rightarrow> string \<Rightarrow> bool"
  lib_SetControllerReference :: "LinodeCluster \<Rightarrow> ObjectMeta \<Rightarrow> OwnerReference list res"
  lib_RetrySteps :: nat
  lib_SHA256Hex :: "string \<Rightarrow> string"
  lib_LabelRequirementError :: "string \<Rightarrow> error option"
  lib_ScaledMega :: "int \<Rightarrow> int"
  lib_Gzip :: "string \<Rightarrow> string res"
  lib_S3ErrorCode :: "error \<Rightarrow> string option"
  lib_GetControllerOf :: "ObjectMeta \<Rightarrow> OwnerReference option"
  lib_HasUnhealthyControlPlaneComponents :: "bool \<Rightarrow> Machine \<Rightarrow> bool"
  lib_IsControlPlaneMachine :: "Machine \<Rightarrow> bool"
  lib_TemplateParse :: "string \<Rightarrow> error option"
  lib_TemplateExecute :: "string \<Rightarrow> (string \<rightharpoonup> string) \<Rightarrow> string res"
  lib_SetKeyControllerReference :: "LinodeObjectStorageKey \<Rightarrow> ObjectMeta \<Rightarrow> OwnerReference list res"
  lib_QuantityString :: "int \<Rightarrow> string"
  lib_LinodeToken :: string

record k8s_env =
  k_GetFirewall :: "hist \<Rightarrow> NamespacedName \<Rightarrow> LinodeFirewall res"
  k_GetFirewallRule :: "hist \<Rightarrow> NamespacedName \<Rightarrow> FirewallRule res"
  k_GetAddressSet :: "hist \<Rightarrow> NamespacedName \<Rightarrow> AddressSet res"
  k_GetVPC :: "hist \<Rightarrow> NamespacedName \<Rightarrow> LinodeVPC res"
  k_GetPlacementGroup :: "hist \<Rightarrow> NamespacedName \<Rightarrow> LinodePlacementGroup res"
  k_GetCluster :: "hist \<Rightarrow> NamespacedName \<Rightarrow> LinodeCluster res"
  k_GetMachine :: "hist \<Rightarrow> NamespacedName \<Rightarrow> LinodeMachine res"
  k_GetSecret :: "hist \<Rightarrow> NamespacedName \<Rightarrow> Secret res"
  k_ListFirewalls :: "hist \<Rightarrow> LinodeFirewall list res"
  k_ListMachines :: "hist \<Rightarrow> string \<Rightarrow> (string \<times> string) list \<Rightarrow> LinodeMachine list res"
  k_Update :: "hist \<Rightarrow> kobj \<Rightarrow> ObjectMeta res"
  k_Patch :: "hist \<Rightarrow> kobj \<Rightarrow> error option"
  k_Delete :: "hist \<Rightarrow> kobj \<Rightarrow> error option"
  k_GetClusterFromMetadata :: "hist \<Rightarrow> ObjectMeta \<Rightarrow> Cluster res"
  k_NewHelper :: "hist \<Rightarrow> kobj \<Rightarrow> error option"
  k_NewLinodeClient :: "hist \<Rightarrow> error option"
  k_GetKey :: "hist \<Rightarrow> NamespacedName \<Rightarrow> LinodeObjectStorageKey res"
  k_GetBucket :: "hist \<Rightarrow> NamespacedName \<Rightarrow> LinodeObjectStorageBucket res"
  k_EnsurePaused :: "hist \<Rightarrow> Cluster option \<Rightarrow> kobj \<Rightarrow> Condition list \<times> bool res"
  k_GetOwnerMachine :: "hist \<Rightarrow> ObjectMeta \<Rightarrow> Machine option res"
  k_GetOwnerCluster :: "hist \<Rightarrow> ObjectMeta \<Rightarrow> Cluster option res"
  k_ListCAPIMachines :: "hist \<Rightarrow> string \<Rightarrow> (string \<times> string) list \<Rightarrow> Machine list res"
  k_NewEdgeDNSClient :: "hist \<Rightarrow> error option"
  k_GetMachineTemplate :: "hist \<Rightarrow> NamespacedName \<Rightarrow> LinodeMachineTemplate res"
  k_GetKCPEtcdExternal :: "hist \<Rightarrow> NamespacedName \<Rightarrow> bool res"
  k_CreateOrUpdateSecret :: "hist \<Rightarrow> Secret \<Rightarrow> error option"

record firewall_env =
  fwe_CreateFirewall :: "hist \<Rightarrow> string \<Rightarrow> LFirewallRules \<Rightarrow> LFirewall option \<times> error option"
  fwe_GetFirewall :: "hist \<Rightarrow> int \<Rightarrow> LFirewall option \<times> error option"
  fwe_ListFirewalls :: "hist \<Rightarrow> string \<Rightarrow> LFirewall list res"
  fwe_UpdateFirewall :: "hist \<Rightarrow> int \<Rightarrow> string \<Rightarrow> error option"
  fwe_UpdateFirewallRules :: "hist \<Rightarrow> int \<Rightarrow> LFirewallRules \<Rightarrow> error option"
  fwe_DeleteFirewall :: "hist \<Rightarrow> int \<Rightarrow> error option"

record vpc_env =
  vpe_GetVPC :: "hist \<Rightarrow> int \<Rightarrow> LVPC res"
  vpe_ListVPCs :: "hist \<Rightarrow> string \<Rightarrow> LVPC list res"
  vpe_CreateVPC :: "hist \<Rightarrow> LVPCCreateOptions \<Rightarrow> LVPC res"
  vpe_UpdateVPC :: "hist \<Rightarrow> int \<Rightarrow> string list \<Rightarrow> error option"
  vpe_DeleteVPC :: "hist \<Rightarrow> int \<Rightarrow> error option"
  vpe_CreateVPCSubnet :: "hist \<Rightarrow> LSubnetCreateOptions \<Rightarrow> int \<Rightarrow> LSubnet res"
  vpe_DeleteVPCSubnet :: "hist \<Rightarrow> int \<Rightarrow> int \<Rightarrow> error option"

record pg_env =
  pge_GetPlacementGroup :: "hist \<Rightarrow> int \<Rightarrow> LPlacementGroup option \<times> error option"
  pge_ListPlacementGroups :: "hist \<Rightarrow> string \<Rightarrow> LPlacementGroup list res"
  pge_CreatePlacementGroup :: "hist \<Rightarrow> LPlacementGroupCreateOptions \<Rightarrow> LPlacementGroup option \<times> error option"
  pge_DeletePlacementGroup :: "hist \<Rightarrow> int \<Rightarrow> error option"

text \<open>
  \<open>CreateInstance\<close> also yields the HTTP response, which the client hands to the functions registered
  with \<open>OnAfterResponse\<close>. The capabilities of a region are read only when \<open>GetRegion\<close> succeeds.
\<close>

record instance_env =
  ine_GetInstanceIPAddresses :: "hist \<Rightarrow> int \<Rightarrow> LInstanceIPAddresses res"
  ine_ListInstances :: "hist \<Rightarrow> string \<Rightarrow> LInstance list res"
  ine_CreateInstance :: "hist \<Rightarrow> LInstanceCreateOptions \<Rightarrow> HttpResponse option \<times> LInstance res"
  ine_BootInstance :: "hist \<Rightarrow> int \<Rightarrow> error option"
  ine_ListInstanceConfigs :: "hist \<Rightarrow> int \<Rightarrow> LInstanceConfig list res"
  ine_UpdateInstanceConfig :: "hist \<Rightarrow> int \<Rightarrow> int \<Rightarrow> LInstanceConfigUpdateOptions \<Rightarrow> error option"
  ine_UpdateInstance :: "hist \<Rightarrow> int \<Rightarrow> string list \<Rightarrow> error option"
  ine_CreateInstanceDisk :: "hist \<Rightarrow> int \<Rightarrow> LDiskCreateOptions \<Rightarrow> int res"
  ine_GetInstance :: "hist \<Rightarrow> int \<Rightarrow> LInstance res"
  ine_DeleteInstance :: "hist \<Rightarrow> int \<Rightarrow> error option"
  ine_GetRegion :: "hist \<Rightarrow> string \<Rightarrow> error option"
  ine_RegionCapabilities :: "hist \<Rightarrow> string \<Rightarrow> string list"
  ine_GetImage :: "hist \<Rightarrow> string \<Rightarrow> error option"
  ine_GetTypeDisk :: "hist \<Rightarrow> string \<Rightarrow> int res"
  ine_ListInstanceFirewalls :: "hist \<Rightarrow> int \<Rightarrow> LFirewall list res"
  ine_UpdateInstanceFirewalls :: "hist \<Rightarrow> int \<Rightarrow> int list \<Rightarrow> error option"
  ine_ListInterfaces :: "hist \<Rightarrow> int \<Rightarrow> LInterfaceInfo list res"
  ine_ListInterfaceFirewalls :: "hist \<Rightarrow> int \<Rightarrow> int \<Rightarrow> LFirewall list res"

text \<open>The builder of S3 clients says whether each of the two clients is there.\<close>

record s3_env =
  s3_Clients :: "hist \<Rightarrow> Secret \<Rightarrow> (bool \<times> bool) res"
  s3_PutObject :: "hist \<Rightarrow> string \<Rightarrow> string \<Rightarrow> string \<Rightarrow> error option"
  s3_PresignGetObject :: "hist \<Rightarrow> string \<Rightarrow> string \<Rightarrow> duration option \<Rightarrow> string option res"
  s3_HeadObject :: "hist \<Rightarrow> string \<Rightarrow> string \<Rightarrow> error option"
  s3_DeleteObject :: "hist \<Rightarrow> string \<Rightarrow> string \<Rightarrow> error option"
  s3_AccessKeyClient :: "hist \<Rightarrow> Secret \<Rightarrow> error option"
  s3_GetBucketVersioning :: "hist \<Rightarrow> string \<Rightarrow> string res"
  s3_HasMorePages :: "hist \<Rightarrow> bool"
  s3_NextPage :: "hist \<Rightarrow> string \<Rightarrow> S3Object list res"
  s3_NextVersionPage :: "hist \<Rightarrow> string \<Rightarrow> string \<Rightarrow> S3VersionPage option \<times> error option"
  s3_DeleteObjects :: "hist \<Rightarrow> string \<Rightarrow> S3Object list \<Rightarrow> bool \<Rightarrow> error option"

record nb_env =
  nbe_CreateNodeBalancer :: "hist \<Rightarrow> LNodeBalancerCreateOptions \<Rightarrow> LNodeBalancer option \<times> error option"
  nbe_GetNodeBalancer :: "hist \<Rightarrow> int \<Rightarrow> LNodeBalancer option \<times> error option"
  nbe_ListNodeBalancers :: "hist \<Rightarrow> string \<Rightarrow> LNodeBalancer list res"
  nbe_ListNodeBalancerNodes :: "hist \<Rightarrow> int \<Rightarrow> int \<Rightarrow> LNodeBalancerNode list res"
  nbe_GetNodeBalancerConfig :: "hist \<Rightarrow> int \<Rightarrow> int \<Rightarrow> LNodeBalancerConfig res"
  nbe_CreateNodeBalancerConfig :: "hist \<Rightarrow> int \<Rightarrow> LNodeBalancerConfigCreateOptions \<Rightarrow> LNodeBalancerConfig res"
  nbe_DeleteNodeBalancerNode :: "hist \<Rightarrow> int \<Rightarrow> int \<Rightarrow> int \<Rightarrow> error option"
  nbe_DeleteNodeBalancer :: "hist \<Rightarrow> int \<Rightarrow> error option"
  nbe_CreateNodeBalancerNode :: "hist \<Rightarrow> int \<Rightarrow> int \<Rightarrow> LNodeBalancerNodeCreateOptions \<Rightarrow> error option"

record dns_env =
  dne_ListDomains :: "hist \<Rightarrow> string \<Rightarrow> LDomain list res"
  dne_ListDomainRecords :: "hist \<Rightarrow> int \<Rightarrow> string \<Rightarrow> LDomainRecord list res"
  dne_CreateDomainRecord :: "hist \<Rightarrow> int \<Rightarrow> LDomainRecordCreateOptions \<Rightarrow> error option"
  dne_DeleteDomainRecord :: "hist \<Rightarrow> int \<Rightarrow> int \<Rightarrow> error option"

record akam_env =
  ake_GetRecord :: "hist \<Rightarrow> string \<Rightarrow> string \<Rightarrow> string \<Rightarrow> AkamaiRecord option \<times> error option"
  ake_CreateRecord :: "hist \<Rightarrow> AkamaiRecord \<Rightarrow> string \<Rightarrow> error option"
  ake_UpdateRecord :: "hist \<Rightarrow> AkamaiRecord \<Rightarrow> string \<Rightarrow> error option"
  ake_DeleteRecord :: "hist \<Rightarrow> string \<Rightarrow> string \<Rightarrow> string \<Rightarrow> error option"

record obj_env =
  obe_GetBucket :: "hist \<Rightarrow> string \<Rightarrow> string \<Rightarrow> LBucket option \<times> error option"
  obe_CreateBucket :: "hist \<Rightarrow> LBucketCreateOptions \<Rightarrow> LBucket res"
  obe_GetBucketAccess :: "hist \<Rightarrow> string \<Rightarrow> string \<Rightarrow> LBucketAccess option \<times> error option"
  obe_UpdateBucketAccess :: "hist \<Rightarrow> string \<Rightarrow> string \<Rightarrow> LBucketUpdateAccessOptions \<Rightarrow> error option"
  obe_GetKey :: "hist \<Rightarrow> int \<Rightarrow> LObjectStorageKey res"
  obe_CreateKey :: "hist \<Rightarrow> LKeyCreateOptions \<Rightarrow> LObjectStorageKey res"
  obe_DeleteKey :: "hist \<Rightarrow> int \<Rightarrow> error option"
  obe_DeleteBucket :: "hist \<Rightarrow> string \<Rightarrow> string \<Rightarrow> error option"

record env =
  rt :: runtime_env
  lib :: lib_env
  k8s :: k8s_env
  fwe :: firewall_env
  vpe :: vpc_env
  pge :: pg_env
  ine :: instance_env
  s3e :: s3_env
  nbe :: nb_env
  dne :: dns_env
  ake :: akam_env
  obe :: obj_env


section \<open>The state of a run\<close>

text \<open>
  The resource or scope a handler works on, the history of events, and the two package-level
  variables of \<open>util\<close>: the POST counters by token hash and the VLAN addresses by cluster.
\<close>

record PostRequestCounter =
  prc_ReqRemaining :: int
  prc_RefreshTime :: gotime

record 'o world =
  obj :: 'o
  tr :: hist
  postRequestCounters :: "string \<rightharpoonup> PostRequestCounter"
  vlanIPsMap :: "string \<rightharpoonup> string list"

type_synonym ('o, 'a) op = "('o world, 'a) m"

definition perform :: "call \<Rightarrow> (hist \<Rightarrow> 'a) \<Rightarrow> ('o, 'a) op" where
  "perform c f = State_Monad.State (\<lambda>s. (f (tr s), s\<lparr>tr := c # tr s\<rparr>))"

abbreviation getObj :: "('o, 'o) op" where
  "getObj \<equiv> gets obj"

abbreviation modObj :: "('o \<Rightarrow> 'o) \<Rightarrow> ('o, unit) op" where
  "modObj f \<equiv> modify (obj_update f)"

lemma wp_perform [wp_rules]: "wp (perform c f) Q s = Q (f (tr s)) (s\<lparr>tr := c # tr s\<rparr>)"
  by (simp add: wp_def perform_def)

abbreviation timeNow :: "env \<Rightarrow> ('o, gotime) op" where
  "timeNow E \<equiv> perform (Runtime TimeNow) (rt_Now (rt E))"

text \<open>\<open>rand.Int64N(n)\<close> is in \<open>[0, n)\<close>; \<open>n\<close> is positive at its only call.\<close>

abbreviation randInt64N :: "env \<Rightarrow> int \<Rightarrow> ('o, int) op" where
  "randInt64N E n \<equiv> perform (Runtime (RandInt64N n)) (\<lambda>h. rt_Rand (rt E) h mod n)"

abbreviation mapKeys :: "env \<Rightarrow> 'k list \<Rightarrow> ('o, 'k list) op" where
  "mapKeys E ks \<equiv> perform (Runtime MapKeys) (\<lambda>h. permuteKeys (rt_MapOrder (rt E) h) ks)"


text \<open>Run a handler on a scope of its own; the history and the package variables are shared.\<close>

definition withScope :: "'p \<Rightarrow> ('p, 'a) op \<Rightarrow> ('o, 'a) op" where
  "withScope p m = State_Monad.State (\<lambda>s.
     case State_Monad.run_state m \<lparr>obj = p, tr = tr s, postRequestCounters = postRequestCounters s, vlanIPsMap = vlanIPsMap s\<rparr> of
       (r, t) \<Rightarrow> (r, \<lparr>obj = obj s, tr = tr t, postRequestCounters = postRequestCounters t, vlanIPsMap = vlanIPsMap t\<rparr>))"

section \<open>The text of an error\<close>

fun errText :: "error \<Rightarrow> string" where
  "errText (ErrSentinel x) = (case x of
       ErrRateLimit \<Rightarrow> ''rate-limit exceeded''
     | ErrReconcileAgain \<Rightarrow> ''reconcile again''
     | ErrTooManyIPs \<Rightarrow> ''too many IPs in this ACL, will exceed rules per firewall limit''
     | ErrNilFirewall \<Rightarrow> ''nil error and nil firewall''
     | ErrVPCNotFound \<Rightarrow> ''VPC not found''
     | ErrHandlerTimeout \<Rightarrow> ''http: Handler timeout''
     | ErrDeadlineExceeded \<Rightarrow> ''i/o timeout''
     | ErrUnexpectedEOF \<Rightarrow> ''unexpected EOF''
     | ErrSyntax \<Rightarrow> ''invalid syntax''
     | ErrRange \<Rightarrow> ''value out of range''
     | ErrPanic \<Rightarrow> ''panic'')"
| "errText (ErrNew t) = t"
| "errText (ErrWrap t e) = t @ errText e"
| "errText (ErrJoin es) = strings_Join (map errText es) ''\<newline>''"
| "errText (ErrExt _ t _) = t"


section \<open>Which events a handler may add\<close>

text \<open>
  \<open>adds P s t\<close>: the history of \<open>t\<close> is that of \<open>s\<close> with new events that satisfy \<open>P\<close>. A handler whose
  every event satisfies \<open>P\<close> keeps this relation, which composes.
\<close>

definition adds :: "(call \<Rightarrow> bool) \<Rightarrow> 'o world \<Rightarrow> 'o world \<Rightarrow> bool" where
  "adds P s t = (\<exists>new. tr t = new @ tr s \<and> (\<forall>c\<in>set new. P c))"

interpretation adds: preorder_rel "adds P"
proof unfold_locales
  show "adds P s s" for s :: "'a world" by (simp add: adds_def)
  show "adds P s t \<Longrightarrow> adds P t u \<Longrightarrow> adds P s u" for s t u :: "'a world"
    by (auto simp: adds_def)
qed

lemma adds_perform [keeps_rules]: "P c \<Longrightarrow> keeps (adds P) (perform c f)"
  by (simp add: keeps_def wp_perform adds_def)

lemma adds_modify [keeps_rules]: "(\<And>s. tr (f s) = tr s) \<Longrightarrow> keeps (adds P) (modify f)"
  by (simp add: keeps_def wp_update adds_def)

lemmas adds_rules = adds.keeps_all adds_perform adds_modify

lemma adds_events:
  assumes "keeps (adds P) m" and "State_Monad.run_state m s = (r, t)" and "c \<in> set (tr t)"
  shows "c \<in> set (tr s) \<or> P c"
  using keeps_run [OF assms(1,2)] assms(3) by (auto simp: adds_def)

lemma adds_mono: "keeps (adds P) m \<Longrightarrow> (\<And>c. P c \<Longrightarrow> Q c) \<Longrightarrow> keeps (adds Q) m"
  by (erule keeps_mono) (auto simp: adds_def)

text \<open>
  \<open>calm P s t\<close>: moreover the object and the package variables are the same.
\<close>

definition calm :: "(call \<Rightarrow> bool) \<Rightarrow> 'o world \<Rightarrow> 'o world \<Rightarrow> bool" where
  "calm P s t = (adds P s t \<and> obj t = obj s \<and> postRequestCounters t = postRequestCounters s \<and> vlanIPsMap t = vlanIPsMap s)"

interpretation calm: preorder_rel "calm P"
proof unfold_locales
  show "calm P s s" for s :: "'a world" by (simp add: calm_def adds.refl)
  show "calm P s t \<Longrightarrow> calm P t u \<Longrightarrow> calm P s u" for s t u :: "'a world"
    by (auto simp: calm_def intro: adds.trans)
qed

lemma calm_perform [keeps_rules]: "P c \<Longrightarrow> keeps (calm P) (perform c f)"
  by (simp add: keeps_def wp_perform calm_def adds_def)

lemmas calm_rules = calm.keeps_all calm_perform

lemma calm_adds: "keeps (calm P) m \<Longrightarrow> keeps (adds P) m"
  by (erule keeps_mono) (auto simp: calm_def)

text \<open>Events of the API server and of the client's token, and events of the runtime.\<close>

definition isK8s :: "call \<Rightarrow> bool" where
  "isK8s c = (case c of K8s _ \<Rightarrow> True | SetToken _ \<Rightarrow> True | SetDomainsToken _ \<Rightarrow> True | NewLinodeClient \<Rightarrow> True | NewEdgeDNSClient \<Rightarrow> True | _ \<Rightarrow> False)"

definition isRuntime :: "call \<Rightarrow> bool" where
  "isRuntime c = (case c of Runtime _ \<Rightarrow> True | _ \<Rightarrow> False)"

lemma isK8s_simps [simp]:
  "isK8s (K8s x)" "isK8s (SetToken t)" "isK8s NewLinodeClient" "\<not> isK8s (Runtime r)" "\<not> isK8s (FW a)" "\<not> isK8s (VPC b)" "\<not> isK8s (PG p)"
  "\<not> isK8s (INST i)" "\<not> isK8s (S3 o3)" "isK8s (SetDomainsToken t)" "isK8s NewEdgeDNSClient"
  "\<not> isK8s (NB n)" "\<not> isK8s (DNS d)" "\<not> isK8s (AKAM k)" "\<not> isK8s (OBJ j)"
  by (simp_all add: isK8s_def)

lemma isRuntime_simps [simp]:
  "isRuntime (Runtime r)" "\<not> isRuntime (K8s x)" "\<not> isRuntime (SetToken t)" "\<not> isRuntime NewLinodeClient"
  "\<not> isRuntime (FW a)" "\<not> isRuntime (VPC b)" "\<not> isRuntime (PG p)"
  "\<not> isRuntime (INST i)" "\<not> isRuntime (S3 o3)" "\<not> isRuntime (SetDomainsToken t)" "\<not> isRuntime NewEdgeDNSClient"
  "\<not> isRuntime (NB n)" "\<not> isRuntime (DNS d)" "\<not> isRuntime (AKAM k)" "\<not> isRuntime (OBJ j)"
  by (simp_all add: isRuntime_def)


subsection \<open>Invariants of the history\<close>

text \<open>
  \<open>histInv I\<close>: a property \<open>I\<close> of histories that holds before still holds after. A safety property says
  of every request in a history that what came before it allowed it.
\<close>

definition histInv :: "(hist \<Rightarrow> bool) \<Rightarrow> 'o world \<Rightarrow> 'o world \<Rightarrow> bool" where
  "histInv I s t = (I (tr s) \<longrightarrow> I (tr t))"

interpretation hist: preorder_rel "histInv I"
  by unfold_locales (auto simp: histInv_def)

lemma hist_modify [keeps_rules]: "(\<And>s. tr (f s) = tr s) \<Longrightarrow> keeps (histInv I) (modify f)"
  by (simp add: keeps_def wp_update histInv_def)

lemma hist_perform [keeps_rules]: "(\<And>h. I h \<Longrightarrow> I (c # h)) \<Longrightarrow> keeps (histInv I) (perform c f)"
  by (simp add: keeps_def wp_perform histInv_def)

lemma hist_adds:
  assumes "keeps (adds P) m" and step: "\<And>c h. P c \<Longrightarrow> I h \<Longrightarrow> I (c # h)"
  shows "keeps (histInv I) m"
proof -
  have "I (new @ h)" if "I h" "\<forall>c\<in>set new. P c" for new h
    using that by (induction new) (auto intro: step)
  then show ?thesis
    by (intro keeps_mono [OF assms(1)]) (auto simp: adds_def histInv_def)
qed

lemma wp_withScope [wp_rules]:
  "wp (withScope p m) Q s =
     wp m (\<lambda>r t. Q r \<lparr>obj = obj s, tr = tr t, postRequestCounters = postRequestCounters t, vlanIPsMap = vlanIPsMap t\<rparr>)
       \<lparr>obj = p, tr = tr s, postRequestCounters = postRequestCounters s, vlanIPsMap = vlanIPsMap s\<rparr>"
  by (simp add: wp_def withScope_def split: prod.splits)

lemma hist_withScope [keeps_rules]: "keeps (histInv I) m \<Longrightarrow> keeps (histInv I) (withScope p m)"
  by (rule keepsI, unfold wp_withScope, rule wp_mono, erule keeps_wp) (auto simp: histInv_def)

lemma hist_wp: "keeps (histInv I) m \<Longrightarrow> I (tr u) \<Longrightarrow> wp m (\<lambda>_ t. I (tr t)) u"
  by (rule wp_mono, erule keeps_wp) (simp add: histInv_def)

lemma hist_keepsI: "(\<And>s. I (tr s) \<Longrightarrow> wp m (\<lambda>_ t. I (tr t)) s) \<Longrightarrow> keeps (histInv I) m"
  by (rule keepsI) (fastforce simp: histInv_def wp_def split: prod.splits)

lemmas hist_rules = hist.keeps_all hist_modify hist_perform hist_withScope


subsection \<open>How often an event occurs\<close>

definition countOf :: "(call \<Rightarrow> bool) \<Rightarrow> hist \<Rightarrow> nat" where
  "countOf P h = length (filter P h)"

text \<open>\<open>once P m\<close>: \<open>m\<close> adds at most one event that satisfies \<open>P\<close>.\<close>

definition once :: "(call \<Rightarrow> bool) \<Rightarrow> ('o, 'a) op \<Rightarrow> bool" where
  "once P m = (\<forall>s. wp m (\<lambda>_ t. countOf P (tr t) \<le> Suc (countOf P (tr s))) s)"

lemma countOf_adds: "adds (\<lambda>c. \<not> P c) s t \<Longrightarrow> countOf P (tr t) = countOf P (tr s)"
  by (auto simp: adds_def countOf_def filter_empty_conv)

lemma once_before:
  assumes "keeps (adds (\<lambda>c. \<not> P c)) m" and "\<And>x. once P (f x)"
  shows "once P (State_Monad.bind m f)"
  using assms(2) unfolding once_def
  by (intro allI wp_seq [OF keeps_wp [OF assms(1)]]) (simp add: countOf_adds [symmetric])

lemma once_after:
  assumes "once P m" and "\<And>x. keeps (adds (\<lambda>c. \<not> P c)) (f x)"
  shows "once P (State_Monad.bind m f)"
  unfolding once_def
proof
  fix s
  have "wp m (\<lambda>_ t. countOf P (tr t) \<le> Suc (countOf P (tr s))) s" using assms(1) by (simp add: once_def)
  then show "wp (State_Monad.bind m f) (\<lambda>_ t. countOf P (tr t) \<le> Suc (countOf P (tr s))) s"
    by (rule wp_seq) (auto dest: countOf_adds intro!: wp_mono [OF keeps_wp [OF assms(2)]])
qed

lemma once_keeps: "keeps (adds (\<lambda>c. \<not> P c)) m \<Longrightarrow> once P m"
  unfolding once_def by (auto dest: countOf_adds intro!: wp_mono [OF keeps_wp])

lemma once_if: "once P m \<Longrightarrow> once P n \<Longrightarrow> once P (if b then m else n)"
  by simp

lemma once_beforeE:
  assumes "keeps (adds (\<lambda>c. \<not> P c)) m" and "\<And>x. once P (f x)"
  shows "once P (bindE m f)"
  unfolding bindE_def
  by (intro once_before assms) (auto split: sum.splits intro: assms once_keeps adds.keeps_return)

lemma once_afterE:
  assumes "once P m" and "\<And>x. keeps (adds (\<lambda>c. \<not> P c)) (f x)"
  shows "once P (bindE m f)"
  unfolding bindE_def
  by (intro once_after assms) (auto split: sum.splits intro: assms adds.keeps_return)

lemma once_perform: "once P (perform c f)"
  by (simp add: once_def wp_perform countOf_def)


section \<open>A concrete environment\<close>

text \<open>
  An environment in which every question to a service has the answer \<open>not found\<close>, every request
  succeeds, the clock stands still and the finalizer functions are the documented ones. The
  witnesses start from it and change the answers they need.
\<close>

definition errNotFound :: error where "errNotFound = ErrExt 404 ''not found'' None"

definition rt0 :: runtime_env where
  "rt0 = \<lparr>rt_Now = (\<lambda>_. 0), rt_Rand = (\<lambda>_. 0), rt_MapOrder = (\<lambda>_. []), rt_UUID = (\<lambda>_. ''uuid''), rt_CtxErr = (\<lambda>_. None)\<rparr>"

definition lib0 :: lib_env where
  "lib0 = \<lparr>lib_ErrHasStatus = (\<lambda>e cs. case e of Some (ErrExt c _ _) \<Rightarrow> c \<in> set cs | _ \<Rightarrow> False),
     lib_ErrorFromError = 2,
     lib_APIErrorIs = (\<lambda>c e. case e of Some (ErrExt d _ _) \<Rightarrow> c = d | _ \<Rightarrow> False),
     lib_IsNotFound = (\<lambda>e. e = Some errNotFound), lib_IsConflict = (\<lambda>_. False),
     lib_FilterOutNotFound = (\<lambda>e. if e = Some errNotFound then None else e),
     lib_AddFinalizer = (\<lambda>fs f. if f \<in> set fs then (fs, False) else (fs @ [f], True)),
     lib_RemoveFinalizer = (\<lambda>fs f. filter (\<lambda>x. x \<noteq> f) fs), lib_ContainsFinalizer = (\<lambda>fs f. f \<in> set fs),
     lib_SetControllerReference = (\<lambda>_ om. Inr (om_OwnerReferences om)), lib_RetrySteps = 4,
     lib_SHA256Hex = (\<lambda>t. t), lib_LabelRequirementError = (\<lambda>_. None),
     lib_ScaledMega = (\<lambda>b. - ((- b) div 1000000)), lib_Gzip = Inr,
     lib_S3ErrorCode = (\<lambda>e. case e of ErrExt c _ _ \<Rightarrow> if c = 404 then Some ''NotFound'' else None | _ \<Rightarrow> None),
     lib_GetControllerOf = (\<lambda>_. None), lib_HasUnhealthyControlPlaneComponents = (\<lambda>_ _. False),
     lib_IsControlPlaneMachine = (\<lambda>_. True), lib_TemplateParse = (\<lambda>_. None), lib_TemplateExecute = (\<lambda>t _. Inr t),
     lib_SetKeyControllerReference = (\<lambda>_ om. Inr (om_OwnerReferences om)),
     lib_QuantityString = Itoa, lib_LinodeToken = ''token''\<rparr>"

definition k8s0 :: k8s_env where
  "k8s0 = \<lparr>k_GetFirewall = (\<lambda>_ _. Inl errNotFound), k_GetFirewallRule = (\<lambda>_ _. Inl errNotFound),
     k_GetAddressSet = (\<lambda>_ _. Inl errNotFound), k_GetVPC = (\<lambda>_ _. Inl errNotFound), k_GetPlacementGroup = (\<lambda>_ _. Inl errNotFound),
     k_GetCluster = (\<lambda>_ _. Inl errNotFound), k_GetMachine = (\<lambda>_ _. Inl errNotFound), k_GetSecret = (\<lambda>_ _. Inl errNotFound),
     k_ListFirewalls = (\<lambda>_. Inr []), k_ListMachines = (\<lambda>_ _ _. Inr []), k_Update = (\<lambda>_ _. Inr meta0), k_Patch = (\<lambda>_ _. None),
     k_Delete = (\<lambda>_ _. None), k_GetClusterFromMetadata = (\<lambda>_ _. Inl errNotFound), k_NewHelper = (\<lambda>_ _. None),
     k_NewLinodeClient = (\<lambda>_. None), k_GetKey = (\<lambda>_ _. Inl errNotFound), k_GetBucket = (\<lambda>_ _. Inl errNotFound),
     k_EnsurePaused = (\<lambda>_ _ _. ([], Inr False)), k_GetOwnerMachine = (\<lambda>_ _. Inr None), k_GetOwnerCluster = (\<lambda>_ _. Inr None),
     k_ListCAPIMachines = (\<lambda>_ _ _. Inr []), k_NewEdgeDNSClient = (\<lambda>_. None), k_GetMachineTemplate = (\<lambda>_ _. Inl errNotFound),
     k_GetKCPEtcdExternal = (\<lambda>_ _. Inl errNotFound), k_CreateOrUpdateSecret = (\<lambda>_ _. None)\<rparr>"

definition fwe0 :: firewall_env where
  "fwe0 = \<lparr>fwe_CreateFirewall = (\<lambda>_ n _. (Some \<lparr>lf_ID = 1, lf_Label = n\<rparr>, None)), fwe_GetFirewall = (\<lambda>_ i. (Some \<lparr>lf_ID = i, lf_Label = []\<rparr>, None)),
     fwe_ListFirewalls = (\<lambda>_ _. Inr []), fwe_UpdateFirewall = (\<lambda>_ _ _. None), fwe_UpdateFirewallRules = (\<lambda>_ _ _. None),
     fwe_DeleteFirewall = (\<lambda>_ _. None)\<rparr>"

definition vpe0 :: vpc_env where
  "vpe0 = \<lparr>vpe_GetVPC = (\<lambda>_ _. Inl errNotFound), vpe_ListVPCs = (\<lambda>_ _. Inr []), vpe_CreateVPC = (\<lambda>_ _. Inl errNotFound),
     vpe_UpdateVPC = (\<lambda>_ _ _. None), vpe_DeleteVPC = (\<lambda>_ _. None), vpe_CreateVPCSubnet = (\<lambda>_ _ _. Inl errNotFound),
     vpe_DeleteVPCSubnet = (\<lambda>_ _ _. None)\<rparr>"

definition pge0 :: pg_env where
  "pge0 = \<lparr>pge_GetPlacementGroup = (\<lambda>_ _. (None, Some errNotFound)), pge_ListPlacementGroups = (\<lambda>_ _. Inr []),
     pge_CreatePlacementGroup = (\<lambda>_ _. (None, Some errNotFound)), pge_DeletePlacementGroup = (\<lambda>_ _. None)\<rparr>"

definition ine0 :: instance_env where
  "ine0 = \<lparr>ine_GetInstanceIPAddresses = (\<lambda>_ _. Inl errNotFound), ine_ListInstances = (\<lambda>_ _. Inr []),
     ine_CreateInstance = (\<lambda>_ _. (None, Inr \<lparr>inst_ID = 1, inst_Status = ''provisioning'', inst_Tags = [], inst_Updated = 0\<rparr>)),
     ine_BootInstance = (\<lambda>_ _. None), ine_ListInstanceConfigs = (\<lambda>_ _. Inr []), ine_UpdateInstanceConfig = (\<lambda>_ _ _ _. None),
     ine_UpdateInstance = (\<lambda>_ _ _. None), ine_CreateInstanceDisk = (\<lambda>_ _ _. Inr 1), ine_GetInstance = (\<lambda>_ _. Inl errNotFound),
     ine_DeleteInstance = (\<lambda>_ _. None), ine_GetRegion = (\<lambda>_ _. None), ine_RegionCapabilities = (\<lambda>_ _. []), ine_GetImage = (\<lambda>_ _. None), ine_GetTypeDisk = (\<lambda>_ _. Inr 81920),
     ine_ListInstanceFirewalls = (\<lambda>_ _. Inr []), ine_UpdateInstanceFirewalls = (\<lambda>_ _ _. None),
     ine_ListInterfaces = (\<lambda>_ _. Inr []), ine_ListInterfaceFirewalls = (\<lambda>_ _ _. Inr [])\<rparr>"

definition s3e0 :: s3_env where
  "s3e0 = \<lparr>s3_Clients = (\<lambda>_ _. Inr (True, True)), s3_PutObject = (\<lambda>_ _ _ _. None), s3_PresignGetObject = (\<lambda>_ _ _ _. Inr (Some ''https://'')),
     s3_HeadObject = (\<lambda>_ _ _. None), s3_DeleteObject = (\<lambda>_ _ _. None),
     s3_AccessKeyClient = (\<lambda>_ _. None), s3_GetBucketVersioning = (\<lambda>_ _. Inr []), s3_HasMorePages = (\<lambda>_. False),
     s3_NextPage = (\<lambda>_ _. Inr []), s3_NextVersionPage = (\<lambda>_ _ _. (None, Some errNotFound)), s3_DeleteObjects = (\<lambda>_ _ _ _. None)\<rparr>"

definition nbe0 :: nb_env where
  "nbe0 = \<lparr>nbe_CreateNodeBalancer = (\<lambda>_ _. (Some \<lparr>lnb_ID = 1, lnb_IPv4 = Some ''192.0.2.1''\<rparr>, None)),
     nbe_GetNodeBalancer = (\<lambda>_ i. (Some \<lparr>lnb_ID = i, lnb_IPv4 = Some ''192.0.2.1''\<rparr>, None)), nbe_ListNodeBalancers = (\<lambda>_ _. Inr []),
     nbe_ListNodeBalancerNodes = (\<lambda>_ _ _. Inr []), nbe_GetNodeBalancerConfig = (\<lambda>_ _ i. Inr \<lparr>ncf_ID = i, ncf_Port = 6443\<rparr>),
     nbe_CreateNodeBalancerConfig = (\<lambda>_ _ opts. Inr \<lparr>ncf_ID = nco_Port opts, ncf_Port = nco_Port opts\<rparr>),
     nbe_DeleteNodeBalancerNode = (\<lambda>_ _ _ _. None), nbe_DeleteNodeBalancer = (\<lambda>_ _. None),
     nbe_CreateNodeBalancerNode = (\<lambda>_ _ _ _. None)\<rparr>"

definition dne0 :: dns_env where
  "dne0 = \<lparr>dne_ListDomains = (\<lambda>_ _. Inr []), dne_ListDomainRecords = (\<lambda>_ _ _. Inr []), dne_CreateDomainRecord = (\<lambda>_ _ _. None),
     dne_DeleteDomainRecord = (\<lambda>_ _ _. None)\<rparr>"

definition ake0 :: akam_env where
  "ake0 = \<lparr>ake_GetRecord = (\<lambda>_ _ _ _. (None, Some (ErrExt 404 ''Not Found'' None))), ake_CreateRecord = (\<lambda>_ _ _. None),
     ake_UpdateRecord = (\<lambda>_ _ _. None), ake_DeleteRecord = (\<lambda>_ _ _ _. None)\<rparr>"

definition obe0 :: obj_env where
  "obe0 = \<lparr>obe_GetBucket = (\<lambda>_ _ _. (None, Some errNotFound)),
     obe_CreateBucket = (\<lambda>_ opts. Inr \<lparr>lbk_Label = lbo_Label opts, lbk_Region = lbo_Region opts, lbk_Hostname = lbo_Label opts, lbk_Created = Some 0\<rparr>),
     obe_GetBucketAccess = (\<lambda>_ _ _. (None, Some errNotFound)), obe_UpdateBucketAccess = (\<lambda>_ _ _ _. None),
     obe_GetKey = (\<lambda>_ _. Inl errNotFound), obe_CreateKey = (\<lambda>_ _. Inr \<lparr>lky_ID = 1, lky_AccessKey = ''a'', lky_SecretKey = ''s''\<rparr>),
     obe_DeleteKey = (\<lambda>_ _. None), obe_DeleteBucket = (\<lambda>_ _ _. None)\<rparr>"

definition env0 :: env where
  "env0 = \<lparr>rt = rt0, lib = lib0, k8s = k8s0, fwe = fwe0, vpe = vpe0, pge = pge0, ine = ine0, s3e = s3e0,
     nbe = nbe0, dne = dne0, ake = ake0, obe = obe0\<rparr>"

lemmas env0_defs = env0_def rt0_def lib0_def k8s0_def fwe0_def vpe0_def pge0_def ine0_def s3e0_def
  nbe0_def dne0_def ake0_def obe0_def

definition start :: "'o \<Rightarrow> 'o world" where
  "start x = \<lparr>obj = x, tr = [], postRequestCounters = Map.empty, vlanIPsMap = Map.empty\<rparr>"

lemma start_simps [simp]:
  "obj (start x) = x" "tr (start x) = []" "postRequestCounters (start x) = Map.empty" "vlanIPsMap (start x) = Map.empty"
  by (simp_all add: start_def)

end
