(* ===== verification/Util.thy ===== *)
theory Util
  imports World
begin

text \<open>
  The package \<open>util\<close> without the VLAN addresses: error classification and provider IDs
  (\<open>helpers.go\<close>), list filters (\<open>filter.go\<close>), the POST rate limit (\<open>ratelimits.go\<close>), and the delays and
  staleness tests of \<open>util/reconciler\<close>.
\<close>

section \<open>Errors\<close>

fun IgnoreLinodeAPIError :: "env \<Rightarrow> error option \<Rightarrow> int list \<Rightarrow> error option" where
  "IgnoreLinodeAPIError E err [] = err"
| "IgnoreLinodeAPIError E err (code # codes) =
     (if lib_APIErrorIs (lib E) code err then None else IgnoreLinodeAPIError E err codes)"

text \<open>
  \<open>errors.As(err, &wrappedErr)\<close> in \<open>UnwrapError\<close>: some error of the tree has a method
  \<open>Unwrap() error\<close>. An error made by \<open>errors.Join\<close> has not, but its children are searched.
\<close>

fun hasUnwrap :: "error \<Rightarrow> bool" where
  "hasUnwrap (ErrWrap _ _) = True"
| "hasUnwrap (ErrExt _ _ (Some _)) = True"
| "hasUnwrap (ErrJoin es) = (\<exists>e\<in>set es. hasUnwrap e)"
| "hasUnwrap _ = False"

function UnwrapError :: "error option \<Rightarrow> error option" where
  "UnwrapError None = None"
| "UnwrapError (Some e) = (if hasUnwrap e then UnwrapError (errors_Unwrap e) else Some e)"
  by pat_completeness auto
termination
  by (relation "measure (\<lambda>x. case x of None \<Rightarrow> 0 | Some e \<Rightarrow> Suc (size e))")
    (auto split: option.splits dest: size_errors_Unwrap)

lemma IgnoreLinodeAPIError_ok [simp]: "IgnoreLinodeAPIError E None cs = None"
  by (induction cs) simp_all

definition StatusNotFound :: int where "StatusNotFound = 404"
definition StatusBadRequest :: int where "StatusBadRequest = 400"

definition retryableCodes :: "env \<Rightarrow> int list" where
  "retryableCodes E = [429, 500, 502, 504, 503, 408, lib_ErrorFromError (lib E)]"

definition IsRetryableError :: "env \<Rightarrow> error option \<Rightarrow> bool" where
  "IsRetryableError E err =
     (lib_ErrHasStatus (lib E) err (retryableCodes E) \<or> errors_Is err ErrHandlerTimeout
      \<or> errors_Is err ErrDeadlineExceeded \<or> errors_Is err ErrUnexpectedEOF)"

definition IgnoreNotFound :: "env \<Rightarrow> error option \<Rightarrow> error option" where
  "IgnoreNotFound E err = (if lib_IsNotFound (lib E) err then None else err)"

lemma UnwrapError_hasUnwrap: "UnwrapError x = Some e \<Longrightarrow> \<not> hasUnwrap e"
  by (induction x rule: UnwrapError.induct) (auto split: if_splits)


section \<open>Provider IDs and tags\<close>

definition GetInstanceID :: "string option \<Rightarrow> int \<times> error option" where
  "GetInstanceID providerID =
     (case providerID of
        None \<Rightarrow> (- 1, Some (ErrNew ''nil ProviderID''))
      | Some p \<Rightarrow> (case Atoi (TrimPrefix p ''linode://'') of
            Inl e \<Rightarrow> (- 1, Some e)
          | Inr i \<Rightarrow> (i, None)))"

definition GetAutoGenTags :: "LinodeCluster option \<Rightarrow> string list" where
  "GetAutoGenTags cluster = (case cluster of None \<Rightarrow> []
     | Some c \<Rightarrow> if om_Name (lc_Meta c) = [] then [] else [om_Name (lc_Meta c)])"

definition IsLinodePrivateIP :: "string \<Rightarrow> bool" where
  "IsLinodePrivateIP ipAddress =
     (let ip = ParseIP ipAddress in ip \<noteq> [] \<and> IPNet_Contains [192, 168, 128, 0] 17 ip)"

text \<open>
  \<open>SetOwnerReferenceToLinodeCluster\<close> works on the metadata of any object; \<open>mk\<close> makes the object to
  store from its metadata. It returns the metadata after the call beside the error.
\<close>

definition SetOwnerReferenceToLinodeCluster ::
  "env \<Rightarrow> Cluster option \<Rightarrow> (ObjectMeta \<Rightarrow> kobj) \<Rightarrow> ObjectMeta \<Rightarrow> ('o, ObjectMeta \<times> error option) op" where
  "SetOwnerReferenceToLinodeCluster E cluster mk om =
     (case cluster of None \<Rightarrow> ret (om, None)
      | Some cl \<Rightarrow>
        if cl_InfrastructureRefName cl = [] then ret (om, None)
        else do {
          let key = \<lparr>nn_Namespace = om_Namespace (cl_Meta cl), nn_Name = cl_InfrastructureRefName cl\<rparr>;
          r \<leftarrow> perform (K8s (KGet KCluster key)) (\<lambda>h. k_GetCluster (k8s E) h key);
          (case r of
             Inl err \<Rightarrow> ret (om, IgnoreNotFound E (Some err))
           | Inr linodeCluster \<Rightarrow>
             (case lib_SetControllerReference (lib E) linodeCluster om of
                Inl err \<Rightarrow> ret (om, Some err)
              | Inr refs \<Rightarrow> do {
                  let om' = om\<lparr>om_OwnerReferences := refs\<rparr>;
                  u \<leftarrow> perform (K8s (KUpdate (mk om'))) (\<lambda>h. k_Update (k8s E) h (mk om'));
                  ret (case u of Inl err \<Rightarrow> (om', Some err) | Inr om'' \<Rightarrow> (om'', None))
                }))
        })"


section \<open>Filters\<close>

record Filter =
  fl_ID :: "int option"
  fl_Label :: string
  fl_Tags :: "string list"
  fl_AdditionalFilters :: "(string \<times> string) list"

text \<open>
  \<open>json.Marshal\<close> of a map with string keys: the keys in increasing order, strings escaped as
  \<open>encoding/json\<close> does (bytes above 127 are copied, as for valid UTF-8).
\<close>

definition hexDigit :: "nat \<Rightarrow> char" where
  "hexDigit n = (if n < 10 then char_of (48 + n) else char_of (87 + n))"

definition jsonChar :: "char \<Rightarrow> string" where
  "jsonChar c = (let n = of_char c :: nat in
     if n = 34 then [char_of (92::nat), char_of (34::nat)] else if n = 92 then [char_of (92::nat), char_of (92::nat)]
     else if n = 8 then char_of (92::nat) # ''b'' else if n = 12 then char_of (92::nat) # ''f''
     else if n = 10 then char_of (92::nat) # ''n'' else if n = 13 then char_of (92::nat) # ''r''
     else if n = 9 then char_of (92::nat) # ''t''
     else if n < 32 \<or> n = 60 \<or> n = 62 \<or> n = 38 then char_of (92::nat) # ''u00'' @ [hexDigit (n div 16), hexDigit (n mod 16)]
     else [c])"

definition jsonString :: "string \<Rightarrow> string" where
  "jsonString s = char_of (34::nat) # concat (map jsonChar s) @ [char_of (34::nat)]"

fun strLess :: "string \<Rightarrow> string \<Rightarrow> bool" where
  "strLess _ [] = False"
| "strLess [] (_ # _) = True"
| "strLess (a # as) (b # bs) = ((of_char a :: nat) < of_char b \<or> (a = b \<and> strLess as bs))"

text \<open>A map as an association list in key order: assignment replaces or inserts.\<close>

fun mapAssign :: "string \<Rightarrow> string \<Rightarrow> (string \<times> string) list \<Rightarrow> (string \<times> string) list" where
  "mapAssign k v [] = [(k, v)]"
| "mapAssign k v ((k', v') # m) = (if k = k' then (k, v) # m
     else if strLess k k' then (k, v) # (k', v') # m else (k', v') # mapAssign k v m)"

definition jsonMap :: "(string \<times> string) list \<Rightarrow> string" where
  "jsonMap m = ''{'' @ strings_Join (map (\<lambda>(k, v). jsonString k @ '':'' @ jsonString v) m) '','' @ ''}''"

definition filterFields :: "Filter \<Rightarrow> (string \<times> string) list" where
  "filterFields f =
     (let base = (if fl_ID f \<noteq> None then mapAssign ''id'' (Itoa (the (fl_ID f))) []
        else if fl_Label f \<noteq> [] then mapAssign ''label'' (fl_Label f) []
        else if fl_Tags f \<noteq> [] then mapAssign ''tags'' (strings_Join (fl_Tags f) '','') [] else [])
      in fold (\<lambda>(k, v). mapAssign k v) (fl_AdditionalFilters f) base)"

definition Filter_MarshalJSON :: "Filter \<Rightarrow> string res" where
  "Filter_MarshalJSON f = Inr (jsonMap (filterFields f))"

definition Filter_String :: "Filter \<Rightarrow> string res" where
  "Filter_String f = (case Filter_MarshalJSON f of Inl e \<Rightarrow> Inl e | Inr p \<Rightarrow> Inr p)"

definition filterOf :: "int option \<Rightarrow> string \<Rightarrow> string list \<Rightarrow> Filter" where
  "filterOf i l ts = \<lparr>fl_ID = i, fl_Label = l, fl_Tags = ts, fl_AdditionalFilters = []\<rparr>"

lemma map_of_mapAssign: "map_of (mapAssign k v m) = (map_of m)(k \<mapsto> v)"
  by (induction k v m rule: mapAssign.induct) (auto simp: fun_eq_iff)

lemma map_of_foldAssign:
  "map_of (fold (\<lambda>(k, v). mapAssign k v) kvs m) = map_of m ++ map_of (rev kvs)"
proof (induction kvs arbitrary: m)
  case (Cons kv kvs)
  obtain k v where kv: "kv = (k, v)" by (cases kv)
  show ?case unfolding kv
    by (simp add: Cons.IH map_of_mapAssign map_add_def fun_eq_iff split: option.splits)
qed simp


section \<open>The POST rate limit\<close>

definition ApiResponseRatelimitCounter ::
  "HttpResponse option \<Rightarrow> PostRequestCounter \<Rightarrow> PostRequestCounter \<times> error option" where
  "ApiResponseRatelimitCounter resp c =
     (case resp of None \<Rightarrow> (c, None)
      | Some r \<Rightarrow>
        if hr_Method r \<noteq> ''POST'' \<or> \<not> HasSuffix (hr_Path r) ''/linode/instances'' then (c, None)
        else let (n, err) = AtoiPair (hr_Remaining r); c1 = c\<lparr>prc_ReqRemaining := n\<rparr> in
          if err \<noteq> None then (c1, err)
          else case Atoi (hr_Reset r) of
              Inl e \<Rightarrow> (c1, Some e)
            | Inr epochTime \<Rightarrow> (c1\<lparr>prc_RefreshTime := time_Unix epochTime\<rparr>, None))"

definition IsPOSTLimitReached :: "gotime \<Rightarrow> PostRequestCounter \<Rightarrow> bool" where
  "IsPOSTLimitReached now c = (now < prc_RefreshTime c \<and> prc_ReqRemaining c = 0)"

definition RetryAfter :: "gotime \<Rightarrow> PostRequestCounter \<Rightarrow> duration" where
  "RetryAfter now c = (if prc_RefreshTime c < now then 0
     else wrap64 (Time_Sub (prc_RefreshTime c) now + second))"

definition GetPostReqCounter :: "string \<Rightarrow> ('o, PostRequestCounter) op" where
  "GetPostReqCounter tokenHash = do {
     s \<leftarrow> State_Monad.get;
     case postRequestCounters s tokenHash of
       Some ctr \<Rightarrow> ret ctr
     | None \<Rightarrow> do {
         let ctr = \<lparr>prc_ReqRemaining = 1, prc_RefreshTime = zeroTime\<rparr>;
         _ \<leftarrow> modify (postRequestCounters_update (\<lambda>m. m(tokenHash \<mapsto> ctr)));
         ret ctr
       }
   }"


section \<open>Delays and timeouts\<close>

definition DefaultLoopTimeout :: duration where "DefaultLoopTimeout = 90 * minute"
definition DefaultMappingTimeout :: duration where "DefaultMappingTimeout = 60 * second"
definition DefaultMachineControllerLinodeImage :: string where
  "DefaultMachineControllerLinodeImage = ''linode/ubuntu22.04''"
definition DefaultMachineControllerWaitForRunningDelay :: duration where
  "DefaultMachineControllerWaitForRunningDelay = 25 * second"
definition DefaultMachineControllerWaitForPreflightTimeout :: duration where
  "DefaultMachineControllerWaitForPreflightTimeout = 5 * minute"
definition DefaultMachineControllerWaitForRunningTimeout :: duration where
  "DefaultMachineControllerWaitForRunningTimeout = 20 * minute"
definition DefaultMachineControllerRetryDelay :: duration where
  "DefaultMachineControllerRetryDelay = 8 * second"
definition DefaultLinodeTooManyRequestsErrorRetryDelay :: duration where
  "DefaultLinodeTooManyRequestsErrorRetryDelay = minute"
definition DefaultVPCControllerReconcileDelay :: duration where
  "DefaultVPCControllerReconcileDelay = 3 * second"
definition DefaultVPCControllerReconcileTimeout :: duration where
  "DefaultVPCControllerReconcileTimeout = 20 * minute"
definition DefaultVPCControllerWaitForHasNodesTimeout :: duration where
  "DefaultVPCControllerWaitForHasNodesTimeout = 20 * minute"
definition DefaultPGControllerReconcilerDelay :: duration where
  "DefaultPGControllerReconcilerDelay = 3 * second"
definition DefaultPGControllerReconcileTimeout :: duration where
  "DefaultPGControllerReconcileTimeout = 20 * minute"
definition DefaultPGControllerWaitForHasNodesTimeout :: duration where
  "DefaultPGControllerWaitForHasNodesTimeout = 20 * minute"
definition DefaultFWControllerReconcilerDelay :: duration where
  "DefaultFWControllerReconcilerDelay = 3 * second"
definition DefaultFWControllerReconcileTimeout :: duration where
  "DefaultFWControllerReconcileTimeout = 20 * minute"
definition DefaultClusterControllerReconcileDelay :: duration where
  "DefaultClusterControllerReconcileDelay = 3 * second"
definition DefaultClusterControllerReconcileTimeout :: duration where
  "DefaultClusterControllerReconcileTimeout = 20 * minute"
definition DefaultObjectStorageBucketControllerReconcileDelay :: duration where
  "DefaultObjectStorageBucketControllerReconcileDelay = 3 * second"
definition DefaultDNSTTLSec :: int where "DefaultDNSTTLSec = 30"

definition DefaultedLoopTimeout :: "duration \<Rightarrow> duration" where
  "DefaultedLoopTimeout timeout = (if timeout \<le> 0 then DefaultLoopTimeout else timeout)"

definition DefaultTimeout :: "duration \<Rightarrow> duration \<Rightarrow> duration" where
  "DefaultTimeout timeout backup = (if timeout \<le> 0 then backup else timeout)"

text \<open>
  The jitter is \<open>time.Duration(float64(base) * 0.4)\<close>. The double nearest to 0.4 is larger than 0.4 by
  less than 2^-55, so for \<open>0 \<le> base < 2^48\<close> (three days; every delay of the program is at most
  a minute) the truncated product is the integer below.
\<close>

definition maxJitter :: "duration \<Rightarrow> duration" where
  "maxJitter base = (4 * base) div 10"

definition WithJitter :: "env \<Rightarrow> duration \<Rightarrow> ('o, duration) op" where
  "WithJitter E base = do { j \<leftarrow> randInt64N E (maxJitter base + 1); ret (base + j) }"

definition HasStaleCondition :: "env \<Rightarrow> Condition option \<Rightarrow> duration \<Rightarrow> ('o, bool) op" where
  "HasStaleCondition E cond timeout =
     (case cond of None \<Rightarrow> ret False
      | Some c \<Rightarrow> do { now \<leftarrow> timeNow E; ret (cd_LastTransitionTime c + timeout < now) })"

definition ConditionTrue :: "Condition option \<Rightarrow> bool" where
  "ConditionTrue cond = (case cond of None \<Rightarrow> False | Some c \<Rightarrow> cd_Status c = statusTrue)"

lemma wp_WithJitter [wp_rules]:
  "wp (WithJitter E base) Q s =
     Q (base + rt_Rand (rt E) (tr s) mod (maxJitter base + 1)) (s\<lparr>tr := Runtime (RandInt64N (maxJitter base + 1)) # tr s\<rparr>)"
  by (simp add: WithJitter_def wp_rules)

lemma wp_HasStaleCondition_Some [wp_rules]:
  "wp (HasStaleCondition E (Some c) timeout) Q s =
     Q (cd_LastTransitionTime c + timeout < rt_Now (rt E) (tr s)) (s\<lparr>tr := Runtime TimeNow # tr s\<rparr>)"
  by (simp add: HasStaleCondition_def wp_rules)

lemma wp_HasStaleCondition_None [wp_rules]: "wp (HasStaleCondition E None timeout) Q s = Q False s"
  by (simp add: HasStaleCondition_def wp_rules)

lemma adds_WithJitter [keeps_rules]: "(\<And>n. P (Runtime (RandInt64N n))) \<Longrightarrow> keeps (adds P) (WithJitter E base)"
  unfolding WithJitter_def by (intro adds_rules)

lemma adds_HasStaleCondition [keeps_rules]: "P (Runtime TimeNow) \<Longrightarrow> keeps (adds P) (HasStaleCondition E c timeout)"
  unfolding HasStaleCondition_def by (cases c) (auto intro!: adds_rules)

lemma jitter_bounds:
  assumes "0 \<le> base"
  shows "0 \<le> r mod (maxJitter base + 1)" "r mod (maxJitter base + 1) \<le> maxJitter base"
proof -
  have "0 < maxJitter base + 1" using assms by (simp add: maxJitter_def)
  then show "0 \<le> r mod (maxJitter base + 1)" "r mod (maxJitter base + 1) \<le> maxJitter base"
    using pos_mod_bound [of "maxJitter base + 1" r] by auto
qed

text \<open>The delay of three seconds, which most controllers use, grows by at most 1.2 s.\<close>

lemma jitter_3s [simp]:
  "0 \<le> r mod (maxJitter (3 * second) + 1)" "r mod (maxJitter (3 * second) + 1) \<le> 1200000000"
  using jitter_bounds [of "3 * second" r] by (simp_all add: maxJitter_def second_def)


section \<open>Properties\<close>

lemma GetInstanceID_Itoa:
  assumes "int64 i"
  shows "GetInstanceID (Some (''linode://'' @ Itoa i)) = (i, None)" and "GetInstanceID (Some (Itoa i)) = (i, None)"
proof -
  have "TrimPrefix (Itoa i) ''linode://'' = Itoa i"
    using showNat_digits [of "nat \<bar>i\<bar>"] isDigit_not_sign
    by (cases "showNat (nat \<bar>i\<bar>)") (auto simp: TrimPrefix_def HasPrefix_def Itoa_def isDigit_def)
  then show "GetInstanceID (Some (''linode://'' @ Itoa i)) = (i, None)" "GetInstanceID (Some (Itoa i)) = (i, None)"
    using assms TrimPrefix_append [of "''linode://''" "Itoa i"] by (simp_all add: GetInstanceID_def Atoi_Itoa)
qed

text \<open>
An instance ID survives the round trip through the provider ID \<open>linode://<id>\<close>, and it is read back
from the bare number as well.
\<close>

theorem GetInstanceID_roundtrip:
  assumes "int64 i"
  shows "GetInstanceID (Some (''linode://'' @ Itoa i)) = (i, None) \<and> GetInstanceID (Some (Itoa i)) = (i, None)"
  using GetInstanceID_Itoa [OF assms] by simp

theorem GetInstanceID_roundtrip_witness:
  "GetInstanceID (Some (''linode://'' @ Itoa 42)) = (42, None) \<and> GetInstanceID (Some (Itoa 42)) = (42, None)"
  by (rule GetInstanceID_roundtrip) (simp add: int64_def)

text \<open>
The answer to a request that creates an instance sets the limit: until the reset time no further
request is allowed exactly when no request remains, and a caller who then waits for \<open>RetryAfter\<close> is past
the limit again. The reset time is less than 292 years away, so that the wait does not wrap around.
\<close>

theorem ratelimit_roundtrip:
  assumes resp: "resp = \<lparr>hr_Method = ''POST'', hr_Path = p @ ''/linode/instances'', hr_Remaining = Itoa n, hr_Reset = Itoa t\<rparr>"
    and range: "int64 n" "int64 t"
    and near: "time_Unix t - now < 2 ^ 63 - second"
  shows "(case ApiResponseRatelimitCounter (Some resp) c of (c', err) \<Rightarrow>
    err = None \<and> IsPOSTLimitReached now c' = (n = 0 \<and> now < time_Unix t) \<and>
    \<not> IsPOSTLimitReached (now + RetryAfter now c') c' \<and> 0 \<le> RetryAfter now c')"
proof -
  have "HasSuffix (p @ ''/linode/instances'') ''/linode/instances''" by (rule HasSuffix_append)
  then have c: "ApiResponseRatelimitCounter (Some resp) c = (\<lparr>prc_ReqRemaining = n, prc_RefreshTime = time_Unix t\<rparr>, None)"
    using range by (simp add: ApiResponseRatelimitCounter_def resp AtoiPair_def Atoi_Itoa)
  have "RetryAfter now \<lparr>prc_ReqRemaining = n, prc_RefreshTime = time_Unix t\<rparr> = time_Unix t - now + second"
    if "now \<le> time_Unix t"
    using that near by (simp add: RetryAfter_def Time_Sub_def int64_def second_def)
  then show ?thesis
    unfolding c by (cases "now \<le> time_Unix t") (auto simp: IsPOSTLimitReached_def second_def, auto simp: RetryAfter_def)
qed

theorem ratelimit_roundtrip_witness:
  "(case ApiResponseRatelimitCounter (Some \<lparr>hr_Method = ''POST'', hr_Path = ''/v4'' @ ''/linode/instances'', hr_Remaining = Itoa 0, hr_Reset = Itoa 60\<rparr>)
      \<lparr>prc_ReqRemaining = 1, prc_RefreshTime = zeroTime\<rparr> of (c', err) \<Rightarrow>
    err = None \<and> IsPOSTLimitReached 0 c' = ((0::int) = 0 \<and> 0 < time_Unix 60) \<and>
    \<not> IsPOSTLimitReached (0 + RetryAfter 0 c') c' \<and> 0 \<le> RetryAfter 0 c')"
  by (rule ratelimit_roundtrip [OF refl]) (simp_all add: int64_def time_defs)

text \<open>
A delay with jitter is at least the base and at most 1.4 times the base.
\<close>

theorem WithJitter_bounds:
  assumes "0 \<le> base"
  shows "wp (WithJitter E base) (\<lambda>d _. base \<le> d \<and> 10 * d \<le> 14 * base) s"
  using jitter_bounds [OF assms, of "rt_Rand (rt E) (tr s)"] by (simp add: wp_WithJitter) (simp add: maxJitter_def)

theorem WithJitter_bounds_witness:
  "wp (WithJitter env0 (3 * second)) (\<lambda>d _. 3 * second \<le> d \<and> 10 * d \<le> 14 * (3 * second)) (start ())"
  by (rule WithJitter_bounds) (simp add: second_def)

text \<open>
The fields of a filter: the ID, else the label, else the tags, and over it the additional filters
(a map, of which the model lists the entries: for a key listed twice the later one would win).
\<close>

theorem filterFields_precedence:
  "map_of (filterFields f) =
     (case fl_ID f of Some i \<Rightarrow> [''id'' \<mapsto> Itoa i]
      | None \<Rightarrow> if fl_Label f \<noteq> [] then [''label'' \<mapsto> fl_Label f]
          else if fl_Tags f \<noteq> [] then [''tags'' \<mapsto> strings_Join (fl_Tags f) '',''] else Map.empty)
     ++ map_of (rev (fl_AdditionalFilters f))"
  by (simp add: filterFields_def map_of_foldAssign map_of_mapAssign split: option.splits)

end
