(* ===== verification/Scope.thy ===== *)
theory Scope
  imports Util
begin

text \<open>
  \<open>cloud/scope\<close>: the scope a controller works in, one record per scope type; the credentials of the
  Linode client, which come from a secret; and the finalizers, on the resource itself and on the
  credentials secret. The finalizer functions of \<open>controllerutil\<close>, \<open>retry.RetryOnConflict\<close>, the patch
  helper and the construction of clients are outside the program.
\<close>

section \<open>Credentials (common.go)\<close>

definition getCredentials :: "env \<Rightarrow> SecretReference \<Rightarrow> string \<Rightarrow> ('o, Secret res) op" where
  "getCredentials E credentialsRef defaultNamespace = do {
     let ns = (if sr_Namespace credentialsRef = [] then defaultNamespace else sr_Namespace credentialsRef);
     let key = \<lparr>nn_Namespace = ns, nn_Name = sr_Name credentialsRef\<rparr>;
     wrapE (''get credentials secret '' @ ns @ ''/'' @ sr_Name credentialsRef @ '': '')
       (perform (K8s (KGet KSecret key)) (\<lambda>h. k_GetSecret (k8s E) h key))
   }"

definition getCredentialDataFromRef :: "env \<Rightarrow> SecretReference \<Rightarrow> string \<Rightarrow> string \<Rightarrow> ('o, string res) op" where
  "getCredentialDataFromRef E credentialsRef defaultNamespace key =
     bindE (getCredentials E credentialsRef defaultNamespace) (\<lambda>credSecret.
       ret (case sec_Data credSecret key of
              None \<Rightarrow> Inl (ErrNew (''no '' @ key @ '' key in credentials secret '' @ sr_Namespace credentialsRef @ ''/'' @ sr_Name credentialsRef))
            | Some rawData \<Rightarrow> Inr rawData))"

definition secretName :: "Secret \<Rightarrow> string" where
  "secretName s = om_Namespace (sec_Meta s) @ ''/'' @ om_Name (sec_Meta s)"

definition addCredentialsFinalizer :: "env \<Rightarrow> SecretReference \<Rightarrow> string \<Rightarrow> string \<Rightarrow> ('o, error option) op" where
  "addCredentialsFinalizer E credentialsRef defaultNamespace finalizer = do {
     r \<leftarrow> getCredentials E credentialsRef defaultNamespace;
     case r of
       Inl err \<Rightarrow> ret (Some err)
     | Inr secret \<Rightarrow> do {
         let secret' = sec_Meta_update (om_Finalizers_update (\<lambda>fs. fst (lib_AddFinalizer (lib E) fs finalizer))) secret;
         u \<leftarrow> perform (K8s (KUpdate (OSecret secret'))) (\<lambda>h. k_Update (k8s E) h (OSecret secret'));
         ret (case u of Inl err \<Rightarrow> Some (ErrWrap (''add finalizer to credentials secret '' @ secretName secret @ '': '') err)
                      | Inr _ \<Rightarrow> None)
       }
   }"

definition removeCredentialsFinalizer :: "env \<Rightarrow> SecretReference \<Rightarrow> string \<Rightarrow> string \<Rightarrow> ('o, error option) op" where
  "removeCredentialsFinalizer E credentialsRef defaultNamespace finalizer = do {
     r \<leftarrow> getCredentials E credentialsRef defaultNamespace;
     case r of
       Inl err \<Rightarrow> ret (IgnoreNotFound E (Some err))
     | Inr secret \<Rightarrow> do {
         let secret' = sec_Meta_update (om_Finalizers_update (\<lambda>fs. lib_RemoveFinalizer (lib E) fs finalizer)) secret;
         u \<leftarrow> perform (K8s (KUpdate (OSecret secret'))) (\<lambda>h. k_Update (k8s E) h (OSecret secret'));
         ret (case u of Inl err \<Rightarrow> Some (ErrWrap (''remove finalizer from credentials secret '' @ secretName secret @ '': '') err)
                      | Inr _ \<Rightarrow> None)
       }
   }"

definition toLowerChar :: "char \<Rightarrow> char" where
  "toLowerChar c = (let n = of_char c :: nat in if 65 \<le> n \<and> n \<le> 90 then char_of (n + 32) else c)"

definition ToLower :: "string \<Rightarrow> string" where
  "ToLower s = map toLowerChar s"

definition toFinalizer :: "ObjectMeta \<Rightarrow> string" where
  "toFinalizer om =
     (if om_Namespace om = [] then ToLower (om_Kind om) @ ''.'' @ om_Group om @ ''/'' @ om_Name om
      else ToLower (om_Kind om) @ ''.'' @ om_Group om @ ''/'' @ om_Namespace om @ ''.'' @ om_Name om)"

definition GetHash :: "env \<Rightarrow> string \<Rightarrow> string" where
  "GetHash E key = lib_SHA256Hex (lib E) key"

text \<open>
  \<open>retry.RetryOnConflict\<close> runs the function again after a conflict, at most as often as its backoff
  allows, and returns its last error.
\<close>

fun RetryOnConflict :: "env \<Rightarrow> nat \<Rightarrow> ('o, error option) op \<Rightarrow> ('o, error option) op" where
  "RetryOnConflict E 0 f = f"
| "RetryOnConflict E (Suc n) f = do {
     err \<leftarrow> f;
     if err \<noteq> None \<and> lib_IsConflict (lib E) err then RetryOnConflict E n f else ret err
   }"

text \<open>The token of a resource's own credentials replaces that of the controller.\<close>

definition setTokenFromRef :: "env \<Rightarrow> SecretReference \<Rightarrow> string \<Rightarrow> ('o, string res) op" where
  "setTokenFromRef E ref namespace =
     bindE (wrapE ''credentials from secret ref: '' (getCredentialDataFromRef E ref namespace ''apiToken''))
       (\<lambda>apiToken. do { _ \<leftarrow> perform (SetToken apiToken) (\<lambda>_. ()); ret (Inr apiToken) })"

definition errOf :: "'a res \<Rightarrow> error option" where
  "errOf r = (case r of Inl e \<Rightarrow> Some e | Inr _ \<Rightarrow> None)"

lemma errOf_simps [simp]: "errOf (Inl e) = Some e" "errOf (Inr x) = None"
  by (simp_all add: errOf_def)

lemma errOf_eq_None [simp]: "(errOf r = None) = (\<exists>x. r = Inr x)"
  by (cases r) simp_all

definition newScopeClients :: "env \<Rightarrow> kobj \<Rightarrow> ('o, error option) op" where
  "newScopeClients E ob = do {
     c \<leftarrow> perform NewLinodeClient (k_NewLinodeClient (k8s E));
     case c of
       Some err \<Rightarrow> ret (Some (ErrWrap ''failed to create linode client: '' err))
     | None \<Rightarrow> do {
         p \<leftarrow> perform (K8s (KNewHelper ob)) (\<lambda>h. k_NewHelper (k8s E) h ob);
         ret (map_option (ErrWrap ''failed to init patch helper: '') p)
       }
   }"


section \<open>What the credential functions touch\<close>

text \<open>They talk to the API server and to nothing else, and leave the scope alone.\<close>

lemma calm_getCredentials [keeps_rules]: "keeps (calm isK8s) (getCredentials E ref ns)"
  unfolding getCredentials_def Let_def by (intro calm_rules) simp

lemma calm_getCredentialDataFromRef [keeps_rules]: "keeps (calm isK8s) (getCredentialDataFromRef E ref ns key)"
  unfolding getCredentialDataFromRef_def by (intro calm_rules keeps_rules)

lemma calm_addCredentialsFinalizer [keeps_rules]: "keeps (calm isK8s) (addCredentialsFinalizer E ref ns fin)"
  unfolding addCredentialsFinalizer_def Let_def by (auto intro!: calm_rules keeps_rules split: sum.splits)

lemma calm_removeCredentialsFinalizer [keeps_rules]: "keeps (calm isK8s) (removeCredentialsFinalizer E ref ns fin)"
  unfolding removeCredentialsFinalizer_def Let_def by (auto intro!: calm_rules keeps_rules split: sum.splits)

lemma calm_RetryOnConflict [keeps_rules]: "keeps (calm P) f \<Longrightarrow> keeps (calm P) (RetryOnConflict E n f)"
  by (induction n) (auto intro!: calm_rules)

lemma calm_setTokenFromRef [keeps_rules]: "keeps (calm isK8s) (setTokenFromRef E ref ns)"
  unfolding setTokenFromRef_def by (intro calm_rules keeps_rules) simp

lemma calm_newScopeClients [keeps_rules]: "keeps (calm isK8s) (newScopeClients E ob)"
  unfolding newScopeClients_def by (auto intro!: calm_rules split: option.splits)


section \<open>FirewallScope\<close>

record FirewallScope =
  fs_LinodeFirewall :: LinodeFirewall
  fs_Cluster :: "Cluster option"

definition NewFirewallScope :: "env \<Rightarrow> LinodeFirewall option \<Rightarrow> Cluster option \<Rightarrow> ('o, FirewallScope res) op" where
  "NewFirewallScope E fw cl =
     (case fw of None \<Rightarrow> ret (Inl (ErrNew ''linodeFirewall is required when creating a FirewallScope''))
      | Some f \<Rightarrow> do {
          err \<leftarrow> newScopeClients E (OFirewall f);
          ret (case err of Some e \<Rightarrow> Inl e | None \<Rightarrow> Inr \<lparr>fs_LinodeFirewall = f, fs_Cluster = cl\<rparr>)
        })"

definition FirewallScope_Close :: "env \<Rightarrow> (FirewallScope, error option) op" where
  "FirewallScope_Close E = do {
     s \<leftarrow> getObj;
     perform (K8s (KPatch (OFirewall (fs_LinodeFirewall s)))) (\<lambda>h. k_Patch (k8s E) h (OFirewall (fs_LinodeFirewall s)))
   }"

definition FirewallScope_AddFinalizer :: "env \<Rightarrow> (FirewallScope, error option) op" where
  "FirewallScope_AddFinalizer E = do {
     s \<leftarrow> getObj;
     let (fs, updated) = lib_AddFinalizer (lib E) (om_Finalizers (lfw_Meta (fs_LinodeFirewall s))) FirewallFinalizer;
     _ \<leftarrow> modObj (fs_LinodeFirewall_update (lfw_Meta_update (om_Finalizers_update (\<lambda>_. fs))));
     if updated then FirewallScope_Close E else ret None
   }"

definition FirewallScope_AddCredentialsRefFinalizer :: "env \<Rightarrow> (FirewallScope, error option) op" where
  "FirewallScope_AddCredentialsRefFinalizer E = do {
     s \<leftarrow> getObj;
     let fw = fs_LinodeFirewall s;
     case fw_CredentialsRef (lfw_Spec fw) of
       None \<Rightarrow> ret None
     | Some ref \<Rightarrow> RetryOnConflict E (lib_RetrySteps (lib E))
         (addCredentialsFinalizer E ref (om_Namespace (lfw_Meta fw)) (toFinalizer (lfw_Meta fw)))
   }"

definition FirewallScope_RemoveCredentialsRefFinalizer :: "env \<Rightarrow> (FirewallScope, error option) op" where
  "FirewallScope_RemoveCredentialsRefFinalizer E = do {
     s \<leftarrow> getObj;
     let fw = fs_LinodeFirewall s;
     case fw_CredentialsRef (lfw_Spec fw) of
       None \<Rightarrow> ret None
     | Some ref \<Rightarrow> RetryOnConflict E (lib_RetrySteps (lib E))
         (removeCredentialsFinalizer E ref (om_Namespace (lfw_Meta fw)) (toFinalizer (lfw_Meta fw)))
   }"

definition FirewallScope_SetCredentialRefToken :: "env \<Rightarrow> (FirewallScope, error option) op" where
  "FirewallScope_SetCredentialRefToken E = do {
     s \<leftarrow> getObj;
     let fw = fs_LinodeFirewall s;
     case fw_CredentialsRef (lfw_Spec fw) of
       None \<Rightarrow> ret None
     | Some ref \<Rightarrow> do { r \<leftarrow> setTokenFromRef E ref (om_Namespace (lfw_Meta fw)); ret (errOf r) }
   }"


section \<open>VPCScope\<close>

record VPCScope =
  vs_LinodeVPC :: LinodeVPC
  vs_Cluster :: "Cluster option"

definition NewVPCScope :: "env \<Rightarrow> LinodeVPC option \<Rightarrow> Cluster option \<Rightarrow> ('o, VPCScope res) op" where
  "NewVPCScope E vpc cl =
     (case vpc of None \<Rightarrow> ret (Inl (ErrNew ''linodeVPC is required when creating a VPCScope''))
      | Some v \<Rightarrow> do {
          err \<leftarrow> newScopeClients E (OVPC v);
          ret (case err of Some e \<Rightarrow> Inl e | None \<Rightarrow> Inr \<lparr>vs_LinodeVPC = v, vs_Cluster = cl\<rparr>)
        })"

definition VPCScope_Close :: "env \<Rightarrow> (VPCScope, error option) op" where
  "VPCScope_Close E = do {
     s \<leftarrow> getObj;
     perform (K8s (KPatch (OVPC (vs_LinodeVPC s)))) (\<lambda>h. k_Patch (k8s E) h (OVPC (vs_LinodeVPC s)))
   }"

definition VPCScope_AddFinalizer :: "env \<Rightarrow> (VPCScope, error option) op" where
  "VPCScope_AddFinalizer E = do {
     s \<leftarrow> getObj;
     let (fs, updated) = lib_AddFinalizer (lib E) (om_Finalizers (lv_Meta (vs_LinodeVPC s))) VPCFinalizer;
     _ \<leftarrow> modObj (vs_LinodeVPC_update (lv_Meta_update (om_Finalizers_update (\<lambda>_. fs))));
     if updated then VPCScope_Close E else ret None
   }"

definition VPCScope_AddCredentialsRefFinalizer :: "env \<Rightarrow> (VPCScope, error option) op" where
  "VPCScope_AddCredentialsRefFinalizer E = do {
     s \<leftarrow> getObj;
     let v = vs_LinodeVPC s;
     case vpc_CredentialsRef (lv_Spec v) of
       None \<Rightarrow> ret None
     | Some ref \<Rightarrow> addCredentialsFinalizer E ref (om_Namespace (lv_Meta v)) (toFinalizer (lv_Meta v))
   }"

definition VPCScope_RemoveCredentialsRefFinalizer :: "env \<Rightarrow> (VPCScope, error option) op" where
  "VPCScope_RemoveCredentialsRefFinalizer E = do {
     s \<leftarrow> getObj;
     let v = vs_LinodeVPC s;
     case vpc_CredentialsRef (lv_Spec v) of
       None \<Rightarrow> ret None
     | Some ref \<Rightarrow> removeCredentialsFinalizer E ref (om_Namespace (lv_Meta v)) (toFinalizer (lv_Meta v))
   }"

definition VPCScope_SetCredentialRefToken :: "env \<Rightarrow> (VPCScope, error option) op" where
  "VPCScope_SetCredentialRefToken E = do {
     s \<leftarrow> getObj;
     let v = vs_LinodeVPC s;
     case vpc_CredentialsRef (lv_Spec v) of
       None \<Rightarrow> ret None
     | Some ref \<Rightarrow> do { r \<leftarrow> setTokenFromRef E ref (om_Namespace (lv_Meta v)); ret (errOf r) }
   }"


section \<open>PlacementGroupScope\<close>

record PlacementGroupScope =
  ps_LinodePlacementGroup :: LinodePlacementGroup
  ps_Cluster :: "Cluster option"

definition NewPlacementGroupScope ::
  "env \<Rightarrow> LinodePlacementGroup option \<Rightarrow> Cluster option \<Rightarrow> ('o, PlacementGroupScope res) op" where
  "NewPlacementGroupScope E pg cl =
     (case pg of None \<Rightarrow> ret (Inl (ErrNew ''linodePlacementGroup is required when creating a PlacementGroupScope''))
      | Some p \<Rightarrow> do {
          err \<leftarrow> newScopeClients E (OPlacementGroup p);
          ret (case err of Some e \<Rightarrow> Inl e | None \<Rightarrow> Inr \<lparr>ps_LinodePlacementGroup = p, ps_Cluster = cl\<rparr>)
        })"

definition PlacementGroupScope_Close :: "env \<Rightarrow> (PlacementGroupScope, error option) op" where
  "PlacementGroupScope_Close E = do {
     s \<leftarrow> getObj;
     perform (K8s (KPatch (OPlacementGroup (ps_LinodePlacementGroup s))))
       (\<lambda>h. k_Patch (k8s E) h (OPlacementGroup (ps_LinodePlacementGroup s)))
   }"

definition PlacementGroupScope_AddFinalizer :: "env \<Rightarrow> (PlacementGroupScope, error option) op" where
  "PlacementGroupScope_AddFinalizer E = do {
     s \<leftarrow> getObj;
     let (fs, updated) = lib_AddFinalizer (lib E) (om_Finalizers (lpg_Meta (ps_LinodePlacementGroup s))) PlacementGroupFinalizer;
     _ \<leftarrow> modObj (ps_LinodePlacementGroup_update (lpg_Meta_update (om_Finalizers_update (\<lambda>_. fs))));
     if updated then PlacementGroupScope_Close E else ret None
   }"

definition PlacementGroupScope_AddCredentialsRefFinalizer :: "env \<Rightarrow> (PlacementGroupScope, error option) op" where
  "PlacementGroupScope_AddCredentialsRefFinalizer E = do {
     s \<leftarrow> getObj;
     let p = ps_LinodePlacementGroup s;
     case pg_CredentialsRef (lpg_Spec p) of
       None \<Rightarrow> ret None
     | Some ref \<Rightarrow> addCredentialsFinalizer E ref (om_Namespace (lpg_Meta p)) (toFinalizer (lpg_Meta p))
   }"

definition PlacementGroupScope_RemoveCredentialsRefFinalizer :: "env \<Rightarrow> (PlacementGroupScope, error option) op" where
  "PlacementGroupScope_RemoveCredentialsRefFinalizer E = do {
     s \<leftarrow> getObj;
     let p = ps_LinodePlacementGroup s;
     case pg_CredentialsRef (lpg_Spec p) of
       None \<Rightarrow> ret None
     | Some ref \<Rightarrow> removeCredentialsFinalizer E ref (om_Namespace (lpg_Meta p)) (toFinalizer (lpg_Meta p))
   }"

definition PlacementGroupScope_SetCredentialRefToken :: "env \<Rightarrow> (PlacementGroupScope, error option) op" where
  "PlacementGroupScope_SetCredentialRefToken E = do {
     s \<leftarrow> getObj;
     let p = ps_LinodePlacementGroup s;
     case pg_CredentialsRef (lpg_Spec p) of
       None \<Rightarrow> ret None
     | Some ref \<Rightarrow> do { r \<leftarrow> setTokenFromRef E ref (om_Namespace (lpg_Meta p)); ret (errOf r) }
   }"

section \<open>What the scope functions touch\<close>

lemmas scope_cred_defs =
  FirewallScope_AddCredentialsRefFinalizer_def FirewallScope_RemoveCredentialsRefFinalizer_def
  FirewallScope_SetCredentialRefToken_def VPCScope_AddCredentialsRefFinalizer_def
  VPCScope_RemoveCredentialsRefFinalizer_def VPCScope_SetCredentialRefToken_def
  PlacementGroupScope_AddCredentialsRefFinalizer_def PlacementGroupScope_RemoveCredentialsRefFinalizer_def
  PlacementGroupScope_SetCredentialRefToken_def

lemma calm_scope_creds [keeps_rules]:
  "keeps (calm isK8s) (FirewallScope_AddCredentialsRefFinalizer E)"
  "keeps (calm isK8s) (FirewallScope_RemoveCredentialsRefFinalizer E)"
  "keeps (calm isK8s) (FirewallScope_SetCredentialRefToken E)"
  "keeps (calm isK8s) (VPCScope_AddCredentialsRefFinalizer E)"
  "keeps (calm isK8s) (VPCScope_RemoveCredentialsRefFinalizer E)"
  "keeps (calm isK8s) (VPCScope_SetCredentialRefToken E)"
  "keeps (calm isK8s) (PlacementGroupScope_AddCredentialsRefFinalizer E)"
  "keeps (calm isK8s) (PlacementGroupScope_RemoveCredentialsRefFinalizer E)"
  "keeps (calm isK8s) (PlacementGroupScope_SetCredentialRefToken E)"
  unfolding scope_cred_defs Let_def
  by (auto intro!: calm_rules keeps_rules split: option.splits)

lemma calm_scope_close [keeps_rules]:
  "keeps (calm isK8s) (FirewallScope_Close E)"
  "keeps (calm isK8s) (VPCScope_Close E)"
  "keeps (calm isK8s) (PlacementGroupScope_Close E)"
  unfolding FirewallScope_Close_def VPCScope_Close_def PlacementGroupScope_Close_def
  by (auto intro!: calm_rules)

lemma adds_scope_finalizer [keeps_rules]:
  "keeps (adds isK8s) (FirewallScope_AddFinalizer E)"
  "keeps (adds isK8s) (VPCScope_AddFinalizer E)"
  "keeps (adds isK8s) (PlacementGroupScope_AddFinalizer E)"
  unfolding FirewallScope_AddFinalizer_def VPCScope_AddFinalizer_def PlacementGroupScope_AddFinalizer_def Let_def
  by (auto intro!: adds_rules calm_scope_close [THEN calm_adds] split: prod.splits)

end
