(* ===== verification/Reconcile.thy ===== *)
theory Reconcile
  imports Scope
begin

text \<open>
  What the controllers of \<open>internal/controller\<close> share: the beginning of \<open>Reconcile\<close> (the owner reference
  to the cluster and the check for a paused object) and the tests on the deletion timestamp.
\<close>

definition ReadyCondition :: string where "ReadyCondition = ''Ready''"

definition ClusterNameLabel :: string where "ClusterNameLabel = ''cluster.x-k8s.io/cluster-name''"

text \<open>
  The label of the cluster, the lookup of the cluster and the owner reference. The result is the
  cluster, if there is one, and the metadata after the call. A cluster that is not found is no
  error; \<open>SetOwnerReferenceToLinodeCluster\<close> then does nothing.
\<close>

definition linkCluster :: "env \<Rightarrow> ObjectMeta \<Rightarrow> (ObjectMeta \<Rightarrow> kobj) \<Rightarrow> ('o, (Cluster option \<times> ObjectMeta) res) op" where
  "linkCluster E om mk =
     (case om_Labels om ClusterNameLabel of
        None \<Rightarrow> ret (Inr (None, om))
      | Some _ \<Rightarrow> do {
          r \<leftarrow> perform (K8s (KGetClusterFromMetadata om)) (\<lambda>h. k_GetClusterFromMetadata (k8s E) h om);
          let cluster = (case r of Inl _ \<Rightarrow> None | Inr cl \<Rightarrow> Some cl);
          if IgnoreNotFound E (errOf r) \<noteq> None then ret (Inl (the (errOf r)))
          else do {
            (om', e) \<leftarrow> SetOwnerReferenceToLinodeCluster E cluster mk om;
            ret (case e of Some err \<Rightarrow> Inl err | None \<Rightarrow> Inr (cluster, om'))
          }
        })"

text \<open>
  The pause check, which is skipped for a deleted object without a cluster. \<open>Inl\<close> is the outcome of a
  reconciliation that ends here, \<open>Inr\<close> the conditions with which it goes on.
\<close>

definition checkPaused :: "env \<Rightarrow> Cluster option \<Rightarrow> ObjectMeta \<Rightarrow> kobj \<Rightarrow> Condition list \<Rightarrow> ('o, outcome + Condition list) op" where
  "checkPaused E cluster om ob conds0 =
     (if om_DeletionTimestamp om = None \<or> cluster \<noteq> None then do {
        (conds, p) \<leftarrow> perform (K8s (KEnsurePaused ob)) (\<lambda>h. k_EnsurePaused (k8s E) h cluster ob);
        ret (case p of
               Inl err \<Rightarrow> Inl (noResult, Some err)
             | Inr isPaused \<Rightarrow> if isPaused then Inl (noResult, None) else Inr conds)
      }
      else ret (Inr conds0))"

text \<open>
  \<open>DeletionTimestamp.Add(timeout).After(time.Now())\<close>. It is only called when the resource is being
  deleted, so the timestamp is set.
\<close>

definition withinDeletion :: "env \<Rightarrow> gotime option \<Rightarrow> duration \<Rightarrow> ('o, bool) op" where
  "withinDeletion E ts timeout = do { now \<leftarrow> timeNow E; ret (now < the ts + timeout) }"

section \<open>Errors and delays\<close>

definition CreateError :: string where "CreateError = ''CreateError''"
definition DeleteError :: string where "DeleteError = ''DeleteError''"
definition UpdateError :: string where "UpdateError = ''UpdateError''"

definition ConditionPreflightLinodeVPCReady :: string where "ConditionPreflightLinodeVPCReady = ''PreflightLinodeVPCReady''"

definition StatusTooManyRequests :: int where "StatusTooManyRequests = 429"

text \<open>An error that is a panic passes through unchanged.\<close>

definition wrapUnlessPanic :: "string \<Rightarrow> error \<Rightarrow> error" where
  "wrapUnlessPanic t err = (if err = ErrSentinel ErrPanic then err else ErrWrap t err)"

definition requeueLater :: "env \<Rightarrow> duration \<Rightarrow> ('o, outcome) op" where
  "requeueLater E delay = do { d \<leftarrow> WithJitter E delay; ret (requeue d, None) }"

definition retryIfTransient :: "env \<Rightarrow> error \<Rightarrow> ('o, outcome) op" where
  "retryIfTransient E err =
     (if IsRetryableError E (Some err)
      then if lib_ErrHasStatus (lib E) (Some err) [StatusTooManyRequests]
           then ret (requeue DefaultLinodeTooManyRequestsErrorRetryDelay, None)
           else do { d \<leftarrow> WithJitter E DefaultMachineControllerRetryDelay; ret (requeue d, None) }
      else ret (noResult, None))"


section \<open>What they touch\<close>

text \<open>Events of the API server and of the runtime.\<close>

definition isPlain :: "call \<Rightarrow> bool" where
  "isPlain c = (isK8s c \<or> isRuntime c)"

lemma isPlain_simps [simp]: "isPlain (K8s x)" "isPlain (Runtime r)" "isPlain (SetToken t)" "\<not> isPlain (FW a)"
  "\<not> isPlain (NB n)" "\<not> isPlain (DNS d)" "\<not> isPlain (AKAM k)" "\<not> isPlain (OBJ j)" "\<not> isPlain (S3 o3)" "\<not> isPlain (VPC v)"
  by (simp_all add: isPlain_def)

lemma wp_withinDeletion [wp_rules]:
  "wp (withinDeletion E ts d) Q s = Q (rt_Now (rt E) (tr s) < the ts + d) (s\<lparr>tr := Runtime TimeNow # tr s\<rparr>)"
  by (simp add: withinDeletion_def wp_rules)

lemma wp_requeueLater [wp_rules]:
  "wp (requeueLater E d) Q s = wp (WithJitter E d) (\<lambda>x. Q (requeue x, None)) s"
  by (simp add: requeueLater_def wp_rules)

lemma wp_calm: "keeps (calm P) m \<Longrightarrow> wp m (\<lambda>_ t. calm P s t) s"
  by (rule keeps_wp)

lemma calm_mono: "keeps (calm P) m \<Longrightarrow> (\<And>c. P c \<Longrightarrow> Q c) \<Longrightarrow> keeps (calm Q) m"
  by (erule keeps_mono) (auto simp: calm_def adds_def)

lemma calm_SetOwnerReference [keeps_rules]: "keeps (calm isK8s) (SetOwnerReferenceToLinodeCluster E cl mk om)"
  unfolding SetOwnerReferenceToLinodeCluster_def Let_def by (auto intro!: calm_rules split: option.splits sum.splits)

lemma calm_linkCluster [keeps_rules]: "keeps (calm isK8s) (linkCluster E om mk)"
  unfolding linkCluster_def Let_def by (auto intro!: calm_rules keeps_rules split: option.splits)

lemma calm_checkPaused [keeps_rules]: "keeps (calm isK8s) (checkPaused E cl om ob cs)"
  unfolding checkPaused_def by (auto intro!: calm_rules)

end
