(* ===== verification/Samples.thy ===== *)
theory Samples
  imports World
begin

text \<open>
  A machine, a network, a cluster and the objects of Cluster API they belong to, for the examples on which
  the theorems of the controllers are applied.
\<close>

definition lmSpec1 :: LinodeMachineSpec where
  "lmSpec1 = \<lparr>lms_ProviderID = Some ''linode://12'', lms_InstanceID = None, lms_Region = ''us-sea'', lms_Type = ''g6-standard-2'', lms_Group = [],
     lms_RootPass = [], lms_AuthorizedKeys = [''key''], lms_AuthorizedUsers = [], lms_BackupID = 0, lms_Image = [], lms_Interfaces = [],
     lms_LinodeInterfaces = [], lms_BackupsEnabled = False, lms_PrivateIP = None, lms_Tags = [''a''], lms_FirewallID = 0, lms_OSDisk = None,
     lms_DataDisks = None, lms_DiskEncryption = [], lms_CredentialsRef = None, lms_Configuration = None, lms_PlacementGroupRef = None,
     lms_FirewallRef = None, lms_VPCRef = None, lms_VPCID = None, lms_IPv6Options = None, lms_NetworkHelper = None, lms_InterfaceGeneration = []\<rparr>"

definition lm1 :: LinodeMachine where
  "lm1 = \<lparr>lm_Meta = meta0\<lparr>om_Name := ''m'', om_Namespace := ''ns'', om_UID := ''u'', om_Finalizers := [MachineFinalizer]\<rparr>, lm_Spec = lmSpec1,
     lm_Status = \<lparr>lms_Conditions = [], lms_Ready = False, lms_Addresses = [], lms_CloudinitMetadataSupport = False, lms_InstanceState = None,
       lms_FailureReason = None, lms_FailureMessage = None, lms_StatusTags = []\<rparr>\<rparr>"

definition net1 :: NetworkSpec where
  "net1 = \<lparr>net_LoadBalancerType = [], net_DNSProvider = [], net_DNSRootDomain = [], net_DNSUniqueIdentifier = [], net_DNSTTLSec = 0,
     net_DNSSubDomainOverride = [], net_ApiserverLoadBalancerPort = 0, net_NodeBalancerID = None, net_NodeBalancerFirewallID = None,
     net_ApiserverNodeBalancerConfigID = None, net_AdditionalPorts = [], net_SubnetName = [], net_UseVlan = False,
     net_NodeBalancerBackendIPv4Range = [], net_EnableVPCBackends = False\<rparr>"

definition lc1 :: LinodeCluster where
  "lc1 = \<lparr>lc_Meta = meta0\<lparr>om_Name := ''c'', om_Namespace := ''ns''\<rparr>,
     lc_Spec = \<lparr>lcs_Region = ''us-sea'', lcs_ControlPlaneEndpoint = \<lparr>ep_Host = [], ep_Port = 0\<rparr>, lcs_Network = net1, lcs_VPCRef = None, lcs_VPCID = None,
       lcs_NodeBalancerFirewallRef = None, lcs_ObjectStore = None, lcs_CredentialsRef = None\<rparr>,
     lc_Status = \<lparr>lcs_Conditions = [], lcs_Ready = True, lcs_FailureReason = None, lcs_FailureMessage = None\<rparr>\<rparr>"

definition cl1 :: Cluster where
  "cl1 = \<lparr>cl_Meta = meta0\<lparr>om_Name := ''c'', om_Namespace := ''ns''\<rparr>, cl_InfrastructureRefKind = ''LinodeCluster'', cl_InfrastructureRefName = ''c''\<rparr>"

definition mc1 :: Machine where
  "mc1 = \<lparr>mc_Meta = meta0, mc_DataSecretName = Some ''boot'', mc_ProviderID = [], mc_Phase = ''Running'', mc_InfrastructureRefKind = ''LinodeMachine'',
     mc_InfrastructureRefName = ''m'', mc_Conditions = []\<rparr>"

end
