(* ===== verification/VlanIPs.thy ===== *)
theory VlanIPs
  imports Util Samples
begin

text \<open>
  \<open>util/vlanips.go\<close>: the addresses handed out on the VLAN of a cluster. The package keeps, per
  cluster, the list of the addresses in use; a new one is the first address of the range that is
  not in the list. Lists are read and extended under a mutex, so each operation is one step here.
\<close>

section \<open>Addresses\<close>

text \<open>
  \<open>netip.Addr\<close> as the loop uses it: an IPv4 address, or the invalid address that \<open>Next\<close> returns after
  the last one. Every value \<open>Next\<close> yields from the invalid address prints as \<open>invalid IP\<close>.
\<close>

datatype addr = Addr "32 word" | NoAddr

fun addrNext :: "addr \<Rightarrow> addr" where
  "addrNext (Addr w) = (if w + 1 = 0 then NoAddr else Addr (w + 1))"
| "addrNext NoAddr = NoAddr"

fun addrString :: "addr \<Rightarrow> string" where
  "addrString (Addr w) = showIPv4 (unat w)"
| "addrString NoAddr = ''invalid IP''"

definition vlanFirst :: nat where "vlanFirst = 10 * 2 ^ 24"

definition prefixAddr :: addr where "prefixAddr = Addr (word_of_nat vlanFirst)"


section \<open>The operations\<close>

definition vlanKey :: "string \<Rightarrow> string \<Rightarrow> string" where
  "vlanKey clusterName namespace = namespace @ ''.'' @ clusterName"


definition vlanAddrs :: "LinodeMachine \<Rightarrow> string list" where
  "vlanAddrs lm = map ma_Address (filter (\<lambda>a. ma_Type a = MachineInternalIP \<and> IPNet_Contains [10, 0, 0, 0] 8 (ParseIP (ma_Address a)))
     (lms_Addresses (lm_Status lm)))"

definition getExistingIPsForCluster :: "env \<Rightarrow> string \<Rightarrow> string \<Rightarrow> ('o, string list res) op" where
  "getExistingIPsForCluster E clusterName namespace =
     (case lib_LabelRequirementError (lib E) clusterName of
        Some e \<Rightarrow> ret (Inl (ErrWrap ''building label selector: '' e))
      | None \<Rightarrow>
        let sel = [(''cluster.x-k8s.io/cluster-name'', clusterName)] in
        bindE (wrapE ''listing all linodeMachines ''
                 (perform (K8s (KList KMachine namespace sel)) (\<lambda>h. k_ListMachines (k8s E) h namespace sel)))
          (\<lambda>items. ret (Inr (concat (map vlanAddrs items)))))"

definition getClusterIPs :: "env \<Rightarrow> string \<Rightarrow> string \<Rightarrow> ('o, string list res) op" where
  "getClusterIPs E clusterName namespace = do {
     let key = vlanKey clusterName namespace;
     s \<leftarrow> State_Monad.get;
     case vlanIPsMap s key of
       Some ips \<Rightarrow> ret (Inr ips)
     | None \<Rightarrow>
         bindE (wrapE ''getting existingIPs for a cluster: '' (getExistingIPsForCluster E clusterName namespace))
           (\<lambda>ips. do { _ \<leftarrow> modify (vlanIPsMap_update (\<lambda>m. m(key \<mapsto> ips))); ret (Inr ips) })
   }"

text \<open>The loop of \<open>getNextIP\<close>. Nothing bounds it: \<open>None\<close> is a loop that never ends.\<close>

partial_function (option) nextFree :: "string list \<Rightarrow> addr \<Rightarrow> string option" where
  [code]: "nextFree ips a = (if addrString a \<in> set ips then nextFree ips (addrNext a) else Some (addrString a))"

definition getNextIP :: "string list \<Rightarrow> (string \<times> string list) option" where
  "getNextIP ips = map_option (\<lambda>ip. (ip, ips @ [ip])) (nextFree ips (addrNext prefixAddr))"

definition GetNextVlanIP :: "env \<Rightarrow> string \<Rightarrow> string \<Rightarrow> ('o, string res option) op" where
  "GetNextVlanIP E clusterName namespace = do {
     r \<leftarrow> getClusterIPs E clusterName namespace;
     case r of
       Inl e \<Rightarrow> ret (Some (Inl e))
     | Inr ips \<Rightarrow>
         (case getNextIP ips of
            None \<Rightarrow> ret None
          | Some (ip, ips') \<Rightarrow> do {
              _ \<leftarrow> modify (vlanIPsMap_update (\<lambda>m. m(vlanKey clusterName namespace \<mapsto> ips')));
              ret (Some (Inr ip))
            })
   }"

definition DeleteClusterIPs :: "string \<Rightarrow> string \<Rightarrow> ('o, unit) op" where
  "DeleteClusterIPs clusterName namespace =
     modify (vlanIPsMap_update (\<lambda>m. m(vlanKey clusterName namespace := None)))"


section \<open>The loop ends and finds the first free address\<close>

definition nthAddr :: "nat \<Rightarrow> string" where
  "nthAddr k = showIPv4 (vlanFirst + k)"

definition addrAt :: "nat \<Rightarrow> addr" where
  "addrAt k = Addr (word_of_nat (vlanFirst + k))"

lemma vlanFirst_val: "vlanFirst = 167772160"
  by (simp add: vlanFirst_def)

lemma nthAddr_inj: "nthAddr i = nthAddr j \<Longrightarrow> i < 2 ^ 24 \<Longrightarrow> j < 2 ^ 24 \<Longrightarrow> i = j"
  unfolding nthAddr_def by (drule showIPv4_inj) (simp_all add: vlanFirst_val)

lemma addrString_addrAt: "k < 2 ^ 24 \<Longrightarrow> addrString (addrAt k) = nthAddr k"
  by (simp add: addrAt_def nthAddr_def vlanFirst_val unat_of_nat take_bit_nat_eq_self del: of_nat_add)

lemma addrNext_addrAt: "k < 2 ^ 24 \<Longrightarrow> addrNext (addrAt k) = addrAt (Suc k)"
proof -
  assume k: "k < 2 ^ 24"
  have w: "word_of_nat (vlanFirst + k) + 1 = (word_of_nat (vlanFirst + Suc k) :: 32 word)" by simp
  have "(word_of_nat (vlanFirst + Suc k) :: 32 word) \<noteq> 0"
    using k by (simp add: vlanFirst_val word_of_nat_eq_0_iff nat_dvd_not_less del: of_nat_add of_nat_Suc)
  then show ?thesis unfolding addrAt_def addrNext.simps w by simp
qed

lemma nextFree_first:
  assumes "\<And>j. k \<le> j \<Longrightarrow> j < n \<Longrightarrow> nthAddr j \<in> set ips" and "nthAddr n \<notin> set ips"
    and "k \<le> n" and "n < 2 ^ 24"
  shows "nextFree ips (addrAt k) = Some (nthAddr n)"
  using assms(3,1,2,4)
proof (induction "n - k" arbitrary: k)
  case 0
  then have "k = n" by simp
  with 0 show ?case by (subst nextFree.simps) (simp add: addrString_addrAt)
next
  case (Suc d)
  then have lt: "k < n" and used: "nthAddr k \<in> set ips" by simp_all
  have "nextFree ips (addrAt (Suc k)) = Some (nthAddr n)"
    using Suc lt by (intro Suc.hyps(1)) auto
  with used lt Suc.prems show ?case
    by (subst nextFree.simps) (simp add: addrString_addrAt addrNext_addrAt)
qed

text \<open>Among more candidates than there are addresses in use one is free.\<close>

lemma free_candidate:
  assumes "length ips < 2 ^ 24 - 1"
  obtains n where "1 \<le> n" "n \<le> Suc (length ips)" "nthAddr n \<notin> set ips"
    "\<And>j. 1 \<le> j \<Longrightarrow> j < n \<Longrightarrow> nthAddr j \<in> set ips"
proof -
  let ?C = "{1..Suc (length ips)}"
  have inj: "inj_on nthAddr ?C" using assms by (auto simp: inj_on_def intro: nthAddr_inj)
  have "\<not> nthAddr ` ?C \<subseteq> set ips"
  proof
    assume "nthAddr ` ?C \<subseteq> set ips"
    then have "card (nthAddr ` ?C) \<le> card (set ips)" by (simp add: card_mono)
    with card_image [OF inj] card_length [of ips] show False by simp
  qed
  then have ex: "\<exists>n. 1 \<le> n \<and> n \<le> Suc (length ips) \<and> nthAddr n \<notin> set ips" by auto
  let ?n = "LEAST n. 1 \<le> n \<and> n \<le> Suc (length ips) \<and> nthAddr n \<notin> set ips"
  have n: "1 \<le> ?n \<and> ?n \<le> Suc (length ips) \<and> nthAddr ?n \<notin> set ips" using ex by (rule LeastI_ex)
  have "nthAddr j \<in> set ips" if "1 \<le> j" "j < ?n" for j
    using not_less_Least [OF that(2)] that n by auto
  with n show thesis by (intro that [of ?n]) auto
qed

lemma addrNext_prefix: "addrNext prefixAddr = addrAt 1"
  using addrNext_addrAt [of 0] by (simp add: addrAt_def prefixAddr_def)

lemma getNextIP_least:
  assumes "length ips < 2 ^ 24 - 1"
  shows "\<exists>n. 1 \<le> n \<and> n \<le> Suc (length ips) \<and> getNextIP ips = Some (nthAddr n, ips @ [nthAddr n])
    \<and> nthAddr n \<notin> set ips \<and> (\<forall>j. 1 \<le> j \<and> j < n \<longrightarrow> nthAddr j \<in> set ips)"
proof -
  obtain n where n: "1 \<le> n" "n \<le> Suc (length ips)" "nthAddr n \<notin> set ips"
    "\<And>j. 1 \<le> j \<Longrightarrow> j < n \<Longrightarrow> nthAddr j \<in> set ips"
    using free_candidate [OF assms] by blast
  have "nextFree ips (addrAt 1) = Some (nthAddr n)"
    by (rule nextFree_first) (use n assms in auto)
  then show ?thesis using n by (auto simp: getNextIP_def addrNext_prefix)
qed

lemma nextFree_fresh: "nextFree ips a = Some ip \<Longrightarrow> ip \<notin> set ips"
  by (erule nextFree.raw_induct [where P = "\<lambda>ips a r. r \<notin> set ips", rotated]) (auto split: if_splits)

lemma getNextIP_fresh: "getNextIP ips = Some (ip, ips') \<Longrightarrow> ip \<notin> set ips \<and> ips' = ips @ [ip]"
  by (auto simp: getNextIP_def dest: nextFree_fresh)


section \<open>Allocators\<close>

text \<open>
  What a client of an address allocator relies on: an address is not in use when it is handed
  out, it is in use afterwards, nothing is forgotten, and the allocator answers while there is
  room. From this, any number of requests give pairwise different addresses.
\<close>

fun allocMany :: "('s \<Rightarrow> ('a \<times> 's) option) \<Rightarrow> nat \<Rightarrow> 's \<Rightarrow> ('a list \<times> 's) option" where
  "allocMany alloc 0 s = Some ([], s)"
| "allocMany alloc (Suc n) s = (case alloc s of None \<Rightarrow> None
     | Some (a, s') \<Rightarrow> (case allocMany alloc n s' of None \<Rightarrow> None | Some (xs, t) \<Rightarrow> Some (a # xs, t)))"

locale fresh_allocator =
  fixes alloc :: "'s \<Rightarrow> ('a \<times> 's) option"
    and used :: "'s \<Rightarrow> 'a list"
    and room :: nat
  assumes alloc_fresh: "alloc s = Some (a, s') \<Longrightarrow> a \<notin> set (used s)"
    and alloc_used: "alloc s = Some (a, s') \<Longrightarrow> used s' = used s @ [a]"
    and alloc_total: "length (used s) < room \<Longrightarrow> \<exists>a s'. alloc s = Some (a, s')"
begin

lemma many_used: "allocMany alloc n s = Some (xs, t) \<Longrightarrow> used t = used s @ xs"
  by (induction n arbitrary: s xs) (auto split: option.splits simp: alloc_used)

lemma many_distinct:
  "allocMany alloc n s = Some (xs, t) \<Longrightarrow> distinct xs \<and> set xs \<inter> set (used s) = {} \<and> length xs = n"
proof (induction n arbitrary: s xs)
  case (Suc n)
  then obtain a s' ys where a: "alloc s = Some (a, s')" and ys: "allocMany alloc n s' = Some (ys, t)" "xs = a # ys"
    by (auto split: option.splits)
  from Suc.IH [OF ys(1)] alloc_fresh [OF a] alloc_used [OF a] ys(2) show ?case by auto
qed simp

lemma many_total: "length (used s) + n \<le> room \<Longrightarrow> \<exists>xs t. allocMany alloc n s = Some (xs, t)"
proof (induction n arbitrary: s)
  case (Suc n)
  then obtain a s' where a: "alloc s = Some (a, s')" using alloc_total [of s] by auto
  with Suc.IH [of s'] Suc.prems alloc_used [OF a] show ?case by auto
qed simp

end

interpretation vlan: fresh_allocator getNextIP "\<lambda>ips. ips" "2 ^ 24 - 1"
proof unfold_locales
  show "\<exists>a s'. getNextIP s = Some (a, s')" if "length s < 2 ^ 24 - 1" for s
    using getNextIP_least [OF that] by blast
qed (auto dest: getNextIP_fresh)


section \<open>Facts about the operations\<close>

lemma vlanKey_inj:
  assumes "vlanKey c n = vlanKey c' n'" and "CHR ''.'' \<notin> set n" and "CHR ''.'' \<notin> set n'"
  shows "c = c' \<and> n = n'"
proof -
  have "takeWhile (\<lambda>x. x \<noteq> CHR ''.'') (vlanKey c n) = n" if "CHR ''.'' \<notin> set n" for c n
    using that unfolding vlanKey_def by (subst takeWhile_append2) auto
  with assms have "n = n'" by metis
  with assms(1) show ?thesis by (simp add: vlanKey_def)
qed

lemma wp_getClusterIPs_known:
  "vlanIPsMap s (vlanKey c n) = Some ips \<Longrightarrow> wp (getClusterIPs E c n) Q s = Q (Inr ips) s"
  by (simp add: getClusterIPs_def wp_rules)

lemma wp_GetNextVlanIP_known:
  assumes "vlanIPsMap s (vlanKey c n) = Some ips" and "getNextIP ips = Some (ip, ips')"
  shows "wp (GetNextVlanIP E c n) Q s =
    Q (Some (Inr ip)) (s\<lparr>vlanIPsMap := (vlanIPsMap s)(vlanKey c n \<mapsto> ips')\<rparr>)"
  using assms by (cases s) (simp add: GetNextVlanIP_def wp_rules wp_getClusterIPs_known)

lemma ParseIP_showIPv4:
  assumes "n < 2 ^ 32"
  shows "ParseIP (showIPv4 n) = v4InV6Prefix @ [n div 16777216 mod 256, n div 65536 mod 256, n div 256 mod 256, n mod 256]"
proof -
  have "dropWhile (\<lambda>c. c \<noteq> CHR ''.'' \<and> c \<noteq> CHR '':'' \<and> c \<noteq> CHR ''%'') (showNat k @ ''.'' @ t) = ''.'' @ t" for k t
    using showNat_digits [of k]
    by (subst dropWhile_append2) (auto simp: list_all_iff isDigit_def)
  then have "netip_ParseAddr (showIPv4 n) = map_option (\<lambda>v. (v, [])) (parseIPv4 (showIPv4 n))"
    unfolding netip_ParseAddr_def by (subst (1) showIPv4_def) simp
  with assms show ?thesis by (simp add: ParseIP_def parseIPv4_showIPv4)
qed

lemma nthAddr_in_range:
  assumes "k < 2 ^ 24"
  shows "IPNet_Contains [10, 0, 0, 0] 8 (ParseIP (nthAddr k))"
proof -
  let ?n = "vlanFirst + k"
  have lt: "?n < 2 ^ 32" and d: "?n div 16777216 = 10" using assms by (simp_all add: vlanFirst_val)
  have "To4 (ParseIP (nthAddr k)) = [10, ?n div 65536 mod 256, ?n div 256 mod 256, ?n mod 256]"
    using lt d by (simp add: nthAddr_def ParseIP_showIPv4 To4_def v4InV6Prefix_def)
  moreover have "bytesVal [10, ?n div 65536 mod 256, ?n div 256 mod 256, ?n mod 256] = ?n"
    using bytes_combine [OF lt] d by (simp add: bytesVal_def)
  ultimately show ?thesis
    using d by (simp add: IPNet_Contains_def drop_bit_eq_div bytesVal_def)
qed


section \<open>A history of requests\<close>

text \<open>
  Any sequence of requests for any clusters, in the order in which they take the lock, and the
  addresses granted to the cluster with the key \<open>k\<close>.
\<close>

fun vlanServe :: "env \<Rightarrow> (string \<times> string) list \<Rightarrow> ('o, string res option list) op" where
  "vlanServe E [] = ret []"
| "vlanServe E ((c, n) # reqs) = do { r \<leftarrow> GetNextVlanIP E c n; rs \<leftarrow> vlanServe E reqs; ret (r # rs) }"

fun granted :: "string \<Rightarrow> (string \<times> string) list \<Rightarrow> string res option list \<Rightarrow> string list" where
  "granted k ((c, n) # reqs) (Some (Inr ip) # rs) = (if vlanKey c n = k then [ip] else []) @ granted k reqs rs"
| "granted k (q # reqs) (r # rs) = granted k reqs rs"
| "granted k _ _ = []"

definition usedIPs :: "string \<Rightarrow> 'o world \<Rightarrow> string set" where
  "usedIPs k w = (case vlanIPsMap w k of None \<Rightarrow> {} | Some ips \<Rightarrow> set ips)"

lemma wp_getExistingIPs_map: "wp (getExistingIPsForCluster E c n) (\<lambda>_ t. vlanIPsMap t = vlanIPsMap s) s"
  by (auto simp: getExistingIPsForCluster_def wp_rules split: option.splits sum.splits)

lemma wp_getClusterIPs:
  "wp (getClusterIPs E c n) (\<lambda>r t. (\<forall>k. usedIPs k s \<subseteq> usedIPs k t) \<and>
     (\<forall>ips. r = Inr ips \<longrightarrow> vlanIPsMap t (vlanKey c n) = Some ips)) s"
  unfolding getClusterIPs_def Let_def
  by (auto simp: wp_rules usedIPs_def split: option.splits sum.splits intro!: wp_mono [OF wp_getExistingIPs_map])

lemma usedIPs_record:
  "usedIPs k (vlanIPsMap_update (\<lambda>m. m(k0 \<mapsto> ips)) t) = (if k = k0 then set ips else usedIPs k t)"
  by (simp add: usedIPs_def)

lemma wp_GetNextVlanIP:
  "wp (GetNextVlanIP E c n) (\<lambda>r t. (\<forall>k. usedIPs k s \<subseteq> usedIPs k t) \<and>
     (case r of Some (Inr ip) \<Rightarrow> ip \<notin> usedIPs (vlanKey c n) s \<and> ip \<in> usedIPs (vlanKey c n) t | _ \<Rightarrow> True)) s"
  unfolding GetNextVlanIP_def wp_bind
proof (rule wp_mono [OF wp_getClusterIPs], elim conjE, goal_cases)
  case (1 r t)
  have "usedIPs (vlanKey c n) s \<subseteq> set ips" if "r = Inr ips" for ips
    using 1(1) [rule_format, of "vlanKey c n"] 1(2) that by (simp add: usedIPs_def)
  with 1(1) show ?case
    by (auto simp: wp_rules usedIPs_record split: sum.splits option.splits dest!: getNextIP_fresh; blast)
qed

lemma wp_vlanServe:
  "wp (vlanServe E reqs) (\<lambda>rs t. distinct (granted k reqs rs) \<and> set (granted k reqs rs) \<inter> usedIPs k s = {} \<and>
     set (granted k reqs rs) \<union> usedIPs k s \<subseteq> usedIPs k t) s"
proof (induction reqs arbitrary: s)
  case Nil
  then show ?case by (simp add: wp_rules)
next
  case (Cons q reqs)
  obtain c n where q: "q = (c, n)" by (cases q)
  show ?case
    unfolding q vlanServe.simps wp_bind
  proof (rule wp_mono [OF wp_GetNextVlanIP])
    fix r :: "string res option" and t :: "'a world"
    assume t: "(\<forall>k. usedIPs k s \<subseteq> usedIPs k t) \<and>
      (case r of Some (Inr ip) \<Rightarrow> ip \<notin> usedIPs (vlanKey c n) s \<and> ip \<in> usedIPs (vlanKey c n) t | _ \<Rightarrow> True)"
    from t have sub: "usedIPs k s \<subseteq> usedIPs k t" by blast
    show "wp (vlanServe E reqs) (\<lambda>rs. wp (ret (r # rs)) (\<lambda>rs t. distinct (granted k ((c, n) # reqs) rs) \<and>
        set (granted k ((c, n) # reqs) rs) \<inter> usedIPs k s = {} \<and> set (granted k ((c, n) # reqs) rs) \<union> usedIPs k s \<subseteq> usedIPs k t)) t"
      by (rule wp_mono [OF Cons.IH]) (use sub t in \<open>auto simp: wp_return split: option.splits sum.splits dest: subsetD [OF sub]; blast\<close>)
  qed
qed


text \<open>
  The addresses of machines that exist when the list of a cluster is made: the internal ones of the VLAN range that a listing of the
  machines of the cluster, sent after the history \<open>h0\<close>, had in its answer \<open>ms\<close>.
\<close>

definition machineVlanIPs :: "LinodeMachine list \<Rightarrow> string set" where
  "machineVlanIPs ms = {ma_Address a |m a. m \<in> set ms \<and> a \<in> set (lms_Addresses (lm_Status m)) \<and> ma_Type a = ''InternalIP''
     \<and> IPNet_Contains [10, 0, 0, 0] 8 (ParseIP (ma_Address a))}"

definition machinesListed :: "env \<Rightarrow> string \<Rightarrow> string \<Rightarrow> hist \<Rightarrow> hist \<Rightarrow> LinodeMachine list \<Rightarrow> bool" where
  "machinesListed E c n h0 h ms = (\<exists>new old. h = new @ K8s (KList KMachine n [(''cluster.x-k8s.io/cluster-name'', c)]) # old @ h0
     \<and> k_ListMachines (k8s E) (old @ h0) n [(''cluster.x-k8s.io/cluster-name'', c)] = Inr ms)"

lemma set_vlanAddrs: "set (concat (map vlanAddrs ms)) = machineVlanIPs ms"
  by (auto simp: machineVlanIPs_def vlanAddrs_def MachineInternalIP_def)

lemma machinesListed_append: "machinesListed E c n (mid @ h0) h ms \<Longrightarrow> machinesListed E c n h0 (new @ h) ms"
  unfolding machinesListed_def by (metis append.assoc)

text \<open>One request: the lists of other clusters stay, and a list that is made has the addresses of the machines.\<close>

definition firstServed :: "env \<Rightarrow> string \<Rightarrow> string \<Rightarrow> 'o world \<Rightarrow> string res option \<Rightarrow> 'o world \<Rightarrow> bool" where
  "firstServed E c n s r t = (vlanIPsMap s (vlanKey c n) = None \<longrightarrow>
     vlanIPsMap t (vlanKey c n) = None \<and> (\<forall>ip. r \<noteq> Some (Inr ip))
     \<or> vlanIPsMap t (vlanKey c n) \<noteq> None \<and> (\<exists>ms. machinesListed E c n (tr s) (tr t) ms \<and> machineVlanIPs ms \<subseteq> usedIPs (vlanKey c n) t
         \<and> (\<forall>ip. r = Some (Inr ip) \<longrightarrow> ip \<notin> machineVlanIPs ms)))"

lemma wp_GetNextVlanIP_first:
  "wp (GetNextVlanIP E c n) (\<lambda>r t. firstServed E c n s r t \<and> (\<forall>k. k \<noteq> vlanKey c n \<longrightarrow> vlanIPsMap t k = vlanIPsMap s k) \<and> (\<exists>new. tr t = new @ tr s)) s"
proof (cases "vlanIPsMap s (vlanKey c n)")
  case (Some ips)
  then show ?thesis by (auto simp: GetNextVlanIP_def getClusterIPs_def firstServed_def wp_rules Let_def split: option.split)
next
  case None
  let ?sel = "[(''cluster.x-k8s.io/cluster-name'', c)]"
  show ?thesis
  proof (cases "lib_LabelRequirementError (lib E) c = None \<and> (\<exists>ms. k_ListMachines (k8s E) (tr s) n ?sel = Inr ms)")
    case False
    with None show ?thesis
      by (auto simp: GetNextVlanIP_def getClusterIPs_def getExistingIPsForCluster_def firstServed_def wp_rules Let_def split: option.split sum.split)
  next
    case True
    then obtain ms where ms: "lib_LabelRequirementError (lib E) c = None" "k_ListMachines (k8s E) (tr s) n ?sel = Inr ms" by blast
    have listed: "machinesListed E c n (tr s) (K8s (KList KMachine n ?sel) # tr s) ms"
      unfolding machinesListed_def using ms(2) by (intro exI [of _ "[]"]) simp
    have fresh: "ip \<notin> machineVlanIPs ms \<and> ips' = concat (map vlanAddrs ms) @ [ip]" if "getNextIP (concat (map vlanAddrs ms)) = Some (ip, ips')" for ip ips'
      using getNextIP_fresh [OF that] unfolding set_vlanAddrs .
    show ?thesis
      using None listed fresh set_vlanAddrs [of ms]
      by (auto simp: GetNextVlanIP_def getClusterIPs_def getExistingIPsForCluster_def firstServed_def usedIPs_def wp_rules Let_def ms simp del: set_concat
          split: option.split)
  qed
qed

definition noDots :: "(string \<times> string) list \<Rightarrow> bool" where
  "noDots reqs = list_all (\<lambda>(c, n). CHR ''.'' \<notin> set n) reqs"

lemma wp_vlanServe_first:
  assumes "CHR ''.'' \<notin> set n"
  shows "noDots reqs \<Longrightarrow> wp (vlanServe E reqs) (\<lambda>rs t. (\<exists>new. tr t = new @ tr s) \<and> (vlanIPsMap s (vlanKey c n) = None \<longrightarrow> granted (vlanKey c n) reqs rs \<noteq> [] \<longrightarrow>
     (\<exists>ms. machinesListed E c n (tr s) (tr t) ms \<and> set (granted (vlanKey c n) reqs rs) \<inter> machineVlanIPs ms = {}))) s"
proof (induction reqs arbitrary: s)
  case Nil
  then show ?case by (simp add: wp_rules)
next
  case (Cons q reqs)
  obtain c' n' where q: "q = (c', n')" by (cases q)
  let ?k = "vlanKey c n"
  have nd: "noDots reqs" and n': "CHR ''.'' \<notin> set n'" using Cons.prems by (simp_all add: noDots_def q)
  show ?case
    unfolding q vlanServe.simps
  proof (rule wp_seq [OF wp_GetNextVlanIP_first], elim conjE exE)
    fix r t new assume t: "firstServed E c' n' s r t" "\<forall>k. k \<noteq> vlanKey c' n' \<longrightarrow> vlanIPsMap t k = vlanIPsMap s k" "tr t = new @ tr s"
    have eq: "c' = c \<and> n' = n" if "vlanKey c' n' = ?k" using vlanKey_inj [OF that n' assms] by simp
    have step: "\<exists>ms. machinesListed E c n (tr s) (tr u) ms \<and> set (granted ?k ((c', n') # reqs) (r # rs)) \<inter> machineVlanIPs ms = {}"
      if none: "vlanIPsMap s ?k = None" and some: "granted ?k ((c', n') # reqs) (r # rs) \<noteq> []"
        and u: "tr u = more @ tr t" "set (granted ?k reqs rs) \<inter> usedIPs ?k t = {}"
        and IH: "vlanIPsMap t ?k = None \<longrightarrow> granted ?k reqs rs \<noteq> [] \<longrightarrow> (\<exists>ms. machinesListed E c n (tr t) (tr u) ms \<and> set (granted ?k reqs rs) \<inter> machineVlanIPs ms = {})"
      for rs u more
    proof (cases "vlanIPsMap t ?k = None")
      case True
      then have same: "granted ?k ((c', n') # reqs) (r # rs) = granted ?k reqs rs"
      proof (cases "vlanKey c' n' = ?k")
        case key: True
        with t(1) none True have "\<forall>ip. r \<noteq> Some (Inr ip)" by (auto simp: firstServed_def)
        then show ?thesis by (cases r; cases "the r") auto
      next
        case False
        then show ?thesis by (cases r; cases "the r") auto
      qed
      from IH True some obtain ms where ms: "machinesListed E c n (tr t) (tr u) ms" "set (granted ?k reqs rs) \<inter> machineVlanIPs ms = {}" unfolding same by blast
      have "machinesListed E c n (tr s) ([] @ tr u) ms" by (rule machinesListed_append [where mid = new]) (use ms(1) t(3) in simp)
      with ms(2) show ?thesis unfolding same append_Nil by blast
    next
      case False
      then have key: "vlanKey c' n' = ?k" using t(2) [rule_format, of ?k] none by (cases "vlanKey c' n' = ?k") simp_all
      with eq t(1) none False obtain ms where ms: "machinesListed E c n (tr s) (tr t) ms" "machineVlanIPs ms \<subseteq> usedIPs ?k t" "\<And>ip. r = Some (Inr ip) \<Longrightarrow> ip \<notin> machineVlanIPs ms"
        by (auto simp: firstServed_def)
      have "set (granted ?k ((c', n') # reqs) (r # rs)) \<subseteq> {ip. r = Some (Inr ip)} \<union> set (granted ?k reqs rs)"
        by (cases r; cases "the r") auto
      then have "set (granted ?k ((c', n') # reqs) (r # rs)) \<inter> machineVlanIPs ms = {}" using ms(2,3) u(2) by blast
      moreover have "machinesListed E c n (tr s) (tr u) ms" using machinesListed_append [of E c n "[]" "tr s" "tr t" ms more] ms(1) u(1) by simp
      ultimately show ?thesis by blast
    qed
    show "wp (do { rs \<leftarrow> vlanServe E reqs; ret (r # rs) }) (\<lambda>rs u. (\<exists>new. tr u = new @ tr s) \<and> (vlanIPsMap s ?k = None \<longrightarrow> granted ?k ((c', n') # reqs) rs \<noteq> [] \<longrightarrow>
       (\<exists>ms. machinesListed E c n (tr s) (tr u) ms \<and> set (granted ?k ((c', n') # reqs) rs) \<inter> machineVlanIPs ms = {}))) t"
    proof (rule wp_seq [OF wp_conjI [OF wp_vlanServe [of E reqs ?k t] Cons.IH [OF nd, of t]]], elim conjE exE)
      fix rs u more
      assume u: "set (granted ?k reqs rs) \<inter> usedIPs ?k t = {}" "tr u = more @ tr t"
        "vlanIPsMap t ?k = None \<longrightarrow> granted ?k reqs rs \<noteq> [] \<longrightarrow> (\<exists>ms. machinesListed E c n (tr t) (tr u) ms \<and> set (granted ?k reqs rs) \<inter> machineVlanIPs ms = {})"
      show "wp (ret (r # rs)) (\<lambda>rs u. (\<exists>new. tr u = new @ tr s) \<and> (vlanIPsMap s ?k = None \<longrightarrow> granted ?k ((c', n') # reqs) rs \<noteq> [] \<longrightarrow>
         (\<exists>ms. machinesListed E c n (tr s) (tr u) ms \<and> set (granted ?k ((c', n') # reqs) rs) \<inter> machineVlanIPs ms = {}))) u"
        using step [OF _ _ u(2,1,3)] u(2) t(3) by (simp add: wp_return)
    qed
  qed
qed


section \<open>Properties\<close>

text \<open>
C36: over any sequence of requests for any clusters, started in any state, the addresses granted to one cluster are pairwise
different, none of them was recorded as in use before, and all of them are recorded afterwards. When the cluster had no
record yet, none of them is an address of a machine of the cluster either: before the first one the machines of the
cluster were listed, and their internal addresses in the range of the VLAN are not granted. (Namespaces have no dots, so that a
cluster is known by its key.)
\<close>

theorem vlan_addresses_unique:
  assumes "noDots reqs" and "CHR ''.'' \<notin> set n"
  shows "wp (vlanServe E reqs) (\<lambda>rs t. let k = vlanKey c n; ips = granted k reqs rs in
     distinct ips \<and> set ips \<inter> usedIPs k s = {} \<and> set ips \<union> usedIPs k s \<subseteq> usedIPs k t
     \<and> (vlanIPsMap s k = None \<longrightarrow> ips \<noteq> [] \<longrightarrow> (\<exists>ms. machinesListed E c n (tr s) (tr t) ms \<and> set ips \<inter> machineVlanIPs ms = {}))) s"
  unfolding Let_def
  by (rule wp_mono [OF wp_conjI [OF wp_vlanServe [of E reqs "vlanKey c n" s] wp_vlanServe_first [OF assms(2,1), where E = E and s = s and c = c]]]) blast

text \<open>Two requests for a cluster with a machine that has an address already.\<close>

definition vlanMachine :: LinodeMachine where
  "vlanMachine = lm_Status_update (lms_Addresses_update (\<lambda>_. [\<lparr>ma_Type = ''InternalIP'', ma_Address = ''10.0.0.1''\<rparr>])) lm1"

definition envVlan :: env where
  "envVlan = env0\<lparr>k8s := k8s0\<lparr>k_ListMachines := (\<lambda>_ _ _. Inr [vlanMachine])\<rparr>\<rparr>"

theorem vlan_addresses_unique_witness:
  "wp (vlanServe envVlan [(''c'', ''ns''), (''c'', ''ns'')]) (\<lambda>rs t. let k = vlanKey ''c'' ''ns''; ips = granted k [(''c'', ''ns''), (''c'', ''ns'')] rs in
     distinct ips \<and> set ips \<inter> usedIPs k (start ()) = {} \<and> set ips \<union> usedIPs k (start ()) \<subseteq> usedIPs k t
     \<and> (vlanIPsMap (start ()) k = None \<longrightarrow> ips \<noteq> [] \<longrightarrow> (\<exists>ms. machinesListed envVlan ''c'' ''ns'' (tr (start ())) (tr t) ms \<and> set ips \<inter> machineVlanIPs ms = {}))) (start ())"
  by (rule vlan_addresses_unique) (simp_all add: noDots_def)

text \<open>
C40: the search for an address ends and grants the first free host address of 10.0.0.0/8, while fewer
than 2^24 - 1 addresses are in use; all addresses before it are in use.
\<close>

theorem vlan_next_address:
  assumes "vlanIPsMap s (vlanKey c n) = Some ips" and "length ips < 2 ^ 24 - 1"
  shows "\<exists>k \<ge> 1. wp (GetNextVlanIP E c n) (\<lambda>r t. r = Some (Inr (nthAddr k)) \<and> vlanIPsMap t (vlanKey c n) = Some (ips @ [nthAddr k])) s \<and>
     nthAddr k \<notin> set ips \<and> (\<forall>j. 1 \<le> j \<and> j < k \<longrightarrow> nthAddr j \<in> set ips) \<and>
     IPNet_Contains [10, 0, 0, 0] 8 (ParseIP (nthAddr k))"
proof -
  obtain k where k: "1 \<le> k" "k \<le> Suc (length ips)" "getNextIP ips = Some (nthAddr k, ips @ [nthAddr k])"
    "nthAddr k \<notin> set ips" "\<forall>j. 1 \<le> j \<and> j < k \<longrightarrow> nthAddr j \<in> set ips"
    using getNextIP_least [OF assms(2)] by blast
  have "k < 2 ^ 24" using k(2) assms(2) by simp
  with k show ?thesis
    by (intro exI [of _ k]) (simp add: wp_GetNextVlanIP_known [OF assms(1) k(3)] nthAddr_in_range)
qed

theorem vlan_next_address_witness:
  "\<exists>k \<ge> 1. wp (GetNextVlanIP env0 ''c'' ''ns'') (\<lambda>r t. r = Some (Inr (nthAddr k)) \<and> vlanIPsMap t (vlanKey ''c'' ''ns'') = Some ([''10.0.0.1''] @ [nthAddr k]))
       ((start ())\<lparr>vlanIPsMap := [vlanKey ''c'' ''ns'' \<mapsto> [''10.0.0.1'']]\<rparr>) \<and>
     nthAddr k \<notin> set [''10.0.0.1''] \<and> (\<forall>j. 1 \<le> j \<and> j < k \<longrightarrow> nthAddr j \<in> set [''10.0.0.1'']) \<and>
     IPNet_Contains [10, 0, 0, 0] 8 (ParseIP (nthAddr k))"
  by (rule vlan_next_address) simp_all

end
