(* ===== verification/MachineScope.thy ===== *)
theory MachineScope
  imports Reconcile VlanIPs
begin

text \<open>
  \<open>cloud/scope/machine.go\<close>: the scope of a machine, with its credentials, its bootstrap data and the
  credentials of the cluster's object store; and \<open>cloud/services/object_storage_objects.go\<close> as far as it
  stores and removes the bootstrap data of one machine.
\<close>

section \<open>The scope\<close>

record MachineScope =
  ms_Cluster :: Cluster
  ms_Machine :: Machine
  ms_TokenHash :: string
  ms_LinodeCluster :: LinodeCluster
  ms_LinodeMachine :: LinodeMachine

abbreviation theLM :: "(MachineScope, LinodeMachine) op" where
  "theLM \<equiv> gets (\<lambda>w. ms_LinodeMachine (obj w))"

abbreviation theLC :: "(MachineScope, LinodeCluster) op" where
  "theLC \<equiv> gets (\<lambda>w. ms_LinodeCluster (obj w))"

abbreviation modLM :: "(LinodeMachine \<Rightarrow> LinodeMachine) \<Rightarrow> (MachineScope, unit) op" where
  "modLM f \<equiv> modObj (ms_LinodeMachine_update f)"

abbreviation lmOf :: "MachineScope world \<Rightarrow> LinodeMachine" where
  "lmOf w \<equiv> ms_LinodeMachine (obj w)"

text \<open>
  The parameters of a scope are pointers; the first that is nil is reported.
\<close>

definition validateMachineScopeParams :: "Cluster option \<Rightarrow> Machine option \<Rightarrow> LinodeCluster option \<Rightarrow> LinodeMachine option \<Rightarrow> error option" where
  "validateMachineScopeParams cl mc lc lm =
     (if cl = None then Some (ErrNew ''cluster is required when creating a MachineScope'')
      else if mc = None then Some (ErrNew ''machine is required when creating a MachineScope'')
      else if lc = None then Some (ErrNew ''linodeCluster is required when creating a MachineScope'')
      else if lm = None then Some (ErrNew ''linodeMachine is required when creating a MachineScope'')
      else None)"

definition NewMachineScope ::
  "env \<Rightarrow> string \<Rightarrow> Cluster option \<Rightarrow> Machine option \<Rightarrow> LinodeCluster option \<Rightarrow> LinodeMachine option \<Rightarrow> ('o, MachineScope res) op" where
  "NewMachineScope E token cl mc lc lm =
     (case validateMachineScopeParams cl mc lc lm of
        Some err \<Rightarrow> ret (Inl err)
      | None \<Rightarrow> do {
          err \<leftarrow> newScopeClients E (OMachine (the lm));
          ret (case err of Some e \<Rightarrow> Inl e
               | None \<Rightarrow> Inr \<lparr>ms_Cluster = the cl, ms_Machine = the mc, ms_TokenHash = GetHash E token,
                   ms_LinodeCluster = the lc, ms_LinodeMachine = the lm\<rparr>)
        })"

definition MachineScope_Close :: "env \<Rightarrow> (MachineScope, error option) op" where
  "MachineScope_Close E = do {
     lm \<leftarrow> theLM;
     perform (K8s (KPatch (OMachine lm))) (\<lambda>h. k_Patch (k8s E) h (OMachine lm))
   }"

definition MachineScope_AddFinalizer :: "env \<Rightarrow> (MachineScope, error option) op" where
  "MachineScope_AddFinalizer E = do {
     lm \<leftarrow> theLM;
     let (fs, updated) = lib_AddFinalizer (lib E) (om_Finalizers (lm_Meta lm)) MachineFinalizer;
     _ \<leftarrow> modLM (lm_Meta_update (om_Finalizers_update (\<lambda>_. fs)));
     if updated then MachineScope_Close E else ret None
   }"

definition lmText :: "LinodeMachine \<Rightarrow> string" where
  "lmText lm = om_Namespace (lm_Meta lm) @ ''/'' @ om_Name (lm_Meta lm)"

definition GetBootstrapData :: "env \<Rightarrow> (MachineScope, string res) op" where
  "GetBootstrapData E = do {
     s \<leftarrow> getObj;
     let lm = ms_LinodeMachine s;
     case mc_DataSecretName (ms_Machine s) of
       None \<Rightarrow> ret (Inl (ErrNew (''bootstrap data secret is nil for LinodeMachine '' @ lmText lm)))
     | Some name \<Rightarrow> do {
         let key = \<lparr>nn_Namespace = om_Namespace (lm_Meta lm), nn_Name = name\<rparr>;
         r \<leftarrow> perform (K8s (KGet KSecret key)) (\<lambda>h. k_GetSecret (k8s E) h key);
         ret (case r of
                Inl _ \<Rightarrow> Inl (ErrNew (''failed to retrieve bootstrap data secret for LinodeMachine '' @ lmText lm))
              | Inr secret \<Rightarrow> (case sec_Data secret ''value'' of
                    None \<Rightarrow> Inl (ErrNew (''bootstrap data secret value key is missing for LinodeMachine '' @ lmText lm))
                  | Some v \<Rightarrow> Inr v))
       }
   }"

definition secretHas :: "Secret \<Rightarrow> string \<Rightarrow> bool" where
  "secretHas s key = (case sec_Data s key of None \<Rightarrow> False | Some v \<Rightarrow> v \<noteq> [])"

definition GetObjectStoreCredentials :: "env \<Rightarrow> SecretReference \<Rightarrow> (MachineScope, Secret res) op" where
  "GetObjectStoreCredentials E ref = do {
     lc \<leftarrow> theLC;
     bindE (getCredentials E ref (om_Namespace (lc_Meta lc))) (\<lambda>secret.
       ret (case find (\<lambda>key. \<not> secretHas secret key) [''bucket'', ''endpoint'', ''access'', ''secret''] of
              Some key \<Rightarrow> Inl (ErrNew (''credentials secret '' @ secretName secret @ '' has empty or missing '' @ key))
            | None \<Rightarrow> Inr secret))
   }"

definition MachineScope_AddCredentialsRefFinalizer :: "env \<Rightarrow> (MachineScope, error option) op" where
  "MachineScope_AddCredentialsRefFinalizer E = do {
     lm \<leftarrow> theLM;
     case lms_CredentialsRef (lm_Spec lm) of
       None \<Rightarrow> ret None
     | Some ref \<Rightarrow> addCredentialsFinalizer E ref (om_Namespace (lm_Meta lm)) (toFinalizer (lm_Meta lm))
   }"

definition MachineScope_RemoveCredentialsRefFinalizer :: "env \<Rightarrow> (MachineScope, error option) op" where
  "MachineScope_RemoveCredentialsRefFinalizer E = do {
     lm \<leftarrow> theLM;
     case lms_CredentialsRef (lm_Spec lm) of
       None \<Rightarrow> ret None
     | Some ref \<Rightarrow> removeCredentialsFinalizer E ref (om_Namespace (lm_Meta lm)) (toFinalizer (lm_Meta lm))
   }"

text \<open>The caller has checked that the machine or its cluster has a credentials reference.\<close>

definition MachineScope_SetCredentialRefToken :: "env \<Rightarrow> (MachineScope, error option) op" where
  "MachineScope_SetCredentialRefToken E = do {
     s \<leftarrow> getObj;
     let (ref, ns) = (case lms_CredentialsRef (lm_Spec (ms_LinodeMachine s)) of
           Some ref \<Rightarrow> (ref, om_Namespace (lm_Meta (ms_LinodeMachine s)))
         | None \<Rightarrow> (the (lcs_CredentialsRef (lc_Spec (ms_LinodeCluster s))), om_Namespace (lc_Meta (ms_LinodeCluster s))));
     r \<leftarrow> setTokenFromRef E ref ns;
     case r of
       Inl err \<Rightarrow> ret (Some err)
     | Inr apiToken \<Rightarrow> do { _ \<leftarrow> modObj (ms_TokenHash_update (\<lambda>_. GetHash E apiToken)); ret None }
   }"


section \<open>Bootstrap data in the object store\<close>

text \<open>The checks for nil clients and a nil machine cannot fail: the scope always has them.\<close>

definition validateObjectScopeParams :: "MachineScope \<Rightarrow> error option" where
  "validateObjectScopeParams s =
     (case lcs_ObjectStore (lc_Spec (ms_LinodeCluster s)) of None \<Rightarrow> Some (ErrNew ''nil cluster object store'') | Some _ \<Rightarrow> None)"

definition objectStoreRefs :: "MachineScope \<Rightarrow> ObjectStore \<Rightarrow> SecretReference list" where
  "objectStoreRefs s store =
     map (\<lambda>ref. if sr_Namespace ref = [] then ref\<lparr>sr_Namespace := om_Namespace (lc_Meta (ms_LinodeCluster s))\<rparr> else ref)
       (os_CredentialsRef store # (case os_SecondaryCredentialsRef store of None \<Rightarrow> [] | Some r \<Rightarrow> [r]))"

definition refText :: "SecretReference \<Rightarrow> string" where
  "refText ref = ''object store credentials '' @ sr_Namespace ref @ ''/'' @ sr_Name ref @ '': ''"

definition s3Clients :: "env \<Rightarrow> Secret \<Rightarrow> ('o, (bool \<times> bool) res) op" where
  "s3Clients E credentials = perform (S3 (CS3Clients credentials)) (\<lambda>h. s3_Clients (s3e E) h credentials)"

definition bucketOf :: "Secret \<Rightarrow> string" where
  "bucketOf credentials = (case sec_Data credentials ''bucket'' of None \<Rightarrow> [] | Some b \<Rightarrow> b)"

definition createObjectWithCredentials :: "env \<Rightarrow> ObjectStore \<Rightarrow> SecretReference \<Rightarrow> string \<Rightarrow> string \<Rightarrow> (MachineScope, string res) op" where
  "createObjectWithCredentials E store ref data key =
     bindE (wrapE ''load credentials: '' (GetObjectStoreCredentials E ref)) (\<lambda>credentials.
     bindE (wrapE ''create clients: '' (s3Clients E credentials)) (\<lambda>(s3Client, presignClient).
       if \<not> s3Client then ret (Inl (ErrNew ''create clients: S3 client builder returned nil S3 client''))
       else if \<not> presignClient then ret (Inl (ErrNew ''create clients: S3 client builder returned nil presign client''))
       else do {
         let bucket = bucketOf credentials;
         err \<leftarrow> perform (S3 (CPutObject bucket key data)) (\<lambda>h. s3_PutObject (s3e E) h bucket key data);
         case err of
           Some e \<Rightarrow> ret (Inl (ErrWrap ''put object: '' e))
         | None \<Rightarrow> do {
             let expires = os_PresignedURLDuration store;
             r \<leftarrow> perform (S3 (CPresignGetObject bucket key expires)) (\<lambda>h. s3_PresignGetObject (s3e E) h bucket key expires);
             ret (case r of
                    Inl e \<Rightarrow> Inl (ErrWrap ''generate presigned URL: '' e)
                  | Inr url \<Rightarrow> (if url = None \<or> url = Some [] then Inl (ErrNew ''empty presigned URL'') else Inr (the url)))
           }
       }))"

fun createObjectLoop :: "env \<Rightarrow> ObjectStore \<Rightarrow> string \<Rightarrow> string \<Rightarrow> SecretReference list \<Rightarrow> error list \<Rightarrow> (MachineScope, string res) op" where
  "createObjectLoop E store data key [] attemptErrs =
     ret (Inl (ErrWrap ''all Object Store attempts failed: '' (ErrJoin attemptErrs)))"
| "createObjectLoop E store data key (ref # refs) attemptErrs = do {
     c \<leftarrow> perform (Runtime CtxErr) (rt_CtxErr (rt E));
     case c of
       Some err \<Rightarrow> ret (Inl (ErrWrap ''object store upload cancelled: '' err))
     | None \<Rightarrow> do {
         r \<leftarrow> createObjectWithCredentials E store ref data key;
         case r of
           Inr url \<Rightarrow> ret (Inr url)
         | Inl err \<Rightarrow> createObjectLoop E store data key refs (attemptErrs @ [ErrWrap (refText ref) err])
       }
   }"

definition CreateObject :: "env \<Rightarrow> string \<Rightarrow> (MachineScope, string res) op" where
  "CreateObject E data = do {
     s \<leftarrow> getObj;
     case validateObjectScopeParams s of
       Some err \<Rightarrow> ret (Inl err)
     | None \<Rightarrow>
         if data = [] then ret (Inl (ErrNew ''empty data''))
         else let store = the (lcs_ObjectStore (lc_Spec (ms_LinodeCluster s))) in
           createObjectLoop E store data (om_UID (lm_Meta (ms_LinodeMachine s))) (objectStoreRefs s store) []
   }"

definition isObjectMissingError :: "env \<Rightarrow> error \<Rightarrow> bool" where
  "isObjectMissingError E err = (case lib_S3ErrorCode (lib E) err of None \<Rightarrow> False
     | Some code \<Rightarrow> code \<in> {''NoSuchBucket'', ''NoSuchKey'', ''NotFound''})"

definition deleteObject :: "env \<Rightarrow> string \<Rightarrow> string \<Rightarrow> ('o, error option) op" where
  "deleteObject E bucket key = do {
     hd \<leftarrow> perform (S3 (CHeadObject bucket key)) (\<lambda>h. s3_HeadObject (s3e E) h bucket key);
     let goOn = do {
       d \<leftarrow> perform (S3 (CDeleteObject bucket key)) (\<lambda>h. s3_DeleteObject (s3e E) h bucket key);
       ret (case d of None \<Rightarrow> None
            | Some err \<Rightarrow> if isObjectMissingError E err then None else Some (ErrWrap ''delete object: '' err))
     };
     case hd of
       None \<Rightarrow> goOn
     | Some err \<Rightarrow>
         if lib_S3ErrorCode (lib E) err = Some ''Forbidden'' then goOn
         else if isObjectMissingError E err then ret None
         else ret (Some (ErrWrap ''delete object: '' err))
   }"

definition deleteObjectWithCredentials :: "env \<Rightarrow> SecretReference \<Rightarrow> string \<Rightarrow> (MachineScope, error option) op" where
  "deleteObjectWithCredentials E ref key = do {
     r \<leftarrow> wrapE ''load credentials: '' (GetObjectStoreCredentials E ref);
     case r of
       Inl err \<Rightarrow> ret (Some err)
     | Inr credentials \<Rightarrow> do {
         c \<leftarrow> wrapE ''create clients: '' (s3Clients E credentials);
         case c of
           Inl err \<Rightarrow> ret (Some err)
         | Inr (s3Client, _) \<Rightarrow>
             if \<not> s3Client then ret (Some (ErrNew ''create clients: S3 client builder returned nil client''))
             else deleteObject E (bucketOf credentials) key
       }
   }"

fun deleteObjectLoop :: "env \<Rightarrow> string \<Rightarrow> SecretReference list \<Rightarrow> error option list \<Rightarrow> (MachineScope, error option) op" where
  "deleteObjectLoop E key [] attemptErrs = ret (errors_Join attemptErrs)"
| "deleteObjectLoop E key (ref # refs) attemptErrs = do {
     err \<leftarrow> deleteObjectWithCredentials E ref key;
     deleteObjectLoop E key refs (attemptErrs @ [map_option (ErrWrap (refText ref)) err])
   }"

definition DeleteObject :: "env \<Rightarrow> (MachineScope, error option) op" where
  "DeleteObject E = do {
     s \<leftarrow> getObj;
     case validateObjectScopeParams s of
       Some err \<Rightarrow> ret (Some err)
     | None \<Rightarrow>
         let store = the (lcs_ObjectStore (lc_Spec (ms_LinodeCluster s))) in
           deleteObjectLoop E (om_UID (lm_Meta (ms_LinodeMachine s))) (objectStoreRefs s store) []
   }"

end
