(* ===== verification/MachineConfig.thy ===== *)
theory MachineConfig
  imports MachineScope
begin

text \<open>
  The first part of \<open>internal/controller/linodemachine_controller_helpers.go\<close>: the options with which an
  instance is created. A spec is translated into options of the Linode API, defaults are filled in,
  and the interfaces for the VPC and the VLAN, the placement group, the firewall and the bootstrap
  data are added.
\<close>

section \<open>Constants\<close>

definition maxBootstrapDataBytesCloudInit :: nat where "maxBootstrapDataBytesCloudInit = 16384"
definition defaultNodeIPv6CIDRRange :: string where "defaultNodeIPv6CIDRRange = ''/64''"
definition defaultSwapDiskSize :: int where "defaultSwapDiskSize = 512"

definition vlanIPFormat :: "string \<Rightarrow> string" where
  "vlanIPFormat ip = ip @ ''/11''"

abbreviation "GenerationLinode \<equiv> ''linode''"
abbreviation "GenerationLegacyConfig \<equiv> ''legacy_config''"
abbreviation "InterfacePurposeVLAN \<equiv> ''vlan''"
abbreviation "InterfacePurposeVPC \<equiv> ''vpc''"


section \<open>From the spec to create options\<close>

text \<open>A newer field wins over its legacy spelling.\<close>

definition overLegacy :: "'a option \<Rightarrow> 'a option \<Rightarrow> 'a option" where
  "overLegacy new legacy = (if new \<noteq> None then new else legacy)"

definition autoVPCAddress :: LVPCIfaceAddress where
  "autoVPCAddress = \<lparr>la4_Address = Some ''auto'', la4_Primary = Some True, la4_NAT1To1Address = Some ''auto''\<rparr>"

definition constructLinodeInterfaceVPC :: "VPCInterfaceCreateOptions \<Rightarrow> LVPCIface" where
  "constructLinodeInterfaceVPC v =
     (let (ipv4Addrs, ipv4Ranges) = (case vi_IPv4 v of
            Some i4 \<Rightarrow> (map (\<lambda>a. \<lparr>la4_Address = Some (va4_Address a), la4_Primary = va4_Primary a,
                          la4_NAT1To1Address = overLegacy (va4_NAT1To1Address a) (va4_NAT1To1AddressLegacy a)\<rparr>) (vi4_Addresses i4),
                        map vr4_Range (vi4_Ranges i4))
          | None \<Rightarrow> ([autoVPCAddress], []));
          (ipv6SLAAC, ipv6Ranges, ipv6IsPublic) = (case vi_IPv6 v of
            Some i6 \<Rightarrow> (map vsl_Range (vi6_SLAAC i6), map vr6_Range (vi6_Ranges i6),
                        (case overLegacy (vi6_IsPublic i6) (vi6_IsPublicLegacy i6) of None \<Rightarrow> False | Some b \<Rightarrow> b))
          | None \<Rightarrow> ([], [], False));
          subnetID = (case overLegacy (vi_SubnetID v) (vi_SubnetIDLegacy v) of None \<Rightarrow> 0 | Some i \<Rightarrow> i)
      in \<lparr>lvi_SubnetID = subnetID, lvi_IPv4 = Some \<lparr>lv4_Addresses = ipv4Addrs, lv4_Ranges = ipv4Ranges\<rparr>,
          lvi_IPv6 = Some \<lparr>lv6_SLAAC = ipv6SLAAC, lv6_Ranges = ipv6Ranges, lv6_IsPublic = Some ipv6IsPublic\<rparr>\<rparr>)"

definition constructLinodeInterfacePublic :: "PublicInterfaceCreateOptions \<Rightarrow> LPublicIface" where
  "constructLinodeInterfacePublic p =
     \<lparr>lpi_IPv4 = (case pub_IPv4 p of None \<Rightarrow> []
        | Some i4 \<Rightarrow> map (\<lambda>a. \<lparr>lpa_Address = Some (pa4_Address a), lpa_Primary = pa4_Primary a\<rparr>) (pi4_Addresses i4)),
      lpi_IPv6 = (case pub_IPv6 p of None \<Rightarrow> [] | Some i6 \<Rightarrow> map pr6_Range (pi6_Ranges i6))\<rparr>"

definition constructLinodeInterface :: "LinodeInterfaceCreateOptions \<Rightarrow> LInterface" where
  "constructLinodeInterface iface =
     \<lparr>lif_FirewallID = overLegacy (li_FirewallID iface) (li_FirewallIDLegacy iface),
      lif_DefaultRoute = overLegacy (li_DefaultRoute iface) (li_DefaultRouteLegacy iface),
      lif_Public = map_option constructLinodeInterfacePublic (li_Public iface),
      lif_VPC = map_option constructLinodeInterfaceVPC (li_VPC iface),
      lif_VLAN = map_option (\<lambda>v. \<lparr>lvl_VLANLabel = (if vl_VLANLabel v \<noteq> [] then vl_VLANLabel v else vl_VLANLabelLegacy v),
         lvl_IPAMAddress = overLegacy (vl_IPAMAddress v) (vl_IPAMAddressLegacy v)\<rparr>) (li_VLAN iface)\<rparr>"

definition constructLinodeInterfaceCreateOpts :: "LinodeInterfaceCreateOptions list \<Rightarrow> LInterface list" where
  "constructLinodeInterfaceCreateOpts createOpts = map constructLinodeInterface createOpts"

definition configInterface :: "InstanceConfigInterfaceCreateOptions \<Rightarrow> LConfigInterface" where
  "configInterface iface =
     \<lparr>lci_IPAMAddress = ci_IPAMAddress iface, lci_Label = ci_Label iface, lci_Purpose = ci_Purpose iface, lci_Primary = ci_Primary iface,
      lci_SubnetID = ci_SubnetID iface,
      lci_IPv4 = map_option (\<lambda>v. \<lparr>lc4_VPC = v4_VPC v, lc4_NAT1To1 = (if v4_NAT1To1 v \<noteq> [] then Some (v4_NAT1To1 v) else None)\<rparr>) (ci_IPv4 iface),
      lci_IPv6 = None, lci_IPRanges = ci_IPRanges iface\<rparr>"

definition linodeMachineSpecToInstanceCreateConfig :: "LinodeMachineSpec \<Rightarrow> string list \<Rightarrow> LInstanceCreateOptions option" where
  "linodeMachineSpecToInstanceCreateConfig spec machineTags =
     (let opts = \<lparr>ico_Region = lms_Region spec, ico_Type = lms_Type spec, ico_Label = [], ico_RootPass = lms_RootPass spec,
            ico_AuthorizedKeys = lms_AuthorizedKeys spec, ico_AuthorizedUsers = lms_AuthorizedUsers spec, ico_Image = lms_Image spec,
            ico_Tags = machineTags, ico_FirewallID = lms_FirewallID spec, ico_InterfaceGeneration = lms_InterfaceGeneration spec,
            ico_DiskEncryption = lms_DiskEncryption spec,
            ico_PrivateIP = (case lms_PrivateIP spec of None \<Rightarrow> False | Some b \<Rightarrow> b), ico_NetworkHelper = None,
            ico_LinodeInterfaces = [], ico_Interfaces = [], ico_Booted = None, ico_BootSize = None, ico_UserData = None, ico_PlacementGroup = None\<rparr>
      in Some (if lms_LinodeInterfaces spec \<noteq> []
               then opts\<lparr>ico_LinodeInterfaces := constructLinodeInterfaceCreateOpts (lms_LinodeInterfaces spec),
                         ico_InterfaceGeneration := GenerationLinode\<rparr>
               else if lms_Interfaces spec \<noteq> []
               then opts\<lparr>ico_Interfaces := map configInterface (lms_Interfaces spec), ico_InterfaceGeneration := GenerationLegacyConfig\<rparr>
               else opts))"


section \<open>Tags\<close>

text \<open>
  A set of strings is a Go map; its keys are listed in the order the runtime gives. The keys here
  are in the order of insertion, without the deleted ones.
\<close>

definition constructSet :: "string list list \<Rightarrow> string list" where
  "constructSet arrs = fold setAdd (concat arrs) []"

definition getTags :: "env \<Rightarrow> string list \<Rightarrow> (MachineScope, string list) op" where
  "getTags E instanceTags = do {
     s \<leftarrow> getObj;
     let lm = ms_LinodeMachine s;
     let machineTagSet = constructSet [instanceTags, lms_Tags (lm_Spec lm), GetAutoGenTags (Some (ms_LinodeCluster s))];
     let desiredMachineTags = constructSet [lms_Tags (lm_Spec lm)];
     let kept = filter (\<lambda>tag. \<not> (tag \<in> set (lms_StatusTags (lm_Status lm)) \<and> tag \<notin> set desiredMachineTags)) machineTagSet;
     outTags \<leftarrow> mapKeys E kept;
     _ \<leftarrow> modLM (lm_Status_update (lms_StatusTags_update (\<lambda>_. lms_Tags (lm_Spec lm))));
     ret outTags
   }"


section \<open>Disks\<close>

definition diskMega :: "env \<Rightarrow> InstanceDisk \<Rightarrow> int" where
  "diskMega E d = lib_ScaledMega (lib E) (dk_Size d)"

definition calculateRootDisk :: "env \<Rightarrow> (MachineScope, int option res) op" where
  "calculateRootDisk E = do {
     lm \<leftarrow> theLM;
     case lms_OSDisk (lm_Spec lm) of
       Some d \<Rightarrow> ret (Inr (Some (diskMega E d)))
     | None \<Rightarrow> (case lms_DataDisks (lm_Spec lm) of
         None \<Rightarrow> ret (Inr None)
       | Some ds \<Rightarrow> do {
           let add = (\<lambda>d size. case d of None \<Rightarrow> size | Some x \<Rightarrow> wrap64 (size + diskMega E x));
           let additionalDiskSize = fold add [dks_SDC ds, dks_SDD ds, dks_SDE ds, dks_SDF ds, dks_SDG ds, dks_SDH ds]
             (case dks_SDB ds of Some x \<Rightarrow> diskMega E x | None \<Rightarrow> defaultSwapDiskSize);
           let ty = lms_Type (lm_Spec lm);
           bindE (perform (INST (CGetType ty)) (\<lambda>h. ine_GetTypeDisk (ine E) h ty))
             (\<lambda>disk. ret (Inr (Some (wrap64 (disk - additionalDiskSize)))))
         })
   }"


section \<open>Defaults\<close>

definition fillNetwork :: "LinodeMachineSpec \<Rightarrow> LInstanceCreateOptions \<Rightarrow> LInstanceCreateOptions" where
  "fillNetwork spec opts =
     (let opts1 = (if ico_InterfaceGeneration opts = GenerationLinode
            then opts\<lparr>ico_NetworkHelper := (case lms_NetworkHelper spec of None \<Rightarrow> Some True | Some b \<Rightarrow> Some b)\<rparr>
            else opts\<lparr>ico_InterfaceGeneration := GenerationLegacyConfig\<rparr>)
      in case lms_PrivateIP spec of
           Some b \<Rightarrow> opts1\<lparr>ico_PrivateIP := b\<rparr>
         | None \<Rightarrow> if ico_InterfaceGeneration opts1 \<noteq> GenerationLinode then opts1\<lparr>ico_PrivateIP := True\<rparr> else opts1)"

definition fillCreateConfig :: "env \<Rightarrow> LInstanceCreateOptions \<Rightarrow> (MachineScope, LInstanceCreateOptions res) op" where
  "fillCreateConfig E createConfig = do {
     lm \<leftarrow> theLM;
     let c1 = fillNetwork (lm_Spec lm) createConfig;
     let c2 = (if ico_Label c1 = [] then c1\<lparr>ico_Label := om_Name (lm_Meta lm)\<rparr> else c1);
     let c3 = (if ico_Image c2 = [] then c2\<lparr>ico_Image := DefaultMachineControllerLinodeImage\<rparr> else c2);
     c4 \<leftarrow> (if ico_RootPass c3 = [] \<and> ico_AuthorizedKeys c3 = []
           then do { u \<leftarrow> perform (Runtime NewUUID) (rt_UUID (rt E)); ret (c3\<lparr>ico_RootPass := u\<rparr>) } else ret c3);
     bindE (calculateRootDisk E) (\<lambda>diskSize.
       ret (Inr (case diskSize of None \<Rightarrow> c4 | Some d \<Rightarrow> c4\<lparr>ico_BootSize := Some d\<rparr>)))
   }"


section \<open>VPC interfaces\<close>

definition isIPv6ConfigEmpty :: "LConfigIPv6 option \<Rightarrow> bool" where
  "isIPv6ConfigEmpty opts = (case opts of None \<Rightarrow> True
     | Some o6 \<Rightarrow> lc6_SLAAC o6 = [] \<and> lc6_Ranges o6 = [] \<and> lc6_IsPublic o6 = None)"

definition isVPCInterfaceIPv6ConfigEmpty :: "LVPCIface6 option \<Rightarrow> bool" where
  "isVPCInterfaceIPv6ConfigEmpty opts = (case opts of None \<Rightarrow> True
     | Some o6 \<Rightarrow> lv6_SLAAC o6 = [] \<and> lv6_Ranges o6 = [] \<and> lv6_IsPublic o6 = None)"

definition ipv6Flag :: "bool option \<Rightarrow> bool" where
  "ipv6Flag b = (b = Some True)"

definition getMachineIPv6Config :: "LinodeMachineSpec \<Rightarrow> nat \<Rightarrow> LConfigIPv6" where
  "getMachineIPv6Config spec numIPv6RangesInSubnet =
     (case lms_IPv6Options spec of
        Some o6 \<Rightarrow> if numIPv6RangesInSubnet = 0 then \<lparr>lc6_SLAAC = [], lc6_Ranges = [], lc6_IsPublic = None\<rparr>
          else \<lparr>lc6_SLAAC = (if ipv6Flag (i6_EnableSLAAC o6) then [defaultNodeIPv6CIDRRange] else []),
                lc6_Ranges = (if ipv6Flag (i6_EnableRanges o6) then [Some defaultNodeIPv6CIDRRange] else []),
                lc6_IsPublic = i6_IsPublicIPv6 o6\<rparr>
      | None \<Rightarrow> \<lparr>lc6_SLAAC = [], lc6_Ranges = [], lc6_IsPublic = None\<rparr>)"

definition getVPCLinodeInterfaceIPv6Config :: "LinodeMachineSpec \<Rightarrow> nat \<Rightarrow> LVPCIface6" where
  "getVPCLinodeInterfaceIPv6Config spec numIPv6RangesInSubnet =
     (case lms_IPv6Options spec of
        Some o6 \<Rightarrow> if numIPv6RangesInSubnet = 0 then \<lparr>lv6_SLAAC = [], lv6_Ranges = [], lv6_IsPublic = None\<rparr>
          else \<lparr>lv6_SLAAC = (if ipv6Flag (i6_EnableSLAAC o6) then [defaultNodeIPv6CIDRRange] else []),
                lv6_Ranges = (if ipv6Flag (i6_EnableRanges o6) then [defaultNodeIPv6CIDRRange] else []),
                lv6_IsPublic = i6_IsPublicIPv6 o6\<rparr>
      | None \<Rightarrow> \<lparr>lv6_SLAAC = [], lv6_Ranges = [], lv6_IsPublic = None\<rparr>)"

text \<open>
  The interface for a subnet: the first VPC interface of the list is put on the subnet, and if there
  is none the result is an interface to add. One function for each kind of interface.
\<close>

fun setFirst :: "('a \<Rightarrow> bool) \<Rightarrow> ('a \<Rightarrow> 'a) \<Rightarrow> 'a list \<Rightarrow> 'a list option" where
  "setFirst P f [] = None"
| "setFirst P f (x # xs) = (if P x then Some (f x # xs) else map_option ((#) x) (setFirst P f xs))"

definition vpcConfigIface :: "int \<Rightarrow> LConfigIPv6 option \<Rightarrow> LConfigInterface list \<Rightarrow> LConfigInterface list \<times> LConfigInterface option" where
  "vpcConfigIface subnetID ipv6Config interfaces =
     (case setFirst (\<lambda>i. lci_Purpose i = InterfacePurposeVPC)
        (\<lambda>i. if isIPv6ConfigEmpty ipv6Config then i\<lparr>lci_SubnetID := Some subnetID\<rparr>
             else i\<lparr>lci_SubnetID := Some subnetID, lci_IPv6 := ipv6Config\<rparr>) interfaces of
        Some interfaces' \<Rightarrow> (interfaces', None)
      | None \<Rightarrow> (interfaces, Some \<lparr>lci_IPAMAddress = [], lci_Label = [], lci_Purpose = InterfacePurposeVPC, lci_Primary = True,
          lci_SubnetID = Some subnetID, lci_IPv4 = Some \<lparr>lc4_VPC = [], lc4_NAT1To1 = Some ''any''\<rparr>,
          lci_IPv6 = (if isIPv6ConfigEmpty ipv6Config then None else ipv6Config), lci_IPRanges = []\<rparr>))"

definition vpcLinodeIface :: "int \<Rightarrow> LVPCIface6 option \<Rightarrow> LInterface list \<Rightarrow> LInterface list \<times> LInterface option" where
  "vpcLinodeIface subnetID ipv6Config linodeInterfaces =
     (case setFirst (\<lambda>i. lif_VPC i \<noteq> None)
        (lif_VPC_update (map_option (\<lambda>v. if isVPCInterfaceIPv6ConfigEmpty ipv6Config then v\<lparr>lvi_SubnetID := subnetID\<rparr>
             else v\<lparr>lvi_SubnetID := subnetID, lvi_IPv6 := ipv6Config\<rparr>))) linodeInterfaces of
        Some ifaces' \<Rightarrow> (ifaces', None)
      | None \<Rightarrow> (linodeInterfaces, Some \<lparr>lif_FirewallID = None, lif_DefaultRoute = None, lif_Public = None,
          lif_VPC = Some \<lparr>lvi_SubnetID = subnetID, lvi_IPv4 = Some \<lparr>lv4_Addresses = [autoVPCAddress], lv4_Ranges = []\<rparr>,
            lvi_IPv6 = (if isVPCInterfaceIPv6ConfigEmpty ipv6Config then None else ipv6Config)\<rparr>,
          lif_VLAN = None\<rparr>))"

definition getVPCFromRef :: "env \<Rightarrow> ObjectReference \<Rightarrow> (MachineScope, LinodeVPC res) op" where
  "getVPCFromRef E vpcRef = do {
     lm \<leftarrow> theLM;
     let key = \<lparr>nn_Namespace = (if obr_Namespace vpcRef = [] then om_Namespace (lm_Meta lm) else obr_Namespace vpcRef), nn_Name = obr_Name vpcRef\<rparr>;
     bindE (perform (K8s (KGet KVPC key)) (\<lambda>h. k_GetVPC (k8s E) h key)) (\<lambda>linodeVPC.
       ret (if \<not> vpc_Ready (lv_Status linodeVPC) \<or> vpc_VPCID (lv_Spec linodeVPC) = None then Inl (ErrNew ''vpc is not available'')
            else if vpc_Subnets (lv_Spec linodeVPC) = [] then Inl (ErrNew ''failed to find subnet'')
            else Inr linodeVPC))
   }"

text \<open>
  The subnet and the number of its IPv6 ranges: the one with the name, or the first if there is no
  name. Zero stands for a subnet that is not found.
\<close>

definition chooseSubnet :: "('s \<Rightarrow> string) \<Rightarrow> ('s \<Rightarrow> int) \<Rightarrow> ('s \<Rightarrow> nat) \<Rightarrow> string \<Rightarrow> 's list \<Rightarrow> int \<times> nat option" where
  "chooseSubnet label ident ranges subnetName subnets =
     (if subnetName \<noteq> [] then (case find (\<lambda>sn. label sn = subnetName) subnets of
           None \<Rightarrow> (0, None) | Some sn \<Rightarrow> (ident sn, Some (ranges sn)))
      else (ident (hd subnets), Some (ranges (hd subnets))))"

definition refSubnet :: "env \<Rightarrow> ObjectReference \<Rightarrow> (MachineScope, (int \<times> nat option) res) op" where
  "refSubnet E vpcRef = do {
     lc \<leftarrow> theLC;
     bindE (getVPCFromRef E vpcRef) (\<lambda>linodeVPC.
       let (subnetID, n) = chooseSubnet sn_Label sn_SubnetID (\<lambda>sn. length (sn_IPv6 sn)) (net_SubnetName (lcs_Network (lc_Spec lc)))
             (vpc_Subnets (lv_Spec linodeVPC))
       in ret (if subnetID = 0 then Inl (ErrNew ''failed to find subnet as subnet id set is 0'') else Inr (subnetID, n)))
   }"

definition getVPCFromID :: "env \<Rightarrow> int \<Rightarrow> ('o, LVPC res) op" where
  "getVPCFromID E vpcID =
     bindE (perform (VPC (CGetVPC vpcID)) (\<lambda>h. vpe_GetVPC (vpe E) h vpcID)) (\<lambda>vpc.
       ret (if lvpc_Subnets vpc = [] then Inl (ErrNew ''no subnets found in VPC'') else Inr vpc))"

definition idSubnet :: "env \<Rightarrow> int \<Rightarrow> (MachineScope, (int \<times> nat option) res) op" where
  "idSubnet E vpcID = do {
     lc \<leftarrow> theLC;
     let subnetName = net_SubnetName (lcs_Network (lc_Spec lc));
     bindE (getVPCFromID E vpcID) (\<lambda>vpc.
       let (subnetID, n) = chooseSubnet lsn_Label lsn_ID (\<lambda>sn. length (lsn_IPv6 sn)) subnetName (lvpc_Subnets vpc)
       in ret (if subnetName \<noteq> [] \<and> subnetID = 0 then Inl (ErrNew (''subnet with label '' @ subnetName @ '' not found in VPC''))
               else Inr (subnetID, n)))
   }"

text \<open>
  Where the interface comes from: an interface of the list is changed in place, so the result is the
  list and the interface to add in front of it, if any.
\<close>

definition getVPCInterfaceConfig :: "env \<Rightarrow> LConfigInterface list \<Rightarrow> ObjectReference \<Rightarrow> (MachineScope, (LConfigInterface list \<times> LConfigInterface option) res) op" where
  "getVPCInterfaceConfig E interfaces vpcRef = do {
     lm \<leftarrow> theLM;
     bindE (refSubnet E vpcRef) (\<lambda>(subnetID, n).
       ret (Inr (vpcConfigIface subnetID (map_option (getMachineIPv6Config (lm_Spec lm)) n) interfaces)))
   }"

definition getVPCLinodeInterfaceConfig :: "env \<Rightarrow> LInterface list \<Rightarrow> ObjectReference \<Rightarrow> (MachineScope, (LInterface list \<times> LInterface option) res) op" where
  "getVPCLinodeInterfaceConfig E linodeInterfaces vpcRef = do {
     lm \<leftarrow> theLM;
     bindE (refSubnet E vpcRef) (\<lambda>(subnetID, n).
       ret (Inr (vpcLinodeIface subnetID (map_option (getVPCLinodeInterfaceIPv6Config (lm_Spec lm)) n) linodeInterfaces)))
   }"

definition getVPCLinodeInterfaceConfigFromDirectID :: "env \<Rightarrow> LInterface list \<Rightarrow> int \<Rightarrow> (MachineScope, (LInterface list \<times> LInterface option) res) op" where
  "getVPCLinodeInterfaceConfigFromDirectID E linodeInterfaces vpcID = do {
     lm \<leftarrow> theLM;
     bindE (idSubnet E vpcID) (\<lambda>(subnetID, n).
       ret (Inr (vpcLinodeIface subnetID (map_option (getVPCLinodeInterfaceIPv6Config (lm_Spec lm)) n) linodeInterfaces)))
   }"

definition getVPCInterfaceConfigFromDirectID :: "env \<Rightarrow> LConfigInterface list \<Rightarrow> int \<Rightarrow> (MachineScope, (LConfigInterface list \<times> LConfigInterface option) res) op" where
  "getVPCInterfaceConfigFromDirectID E interfaces vpcID = do {
     lm \<leftarrow> theLM;
     bindE (idSubnet E vpcID) (\<lambda>(subnetID, n).
       ret (Inr (vpcConfigIface subnetID (map_option (getMachineIPv6Config (lm_Spec lm)) n) interfaces)))
   }"

definition usesLinodeInterfaces :: "LinodeMachineSpec \<Rightarrow> LInstanceCreateOptions \<Rightarrow> bool" where
  "usesLinodeInterfaces spec createConfig =
     (ico_LinodeInterfaces createConfig \<noteq> [] \<or> lms_InterfaceGeneration spec = GenerationLinode)"

definition addFirst :: "'a list \<times> 'a option \<Rightarrow> 'a list" where
  "addFirst r = (case r of (ifaces, iface) \<Rightarrow> (case iface of None \<Rightarrow> ifaces | Some i \<Rightarrow> i # ifaces))"

definition addVPCInterfaceFromDirectID :: "env \<Rightarrow> LInstanceCreateOptions \<Rightarrow> int \<Rightarrow> (MachineScope, LInstanceCreateOptions res) op" where
  "addVPCInterfaceFromDirectID E createConfig vpcID = do {
     lm \<leftarrow> theLM;
     if usesLinodeInterfaces (lm_Spec lm) createConfig
     then bindE (getVPCLinodeInterfaceConfigFromDirectID E (ico_LinodeInterfaces createConfig) vpcID)
       (\<lambda>r. ret (Inr (createConfig\<lparr>ico_LinodeInterfaces := addFirst r\<rparr>)))
     else bindE (getVPCInterfaceConfigFromDirectID E (ico_Interfaces createConfig) vpcID)
       (\<lambda>r. ret (Inr (createConfig\<lparr>ico_Interfaces := addFirst r\<rparr>)))
   }"

definition addVPCInterfaceFromReference :: "env \<Rightarrow> LInstanceCreateOptions \<Rightarrow> ObjectReference \<Rightarrow> (MachineScope, LInstanceCreateOptions res) op" where
  "addVPCInterfaceFromReference E createConfig vpcRef = do {
     lm \<leftarrow> theLM;
     if usesLinodeInterfaces (lm_Spec lm) createConfig
     then bindE (getVPCLinodeInterfaceConfig E (ico_LinodeInterfaces createConfig) vpcRef)
       (\<lambda>r. ret (Inr (createConfig\<lparr>ico_LinodeInterfaces := addFirst r\<rparr>)))
     else bindE (getVPCInterfaceConfig E (ico_Interfaces createConfig) vpcRef)
       (\<lambda>r. ret (Inr (createConfig\<lparr>ico_Interfaces := addFirst r\<rparr>)))
   }"

definition getVPCRefFromScope :: "MachineScope \<Rightarrow> ObjectReference option" where
  "getVPCRefFromScope s = (case lms_VPCRef (lm_Spec (ms_LinodeMachine s)) of Some r \<Rightarrow> Some r | None \<Rightarrow> lcs_VPCRef (lc_Spec (ms_LinodeCluster s)))"

definition configureVPCInterface :: "env \<Rightarrow> LInstanceCreateOptions \<Rightarrow> (MachineScope, LInstanceCreateOptions res) op" where
  "configureVPCInterface E createConfig = do {
     s \<leftarrow> getObj;
     case lms_VPCID (lm_Spec (ms_LinodeMachine s)) of
       Some vpcID \<Rightarrow> addVPCInterfaceFromDirectID E createConfig vpcID
     | None \<Rightarrow> (case lcs_VPCID (lc_Spec (ms_LinodeCluster s)) of
         Some vpcID \<Rightarrow> addVPCInterfaceFromDirectID E createConfig vpcID
       | None \<Rightarrow> (case getVPCRefFromScope s of
           Some vpcRef \<Rightarrow> addVPCInterfaceFromReference E createConfig vpcRef
         | None \<Rightarrow> ret (Inr createConfig)))
   }"


section \<open>VLAN, placement group and firewall\<close>

text \<open>
  \<open>ErrPanic\<close> also stands for a search for an address that never ends, which needs 2^24 - 1 addresses in
  use: like a panic it gives no result to the caller.
\<close>

definition vlanIP :: "env \<Rightarrow> (MachineScope, string res) op" where
  "vlanIP E = do {
     s \<leftarrow> getObj;
     r \<leftarrow> GetNextVlanIP E (om_Name (cl_Meta (ms_Cluster s))) (om_Namespace (cl_Meta (ms_Cluster s)));
     ret (case r of None \<Rightarrow> Inl (ErrSentinel ErrPanic) | Some (Inl e) \<Rightarrow> Inl (ErrWrap ''getting vlanIP: '' e) | Some (Inr ip) \<Rightarrow> Inr ip)
   }"

definition getVlanInterfaceConfig :: "env \<Rightarrow> LConfigInterface list \<Rightarrow> (MachineScope, (LConfigInterface list \<times> LConfigInterface option) res) op" where
  "getVlanInterfaceConfig E interfaces = do {
     s \<leftarrow> getObj;
     bindE (vlanIP E) (\<lambda>ip.
       ret (Inr (case setFirst (\<lambda>i. lci_Purpose i = InterfacePurposeVLAN) (lci_IPAMAddress_update (\<lambda>_. vlanIPFormat ip)) interfaces of
           Some interfaces' \<Rightarrow> (interfaces', None)
         | None \<Rightarrow> (interfaces, Some \<lparr>lci_IPAMAddress = vlanIPFormat ip, lci_Label = om_Name (cl_Meta (ms_Cluster s)), lci_Purpose = InterfacePurposeVLAN,
             lci_Primary = False, lci_SubnetID = None, lci_IPv4 = None, lci_IPv6 = None, lci_IPRanges = []\<rparr>))))
   }"

definition getVlanLinodeInterfaceConfig :: "env \<Rightarrow> LInterface list \<Rightarrow> (MachineScope, (LInterface list \<times> LInterface option) res) op" where
  "getVlanLinodeInterfaceConfig E interfaces = do {
     s \<leftarrow> getObj;
     bindE (vlanIP E) (\<lambda>ip.
       ret (Inr (case setFirst (\<lambda>i. lif_VLAN i \<noteq> None) (lif_VLAN_update (map_option (\<lambda>v. v\<lparr>lvl_IPAMAddress := Some (vlanIPFormat ip)\<rparr>))) interfaces of
           Some interfaces' \<Rightarrow> (interfaces', None)
         | None \<Rightarrow> (interfaces, Some \<lparr>lif_FirewallID = None, lif_DefaultRoute = None, lif_Public = None, lif_VPC = None,
             lif_VLAN = Some \<lparr>lvl_VLANLabel = om_Name (cl_Meta (ms_Cluster s)), lvl_IPAMAddress = Some (vlanIPFormat ip)\<rparr>\<rparr>))))
   }"

definition configureVlanInterface :: "env \<Rightarrow> LInstanceCreateOptions \<Rightarrow> (MachineScope, LInstanceCreateOptions res) op" where
  "configureVlanInterface E createConfig = do {
     lm \<leftarrow> theLM;
     if usesLinodeInterfaces (lm_Spec lm) createConfig
     then bindE (getVlanLinodeInterfaceConfig E (ico_LinodeInterfaces createConfig)) (\<lambda>r. ret (Inr (createConfig\<lparr>ico_LinodeInterfaces := addFirst r\<rparr>)))
     else bindE (getVlanInterfaceConfig E (ico_Interfaces createConfig)) (\<lambda>r. ret (Inr (createConfig\<lparr>ico_Interfaces := addFirst r\<rparr>)))
   }"

definition refKey :: "LinodeMachine \<Rightarrow> ObjectReference \<Rightarrow> NamespacedName" where
  "refKey lm ref = \<lparr>nn_Namespace = (if obr_Namespace ref = [] then om_Namespace (lm_Meta lm) else obr_Namespace ref), nn_Name = obr_Name ref\<rparr>"

definition getPlacementGroupID :: "env \<Rightarrow> ObjectReference \<Rightarrow> (MachineScope, int res) op" where
  "getPlacementGroupID E ref = do {
     lm \<leftarrow> theLM;
     let key = refKey lm ref;
     bindE (perform (K8s (KGet KPlacementGroup key)) (\<lambda>h. k_GetPlacementGroup (k8s E) h key)) (\<lambda>pg.
       ret (case pg_PGID (lpg_Spec pg) of
              Some i \<Rightarrow> if pg_Ready (lpg_Status pg) then Inr i else Inl (ErrNew ''placement group is not ready'')
            | None \<Rightarrow> Inl (ErrNew ''placement group is not ready'')))
   }"

definition getFirewallID :: "env \<Rightarrow> ObjectReference \<Rightarrow> (MachineScope, int res) op" where
  "getFirewallID E ref = do {
     lm \<leftarrow> theLM;
     let key = refKey lm ref;
     bindE (perform (K8s (KGet KFirewall key)) (\<lambda>h. k_GetFirewall (k8s E) h key)) (\<lambda>fw.
       ret (case fw_FirewallID (lfw_Spec fw) of Some i \<Rightarrow> Inr i | None \<Rightarrow> Inl (ErrNew ''nil firewallID'')))
   }"

definition configurePlacementGroup :: "env \<Rightarrow> ObjectReference \<Rightarrow> LInstanceCreateOptions \<Rightarrow> (MachineScope, LInstanceCreateOptions res) op" where
  "configurePlacementGroup E ref createConfig =
     bindE (getPlacementGroupID E ref) (\<lambda>pgID. ret (Inr (createConfig\<lparr>ico_PlacementGroup := Some pgID\<rparr>)))"

definition configureFirewall :: "env \<Rightarrow> LInstanceCreateOptions \<Rightarrow> (MachineScope, LInstanceCreateOptions res) op" where
  "configureFirewall E createConfig = do {
     lm \<leftarrow> theLM;
     if lms_FirewallID (lm_Spec lm) \<noteq> 0 then ret (Inr (createConfig\<lparr>ico_FirewallID := lms_FirewallID (lm_Spec lm)\<rparr>))
     else bindE (getFirewallID E (the (lms_FirewallRef (lm_Spec lm)))) (\<lambda>fwID.
       ret (Inr (createConfig\<lparr>ico_FirewallID := fwID,
          ico_LinodeInterfaces := map (lif_FirewallID_update (\<lambda>_. Some fwID)) (ico_LinodeInterfaces createConfig)\<rparr>)))
   }"



section \<open>Bootstrap data\<close>

text \<open>\<open>base64.StdEncoding\<close>.\<close>

definition b64Char :: "nat \<Rightarrow> char" where
  "b64Char n = (if n < 26 then char_of (65 + n) else if n < 52 then char_of (71 + n) else if n < 62 then char_of (n - 4)
     else if n = 62 then CHR ''+'' else CHR ''/'')"

fun b64Encode :: "string \<Rightarrow> string" where
  "b64Encode (a # b # c # s) = (let n = of_char a * 65536 + of_char b * 256 + of_char c :: nat in
     [b64Char (n div 262144), b64Char (n div 4096 mod 64), b64Char (n div 64 mod 64), b64Char (n mod 64)] @ b64Encode s)"
| "b64Encode [a, b] = (let n = of_char a * 65536 + of_char b * 256 :: nat in
     [b64Char (n div 262144), b64Char (n div 4096 mod 64), b64Char (n div 64 mod 64), CHR ''=''])"
| "b64Encode [a] = (let n = of_char a * 65536 :: nat in [b64Char (n div 262144), b64Char (n div 4096 mod 64), CHR ''='', CHR ''=''])"
| "b64Encode [] = []"

text \<open>The template \<open>cloud-init.tmpl\<close>: a line \<open>#include\<close> and one line for each URL.\<close>

definition cloudConfig :: "string list \<Rightarrow> string" where
  "cloudConfig urls = ''#include'' @ concat (map (\<lambda>u. ''\<newline>'' @ u) urls) @ ''\<newline>''"

text \<open>The writer of \<open>compress/gzip\<close> is a parameter.\<close>

definition compressUserData :: "env \<Rightarrow> string \<Rightarrow> string res" where
  "compressUserData E bootstrapData = lib_Gzip (lib E) bootstrapData"

definition uploadBootstrapData :: "env \<Rightarrow> string \<Rightarrow> (MachineScope, string res) op" where
  "uploadBootstrapData E bootstrapdata = do {
     lc \<leftarrow> theLC;
     if lcs_ObjectStore (lc_Spec lc) = None
     then ret (Inl (ErrNew ''must enable cluster object store feature to bootstrap linodemachine''))
     else bindE (wrapE ''upload bootstrap data: '' (CreateObject E bootstrapdata)) (\<lambda>url. ret (Inr (cloudConfig [url])))
   }"

definition resolveBootstrapData :: "env \<Rightarrow> bool \<Rightarrow> (MachineScope, string res) op" where
  "resolveBootstrapData E gzipCompressionEnabled =
     bindE (GetBootstrapData E) (\<lambda>bootstrapdata.
       if length bootstrapdata < maxBootstrapDataBytesCloudInit then ret (Inr bootstrapdata)
       else if gzipCompressionEnabled then
         (case compressUserData E bootstrapdata of
            Inl _ \<Rightarrow> uploadBootstrapData E bootstrapdata
          | Inr compressed \<Rightarrow>
              if length compressed < maxBootstrapDataBytesCloudInit then ret (Inr compressed)
              else uploadBootstrapData E bootstrapdata)
       else uploadBootstrapData E bootstrapdata)"

definition setUserData :: "env \<Rightarrow> bool \<Rightarrow> LInstanceCreateOptions \<Rightarrow> (MachineScope, LInstanceCreateOptions res) op" where
  "setUserData E gzipCompressionEnabled createConfig =
     bindE (resolveBootstrapData E gzipCompressionEnabled) (\<lambda>bootstrapData.
       ret (Inr (createConfig\<lparr>ico_UserData := Some (b64Encode bootstrapData)\<rparr>)))"

definition deleteBootstrapData :: "env \<Rightarrow> (MachineScope, error option) op" where
  "deleteBootstrapData E = do {
     lc \<leftarrow> theLC;
     if lcs_ObjectStore (lc_Spec lc) \<noteq> None then DeleteObject E else ret None
   }"


section \<open>All together\<close>

definition newCreateConfig :: "env \<Rightarrow> bool \<Rightarrow> (MachineScope, LInstanceCreateOptions res) op" where
  "newCreateConfig E gzipCompressionEnabled = do {
     s \<leftarrow> getObj;
     let spec = lm_Spec (ms_LinodeMachine s);
     tags \<leftarrow> getTags E [];
     case linodeMachineSpecToInstanceCreateConfig spec tags of
       None \<Rightarrow> ret (Inl (ErrNew ''failed to convert machine spec to create instance config''))
     | Some c0 \<Rightarrow>
         bindE (setUserData E gzipCompressionEnabled (c0\<lparr>ico_Booted := Some False\<rparr>)) (\<lambda>c1.
         bindE (fillCreateConfig E c1) (\<lambda>c2.
         bindE (configureVPCInterface E c2) (\<lambda>c3.
         bindE (if net_UseVlan (lcs_Network (lc_Spec (ms_LinodeCluster s))) then configureVlanInterface E c3 else ret (Inr c3)) (\<lambda>c4.
         bindE (case lms_PlacementGroupRef spec of Some ref \<Rightarrow> configurePlacementGroup E ref c4 | None \<Rightarrow> ret (Inr c4)) (\<lambda>c5.
           if lms_FirewallRef spec \<noteq> None \<or> lms_FirewallID spec \<noteq> 0 then configureFirewall E c5 else ret (Inr c5))))))
   }"


section \<open>Creating the instance\<close>


text \<open>
  The counter of the token, which the function holds locked: it is read again for every use.
\<close>

definition theCounter :: "string \<Rightarrow> ('o, PostRequestCounter) op" where
  "theCounter tokenHash = gets (\<lambda>w. the (postRequestCounters w tokenHash))"

definition retryAfterNow :: "env \<Rightarrow> string \<Rightarrow> ('o, duration) op" where
  "retryAfterNow E tokenHash = do { ctr \<leftarrow> theCounter tokenHash; now \<leftarrow> timeNow E; ret (RetryAfter now ctr) }"

definition createInstance :: "env \<Rightarrow> LInstanceCreateOptions \<Rightarrow> (MachineScope, duration \<times> LInstance res) op" where
  "createInstance E createOpts = do {
     s \<leftarrow> getObj;
     let tokenHash = ms_TokenHash s;
     ctr \<leftarrow> GetPostReqCounter tokenHash;
     now \<leftarrow> timeNow E;
     if IsPOSTLimitReached now ctr then do {
       _ \<leftarrow> retryAfterNow E tokenHash;
       d \<leftarrow> retryAfterNow E tokenHash;
       ret (d, Inl (ErrSentinel ErrRateLimit))
     }
     else do {
       (resp, inst) \<leftarrow> perform (INST (CCreateInstance createOpts)) (\<lambda>h. ine_CreateInstance (ine E) h createOpts);
       _ \<leftarrow> modify (postRequestCounters_update (\<lambda>m. m(tokenHash \<mapsto> fst (ApiResponseRatelimitCounter resp ctr))));
       let dup = (case inst of Inl err \<Rightarrow> lib_ErrHasStatus (lib E) (Some err) [StatusBadRequest] \<and> strings_Contains (errText err) ''Label must be unique'' | Inr _ \<Rightarrow> False);
       if dup then (case Filter_String (filterOf None (ico_Label createOpts) []) of
           Inl _ \<Rightarrow> do { d \<leftarrow> retryAfterNow E tokenHash; ret (d, inst) }
         | Inr flt \<Rightarrow> do {
             r \<leftarrow> perform (INST (CListInstances flt)) (\<lambda>h. ine_ListInstances (ine E) h flt);
             d \<leftarrow> retryAfterNow E tokenHash;
             ret (d, case r of Inl listErr \<Rightarrow> Inl listErr | Inr [] \<Rightarrow> inst | Inr (i # _) \<Rightarrow> Inr i)
           })
       else do { d \<leftarrow> retryAfterNow E tokenHash; ret (d, inst) }
     }
   }"

end
