(* ===== verification/MachineInstance.thy ===== *)
theory MachineInstance
  imports MachineConfig
begin

text \<open>
  The second part of \<open>internal/controller/linodemachine_controller_helpers.go\<close>: the addresses of an
  existing instance, its data disks and its configuration profile, and the requests that a change
  of a cluster causes.
\<close>

section \<open>The text of an address in a prefix\<close>

text \<open>\<open>netip.ParsePrefix(s)\<close> and \<open>Addr().String()\<close> of the result; \<open>None\<close> is the panic of \<open>MustParsePrefix\<close>.\<close>

fun showHex :: "nat \<Rightarrow> string" where
  "showHex n = (if n < 16 then [hexDigit n] else showHex (n div 16) @ [hexDigit (n mod 16)])"

declare showHex.simps [simp del]

fun groups16 :: "ip \<Rightarrow> nat list" where
  "groups16 (a # b # bs) = (256 * a + b) # groups16 bs"
| "groups16 _ = []"

text \<open>The start and the end of the first longest run of at least two zero groups.\<close>

definition zeroRun :: "nat list \<Rightarrow> nat \<Rightarrow> nat" where
  "zeroRun gs i = length (takeWhile (\<lambda>g. g = 0) (drop i gs))"

definition longestZeros :: "nat list \<Rightarrow> (nat \<times> nat) option" where
  "longestZeros gs = fold (\<lambda>i best. let l = zeroRun gs i in
     if 2 \<le> l \<and> (case best of None \<Rightarrow> True | Some (a, b) \<Rightarrow> b - a < l) then Some (i, i + l) else best) [0..<length gs] None"

definition showIPv6 :: "ip \<Rightarrow> string" where
  "showIPv6 bs =
     (if take 12 bs = v4InV6Prefix then ''::ffff:'' @ showIPv4 (bytesVal (drop 12 bs))
      else let gs = groups16 bs in case longestZeros gs of
          None \<Rightarrow> strings_Join (map showHex gs) '':''
        | Some (a, b) \<Rightarrow> strings_Join (map showHex (take a gs)) '':'' @ ''::'' @ strings_Join (map showHex (drop b gs)) '':'')"

definition prefixBits :: "nat \<Rightarrow> string \<Rightarrow> bool" where
  "prefixBits maxBits s = (s \<noteq> [] \<and> list_all isDigit s \<and> (length s = 1 \<or> hd s \<noteq> CHR ''0'') \<and> readNat s \<le> maxBits)"

definition MustParsePrefix_Addr :: "string \<Rightarrow> string option" where
  "MustParsePrefix_Addr s =
     (let bits = rev (takeWhile (\<lambda>c. c \<noteq> CHR ''/'') (rev s)) in
      if CHR ''/'' \<notin> set s then None
      else case netip_ParseAddr (take (length s - length bits - 1) s) of
          None \<Rightarrow> None
        | Some (bs, zone) \<Rightarrow>
            if zone \<noteq> [] then None
            else if length bs = 4 then (if prefixBits 32 bits then Some (showIPv4 (bytesVal bs)) else None)
            else (if prefixBits 128 bits then Some (showIPv6 bs) else None))"


section \<open>Addresses of an instance\<close>


definition internalIP :: "string \<Rightarrow> MachineAddress" where
  "internalIP a = \<lparr>ma_Type = MachineInternalIP, ma_Address = a\<rparr>"

definition externalIP :: "string \<Rightarrow> MachineAddress" where
  "externalIP a = \<lparr>ma_Type = MachineExternalIP, ma_Address = a\<rparr>"

text \<open>The loops over the interfaces: the first address that does not parse, or is nil, panics.\<close>

definition vlanAddresses :: "string option list \<Rightarrow> MachineAddress list res" where
  "vlanAddresses addrs =
     (let as = map (\<lambda>a. case a of None \<Rightarrow> None | Some p \<Rightarrow> MustParsePrefix_Addr p) addrs
      in if None \<in> set as then Inl (ErrSentinel ErrPanic) else Inr (map (\<lambda>a. internalIP (the a)) as))"

definition handleVlanIps :: "env \<Rightarrow> int \<Rightarrow> (MachineScope, MachineAddress list res) op" where
  "handleVlanIps E instanceID = do {
     lm \<leftarrow> theLM;
     if lms_LinodeInterfaces (lm_Spec lm) \<noteq> [] \<or> lms_InterfaceGeneration (lm_Spec lm) = GenerationLinode then do {
       r \<leftarrow> perform (INST (CListInterfaces instanceID)) (\<lambda>h. ine_ListInterfaces (ine E) h instanceID);
       ret (case r of
              Inl err \<Rightarrow> Inl (ErrWrap ''list interfaces: '' err)
            | Inr [] \<Rightarrow> Inl (ErrNew ''list interfaces: %!w(<nil>)'')
            | Inr ifaces \<Rightarrow> vlanAddresses (List.map_filter lii_VLAN ifaces))
     }
     else do {
       r \<leftarrow> perform (INST (CListInstanceConfigs instanceID)) (\<lambda>h. ine_ListInstanceConfigs (ine E) h instanceID);
       ret (case r of
              Inl err \<Rightarrow> Inl (ErrWrap ''list instance configs: '' err)
            | Inr [] \<Rightarrow> Inl (ErrNew ''list instance configs: %!w(<nil>)'')
            | Inr (c # _) \<Rightarrow> vlanAddresses (map (\<lambda>i. Some (lci_IPAMAddress i)) (filter (\<lambda>i. lci_Purpose i = InterfacePurposeVLAN) (lcfg_Interfaces c))))
     }
   }"

definition vpcIPv6Addrs :: "LVPCIPv6 \<Rightarrow> MachineAddress list" where
  "vpcIPv6Addrs v = map (if va6_IsPublic v = Some True then externalIP else internalIP) (va6_SLAACAddresses v)"

definition buildInstanceAddrs :: "env \<Rightarrow> int \<Rightarrow> (MachineScope, MachineAddress list res) op" where
  "buildInstanceAddrs E instanceID =
     bindE (wrapE ''get instance ips: '' (perform (INST (CGetInstanceIPAddresses instanceID)) (\<lambda>h. ine_GetInstanceIPAddresses (ine E) h instanceID)))
     (\<lambda>addresses. case ip_Public addresses of
        [] \<Rightarrow> ret (Inl (ErrNew ''no public ipv4 addresses set''))
      | pub # _ \<Rightarrow> (case ip_IPv6 addresses of
          None \<Rightarrow> ret (Inl (ErrNew ''no public IPv6 address set''))
        | Some ip6 \<Rightarrow> do {
            let vpcPublicIPv6 = (\<exists>v\<in>set (ip6_VPC ip6). va6_IsPublic v = Some True);
            let vpc = map internalIP (filter (\<lambda>a. a \<noteq> []) (List.map_filter id (ip_VPC addresses)));
            let ips = externalIP pub # vpc @ concat (map vpcIPv6Addrs (ip6_VPC ip6));
            if \<not> vpcPublicIPv6 \<and> ip6_SLAAC ip6 = None then ret (Inl (ErrNew ''no public SLAAC address set''))
            else do {
              let ips1 = ips @ (if vpcPublicIPv6 then [] else [externalIP (the (ip6_SLAAC ip6))]);
              lc \<leftarrow> theLC;
              v \<leftarrow> (if net_UseVlan (lcs_Network (lc_Spec lc)) then handleVlanIps E instanceID else ret (Inr []));
              ret (case v of
                     Inl err \<Rightarrow> Inl (wrapUnlessPanic ''handle vlan ips: '' err)
                   | Inr vlanIps \<Rightarrow> Inr (ips1 @ vlanIps @ (case ip_Private addresses of [] \<Rightarrow> [] | p # _ \<Rightarrow> [internalIP p])))
            }
          }))"


section \<open>Requests for the machines of a cluster\<close>

definition requestsForCluster :: "env \<Rightarrow> string \<Rightarrow> string \<Rightarrow> ('o, NamespacedName list res) op" where
  "requestsForCluster E namespace name = do {
     let sel = [(ClusterNameLabel, name)];
     bindE (perform (K8s (KListCAPIMachines namespace sel)) (\<lambda>h. k_ListCAPIMachines (k8s E) h namespace sel)) (\<lambda>items.
       ret (Inr (map (\<lambda>mc. \<lparr>nn_Namespace = om_Namespace (mc_Meta mc), nn_Name = mc_InfrastructureRefName mc\<rparr>)
         (filter (\<lambda>mc. mc_InfrastructureRefKind mc = ''LinodeMachine'' \<and> mc_InfrastructureRefName mc \<noteq> []) items))))
   }"

definition linodeClusterToLinodeMachines :: "env \<Rightarrow> LinodeCluster option \<Rightarrow> ('o, NamespacedName list) op" where
  "linodeClusterToLinodeMachines E ob =
     (case ob of None \<Rightarrow> ret []
      | Some lc \<Rightarrow>
          if om_DeletionTimestamp (lc_Meta lc) \<noteq> None then ret []
          else do {
            r \<leftarrow> perform (K8s (KGetOwnerCluster (lc_Meta lc))) (\<lambda>h. k_GetOwnerCluster (k8s E) h (lc_Meta lc));
            case r of
              Inl _ \<Rightarrow> ret []
            | Inr None \<Rightarrow> ret []
            | Inr (Some cl) \<Rightarrow> do {
                q \<leftarrow> requestsForCluster E (om_Namespace (cl_Meta cl)) (om_Name (cl_Meta cl));
                ret (case q of Inl _ \<Rightarrow> [] | Inr reqs \<Rightarrow> reqs)
              }
          })"


section \<open>Data disks\<close>

definition ConditionPreflightBootstrapDataSecretReady :: string where "ConditionPreflightBootstrapDataSecretReady = ''PreflightBootstrapDataSecretReady''"
definition ConditionPreflightLinodeFirewallReady :: string where "ConditionPreflightLinodeFirewallReady = ''PreflightLinodeFirewallReady''"
definition ConditionPreflightMetadataSupportConfigured :: string where "ConditionPreflightMetadataSupportConfigured = ''PreflightMetadataSupportConfigured''"
definition ConditionPreflightCreated :: string where "ConditionPreflightCreated = ''PreflightCreated''"
definition ConditionPreflightAdditionalDisksCreated :: string where "ConditionPreflightAdditionalDisksCreated = ''PreflightAdditionalDisksCreated''"
definition ConditionPreflightConfigured :: string where "ConditionPreflightConfigured = ''PreflightConfigured''"
definition ConditionPreflightBootTriggered :: string where "ConditionPreflightBootTriggered = ''PreflightBootTriggered''"
definition ConditionPreflightReady :: string where "ConditionPreflightReady = ''PreflightReady''"

definition UnknownError :: string where "UnknownError = ''UnknownError''"

definition lmSetCondition :: "env \<Rightarrow> Condition \<Rightarrow> (MachineScope, unit) op" where
  "lmSetCondition E c = do { now \<leftarrow> timeNow E; modLM (LinodeMachine_SetCondition now c) }"

definition lmCondTrue :: "string \<Rightarrow> LinodeMachine \<Rightarrow> bool" where
  "lmCondTrue t lm = ConditionTrue (LinodeMachine_GetCondition t lm)"

definition defaultDiskFilesystem :: string where "defaultDiskFilesystem = ''ext4''"

text \<open>
  \<open>configureDisk\<close> updates the disk it is given; the result is the disk and the error. A request is
  made only for a disk without an ID.
\<close>

definition configureDisk :: "env \<Rightarrow> int \<Rightarrow> InstanceDisk option \<Rightarrow> string \<Rightarrow> (MachineScope, InstanceDisk option \<times> error option) op" where
  "configureDisk E instanceID disk deviceName =
     (case disk of None \<Rightarrow> ret (None, None)
      | Some d \<Rightarrow>
          if dk_DiskID d \<noteq> 0 then ret (Some d, None)
          else do {
            let opts = \<lparr>ldo_Label = (if dk_Label d = [] then deviceName else dk_Label d), ldo_Size = diskMega E d,
                  ldo_Filesystem = (if dk_Filesystem d = [] then defaultDiskFilesystem else dk_Filesystem d)\<rparr>;
            r \<leftarrow> perform (INST (CCreateInstanceDisk instanceID opts)) (\<lambda>h. ine_CreateInstanceDisk (ine E) h instanceID opts);
            case r of
              Inl err \<Rightarrow> do {
                _ \<leftarrow> lmSetCondition E (mkCond ConditionPreflightAdditionalDisksCreated statusFalse CreateError (errText err));
                ret (Some d, Some err)
              }
            | Inr diskID \<Rightarrow> ret (Some (d\<lparr>dk_DiskID := diskID\<rparr>), None)
          })"

text \<open>The seven devices in the order of the code, with the fields of the spec they are read from and written to.\<close>

definition dataDevices :: "(string \<times> (InstanceDisks \<Rightarrow> InstanceDisk option) \<times> ((InstanceDisk option \<Rightarrow> InstanceDisk option) \<Rightarrow> InstanceDisks \<Rightarrow> InstanceDisks)) list" where
  "dataDevices = [(''sdb'', dks_SDB, dks_SDB_update), (''sdc'', dks_SDC, dks_SDC_update), (''sdd'', dks_SDD, dks_SDD_update),
     (''sde'', dks_SDE, dks_SDE_update), (''sdf'', dks_SDF, dks_SDF_update), (''sdg'', dks_SDG, dks_SDG_update), (''sdh'', dks_SDH, dks_SDH_update)]"

fun configureDataDisks :: "env \<Rightarrow> int \<Rightarrow>
  (string \<times> (InstanceDisks \<Rightarrow> InstanceDisk option) \<times> ((InstanceDisk option \<Rightarrow> InstanceDisk option) \<Rightarrow> InstanceDisks \<Rightarrow> InstanceDisks)) list \<Rightarrow>
  (MachineScope, error option) op" where
  "configureDataDisks E instanceID [] = ret None"
| "configureDataDisks E instanceID ((name, sel, upd) # devs) = do {
     lm \<leftarrow> theLM;
     (disk, err) \<leftarrow> configureDisk E instanceID (sel (the (lms_DataDisks (lm_Spec lm)))) name;
     _ \<leftarrow> modLM (lm_Spec_update (lms_DataDisks_update (map_option (upd (\<lambda>_. disk)))));
     if err \<noteq> None then ret err else configureDataDisks E instanceID devs
   }"

text \<open>The device map of the configuration profile: the disks of the spec replace the devices of the same name.\<close>

definition createInstanceConfigDeviceMap :: "InstanceDisks option \<Rightarrow> LDeviceMap \<Rightarrow> LDeviceMap" where
  "createInstanceConfigDeviceMap instanceDisks devices = (case instanceDisks of None \<Rightarrow> devices
     | Some ds \<Rightarrow> fold (\<lambda>(name, sel, _) m. case sel ds of None \<Rightarrow> m | Some d \<Rightarrow> m(name \<mapsto> dk_DiskID d)) dataDevices devices)"

definition updateInstanceConfigProfile :: "env \<Rightarrow> int \<Rightarrow> (MachineScope, error option) op" where
  "updateInstanceConfigProfile E instanceID = do {
     r \<leftarrow> perform (INST (CListInstanceConfigs instanceID)) (\<lambda>h. ine_ListInstanceConfigs (ine E) h instanceID);
     case r of
       Inl err \<Rightarrow> ret (Some err)
     | Inr [] \<Rightarrow> ret None
     | Inr (cfg # _) \<Rightarrow> do {
         lm \<leftarrow> theLM;
         let opts = \<lparr>lcu_Kernel = [], lcu_HelpersNetwork = None,
               lcu_Devices = Some (createInstanceConfigDeviceMap (lms_DataDisks (lm_Spec lm)) (lcfg_Devices cfg))\<rparr>;
         perform (INST (CUpdateInstanceConfig instanceID (lcfg_ID cfg) opts)) (\<lambda>h. ine_UpdateInstanceConfig (ine E) h instanceID (lcfg_ID cfg) opts)
       }
   }"

definition createDisks :: "env \<Rightarrow> int \<Rightarrow> (MachineScope, error option) op" where
  "createDisks E instanceID = do {
     lm \<leftarrow> theLM;
     if lms_DataDisks (lm_Spec lm) = None then ret None
     else do {
       e1 \<leftarrow> configureDataDisks E instanceID dataDevices;
       if e1 \<noteq> None then ret e1
       else do {
         e2 \<leftarrow> updateInstanceConfigProfile E instanceID;
         if e2 \<noteq> None then ret e2
         else do {
           _ \<leftarrow> lmSetCondition E (mkCond ConditionPreflightAdditionalDisksCreated statusTrue ''AdditionalDisksCreated'' []);
           ret None
         }
       }
     }
   }"

definition configureDisks :: "env \<Rightarrow> int \<Rightarrow> (MachineScope, error option) op" where
  "configureDisks E instanceID = do {
     lm \<leftarrow> theLM;
     if lms_DataDisks (lm_Spec lm) = None \<and> lms_OSDisk (lm_Spec lm) = None then ret None
     else if \<not> lmCondTrue ConditionPreflightAdditionalDisksCreated lm then createDisks E instanceID
     else ret None
   }"

definition getDefaultInstanceConfig :: "env \<Rightarrow> int \<Rightarrow> ('o, LInstanceConfig res) op" where
  "getDefaultInstanceConfig E instanceID = do {
     r \<leftarrow> perform (INST (CListInstanceConfigs instanceID)) (\<lambda>h. ine_ListInstanceConfigs (ine E) h instanceID);
     ret (case r of
            Inl err \<Rightarrow> Inl (ErrWrap ''failing to list instance configurations: '' err)
          | Inr [] \<Rightarrow> Inl (ErrNew ''failing to list instance configurations: %!w(<nil>)'')
          | Inr (cfg # _) \<Rightarrow> Inr cfg)
   }"

end
