(* ===== verification/Machine.thy ===== *)
theory Machine
  imports MachineInstance
begin

text \<open>
  \<open>internal/controller/linodemachine_controller.go\<close>: the reconciler of machines. Creating a machine is a
  sequence of preflight steps, each with a condition on the resource that says it is done; a step
  that is not done yet ends the reconciliation with a delay or an error, and the next one starts at
  the first step whose condition is not true.
\<close>

section \<open>Preflight steps\<close>

definition WaitingForBootstrapDataReason :: string where "WaitingForBootstrapDataReason = ''WaitingForBootstrapData''"

definition requeueInstanceStatuses :: "string list" where
  "requeueInstanceStatuses = [''offline'', ''booting'', ''rebooting'', ''provisioning'', ''migrating'', ''rebuilding'', ''cloning'', ''restoring'', ''resizing'']"

abbreviation "InstanceOffline \<equiv> ''offline''"
abbreviation "InstanceRunning \<equiv> ''running''"

text \<open>
  What most steps do after an error: the condition is set to false with the error as its message,
  and the error is returned only if the condition was stale before; otherwise \<open>again\<close> decides.
\<close>

definition stepFailed :: "env \<Rightarrow> duration \<Rightarrow> duration \<Rightarrow> string \<Rightarrow> error \<Rightarrow> (MachineScope, outcome) op \<Rightarrow> (MachineScope, outcome) op" where
  "stepFailed E reconcileTimeout backup cond err again = do {
     lm \<leftarrow> theLM;
     stale \<leftarrow> HasStaleCondition E (LinodeMachine_GetCondition cond lm) (DefaultTimeout reconcileTimeout backup);
     _ \<leftarrow> lmSetCondition E (mkCond cond statusFalse CreateError (errText err));
     if stale then ret (noResult, Some err) else again
   }"

definition stepDone :: "env \<Rightarrow> string \<Rightarrow> string \<Rightarrow> (MachineScope, outcome) op" where
  "stepDone E cond reason = do { _ \<leftarrow> lmSetCondition E (mkCond cond statusTrue reason []); ret (noResult, None) }"

definition validateVPC :: "env \<Rightarrow> int \<Rightarrow> string \<Rightarrow> (MachineScope, error option) op" where
  "validateVPC E vpcID source = do {
     r \<leftarrow> perform (VPC (CGetVPC vpcID)) (\<lambda>h. vpe_GetVPC (vpe E) h vpcID);
     let fail = (\<lambda>msg. do {
           _ \<leftarrow> lmSetCondition E (mkCond ConditionPreflightLinodeVPCReady statusFalse CreateError msg);
           ret (Some (ErrNew msg))
         });
     case r of
       Inl err \<Rightarrow> fail (source @ '' VPC with ID '' @ Itoa vpcID @ '' not found: '' @ errText err)
     | Inr vpc \<Rightarrow>
         if lvpc_Subnets vpc = [] then fail (source @ '' VPC with ID '' @ Itoa vpcID @ '' has no subnets'')
         else do {
           _ \<leftarrow> lmSetCondition E (mkCond ConditionPreflightLinodeVPCReady statusTrue ''LinodeVPCReady'' []);
           ret None
         }
   }"

definition reconcilePreflightVPC :: "env \<Rightarrow> duration \<Rightarrow> ObjectReference \<Rightarrow> (MachineScope, outcome) op" where
  "reconcilePreflightVPC E reconcileTimeout vpcRef = do {
     s \<leftarrow> getObj;
     let lm = ms_LinodeMachine s;
     case lms_VPCID (lm_Spec lm) of
       Some vpcID \<Rightarrow> do { e \<leftarrow> validateVPC E vpcID ''Machine''; ret (noResult, e) }
     | None \<Rightarrow> (case lcs_VPCID (lc_Spec (ms_LinodeCluster s)) of
         Some vpcID \<Rightarrow> do { e \<leftarrow> validateVPC E vpcID ''Cluster''; ret (noResult, e) }
       | None \<Rightarrow> do {
           let key = refKey lm vpcRef;
           r \<leftarrow> perform (K8s (KGet KVPC key)) (\<lambda>h. k_GetVPC (k8s E) h key);
           case r of
             Inl err \<Rightarrow> stepFailed E reconcileTimeout DefaultClusterControllerReconcileTimeout ConditionPreflightLinodeVPCReady err
               (requeueLater E DefaultMachineControllerRetryDelay)
           | Inr linodeVPC \<Rightarrow>
               if \<not> vpc_Ready (lv_Status linodeVPC) then do {
                 _ \<leftarrow> lmSetCondition E (mkCond ConditionPreflightLinodeVPCReady statusFalse ''LinodeVPCCreating'' []);
                 requeueLater E DefaultMachineControllerRetryDelay
               }
               else stepDone E ConditionPreflightLinodeVPCReady ''LinodeVPCReady''
         })
   }"

definition checkFirewallID :: "env \<Rightarrow> int \<Rightarrow> (MachineScope, outcome) op" where
  "checkFirewallID E firewallID = do {
     (_, err) \<leftarrow> perform (FW (CGetFirewall firewallID)) (\<lambda>h. fwe_GetFirewall (fwe E) h firewallID);
     case err of
       Some e \<Rightarrow> do {
         _ \<leftarrow> lmSetCondition E (mkCond ConditionPreflightLinodeFirewallReady statusFalse CreateError (errText e));
         requeueLater E DefaultMachineControllerRetryDelay
       }
     | None \<Rightarrow> stepDone E ConditionPreflightLinodeFirewallReady ''LinodeFirewallReady''
   }"

definition reconcilePreflightLinodeFirewallCheck :: "env \<Rightarrow> duration \<Rightarrow> (MachineScope, outcome) op" where
  "reconcilePreflightLinodeFirewallCheck E reconcileTimeout = do {
     s \<leftarrow> getObj;
     let lm = ms_LinodeMachine s;
     if lms_FirewallID (lm_Spec lm) \<noteq> 0 then checkFirewallID E (lms_FirewallID (lm_Spec lm))
     else case net_NodeBalancerFirewallID (lcs_Network (lc_Spec (ms_LinodeCluster s))) of
       Some firewallID \<Rightarrow> checkFirewallID E firewallID
     | None \<Rightarrow> do {
         let key = refKey lm (the (lms_FirewallRef (lm_Spec lm)));
         r \<leftarrow> perform (K8s (KGet KFirewall key)) (\<lambda>h. k_GetFirewall (k8s E) h key);
         case r of
           Inl err \<Rightarrow> stepFailed E reconcileTimeout DefaultMachineControllerWaitForPreflightTimeout ConditionPreflightLinodeFirewallReady err
             (requeueLater E DefaultMachineControllerRetryDelay)
         | Inr fw \<Rightarrow>
             if \<not> fw_Ready (lfw_Status fw) then do {
               _ \<leftarrow> lmSetCondition E (mkCond ConditionPreflightLinodeFirewallReady statusFalse ''LinodeFirewallCreating'' []);
               requeueLater E DefaultMachineControllerRetryDelay
             }
             else stepDone E ConditionPreflightLinodeFirewallReady ''LinodeFirewallReady''
       }
   }"

definition reconcilePreflightMetadataSupportConfigure :: "env \<Rightarrow> (MachineScope, outcome) op" where
  "reconcilePreflightMetadataSupportConfigure E = do {
     lm \<leftarrow> theLM;
     let region = lms_Region (lm_Spec lm);
     e1 \<leftarrow> perform (INST (CGetRegion region)) (\<lambda>h. ine_GetRegion (ine E) h region);
     case e1 of
       Some err \<Rightarrow> retryIfTransient E err
     | None \<Rightarrow> do {
         let imageName = (if lms_Image (lm_Spec lm) \<noteq> [] then lms_Image (lm_Spec lm) else DefaultMachineControllerLinodeImage);
         e2 \<leftarrow> perform (INST (CGetImage imageName)) (\<lambda>h. ine_GetImage (ine E) h imageName);
         case e2 of
           Some err \<Rightarrow> retryIfTransient E err
         | None \<Rightarrow> stepDone E ConditionPreflightMetadataSupportConfigured ''LinodeMetadataSupportConfigured''
       }
   }"

definition providerIDOf :: "int \<Rightarrow> string" where
  "providerIDOf i = ''linode://'' @ Itoa i"

definition reconcilePreflightCreate :: "env \<Rightarrow> bool \<Rightarrow> duration \<Rightarrow> (MachineScope, outcome) op" where
  "reconcilePreflightCreate E gzip reconcileTimeout = do {
     c \<leftarrow> newCreateConfig E gzip;
     case c of
       Inl err \<Rightarrow> if err = ErrSentinel ErrPanic then ret (noResult, Some err) else retryIfTransient E err
     | Inr createOpts \<Rightarrow> do {
         (retryAfter, r) \<leftarrow> createInstance E createOpts;
         case r of
           Inl err \<Rightarrow>
             if errIs err ErrRateLimit then ret (requeue retryAfter, None)
             else stepFailed E reconcileTimeout DefaultMachineControllerWaitForPreflightTimeout ConditionPreflightCreated err (retryIfTransient E err)
         | Inr inst \<Rightarrow> do {
             out \<leftarrow> stepDone E ConditionPreflightCreated ''LinodeMachinePreflightCreated'';
             _ \<leftarrow> modLM (lm_Spec_update (lms_ProviderID_update (\<lambda>_. Some (providerIDOf (inst_ID inst)))));
             ret out
           }
       }
   }"

definition configUpdate :: "LinodeMachineSpec \<Rightarrow> LInstanceConfigUpdateOptions" where
  "configUpdate spec =
     \<lparr>lcu_Kernel = (case lms_Configuration spec of None \<Rightarrow> [] | Some c \<Rightarrow> ic_Kernel c),
      lcu_HelpersNetwork = (if lms_InterfaceGeneration spec \<noteq> GenerationLinode
         then Some (case lms_NetworkHelper spec of None \<Rightarrow> True | Some b \<Rightarrow> b) else None),
      lcu_Devices = None\<rparr>"

definition reconcilePreflightConfigure :: "env \<Rightarrow> duration \<Rightarrow> int \<Rightarrow> (MachineScope, outcome) op" where
  "reconcilePreflightConfigure E reconcileTimeout instanceID = do {
     e \<leftarrow> configureDisks E instanceID;
     case e of
       Some err \<Rightarrow> stepFailed E reconcileTimeout DefaultMachineControllerWaitForPreflightTimeout ConditionPreflightConfigured err
         (requeueLater E DefaultMachineControllerWaitForRunningDelay)
     | None \<Rightarrow> do {
         lm \<leftarrow> theLM;
         let configData = configUpdate (lm_Spec lm);
         if lcu_Kernel configData \<noteq> [] \<or> lcu_HelpersNetwork configData \<noteq> None then do {
           c \<leftarrow> getDefaultInstanceConfig E instanceID;
           case c of
             Inl err \<Rightarrow> retryIfTransient E err
           | Inr cfg \<Rightarrow> do {
               u \<leftarrow> perform (INST (CUpdateInstanceConfig instanceID (lcfg_ID cfg) configData))
                     (\<lambda>h. ine_UpdateInstanceConfig (ine E) h instanceID (lcfg_ID cfg) configData);
               case u of
                 Some err \<Rightarrow> retryIfTransient E err
               | None \<Rightarrow> stepDone E ConditionPreflightConfigured ''LinodeMachinePreflightConfigured''
             }
         }
         else stepDone E ConditionPreflightConfigured ''LinodeMachinePreflightConfigured''
       }
   }"

definition reconcilePreflightBoot :: "env \<Rightarrow> duration \<Rightarrow> int \<Rightarrow> (MachineScope, outcome) op" where
  "reconcilePreflightBoot E reconcileTimeout instanceID = do {
     e \<leftarrow> perform (INST (CBootInstance instanceID)) (\<lambda>h. ine_BootInstance (ine E) h instanceID);
     case e of
       Some err \<Rightarrow>
         if \<not> HasSuffix (errText err) ''already booted.'' then
           stepFailed E reconcileTimeout DefaultMachineControllerWaitForPreflightTimeout ConditionPreflightBootTriggered err
             (requeueLater E DefaultMachineControllerWaitForRunningDelay)
         else stepDone E ConditionPreflightBootTriggered ''LinodeMachinePreflightBootTriggered''
     | None \<Rightarrow> stepDone E ConditionPreflightBootTriggered ''LinodeMachinePreflightBootTriggered''
   }"

definition reconcilePreflightReady :: "env \<Rightarrow> duration \<Rightarrow> int \<Rightarrow> (MachineScope, outcome) op" where
  "reconcilePreflightReady E reconcileTimeout instanceID = do {
     r \<leftarrow> buildInstanceAddrs E instanceID;
     case r of
       Inl err \<Rightarrow>
         if err = ErrSentinel ErrPanic then ret (noResult, Some err)
         else stepFailed E reconcileTimeout DefaultMachineControllerWaitForPreflightTimeout ConditionPreflightReady err
           (requeueLater E DefaultMachineControllerWaitForRunningDelay)
     | Inr addrs \<Rightarrow> do {
         _ \<leftarrow> modLM (lm_Status_update (lms_Addresses_update (\<lambda>_. addrs)));
         stepDone E ConditionPreflightReady ''LinodeMachinePreflightReady''
       }
   }"


section \<open>Creating\<close>

text \<open>
  \<open>if guard { res, err := step(); if err != nil || !res.IsZero() { return res, err } }\<close>: the rest runs
  when the step is skipped or gave the zero result and no error.
\<close>

definition preflight :: "bool \<Rightarrow> (MachineScope, outcome) op \<Rightarrow> (MachineScope, outcome) op \<Rightarrow> (MachineScope, outcome) op" where
  "preflight todo step rest =
     (if todo then do {
        (res, err) \<leftarrow> step;
        if err \<noteq> None \<or> \<not> Result_IsZero res then ret (res, err) else rest
      }
      else rest)"

definition todoStep :: "string \<Rightarrow> LinodeMachine \<Rightarrow> bool" where
  "todoStep cond lm = (\<not> lmCondTrue cond lm \<and> lms_ProviderID (lm_Spec lm) = None)"

definition preflightFirewall :: "env \<Rightarrow> duration \<Rightarrow> (MachineScope, outcome) op" where
  "preflightFirewall E reconcileTimeout = do {
     (res, err) \<leftarrow> reconcilePreflightLinodeFirewallCheck E reconcileTimeout;
     if err \<noteq> None \<or> \<not> Result_IsZero res then do {
       _ \<leftarrow> lmSetCondition E (mkCond ConditionPreflightLinodeFirewallReady statusFalse ''LinodeFirewallNotYetAvailable'' []);
       ret (res, err)
     }
     else ret (res, err)
   }"

definition readyAndDone :: "env \<Rightarrow> duration \<Rightarrow> int \<Rightarrow> (MachineScope, outcome) op" where
  "readyAndDone E reconcileTimeout instanceID = do {
     lm \<leftarrow> theLM;
     preflight (\<not> lmCondTrue ConditionPreflightReady lm) (reconcilePreflightReady E reconcileTimeout instanceID) (do {
     _ \<leftarrow> modLM (lm_Status_update (lms_InstanceState_update (\<lambda>_. Some InstanceOffline)));
     ret (noResult, None)
   })}"

definition bootAndDone :: "env \<Rightarrow> duration \<Rightarrow> int \<Rightarrow> (MachineScope, outcome) op" where
  "bootAndDone E reconcileTimeout instanceID = do {
     lm \<leftarrow> theLM;
     preflight (\<not> lmCondTrue ConditionPreflightBootTriggered lm) (reconcilePreflightBoot E reconcileTimeout instanceID)
       (readyAndDone E reconcileTimeout instanceID)
   }"

definition createAfterPreflight :: "env \<Rightarrow> duration \<Rightarrow> (MachineScope, outcome) op" where
  "createAfterPreflight E reconcileTimeout = do {
     lm \<leftarrow> theLM;
     case GetInstanceID (lms_ProviderID (lm_Spec lm)) of (instanceID, err) \<Rightarrow>
       if err \<noteq> None then ret (noResult, err)
       else preflight (\<not> lmCondTrue ConditionPreflightConfigured lm) (reconcilePreflightConfigure E reconcileTimeout instanceID)
         (bootAndDone E reconcileTimeout instanceID)
   }"

definition m_reconcileCreate :: "env \<Rightarrow> bool \<Rightarrow> duration \<Rightarrow> (MachineScope, outcome) op" where
  "m_reconcileCreate E gzip reconcileTimeout = do {
     e \<leftarrow> MachineScope_AddCredentialsRefFinalizer E;
     if e \<noteq> None then ret (noResult, e)
     else do {
     s \<leftarrow> getObj;
     let lm = ms_LinodeMachine s;
     preflight (lms_FirewallRef (lm_Spec lm) \<noteq> None \<and> todoStep ConditionPreflightLinodeFirewallReady lm) (preflightFirewall E reconcileTimeout) (do {
     s2 \<leftarrow> getObj;
     preflight (getVPCRefFromScope s2 \<noteq> None \<and> todoStep ConditionPreflightLinodeVPCReady (ms_LinodeMachine s2))
       (reconcilePreflightVPC E reconcileTimeout (the (getVPCRefFromScope s2))) (do {
     lm3 \<leftarrow> theLM;
     preflight (todoStep ConditionPreflightMetadataSupportConfigured lm3) (reconcilePreflightMetadataSupportConfigure E) (do {
     lm4 \<leftarrow> theLM;
     preflight (todoStep ConditionPreflightCreated lm4) (reconcilePreflightCreate E gzip reconcileTimeout)
       (createAfterPreflight E reconcileTimeout)
     })})})
   }}"


section \<open>Updating\<close>

text \<open>The firewalls attached to an instance: of all its interfaces, or of the instance itself.\<close>

definition attachedFirewalls :: "env \<Rightarrow> int \<Rightarrow> (MachineScope, LFirewall list res) op" where
  "attachedFirewalls E instanceID = do {
     lm \<leftarrow> theLM;
     if lms_InterfaceGeneration (lm_Spec lm) = GenerationLinode then
       bindE (perform (INST (CListInterfaces instanceID)) (\<lambda>h. ine_ListInterfaces (ine E) h instanceID)) (\<lambda>interfaces.
         foldE (\<lambda>iface fws. bindE (perform (INST (CListInterfaceFirewalls instanceID (lii_ID iface)))
             (\<lambda>h. ine_ListInterfaceFirewalls (ine E) h instanceID (lii_ID iface))) (\<lambda>ifaceFWs. ret (Inr (fws @ ifaceFWs)))) interfaces [])
     else perform (INST (CListInstanceFirewalls instanceID)) (\<lambda>h. ine_ListInstanceFirewalls (ine E) h instanceID)
   }"

definition desiredFirewalls :: "env \<Rightarrow> (MachineScope, int list res) op" where
  "desiredFirewalls E = do {
     lm \<leftarrow> theLM;
     if lms_FirewallID (lm_Spec lm) \<noteq> 0 then ret (Inr [lms_FirewallID (lm_Spec lm)])
     else case lms_FirewallRef (lm_Spec lm) of
       None \<Rightarrow> ret (Inr [])
     | Some ref \<Rightarrow> bindE (getFirewallID E ref) (\<lambda>fwID. ret (Inr [fwID]))
   }"

definition reconcileFirewallID :: "env \<Rightarrow> int \<Rightarrow> (MachineScope, outcome) op" where
  "reconcileFirewallID E instanceID = do {
     a \<leftarrow> attachedFirewalls E instanceID;
     case a of
       Inl _ \<Rightarrow> requeueLater E DefaultMachineControllerWaitForRunningDelay
     | Inr firewalls \<Rightarrow> do {
         d \<leftarrow> desiredFirewalls E;
         case d of
           Inl _ \<Rightarrow> requeueLater E DefaultMachineControllerRetryDelay
         | Inr desiredFWIDs \<Rightarrow>
             if map lf_ID firewalls \<noteq> desiredFWIDs then do {
               err \<leftarrow> perform (INST (CUpdateInstanceFirewalls instanceID desiredFWIDs)) (\<lambda>h. ine_UpdateInstanceFirewalls (ine E) h instanceID desiredFWIDs);
               ret (noResult, err)
             }
             else ret (noResult, None)
       }
   }"

definition updateTail :: "env \<Rightarrow> int \<Rightarrow> LInstance \<Rightarrow> (MachineScope, outcome) op" where
  "updateTail E instanceID inst = do {
     machineTags \<leftarrow> getTags E (inst_Tags inst);
     e \<leftarrow> (if machineTags \<noteq> inst_Tags inst
          then perform (INST (CUpdateInstance instanceID machineTags)) (\<lambda>h. ine_UpdateInstance (ine E) h instanceID machineTags)
          else ret None);
     if e \<noteq> None then requeueLater E DefaultMachineControllerWaitForRunningDelay
     else do {
       (res, err) \<leftarrow> reconcileFirewallID E instanceID;
       if err \<noteq> None \<or> \<not> Result_IsZero res then ret (res, err)
       else do {
         s \<leftarrow> getObj;
         _ \<leftarrow> (if inst_Status inst = InstanceRunning \<and> mc_Phase (ms_Machine s) = ''Running'' then deleteBootstrapData E else ret None);
         ret (noResult, None)
       }
     }
   }"

definition m_reconcileUpdate :: "env \<Rightarrow> (MachineScope, outcome) op" where
  "m_reconcileUpdate E = do {
     lm \<leftarrow> theLM;
     case GetInstanceID (lms_ProviderID (lm_Spec lm)) of (instanceID, err) \<Rightarrow>
       if err \<noteq> None then ret (noResult, err)
       else do {
         r \<leftarrow> perform (INST (CGetInstance instanceID)) (\<lambda>h. ine_GetInstance (ine E) h instanceID);
         case r of
           Inl e \<Rightarrow> retryIfTransient E e
         | Inr inst \<Rightarrow> do {
             _ \<leftarrow> modLM (lm_Status_update (lms_InstanceState_update (\<lambda>_. Some (inst_Status inst))));
             if inst_Status inst \<in> set requeueInstanceStatuses then do {
               now \<leftarrow> timeNow E;
               if now < inst_Updated inst + DefaultMachineControllerWaitForRunningTimeout
               then requeueLater E DefaultMachineControllerWaitForRunningDelay
               else do {
                 _ \<leftarrow> lmSetCondition E (mkCond ReadyCondition statusFalse (inst_Status inst) ''skipped due to long running operation'');
                 updateTail E instanceID inst
               }
             }
             else if inst_Status inst \<noteq> InstanceRunning then do {
               _ \<leftarrow> lmSetCondition E (mkCond ReadyCondition statusFalse (inst_Status inst) ''incompatible status'');
               updateTail E instanceID inst
             }
             else do {
               _ \<leftarrow> modLM (lm_Status_update (lms_Ready_update (\<lambda>_. True)));
               _ \<leftarrow> lmSetCondition E (mkCond ReadyCondition statusTrue ''LinodeMachineReady'' []);
               updateTail E instanceID inst
             }
           }
       }
   }"


section \<open>Deleting\<close>

definition machineReleaseFinalizers :: "env \<Rightarrow> (MachineScope, outcome) op" where
  "machineReleaseFinalizers E = do {
     e \<leftarrow> MachineScope_RemoveCredentialsRefFinalizer E;
     if e \<noteq> None then ret (noResult, e)
     else do {
       _ \<leftarrow> modLM (lm_Meta_update (om_Finalizers_update (\<lambda>fs. lib_RemoveFinalizer (lib E) fs MachineFinalizer)));
       ret (noResult, None)
     }
   }"

definition m_reconcileDelete :: "env \<Rightarrow> duration \<Rightarrow> (MachineScope, outcome) op" where
  "m_reconcileDelete E reconcileTimeout = do {
     _ \<leftarrow> deleteBootstrapData E;
     lm \<leftarrow> theLM;
     if lms_ProviderID (lm_Spec lm) = None then machineReleaseFinalizers E
     else case GetInstanceID (lms_ProviderID (lm_Spec lm)) of (instanceID, err) \<Rightarrow>
       if err \<noteq> None then ret (noResult, err)
       else do {
         e \<leftarrow> perform (INST (CDeleteInstance instanceID)) (\<lambda>h. ine_DeleteInstance (ine E) h instanceID);
         if e \<noteq> None \<and> IgnoreLinodeAPIError E e [StatusNotFound] \<noteq> None then do {
           again \<leftarrow> withinDeletion E (om_DeletionTimestamp (lm_Meta lm)) (DefaultTimeout reconcileTimeout DefaultMachineControllerRetryDelay);
           if again then requeueLater E DefaultMachineControllerRetryDelay else ret (noResult, e)
         }
         else do {
           _ \<leftarrow> lmSetCondition E (mkCond ReadyCondition statusFalse ''DeletionCompleted'' ''instance deleted'');
           _ \<leftarrow> modLM (lm_Spec_update (lms_ProviderID_update (\<lambda>_. None)));
           _ \<leftarrow> modLM (lm_Status_update (lms_InstanceState_update (\<lambda>_. None)));
           machineReleaseFinalizers E
         }
       }
   }"


section \<open>The reconciler\<close>

text \<open>
  The body of \<open>reconcile\<close> returns the outcome and the failure reason for the deferred function.
\<close>

definition m_reconcileBody :: "env \<Rightarrow> bool \<Rightarrow> duration \<Rightarrow> (MachineScope, outcome \<times> string) op" where
  "m_reconcileBody E gzip reconcileTimeout = do {
     e1 \<leftarrow> MachineScope_AddFinalizer E;
     if e1 \<noteq> None then ret ((noResult, e1), UnknownError)
     else do {
     s \<leftarrow> getObj;
     e2 \<leftarrow> (if lms_CredentialsRef (lm_Spec (ms_LinodeMachine s)) \<noteq> None \<or> lcs_CredentialsRef (lc_Spec (ms_LinodeCluster s)) \<noteq> None
           then MachineScope_SetCredentialRefToken E else ret None);
     if e2 \<noteq> None then ret ((noResult, e2), UnknownError)
     else do {
     lm \<leftarrow> theLM;
     if om_DeletionTimestamp (lm_Meta lm) \<noteq> None
     then do { r \<leftarrow> m_reconcileDelete E reconcileTimeout; ret (r, DeleteError) }
     else if \<not> lmCondTrue ConditionPreflightBootstrapDataSecretReady lm \<and> mc_DataSecretName (ms_Machine s) = None then do {
       _ \<leftarrow> lmSetCondition E (mkCond ConditionPreflightBootstrapDataSecretReady statusFalse WaitingForBootstrapDataReason []);
       ret ((noResult, None), UnknownError)
     }
     else do {
       _ \<leftarrow> lmSetCondition E (mkCond ConditionPreflightBootstrapDataSecretReady statusTrue ''BootstrapDataSecretReady'' []);
       if lms_InstanceState (lm_Status lm) \<noteq> None
       then do { r \<leftarrow> m_reconcileUpdate E; ret (r, UpdateError) }
       else do { r \<leftarrow> m_reconcileCreate E gzip reconcileTimeout; ret (r, CreateError) }
     }
   }}}"

definition m_deferred :: "env \<Rightarrow> outcome \<times> string \<Rightarrow> (MachineScope, outcome) op" where
  "m_deferred E body = (case body of ((res, err), failureReason) \<Rightarrow> do {
     _ \<leftarrow> (case err of None \<Rightarrow> ret ()
          | Some e \<Rightarrow>
              if e \<noteq> ErrSentinel ErrPanic \<and> lib_ErrHasStatus (lib E) (Some e) [StatusBadRequest] then do {
                _ \<leftarrow> modLM (lm_Status_update (lms_FailureReason_update (\<lambda>_. Some failureReason)));
                _ \<leftarrow> modLM (lm_Status_update (lms_FailureMessage_update (\<lambda>_. Some (errText e))));
                lmSetCondition E (mkCond ReadyCondition statusFalse failureReason (errText e))
              }
              else ret ());
     patchErr \<leftarrow> MachineScope_Close E;
     if patchErr \<noteq> None \<and> lib_FilterOutNotFound (lib E) (UnwrapError patchErr) \<noteq> None \<and> err \<noteq> Some (ErrSentinel ErrPanic)
     then ret (res, errors_Join [err, patchErr])
     else ret (res, err)
   })"

definition m_reconcile :: "env \<Rightarrow> bool \<Rightarrow> duration \<Rightarrow> (MachineScope, outcome) op" where
  "m_reconcile E gzip reconcileTimeout = do {
     body \<leftarrow> m_reconcileBody E gzip reconcileTimeout;
     m_deferred E body
   }"

text \<open>
  A \<open>LinodeCluster\<close> that is not found leaves the zero value, \<open>lc0\<close>. The scope is built from it and from
  the token of the configuration.
\<close>

definition m_Reconcile :: "env \<Rightarrow> string \<Rightarrow> LinodeCluster \<Rightarrow> bool \<Rightarrow> duration \<Rightarrow> NamespacedName \<Rightarrow> (unit, outcome) op" where
  "m_Reconcile E token lc0 gzip reconcileTimeout req = do {
     r \<leftarrow> perform (K8s (KGet KMachine req)) (\<lambda>h. k_GetMachine (k8s E) h req);
     case r of
       Inl err \<Rightarrow> ret (noResult, if lib_IsNotFound (lib E) (Some err) then None else Some err)
     | Inr lm \<Rightarrow> do {
     om \<leftarrow> perform (K8s (KGetOwnerMachine (lm_Meta lm))) (\<lambda>h. k_GetOwnerMachine (k8s E) h (lm_Meta lm));
     case om of
       Inl err \<Rightarrow> ret (noResult, Some err)
     | Inr None \<Rightarrow> ret (noResult, None)
     | Inr (Some machine) \<Rightarrow> do {
     cr \<leftarrow> perform (K8s (KGetClusterFromMetadata (mc_Meta machine))) (\<lambda>h. k_GetClusterFromMetadata (k8s E) h (mc_Meta machine));
     case cr of
       Inl err \<Rightarrow> ret (noResult, Some err)
     | Inr cluster \<Rightarrow> do {
     let key = \<lparr>nn_Namespace = om_Namespace (lm_Meta lm), nn_Name = cl_InfrastructureRefName cluster\<rparr>;
     lr \<leftarrow> perform (K8s (KGet KCluster key)) (\<lambda>h. k_GetCluster (k8s E) h key);
     if IgnoreNotFound E (errOf lr) \<noteq> None
     then ret (noResult, Some (ErrWrap (''get linodecluster '' @ [CHR 0x22] @ nn_Namespace key @ ''/'' @ nn_Name key @ [CHR 0x22] @ '': '') (the (errOf lr))))
     else do {
     let lc = (case lr of Inl _ \<Rightarrow> lc0 | Inr x \<Rightarrow> x);
     sc \<leftarrow> NewMachineScope E token (Some cluster) (Some machine) (Some lc) (Some lm);
     case sc of
       Inl err \<Rightarrow> ret (noResult, Some (ErrWrap ''failed to create machine scope: '' err))
     | Inr scope \<Rightarrow> do {
     (conds, p) \<leftarrow> perform (K8s (KEnsurePaused (OMachine lm))) (\<lambda>h. k_EnsurePaused (k8s E) h (Some cluster) (OMachine lm));
     case p of
       Inl err \<Rightarrow> ret (noResult, Some err)
     | Inr isPaused \<Rightarrow>
         if isPaused then ret (noResult, None)
         else withScope (scope\<lparr>ms_LinodeMachine := LinodeMachine_SetConditions conds lm\<rparr>) (m_reconcile E gzip reconcileTimeout)
   }}}}}}"

end
