(* ===== verification/MachineSafety.thy ===== *)
theory MachineSafety
  imports Machine
begin

text \<open>
  What the machine reconciler may do to instances: it changes only the instance whose ID is in its
  provider ID, creates at most one instance in a reconciliation, and gives up its finalizer only
  when the instance is gone.
\<close>

section \<open>Requests about instances\<close>

text \<open>The instance that a request changes, and the request that creates one.\<close>

definition changesInstance :: "call \<Rightarrow> int option" where
  "changesInstance c = (case c of INST x \<Rightarrow> (case x of
       CBootInstance i \<Rightarrow> Some i
     | CUpdateInstanceConfig i _ _ \<Rightarrow> Some i
     | CUpdateInstance i _ \<Rightarrow> Some i
     | CCreateInstanceDisk i _ \<Rightarrow> Some i
     | CDeleteInstance i \<Rightarrow> Some i
     | CUpdateInstanceFirewalls i _ \<Rightarrow> Some i
     | _ \<Rightarrow> None) | _ \<Rightarrow> None)"

definition createsInstance :: "call \<Rightarrow> bool" where
  "createsInstance c = (case c of INST (CCreateInstance _) \<Rightarrow> True | _ \<Rightarrow> False)"

definition quiet :: "call \<Rightarrow> bool" where
  "quiet c = (changesInstance c = None \<and> \<not> createsInstance c)"

definition ownInstance :: "int \<Rightarrow> call \<Rightarrow> bool" where
  "ownInstance i c = (\<not> createsInstance c \<and> (case changesInstance c of None \<Rightarrow> True | Some j \<Rightarrow> j = i))"

lemma quiet_simps [simp]:
  "quiet (K8s x)" "quiet (Runtime r)" "quiet (SetToken t)" "quiet NewLinodeClient" "quiet (FW a)" "quiet (VPC b)" "quiet (PG p)" "quiet (S3 o3)"
  "quiet (SetDomainsToken t)" "quiet NewEdgeDNSClient"
  "quiet (INST (CGetInstanceIPAddresses i))" "quiet (INST (CListInstances f))" "quiet (INST (CListInstanceConfigs i))"
  "quiet (INST (CGetInstance i))" "quiet (INST (CGetRegion rg))" "quiet (INST (CGetImage im))" "quiet (INST (CGetType ty))"
  "quiet (INST (CListInstanceFirewalls i))" "quiet (INST (CListInterfaces i))" "quiet (INST (CListInterfaceFirewalls i j))"
  by (simp_all add: quiet_def changesInstance_def createsInstance_def)

lemma ownInstance_simps [simp]:
  "ownInstance i (INST (CBootInstance j)) = (j = i)" "ownInstance i (INST (CUpdateInstanceConfig j c opts)) = (j = i)"
  "ownInstance i (INST (CUpdateInstance j tags)) = (j = i)" "ownInstance i (INST (CCreateInstanceDisk j d)) = (j = i)"
  "ownInstance i (INST (CDeleteInstance j)) = (j = i)" "ownInstance i (INST (CUpdateInstanceFirewalls j fws)) = (j = i)"
  by (simp_all add: ownInstance_def changesInstance_def createsInstance_def)

lemma quiet_own: "quiet c \<Longrightarrow> ownInstance i c"
  by (simp add: quiet_def ownInstance_def)

lemma isK8s_quiet: "isK8s c \<Longrightarrow> quiet c"
  by (cases c) (simp_all)

text \<open>
  \<open>tame\<close>: no instance is changed or created, of the scope only the status tags may differ, and the
  POST counters are the same.
\<close>

definition lmCore :: "LinodeMachine \<Rightarrow> ObjectMeta \<times> LinodeMachineSpec \<times> Condition list \<times> string option \<times> bool" where
  "lmCore lm = (lm_Meta lm, lm_Spec lm, lms_Conditions (lm_Status lm), lms_InstanceState (lm_Status lm), lms_Ready (lm_Status lm))"

definition tame :: "MachineScope world \<Rightarrow> MachineScope world \<Rightarrow> bool" where
  "tame s t = (adds quiet s t \<and> lmCore (lmOf t) = lmCore (lmOf s) \<and> ms_LinodeCluster (obj t) = ms_LinodeCluster (obj s)
     \<and> ms_Machine (obj t) = ms_Machine (obj s) \<and> ms_TokenHash (obj t) = ms_TokenHash (obj s)
     \<and> postRequestCounters t = postRequestCounters s)"

interpretation tame: preorder_rel tame
proof unfold_locales
  show "tame s s" for s by (simp add: tame_def adds.refl)
  show "tame s t \<Longrightarrow> tame t u \<Longrightarrow> tame s u" for s t u by (auto simp: tame_def intro: adds.trans)
qed

lemma tame_perform: "quiet c \<Longrightarrow> keeps tame (perform c f)"
  by (simp add: keeps_def wp_perform tame_def adds_def)

lemma tame_vlan: "keeps tame (modify (vlanIPsMap_update f))"
  by (simp add: keeps_def wp_update tame_def adds_def)

lemma tame_tags: "keeps tame (modLM (lm_Status_update (lms_StatusTags_update f)))"
  by (simp add: keeps_def wp_update tame_def adds_def lmCore_def)

lemma tame_calm: "keeps (calm isK8s) m \<Longrightarrow> keeps tame m"
  by (erule keeps_mono) (auto simp: calm_def tame_def adds_def isK8s_quiet)

lemmas tame_rules = tame.keeps_all tame_perform tame_vlan tame_tags


section \<open>Helpers that change no instance\<close>

lemma tame_creds [keeps_rules]: "keeps tame (getCredentials E ref ns)"
  by (rule tame_calm) (rule keeps_rules)

lemma tame_objectStore [keeps_rules]:
  "keeps tame (GetBootstrapData E)"
  "keeps tame (GetObjectStoreCredentials E ref)"
  "keeps tame (s3Clients E sec)"
  "keeps tame (deleteObject E b k)"
  unfolding GetBootstrapData_def GetObjectStoreCredentials_def s3Clients_def deleteObject_def
  by (intro tame_rules keeps_rules keeps_case; simp)+

lemma tame_createObjectLoop [keeps_rules]: "keeps tame (createObjectLoop E st d k refs errs)"
proof (induction refs arbitrary: errs)
  case (Cons ref refs)
  have "keeps tame (createObjectWithCredentials E st ref d k)"
    unfolding createObjectWithCredentials_def Let_def by (auto intro!: tame_rules keeps_rules split: option.splits prod.splits)
  with Cons.IH show ?case by (auto intro!: tame_rules split: option.splits sum.splits)
qed (auto intro!: tame_rules)

lemma tame_deleteObjectLoop [keeps_rules]: "keeps tame (deleteObjectLoop E k refs errs)"
proof (induction refs arbitrary: errs)
  case (Cons ref refs)
  have "keeps tame (deleteObjectWithCredentials E ref k)"
    unfolding deleteObjectWithCredentials_def by (auto intro!: tame_rules keeps_rules split: sum.splits prod.splits)
  with Cons.IH show ?case by (auto intro!: tame_rules)
qed (auto intro!: tame_rules)

lemma tame_bootstrap [keeps_rules]:
  "keeps tame (CreateObject E d)"
  "keeps tame (deleteBootstrapData E)"
  unfolding CreateObject_def deleteBootstrapData_def DeleteObject_def
  by (intro tame_rules keeps_rules keeps_case; simp)+

lemma tame_setUserData [keeps_rules]: "keeps tame (setUserData E gz c)"
  unfolding setUserData_def resolveBootstrapData_def uploadBootstrapData_def
  by (intro tame_rules keeps_rules keeps_case; simp)+

lemma tame_GetNextVlanIP [keeps_rules]: "keeps tame (GetNextVlanIP E c n)"
  unfolding GetNextVlanIP_def getClusterIPs_def getExistingIPsForCluster_def
  by (intro tame_rules keeps_rules keeps_case; simp)+

lemma tame_configParts [keeps_rules]:
  "keeps tame (getTags E tags)"
  "keeps tame (calculateRootDisk E)"
  "keeps tame (refSubnet E ref)"
  "keeps tame (idSubnet E v)"
  "keeps tame (getPlacementGroupID E ref)"
  "keeps tame (getFirewallID E ref)"
  unfolding getTags_def calculateRootDisk_def refSubnet_def getVPCFromRef_def idSubnet_def getVPCFromID_def getPlacementGroupID_def getFirewallID_def
  by (intro tame_rules keeps_rules keeps_case; simp)+

lemma tame_config [keeps_rules]:
  "keeps tame (fillCreateConfig E c)"
  "keeps tame (configureVPCInterface E c)"
  "keeps tame (configureVlanInterface E c)"
  "keeps tame (configurePlacementGroup E ref c)"
  "keeps tame (configureFirewall E c)"
  unfolding fillCreateConfig_def configureVPCInterface_def addVPCInterfaceFromDirectID_def addVPCInterfaceFromReference_def
    getVPCInterfaceConfig_def getVPCLinodeInterfaceConfig_def getVPCLinodeInterfaceConfigFromDirectID_def getVPCInterfaceConfigFromDirectID_def
    configureVlanInterface_def getVlanInterfaceConfig_def getVlanLinodeInterfaceConfig_def vlanIP_def
    configurePlacementGroup_def configureFirewall_def
  by (intro tame_rules keeps_rules keeps_case; simp)+

lemma tame_newCreateConfig [keeps_rules]: "keeps tame (newCreateConfig E gz)"
  unfolding newCreateConfig_def by (intro tame_rules keeps_rules keeps_case; simp)


lemma calm_machineScope [keeps_rules]:
  "keeps (calm isK8s) (MachineScope_AddCredentialsRefFinalizer E)"
  "keeps (calm isK8s) (MachineScope_RemoveCredentialsRefFinalizer E)"
  "keeps (calm isK8s) (MachineScope_Close E)"
  unfolding MachineScope_AddCredentialsRefFinalizer_def MachineScope_RemoveCredentialsRefFinalizer_def MachineScope_Close_def
  by (intro calm_rules keeps_rules keeps_case; simp)+

lemmas tame_machineScope [keeps_rules] = calm_machineScope [THEN tame_calm]

lemma tame_runtime [keeps_rules]:
  "keeps tame (WithJitter E d)"
  "keeps tame (HasStaleCondition E c d)"
  "keeps tame (withinDeletion E ts d)"
  "keeps tame (requeueLater E d)"
  "keeps tame (retryIfTransient E err)"
  unfolding WithJitter_def HasStaleCondition_def withinDeletion_def requeueLater_def retryIfTransient_def
  by (intro tame_rules keeps_case; simp)+

lemma tame_instance [keeps_rules]:
  "keeps tame (buildInstanceAddrs E i)"
  "keeps tame (getDefaultInstanceConfig E i)"
  "keeps tame (attachedFirewalls E i)"
  "keeps tame (desiredFirewalls E)"
  unfolding buildInstanceAddrs_def handleVlanIps_def getDefaultInstanceConfig_def attachedFirewalls_def desiredFirewalls_def
  by (intro tame_rules keeps_rules keeps_case; simp)+


section \<open>The provider ID and the instance\<close>

text \<open>
  \<open>owns p i\<close>: while the provider ID is \<open>p\<close>, it stays \<open>p\<close> and only the instance \<open>i\<close> is changed.
\<close>

abbreviation pidOf :: "MachineScope world \<Rightarrow> string option" where
  "pidOf w \<equiv> lms_ProviderID (lm_Spec (lmOf w))"

definition owns :: "string option \<Rightarrow> int \<Rightarrow> MachineScope world \<Rightarrow> MachineScope world \<Rightarrow> bool" where
  "owns p i s t = (pidOf s = p \<longrightarrow> pidOf t = p \<and> adds (ownInstance i) s t)"

interpretation owns: preorder_rel "owns p i"
proof unfold_locales
  show "owns p i s s" for s by (simp add: owns_def adds.refl)
  show "owns p i s t \<Longrightarrow> owns p i t u \<Longrightarrow> owns p i s u" for s t u by (auto simp: owns_def intro: adds.trans)
qed

lemma owns_tame: "keeps tame m \<Longrightarrow> keeps (owns p i) m"
  by (erule keeps_mono) (auto simp: tame_def owns_def lmCore_def adds_def quiet_own)

lemma owns_perform: "ownInstance i c \<Longrightarrow> keeps (owns p i) (perform c f)"
  by (simp add: keeps_def wp_perform owns_def adds_def)

lemma owns_modObj: "(\<And>x. lms_ProviderID (lm_Spec (ms_LinodeMachine (f x))) = lms_ProviderID (lm_Spec (ms_LinodeMachine x))) \<Longrightarrow> keeps (owns p i) (modObj f)"
  by (simp add: keeps_def wp_update owns_def adds_def)

lemma lm_SetCondition_simps [simp]:
  "lm_Spec (LinodeMachine_SetCondition now c lm) = lm_Spec lm"
  "lm_Meta (LinodeMachine_SetCondition now c lm) = lm_Meta lm"
  "lms_InstanceState (lm_Status (LinodeMachine_SetCondition now c lm)) = lms_InstanceState (lm_Status lm)"
  by (simp_all add: LinodeMachine_SetCondition_def)

lemma owns_lmSetCondition: "keeps (owns p i) (lmSetCondition E c)"
  unfolding lmSetCondition_def by (intro owns.keeps_all owns_perform owns_modObj; simp add: quiet_own)

lemmas owns_rules = owns.keeps_all owns_perform owns_modObj owns_lmSetCondition

lemma owns_stepDone [keeps_rules]:
  "keeps (owns p i) (stepDone E c r)"
  "keeps (owns p i) again \<Longrightarrow> keeps (owns p i) (stepFailed E T b c err again)"
  unfolding stepDone_def stepFailed_def by (intro owns_rules keeps_case owns_tame [OF tame_runtime(2)]; simp)+

lemma owns_configureDataDisks [keeps_rules]: "keeps (owns p i) (configureDataDisks E i devs)"
proof (induction devs)
  case (Cons d devs)
  obtain name sel upd where d: "d = (name, sel, upd)" by (cases d)
  show ?case unfolding d configureDataDisks.simps configureDisk_def
    by (intro owns_rules keeps_case Cons.IH; simp)
qed (auto intro: owns_rules)

lemma owns_preflightSteps [keeps_rules]:
  "keeps (owns p i) (reconcilePreflightConfigure E T i)"
  "keeps (owns p i) (reconcilePreflightBoot E T i)"
  "keeps (owns p i) (reconcilePreflightReady E T i)"
  unfolding reconcilePreflightConfigure_def configureDisks_def createDisks_def updateInstanceConfigProfile_def
    reconcilePreflightBoot_def reconcilePreflightReady_def
  by (intro owns_rules keeps_rules keeps_case owns_tame [OF tame_runtime(4)] owns_tame [OF tame_runtime(5)] owns_tame [OF tame_instance(1)]
      owns_tame [OF tame_instance(2)]; simp add: quiet_own)+

lemma preflight_skip: "\<not> b \<Longrightarrow> keeps I n \<Longrightarrow> keeps I (preflight b m n)"
  by (simp add: preflight_def)

lemma owns_preflight: "keeps I m \<Longrightarrow> keeps I n \<Longrightarrow> preorder_rel I \<Longrightarrow> keeps I (preflight b m n)"
  unfolding preflight_def by (intro preorder_rel.keeps_all keeps_case; assumption)


lemma owns_gets: "(\<And>s. pidOf s = p \<Longrightarrow> keeps (owns p i) (f (g s))) \<Longrightarrow> keeps (owns p i) (State_Monad.bind (gets g) f)"
proof (rule keeps_gets)
  fix s :: "MachineScope world"
  assume *: "\<And>s. pidOf s = p \<Longrightarrow> keeps (owns p i) (f (g s))"
  show "wp (f (g s)) (\<lambda>_ t. owns p i s t) s"
  proof (cases "pidOf s = p")
    case True
    from * [OF this] show ?thesis by (rule keeps_wp)
  next
    case False
    then show ?thesis by (intro wpI) (simp add: owns_def)
  qed
qed

lemmas owns_step = owns_preflight [where I = "owns p i" for p i, OF _ _ owns.preorder_rel_axioms]

lemma owns_createAfterPreflight: "GetInstanceID p = (i, None) \<Longrightarrow> keeps (owns p i) (createAfterPreflight E T)"
  unfolding createAfterPreflight_def bootAndDone_def readyAndDone_def
  by (rule owns_gets) (simp, intro owns_step owns_rules keeps_rules; simp)

lemma owns_m_reconcileCreate:
  assumes "GetInstanceID p = (i, None)"
  shows "keeps (owns p i) (m_reconcileCreate E gz T)"
proof -
  have p: "p \<noteq> None" using assms by (cases p) (simp_all add: GetInstanceID_def)
  have skip: "\<not> todoStep c (lmOf s)" if "pidOf s = p" for c s using that p by (simp add: todoStep_def)
  note last = owns_createAfterPreflight [OF assms]
  show ?thesis
    unfolding m_reconcileCreate_def Let_def
    by (rule owns_gets owns.keeps_bind owns_tame [OF tame_machineScope(1)] keeps_case(1) owns.keeps_return preflight_skip last | simp add: skip)+
qed

lemma owns_m_reconcileUpdate: "GetInstanceID p = (i, None) \<Longrightarrow> keeps (owns p i) (m_reconcileUpdate E)"
  unfolding m_reconcileUpdate_def updateTail_def reconcileFirewallID_def
  by (rule owns_gets, simp, intro owns_rules keeps_case owns_tame [OF tame_runtime(4)] owns_tame [OF tame_runtime(5)]
      owns_tame [OF tame_configParts(1)] owns_tame [OF tame_instance(3)] owns_tame [OF tame_instance(4)] owns_tame [OF tame_bootstrap(2)]; simp add: quiet_own)


text \<open>Deleting ends with no provider ID, so only the history is followed.\<close>

lemma adds_own_tame: "keeps tame m \<Longrightarrow> keeps (adds (ownInstance i)) m"
  by (erule keeps_mono) (auto simp: tame_def adds_def quiet_own)

lemma adds_own_lmSetCondition: "keeps (adds (ownInstance i)) (lmSetCondition E c)"
  unfolding lmSetCondition_def by (intro adds_rules; simp add: quiet_own)

lemma wp_own_m_reconcileDelete:
  assumes p: "GetInstanceID p = (i, None)" and s: "pidOf s = p"
  shows "wp (m_reconcileDelete E T) (\<lambda>_ t. adds (ownInstance i) s t) s"
  unfolding m_reconcileDelete_def
proof (rule wp_seq [OF keeps_wp [OF owns_tame [OF tame_bootstrap(2), of p i]]])
  fix t assume "owns p i s t"
  with s have t: "pidOf t = p" "adds (ownInstance i) s t" by (simp_all add: owns_def)
  let ?rest = "\<lambda>lm. if lms_ProviderID (lm_Spec lm) = None then machineReleaseFinalizers E
     else case GetInstanceID (lms_ProviderID (lm_Spec lm)) of (instanceID, err) \<Rightarrow>
       if err \<noteq> None then ret (noResult, err)
       else do {
         e \<leftarrow> perform (INST (CDeleteInstance instanceID)) (\<lambda>h. ine_DeleteInstance (ine E) h instanceID);
         if e \<noteq> None \<and> IgnoreLinodeAPIError E e [StatusNotFound] \<noteq> None then do {
           again \<leftarrow> withinDeletion E (om_DeletionTimestamp (lm_Meta lm)) (DefaultTimeout T DefaultMachineControllerRetryDelay);
           if again then requeueLater E DefaultMachineControllerRetryDelay else ret (noResult, e)
         }
         else do {
           _ \<leftarrow> lmSetCondition E (mkCond ReadyCondition statusFalse ''DeletionCompleted'' ''instance deleted'');
           _ \<leftarrow> modLM (lm_Spec_update (lms_ProviderID_update (\<lambda>_. None)));
           _ \<leftarrow> modLM (lm_Status_update (lms_InstanceState_update (\<lambda>_. None)));
           machineReleaseFinalizers E
         }
       }"
  have "keeps (adds (ownInstance i)) (?rest (lmOf t))"
    unfolding t(1) p machineReleaseFinalizers_def
    by (simp only: prod.case) (intro adds_rules keeps_case adds_own_lmSetCondition adds_own_tame [OF tame_runtime(3)] adds_own_tame [OF tame_runtime(4)]
      adds_own_tame [OF tame_machineScope(2)]; simp)
  from keeps_wp [OF this, of t] show "wp (State_Monad.bind theLM ?rest) (\<lambda>_ u. adds (ownInstance i) s u) t"
    unfolding wp_bind wp_get wp_return by (rule wp_mono) (rule adds.trans [OF t(2)])
qed

lemma owns_AddFinalizer: "keeps (owns p i) (MachineScope_AddFinalizer E)"
  unfolding MachineScope_AddFinalizer_def
  by (intro owns_rules keeps_case owns_tame [OF tame_machineScope(3)]; simp)

lemma owns_SetCredentialRefToken: "keeps (owns p i) (MachineScope_SetCredentialRefToken E)"
  unfolding MachineScope_SetCredentialRefToken_def
  by (intro owns_rules keeps_case owns_tame [OF tame_calm [OF calm_setTokenFromRef]]; simp)

text \<open>
  \<open>ends p i m\<close>: from a state with the provider ID \<open>p\<close>, \<open>m\<close> changes only the instance \<open>i\<close>.
\<close>

definition ends :: "string option \<Rightarrow> int \<Rightarrow> (MachineScope, 'a) op \<Rightarrow> bool" where
  "ends p i m = (\<forall>s. pidOf s = p \<longrightarrow> wp m (\<lambda>_ t. adds (ownInstance i) s t) s)"

lemma ends_keeps: "keeps (owns p i) m \<Longrightarrow> ends p i m"
  unfolding ends_def by (auto simp: owns_def elim!: keeps_wp [THEN wp_mono])

lemma ends_bind:
  assumes "keeps (owns p i) m" and "\<And>x. ends p i (f x)"
  shows "ends p i (State_Monad.bind m f)"
  unfolding ends_def
proof (intro allI impI)
  fix s :: "MachineScope world" assume s: "pidOf s = p"
  show "wp (State_Monad.bind m f) (\<lambda>_ t. adds (ownInstance i) s t) s"
  proof (rule wp_seq [OF keeps_wp [OF assms(1)]])
    fix r t assume "owns p i s t"
    with s have t: "pidOf t = p" "adds (ownInstance i) s t" by (simp_all add: owns_def)
    with assms(2) have "wp (f r) (\<lambda>_ u. adds (ownInstance i) t u) t" by (simp add: ends_def)
    then show "wp (f r) (\<lambda>_ t. adds (ownInstance i) s t) t" by (rule wp_mono) (rule adds.trans [OF t(2)])
  qed
qed

lemma ends_then:
  assumes "ends p i m" and "\<And>x. keeps (adds (ownInstance i)) (f x)"
  shows "ends p i (State_Monad.bind m f)"
  using assms unfolding ends_def by (blast intro: wp_seq wp_mono [OF keeps_wp [OF assms(2)]] adds.trans)

lemma ends_if: "ends p i m \<Longrightarrow> ends p i n \<Longrightarrow> ends p i (if b then m else n)"
  by simp

lemma ends_m_reconcileBody:
  assumes "GetInstanceID p = (i, None)"
  shows "ends p i (m_reconcileBody E gz T)"
proof -
  have "ends p i (m_reconcileDelete E T)" using wp_own_m_reconcileDelete [OF assms] by (simp add: ends_def)
  then have del: "ends p i (do { r \<leftarrow> m_reconcileDelete E T; ret (r, DeleteError) })"
    by (rule ends_then) (rule adds.keeps_return)
  show ?thesis
    unfolding m_reconcileBody_def
    by (rule del ends_if ends_bind owns_AddFinalizer owns_gets keeps_case(1) owns.keeps_return owns.keeps_get owns_SetCredentialRefToken
        owns_lmSetCondition ends_keeps owns.keeps_bind owns_m_reconcileUpdate [OF assms] owns_m_reconcileCreate [OF assms])+
qed

lemma adds_own_m_deferred: "keeps (adds (ownInstance i)) (m_deferred E body)"
  unfolding m_deferred_def
  by (intro adds_rules keeps_case adds_own_lmSetCondition adds_own_tame [OF tame_machineScope(3)]; simp)

lemma ends_m_reconcile: "GetInstanceID p = (i, None) \<Longrightarrow> ends p i (m_reconcile E gz T)"
  unfolding m_reconcile_def by (intro ends_then ends_m_reconcileBody adds_own_m_deferred)



section \<open>Creations\<close>

abbreviation creations :: "hist \<Rightarrow> nat" where
  "creations h \<equiv> countOf createsInstance h"

abbreviation noCreate :: "call \<Rightarrow> bool" where
  "noCreate c \<equiv> \<not> createsInstance c"

lemma nocreate_owns: "(\<And>p. keeps (owns p i) m) \<Longrightarrow> keeps (adds noCreate) m"
  by (rule keepsI, rule wp_mono, rule keeps_wp, assumption) (auto simp: owns_def adds_def ownInstance_def)

lemma nocreate_tame: "keeps tame m \<Longrightarrow> keeps (adds noCreate) m"
  by (erule keeps_mono) (auto simp: tame_def adds_def quiet_def)

lemma quiet_noCreate [simp]: "quiet c \<Longrightarrow> noCreate c"
  by (simp add: quiet_def)

text \<open>
  \<open>inStep\<close>: what every preflight step but the creation keeps: no instance is created, the token, its
  counter and the instance state are the same.
\<close>

definition inStep :: "MachineScope world \<Rightarrow> MachineScope world \<Rightarrow> bool" where
  "inStep s t = (adds noCreate s t \<and> ms_TokenHash (obj t) = ms_TokenHash (obj s) \<and> postRequestCounters t = postRequestCounters s
     \<and> lms_InstanceState (lm_Status (lmOf t)) = lms_InstanceState (lm_Status (lmOf s)))"

interpretation inStep: preorder_rel inStep
proof unfold_locales
  show "inStep s s" for s by (simp add: inStep_def adds.refl)
  show "inStep s t \<Longrightarrow> inStep t u \<Longrightarrow> inStep s u" for s t u by (auto simp: inStep_def intro: adds.trans)
qed

lemma inStep_tame: "keeps tame m \<Longrightarrow> keeps inStep m"
  by (erule keeps_mono) (auto simp: tame_def inStep_def lmCore_def adds_def)

lemma inStep_perform: "noCreate c \<Longrightarrow> keeps inStep (perform c f)"
  by (simp add: keeps_def wp_perform inStep_def adds_def)

lemma inStep_modLM: "(\<And>x. lms_InstanceState (lm_Status (f x)) = lms_InstanceState (lm_Status x)) \<Longrightarrow> keeps inStep (modLM f)"
  by (simp add: keeps_def wp_update inStep_def adds_def)

lemma inStep_lmSetCondition: "keeps inStep (lmSetCondition E c)"
  unfolding lmSetCondition_def by (intro inStep.keeps_all inStep_perform inStep_modLM; simp)

lemmas inStep_rules = inStep.keeps_all inStep_perform inStep_modLM inStep_lmSetCondition

lemma inStep_steps:
  "keeps inStep (stepDone E c r)"
  "keeps inStep again \<Longrightarrow> keeps inStep (stepFailed E T b c err again)"
  unfolding stepDone_def stepFailed_def
  by (intro inStep_rules keeps_case inStep_tame [OF tame_runtime(2)]; simp)+

lemma inStep_preflights:
  "keeps inStep (preflightFirewall E T)"
  "keeps inStep (reconcilePreflightVPC E T ref)"
  "keeps inStep (reconcilePreflightMetadataSupportConfigure E)"
  unfolding preflightFirewall_def reconcilePreflightLinodeFirewallCheck_def checkFirewallID_def reconcilePreflightVPC_def validateVPC_def
    reconcilePreflightMetadataSupportConfigure_def
  by (intro inStep_rules keeps_case inStep_steps inStep_tame [OF tame_runtime(4)] inStep_tame [OF tame_runtime(5)]; simp)+

lemma createsInstance_simps [simp]:
  "noCreate (INST (CCreateInstanceDisk i d))" "noCreate (INST (CUpdateInstanceConfig i c opts))" "noCreate (INST (CBootInstance i))"
  by (simp_all add: createsInstance_def)

lemma inStep_configureDataDisks: "keeps inStep (configureDataDisks E i devs)"
proof (induction devs)
  case (Cons d devs)
  obtain name sel upd where d: "d = (name, sel, upd)" by (cases d)
  show ?case unfolding d configureDataDisks.simps configureDisk_def
    by (intro inStep_rules keeps_case Cons.IH; simp)
qed (auto intro: inStep_rules)

lemma inStep_instanceSteps:
  "keeps inStep (reconcilePreflightConfigure E T i)"
  "keeps inStep (reconcilePreflightBoot E T i)"
  "keeps inStep (reconcilePreflightReady E T i)"
  unfolding reconcilePreflightConfigure_def configureDisks_def createDisks_def updateInstanceConfigProfile_def
    reconcilePreflightBoot_def reconcilePreflightReady_def
  by (intro inStep_rules inStep_steps inStep_configureDataDisks keeps_case inStep_tame [OF tame_runtime(4)] inStep_tame [OF tame_runtime(5)]
      inStep_tame [OF tame_instance(1)] inStep_tame [OF tame_instance(2)]; simp)+

lemma nocreate_inStep: "keeps inStep m \<Longrightarrow> keeps (adds noCreate) m"
  by (erule keeps_mono) (simp add: inStep_def)

lemmas nocreate_lmSetCondition = inStep_lmSetCondition [THEN nocreate_inStep]
lemmas nocreate_preflights = inStep_preflights [THEN nocreate_inStep]

lemma nocreate_steps:
  "keeps (adds noCreate) (stepDone E c r)"
  "keeps inStep again \<Longrightarrow> keeps (adds noCreate) (stepFailed E T b c err again)"
  by (intro nocreate_inStep inStep_steps; assumption)+

text \<open>A handler that reads the provider ID changes only that instance, or none if it does not parse.\<close>

lemma nocreate_parsed:
  assumes "\<And>p i. GetInstanceID p = (i, None) \<Longrightarrow> ends p i m"
    and "\<And>s. snd (GetInstanceID (pidOf s)) \<noteq> None \<Longrightarrow> wp m (\<lambda>_ t. adds noCreate s t) s"
  shows "keeps (adds noCreate) m"
proof (rule keepsI)
  fix s :: "MachineScope world"
  obtain i e where g: "GetInstanceID (pidOf s) = (i, e)" by (cases "GetInstanceID (pidOf s)")
  show "wp m (\<lambda>_ t. adds noCreate s t) s"
  proof (cases e)
    case None
    with assms(1) g have "ends (pidOf s) i m" by simp
    then have "wp m (\<lambda>_ t. adds (ownInstance i) s t) s" by (simp add: ends_def)
    then show ?thesis by (rule wp_mono) (auto simp: adds_def ownInstance_def)
  qed (use assms(2) g in auto)
qed

lemma nocreate_branches:
  "keeps (adds noCreate) (createAfterPreflight E T)"
  "keeps (adds noCreate) (m_reconcileUpdate E)"
  "keeps (adds noCreate) (m_reconcileDelete E T)"
proof -
  show "keeps (adds noCreate) (createAfterPreflight E T)"
    by (rule nocreate_parsed [OF ends_keeps [OF owns_createAfterPreflight]])
      (auto simp: createAfterPreflight_def wp_rules adds.refl split: prod.splits)
  show "keeps (adds noCreate) (m_reconcileUpdate E)"
    by (rule nocreate_parsed [OF ends_keeps [OF owns_m_reconcileUpdate]])
      (auto simp: m_reconcileUpdate_def wp_rules adds.refl split: prod.splits)
  show "keeps (adds noCreate) (m_reconcileDelete E T)"
    unfolding m_reconcileDelete_def machineReleaseFinalizers_def
    by (intro adds_rules keeps_case nocreate_lmSetCondition nocreate_tame [OF tame_bootstrap(2)] nocreate_tame [OF tame_runtime(3)]
        nocreate_tame [OF tame_runtime(4)] nocreate_tame [OF tame_machineScope(2)]; simp add: createsInstance_def)
qed

text \<open>A run creates at most one instance.\<close>

abbreviation once1 :: "(MachineScope, 'a) op \<Rightarrow> bool" where
  "once1 \<equiv> once createsInstance"

lemma once_preflight: "keeps (adds noCreate) m \<Longrightarrow> once1 n \<Longrightarrow> once1 (preflight b m n)"
  unfolding preflight_def
  by (auto intro!: once_before once_keeps [OF adds.keeps_return] split: prod.splits)

lemma once_createInstance: "once1 (createInstance E opts)"
proof -
  have cnt: "keeps (adds noCreate) (GetPostReqCounter th)" "keeps (adds noCreate) (retryAfterNow E th)" for th
    unfolding GetPostReqCounter_def retryAfterNow_def theCounter_def by (intro adds_rules keeps_case; simp)+
  have "once1 (perform (INST (CCreateInstance opts)) f)" for f :: "hist \<Rightarrow> HttpResponse option \<times> LInstance res"
    by (simp add: once_def wp_perform countOf_def)
  note create = once_after [OF this]
  show ?thesis
    unfolding createInstance_def Let_def
    by (intro create once_if once_before once_keeps [OF adds.keeps_return] adds_rules cnt keeps_case; simp)
qed


lemma once_m_reconcileCreate: "once1 (m_reconcileCreate E gz T)"
proof -
  have create: "once1 (reconcilePreflightCreate E gz T)"
    unfolding reconcilePreflightCreate_def
  proof (rule once_before [OF nocreate_tame [OF tame_newCreateConfig]])
    fix c :: "LInstanceCreateOptions res"
    show "once1 (case c of
         Inl err \<Rightarrow> if err = ErrSentinel ErrPanic then ret (noResult, Some err) else retryIfTransient E err
       | Inr createOpts \<Rightarrow> do {
           (retryAfter, r) \<leftarrow> createInstance E createOpts;
           case r of
             Inl err \<Rightarrow>
               if errIs err ErrRateLimit then ret (requeue retryAfter, None)
               else stepFailed E T DefaultMachineControllerWaitForPreflightTimeout ConditionPreflightCreated err (retryIfTransient E err)
           | Inr inst \<Rightarrow> do {
               out \<leftarrow> stepDone E ConditionPreflightCreated ''LinodeMachinePreflightCreated'';
               _ \<leftarrow> modLM (lm_Spec_update (lms_ProviderID_update (\<lambda>_. Some (providerIDOf (inst_ID inst)))));
               ret out
             }
         })"
    proof (cases c)
      case (Inl err)
      then show ?thesis by (auto intro!: once_keeps adds_rules nocreate_tame [OF tame_runtime(5)])
    next
      case (Inr opts)
      show ?thesis unfolding Inr sum.case
        by (rule once_after [OF once_createInstance]) (intro adds_rules keeps_case nocreate_steps inStep_tame [OF tame_runtime(5)] nocreate_tame [OF tame_runtime(5)]; simp)
    qed
  qed
  have last: "once1 (preflight b (reconcilePreflightCreate E gz T) (createAfterPreflight E T))" for b
    unfolding preflight_def
    by (intro once_if once_after [OF create] once_keeps [OF nocreate_branches(1)] keeps_case adds.keeps_return nocreate_branches(1))
  show ?thesis
    unfolding m_reconcileCreate_def Let_def
    by (rule last once_preflight once_if once_before once_keeps [OF adds.keeps_return] adds.keeps_bind adds.keeps_get adds.keeps_return nocreate_preflights
        nocreate_tame [OF tame_machineScope(1)])+
qed

lemma once_m_reconcile: "once1 (m_reconcile E gz T)"
proof -
  have "once1 (m_reconcileBody E gz T)"
    unfolding m_reconcileBody_def
    by (rule once_if once_after [OF once_m_reconcileCreate] once_before once_keeps [OF adds.keeps_return] adds.keeps_bind adds.keeps_get adds.keeps_return keeps_case(1)
        nocreate_owns [OF owns_AddFinalizer] nocreate_owns [OF owns_SetCredentialRefToken] nocreate_lmSetCondition nocreate_branches)+
  then show ?thesis
    unfolding m_reconcile_def
    by (rule once_after) (rule adds_mono [OF adds_own_m_deferred [of 0]], simp add: ownInstance_def)
qed

end
