(* ===== verification/MachineProps.thy ===== *)
theory MachineProps
  imports "HOL-Library.Multiset" MachineSafety Samples
begin

text \<open>
  The properties of the machine controller: which instances it changes, when it gives up its
  finalizer, how the preflight conditions order the steps, and what the helpers compute (tags,
  disks, bootstrap data, the rate limit).
\<close>

section \<open>Deletion\<close>

text \<open>The history shows that the instance is gone: the request to delete it succeeded or was answered with 404.\<close>

fun instGone :: "env \<Rightarrow> hist \<Rightarrow> int \<Rightarrow> bool" where
  "instGone E [] i = False"
| "instGone E (c # h) i = (instGone E h i \<or> (case c of
     INST (CDeleteInstance j) \<Rightarrow> j = i \<and> IgnoreLinodeAPIError E (ine_DeleteInstance (ine E) h i) [StatusNotFound] = None
   | _ \<Rightarrow> False))"

lemma instGone_append: "instGone E h i \<Longrightarrow> instGone E (new @ h) i"
  by (induction new) auto

lemma instGone_adds: "adds P s t \<Longrightarrow> instGone E (tr s) i \<Longrightarrow> instGone E (tr t) i"
  by (auto simp: adds_def intro: instGone_append)

definition lmKept :: "env \<Rightarrow> MachineScope world \<Rightarrow> MachineScope world \<Rightarrow> bool" where
  "lmKept E s t = ((om_Finalizers (lm_Meta (lmOf t)) = om_Finalizers (lm_Meta (lmOf s)) \<and> pidOf t = pidOf s) \<or>
     (case GetInstanceID (pidOf s) of (i, err) \<Rightarrow> err = None \<and> instGone E (tr t) i))"

lemma wp_machineReleaseFinalizers:
  "instGone E (tr s) i \<Longrightarrow> wp (machineReleaseFinalizers E) (\<lambda>_ t. instGone E (tr t) i) s"
  unfolding machineReleaseFinalizers_def
  by (rule wp_seq [OF keeps_wp [OF tame_machineScope(2)]]) (auto simp: wp_rules tame_def dest: instGone_adds)

lemma wp_lmSetCondition [wp_rules]:
  "wp (lmSetCondition E c) Q s =
     Q () (s\<lparr>tr := Runtime TimeNow # tr s, obj := ms_LinodeMachine_update (LinodeMachine_SetCondition (rt_Now (rt E) (tr s)) c) (obj s)\<rparr>)"
  by (cases s) (simp add: lmSetCondition_def wp_rules)

lemma wp_m_reconcileDelete:
  assumes "pidOf s \<noteq> None"
  shows "wp (m_reconcileDelete E T) (\<lambda>_ t. lmKept E s t) s"
  unfolding m_reconcileDelete_def
proof (rule wp_seq [OF keeps_wp [OF tame_bootstrap(2)]])
  fix r t assume t: "tame s t"
  then have spec: "lm_Spec (lmOf t) = lm_Spec (lmOf s)" "lm_Meta (lmOf t) = lm_Meta (lmOf s)" by (simp_all add: tame_def lmCore_def)
  obtain i err where g: "GetInstanceID (pidOf s) = (i, err)" by (cases "GetInstanceID (pidOf s)")
  have same: "lmKept E s t" using spec by (simp add: lmKept_def)
  have rel: "wp (machineReleaseFinalizers E) (\<lambda>_ u. lmKept E s u) u" if "err = None" "instGone E (tr u) i" for u
    by (rule wp_mono [OF wp_machineReleaseFinalizers [OF that(2)]]) (simp add: lmKept_def g that)
  show "wp (do {
     lm \<leftarrow> theLM;
     if lms_ProviderID (lm_Spec lm) = None then machineReleaseFinalizers E
     else case GetInstanceID (lms_ProviderID (lm_Spec lm)) of (instanceID, err) \<Rightarrow>
       if err \<noteq> None then ret (noResult, err)
       else do {
         e \<leftarrow> perform (INST (CDeleteInstance instanceID)) (\<lambda>h. ine_DeleteInstance (ine E) h instanceID);
         if e \<noteq> None \<and> IgnoreLinodeAPIError E e [StatusNotFound] \<noteq> None then do {
           again \<leftarrow> withinDeletion E (om_DeletionTimestamp (lm_Meta lm)) (DefaultTimeout T DefaultMachineControllerRetryDelay);
           if again then requeueLater E DefaultMachineControllerRetryDelay else ret (noResult, e)
         }
         else do {
           _ \<leftarrow> lmSetCondition E (mkCond ReadyCondition statusFalse ''DeletionCompleted'' ''instance deleted'');
           _ \<leftarrow> modLM (lm_Spec_update (lms_ProviderID_update (\<lambda>_. None)));
           _ \<leftarrow> modLM (lm_Status_update (lms_InstanceState_update (\<lambda>_. None)));
           machineReleaseFinalizers E
         }
       }
   }) (\<lambda>_ t. lmKept E s t) t"
    using assms spec same g
    by (auto simp: wp_bind wp_get wp_return wp_if wp_perform wp_update wp_lmSetCondition wp_withinDeletion wp_requeueLater wp_WithJitter spec intro!: rel)
      (auto simp: lmKept_def)
qed

section \<open>The rate limit\<close>

text \<open>No POST request is left for the token of the scope, and the clock stays before the reset time.\<close>

definition exhausted :: "env \<Rightarrow> MachineScope world \<Rightarrow> bool" where
  "exhausted E w = (case postRequestCounters w (ms_TokenHash (obj w)) of None \<Rightarrow> False
     | Some ctr \<Rightarrow> prc_ReqRemaining ctr = 0 \<and> (\<forall>h. rt_Now (rt E) h < prc_RefreshTime ctr))"

lemma wp_createInstance_exhausted:
  assumes "exhausted E s"
  shows "wp (createInstance E opts) (\<lambda>(d, r) t. r = Inl (ErrSentinel ErrRateLimit) \<and> adds isRuntime s t \<and> obj t = obj s
    \<and> postRequestCounters t = postRequestCounters s) s"
  using assms
  by (auto simp: exhausted_def createInstance_def GetPostReqCounter_def retryAfterNow_def theCounter_def IsPOSTLimitReached_def wp_rules Let_def adds_def
      split: option.splits)


section \<open>The order of the preflight steps\<close>

lemma lmCondTrue_set [simp]:
  "lmCondTrue t (LinodeMachine_SetCondition now (mkCond t' st rs msg) lm) = (if t = t' then st = statusTrue else lmCondTrue t lm)"
  by (auto simp: lmCondTrue_def LinodeMachine_GetCondition_def ConditionTrue_def lmc.lookup_SetCondition stampCond_def mkCond_def split: option.splits)


text \<open>A step that ends with no error and no delay has set its condition.\<close>

definition wentOn :: "outcome \<Rightarrow> bool" where
  "wentOn out = (snd out = None \<and> Result_IsZero (fst out))"

lemma cond_names_differ [simp]:
  "ConditionPreflightReady \<noteq> ConditionPreflightBootTriggered" "ConditionPreflightBootTriggered \<noteq> ConditionPreflightReady"
  by (simp_all add: ConditionPreflightReady_def ConditionPreflightBootTriggered_def)

lemma running_delay:
  "0 < DefaultMachineControllerWaitForRunningDelay + r mod (maxJitter DefaultMachineControllerWaitForRunningDelay + 1)"
proof -
  have "0 \<le> DefaultMachineControllerWaitForRunningDelay" by (simp add: DefaultMachineControllerWaitForRunningDelay_def second_def)
  from jitter_bounds(1) [OF this, of r] show ?thesis by (simp add: DefaultMachineControllerWaitForRunningDelay_def second_def)
qed

lemma wp_stepFailed_later:
  "(\<And>out t. \<not> wentOn out \<Longrightarrow> (\<forall>c. c \<noteq> cond \<longrightarrow> lmCondTrue c (lmOf t) = lmCondTrue c (lmOf s)) \<Longrightarrow> Q out t) \<Longrightarrow>
   wp (stepFailed E T b cond err (requeueLater E DefaultMachineControllerWaitForRunningDelay)) Q s"
  using running_delay
  by (cases "LinodeMachine_GetCondition cond (lmOf s)")
    (auto simp: stepFailed_def wp_rules wentOn_def less_le dest!: meta_spec)

lemma wp_reconcilePreflightBoot:
  "wp (reconcilePreflightBoot E T i) (\<lambda>out t. wentOn out \<longrightarrow> lmCondTrue ConditionPreflightBootTriggered (lmOf t)) s"
  by (auto simp: reconcilePreflightBoot_def stepDone_def wp_rules split: option.splits intro!: wp_stepFailed_later)

lemma wp_reconcilePreflightReady:
  assumes "lmCondTrue ConditionPreflightBootTriggered (lmOf s)"
  shows "wp (reconcilePreflightReady E T i)
    (\<lambda>out t. wentOn out \<longrightarrow> lmCondTrue ConditionPreflightBootTriggered (lmOf t) \<and> lmCondTrue ConditionPreflightReady (lmOf t)) s"
  unfolding reconcilePreflightReady_def
proof (rule wp_seq [OF keeps_wp [OF tame_instance(1)]])
  fix r t assume "tame s t"
  with assms have t: "lmCondTrue ConditionPreflightBootTriggered (lmOf t)"
    by (simp add: tame_def lmCore_def lmCondTrue_def LinodeMachine_GetCondition_def)
  then show "wp (case r of
       Inl err \<Rightarrow>
         if err = ErrSentinel ErrPanic then ret (noResult, Some err)
         else stepFailed E T DefaultMachineControllerWaitForPreflightTimeout ConditionPreflightReady err
           (requeueLater E DefaultMachineControllerWaitForRunningDelay)
     | Inr addrs \<Rightarrow> do {
         _ \<leftarrow> modLM (lm_Status_update (lms_Addresses_update (\<lambda>_. addrs)));
         stepDone E ConditionPreflightReady ''LinodeMachinePreflightReady''
       }) (\<lambda>out t. wentOn out \<longrightarrow> lmCondTrue ConditionPreflightBootTriggered (lmOf t) \<and> lmCondTrue ConditionPreflightReady (lmOf t)) t"
    by (auto simp: stepDone_def wp_rules wentOn_def split: sum.splits intro!: wp_stepFailed_later)
      (simp add: lmCondTrue_def LinodeMachine_GetCondition_def)
qed


lemma wp_preflight:
  assumes "b \<Longrightarrow> wp m (\<lambda>out t. if wentOn out then wp n Q t else Q out t) s" and "\<not> b \<Longrightarrow> wp n Q s"
  shows "wp (preflight b m n) Q s"
proof (cases b)
  case True
  with assms(1) show ?thesis
    unfolding preflight_def by (simp add: wp_bind) (erule wp_mono, auto simp: wentOn_def wp_rules split: prod.splits if_splits)
next
  case False
  with assms(2) show ?thesis by (simp add: preflight_def)
qed

abbreviation stateOf :: "MachineScope world \<Rightarrow> string option" where
  "stateOf w \<equiv> lms_InstanceState (lm_Status (lmOf w))"

text \<open>The instance state is set only for a machine that was booted and whose addresses are known.\<close>

definition stateOK :: "MachineScope world \<Rightarrow> bool" where
  "stateOK w = (case stateOf w of None \<Rightarrow> True
     | Some st \<Rightarrow> st = InstanceOffline \<and> lmCondTrue ConditionPreflightBootTriggered (lmOf w) \<and> lmCondTrue ConditionPreflightReady (lmOf w))"

lemma wp_readyAndDone:
  assumes "stateOf s = None" and "lmCondTrue ConditionPreflightBootTriggered (lmOf s)"
  shows "wp (readyAndDone E T i) (\<lambda>_ t. stateOK t) s"
  unfolding readyAndDone_def wp_gets
proof (rule wp_preflight)
  show "wp (reconcilePreflightReady E T i) (\<lambda>out t. if wentOn out
      then wp (do { _ \<leftarrow> modLM (lm_Status_update (lms_InstanceState_update (\<lambda>_. Some InstanceOffline))); ret (noResult, None) }) (\<lambda>_ t. stateOK t) t
      else stateOK t) s"
    by (rule wp_mono [OF wp_conjI [OF wp_reconcilePreflightReady [OF assms(2)] keeps_wp [OF inStep_instanceSteps(3)]]])
      (use assms in \<open>auto simp: wp_rules stateOK_def inStep_def lmCondTrue_def LinodeMachine_GetCondition_def\<close>)
qed (use assms in \<open>simp add: wp_rules stateOK_def lmCondTrue_def LinodeMachine_GetCondition_def\<close>)

lemma wp_bootAndDone: "stateOf s = None \<Longrightarrow> wp (bootAndDone E T i) (\<lambda>_ t. stateOK t) s"
  unfolding bootAndDone_def wp_gets
  by (rule wp_preflight, rule wp_mono [OF wp_conjI [OF wp_reconcilePreflightBoot keeps_wp [OF inStep_instanceSteps(2)]]])
    (auto simp: inStep_def stateOK_def intro!: wp_readyAndDone)

lemma wp_createAfterPreflight: "stateOf s = None \<Longrightarrow> wp (createAfterPreflight E T) (\<lambda>_ t. stateOK t) s"
  unfolding createAfterPreflight_def wp_gets
  by (auto simp: wp_return stateOK_def split: prod.splits intro!: wp_preflight wp_bootAndDone wp_mono [OF keeps_wp [OF inStep_instanceSteps(1)]])
    (auto simp: inStep_def stateOK_def intro!: wp_bootAndDone [unfolded stateOK_def])

text \<open>The steps before it keep an unset state.\<close>

definition sameState :: "MachineScope world \<Rightarrow> MachineScope world \<Rightarrow> bool" where
  "sameState s t = (stateOf t = stateOf s)"

interpretation sameState: preorder_rel sameState
  by unfold_locales (simp_all add: sameState_def)

lemma sameState_inStep: "keeps inStep m \<Longrightarrow> keeps sameState m"
  by (erule keeps_mono) (simp add: inStep_def sameState_def)

lemma sameState_perform: "keeps sameState (perform c f)"
  by (simp add: keeps_def wp_perform sameState_def)

lemma sameState_modify: "(\<And>w. stateOf (f w) = stateOf w) \<Longrightarrow> keeps sameState (modify f)"
  by (simp add: keeps_def wp_update sameState_def)

lemma sameState_preflightCreate: "keeps sameState (reconcilePreflightCreate E gz T)"
  unfolding reconcilePreflightCreate_def createInstance_def GetPostReqCounter_def retryAfterNow_def theCounter_def Let_def
  by (rule sameState_modify sameState_perform sameState.keeps_bind sameState.keeps_return sameState.keeps_get keeps_case
      sameState_inStep [OF inStep_tame [OF tame_newCreateConfig]] sameState_inStep [OF inStep_tame [OF tame_runtime(5)]]
      sameState_inStep [OF inStep_steps(1)] sameState_inStep [OF inStep_steps(2) [OF inStep_tame [OF tame_runtime(5)]]] | simp)+

lemma wp_create_start:
  assumes "keeps sameState m" and "\<And>t. stateOf t = None \<Longrightarrow> wp n (\<lambda>_ t. stateOK t) t" and "stateOf s = None"
  shows "wp (preflight b m n) (\<lambda>_ t. stateOK t) s"
  by (rule wp_preflight, rule wp_mono [OF keeps_wp [OF assms(1)]]) (use assms(2,3) in \<open>auto simp: sameState_def stateOK_def\<close>)

lemma wp_m_reconcileCreate: "stateOf s = None \<Longrightarrow> wp (m_reconcileCreate E gz T) (\<lambda>_ t. stateOK t) s"
  unfolding m_reconcileCreate_def Let_def
  by (rule wp_seq [OF keeps_wp [OF inStep_tame [OF tame_machineScope(1)]]])
    (rule wp_ifI wp_getsI wp_create_start sameState_inStep [OF inStep_preflights(1)] sameState_inStep [OF inStep_preflights(2)]
      sameState_inStep [OF inStep_preflights(3)] sameState_preflightCreate wp_createAfterPreflight
    | simp add: wp_return inStep_def stateOK_def)+

section \<open>Disks\<close>

text \<open>The space that the data disks and the default swap disk take.\<close>

definition optMega :: "env \<Rightarrow> InstanceDisk option \<Rightarrow> int" where
  "optMega E d = (case d of None \<Rightarrow> 0 | Some x \<Rightarrow> diskMega E x)"

lemma optMega_simps [simp]: "optMega E None = 0" "optMega E (Some x) = diskMega E x"
  by (simp_all add: optMega_def)

definition dataDiskSize :: "env \<Rightarrow> InstanceDisks \<Rightarrow> int" where
  "dataDiskSize E ds = (case dks_SDB ds of Some x \<Rightarrow> diskMega E x | None \<Rightarrow> defaultSwapDiskSize)
     + sum_list (map (optMega E) [dks_SDC ds, dks_SDD ds, dks_SDE ds, dks_SDF ds, dks_SDG ds, dks_SDH ds])"

lemma fold_wrap_sizes:
  assumes "\<And>d. Some d \<in> set xs \<Longrightarrow> 0 \<le> diskMega E d" and "0 \<le> n" and "n + sum_list (map (optMega E) xs) < 2 ^ 63"
  shows "fold (\<lambda>d size. case d of None \<Rightarrow> size | Some x \<Rightarrow> wrap64 (size + diskMega E x)) xs n = n + sum_list (map (optMega E) xs)"
  using assms
proof (induction xs arbitrary: n)
  case (Cons x xs)
  have "0 \<le> sum_list (map (optMega E) xs)" using Cons.prems(1) by (intro sum_list_nonneg) (auto simp: optMega_def split: option.splits)
  moreover have "0 \<le> optMega E x" using Cons.prems(1) by (cases x) simp_all
  ultimately have "int64 (n + optMega E x)" "0 \<le> n + optMega E x" using Cons.prems by (simp_all add: int64_def)
  with Cons.IH [of "n + optMega E x"] Cons.prems show ?case by (cases x) (simp_all add: add.assoc)
qed simp

text \<open>
For a machine with data disks and no OS disk the root disk gets exactly the space of the plan
that the data disks (and the default swap disk, if there is no disk sdb) leave.
\<close>

lemma wp_calculateRootDisk:
  assumes "lms_OSDisk (lm_Spec (lmOf s)) = None" and "lms_DataDisks (lm_Spec (lmOf s)) = Some ds"
    and "\<And>h ty. ine_GetTypeDisk (ine E) h ty = Inr disk" and "0 \<le> disk" "disk < 2 ^ 63"
    and size: "\<And>d. Some d \<in> set [dks_SDB ds, dks_SDC ds, dks_SDD ds, dks_SDE ds, dks_SDF ds, dks_SDG ds, dks_SDH ds] \<Longrightarrow> 0 \<le> diskMega E d"
    and "dataDiskSize E ds < 2 ^ 63"
  shows "wp (calculateRootDisk E) (\<lambda>r t. r = Inr (Some (disk - dataDiskSize E ds))) s"
proof -
  let ?xs = "[dks_SDC ds, dks_SDD ds, dks_SDE ds, dks_SDF ds, dks_SDG ds, dks_SDH ds]"
  let ?first = "case dks_SDB ds of Some x \<Rightarrow> diskMega E x | None \<Rightarrow> defaultSwapDiskSize"
  have "0 \<le> ?first" using size by (cases "dks_SDB ds") (simp_all add: defaultSwapDiskSize_def)
  moreover from this have "?first + sum_list (map (optMega E) ?xs) < 2 ^ 63" using assms(7) by (simp only: dataDiskSize_def)
  ultimately have "fold (\<lambda>d size. case d of None \<Rightarrow> size | Some x \<Rightarrow> wrap64 (size + diskMega E x)) ?xs ?first = dataDiskSize E ds"
    unfolding dataDiskSize_def by (intro fold_wrap_sizes size) simp_all
  moreover have "0 \<le> sum_list (map (optMega E) ?xs)"
    using size by (intro sum_list_nonneg) (auto simp: optMega_def split: option.splits)
  then have "0 \<le> dataDiskSize E ds" using \<open>0 \<le> ?first\<close> unfolding dataDiskSize_def by (rule add_nonneg_nonneg [rotated])
  ultimately show ?thesis
    using assms unfolding calculateRootDisk_def Let_def
    by (simp add: wp_rules del: fold_simps) (simp add: int64_def)
qed

section \<open>Data disks\<close>

text \<open>The data disks of a spec that have no ID yet, the IDs of the others, and the IDs of the disks that the API granted.\<close>

definition isPending :: "InstanceDisk option \<Rightarrow> bool" where
  "isPending d = (case d of None \<Rightarrow> False | Some x \<Rightarrow> dk_DiskID x = 0)"

definition pendingDisks :: "InstanceDisks \<Rightarrow> nat" where
  "pendingDisks ds = sum_list (map (\<lambda>(_, sel, _). of_bool (isPending (sel ds))) dataDevices)"

definition diskIDs :: "InstanceDisks \<Rightarrow> int list" where
  "diskIDs ds = concat (map (\<lambda>(_, sel, _). case sel ds of None \<Rightarrow> [] | Some d \<Rightarrow> if dk_DiskID d = 0 then [] else [dk_DiskID d]) dataDevices)"

fun grantedDisks :: "env \<Rightarrow> hist \<Rightarrow> int list" where
  "grantedDisks E [] = []"
| "grantedDisks E (c # h) = (case c of
     INST (CCreateInstanceDisk i opts) \<Rightarrow> (case ine_CreateInstanceDisk (ine E) h i opts of Inr k \<Rightarrow> k # grantedDisks E h | Inl _ \<Rightarrow> grantedDisks E h)
   | _ \<Rightarrow> grantedDisks E h)"

abbreviation disksOf :: "MachineScope world \<Rightarrow> InstanceDisks" where
  "disksOf w \<equiv> the (lms_DataDisks (lm_Spec (lmOf w)))"

text \<open>
  \<open>disksKept\<close>: the IDs of the granted disks are recorded, each once and none but these, so that each of them leaves one disk less
  without an ID, and a disk that has an ID is left as it is.
\<close>

definition disksKept :: "env \<Rightarrow> MachineScope world \<Rightarrow> MachineScope world \<Rightarrow> bool" where
  "disksKept E s t = (lms_DataDisks (lm_Spec (lmOf s)) \<noteq> None \<longrightarrow> lms_DataDisks (lm_Spec (lmOf t)) \<noteq> None \<and>
     mset (diskIDs (disksOf t)) + mset (grantedDisks E (tr s)) = mset (diskIDs (disksOf s)) + mset (grantedDisks E (tr t)) \<and>
     length (grantedDisks E (tr t)) + pendingDisks (disksOf t) = length (grantedDisks E (tr s)) + pendingDisks (disksOf s) \<and>
     (\<forall>(_, sel, _)\<in>set dataDevices. \<not> isPending (sel (disksOf s)) \<longrightarrow> sel (disksOf t) = sel (disksOf s)))"

lemma disksKept_trans:
  assumes "disksKept E s t" and "disksKept E t u"
  shows "disksKept E s u"
proof (cases "lms_DataDisks (lm_Spec (lmOf s)) = None")
  case False
  then have t: "lms_DataDisks (lm_Spec (lmOf t)) \<noteq> None" using assms(1) by (simp add: disksKept_def)
  have "mset (diskIDs (disksOf u)) + mset (grantedDisks E (tr s)) + mset (grantedDisks E (tr t))
      = mset (diskIDs (disksOf u)) + mset (grantedDisks E (tr t)) + mset (grantedDisks E (tr s))" by simp
  also have "\<dots> = mset (diskIDs (disksOf t)) + mset (grantedDisks E (tr u)) + mset (grantedDisks E (tr s))"
    using assms(2) t by (simp add: disksKept_def)
  also have "\<dots> = mset (diskIDs (disksOf t)) + mset (grantedDisks E (tr s)) + mset (grantedDisks E (tr u))" by simp
  also have "\<dots> = mset (diskIDs (disksOf s)) + mset (grantedDisks E (tr u)) + mset (grantedDisks E (tr t))"
    using assms(1) False by (simp add: disksKept_def)
  finally have "mset (diskIDs (disksOf u)) + mset (grantedDisks E (tr s)) = mset (diskIDs (disksOf s)) + mset (grantedDisks E (tr u))"
    by (simp only: add_right_cancel)
  then show ?thesis using assms False t unfolding disksKept_def by fastforce
qed (simp add: disksKept_def)

interpretation disksKept: preorder_rel "disksKept E"
  by unfold_locales (simp add: disksKept_def, rule disksKept_trans)

definition asksDisk :: "call \<Rightarrow> bool" where
  "asksDisk c = (case c of INST (CCreateInstanceDisk _ _) \<Rightarrow> True | _ \<Rightarrow> False)"

lemma grantedDisks_other: "\<not> asksDisk c \<Longrightarrow> grantedDisks E (c # h) = grantedDisks E h"
  by (simp add: asksDisk_def split: call.splits instance_call.splits)

lemma disksKept_perform: "\<not> asksDisk c \<Longrightarrow> keeps (disksKept E) (perform c f)"
  by (auto simp: keeps_def wp_perform disksKept_def grantedDisks_other simp del: grantedDisks.simps)

lemma disksKept_modLM: "(\<And>lm. lms_DataDisks (lm_Spec (f lm)) = lms_DataDisks (lm_Spec lm)) \<Longrightarrow> keeps (disksKept E) (modLM f)"
  by (auto simp: keeps_def wp_update disksKept_def)

lemmas disksKept_rules = disksKept.keeps_all disksKept_perform disksKept_modLM

text \<open>Recording a granted ID on a device that had none.\<close>

lemma record_disk:
  assumes "(name, sel, upd) \<in> set dataDevices" and "sel ds = Some d" and "dk_DiskID d = 0" and "k \<noteq> 0"
  shows "mset (diskIDs (upd (\<lambda>_. Some (d\<lparr>dk_DiskID := k\<rparr>)) ds)) = add_mset k (mset (diskIDs ds))"
    and "Suc (pendingDisks (upd (\<lambda>_. Some (d\<lparr>dk_DiskID := k\<rparr>)) ds)) = pendingDisks ds"
proof -
  show "mset (diskIDs (upd (\<lambda>_. Some (d\<lparr>dk_DiskID := k\<rparr>)) ds)) = add_mset k (mset (diskIDs ds))"
    using assms unfolding dataDevices_def diskIDs_def by (simp; elim disjE; simp)
  show "Suc (pendingDisks (upd (\<lambda>_. Some (d\<lparr>dk_DiskID := k\<rparr>)) ds)) = pendingDisks ds"
  proof -
    define p :: "InstanceDisk option \<Rightarrow> nat" where "p = (\<lambda>x. of_bool (isPending x))"
    have "p (Some d) = 1" "p (Some (d\<lparr>dk_DiskID := k\<rparr>)) = 0" using assms(3,4) by (simp_all add: p_def isPending_def)
    then show ?thesis using assms(1,2) unfolding pendingDisks_def p_def [symmetric, THEN fun_cong] dataDevices_def by (simp; elim disjE; simp)
  qed
qed

lemma device_upd:
  assumes "(name, sel, upd) \<in> set dataDevices"
  shows "sel (upd f ds) = f (sel ds)" and "(name', sel', upd') \<in> set dataDevices \<Longrightarrow> sel' (upd f ds) = sel' ds \<or> sel' = sel"
    and "upd (\<lambda>_. sel ds) ds = ds"
  using assms by (auto simp: dataDevices_def)

lemma wp_configureDevice:
  assumes api: "\<And>h opts. ine_CreateInstanceDisk (ine E) h i opts \<noteq> Inr 0" and dev: "(name, sel, upd) \<in> set dataDevices"
    and "lms_DataDisks (lm_Spec (lmOf s)) = Some ds"
  shows "wp (do { (disk, err) \<leftarrow> configureDisk E i (sel ds) name; _ \<leftarrow> modLM (lm_Spec_update (lms_DataDisks_update (map_option (upd (\<lambda>_. disk))))); ret err })
     (\<lambda>err t. disksKept E s t \<and> (err = None \<longrightarrow> \<not> isPending (sel (disksOf t)))) s"
proof -
  have kept: "\<forall>(_, sel', _)\<in>set dataDevices. \<not> isPending (sel' ds) \<longrightarrow> sel' (upd (\<lambda>_. x) ds) = sel' ds" if "isPending (sel ds)" for x
    using that device_upd(2) [OF dev] by fastforce
  have same: "sel ds = Some d \<Longrightarrow> upd (\<lambda>_. Some d) ds = ds" "sel ds = None \<Longrightarrow> upd (\<lambda>_. None) ds = ds" for d
    using device_upd(3) [OF dev, of ds] by simp_all
  show ?thesis
  proof (cases "sel ds")
    case None
    then show ?thesis using assms(3) same by (simp add: configureDisk_def wp_rules disksKept_def isPending_def)
  next
    case (Some d)
    show ?thesis
    proof (cases "dk_DiskID d = 0")
      case False
      then show ?thesis using assms(3) same Some by (simp add: configureDisk_def wp_rules disksKept_def isPending_def)
    next
      case True
      then have pend: "isPending (sel ds)" using Some by (simp add: isPending_def)
      let ?opts = "\<lparr>ldo_Label = if dk_Label d = [] then name else dk_Label d, ldo_Size = diskMega E d,
         ldo_Filesystem = if dk_Filesystem d = [] then defaultDiskFilesystem else dk_Filesystem d\<rparr>"
      show ?thesis
      proof (cases "ine_CreateInstanceDisk (ine E) (tr s) i ?opts")
        case (Inl err)
        then show ?thesis
          using assms(3) Some True same(1) [OF Some] by (simp add: configureDisk_def lmSetCondition_def wp_rules disksKept_def)
      next
        case (Inr k)
        then have "k \<noteq> 0" using api by metis
        moreover from this have "\<not> isPending (Some (d\<lparr>dk_DiskID := k\<rparr>))" by (simp add: isPending_def)
        ultimately show ?thesis
          using Inr assms(3) Some True device_upd(1) [OF dev] kept [OF pend] record_disk [OF dev Some True]
          by (simp add: configureDisk_def wp_rules disksKept_def)
      qed
    qed
  qed
qed

lemma wp_configureDataDisks:
  assumes api: "\<And>h opts. ine_CreateInstanceDisk (ine E) h i opts \<noteq> Inr 0"
  shows "set devs \<subseteq> set dataDevices \<Longrightarrow> lms_DataDisks (lm_Spec (lmOf s)) \<noteq> None \<Longrightarrow>
    wp (configureDataDisks E i devs) (\<lambda>r t. disksKept E s t \<and> (r = None \<longrightarrow> (\<forall>(_, sel, _)\<in>set devs. \<not> isPending (sel (disksOf t))))) s"
proof (induction devs arbitrary: s)
  case Nil
  then show ?case by (simp add: wp_return disksKept.refl)
next
  case (Cons d devs)
  obtain name sel upd where d: "d = (name, sel, upd)" by (cases d)
  then have dev: "(name, sel, upd) \<in> set dataDevices" and devs: "set devs \<subseteq> set dataDevices" using Cons.prems(1) by auto
  obtain ds where ds: "lms_DataDisks (lm_Spec (lmOf s)) = Some ds" using Cons.prems(2) by blast
  let ?Q = "\<lambda>r t. disksKept E s t \<and> (r = None \<longrightarrow> (\<forall>(_, sel, _)\<in>set (d # devs). \<not> isPending (sel (disksOf t))))"
  have rest: "wp (if err \<noteq> None then ret err else configureDataDisks E i devs) ?Q t"
    if t: "disksKept E s t \<and> (err = None \<longrightarrow> \<not> isPending (sel (disksOf t)))" for err t
  proof -
    have some: "lms_DataDisks (lm_Spec (lmOf t)) \<noteq> None" using t ds by (simp add: disksKept_def)
    have later: "\<not> isPending (sel (disksOf u))" if "disksKept E t u" "err = None" for u
      using that t some dev unfolding disksKept_def by fastforce
    show ?thesis
      by (rule wp_ifI) (use t later in \<open>auto simp: wp_return d intro!: wp_mono [OF Cons.IH [OF devs some]] intro: disksKept_trans\<close>)
  qed
  have "wp (configureDisk E i (sel ds) name) (\<lambda>r t. case r of (disk, err) \<Rightarrow>
      wp (if err \<noteq> None then ret err else configureDataDisks E i devs) ?Q
        (obj_update (ms_LinodeMachine_update (lm_Spec_update (lms_DataDisks_update (map_option (upd (\<lambda>_. disk)))))) t)) s"
    using wp_configureDevice [OF api dev ds]
    unfolding wp_bind wp_case_prod wp_update wp_return 
  proof (rule wp_mono, goal_cases)
    case (1 r t)
    obtain disk err where r: "r = (disk, err)" by (cases r)
    show ?case unfolding r prod.case by (rule rest [OF 1 [unfolded r prod.case]])
  qed
  then show ?case unfolding d configureDataDisks.simps by (intro wp_getsI) (unfold ds option.sel wp_bind wp_case_prod wp_update)
qed

lemma pendingDisks_0: "(\<forall>(_, sel, _)\<in>set dataDevices. \<not> isPending (sel ds)) = (pendingDisks ds = 0)"
  by (auto simp: pendingDisks_def sum_list_eq_0_iff)

text \<open>The attempts of several reconciliations, on the spec that the earlier ones left.\<close>

primrec diskAttempts :: "env \<Rightarrow> int \<Rightarrow> nat \<Rightarrow> (MachineScope, error option) op" where
  "diskAttempts E i 0 = createDisks E i"
| "diskAttempts E i (Suc n) = do { _ \<leftarrow> createDisks E i; diskAttempts E i n }"

lemma wp_createDisks:
  assumes "\<And>h opts. ine_CreateInstanceDisk (ine E) h i opts \<noteq> Inr 0" and "lms_DataDisks (lm_Spec (lmOf s)) \<noteq> None"
  shows "wp (createDisks E i) (\<lambda>r t. disksKept E s t \<and> (r = None \<longrightarrow> pendingDisks (disksOf t) = 0)) s"
proof -
  note disks = wp_configureDataDisks [OF assms(1) subset_refl assms(2), unfolded pendingDisks_0]
  show ?thesis
    unfolding createDisks_def wp_gets
  proof (rule wp_ifI, use assms(2) in simp, rule wp_seq [OF disks], rule wp_ifI, force simp: wp_return)
    fix e1 t assume t: "disksKept E s t \<and> (e1 = None \<longrightarrow> pendingDisks (disksOf t) = 0)" and "\<not> e1 \<noteq> None"
    have spec: "wp (updateInstanceConfigProfile E i) (\<lambda>_ u. disksKept E t u \<and> lm_Spec (lmOf u) = lm_Spec (lmOf t)) t"
      by (auto simp: updateInstanceConfigProfile_def wp_rules Let_def disksKept_def split: sum.split list.split)
    show "wp (do { e2 \<leftarrow> updateInstanceConfigProfile E i;
         if e2 \<noteq> None then ret e2
         else do { _ \<leftarrow> lmSetCondition E (mkCond ConditionPreflightAdditionalDisksCreated statusTrue ''AdditionalDisksCreated'' []); ret None } })
       (\<lambda>r u. disksKept E s u \<and> (r = None \<longrightarrow> pendingDisks (disksOf u) = 0)) t"
    proof (rule wp_seq [OF spec])
      fix e2 u assume u: "disksKept E t u \<and> lm_Spec (lmOf u) = lm_Spec (lmOf t)"
      then have "disksKept E s u" using t disksKept_trans by blast
      then show "wp (if e2 \<noteq> None then ret e2
         else do { _ \<leftarrow> lmSetCondition E (mkCond ConditionPreflightAdditionalDisksCreated statusTrue ''AdditionalDisksCreated'' []); ret None })
       (\<lambda>r u. disksKept E s u \<and> (r = None \<longrightarrow> pendingDisks (disksOf u) = 0)) u"
        using t u \<open>\<not> e1 \<noteq> None\<close> by (auto simp: lmSetCondition_def wp_rules disksKept_def)
    qed
  qed
qed


section \<open>Bootstrap data\<close>

text \<open>
  The object \<open>key\<close> holds \<open>data\<close> and \<open>url\<close> leads to it: the last requests put the data in a bucket, with success, and presigned a request
  for the same object of the same bucket, for as long as the store says; the bucket is that of the credentials used.
\<close>

definition published :: "env \<Rightarrow> ObjectStore \<Rightarrow> string \<Rightarrow> string \<Rightarrow> hist \<Rightarrow> string \<Rightarrow> bool" where
  "published E store key data h url = (\<exists>credentials h0. let bucket = bucketOf credentials;
       h1 = S3 (CPutObject bucket key data) # S3 (CS3Clients credentials) # h0 in
     h = S3 (CPresignGetObject bucket key (os_PresignedURLDuration store)) # h1
     \<and> s3_PutObject (s3e E) (tl h1) bucket key data = None
     \<and> s3_PresignGetObject (s3e E) h1 bucket key (os_PresignedURLDuration store) = Inr (Some url) \<and> url \<noteq> [])"

definition uploadPost :: "env \<Rightarrow> ObjectStore \<Rightarrow> string \<Rightarrow> string \<Rightarrow> string res \<Rightarrow> MachineScope world \<Rightarrow> bool" where
  "uploadPost E store key data r t = (case r of Inl _ \<Rightarrow> True | Inr url \<Rightarrow> published E store key data (tr t) url)"

lemma uploadPost_simps [simp]: "uploadPost E st key d (Inl e) t" "uploadPost E st key d (Inr url) t = published E st key d (tr t) url"
  by (simp_all add: uploadPost_def)

lemma wp_createObjectWithCredentials: "wp (createObjectWithCredentials E st ref d key) (uploadPost E st key d) s"
  unfolding createObjectWithCredentials_def wp_bindE wp_wrapE
  by (rule wpI) (auto simp: wp_rules Let_def published_def s3Clients_def split: sum.splits option.splits prod.splits if_splits)

lemma wp_createObjectLoop: "wp (createObjectLoop E st d key refs errs) (uploadPost E st key d) s"
proof (induction refs arbitrary: errs s)
  case (Cons ref refs)
  show ?case
    unfolding createObjectLoop.simps wp_bind wp_perform
    by (auto simp: wp_return split: option.splits)
      (rule wp_seq [OF wp_createObjectWithCredentials], auto simp: wp_return split: sum.splits intro!: Cons.IH)
qed (simp add: wp_return)

text \<open>What an instance gets as its user data when \<open>v\<close> is the bootstrap data.\<close>

definition delivered :: "env \<Rightarrow> bool \<Rightarrow> ObjectStore option \<Rightarrow> string \<Rightarrow> string \<Rightarrow> hist \<Rightarrow> string \<Rightarrow> bool" where
  "delivered E gzip store key v h d =
     (if length v < maxBootstrapDataBytesCloudInit then d = v
      else if gzip \<and> (\<exists>c. compressUserData E v = Inr c \<and> length c < maxBootstrapDataBytesCloudInit) then compressUserData E v = Inr d
      else \<exists>st url. store = Some st \<and> published E st key v h url \<and> d = cloudConfig [url])"

abbreviation storeOf :: "MachineScope world \<Rightarrow> ObjectStore option" where
  "storeOf w \<equiv> lcs_ObjectStore (lc_Spec (ms_LinodeCluster (obj w)))"

lemma wp_uploadBootstrapData:
  "wp (uploadBootstrapData E v) (\<lambda>r t. case r of Inl _ \<Rightarrow> True
     | Inr d \<Rightarrow> \<exists>st url. storeOf s = Some st \<and> published E st (om_UID (lm_Meta (lmOf s))) v (tr t) url \<and> d = cloudConfig [url]) s"
  unfolding uploadBootstrapData_def CreateObject_def Let_def wp_gets
  by (auto simp: wp_rules intro!: wp_mono [OF wp_createObjectLoop] split: option.splits)
    (auto simp: uploadPost_def wp_return split: sum.splits)

lemma wp_resolveBootstrapData:
  assumes "mc_DataSecretName (ms_Machine (obj s)) = Some name"
    and "\<And>h. k_GetSecret (k8s E) h \<lparr>nn_Namespace = om_Namespace (lm_Meta (lmOf s)), nn_Name = name\<rparr> = Inr sec" and "sec_Data sec ''value'' = Some v"
  shows "wp (resolveBootstrapData E gzip)
    (\<lambda>r t. case r of Inl _ \<Rightarrow> True | Inr d \<Rightarrow> delivered E gzip (storeOf s) (om_UID (lm_Meta (lmOf s))) v (tr t) d) s"
proof -
  let ?Q = "\<lambda>r t. case r of Inl _ \<Rightarrow> True | Inr d \<Rightarrow> delivered E gzip (storeOf s) (om_UID (lm_Meta (lmOf s))) v (tr t) d"
  have up: "wp (uploadBootstrapData E v) ?Q (s\<lparr>tr := c # tr s\<rparr>)"
    if "\<not> length v < maxBootstrapDataBytesCloudInit" "\<not> (gzip \<and> (\<exists>c. compressUserData E v = Inr c \<and> length c < maxBootstrapDataBytesCloudInit))" for c
    by (rule wp_mono [OF wp_uploadBootstrapData]) (use that in \<open>auto simp: delivered_def split: sum.splits\<close>)
  show ?thesis
    using assms unfolding resolveBootstrapData_def GetBootstrapData_def Let_def
    by (cases "compressUserData E v") (simp_all add: wp_rules up del: sum.case_cong, simp_all add: delivered_def)
qed

section \<open>Configuration errors\<close>

lemma wp_reconcilePreflightBoot_request: "wp (reconcilePreflightBoot E T i) (\<lambda>_ t. INST (CBootInstance i) \<in> set (tr t)) s"
  by (cases "LinodeMachine_GetCondition ConditionPreflightBootTriggered (lmOf s)")
    (auto simp: reconcilePreflightBoot_def stepDone_def stepFailed_def wp_rules split: option.splits)

lemma wp_bootAndDone_request:
  assumes "\<not> lmCondTrue ConditionPreflightBootTriggered (lmOf s)"
  shows "wp (bootAndDone E T i) (\<lambda>_ t. INST (CBootInstance i) \<in> set (tr t)) s"
proof -
  have ready: "wp (readyAndDone E T i) (\<lambda>_ u. INST (CBootInstance i) \<in> set (tr u)) t" if "INST (CBootInstance i) \<in> set (tr t)" for t
  proof -
    have "keeps (owns (pidOf t) i) (readyAndDone E T i)"
      unfolding readyAndDone_def by (rule owns_gets) (intro owns_step owns_rules keeps_rules; simp)
    from keeps_wp [OF this, of t] show ?thesis by (rule wp_mono) (use that in \<open>auto simp: owns_def adds_def\<close>)
  qed
  show ?thesis
    unfolding bootAndDone_def wp_gets
    by (rule wp_preflight, rule wp_mono [OF wp_reconcilePreflightBoot_request]) (use assms ready in auto)
qed

section \<open>Properties\<close>

text \<open>
C1: a reconciliation of a machine whose provider ID names the instance \<open>i\<close> changes no other instance
and creates none: every request in its history that boots, configures, updates, deletes or adds a
disk or a firewall to an instance is for \<open>i\<close>. It holds in every branch (create, update and delete),
for every answer of the services.
\<close>

theorem machine_own_instance:
  assumes "GetInstanceID (pidOf s) = (i, None)"
  shows "wp (m_reconcile E gzip timeout) (\<lambda>_ t. adds (ownInstance i) s t) s"
  using ends_m_reconcile [OF assms] by (simp add: ends_def)

definition scope1 :: MachineScope where
  "scope1 = \<lparr>ms_Cluster = \<lparr>cl_Meta = meta0\<lparr>om_Name := ''c'', om_Namespace := ''ns''\<rparr>, cl_InfrastructureRefKind = ''LinodeCluster'', cl_InfrastructureRefName = ''c''\<rparr>,
     ms_Machine = \<lparr>mc_Meta = meta0, mc_DataSecretName = Some ''boot'', mc_ProviderID = [], mc_Phase = ''Running'', mc_InfrastructureRefKind = ''LinodeMachine'',
       mc_InfrastructureRefName = ''m'', mc_Conditions = []\<rparr>,
     ms_TokenHash = ''t'', ms_LinodeCluster = lc1, ms_LinodeMachine = lm1\<rparr>"

lemma scope1_simps [simp]:
  "ms_LinodeMachine scope1 = lm1" "ms_LinodeCluster scope1 = lc1" "lm_Spec lm1 = lmSpec1" "lms_ProviderID lmSpec1 = Some ''linode://12''"
  "GetInstanceID (Some ''linode://12'') = (12, None)"
  by (simp_all add: scope1_def lm1_def lmSpec1_def) (simp add: GetInstanceID_def, code_simp)

theorem machine_own_instance_witness:
  "wp (m_reconcile env0 True 0) (\<lambda>_ t. adds (ownInstance 12) (start scope1) t) (start scope1)"
  by (rule machine_own_instance) simp

text \<open>
A reconciliation creates at most one instance, whatever branch it takes and whatever fails.
\<close>

theorem machine_creates_once: "wp (m_reconcile E gzip timeout) (\<lambda>_ t. creations (tr t) \<le> Suc (creations (tr s))) s"
  using once_m_reconcile by (simp add: once_def)

text \<open>
C2: deleting a machine with a provider ID keeps its finalizers and its provider ID unless the
history shows that its instance is gone: the request to delete it succeeded or was answered with
404. In particular a provider ID that does not parse never gives the machine up.
\<close>

theorem machine_finalizer_kept:
  assumes "pidOf s \<noteq> None"
  shows "wp (m_reconcileDelete E timeout) (\<lambda>_ t. lmKept E s t) s"
  using assms by (rule wp_m_reconcileDelete)

theorem machine_finalizer_kept_witness:
  "wp (m_reconcileDelete env0 0) (\<lambda>_ t. lmKept env0 (start scope1) t) (start scope1)"
  by (rule machine_finalizer_kept) simp


text \<open>
The state of a new machine is set, which ends its creation, only after the boot was triggered
and the addresses were found: a machine that had no state gets none, or the state \<open>offline\<close> with
both conditions true.
\<close>

theorem machine_state_after_boot:
  assumes "stateOf s = None"
  shows "wp (m_reconcileCreate E gzip timeout) (\<lambda>_ t. stateOK t) s"
  using assms by (rule wp_m_reconcileCreate)

theorem machine_state_after_boot_witness:
  "wp (m_reconcileCreate env0 True 0) (\<lambda>_ t. stateOK t) (start scope1)"
  by (rule machine_state_after_boot) (simp add: lm1_def)

text \<open>
The tags of an instance are those it has, those of the spec and the name of the cluster,
without the tags that the spec had before and has no more; each occurs once. The tags of the spec
are remembered, so that the next call only adds what is missing.
\<close>

theorem getTags_set:
  "wp (getTags E instanceTags) (\<lambda>out t. distinct out \<and>
     set out = (set instanceTags \<union> set (lms_Tags (lm_Spec (lmOf s))) \<union> set (GetAutoGenTags (Some (ms_LinodeCluster (obj s)))))
       - (set (lms_StatusTags (lm_Status (lmOf s))) - set (lms_Tags (lm_Spec (lmOf s)))) \<and>
     wp (getTags E' out) (\<lambda>out' _. set out' = set out \<union> set (GetAutoGenTags (Some (ms_LinodeCluster (obj s))))) t) s"
proof -
  have "set (constructSet xss) = set (concat xss)" for xss
    unfolding constructSet_def using set_fold_setAdd [of id "concat xss" "[]"] by simp
  moreover have "distinct (constructSet xss)" for xss
    unfolding constructSet_def using distinct_fold_setAdd [of "[]" id "concat xss"] by simp
  ultimately show ?thesis
    by (auto simp: getTags_def wp_rules Let_def)
qed


text \<open>
C16: over any number of attempts to create the data disks of an instance, with any failures on the way, the IDs of the disks that the
API granted are recorded in the spec, each once and no other ID with them: no disk of the spec is granted twice and no
granted disk is lost. A disk that has an ID stays as it is, and when the last attempt succeeds every disk has an ID. (A
request that fails grants nothing and is repeated by the next attempt.) The API is assumed to use no ID 0.
\<close>

theorem disks_granted_once:
  assumes "\<And>h opts. ine_CreateInstanceDisk (ine E) h i opts \<noteq> Inr 0" and "lms_DataDisks (lm_Spec (lmOf s)) \<noteq> None"
  shows "wp (diskAttempts E i n) (\<lambda>r t. disksKept E s t \<and> (r = None \<longrightarrow> pendingDisks (disksOf t) = 0)) s"
  using assms(2)
proof (induction n arbitrary: s)
  case 0
  then show ?case using wp_createDisks [OF assms(1)] by simp
next
  case (Suc n)
  show ?case unfolding diskAttempts.simps
  proof (rule wp_seq [OF wp_createDisks [OF assms(1) Suc.prems]])
    fix e t assume t: "disksKept E s t \<and> (e = None \<longrightarrow> pendingDisks (disksOf t) = 0)"
    then have "lms_DataDisks (lm_Spec (lmOf t)) \<noteq> None" using Suc.prems by (simp add: disksKept_def)
    then show "wp (diskAttempts E i n) (\<lambda>r t. disksKept E s t \<and> (r = None \<longrightarrow> pendingDisks (disksOf t) = 0)) t"
      using t by (intro wp_mono [OF Suc.IH]) (auto intro: disksKept_trans)
  qed
qed

definition disks1 :: InstanceDisks where
  "disks1 = \<lparr>dks_SDB = Some \<lparr>dk_DiskID = 0, dk_Size = 10000000000, dk_Label = [], dk_Filesystem = []\<rparr>, dks_SDC = None, dks_SDD = None, dks_SDE = None,
     dks_SDF = None, dks_SDG = None, dks_SDH = None\<rparr>"

definition scope2 :: MachineScope where
  "scope2 = ms_LinodeMachine_update (lm_Spec_update (lms_DataDisks_update (\<lambda>_. Some disks1))) scope1"

theorem disks_granted_once_witness:
  "wp (diskAttempts env0 12 2) (\<lambda>r t. disksKept env0 (start scope2) t \<and> (r = None \<longrightarrow> pendingDisks (disksOf t) = 0)) (start scope2)"
  by (rule disks_granted_once) (simp_all add: env0_defs scope2_def)

text \<open>
C17: the user data of an instance is the bootstrap data itself when it fits in the metadata service, its compressed form when
compression is on and makes it fit, and otherwise a cloud-config with one URL: the one that the object store presigned for
the object into which the whole data was put just before, under the UID of the machine, in the bucket of the
credentials of the cluster's object store and for the time this store sets.
\<close>

theorem bootstrap_data_delivered:
  assumes "mc_DataSecretName (ms_Machine (obj s)) = Some name"
    and "\<And>h. k_GetSecret (k8s E) h \<lparr>nn_Namespace = om_Namespace (lm_Meta (lmOf s)), nn_Name = name\<rparr> = Inr sec" and "sec_Data sec ''value'' = Some v"
  shows "wp (resolveBootstrapData E gzip)
    (\<lambda>r t. case r of Inl _ \<Rightarrow> True | Inr d \<Rightarrow> delivered E gzip (storeOf s) (om_UID (lm_Meta (lmOf s))) v (tr t) d) s"
  using assms by (rule wp_resolveBootstrapData)

text \<open>Bootstrap data that is too long for the metadata service.\<close>

definition bootSecret :: Secret where
  "bootSecret = \<lparr>sec_Meta = meta0, sec_Type = [], sec_Data = [''value'' \<mapsto> replicate 20000 (CHR ''x'')]\<rparr>"

definition env2 :: env where
  "env2 = env0\<lparr>k8s := k8s0\<lparr>k_GetSecret := (\<lambda>_ _. Inr bootSecret)\<rparr>\<rparr>"

definition scopeWithStore :: MachineScope where
  "scopeWithStore = ms_LinodeCluster_update (lc_Spec_update (lcs_ObjectStore_update (\<lambda>_. Some \<lparr>os_PresignedURLDuration = None,
     os_CredentialsRef = \<lparr>sr_Name = ''store'', sr_Namespace = []\<rparr>, os_SecondaryCredentialsRef = None\<rparr>))) scope1"

theorem bootstrap_data_delivered_witness:
  "wp (resolveBootstrapData env2 False) (\<lambda>r t. case r of Inl _ \<Rightarrow> True
     | Inr d \<Rightarrow> delivered env2 False (storeOf (start scopeWithStore)) (om_UID (lm_Meta (lmOf (start scopeWithStore)))) (replicate 20000 (CHR ''x'')) (tr t) d)
   (start scopeWithStore)"
  by (rule bootstrap_data_delivered [where name = "''boot''" and sec = bootSecret])
    (simp_all add: scopeWithStore_def scope1_def env2_def env0_defs bootSecret_def)

text \<open>
A configuration that the API refuses for good is passed over: when the update of the instance
configuration fails with an error that is not retryable, the step ends as if it had succeeded,
without its condition, and the instance is booted unconfigured.
\<close>

theorem configure_error_skipped:
  assumes "GetInstanceID (pidOf s) = (i, None)"
    and "lms_DataDisks (lm_Spec (lmOf s)) = None" "lms_OSDisk (lm_Spec (lmOf s)) = None" "lms_InterfaceGeneration (lm_Spec (lmOf s)) \<noteq> GenerationLinode"
    and "\<not> lmCondTrue ConditionPreflightConfigured (lmOf s)" "\<not> lmCondTrue ConditionPreflightBootTriggered (lmOf s)"
    and "\<And>h. ine_ListInstanceConfigs (ine E) h i = Inr [cfg]"
    and "\<And>h u. ine_UpdateInstanceConfig (ine E) h i (lcfg_ID cfg) u = Some err" and "\<not> IsRetryableError E (Some err)"
  shows "wp (reconcilePreflightConfigure E timeout i) (\<lambda>out t. out = (noResult, None) \<and> \<not> lmCondTrue ConditionPreflightConfigured (lmOf t)) s
    \<and> wp (createAfterPreflight E timeout) (\<lambda>_ t. INST (CBootInstance i) \<in> set (tr t)) s"
proof -
  have conf: "wp (reconcilePreflightConfigure E timeout i) (\<lambda>out t. out = (noResult, None) \<and> lmOf t = lmOf s) s"
    using assms by (auto simp: reconcilePreflightConfigure_def configureDisks_def getDefaultInstanceConfig_def retryIfTransient_def configUpdate_def wp_rules Let_def)
  then have "wp (createAfterPreflight E timeout) (\<lambda>_ t. INST (CBootInstance i) \<in> set (tr t)) s"
    using assms unfolding createAfterPreflight_def wp_gets
    by (auto intro!: wp_preflight elim!: wp_mono) (auto simp: wentOn_def intro!: wp_bootAndDone_request)
  with conf assms(5) show ?thesis by (auto elim: wp_mono)
qed

definition cfg1 :: LInstanceConfig where
  "cfg1 = \<lparr>lcfg_ID = 7, lcfg_Devices = Map.empty, lcfg_Interfaces = []\<rparr>"

definition env3 :: env where
  "env3 = env0\<lparr>ine := ine0\<lparr>ine_ListInstanceConfigs := (\<lambda>_ _. Inr [cfg1]), ine_UpdateInstanceConfig := (\<lambda>_ _ _ _. Some (ErrNew ''bad kernel''))\<rparr>\<rparr>"

theorem configure_error_skipped_witness:
  "wp (reconcilePreflightConfigure env3 0 12) (\<lambda>out t. out = (noResult, None) \<and> \<not> lmCondTrue ConditionPreflightConfigured (lmOf t)) (start scope1)
    \<and> wp (createAfterPreflight env3 0) (\<lambda>_ t. INST (CBootInstance 12) \<in> set (tr t)) (start scope1)"
  by (rule configure_error_skipped [where cfg = cfg1 and err = "ErrNew ''bad kernel''"])
    (simp_all add: env3_def env0_defs lm1_def lmSpec1_def lmCondTrue_def LinodeMachine_GetCondition_def ConditionTrue_def lookupCond_def IsRetryableError_def)

text \<open>
The firewalls of an instance with legacy interfaces are set to the firewall of the spec exactly
when the attached ones differ, and nothing else is sent.
\<close>

theorem firewalls_converge:
  assumes "lms_InterfaceGeneration (lm_Spec (lmOf s)) \<noteq> GenerationLinode" and "lms_FirewallID (lm_Spec (lmOf s)) = fw" "fw \<noteq> 0"
    and "\<And>h. ine_ListInstanceFirewalls (ine E) h i = Inr fws"
  shows "wp (reconcileFirewallID E i) (\<lambda>out t. obj t = obj s \<and>
     tr t = (if map lf_ID fws = [fw] then [] else [INST (CUpdateInstanceFirewalls i [fw])]) @ INST (CListInstanceFirewalls i) # tr s) s"
  using assms by (auto simp: reconcileFirewallID_def attachedFirewalls_def desiredFirewalls_def wp_rules split: list.splits)

definition scope3 :: MachineScope where
  "scope3 = ms_LinodeMachine_update (lm_Spec_update (lms_FirewallID_update (\<lambda>_. 5))) scope1"

theorem firewalls_converge_witness:
  "wp (reconcileFirewallID env0 12) (\<lambda>out t. obj t = obj (start scope3) \<and>
     tr t = (if map lf_ID [] = [5] then [] else [INST (CUpdateInstanceFirewalls 12 [5])]) @ INST (CListInstanceFirewalls 12) # tr (start scope3)) (start scope3)"
  using firewalls_converge [of "start scope3" 5 env0 12 "[]"] by (simp add: env0_defs scope3_def lmSpec1_def)

text \<open>
With Linode interfaces the comparison never settles once two interfaces carry the firewall of
the spec: the same request is sent again by every reconciliation.
\<close>

theorem firewall_update_repeated:
  assumes "lms_InterfaceGeneration (lm_Spec (lmOf s)) = GenerationLinode" and "lms_FirewallID (lm_Spec (lmOf s)) = fw" "fw \<noteq> 0"
    and "\<And>h. ine_ListInterfaces (ine E) h i = Inr [a, b]" and "\<And>h j. ine_ListInterfaceFirewalls (ine E) h i j = Inr [f]" and "lf_ID f = fw"
  shows "wp (reconcileFirewallID E i) (\<lambda>_ t. hd (tr t) = INST (CUpdateInstanceFirewalls i [fw])) s"
  using assms by (auto simp: reconcileFirewallID_def attachedFirewalls_def desiredFirewalls_def wp_rules split: list.splits)

definition scope4 :: MachineScope where
  "scope4 = ms_LinodeMachine_update (lm_Spec_update (lms_InterfaceGeneration_update (\<lambda>_. GenerationLinode))) scope3"

definition env4 :: env where
  "env4 = env0\<lparr>ine := ine0\<lparr>ine_ListInterfaces := (\<lambda>_ _. Inr [\<lparr>lii_ID = 1, lii_VLAN = None\<rparr>, \<lparr>lii_ID = 2, lii_VLAN = None\<rparr>]),
     ine_ListInterfaceFirewalls := (\<lambda>_ _ _. Inr [\<lparr>lf_ID = 5, lf_Label = []\<rparr>])\<rparr>\<rparr>"

theorem firewall_update_repeated_witness:
  "wp (reconcileFirewallID env4 12) (\<lambda>_ t. hd (tr t) = INST (CUpdateInstanceFirewalls 12 [5])) (start scope4)"
  by (rule firewall_update_repeated [where f = "\<lparr>lf_ID = 5, lf_Label = []\<rparr>"]) (simp_all add: env4_def env0_defs scope4_def scope3_def)

end
