(* ===== verification/Runs.thy ===== *)
theory Runs
  imports World "HOL-Library.Sublist"
begin

text \<open>
  Sequences of reconciliations of one resource whose ID guards the creation of something behind the API. The
  locale \<open>creator\<close> has the rules by which a handler is shown to create at most one thing, and only while the
  resource has no ID; \<open>id_guard\<close> is what a reconciliation promises, and that over any sequence of them at most
  one thing is created.
\<close>

section \<open>Sequences of reconciliations\<close>

text \<open>
  \<open>runs step count ident gone i del h n\<close>: after some reconciliations the ID of the resource is \<open>i\<close>, \<open>del\<close> tells
  whether it was being deleted, \<open>h\<close> is the history and \<open>n\<close> counts the creations they were granted. Before the next
  one the history may have grown in any way and the resource may have changed, but its ID is what the last one
  left, and what is being deleted stays so.
\<close>

inductive runs :: "('o world \<Rightarrow> 'o world \<Rightarrow> bool) \<Rightarrow> (hist \<Rightarrow> nat) \<Rightarrow> ('o \<Rightarrow> 'i option) \<Rightarrow> ('o \<Rightarrow> bool) \<Rightarrow> 'i option \<Rightarrow> bool \<Rightarrow> hist \<Rightarrow> nat \<Rightarrow> bool"
  for step count ident gone where
  runs_start: "runs step count ident gone None False h 0"
| runs_step: "runs step count ident gone i del h n \<Longrightarrow> ident (obj w) = i \<Longrightarrow> (del \<Longrightarrow> gone (obj w)) \<Longrightarrow> suffix h (tr w) \<Longrightarrow> step w u \<Longrightarrow>
    runs step count ident gone (ident (obj u)) (gone (obj w)) (tr u) (n + (count (tr u) - count (tr w)))"

text \<open>The step of one of the handlers \<open>M\<close>.\<close>

definition stepOf :: "('o, 'a) op set \<Rightarrow> 'o world \<Rightarrow> 'o world \<Rightarrow> bool" where
  "stepOf M w u = (\<exists>m\<in>M. snd (State_Monad.run_state m w) = u)"

lemma runs_first:
  assumes "m \<in> M" and "ident x = None"
  defines "u \<equiv> snd (State_Monad.run_state m (start x))"
  shows "runs (stepOf M) count ident gone (ident (obj u)) (gone x) (tr u) (count (tr u) - count [])"
proof -
  have "stepOf M (start x) u" using assms(1) unfolding stepOf_def u_def by blast
  from runs_step [OF runs_start [of "stepOf M" count ident gone "[]"] _ _ _ this] assms(2) show ?thesis by simp
qed

locale id_guard =
  fixes step :: "'o world \<Rightarrow> 'o world \<Rightarrow> bool"
    and count :: "hist \<Rightarrow> nat"
    and ident :: "'o \<Rightarrow> 'i option"
    and gone :: "'o \<Rightarrow> bool"
  assumes step_quiet: "step w u \<Longrightarrow> gone (obj w) \<or> ident (obj w) \<noteq> None \<Longrightarrow> count (tr u) = count (tr w)"
    and step_keeps: "step w u \<Longrightarrow> \<not> gone (obj w) \<Longrightarrow> ident (obj w) \<noteq> None \<Longrightarrow> ident (obj u) = ident (obj w)"
    and step_grows: "step w u \<Longrightarrow> count (tr u) = count (tr w) \<or> count (tr u) = Suc (count (tr w)) \<and> ident (obj u) \<noteq> None"
begin

lemma at_most_one: "runs step count ident gone i del h n \<Longrightarrow> n = 0 \<or> n = 1 \<and> (del \<or> i \<noteq> None)"
proof (induction rule: runs.induct)
  case (runs_step i del h n w u)
  show ?case
  proof (cases "gone (obj w) \<or> ident (obj w) \<noteq> None")
    case True
    with runs_step step_quiet step_keeps show ?thesis by (metis add.right_neutral cancel_comm_monoid_add_class.diff_cancel)
  next
    case False
    with runs_step.hyps runs_step.IH have "n = 0" by auto
    with step_grows [OF runs_step.hyps(5)] show ?thesis by auto
  qed
qed simp

end


section \<open>Handlers that create\<close>

locale creator =
  fixes creates :: "call \<Rightarrow> bool"
    and count :: "hist \<Rightarrow> nat"
    and ident :: "'o \<Rightarrow> 'i option"
    and dts :: "'o \<Rightarrow> 't option"
  assumes count_other: "\<not> creates c \<Longrightarrow> count (c # h) = count h"
begin

lemma count_adds: "adds (\<lambda>c. \<not> creates c) s t \<Longrightarrow> count (tr t) = count (tr s)"
proof -
  have "count (new @ h) = count h" if "\<forall>c\<in>set new. \<not> creates c" for new h
    using that by (induction new) (simp_all add: count_other)
  then show "adds (\<lambda>c. \<not> creates c) s t \<Longrightarrow> ?thesis" by (auto simp: adds_def)
qed

text \<open>\<open>grew\<close>: nothing was created, or one thing was and the resource has an ID.\<close>

definition grew :: "'o world \<Rightarrow> 'o world \<Rightarrow> bool" where
  "grew s t = (count (tr t) = count (tr s) \<or> count (tr t) = Suc (count (tr s)) \<and> ident (obj t) \<noteq> None)"

definition grows :: "('o, 'a) op \<Rightarrow> bool" where
  "grows m = (\<forall>s. wp m (\<lambda>_ t. grew s t) s)"

text \<open>\<open>holds\<close>: nothing is created and an ID is kept; \<open>begun\<close>: moreover no ID is lost or set and the deletion timestamp is the same.\<close>

definition holds :: "'o world \<Rightarrow> 'o world \<Rightarrow> bool" where
  "holds s t = (adds (\<lambda>c. \<not> creates c) s t \<and> (ident (obj s) \<noteq> None \<longrightarrow> ident (obj t) = ident (obj s)))"

definition begun :: "'o world \<Rightarrow> 'o world \<Rightarrow> bool" where
  "begun s t = (adds (\<lambda>c. \<not> creates c) s t \<and> ident (obj t) = ident (obj s) \<and> dts (obj t) = dts (obj s))"

text \<open>\<open>settled\<close>: what a reconciliation leaves of a resource that has an ID or is deleted; \<open>settles\<close> allows a beginning.\<close>

definition settled :: "'o world \<Rightarrow> 'o world \<Rightarrow> bool" where
  "settled s t = (adds (\<lambda>c. \<not> creates c) s t \<and> (dts (obj s) = None \<longrightarrow> ident (obj t) = ident (obj s)))"

definition settles :: "'o world \<Rightarrow> ('o, 'a) op \<Rightarrow> bool" where
  "settles s m = (\<forall>t. begun s t \<longrightarrow> wp m (\<lambda>_ u. settled s u) t)"

lemma grows_before:
  assumes "keeps (adds (\<lambda>c. \<not> creates c)) m" and "\<And>x. grows (f x)"
  shows "grows (State_Monad.bind m f)"
  unfolding grows_def
proof (intro allI, rule wp_seq [OF keeps_wp [OF assms(1)]])
  fix s t :: "'o world" and r assume "adds (\<lambda>c. \<not> creates c) s t"
  then have "count (tr t) = count (tr s)" by (rule count_adds)
  moreover have "wp (f r) (\<lambda>_ u. grew t u) t" using assms(2) by (simp add: grows_def)
  ultimately show "wp (f r) (\<lambda>_ u. grew s u) t" by (simp add: grew_def)
qed

lemma grows_after:
  assumes "grows m" and "\<And>x. keeps holds (f x)"
  shows "grows (State_Monad.bind m f)"
  unfolding grows_def
proof (intro allI, rule wp_seq)
  fix s show "wp m (\<lambda>_ t. grew s t) s" using assms(1) by (simp add: grows_def)
next
  fix s r t assume g: "grew s t"
  from keeps_wp [OF assms(2)] show "wp (f r) (\<lambda>_ u. grew s u) t"
    by (rule wp_mono) (use g in \<open>auto simp: grew_def holds_def dest!: count_adds\<close>)
qed

lemma grows_keeps: "keeps (adds (\<lambda>c. \<not> creates c)) m \<Longrightarrow> grows m"
  unfolding grows_def grew_def by (auto dest: count_adds intro!: wp_mono [OF keeps_wp])

lemma grows_if: "grows m \<Longrightarrow> grows n \<Longrightarrow> grows (if b then m else n)"
  by simp

lemma grows_cases:
  "(\<And>e. r = Inl e \<Longrightarrow> grows (f e)) \<Longrightarrow> (\<And>z. r = Inr z \<Longrightarrow> grows (g z)) \<Longrightarrow> grows (case r of Inl e \<Rightarrow> f e | Inr z \<Rightarrow> g z)"
  "(y = None \<Longrightarrow> grows m) \<Longrightarrow> (\<And>z. y = Some z \<Longrightarrow> grows (k z)) \<Longrightarrow> grows (case y of None \<Rightarrow> m | Some z \<Rightarrow> k z)"
  "(\<And>a b. x = (a, b) \<Longrightarrow> grows (p a b)) \<Longrightarrow> grows (case x of (a, b) \<Rightarrow> p a b)"
  by (cases r, simp_all, cases y, simp_all, cases x, simp)

lemma begun_settled: "begun s t \<Longrightarrow> settled s t"
  by (simp add: begun_def settled_def)

lemma begun_refl: "begun s s"
  by (simp add: begun_def adds.refl)

lemma begun_trans: "begun s t \<Longrightarrow> begun t u \<Longrightarrow> begun s u"
  by (auto simp: begun_def intro: adds.trans)

lemma begun_holds: "keeps begun m \<Longrightarrow> keeps holds m"
  by (erule keeps_mono) (simp add: begun_def holds_def)

lemma holds_adds: "keeps holds m \<Longrightarrow> keeps (adds (\<lambda>c. \<not> creates c)) m"
  by (erule keeps_mono) (simp add: holds_def)

lemma begun_calm: "keeps (calm P) m \<Longrightarrow> (\<And>c. P c \<Longrightarrow> \<not> creates c) \<Longrightarrow> keeps begun m"
  by (erule keeps_mono) (auto simp: calm_def begun_def adds_def)

lemma begun_perform: "\<not> creates c \<Longrightarrow> keeps begun (perform c f)"
  by (simp add: keeps_def wp_perform begun_def adds_def)

lemma begun_modObj: "(\<And>x. ident (f x) = ident x \<and> dts (f x) = dts x) \<Longrightarrow> keeps begun (modObj f)"
  by (simp add: keeps_def wp_update begun_def adds_def)

lemma settles_keeps: "keeps begun m \<Longrightarrow> settles s m"
  unfolding settles_def by (auto intro!: wp_mono [OF keeps_wp] begun_settled dest: begun_trans)

lemma settles_bind: "keeps begun m \<Longrightarrow> (\<And>x. settles s (f x)) \<Longrightarrow> settles s (State_Monad.bind m f)"
  unfolding settles_def by (intro allI impI, rule wp_seq, erule keeps_wp) (auto dest: begun_trans)

lemma settles_gets: "(\<And>t. begun s t \<Longrightarrow> settles s (f (g t))) \<Longrightarrow> settles s (State_Monad.bind (gets g) f)"
  unfolding settles_def by (blast intro: wp_getsI)

lemma settles_if: "(b \<Longrightarrow> settles s m) \<Longrightarrow> (\<not> b \<Longrightarrow> settles s n) \<Longrightarrow> settles s (if b then m else n)"
  by simp

lemma settles_deleting: "dts (obj s) \<noteq> None \<Longrightarrow> keeps (adds (\<lambda>c. \<not> creates c)) m \<Longrightarrow> settles s m"
  unfolding settles_def settled_def begun_def by (auto intro!: wp_mono [OF keeps_wp] dest: adds.trans)

lemma settles_holds: "ident (obj s) \<noteq> None \<Longrightarrow> keeps holds m \<Longrightarrow> settles s m"
  unfolding settles_def settled_def begun_def holds_def by (auto intro!: wp_mono [OF keeps_wp] dest: adds.trans)

lemma settles_then:
  assumes "settles s m" and "\<And>x. keeps holds (f x)" and "dts (obj s) \<noteq> None \<or> ident (obj s) \<noteq> None"
  shows "settles s (State_Monad.bind m f)"
  unfolding settles_def
proof (intro allI impI, rule wp_seq)
  fix t assume "begun s t"
  then show "wp m (\<lambda>_ u. settled s u) t" using assms(1) by (simp add: settles_def)
next
  fix r u assume u: "settled s u"
  from keeps_wp [OF assms(2)] show "wp (f r) (\<lambda>_ v. settled s v) u"
    by (rule wp_mono) (use u assms(3) in \<open>auto simp: settled_def holds_def intro: adds.trans\<close>)
qed

lemma settles_wp: "settles s m \<Longrightarrow> wp m (\<lambda>_ t. settled s t) s"
  by (simp add: settles_def begun_refl)

text \<open>What a handler must satisfy so that its runs are guarded by the ID.\<close>

lemma guarded:
  assumes "\<And>m. m \<in> M \<Longrightarrow> grows m" and "\<And>m s. m \<in> M \<Longrightarrow> dts (obj s) \<noteq> None \<or> ident (obj s) \<noteq> None \<Longrightarrow> settles s m"
  shows "id_guard (stepOf M) count ident (\<lambda>x. dts x \<noteq> None)"
proof unfold_locales
  fix w u assume "stepOf M w u"
  then obtain m r where m: "m \<in> M" "State_Monad.run_state m w = (r, u)" unfolding stepOf_def by (metis prod.collapse)
  have settled: "settled w u" if "dts (obj w) \<noteq> None \<or> ident (obj w) \<noteq> None"
    using wp_run [OF settles_wp [OF assms(2) [OF m(1) that]] m(2)] .
  then show "dts (obj w) \<noteq> None \<or> ident (obj w) \<noteq> None \<Longrightarrow> count (tr u) = count (tr w)"
    by (auto simp: settled_def dest: count_adds)
  show "\<not> dts (obj w) \<noteq> None \<Longrightarrow> ident (obj w) \<noteq> None \<Longrightarrow> ident (obj u) = ident (obj w)"
    using settled by (simp add: settled_def)
  from assms(1) [OF m(1)] have "wp m (\<lambda>_ t. grew w t) w" by (simp add: grows_def)
  from wp_run [OF this m(2)] show "count (tr u) = count (tr w) \<or> count (tr u) = Suc (count (tr w)) \<and> ident (obj u) \<noteq> None"
    by (simp add: grew_def)
qed

end

sublocale creator \<subseteq> holding: preorder_rel holds
proof unfold_locales
  show "holds s s" for s by (simp add: holds_def adds.refl)
  show "holds s t \<Longrightarrow> holds t u \<Longrightarrow> holds s u" for s t u by (auto simp: holds_def intro: adds.trans)
qed

sublocale creator \<subseteq> beginning: preorder_rel begun
  by unfold_locales (rule begun_refl, rule begun_trans)

end
