(* ===== verification/MachineRuns.thy ===== *)
theory MachineRuns
  imports MachineProps Runs
begin

text \<open>
  Sequences of reconciliations of one machine: they are granted at most one instance, since the provider ID
  guards the creation. The rules are those of the locale \<open>creator\<close>.
\<close>

section \<open>Accepted creations\<close>

text \<open>How often the history shows a request to create an instance that was answered with an instance.\<close>

fun created :: "env \<Rightarrow> hist \<Rightarrow> nat" where
  "created E [] = 0"
| "created E (c # h) = (case c of
     INST (CCreateInstance opts) \<Rightarrow> (case snd (ine_CreateInstance (ine E) h opts) of Inl _ \<Rightarrow> 0 | Inr _ \<Rightarrow> 1)
   | _ \<Rightarrow> 0) + created E h"

abbreviation machineID :: "MachineScope \<Rightarrow> string option" where
  "machineID s \<equiv> lms_ProviderID (lm_Spec (ms_LinodeMachine s))"

abbreviation machineDeleted :: "MachineScope \<Rightarrow> gotime option" where
  "machineDeleted s \<equiv> om_DeletionTimestamp (lm_Meta (ms_LinodeMachine s))"

interpretation mcr: creator createsInstance "created E" machineID machineDeleted for E
  by unfold_locales (auto simp: createsInstance_def split: call.splits instance_call.splits)

lemma holds_owns:
  assumes "\<And>p. keeps (owns p i) m"
  shows "keeps mcr.holds m"
  by (rule keepsI, rule wp_mono, rule keeps_wp, rule assms) (auto simp: owns_def mcr.holds_def adds_def ownInstance_def)

text \<open>A handler that reads the provider ID works on that instance, or does nothing if it does not parse.\<close>

lemma holds_parsed:
  assumes "\<And>p i. GetInstanceID p = (i, None) \<Longrightarrow> keeps (owns p i) m"
    and "\<And>s. snd (GetInstanceID (pidOf s)) \<noteq> None \<Longrightarrow> wp m (\<lambda>_ t. t = s) s"
  shows "keeps mcr.holds m"
proof (rule keepsI)
  fix s :: "MachineScope world"
  obtain i e where g: "GetInstanceID (pidOf s) = (i, e)" by (cases "GetInstanceID (pidOf s)")
  show "wp m (\<lambda>_ t. mcr.holds s t) s"
  proof (cases e)
    case None
    from keeps_wp [OF assms(1) [OF g [unfolded None]], of s] show ?thesis
      by (rule wp_mono) (auto simp: owns_def mcr.holds_def adds_def ownInstance_def)
  next
    case Some
    with g assms(2) have "wp m (\<lambda>_ t. t = s) s" by simp
    then show ?thesis by (rule wp_mono) (simp add: mcr.holding.refl)
  qed
qed

lemma holds_branches:
  "keeps mcr.holds (createAfterPreflight E T)"
  "keeps mcr.holds (m_reconcileUpdate E)"
  "keeps mcr.holds (m_deferred E body)"
proof -
  show "keeps mcr.holds (createAfterPreflight E T)"
    by (rule holds_parsed [OF owns_createAfterPreflight]) (auto simp: createAfterPreflight_def wp_rules split: prod.splits)
  show "keeps mcr.holds (m_reconcileUpdate E)"
    by (rule holds_parsed [OF owns_m_reconcileUpdate]) (auto simp: m_reconcileUpdate_def wp_rules split: prod.splits)
  show "keeps mcr.holds (m_deferred E body)"
    unfolding m_deferred_def
    by (rule holds_owns) (intro owns_rules keeps_case owns_tame [OF tame_machineScope(3)]; simp)
qed

lemma begun_tame: "keeps tame m \<Longrightarrow> keeps mcr.begun m"
  by (erule keeps_mono) (auto simp: tame_def mcr.begun_def lmCore_def adds_def)

lemma begun_machine:
  "keeps mcr.begun (MachineScope_AddFinalizer E)"
  "keeps mcr.begun (MachineScope_SetCredentialRefToken E)"
  "keeps mcr.begun (MachineScope_AddCredentialsRefFinalizer E)"
  "keeps mcr.begun (lmSetCondition E c)"
  unfolding MachineScope_AddFinalizer_def MachineScope_SetCredentialRefToken_def lmSetCondition_def
  by (intro mcr.beginning.keeps_all mcr.begun_modObj keeps_case mcr.begun_perform begun_tame [OF tame_machineScope(1)] begun_tame [OF tame_machineScope(3)]
      begun_tame [OF tame_calm [OF calm_setTokenFromRef]]; simp)+


section \<open>One reconciliation\<close>

definition createPost :: "env \<Rightarrow> MachineScope world \<Rightarrow> duration \<times> LInstance res \<Rightarrow> MachineScope world \<Rightarrow> bool" where
  "createPost E s x t = (created E (tr t) = created E (tr s) \<or> created E (tr t) = Suc (created E (tr s)) \<and> (\<exists>inst. snd x = Inr inst))"

lemma wp_createInstance_created: "wp (createInstance E opts) (createPost E s) s"
  by (auto simp: createInstance_def GetPostReqCounter_def retryAfterNow_def theCounter_def createPost_def wp_rules Let_def
      split: sum.split option.split list.split prod.split)

lemma grows_reconcilePreflightCreate: "mcr.grows E (reconcilePreflightCreate E gz T)"
  unfolding reconcilePreflightCreate_def
proof (rule mcr.grows_before [OF nocreate_tame [OF tame_newCreateConfig]])
  fix c :: "LInstanceCreateOptions res"
  let ?after = "\<lambda>(retryAfter, r). case r of
      Inl err \<Rightarrow>
        if errIs err ErrRateLimit then ret (requeue retryAfter, None)
        else stepFailed E T DefaultMachineControllerWaitForPreflightTimeout ConditionPreflightCreated err (retryIfTransient E err)
    | Inr inst \<Rightarrow> do {
        out \<leftarrow> stepDone E ConditionPreflightCreated ''LinodeMachinePreflightCreated'';
        _ \<leftarrow> modLM (lm_Spec_update (lms_ProviderID_update (\<lambda>_. Some (providerIDOf (inst_ID inst)))));
        ret out
      }"
  have quietly: "keeps (adds noCreate) (?after x)" for x
    by (cases x, cases "snd x") (auto intro!: adds_rules keeps_case nocreate_steps inStep_tame [OF tame_runtime(5)])
  have "wp (?after x) (\<lambda>_ u. mcr.grew E s u) t" if post: "createPost E s x t" for s t :: "MachineScope world" and x
  proof (cases "created E (tr t) = created E (tr s)")
    case True
    with keeps_wp [OF quietly, of x t] show ?thesis by (auto simp: mcr.grew_def dest!: mcr.count_adds [where E = E] elim!: wp_mono)
  next
    case False
    with post obtain inst where x: "snd x = Inr inst" "created E (tr t) = Suc (created E (tr s))"
      by (auto simp: createPost_def)
    show ?thesis by (cases x) (use x in \<open>simp add: stepDone_def wp_rules mcr.grew_def\<close>)
  qed
  with wp_createInstance_created have create: "mcr.grows E (State_Monad.bind (createInstance E opts) ?after)" for opts
    unfolding mcr.grows_def by (blast intro: wp_seq)
  show "mcr.grows E (case c of
       Inl err \<Rightarrow> if err = ErrSentinel ErrPanic then ret (noResult, Some err) else retryIfTransient E err
     | Inr createOpts \<Rightarrow> State_Monad.bind (createInstance E createOpts) ?after)"
    by (cases c) (auto intro!: mcr.grows_keeps adds_rules nocreate_tame [OF tame_runtime(5)] create)
qed

lemma grows_preflight: "keeps (adds noCreate) m \<Longrightarrow> mcr.grows E n \<Longrightarrow> mcr.grows E (preflight b m n)"
  unfolding preflight_def
  by (auto intro!: mcr.grows_before mcr.grows_keeps [OF adds.keeps_return] split: prod.splits)

lemma grows_m_reconcileCreate: "mcr.grows E (m_reconcileCreate E gz T)"
proof -
  have last: "mcr.grows E (preflight b (reconcilePreflightCreate E gz T) (createAfterPreflight E T))" for b
    unfolding preflight_def
    by (intro mcr.grows_if mcr.grows_after [OF grows_reconcilePreflightCreate] mcr.grows_keeps [OF nocreate_branches(1)])
      (auto intro: holds_branches(1) mcr.holding.keeps_return split: prod.split)
  show ?thesis
    unfolding m_reconcileCreate_def Let_def
    by (rule last grows_preflight mcr.grows_if mcr.grows_before mcr.grows_keeps [OF adds.keeps_return] adds.keeps_bind adds.keeps_get adds.keeps_return
        nocreate_preflights nocreate_tame [OF tame_machineScope(1)])+
qed

lemma grows_m_reconcile: "mcr.grows E (m_reconcile E gz T)"
proof -
  have "mcr.grows E (m_reconcileBody E gz T)"
    unfolding m_reconcileBody_def
    by (rule mcr.grows_if mcr.grows_after [OF grows_m_reconcileCreate] mcr.grows_before mcr.grows_keeps [OF adds.keeps_return] adds.keeps_bind adds.keeps_get
        adds.keeps_return keeps_case(1) nocreate_owns [OF owns_AddFinalizer] nocreate_owns [OF owns_SetCredentialRefToken] nocreate_lmSetCondition
        nocreate_branches mcr.holding.keeps_return)+
  then show ?thesis unfolding m_reconcile_def by (rule mcr.grows_after) (rule holds_branches(3))
qed

lemma settles_m_reconcileCreate:
  assumes "machineID (obj s) \<noteq> None"
  shows "mcr.settles s (m_reconcileCreate E gz T)"
proof -
  have skip: "\<not> todoStep c (lmOf t)" if "mcr.begun s t" for c t using that assms by (simp add: todoStep_def mcr.begun_def)
  have skips: "mcr.settles s n \<Longrightarrow> \<not> b \<Longrightarrow> mcr.settles s (preflight b m n)" for b m n by (simp add: preflight_def)
  show ?thesis
    unfolding m_reconcileCreate_def Let_def
    by (rule mcr.settles_if mcr.settles_bind [OF begun_machine(3)] mcr.settles_gets skips mcr.settles_keeps [OF mcr.beginning.keeps_return]
        mcr.settles_holds [OF assms holds_branches(1)] | simp add: skip)+
qed

lemma settles_m_reconcile:
  assumes some: "machineDeleted (obj s) \<noteq> None \<or> machineID (obj s) \<noteq> None"
  shows "mcr.settles s (m_reconcile E gz T)"
proof -
  have same: "machineDeleted (obj t) = machineDeleted (obj s)" if "mcr.begun s t" for t using that by (simp add: mcr.begun_def)
  have del: "mcr.settles s (do { r \<leftarrow> m_reconcileDelete E T; ret (r, x) })" if "machineDeleted (obj s) \<noteq> None" for x :: string
    by (intro mcr.settles_deleting that adds_rules nocreate_branches)
  have upd: "mcr.settles s (do { r \<leftarrow> m_reconcileUpdate E; ret (r, x) })"
    and new: "mcr.settles s (do { r \<leftarrow> m_reconcileCreate E gz T; ret (r, x) })" if "machineDeleted (obj s) = None" for x :: string
  proof -
    have i: "machineID (obj s) \<noteq> None" using some that by simp
    show "mcr.settles s (do { r \<leftarrow> m_reconcileUpdate E; ret (r, x) })"
      by (intro mcr.settles_holds [OF i] mcr.holding.keeps_all holds_branches)
    show "mcr.settles s (do { r \<leftarrow> m_reconcileCreate E gz T; ret (r, x) })"
      by (rule mcr.settles_then [OF settles_m_reconcileCreate [OF i] mcr.holding.keeps_return some])
  qed
  have "mcr.settles s (m_reconcileBody E gz T)"
    unfolding m_reconcileBody_def
    by (rule mcr.settles_if mcr.settles_bind [OF begun_machine(1)] mcr.settles_gets mcr.settles_bind mcr.settles_keeps [OF mcr.beginning.keeps_return]
        begun_machine mcr.beginning.keeps_return keeps_case(1) del upd new | simp add: same)+
  then show ?thesis unfolding m_reconcile_def by (rule mcr.settles_then [OF _ holds_branches(3) some])
qed


section \<open>All reconciliations\<close>

abbreviation machineStep :: "env \<Rightarrow> MachineScope world \<Rightarrow> MachineScope world \<Rightarrow> bool" where
  "machineStep E \<equiv> stepOf {m. \<exists>gz T. m = m_reconcile E gz T}"

abbreviation machineRuns :: "env \<Rightarrow> string option \<Rightarrow> bool \<Rightarrow> hist \<Rightarrow> nat \<Rightarrow> bool" where
  "machineRuns E \<equiv> runs (machineStep E) (created E) machineID (\<lambda>s. machineDeleted s \<noteq> None)"

interpretation mguard: id_guard "machineStep E" "created E" machineID "\<lambda>s. machineDeleted s \<noteq> None" for E
  by (rule mcr.guarded) (auto intro: grows_m_reconcile settles_m_reconcile)

text \<open>
C3: However often a new machine is reconciled, in whatever order the services fail and whoever else works on the
API meanwhile, its reconciliations are granted at most one instance in all, provided that the provider ID they
leave is stored; and from then on the machine has a provider ID until it is deleted.
\<close>

theorem machine_one_instance:
  assumes "machineRuns E pid del h n"
  shows "n \<le> 1 \<and> (n = 0 \<or> del \<or> pid \<noteq> None)"
  using mguard.at_most_one [OF assms] by auto

definition newMachine :: MachineScope where
  "newMachine = ms_LinodeMachine_update (lm_Spec_update (lms_ProviderID_update (\<lambda>_. None))) scope1"

definition firstRun :: "MachineScope world" where
  "firstRun = snd (State_Monad.run_state (m_reconcile env0 True 0) (start newMachine))"

lemma firstRun_reached: "machineRuns env0 (pidOf firstRun) False (tr firstRun) (created env0 (tr firstRun))"
  using runs_first [of "m_reconcile env0 True 0" "{m. \<exists>gz T. m = m_reconcile env0 gz T}" machineID newMachine "created env0" "\<lambda>s. machineDeleted s \<noteq> None"]
  by (auto simp: firstRun_def newMachine_def lm1_def scope1_def meta0_def)

theorem machine_one_instance_witness:
  "created env0 (tr firstRun) \<le> 1 \<and> (created env0 (tr firstRun) = 0 \<or> False \<or> pidOf firstRun \<noteq> None)"
  by (rule machine_one_instance [OF firstRun_reached])

end
