(* ===== verification/MachineProgress.thy ===== *)
theory MachineProgress
  imports MachineProps
begin

text \<open>
  Progress of a machine: while the API serves its instance, two reconciliations take a machine that has a
  provider ID to ready.
\<close>

section \<open>What the reconciliations rely on\<close>

text \<open>The API serves the instance \<open>i\<close>: it has a configuration profile and addresses, takes every request and reports the instance running.\<close>

definition hasAddresses :: "LInstanceIPAddresses \<Rightarrow> bool" where
  "hasAddresses a = (ip_Public a \<noteq> [] \<and> (case ip_IPv6 a of None \<Rightarrow> False | Some ip6 \<Rightarrow> ip6_SLAAC ip6 \<noteq> None))"

definition serves :: "env \<Rightarrow> int \<Rightarrow> bool" where
  "serves E i = (\<forall>h.
     (\<forall>opts. \<exists>d. ine_CreateInstanceDisk (ine E) h i opts = Inr d) \<and>
     (\<exists>c cs. ine_ListInstanceConfigs (ine E) h i = Inr (c # cs)) \<and>
     (\<forall>c opts. ine_UpdateInstanceConfig (ine E) h i c opts = None) \<and>
     ine_BootInstance (ine E) h i = None \<and>
     (\<exists>a. ine_GetInstanceIPAddresses (ine E) h i = Inr a \<and> hasAddresses a) \<and>
     (\<exists>inst. ine_GetInstance (ine E) h i = Inr inst \<and> inst_Status inst = InstanceRunning) \<and>
     (\<forall>ob. k_Patch (k8s E) h ob = None))"

lemma servesD:
  assumes "serves E i"
  shows "\<exists>d. ine_CreateInstanceDisk (ine E) h i opts = Inr d"
    and "\<exists>c cs. ine_ListInstanceConfigs (ine E) h i = Inr (c # cs)"
    and "ine_UpdateInstanceConfig (ine E) h i c upd = None"
    and "ine_BootInstance (ine E) h i = None"
    and "\<exists>a. ine_GetInstanceIPAddresses (ine E) h i = Inr a \<and> hasAddresses a"
    and "\<exists>inst. ine_GetInstance (ine E) h i = Inr inst \<and> inst_Status inst = InstanceRunning"
    and "k_Patch (k8s E) h ob = None"
  using assms by (simp_all add: serves_def)

text \<open>The machine has the provider ID \<open>p\<close> and bootstrap data, is not deleted, and uses the token of the manager and no VLAN.\<close>

definition live :: "string option \<Rightarrow> MachineScope world \<Rightarrow> bool" where
  "live p w = (pidOf w = p \<and> om_DeletionTimestamp (lm_Meta (lmOf w)) = None \<and> lms_CredentialsRef (lm_Spec (lmOf w)) = None
     \<and> lcs_CredentialsRef (lc_Spec (ms_LinodeCluster (obj w))) = None \<and> \<not> net_UseVlan (lcs_Network (lc_Spec (ms_LinodeCluster (obj w))))
     \<and> mc_DataSecretName (ms_Machine (obj w)) \<noteq> None)"

text \<open>\<open>steady\<close>: a live machine stays live, and a ready one stays ready.\<close>

definition steady :: "string option \<Rightarrow> MachineScope world \<Rightarrow> MachineScope world \<Rightarrow> bool" where
  "steady p s t = ((live p s \<longrightarrow> live p t) \<and> (lms_Ready (lm_Status (lmOf s)) \<longrightarrow> lms_Ready (lm_Status (lmOf t))))"

interpretation steady: preorder_rel "steady p"
  by unfold_locales (auto simp: steady_def)

lemma steady_perform: "keeps (steady p) (perform c f)"
  by (simp add: keeps_def wp_perform steady_def live_def)

lemma steady_modObj: "(\<And>w. steady p w (obj_update f w)) \<Longrightarrow> keeps (steady p) (modObj f)"
  by (simp add: keeps_def wp_update)

lemma steady_tame: "keeps tame m \<Longrightarrow> keeps (steady p) m"
  by (erule keeps_mono) (auto simp: tame_def steady_def live_def lmCore_def)

lemma steady_lmSetCondition: "keeps (steady p) (lmSetCondition E c)"
  by (rule keepsI) (simp add: wp_lmSetCondition steady_def live_def LinodeMachine_SetCondition_def)

lemmas steady_rules = steady.keeps_all steady_perform steady_modObj steady_lmSetCondition keeps_case

lemma steady_steps:
  "keeps (steady p) (stepDone E c r)"
  "keeps (steady p) again \<Longrightarrow> keeps (steady p) (stepFailed E T b c err again)"
  unfolding stepDone_def stepFailed_def by (intro steady_rules steady_tame [OF tame_runtime(2)]; simp)+

lemma steady_configureDataDisks: "keeps (steady p) (configureDataDisks E i devs)"
proof (induction devs)
  case (Cons d devs)
  obtain name sel upd where d: "d = (name, sel, upd)" by (cases d)
  show ?case unfolding d configureDataDisks.simps configureDisk_def
    by (intro steady_rules Cons.IH; simp add: steady_def live_def)
qed (auto intro: steady_rules)

lemma steady_instanceSteps:
  "keeps (steady p) (reconcilePreflightConfigure E T i)"
  "keeps (steady p) (reconcilePreflightBoot E T i)"
  "keeps (steady p) (reconcilePreflightReady E T i)"
  unfolding reconcilePreflightConfigure_def configureDisks_def createDisks_def updateInstanceConfigProfile_def
    reconcilePreflightBoot_def reconcilePreflightReady_def
  by (intro steady_rules steady_steps steady_configureDataDisks steady_tame [OF tame_runtime(4)] steady_tame [OF tame_runtime(5)]
      steady_tame [OF tame_instance(1)] steady_tame [OF tame_instance(2)]; simp add: steady_def live_def)+

lemma steady_updateTail: "keeps (steady p) (updateTail E i inst)"
  unfolding updateTail_def reconcileFirewallID_def
  by (intro steady_rules steady_tame [OF tame_runtime(4)] steady_tame [OF tame_runtime(5)]
      steady_tame [OF tame_configParts(1)] steady_tame [OF tame_instance(3)] steady_tame [OF tame_instance(4)] steady_tame [OF tame_bootstrap(2)])

lemma steady_m_deferred: "keeps (steady p) (m_deferred E body)"
  unfolding m_deferred_def by (intro steady_rules steady_tame [OF tame_machineScope(3)]; simp add: steady_def live_def)


section \<open>The steps succeed\<close>

lemma done_configureDataDisks:
  assumes "serves E i"
  shows "wp (configureDataDisks E i devs) (\<lambda>e t. e = None) s"
proof (induction devs arbitrary: s)
  case (Cons d devs)
  obtain name sel upd where d: "d = (name, sel, upd)" by (cases d)
  obtain disk where "\<And>h opts. ine_CreateInstanceDisk (ine E) h i opts = Inr (disk h opts)" using servesD(1) [OF assms] by metis
  then show ?case
    unfolding d configureDataDisks.simps configureDisk_def by (simp add: wp_rules Let_def Cons.IH split: option.split)
qed (simp add: wp_return)

lemma done_configureDisks:
  assumes "serves E i"
  shows "wp (configureDisks E i) (\<lambda>e t. e = None) s"
proof -
  obtain c cs where configs: "\<And>h. ine_ListInstanceConfigs (ine E) h i = Inr (c h # cs h)" using servesD(2) [OF assms] by metis
  have profile: "wp (updateInstanceConfigProfile E i) (\<lambda>e t. e = None) u" for u
    unfolding updateInstanceConfigProfile_def by (simp add: configs servesD(3) [OF assms] wp_rules Let_def)
  have "wp (createDisks E i) (\<lambda>e t. e = None) u" for u
    unfolding createDisks_def
    by (rule wp_getsI, rule wp_ifI)
      (auto simp: wp_return wp_bind wp_lmSetCondition intro!: wp_mono [OF done_configureDataDisks [OF assms]] wp_mono [OF profile])
  then show ?thesis unfolding configureDisks_def by (auto simp: wp_rules)
qed

lemma done_instanceSteps:
  assumes "serves E i"
  shows "wp (reconcilePreflightConfigure E T i) (\<lambda>out t. out = (noResult, None)) s"
    and "wp (reconcilePreflightBoot E T i) (\<lambda>out t. out = (noResult, None)) s"
    and "live p s \<Longrightarrow> wp (reconcilePreflightReady E T i) (\<lambda>out t. out = (noResult, None)) s"
proof -
  obtain c cs where configs: "\<And>h. ine_ListInstanceConfigs (ine E) h i = Inr (c h # cs h)" using servesD(2) [OF assms] by metis
  show "wp (reconcilePreflightConfigure E T i) (\<lambda>out t. out = (noResult, None)) s"
    unfolding reconcilePreflightConfigure_def wp_bind
    by (rule wp_mono [OF done_configureDisks [OF assms]])
      (simp add: configs servesD(3) [OF assms] getDefaultInstanceConfig_def stepDone_def wp_rules Let_def)
  show "wp (reconcilePreflightBoot E T i) (\<lambda>out t. out = (noResult, None)) s"
    unfolding reconcilePreflightBoot_def using servesD(4) [OF assms] by (simp add: stepDone_def wp_rules)
  obtain a where a: "ine_GetInstanceIPAddresses (ine E) (tr s) i = Inr a" "hasAddresses a" using servesD(5) [OF assms] by blast
  then obtain pub pubs ip6 slaac where "ip_Public a = pub # pubs" "ip_IPv6 a = Some ip6" "ip6_SLAAC ip6 = Some slaac"
    by (auto simp: hasAddresses_def neq_Nil_conv split: option.splits)
  with a show "live p s \<Longrightarrow> wp (reconcilePreflightReady E T i) (\<lambda>out t. out = (noResult, None)) s"
    unfolding reconcilePreflightReady_def buildInstanceAddrs_def by (simp add: live_def stepDone_def wp_rules Let_def)
qed

lemma wp_done_preflight:
  assumes "wp m (\<lambda>out t. out = (noResult, None)) s" and "keeps (steady p) m" and "live p s" and "\<And>t. live p t \<Longrightarrow> wp n Q t"
  shows "wp (preflight b m n) Q s"
  by (rule wp_preflight, rule wp_mono [OF wp_conjI [OF assms(1) keeps_wp [OF assms(2)]]])
    (use assms(3,4) in \<open>auto simp: steady_def wentOn_def\<close>)

lemma done_createAfterPreflight:
  assumes "serves E i" and "GetInstanceID p = (i, None)" and "live p s"
  shows "wp (createAfterPreflight E T) (\<lambda>out t. out = (noResult, None) \<and> live p t \<and> stateOf t = Some InstanceOffline) s"
proof -
  let ?Q = "\<lambda>out t. out = (noResult, None) \<and> live p t \<and> stateOf t = Some InstanceOffline"
  have ready: "wp (readyAndDone E T i) ?Q t" if t: "live p t" for t
    unfolding readyAndDone_def
    by (rule wp_getsI, rule wp_done_preflight [OF done_instanceSteps(3) [OF assms(1) t] steady_instanceSteps(3) t]) (simp add: wp_rules live_def)
  have boot: "wp (bootAndDone E T i) ?Q t" if t: "live p t" for t
    unfolding bootAndDone_def
    by (rule wp_getsI, rule wp_done_preflight [OF done_instanceSteps(2) [OF assms(1)] steady_instanceSteps(2) t ready])
  have "GetInstanceID (lms_ProviderID (lm_Spec (lmOf s))) = (i, None)" using assms(2,3) by (simp add: live_def)
  then show ?thesis
    unfolding createAfterPreflight_def
    by (intro wp_getsI) (simp, rule wp_done_preflight [OF done_instanceSteps(1) [OF assms(1)] steady_instanceSteps(1) assms(3) boot])
qed


section \<open>Two reconciliations\<close>

lemma done_AddFinalizer:
  assumes "serves E i" and "live p s"
  shows "wp (MachineScope_AddFinalizer E) (\<lambda>e t. e = None \<and> live p t \<and> stateOf t = stateOf s) s"
  using assms(2) servesD(7) [OF assms(1)]
  by (auto simp: MachineScope_AddFinalizer_def MachineScope_Close_def live_def wp_rules split: prod.split)

lemma liveD:
  assumes "live p w"
  shows "om_DeletionTimestamp (lm_Meta (lmOf w)) = None" "lms_CredentialsRef (lm_Spec (lmOf w)) = None"
    "lcs_CredentialsRef (lc_Spec (ms_LinodeCluster (obj w))) = None" "mc_DataSecretName (ms_Machine (obj w)) \<noteq> None"
  using assms by (simp_all add: live_def)

lemma live_condition:
  "live p (w\<lparr>tr := h, obj := ms_LinodeMachine_update (LinodeMachine_SetCondition now c) (obj w)\<rparr>) = live p w"
  by (simp add: live_def)

lemma wp_liveBody:
  assumes "serves E i" and "live p s"
    and "\<And>t. live p t \<Longrightarrow> stateOf t = stateOf s \<Longrightarrow> wp (if stateOf s \<noteq> None then do { r \<leftarrow> m_reconcileUpdate E; ret (r, UpdateError) }
        else do { r \<leftarrow> m_reconcileCreate E gz T; ret (r, CreateError) }) Q t"
  shows "wp (m_reconcileBody E gz T) Q s"
  unfolding m_reconcileBody_def
  apply (rule wp_seq [OF done_AddFinalizer [OF assms(1,2)]])
  subgoal premises t for r t
  proof -
    have "live p t" using t by simp
    then show ?thesis
      using t assms(3) by (simp add: liveD [OF \<open>live p t\<close>] wp_bind wp_get wp_return wp_lmSetCondition live_condition)
  qed
  done

lemma done_m_reconcileCreate:
  assumes "serves E i" and "GetInstanceID p = (i, None)" and "live p s"
  shows "wp (m_reconcileCreate E gz T) (\<lambda>out t. out = (noResult, None) \<and> live p t \<and> stateOf t = Some InstanceOffline) s"
proof -
  have "p \<noteq> None" using assms(2) by (cases p) (simp_all add: GetInstanceID_def)
  then have "\<not> todoStep c (lmOf s)" for c using assms(3) by (simp add: todoStep_def live_def)
  moreover have "lms_CredentialsRef (lm_Spec (lmOf s)) = None" using assms(3) by (simp add: live_def)
  ultimately show ?thesis
    unfolding m_reconcileCreate_def MachineScope_AddCredentialsRefFinalizer_def
    using done_createAfterPreflight [OF assms] by (simp add: wp_bind wp_get wp_return preflight_def)
qed

lemma ready_m_reconcileUpdate:
  assumes "serves E i" and "GetInstanceID p = (i, None)" and "live p s"
  shows "wp (m_reconcileUpdate E) (\<lambda>_ t. live p t \<and> lms_Ready (lm_Status (lmOf t))) s"
proof -
  obtain inst where inst: "ine_GetInstance (ine E) (tr s) i = Inr inst" "inst_Status inst = InstanceRunning" using servesD(6) [OF assms(1)] by blast
  have tail: "wp (updateTail E i inst) (\<lambda>_ t. live p t \<and> lms_Ready (lm_Status (lmOf t))) t"
    if "live p t" "lms_Ready (lm_Status (lmOf t))" for t
    by (rule wp_mono [OF keeps_wp [OF steady_updateTail]]) (use that in \<open>auto simp: steady_def\<close>)
  have "pidOf s = p" using assms(3) by (simp add: live_def)
  with assms(2) inst show ?thesis
    unfolding m_reconcileUpdate_def
    by (simp add: wp_bind wp_get wp_return wp_perform wp_update wp_lmSetCondition requeueInstanceStatuses_def)
      (rule tail; use assms(3) in \<open>simp add: live_def LinodeMachine_SetCondition_def\<close>)
qed

lemma done_first:
  assumes "serves E i" and "GetInstanceID p = (i, None)" and "live p s" and "stateOf s = None"
  shows "wp (m_reconcile E gz T) (\<lambda>_ t. live p t \<and> stateOf t = Some InstanceOffline) s"
  unfolding m_reconcile_def wp_bind
proof (rule wp_liveBody [OF assms(1,3)])
  fix t assume t: "live p t" "stateOf t = stateOf s"
  show "wp (if stateOf s \<noteq> None then do { r \<leftarrow> m_reconcileUpdate E; ret (r, UpdateError) } else do { r \<leftarrow> m_reconcileCreate E gz T; ret (r, CreateError) })
     (\<lambda>body. wp (m_deferred E body) (\<lambda>_ t. live p t \<and> stateOf t = Some InstanceOffline)) t"
    using assms(4)
    by (simp add: wp_bind wp_return)
      (rule wp_mono [OF done_m_reconcileCreate [OF assms(1,2) t(1)]], auto simp: m_deferred_def MachineScope_Close_def wp_rules live_def)
qed

lemma ready_second:
  assumes "serves E i" and "GetInstanceID p = (i, None)" and "live p s" and "stateOf s \<noteq> None"
  shows "wp (m_reconcile E gz T) (\<lambda>_ t. live p t \<and> lms_Ready (lm_Status (lmOf t))) s"
  unfolding m_reconcile_def wp_bind
proof (rule wp_liveBody [OF assms(1,3)])
  fix t assume t: "live p t"
  have last: "wp (m_deferred E body) (\<lambda>_ t. live p t \<and> lms_Ready (lm_Status (lmOf t))) u"
    if "live p u \<and> lms_Ready (lm_Status (lmOf u))" for body u
    by (rule wp_mono [OF keeps_wp [OF steady_m_deferred]]) (use that in \<open>auto simp: steady_def\<close>)
  show "wp (if stateOf s \<noteq> None then do { r \<leftarrow> m_reconcileUpdate E; ret (r, UpdateError) } else do { r \<leftarrow> m_reconcileCreate E gz T; ret (r, CreateError) })
     (\<lambda>body. wp (m_deferred E body) (\<lambda>_ t. live p t \<and> lms_Ready (lm_Status (lmOf t)))) t"
    using assms(4) by (simp add: wp_bind wp_return del: split_paired_All) (rule wp_mono [OF ready_m_reconcileUpdate [OF assms(1,2) t]], rule last)
qed


section \<open>Properties\<close>

text \<open>
C4: A machine that has a provider ID and no recorded instance state becomes ready: two reconciliations are enough, whatever preflight
steps an earlier one had left undone, and the provider ID is the same. This is for a machine that is not deleted, has its
bootstrap data, uses the token of the manager (neither it nor its cluster has a \<open>credentialsRef\<close>) and whose cluster uses no VLAN,
while the Linode API serves the instance (it has a configuration profile and addresses, takes every request on it and
reports it running) and the API server stores every patch.
\<close>

theorem machine_becomes_ready:
  assumes "serves E i" and "GetInstanceID p = (i, None)" and "live p s" and "stateOf s = None"
  shows "wp (do { _ \<leftarrow> m_reconcile E gz T; m_reconcile E gz' T' }) (\<lambda>_ t. lms_Ready (lm_Status (lmOf t)) \<and> pidOf t = p) s"
  by (rule wp_seq [OF done_first [OF assms]], rule wp_mono [OF ready_second [OF assms(1,2)]]) (simp_all add: live_def)

definition envServing :: env where
  "envServing = env0\<lparr>ine := ine0\<lparr>
     ine_ListInstanceConfigs := \<lambda>_ _. Inr [cfg1],
     ine_GetInstanceIPAddresses := \<lambda>_ _. Inr \<lparr>ip_Public = [''192.0.2.7''], ip_VPC = [], ip_Private = [], ip_IPv6 = Some \<lparr>ip6_VPC = [], ip6_SLAAC = Some ''2001:db8::7''\<rparr>\<rparr>,
     ine_GetInstance := \<lambda>_ i. Inr \<lparr>inst_ID = i, inst_Status = ''running'', inst_Tags = [], inst_Updated = 0\<rparr>\<rparr>\<rparr>"

theorem machine_becomes_ready_witness:
  "wp (do { _ \<leftarrow> m_reconcile envServing True 0; m_reconcile envServing True 0 }) (\<lambda>_ t. lms_Ready (lm_Status (lmOf t)) \<and> pidOf t = Some ''linode://12'') (start scope1)"
proof (rule machine_becomes_ready [where i = 12])
  show "serves envServing 12" by (simp add: serves_def hasAddresses_def envServing_def env0_defs)
  show "GetInstanceID (Some ''linode://12'') = (12, None)" by code_simp
  show "live (Some ''linode://12'') (start scope1)" "stateOf (start scope1) = None"
    by (simp_all add: live_def scope1_def lm1_def lmSpec1_def lc1_def net1_def mc1_def meta0_def)
qed

end
