(* ===== verification/Fleet.thy ===== *)
theory Fleet
  imports MachineProps
begin

text \<open>
  Several machines that share a token, the one of the manager or one that their credentials or those of their
  clusters refer to: their reconciliations, one after another and in any order, share the counter of POST
  requests, the table of VLAN addresses and the history.
\<close>

primrec fleetRun :: "env \<Rightarrow> (MachineScope \<times> bool \<times> duration) list \<Rightarrow> (unit, unit) op" where
  "fleetRun E [] = ret ()"
| "fleetRun E (x # xs) = do { _ \<leftarrow> withScope (fst x) (m_reconcile E (fst (snd x)) (snd (snd x))); fleetRun E xs }"

text \<open>
  The secret that a machine takes its token from: its own credentials first, then those of its cluster. The machine
  uses the token with the hash \<open>k\<close> when every answer with the secret has such a token and, without credentials, when the
  scope was made with it.
\<close>

definition credentialsKey :: "MachineScope \<Rightarrow> NamespacedName option" where
  "credentialsKey sc =
     (let key = (\<lambda>ns ref. \<lparr>nn_Namespace = (if sr_Namespace ref = [] then ns else sr_Namespace ref), nn_Name = sr_Name ref\<rparr>) in
      case lms_CredentialsRef (lm_Spec (ms_LinodeMachine sc)) of
        Some ref \<Rightarrow> Some (key (om_Namespace (lm_Meta (ms_LinodeMachine sc))) ref)
      | None \<Rightarrow> map_option (key (om_Namespace (lc_Meta (ms_LinodeCluster sc)))) (lcs_CredentialsRef (lc_Spec (ms_LinodeCluster sc))))"

definition usesToken :: "env \<Rightarrow> string \<Rightarrow> MachineScope \<Rightarrow> bool" where
  "usesToken E k sc = (case credentialsKey sc of
     None \<Rightarrow> ms_TokenHash sc = k
   | Some key \<Rightarrow> \<forall>h secret token. k_GetSecret (k8s E) h key = Inr secret \<longrightarrow> sec_Data secret ''apiToken'' = Some token \<longrightarrow> lib_SHA256Hex (lib E) token = k)"

definition ownToken :: "string \<Rightarrow> MachineScope \<Rightarrow> bool" where
  "ownToken k sc = (ms_TokenHash sc = k)"

section \<open>The limit over one reconciliation\<close>

text \<open>\<open>onToken k\<close>: a scope with the token \<open>k\<close> keeps it, and while no POST request is left for it no instance is created.\<close>

definition spent :: "env \<Rightarrow> string \<Rightarrow> 'o world \<Rightarrow> bool" where
  "spent E k w = (case postRequestCounters w k of None \<Rightarrow> False | Some ctr \<Rightarrow> prc_ReqRemaining ctr = 0 \<and> (\<forall>h. rt_Now (rt E) h < prc_RefreshTime ctr))"

definition onToken :: "env \<Rightarrow> string \<Rightarrow> MachineScope world \<Rightarrow> MachineScope world \<Rightarrow> bool" where
  "onToken E k s t = (ownToken k (obj s) \<longrightarrow> ownToken k (obj t) \<and> (spent E k s \<longrightarrow> spent E k t \<and> adds noCreate s t))"

interpretation onToken: preorder_rel "onToken E k"
proof unfold_locales
  show "onToken E k s s" for s by (simp add: onToken_def adds.refl)
  show "onToken E k s t \<Longrightarrow> onToken E k t u \<Longrightarrow> onToken E k s u" for s t u by (auto simp: onToken_def intro: adds.trans)
qed

lemma onToken_perform: "noCreate c \<Longrightarrow> keeps (onToken E k) (perform c f)"
  by (simp add: keeps_def wp_perform onToken_def spent_def adds_def)

lemma onToken_modObj: "(\<And>x. ownToken k x \<Longrightarrow> ownToken k (f x)) \<Longrightarrow> keeps (onToken E k) (modObj f)"
  by (simp add: keeps_def wp_update onToken_def spent_def adds_def)

lemma onToken_tame: "keeps tame m \<Longrightarrow> keeps (onToken E k) m"
  by (erule keeps_mono) (auto simp: tame_def onToken_def ownToken_def spent_def lmCore_def adds_def quiet_def)

lemma onToken_lmSetCondition: "keeps (onToken E k) (lmSetCondition E' c)"
  unfolding lmSetCondition_def by (intro onToken.keeps_all onToken_perform onToken_modObj; simp add: ownToken_def)

lemmas onToken_rules = onToken.keeps_all onToken_perform onToken_modObj onToken_lmSetCondition keeps_case
lemmas onToken_quiet = tame_runtime(1-5) [THEN onToken_tame] tame_machineScope [THEN onToken_tame] tame_instance [THEN onToken_tame]
  tame_configParts(1) [THEN onToken_tame] tame_bootstrap(2) [THEN onToken_tame] tame_newCreateConfig [THEN onToken_tame]

text \<open>A handler that begins by reading the scope may use that the machine is on the token.\<close>

lemma onToken_gets:
  assumes "\<And>s. ownToken k (obj s) \<Longrightarrow> keeps (onToken E k) (f (g s))"
  shows "keeps (onToken E k) (State_Monad.bind (gets g) f)"
proof (rule keeps_gets)
  fix s show "wp (f (g s)) (\<lambda>_ t. onToken E k s t) s"
  proof (cases "ownToken k (obj s)")
    case True
    from assms [OF this] show ?thesis by (rule keeps_wp)
  next
    case False
    then show ?thesis by (intro wpI) (simp add: onToken_def)
  qed
qed

lemma onToken_steps:
  "keeps (onToken E k) (stepDone E' c r)"
  "keeps (onToken E k) again \<Longrightarrow> keeps (onToken E k) (stepFailed E' T b c err again)"
  "keeps (onToken E k) m \<Longrightarrow> keeps (onToken E k) n \<Longrightarrow> keeps (onToken E k) (preflight d m n)"
  unfolding stepDone_def stepFailed_def preflight_def by (intro onToken_rules onToken_quiet; simp)+

lemma onToken_configureDataDisks: "keeps (onToken E k) (configureDataDisks E' i devs)"
proof (induction devs)
  case (Cons d devs)
  obtain name sel upd where d: "d = (name, sel, upd)" by (cases d)
  show ?case unfolding d configureDataDisks.simps configureDisk_def
    by (intro onToken_rules Cons.IH; simp add: ownToken_def)
qed (auto intro: onToken_rules)

lemma onToken_instanceSteps:
  "keeps (onToken E k) (reconcilePreflightConfigure E' T i)"
  "keeps (onToken E k) (reconcilePreflightBoot E' T i)"
  "keeps (onToken E k) (reconcilePreflightReady E' T i)"
  unfolding reconcilePreflightConfigure_def configureDisks_def createDisks_def updateInstanceConfigProfile_def
    reconcilePreflightBoot_def reconcilePreflightReady_def
  by (intro onToken_rules onToken_quiet onToken_steps onToken_configureDataDisks; simp add: ownToken_def)+

lemma onToken_preflights:
  "keeps (onToken E k) (preflightFirewall E' T)"
  "keeps (onToken E k) (reconcilePreflightVPC E' T ref)"
  "keeps (onToken E k) (reconcilePreflightMetadataSupportConfigure E')"
  unfolding preflightFirewall_def reconcilePreflightLinodeFirewallCheck_def checkFirewallID_def reconcilePreflightVPC_def validateVPC_def
    reconcilePreflightMetadataSupportConfigure_def
  by (intro onToken_rules onToken_quiet onToken_steps; simp add: Let_def; intro onToken_rules; simp)+

lemma wp_createInstance_obj: "wp (createInstance E opts) (\<lambda>_ t. obj t = obj s) s"
  by (auto simp: createInstance_def GetPostReqCounter_def retryAfterNow_def theCounter_def wp_rules Let_def
      split: sum.split option.split list.split prod.split)

lemma onToken_createInstance: "keeps (onToken E k) (createInstance E opts)"
proof (rule keepsI)
  fix s :: "MachineScope world"
  show "wp (createInstance E opts) (\<lambda>_ t. onToken E k s t) s"
  proof (cases "ownToken k (obj s) \<and> spent E k s")
    case True
    then have "exhausted E s" by (simp add: exhausted_def spent_def ownToken_def)
    from wp_createInstance_exhausted [OF this] show ?thesis
      by (rule wp_mono) (use True in \<open>auto simp: onToken_def spent_def adds_def isRuntime_def createsInstance_def split: call.splits\<close>)
  next
    case False
    then show ?thesis by (intro wp_mono [OF wp_createInstance_obj]) (auto simp: onToken_def)
  qed
qed

lemma onToken_m_reconcileCreate: "keeps (onToken E k) (m_reconcileCreate E gz T)"
proof -
  have create: "keeps (onToken E k) (reconcilePreflightCreate E gz T)"
    unfolding reconcilePreflightCreate_def
    by (intro onToken_rules onToken_createInstance onToken_quiet onToken_steps; simp add: ownToken_def)
  show ?thesis
    unfolding m_reconcileCreate_def createAfterPreflight_def bootAndDone_def readyAndDone_def
    by (intro onToken_rules onToken_quiet onToken_steps onToken_preflights onToken_instanceSteps create; simp add: ownToken_def)
qed

text \<open>Setting the token of the credentials: after a success the scope has the token that the machine uses.\<close>

definition prepared :: "env \<Rightarrow> string \<Rightarrow> MachineScope world \<Rightarrow> MachineScope world \<Rightarrow> bool" where
  "prepared E k s t = (spent E k s \<longrightarrow> spent E k t \<and> adds noCreate s t)"

interpretation prepared: preorder_rel "prepared E k"
proof unfold_locales
  show "prepared E k s s" for s by (simp add: prepared_def adds.refl)
  show "prepared E k s t \<Longrightarrow> prepared E k t u \<Longrightarrow> prepared E k s u" for s t u by (auto simp: prepared_def intro: adds.trans)
qed

lemma prepared_inStep: "inStep s t \<Longrightarrow> prepared E k s t"
  by (simp add: inStep_def prepared_def spent_def)

lemma wp_token_set:
  assumes "usesToken E k (obj s)"
    and "lms_CredentialsRef (lm_Spec (ms_LinodeMachine (obj s))) \<noteq> None \<or> lcs_CredentialsRef (lc_Spec (ms_LinodeCluster (obj s))) \<noteq> None"
  shows "wp (MachineScope_SetCredentialRefToken E) (\<lambda>r t. prepared E k s t \<and> (r = None \<longrightarrow> ownToken k (obj t))) s"
  using assms
  by (auto simp: MachineScope_SetCredentialRefToken_def setTokenFromRef_def getCredentialDataFromRef_def getCredentials_def usesToken_def credentialsKey_def
      GetHash_def ownToken_def prepared_def spent_def adds_def createsInstance_def wp_rules Let_def split: option.splits sum.split)

lemma onToken_afterToken: "keeps (onToken E k) (do {
     lm \<leftarrow> theLM;
     if om_DeletionTimestamp (lm_Meta lm) \<noteq> None
     then do { r \<leftarrow> m_reconcileDelete E T; ret (r, DeleteError) }
     else if \<not> lmCondTrue ConditionPreflightBootstrapDataSecretReady lm \<and> mc_DataSecretName mc = None then do {
       _ \<leftarrow> lmSetCondition E (mkCond ConditionPreflightBootstrapDataSecretReady statusFalse WaitingForBootstrapDataReason []);
       ret ((noResult, None), UnknownError)
     }
     else do {
       _ \<leftarrow> lmSetCondition E (mkCond ConditionPreflightBootstrapDataSecretReady statusTrue ''BootstrapDataSecretReady'' []);
       if lms_InstanceState (lm_Status lm) \<noteq> None
       then do { r \<leftarrow> m_reconcileUpdate E; ret (r, UpdateError) }
       else do { r \<leftarrow> m_reconcileCreate E gz T; ret (r, CreateError) }
     }})"
proof -
  have update: "keeps (onToken E k) (m_reconcileUpdate E)"
    unfolding m_reconcileUpdate_def updateTail_def reconcileFirewallID_def
    by (intro onToken_rules onToken_quiet; simp add: ownToken_def createsInstance_def)
  have del: "keeps (onToken E k) (m_reconcileDelete E T)"
    unfolding m_reconcileDelete_def machineReleaseFinalizers_def by (intro onToken_rules onToken_quiet; simp add: ownToken_def createsInstance_def)
  show ?thesis by (intro onToken_rules update del onToken_m_reconcileCreate; simp add: ownToken_def)
qed

lemma wp_afterToken:
  assumes "keeps (onToken E k) m" and "prepared E k s t" and "ownToken k (obj t)"
  shows "wp m (\<lambda>_ u. prepared E k s u) t"
  by (rule wp_mono [OF keeps_wp [OF assms(1)]]) (use assms(2,3) in \<open>auto simp: onToken_def prepared_def intro: adds.trans\<close>)

lemma usesToken_finalizers [simp]:
  "usesToken E k (ms_LinodeMachine_update (lm_Meta_update (om_Finalizers_update f)) sc) = usesToken E k sc"
  by (simp add: usesToken_def credentialsKey_def cong: option.case_cong)

lemma wp_prepared_body:
  assumes "usesToken E k (obj s)"
  shows "wp (m_reconcileBody E gz T) (\<lambda>_ t. prepared E k s t) s"
proof -
  have first: "wp (MachineScope_AddFinalizer E) (\<lambda>_ t. prepared E k s t \<and> usesToken E k (obj t)) s"
    using assms by (auto simp: MachineScope_AddFinalizer_def MachineScope_Close_def prepared_def spent_def
        adds_def createsInstance_def wp_rules split: prod.split)
  show ?thesis
    unfolding m_reconcileBody_def
  proof (rule wp_seq [OF first], rule wp_ifI, simp add: wp_return, rule wp_getsI)
    fix e t assume t: "prepared E k s t \<and> usesToken E k (obj t)"
    let ?refs = "lms_CredentialsRef (lm_Spec (ms_LinodeMachine (obj t))) \<noteq> None \<or> lcs_CredentialsRef (lc_Spec (ms_LinodeCluster (obj t))) \<noteq> None"
    have "wp (if ?refs then MachineScope_SetCredentialRefToken E else ret None) (\<lambda>r u. prepared E k t u \<and> (r = None \<longrightarrow> ownToken k (obj u))) t"
      using wp_token_set [of E k t] t
      by (auto simp: wp_return prepared.refl ownToken_def usesToken_def credentialsKey_def)
    note token = wp_seq [OF this]
    show "wp (do {
       e2 \<leftarrow> (if ?refs then MachineScope_SetCredentialRefToken E else ret None);
       if e2 \<noteq> None then ret ((noResult, e2), UnknownError)
       else do {
       lm \<leftarrow> theLM;
       if om_DeletionTimestamp (lm_Meta lm) \<noteq> None
       then do { r \<leftarrow> m_reconcileDelete E T; ret (r, DeleteError) }
       else if \<not> lmCondTrue ConditionPreflightBootstrapDataSecretReady lm \<and> mc_DataSecretName (ms_Machine (obj t)) = None then do {
         _ \<leftarrow> lmSetCondition E (mkCond ConditionPreflightBootstrapDataSecretReady statusFalse WaitingForBootstrapDataReason []);
         ret ((noResult, None), UnknownError)
       }
       else do {
         _ \<leftarrow> lmSetCondition E (mkCond ConditionPreflightBootstrapDataSecretReady statusTrue ''BootstrapDataSecretReady'' []);
         if lms_InstanceState (lm_Status lm) \<noteq> None
         then do { r \<leftarrow> m_reconcileUpdate E; ret (r, UpdateError) }
         else do { r \<leftarrow> m_reconcileCreate E gz T; ret (r, CreateError) }
       }}}) (\<lambda>_ u. prepared E k s u) t"
    proof (rule token, rule wp_ifI)
      fix e2 u assume u: "prepared E k t u \<and> (e2 = None \<longrightarrow> ownToken k (obj u))"
      then have su: "prepared E k s u" using t prepared.trans by blast
      then show "e2 \<noteq> None \<Longrightarrow> wp (ret ((noResult, e2), UnknownError)) (\<lambda>_ u. prepared E k s u) u" by (simp add: wp_return)
      show "\<not> e2 \<noteq> None \<Longrightarrow> wp (do {
       lm \<leftarrow> theLM;
       if om_DeletionTimestamp (lm_Meta lm) \<noteq> None
       then do { r \<leftarrow> m_reconcileDelete E T; ret (r, DeleteError) }
       else if \<not> lmCondTrue ConditionPreflightBootstrapDataSecretReady lm \<and> mc_DataSecretName (ms_Machine (obj t)) = None then do {
         _ \<leftarrow> lmSetCondition E (mkCond ConditionPreflightBootstrapDataSecretReady statusFalse WaitingForBootstrapDataReason []);
         ret ((noResult, None), UnknownError)
       }
       else do {
         _ \<leftarrow> lmSetCondition E (mkCond ConditionPreflightBootstrapDataSecretReady statusTrue ''BootstrapDataSecretReady'' []);
         if lms_InstanceState (lm_Status lm) \<noteq> None
         then do { r \<leftarrow> m_reconcileUpdate E; ret (r, UpdateError) }
         else do { r \<leftarrow> m_reconcileCreate E gz T; ret (r, CreateError) }
       }}) (\<lambda>_ u. prepared E k s u) u"
        using u by (intro wp_afterToken [OF onToken_afterToken su]) simp
    qed
  qed
qed


section \<open>The limit over the fleet\<close>

lemma wp_fleet_member:
  assumes "usesToken E k sc" and "spent E k w"
  shows "wp (withScope sc (m_reconcile E gz T)) (\<lambda>_ t. spent E k t \<and> adds noCreate w t) w"
proof -
  have "keeps inStep (m_deferred E body)" for body
    unfolding m_deferred_def by (intro inStep_rules keeps_case inStep_tame [OF tame_machineScope(3)]; simp)
  then have deferred: "wp (m_deferred E body) (\<lambda>_ t. prepared E k u t) u" for body u
    by (intro wp_mono [OF keeps_wp] prepared_inStep)
  have "wp (m_reconcile E gz T) (\<lambda>_ t. prepared E k s t) s" if "usesToken E k (obj s)" for s
    unfolding m_reconcile_def by (rule wp_seq [OF wp_prepared_body [OF that]]) (rule wp_mono [OF deferred], blast intro: prepared.trans)
  note member = wp_mono [OF this]
  show ?thesis
    unfolding wp_withScope by (rule member) (use assms in \<open>simp_all add: prepared_def spent_def adds_def\<close>)
qed

text \<open>
C5: While no POST request is left for a token and the reset time has not come, no reconciliation of any machine that
uses this token sends a request that creates an instance, in any order and with any answers of the services:
the limit that one of them has met binds them all. A machine uses the token of the credentials it or its cluster
refers to and, without credentials, the token of the manager.
\<close>

theorem fleet_rate_limited:
  assumes "\<forall>x\<in>set xs. usesToken E k (fst x)" and "spent E k w"
  shows "wp (fleetRun E xs) (\<lambda>_ t. adds noCreate w t) w"
proof -
  have "wp (fleetRun E xs) (\<lambda>_ t. spent E k t \<and> adds noCreate w t) w"
    using assms
  proof (induction xs arbitrary: w)
    case (Cons x xs)
    have rest: "wp (fleetRun E xs) (\<lambda>_ t. spent E k t \<and> adds noCreate w t) u" if "spent E k u \<and> adds noCreate w u" for u
      by (rule wp_mono [OF Cons.IH]) (use Cons.prems that in \<open>auto dest: adds.trans\<close>)
    show ?case
      unfolding fleetRun.simps by (rule wp_seq [OF wp_fleet_member rest]) (use Cons.prems in simp_all)
  qed (simp add: wp_return adds.refl)
  then show ?thesis by (rule wp_mono) simp
qed

definition spentStart :: "unit world" where
  "spentStart = (start ())\<lparr>postRequestCounters := [''t'' \<mapsto> \<lparr>prc_ReqRemaining = 0, prc_RefreshTime = 1\<rparr>]\<rparr>"

text \<open>Two machines on the token of the manager, and one whose credentials hold the same token.\<close>

definition envSecret :: env where
  "envSecret = env0\<lparr>k8s := k8s0\<lparr>k_GetSecret := \<lambda>_ _. Inr \<lparr>sec_Meta = meta0, sec_Type = [], sec_Data = [''apiToken'' \<mapsto> ''t'']\<rparr>\<rparr>\<rparr>"

definition scopeWithRef :: MachineScope where
  "scopeWithRef = ms_TokenHash_update (\<lambda>_. ''manager'')
     (ms_LinodeMachine_update (lm_Spec_update (lms_CredentialsRef_update (\<lambda>_. Some \<lparr>sr_Name = ''creds'', sr_Namespace = []\<rparr>))) scope1)"

theorem fleet_rate_limited_witness:
  "wp (fleetRun envSecret [(scope1, True, 0), (scopeWithRef, True, 0), (scope2, False, 0)]) (\<lambda>_ t. adds noCreate spentStart t) spentStart"
  by (rule fleet_rate_limited [where k = "''t''"])
    (simp_all add: usesToken_def credentialsKey_def spent_def spentStart_def scopeWithRef_def scope1_def scope2_def lm1_def lmSpec1_def lc1_def envSecret_def
      env0_defs Let_def)

end
