(* ===== verification/PlacementGroup.thy ===== *)
theory PlacementGroup
  imports Reconcile
begin

text \<open>
  The placement group controller: \<open>internal/controller/linodeplacementgroup_controller_helpers.go\<close> and
  \<open>linodeplacementgroup_controller.go\<close>.
\<close>

abbreviation thePG :: "(PlacementGroupScope, LinodePlacementGroup) op" where
  "thePG \<equiv> gets (\<lambda>w. ps_LinodePlacementGroup (obj w))"

abbreviation modPG :: "(LinodePlacementGroup \<Rightarrow> LinodePlacementGroup) \<Rightarrow> (PlacementGroupScope, unit) op" where
  "modPG f \<equiv> modObj (ps_LinodePlacementGroup_update f)"

abbreviation pgOf :: "PlacementGroupScope world \<Rightarrow> LinodePlacementGroup" where
  "pgOf w \<equiv> ps_LinodePlacementGroup (obj w)"


section \<open>Creating\<close>

definition linodePlacementGroupSpecToPGCreateConfig :: "LinodePlacementGroupSpec \<Rightarrow> LPlacementGroupCreateOptions option" where
  "linodePlacementGroupSpecToPGCreateConfig pgSpec =
     Some \<lparr>lpo_Label = [], lpo_Region = pg_Region pgSpec, lpo_Type = pg_PlacementGroupType pgSpec, lpo_Policy = pg_PlacementGroupPolicy pgSpec\<rparr>"

definition reconcilePlacementGroup :: "env \<Rightarrow> (PlacementGroupScope, error option) op" where
  "reconcilePlacementGroup E = do {
     p \<leftarrow> thePG;
     case linodePlacementGroupSpecToPGCreateConfig (lpg_Spec p) of
       None \<Rightarrow> ret (Some (ErrNew ''failed to convert Placement Group spec to create PG config''))
     | Some createConfig0 \<Rightarrow> do {
         let createConfig = createConfig0\<lparr>lpo_Label := om_Name (lpg_Meta p)\<rparr>;
         case Filter_String (filterOf (pg_PGID (lpg_Spec p)) (lpo_Label createConfig) []) of
           Inl err \<Rightarrow> ret (Some err)
         | Inr flt \<Rightarrow> do {
             r \<leftarrow> perform (PG (CListPlacementGroups flt)) (\<lambda>h. pge_ListPlacementGroups (pge E) h flt);
             case r of
               Inl err \<Rightarrow> ret (Some err)
             | Inr (pg # _) \<Rightarrow> do { _ \<leftarrow> modPG (lpg_Spec_update (pg_PGID_update (\<lambda>_. Some (lpgr_ID pg)))); ret None }
             | Inr [] \<Rightarrow> do {
                 (pg, err) \<leftarrow> perform (PG (CCreatePlacementGroup createConfig)) (\<lambda>h. pge_CreatePlacementGroup (pge E) h createConfig);
                 case err of
                   Some e \<Rightarrow> ret (Some e)
                 | None \<Rightarrow> (case pg of
                     None \<Rightarrow> ret (Some (ErrNew ''missing Placement Group''))
                   | Some g \<Rightarrow> do { _ \<leftarrow> modPG (lpg_Spec_update (pg_PGID_update (\<lambda>_. Some (lpgr_ID g)))); ret None })
               }
           }
       }
   }"


section \<open>The reconciler\<close>

definition pgReadyFalse :: "env \<Rightarrow> string \<Rightarrow> string \<Rightarrow> (PlacementGroupScope, unit) op" where
  "pgReadyFalse E reason msg = do {
     now \<leftarrow> timeNow E;
     modPG (LinodePlacementGroup_SetCondition now (mkCond ReadyCondition statusFalse reason msg))
   }"

definition pgRemoveFinalizer :: "env \<Rightarrow> string \<Rightarrow> (PlacementGroupScope, unit) op" where
  "pgRemoveFinalizer E f = modPG (lpg_Meta_update (om_Finalizers_update (\<lambda>fs. lib_RemoveFinalizer (lib E) fs f)))"

definition pgRetryOr :: "env \<Rightarrow> duration \<Rightarrow> error \<Rightarrow> (PlacementGroupScope, outcome) op" where
  "pgRetryOr E timeout err = do {
     p \<leftarrow> thePG;
     again \<leftarrow> withinDeletion E (om_DeletionTimestamp (lpg_Meta p)) timeout;
     if again then do { d \<leftarrow> WithJitter E DefaultPGControllerReconcilerDelay; ret (requeue d, None) }
     else ret (noResult, Some err)
   }"

definition pg_reconcileCreate :: "env \<Rightarrow> (PlacementGroupScope, error option) op" where
  "pg_reconcileCreate E = do {
     e1 \<leftarrow> PlacementGroupScope_AddCredentialsRefFinalizer E;
     case e1 of
       Some err \<Rightarrow> do { _ \<leftarrow> pgReadyFalse E CreatePlacementGroupError (errText err); ret e1 }
     | None \<Rightarrow> do {
         e2 \<leftarrow> reconcilePlacementGroup E;
         case e2 of
           Some err \<Rightarrow> do { _ \<leftarrow> pgReadyFalse E CreatePlacementGroupError (errText err); ret e2 }
         | None \<Rightarrow> do { _ \<leftarrow> modPG (lpg_Status_update (pg_Ready_update (\<lambda>_. True))); ret None }
       }
   }"

text \<open>The text of a \<open>time.Duration\<close> in messages is left to \<open>durText\<close>.\<close>

definition pgReleaseFinalizers :: "env \<Rightarrow> duration \<Rightarrow> (PlacementGroupScope, outcome) op" where
  "pgReleaseFinalizers E timeout = do {
     _ \<leftarrow> pgReadyFalse E ''DeletionCompleted'' ''Placement Group deleted'';
     _ \<leftarrow> modPG (lpg_Spec_update (pg_PGID_update (\<lambda>_. None)));
     e \<leftarrow> PlacementGroupScope_RemoveCredentialsRefFinalizer E;
     case e of
       Some err \<Rightarrow> pgRetryOr E timeout (ErrWrap ''failed to remove credential finalizer after timeout: '' err)
     | None \<Rightarrow> do {
         _ \<leftarrow> pgRemoveFinalizer E PlacementGroupFinalizer;
         p \<leftarrow> thePG;
         _ \<leftarrow> (if lib_ContainsFinalizer (lib E) (om_Finalizers (lpg_Meta p)) ''infrastructure.cluster.x-k8s.io/v1alpha2''
              then pgRemoveFinalizer E ''infrastructure.cluster.x-k8s.io/v1alpha2'' else ret ());
         ret (noResult, None)
       }
   }"

definition pg_deleteEmpty :: "env \<Rightarrow> duration \<Rightarrow> int \<Rightarrow> (PlacementGroupScope, outcome) op" where
  "pg_deleteEmpty E timeout pgID = do {
     err \<leftarrow> perform (PG (CDeletePlacementGroup pgID)) (\<lambda>h. pge_DeletePlacementGroup (pge E) h pgID);
     case err of
       None \<Rightarrow> pgReleaseFinalizers E timeout
     | Some e \<Rightarrow>
         if IgnoreLinodeAPIError E err [StatusNotFound] = None then pgReleaseFinalizers E timeout
         else pgRetryOr E timeout (ErrWrap (''failed to delete placement group '' @ Itoa pgID @ '' after timeout: '') e)
   }"

definition pg_reconcileDelete :: "env \<Rightarrow> (duration \<Rightarrow> string) \<Rightarrow> duration \<Rightarrow> (PlacementGroupScope, outcome) op" where
  "pg_reconcileDelete E durText reconcileTimeout = do {
     p \<leftarrow> thePG;
     let timeout = DefaultTimeout reconcileTimeout DefaultPGControllerReconcileTimeout;
     let waitTimeout = DefaultTimeout reconcileTimeout DefaultPGControllerWaitForHasNodesTimeout;
     case pg_PGID (lpg_Spec p) of
       None \<Rightarrow> pgReleaseFinalizers E timeout
     | Some pgID \<Rightarrow> do {
         (pg, err) \<leftarrow> perform (PG (CGetPlacementGroup pgID)) (\<lambda>h. pge_GetPlacementGroup (pge E) h pgID);
         if err \<noteq> None \<and> IgnoreLinodeAPIError E err [StatusNotFound] \<noteq> None
         then pgRetryOr E timeout (ErrWrap (''failed to fetch placement group '' @ Itoa pgID @ '' after timeout: '') (the err))
         else case pg of
           None \<Rightarrow> pgReleaseFinalizers E timeout
         | Some g \<Rightarrow>
             if lpgr_Members g \<noteq> [] then do {
               again \<leftarrow> withinDeletion E (om_DeletionTimestamp (lpg_Meta p)) waitTimeout;
               if again then do { d \<leftarrow> WithJitter E DefaultPGControllerReconcilerDelay; ret (requeue d, None) }
               else do {
                 _ \<leftarrow> pgReadyFalse E ''NotDeleting'' (''skipped due to '' @ Itoa (int (length (lpgr_Members g)))
                        @ '' node(s) still attached after '' @ durText waitTimeout @ '' timeout'');
                 ret (noResult, Some (ErrNew ''will not delete Placement Group with node(s) attached''))
               }
             }
             else pg_deleteEmpty E timeout pgID
       }
   }"

definition pg_reconcileBody :: "env \<Rightarrow> (duration \<Rightarrow> string) \<Rightarrow> duration \<Rightarrow> (PlacementGroupScope, outcome \<times> string) op" where
  "pg_reconcileBody E durText reconcileTimeout = do {
     e0 \<leftarrow> PlacementGroupScope_SetCredentialRefToken E;
     if e0 \<noteq> None then ret ((noResult, e0), ''UnknownError'')
     else do {
     p \<leftarrow> thePG;
     if om_DeletionTimestamp (lpg_Meta p) \<noteq> None
     then do { r \<leftarrow> pg_reconcileDelete E durText reconcileTimeout; ret (r, DeletePlacementGroupError) }
     else do {
     e1 \<leftarrow> PlacementGroupScope_AddFinalizer E;
     if e1 \<noteq> None then ret ((noResult, e1), ''UnknownError'')
     else if pg_PGID (lpg_Spec p) \<noteq> None then do {
       _ \<leftarrow> modPG (lpg_Status_update (pg_Ready_update (\<lambda>_. True)));
       ret ((noResult, None), ''UnknownError'')
     }
     else do {
       e2 \<leftarrow> pg_reconcileCreate E;
       if e2 = None then ret ((noResult, None), CreatePlacementGroupError)
       else do {
         p' \<leftarrow> thePG;
         stale \<leftarrow> HasStaleCondition E (LinodePlacementGroup_GetCondition ReadyCondition p')
                    (DefaultTimeout reconcileTimeout DefaultPGControllerReconcileTimeout);
         if \<not> stale then do { d \<leftarrow> WithJitter E DefaultPGControllerReconcilerDelay; ret ((requeue d, None), CreatePlacementGroupError) }
         else ret ((noResult, e2), CreatePlacementGroupError)
       }
     }
   }}}"

definition pg_deferred :: "env \<Rightarrow> outcome \<times> string \<Rightarrow> (PlacementGroupScope, outcome) op" where
  "pg_deferred E body = (case body of ((res, err), failureReason) \<Rightarrow> do {
     _ \<leftarrow> (case err of None \<Rightarrow> ret ()
          | Some e \<Rightarrow> do {
              _ \<leftarrow> modPG (lpg_Status_update (pg_FailureReason_update (\<lambda>_. Some failureReason)));
              _ \<leftarrow> modPG (lpg_Status_update (pg_FailureMessage_update (\<lambda>_. Some (errText e))));
              pgReadyFalse E failureReason (errText e)
            });
     patchErr \<leftarrow> PlacementGroupScope_Close E;
     if patchErr \<noteq> None \<and> lib_FilterOutNotFound (lib E) (UnwrapError patchErr) \<noteq> None
     then ret (res, errors_Join [err, patchErr])
     else ret (res, err)
   })"

definition pg_reconcile :: "env \<Rightarrow> (duration \<Rightarrow> string) \<Rightarrow> duration \<Rightarrow> (PlacementGroupScope, outcome) op" where
  "pg_reconcile E durText reconcileTimeout = do {
     _ \<leftarrow> modPG (lpg_Status_update (pg_Ready_update (\<lambda>_. False)));
     _ \<leftarrow> modPG (lpg_Status_update (pg_FailureReason_update (\<lambda>_. None)));
     _ \<leftarrow> modPG (lpg_Status_update (pg_FailureMessage_update (\<lambda>_. Some [])));
     body \<leftarrow> pg_reconcileBody E durText reconcileTimeout;
     pg_deferred E body
   }"

definition pg_Reconcile :: "env \<Rightarrow> (duration \<Rightarrow> string) \<Rightarrow> duration \<Rightarrow> NamespacedName \<Rightarrow> (unit, outcome) op" where
  "pg_Reconcile E durText reconcileTimeout req = do {
     r \<leftarrow> perform (K8s (KGet KPlacementGroup req)) (\<lambda>h. k_GetPlacementGroup (k8s E) h req);
     case r of
       Inl err \<Rightarrow> ret (noResult, IgnoreNotFound E (Some err))
     | Inr p0 \<Rightarrow> do {
         q \<leftarrow> linkCluster E (lpg_Meta p0) (\<lambda>om. OPlacementGroup (p0\<lparr>lpg_Meta := om\<rparr>));
         case q of
           Inl err \<Rightarrow> ret (noResult, Some err)
         | Inr (cluster, om) \<Rightarrow> do {
             let p = p0\<lparr>lpg_Meta := om\<rparr>;
             sc \<leftarrow> NewPlacementGroupScope E (Some p) cluster;
             case sc of
               Inl err \<Rightarrow> ret (noResult, Some (ErrWrap ''failed to create Placement Group scope: '' err))
             | Inr scope \<Rightarrow> do {
                 z \<leftarrow> checkPaused E cluster om (OPlacementGroup p) (pg_Conditions (lpg_Status p));
                 case z of
                   Inl out \<Rightarrow> ret out
                 | Inr conds \<Rightarrow>
                     withScope (scope\<lparr>ps_LinodePlacementGroup := LinodePlacementGroup_SetConditions conds p\<rparr>)
                       (pg_reconcile E durText reconcileTimeout)
               }
           }
       }
   }"


section \<open>Safety of deletions\<close>

text \<open>
  The group that the newest \<open>GetPlacementGroup\<close> of the history returned, if it asked for \<open>i\<close>.
\<close>

fun seenPG :: "env \<Rightarrow> hist \<Rightarrow> int \<Rightarrow> LPlacementGroup option" where
  "seenPG E [] i = None"
| "seenPG E (c # h) i = (case c of
     PG (CGetPlacementGroup j) \<Rightarrow> (if i = j then fst (pge_GetPlacementGroup (pge E) h i) else None)
   | _ \<Rightarrow> seenPG E h i)"

fun pgSafe :: "env \<Rightarrow> hist \<Rightarrow> bool" where
  "pgSafe E [] = True"
| "pgSafe E (c # h) = (pgSafe E h \<and> (case c of
     PG (CDeletePlacementGroup i) \<Rightarrow> (case seenPG E h i of None \<Rightarrow> False | Some g \<Rightarrow> lpgr_Members g = [])
   | _ \<Rightarrow> True))"

definition deletesPG :: "call \<Rightarrow> bool" where
  "deletesPG c = (case c of PG (CDeletePlacementGroup _) \<Rightarrow> True | _ \<Rightarrow> False)"

lemma deletesPG_simps [simp]:
  "\<not> deletesPG (K8s x)" "\<not> deletesPG (Runtime r)" "\<not> deletesPG (SetToken tk)" "\<not> deletesPG NewLinodeClient"
  "\<not> deletesPG (PG (CGetPlacementGroup i))" "\<not> deletesPG (PG (CListPlacementGroups f))" "\<not> deletesPG (PG (CCreatePlacementGroup opts))"
  by (simp_all add: deletesPG_def)

lemma isK8s_not_deletesPG: "isK8s c \<Longrightarrow> \<not> deletesPG c"
  by (auto simp: isK8s_def deletesPG_def split: call.splits)

lemma pgSafe_other: "\<not> deletesPG c \<Longrightarrow> pgSafe E h \<Longrightarrow> pgSafe E (c # h)"
  by (auto simp: deletesPG_def split: call.splits pg_call.splits)

lemma hist_pgSafe: "keeps (adds (\<lambda>c. \<not> deletesPG c)) m \<Longrightarrow> keeps (histInv (pgSafe E)) m"
  by (erule hist_adds) (rule pgSafe_other)

lemma hist_pgSafe_K8s: "keeps (adds isK8s) m \<Longrightarrow> keeps (histInv (pgSafe E)) m"
  by (erule hist_adds) (rule pgSafe_other [OF isK8s_not_deletesPG])

lemma hist_pgSafe_calm: "keeps (calm isK8s) m \<Longrightarrow> keeps (histInv (pgSafe E)) m"
  by (rule hist_pgSafe_K8s) (rule calm_adds)

lemma wp_pgReadyFalse [wp_rules]:
  "wp (pgReadyFalse E rs msg) Q s =
     Q () (s\<lparr>tr := Runtime TimeNow # tr s,
       obj := ps_LinodePlacementGroup_update (LinodePlacementGroup_SetCondition (rt_Now (rt E) (tr s)) (mkCond ReadyCondition statusFalse rs msg)) (obj s)\<rparr>)"
  by (cases s) (simp add: pgReadyFalse_def wp_rules)

lemma adds_reconcilePlacementGroup: "keeps (adds (\<lambda>c. \<not> deletesPG c)) (reconcilePlacementGroup E)"
  unfolding reconcilePlacementGroup_def Let_def
  by (auto intro!: adds_rules split: option.splits sum.splits list.splits prod.splits)

lemma hist_pgRuntime [keeps_rules]:
  "keeps (histInv (pgSafe E)) (reconcilePlacementGroup E')"
  "keeps (histInv (pgSafe E)) (WithJitter E' d)"
  "keeps (histInv (pgSafe E)) (HasStaleCondition E' c d)"
  "keeps (histInv (pgSafe E)) (withinDeletion E' ts d)"
  "keeps (histInv (pgSafe E)) (pgReadyFalse E' rs msg)"
  by (rule hist_pgSafe [OF adds_reconcilePlacementGroup] hist_pgSafe [OF adds_WithJitter] hist_pgSafe [OF adds_HasStaleCondition] keepsI;
      simp add: wp_rules histInv_def)+

lemma hist_pgScope [keeps_rules]:
  "keeps (histInv (pgSafe E)) (PlacementGroupScope_AddFinalizer E')"
  "keeps (histInv (pgSafe E)) (PlacementGroupScope_AddCredentialsRefFinalizer E')"
  "keeps (histInv (pgSafe E)) (PlacementGroupScope_RemoveCredentialsRefFinalizer E')"
  "keeps (histInv (pgSafe E)) (PlacementGroupScope_SetCredentialRefToken E')"
  "keeps (histInv (pgSafe E)) (PlacementGroupScope_Close E')"
  "keeps (histInv (pgSafe E)) (linkCluster E' om mk)"
  "keeps (histInv (pgSafe E)) (checkPaused E' cl om ob cs)"
  "keeps (histInv (pgSafe E)) (newScopeClients E' ob)"
  by (rule hist_pgSafe_K8s [OF adds_scope_finalizer(3)] hist_pgSafe_calm, (rule keeps_rules)?)+

lemma hist_pgRetryOr [keeps_rules]: "keeps (histInv (pgSafe E)) (pgRetryOr E' T err)"
  unfolding pgRetryOr_def by (auto intro!: hist_rules keeps_rules)

lemma hist_pgReleaseFinalizers [keeps_rules]: "keeps (histInv (pgSafe E)) (pgReleaseFinalizers E' T)"
  unfolding pgReleaseFinalizers_def pgRemoveFinalizer_def by (auto intro!: hist_rules keeps_rules split: option.splits)

lemma hist_pg_deleteEmpty:
  assumes "pgSafe E (tr s)" and "seenPG E (tr s) i = Some g" and "lpgr_Members g = []"
  shows "wp (pg_deleteEmpty E T i) (\<lambda>_ t. pgSafe E (tr t)) s"
  using assms unfolding pg_deleteEmpty_def
  by (auto simp: wp_bind wp_perform wp_case_option wp_if split: option.splits intro!: hist_wp [of "pgSafe E"] keeps_rules)

lemma hist_pg_reconcileDelete [keeps_rules]: "keeps (histInv (pgSafe E)) (pg_reconcileDelete E dt T)"
proof (rule hist_keepsI)
  fix s :: "PlacementGroupScope world" assume "pgSafe E (tr s)"
  then show "wp (pg_reconcileDelete E dt T) (\<lambda>_ t. pgSafe E (tr t)) s"
    unfolding pg_reconcileDelete_def
    by (auto simp: wp_rules Let_def split: option.splits prod.splits
        intro!: hist_wp [of "pgSafe E" "pgRetryOr E t e" for t e] hist_wp [of "pgSafe E" "pgReleaseFinalizers E t" for t]
          keeps_rules hist_pg_deleteEmpty)
qed

lemma hist_pg_reconcile: "keeps (histInv (pgSafe E)) (pg_reconcile E dt T)"
  unfolding pg_reconcile_def pg_reconcileBody_def pg_deferred_def pg_reconcileCreate_def Let_def
  by (auto intro!: hist_rules keeps_rules split: option.splits prod.splits)

lemma hist_pg_Reconcile: "keeps (histInv (pgSafe E)) (pg_Reconcile E dt T req)"
  unfolding pg_Reconcile_def NewPlacementGroupScope_def Let_def
  by (auto intro!: hist_rules keeps_rules hist_pg_reconcile pgSafe_other split: option.splits sum.splits prod.splits)


section \<open>When the finalizers are given up\<close>

text \<open>The history shows that the placement group is gone: a request for it was answered without one, or its deletion was accepted.\<close>

fun pgGone :: "env \<Rightarrow> hist \<Rightarrow> int \<Rightarrow> bool" where
  "pgGone E [] i = False"
| "pgGone E (c # h) i = (pgGone E h i \<or> (case c of
     PG (CGetPlacementGroup j) \<Rightarrow> j = i \<and> (case pge_GetPlacementGroup (pge E) h i of (pg, err) \<Rightarrow>
        pg = None \<and> IgnoreLinodeAPIError E err [StatusNotFound] = None)
   | PG (CDeletePlacementGroup j) \<Rightarrow> j = i \<and> IgnoreLinodeAPIError E (pge_DeletePlacementGroup (pge E) h i) [StatusNotFound] = None
   | _ \<Rightarrow> False))"

lemma pgGone_append: "pgGone E h i \<Longrightarrow> pgGone E (new @ h) i"
  by (induction new) auto

lemma pgGone_adds: "adds P s t \<Longrightarrow> pgGone E (tr s) i \<Longrightarrow> pgGone E (tr t) i"
  by (auto simp: adds_def intro: pgGone_append)

abbreviation pgFinalizers :: "PlacementGroupScope world \<Rightarrow> string list" where
  "pgFinalizers w \<equiv> om_Finalizers (lpg_Meta (pgOf w))"

lemma adds_pgReleaseFinalizers: "keeps (adds (\<lambda>_. True)) (pgReleaseFinalizers E T)"
proof -
  have "keeps (adds (\<lambda>_. True)) (PlacementGroupScope_RemoveCredentialsRefFinalizer E)"
    by (rule adds_mono [OF calm_adds [OF calm_scope_creds(8)]]) simp
  then show ?thesis
    unfolding pgReleaseFinalizers_def pgRemoveFinalizer_def pgRetryOr_def pgReadyFalse_def withinDeletion_def
    by (auto intro!: adds_rules adds_WithJitter split: option.splits)
qed

text \<open>What \<open>reconcileDelete\<close> leaves of a resource with the ID \<open>i\<close>.\<close>

definition pgKept :: "env \<Rightarrow> string list \<Rightarrow> int \<Rightarrow> PlacementGroupScope world \<Rightarrow> bool" where
  "pgKept E fs i t = ((pgFinalizers t = fs \<and> pg_PGID (lpg_Spec (pgOf t)) = Some i) \<or> pgGone E (tr t) i)"

lemma wp_pgReleaseGone: "pgGone E (tr u) i \<Longrightarrow> wp (pgReleaseFinalizers E T) (\<lambda>_. pgKept E fs i) u"
  by (rule wp_mono [OF keeps_wp [OF adds_pgReleaseFinalizers]]) (auto simp: pgKept_def dest: pgGone_adds)

lemma pgKept_stable [simp]:
  "pgKept E fs i s \<Longrightarrow> pgKept E fs i (s\<lparr>tr := Runtime c # tr s\<rparr>)"
  by (auto simp: pgKept_def)

lemma pgKept_SetCondition [simp]:
  "lpg_Spec (LinodePlacementGroup_SetCondition now c p) = lpg_Spec p"
  "lpg_Meta (LinodePlacementGroup_SetCondition now c p) = lpg_Meta p"
  by (simp_all add: LinodePlacementGroup_SetCondition_def)

lemma wp_pgRetryOr: "pgKept E fs i s \<Longrightarrow> wp (pgRetryOr E' T err) (\<lambda>_. pgKept E fs i) s"
  by (auto simp: pgRetryOr_def WithJitter_def wp_rules pgKept_def)

lemma wp_pg_deleteEmpty: "pgKept E fs i s \<Longrightarrow> wp (pg_deleteEmpty E T i) (\<lambda>_. pgKept E fs i) s"
  unfolding pg_deleteEmpty_def wp_bind wp_perform
  by (auto simp: wp_case_option wp_if split: option.splits intro!: wp_pgReleaseGone wp_pgRetryOr) (auto simp: pgKept_def)


section \<open>Properties\<close>

text \<open>
C35: no reconciliation of a placement group deletes a group that has members, as far as the program can
know: every request to delete a group in the history of \<open>Reconcile\<close> follows a \<open>GetPlacementGroup\<close> for the
same group, the newest such request of the history, whose answer has no member.
\<close>

theorem pg_deletions_safe: "wp (pg_Reconcile E durText timeout req) (\<lambda>_ t. pgSafe E (tr t)) (start ())"
  by (rule hist_wp [OF hist_pg_Reconcile]) simp

text \<open>
The deletion of a placement group resource keeps its finalizers and its ID until the history shows
that the group is gone: the API returned none, or it accepted the deletion (404 included). A group
with members, a failed lookup and a failed deletion all leave the resource in place.
\<close>

theorem pg_finalizer_kept:
  assumes "pg_PGID (lpg_Spec (pgOf s)) = Some i"
  shows "wp (pg_reconcileDelete E durText timeout) (\<lambda>_. pgKept E (pgFinalizers s) i) s"
proof -
  have "pgKept E (pgFinalizers s) i s" using assms by (simp add: pgKept_def)
  moreover have "pgKept E (pgFinalizers s) i (s\<lparr>tr := PG (CGetPlacementGroup i) # tr s\<rparr>)" using assms by (simp add: pgKept_def)
  ultimately show ?thesis
    using assms unfolding pg_reconcileDelete_def
    by (auto simp: wp_bind wp_get wp_perform wp_case_option wp_if wp_return Let_def split: prod.splits option.splits
        intro!: wp_pgRetryOr wp_pgReleaseGone wp_pg_deleteEmpty)
      (auto simp: wp_rules WithJitter_def pgKept_def)
qed

definition pgScope1 :: PlacementGroupScope where
  "pgScope1 = \<lparr>ps_LinodePlacementGroup = \<lparr>lpg_Meta = meta0\<lparr>om_Finalizers := [PlacementGroupFinalizer], om_DeletionTimestamp := Some 0\<rparr>,
     lpg_Spec = \<lparr>pg_PGID = Some 4, pg_Region = ''us-sea'', pg_PlacementGroupPolicy = [], pg_PlacementGroupType = [], pg_CredentialsRef = None\<rparr>,
     lpg_Status = \<lparr>pg_Conditions = [], pg_Ready = False, pg_FailureReason = None, pg_FailureMessage = None\<rparr>\<rparr>, ps_Cluster = None\<rparr>"

theorem pg_finalizer_kept_witness:
  "wp (pg_reconcileDelete env0 (\<lambda>_. []) 0) (\<lambda>_. pgKept env0 [PlacementGroupFinalizer] 4) (start pgScope1)"
  using pg_finalizer_kept [of "start pgScope1" 4 env0] by (simp add: pgScope1_def)

end
