(* ===== verification/Firewall.thy ===== *)
theory Firewall
  imports Reconcile
begin

text \<open>
  The firewall controller: \<open>internal/controller/linodefirewall_controller_helpers.go\<close> (the translation
  of a \<open>LinodeFirewall\<close> with its rules and address sets into the rules of a Cloud Firewall) and
  \<open>linodefirewall_controller.go\<close> (the reconciler). Logging and the event recorder are left out.
\<close>

section \<open>Limits\<close>

definition maxFirewallRuleLabelLen :: nat where "maxFirewallRuleLabelLen = 32"
definition maxIPsPerFirewallRule :: nat where "maxIPsPerFirewallRule = 255"
definition maxRulesPerFirewall :: nat where "maxRulesPerFirewall = 25"

lemmas fw_limits = maxFirewallRuleLabelLen_def maxIPsPerFirewallRule_def maxRulesPerFirewall_def

definition ruleTypeInbound :: string where "ruleTypeInbound = ''inbound''"
definition ruleTypeOutbound :: string where "ruleTypeOutbound = ''outbound''"

lemma ruleType_neq [simp]: "ruleTypeInbound \<noteq> ruleTypeOutbound" "ruleTypeOutbound \<noteq> ruleTypeInbound"
  by (simp_all add: ruleTypeInbound_def ruleTypeOutbound_def)


section \<open>Requests for the firewalls that refer to an object\<close>

definition defaultNS :: "string \<Rightarrow> ObjectReference \<Rightarrow> ObjectReference" where
  "defaultNS ns r = (if obr_Namespace r = [] then r\<lparr>obr_Namespace := ns\<rparr> else r)"

definition buildRequestsHelper ::
  "NamespacedName list \<Rightarrow> LinodeFirewall \<Rightarrow> ObjectReference list \<Rightarrow> ObjectMeta \<Rightarrow> NamespacedName list" where
  "buildRequestsHelper requestSet firewall objRefs ob =
     fold (\<lambda>r0 rs. let r = defaultNS (om_Namespace (lfw_Meta firewall)) r0 in
        if obr_Name r = om_Name ob \<and> obr_Namespace r = om_Namespace ob
        then setAdd \<lparr>nn_Namespace = om_Namespace (lfw_Meta firewall), nn_Name = om_Name (lfw_Meta firewall)\<rparr> rs else rs)
      objRefs requestSet"

definition requestsOf :: "ObjectMeta \<Rightarrow> LinodeFirewall \<Rightarrow> NamespacedName list \<Rightarrow> NamespacedName list" where
  "requestsOf ob fw rs =
     (let rs1 = fold (\<lambda>rule rs. buildRequestsHelper rs fw (fr_AddressSetRefs rule) ob) (fw_InboundRules (lfw_Spec fw)) rs;
          rs2 = fold (\<lambda>rule rs. buildRequestsHelper rs fw (fr_AddressSetRefs rule) ob) (fw_OutboundRules (lfw_Spec fw)) rs1;
          rs3 = buildRequestsHelper rs2 fw (fw_InboundRuleRefs (lfw_Spec fw)) ob
      in buildRequestsHelper rs3 fw (fw_OutboundRuleRefs (lfw_Spec fw)) ob)"

definition buildRequests :: "env \<Rightarrow> LinodeFirewall list \<Rightarrow> ObjectMeta \<Rightarrow> ('o, NamespacedName list) op" where
  "buildRequests E firewalls ob = mapKeys E (fold (requestsOf ob) firewalls [])"

definition findObjectsForObject :: "env \<Rightarrow> ObjectMeta \<Rightarrow> ('o, NamespacedName list) op" where
  "findObjectsForObject E ob = do {
     r \<leftarrow> perform (K8s (KList KFirewall [] [])) (k_ListFirewalls (k8s E));
     case r of Inl err \<Rightarrow> ret [] | Inr items \<Rightarrow> buildRequests E items ob
   }"


section \<open>Addresses\<close>

text \<open>The loop of \<open>chunkIPs\<close>, with Go's slice bounds.\<close>

function chunkLoop :: "string list \<Rightarrow> nat \<Rightarrow> nat \<Rightarrow> string list list \<Rightarrow> string list list" where
  "chunkLoop ips ipCount chunkCount chunks =
     (if maxIPsPerFirewallRule < ipCount
      then let start = chunkCount * maxIPsPerFirewallRule; stop = (chunkCount + 1) * maxIPsPerFirewallRule
           in chunkLoop ips (ipCount - maxIPsPerFirewallRule) (chunkCount + 1) (chunks @ [drop start (take stop ips)])
      else chunks @ [drop (chunkCount * maxIPsPerFirewallRule) ips])"
  by pat_completeness auto
termination
  by (relation "measure (\<lambda>(_, n, _, _). n)") (auto simp: maxIPsPerFirewallRule_def)

declare chunkLoop.simps [simp del]

definition chunkIPs :: "string list \<Rightarrow> string list list" where
  "chunkIPs ips =
     (let ipCount = length ips in
      if ipCount = 0 then []
      else if ipCount \<le> maxIPsPerFirewallRule then [ips]
      else chunkLoop ips ipCount 0 [])"

definition transformToCIDR :: "string \<Rightarrow> string" where
  "transformToCIDR ip =
     (if strings_Contains ip ''/'' then ip
      else let parsed = ParseIP ip in
        if parsed \<noteq> [] then (if To4 parsed \<noteq> [] then ip @ ''/32'' else ip @ ''/128'')
        else ip)"

definition filterDuplicates :: "env \<Rightarrow> string list \<Rightarrow> string list \<Rightarrow> ('o, string list \<times> string list) op" where
  "filterDuplicates E ipv4s ipv6s = do {
     k4 \<leftarrow> mapKeys E (fold (\<lambda>ip. setAdd ip) ipv4s []);
     k6 \<leftarrow> mapKeys E (fold (\<lambda>ip. setAdd ip) ipv6s []);
     ret (k4, k6)
   }"

definition cidrSet :: "string list option \<Rightarrow> string list \<Rightarrow> string list" where
  "cidrSet ips set0 = (case ips of None \<Rightarrow> set0 | Some xs \<Rightarrow> fold (\<lambda>ip. setAdd (transformToCIDR ip)) xs set0)"

definition processAddresses :: "env \<Rightarrow> NetworkAddresses option \<Rightarrow> ('o, string list \<times> string list) op" where
  "processAddresses E addresses =
     (case addresses of None \<Rightarrow> ret ([], [])
      | Some a \<Rightarrow> do {
          k4 \<leftarrow> mapKeys E (cidrSet (na_IPv4 a) []);
          k6 \<leftarrow> mapKeys E (cidrSet (na_IPv6 a) []);
          ret (k4, k6)
        })"

text \<open>
  The references are pointers into the spec of the firewall and get its namespace when they have
  none: the updated references are returned beside the result.
\<close>

definition processAddressSetRef ::
  "env \<Rightarrow> string \<Rightarrow> ObjectReference \<Rightarrow> string list \<times> string list
   \<Rightarrow> ('o, ObjectReference \<times> (string list \<times> string list) res) op" where
  "processAddressSetRef E ns addrSetRef sets = do {
     let ref = defaultNS ns addrSetRef;
     let key = \<lparr>nn_Namespace = obr_Namespace ref, nn_Name = obr_Name ref\<rparr>;
     r \<leftarrow> perform (K8s (KGet KAddressSet key)) (\<lambda>h. k_GetAddressSet (k8s E) h key);
     ret (ref, case r of Inl err \<Rightarrow> Inl err
        | Inr addrSet \<Rightarrow> Inr (cidrSet (as_IPv4 (ads_Spec addrSet)) (fst sets), cidrSet (as_IPv6 (ads_Spec addrSet)) (snd sets)))
   }"

definition processAddressSetRefs ::
  "env \<Rightarrow> string \<Rightarrow> ObjectReference list \<Rightarrow> ('o, ObjectReference list \<times> (string list \<times> string list) res) op" where
  "processAddressSetRefs E ns addressSetRefs = do {
     (refs, r) \<leftarrow> mapAccumE (processAddressSetRef E ns) addressSetRefs ([], []);
     case r of
       Inl err \<Rightarrow> ret (refs, Inl err)
     | Inr (v4, v6) \<Rightarrow> do { k4 \<leftarrow> mapKeys E v4; k6 \<leftarrow> mapKeys E v6; ret (refs, Inr (k4, k6)) }
   }"


section \<open>Rules\<close>

definition formatRuleLabel :: "string \<Rightarrow> string \<Rightarrow> string" where
  "formatRuleLabel pfx label =
     (let ruleLabel = pfx @ ''-'' @ label in
      if maxFirewallRuleLabelLen < length ruleLabel then take maxFirewallRuleLabelLen ruleLabel else ruleLabel)"

definition noRules :: LFirewallRules where
  "noRules = \<lparr>lrs_Inbound = [], lrs_InboundPolicy = [], lrs_Outbound = [], lrs_OutboundPolicy = []\<rparr>"

definition mkRule :: "FirewallRuleSpec \<Rightarrow> string \<Rightarrow> nat \<Rightarrow> string list \<Rightarrow> string list \<Rightarrow> LFirewallRule" where
  "mkRule spec ruleLabel i v4 v6 =
     \<lparr>lr_Action = fr_Action spec, lr_Label = ruleLabel,
      lr_Description = ''Rule '' @ showNat i @ '', Created by CAPL: '' @ fr_Label spec,
      lr_Protocol = fr_Protocol spec, lr_Ports = fr_Ports spec, lr_IPv4 = v4, lr_IPv6 = v6\<rparr>"

text \<open>The two loops over the chunks, which are the same for inbound and outbound rules.\<close>

definition chunkRules :: "FirewallRuleSpec \<Rightarrow> string list \<Rightarrow> string list \<Rightarrow> LFirewallRule list" where
  "chunkRules spec ipv4s ipv6s =
     (let ruleLabel = formatRuleLabel (fr_Action spec) (fr_Label spec) in
      map (\<lambda>(i, chunk). mkRule spec ruleLabel i chunk []) (enumerate 0 (chunkIPs ipv4s))
      @ map (\<lambda>(i, chunk). mkRule spec ruleLabel i [] chunk) (enumerate 0 (chunkIPs ipv6s)))"

definition processIPRules ::
  "string list \<Rightarrow> string list \<Rightarrow> FirewallRuleSpec \<Rightarrow> LFirewallRules option \<Rightarrow> string \<Rightarrow> LFirewallRules" where
  "processIPRules ipv4s ipv6s fwRuleSpec rules0 ruleType =
     (let rules = (case rules0 of None \<Rightarrow> noRules | Some r \<Rightarrow> r) in
      if ipv4s = [] \<and> ipv6s = [] then rules
      else if ruleType = ruleTypeInbound then lrs_Inbound_update (\<lambda>rs. rs @ chunkRules fwRuleSpec ipv4s ipv6s) rules
      else if ruleType = ruleTypeOutbound then lrs_Outbound_update (\<lambda>rs. rs @ chunkRules fwRuleSpec ipv4s ipv6s) rules
      else rules)"

definition processRule ::
  "env \<Rightarrow> string \<Rightarrow> string \<Rightarrow> FirewallRuleSpec \<Rightarrow> LFirewallRules \<Rightarrow> ('o, FirewallRuleSpec \<times> LFirewallRules res) op" where
  "processRule E ns ruleType fwRuleSpec rules = do {
     (a4, a6) \<leftarrow> processAddresses E (fr_Addresses fwRuleSpec);
     (refs, r) \<leftarrow> processAddressSetRefs E ns (fr_AddressSetRefs fwRuleSpec);
     let spec' = fwRuleSpec\<lparr>fr_AddressSetRefs := refs\<rparr>;
     case r of
       Inl err \<Rightarrow> ret (spec', Inl err)
     | Inr (s4, s6) \<Rightarrow> do {
         (f4, f6) \<leftarrow> filterDuplicates E (a4 @ s4) (a6 @ s6);
         ret (spec', Inr (processIPRules f4 f6 fwRuleSpec (Some rules) ruleType))
       }
   }"

definition processFirewallRule ::
  "env \<Rightarrow> string \<Rightarrow> string \<Rightarrow> ObjectReference \<Rightarrow> LFirewallRules \<Rightarrow> ('o, ObjectReference \<times> LFirewallRules res) op" where
  "processFirewallRule E ns ruleType ruleRef rules = do {
     let ref = defaultNS ns ruleRef;
     let key = \<lparr>nn_Namespace = obr_Namespace ref, nn_Name = obr_Name ref\<rparr>;
     r \<leftarrow> perform (K8s (KGet KFirewallRule key)) (\<lambda>h. k_GetFirewallRule (k8s E) h key);
     case r of
       Inl err \<Rightarrow> ret (ref, Inl err)
     | Inr rule \<Rightarrow> do { (_, res) \<leftarrow> processRule E ns ruleType (frl_Spec rule) rules; ret (ref, res) }
   }"

definition policyOr :: "string \<Rightarrow> string" where
  "policyOr p = (if p = [] then ''ACCEPT'' else p)"

text \<open>The result is beside the spec of the firewall, whose references have their namespaces now.\<close>

definition processACL :: "env \<Rightarrow> string \<Rightarrow> LinodeFirewallSpec \<Rightarrow> ('o, LinodeFirewallSpec \<times> LFirewallRules res) op" where
  "processACL E ns spec = do {
     (ir, r1) \<leftarrow> mapAccumE (processRule E ns ruleTypeInbound) (fw_InboundRules spec) noRules;
     let spec1 = spec\<lparr>fw_InboundRules := ir\<rparr>;
     case r1 of Inl err \<Rightarrow> ret (spec1, Inl err) | Inr rules1 \<Rightarrow> do {
     (irr, r2) \<leftarrow> mapAccumE (processFirewallRule E ns ruleTypeInbound) (fw_InboundRuleRefs spec) rules1;
     let spec2 = spec1\<lparr>fw_InboundRuleRefs := irr\<rparr>;
     case r2 of Inl err \<Rightarrow> ret (spec2, Inl err) | Inr rules2 \<Rightarrow> do {
     let rules3 = rules2\<lparr>lrs_InboundPolicy := policyOr (fw_InboundPolicy spec)\<rparr>;
     (outr, r4) \<leftarrow> mapAccumE (processRule E ns ruleTypeOutbound) (fw_OutboundRules spec) rules3;
     let spec3 = spec2\<lparr>fw_OutboundRules := outr\<rparr>;
     case r4 of Inl err \<Rightarrow> ret (spec3, Inl err) | Inr rules4 \<Rightarrow> do {
     (outrr, r5) \<leftarrow> mapAccumE (processFirewallRule E ns ruleTypeOutbound) (fw_OutboundRuleRefs spec) rules4;
     let spec4 = spec3\<lparr>fw_OutboundRuleRefs := outrr\<rparr>;
     case r5 of Inl err \<Rightarrow> ret (spec4, Inl err) | Inr rules5 \<Rightarrow> do {
     let rules6 = rules5\<lparr>lrs_OutboundPolicy := policyOr (fw_OutboundPolicy spec)\<rparr>;
     ret (spec4, if maxRulesPerFirewall < length (lrs_Inbound rules6) + length (lrs_Outbound rules6)
                 then Inl (ErrSentinel ErrTooManyIPs) else Inr rules6)
   }}}}}"


section \<open>Creating and updating the Cloud Firewall\<close>

abbreviation theFW :: "(FirewallScope, LinodeFirewall) op" where
  "theFW \<equiv> gets (\<lambda>w. fs_LinodeFirewall (obj w))"

abbreviation modFW :: "(LinodeFirewall \<Rightarrow> LinodeFirewall) \<Rightarrow> (FirewallScope, unit) op" where
  "modFW f \<equiv> modObj (fs_LinodeFirewall_update f)"

definition createFirewall :: "env \<Rightarrow> LFirewallRules \<Rightarrow> (FirewallScope, LFirewall res) op" where
  "createFirewall E fwConfig = do {
     fw \<leftarrow> theFW;
     let name = om_Name (lfw_Meta fw);
     (linodeFW, err) \<leftarrow> perform (FW (CCreateFirewall name fwConfig)) (\<lambda>h. fwe_CreateFirewall (fwe E) h name fwConfig);
     found \<leftarrow>
       (if lib_ErrHasStatus (lib E) err [StatusBadRequest] \<and> (\<exists>e. err = Some e \<and> strings_Contains (errText e) ''Label must be unique'')
        then (case Filter_String (filterOf None name []) of
                Inl errFilter \<Rightarrow> ret (Inl errFilter)
              | Inr flt \<Rightarrow> bindE (perform (FW (CListFirewalls flt)) (\<lambda>h. fwe_ListFirewalls (fwe E) h flt))
                  (\<lambda>firewalls. ret (Inr (case firewalls of [] \<Rightarrow> linodeFW | f # _ \<Rightarrow> Some f))))
        else case err of Some e \<Rightarrow> ret (Inl e) | None \<Rightarrow> ret (Inr linodeFW));
     case found of
       Inl e \<Rightarrow> ret (Inl e)
     | Inr None \<Rightarrow> ret (Inl (ErrSentinel ErrNilFirewall))
     | Inr (Some f) \<Rightarrow> do {
         _ \<leftarrow> modFW (lfw_Spec_update (fw_FirewallID_update (\<lambda>_. Some (lf_ID f))));
         ret (Inr f)
       }
   }"

definition updateFirewall :: "env \<Rightarrow> int \<Rightarrow> LFirewallRules \<Rightarrow> (FirewallScope, LFirewall res) op" where
  "updateFirewall E fwID fwConfig = do {
     (linodeFW, err) \<leftarrow> perform (FW (CGetFirewall fwID)) (\<lambda>h. fwe_GetFirewall (fwe E) h fwID);
     case err of
       Some e \<Rightarrow> ret (Inl e)
     | None \<Rightarrow> (case linodeFW of
         None \<Rightarrow> ret (Inl (ErrSentinel ErrNilFirewall))
       | Some f \<Rightarrow> do {
           u \<leftarrow> perform (FW (CUpdateFirewallRules (lf_ID f) fwConfig)) (\<lambda>h. fwe_UpdateFirewallRules (fwe E) h (lf_ID f) fwConfig);
           ret (case u of Some e \<Rightarrow> Inl e | None \<Rightarrow> Inr f)
         })
   }"

definition fwStatus :: "LinodeFirewallSpec \<Rightarrow> string" where
  "fwStatus spec = (if fw_Enabled spec then ''enabled'' else ''disabled'')"

definition reconcileFirewall :: "env \<Rightarrow> (FirewallScope, error option) op" where
  "reconcileFirewall E = do {
     _ \<leftarrow> modFW (lfw_Meta_update (om_Namespace_update (\<lambda>ns. if ns = [] then ''default'' else ns)));
     fw \<leftarrow> theFW;
     (spec, acl) \<leftarrow> processACL E (om_Namespace (lfw_Meta fw)) (lfw_Spec fw);
     _ \<leftarrow> modFW (lfw_Spec_update (\<lambda>_. spec));
     case acl of
       Inl err \<Rightarrow> ret (Some err)
     | Inr fwConfig \<Rightarrow> do {
         r \<leftarrow> (case fw_FirewallID spec of
                 None \<Rightarrow> createFirewall E fwConfig
               | Some fwID \<Rightarrow> updateFirewall E fwID fwConfig);
         case r of
           Inl err \<Rightarrow> ret (Some err)
         | Inr linodeFW \<Rightarrow>
             perform (FW (CUpdateFirewall (lf_ID linodeFW) (fwStatus spec))) (\<lambda>h. fwe_UpdateFirewall (fwe E) h (lf_ID linodeFW) (fwStatus spec))
       }
   }"


section \<open>The reconciler\<close>

text \<open>\<open>SetCondition\<close> on the firewall of the scope: the clock is read, since the time is not set.\<close>

definition fwSetCondition :: "env \<Rightarrow> Condition \<Rightarrow> (FirewallScope, unit) op" where
  "fwSetCondition E c = do { now \<leftarrow> timeNow E; modFW (LinodeFirewall_SetCondition now c) }"

definition fwRemoveFinalizer :: "env \<Rightarrow> (FirewallScope, unit) op" where
  "fwRemoveFinalizer E = modFW (lfw_Meta_update (om_Finalizers_update (\<lambda>fs. lib_RemoveFinalizer (lib E) fs FirewallFinalizer)))"

definition fw_reconcileDelete :: "env \<Rightarrow> duration \<Rightarrow> (FirewallScope, outcome) op" where
  "fw_reconcileDelete E reconcileTimeout = do {
     fw \<leftarrow> theFW;
     case fw_FirewallID (lfw_Spec fw) of
       None \<Rightarrow> do { _ \<leftarrow> fwRemoveFinalizer E; ret (noResult, None) }
     | Some fwID \<Rightarrow> do {
         e1 \<leftarrow> FirewallScope_RemoveCredentialsRefFinalizer E;
         if e1 \<noteq> None then ret (noResult, e1)
         else do {
           err \<leftarrow> perform (FW (CDeleteFirewall fwID)) (\<lambda>h. fwe_DeleteFirewall (fwe E) h fwID);
           if IgnoreLinodeAPIError E err [StatusNotFound] \<noteq> None then do {
             again \<leftarrow> withinDeletion E (om_DeletionTimestamp (lfw_Meta fw)) (DefaultTimeout reconcileTimeout DefaultFWControllerReconcileTimeout);
             if again then do { d \<leftarrow> WithJitter E DefaultFWControllerReconcilerDelay; ret (requeue d, None) }
             else ret (noResult, err)
           }
           else do { _ \<leftarrow> fwRemoveFinalizer E; ret (noResult, None) }
         }
       }
   }"

text \<open>What \<open>reconcile\<close> does when \<open>reconcileFirewall\<close> returned an error.\<close>

definition fw_reconcileFailed :: "env \<Rightarrow> duration \<Rightarrow> string \<Rightarrow> error \<Rightarrow> (FirewallScope, outcome) op" where
  "fw_reconcileFailed E reconcileTimeout failureReason e = do {
     _ \<leftarrow> fwSetCondition E (mkCond ReadyCondition statusFalse failureReason (errText e));
     if errIs e ErrTooManyIPs then ret (noResult, None)
     else if IsRetryableError E (Some e) then do {
       fw \<leftarrow> theFW;
       stale \<leftarrow> HasStaleCondition E (LinodeFirewall_GetCondition ReadyCondition fw)
                  (DefaultTimeout reconcileTimeout DefaultFWControllerReconcileTimeout);
       if \<not> stale then do { d \<leftarrow> WithJitter E DefaultFWControllerReconcilerDelay; ret (requeue d, None) }
       else ret (noResult, Some e)
     }
     else ret (noResult, Some e)
   }"

text \<open>The body of \<open>reconcile\<close>: its result, and the failure reason the deferred function will see.\<close>

definition fw_reconcileBody :: "env \<Rightarrow> duration \<Rightarrow> (FirewallScope, outcome \<times> string) op" where
  "fw_reconcileBody E reconcileTimeout = do {
     e0 \<leftarrow> FirewallScope_SetCredentialRefToken E;
     if e0 \<noteq> None then ret ((noResult, e0), ''UnknownError'')
     else do {
     fw \<leftarrow> theFW;
     if om_DeletionTimestamp (lfw_Meta fw) \<noteq> None
     then do { r \<leftarrow> fw_reconcileDelete E reconcileTimeout; ret (r, DeleteFirewallError) }
     else do {
     e1 \<leftarrow> FirewallScope_AddFinalizer E;
     if e1 \<noteq> None then ret ((noResult, None), ''UnknownError'')
     else do {
     let isUpdate = (fw_FirewallID (lfw_Spec fw) \<noteq> None);
     let failureReason = (if isUpdate then UpdateFirewallError else CreateFirewallError);
     e2 \<leftarrow> (if isUpdate then ret None else FirewallScope_AddCredentialsRefFinalizer E);
     case e2 of
       Some e \<Rightarrow> do {
         _ \<leftarrow> fwSetCondition E (mkCond ReadyCondition statusFalse failureReason (errText e));
         ret ((noResult, None), failureReason)
       }
     | None \<Rightarrow> do {
         err \<leftarrow> reconcileFirewall E;
         case err of
           None \<Rightarrow> do {
             _ \<leftarrow> modFW (lfw_Status_update (fw_Ready_update (\<lambda>_. True)));
             ret ((noResult, None), failureReason)
           }
         | Some e \<Rightarrow> do { r \<leftarrow> fw_reconcileFailed E reconcileTimeout failureReason e; ret (r, failureReason) }
       }
   }}}}"

text \<open>The deferred function: record the failure, persist the resource, join the errors.\<close>

definition fw_deferred :: "env \<Rightarrow> outcome \<times> string \<Rightarrow> (FirewallScope, outcome) op" where
  "fw_deferred E body = (case body of ((res, err), failureReason) \<Rightarrow> do {
     _ \<leftarrow> (case err of None \<Rightarrow> ret ()
          | Some e \<Rightarrow> do {
              _ \<leftarrow> modFW (lfw_Status_update (fw_FailureReason_update (\<lambda>_. Some failureReason)));
              _ \<leftarrow> modFW (lfw_Status_update (fw_FailureMessage_update (\<lambda>_. Some (errText e))));
              fwSetCondition E (mkCond ReadyCondition statusFalse failureReason (errText e))
            });
     patchErr \<leftarrow> FirewallScope_Close E;
     if patchErr \<noteq> None \<and> lib_FilterOutNotFound (lib E) (UnwrapError patchErr) \<noteq> None
     then ret (res, errors_Join [err, patchErr])
     else ret (res, err)
   })"

definition fw_reconcile :: "env \<Rightarrow> duration \<Rightarrow> (FirewallScope, outcome) op" where
  "fw_reconcile E reconcileTimeout = do {
     _ \<leftarrow> modFW (lfw_Status_update (fw_Ready_update (\<lambda>_. False)));
     _ \<leftarrow> modFW (lfw_Status_update (fw_FailureReason_update (\<lambda>_. None)));
     _ \<leftarrow> modFW (lfw_Status_update (fw_FailureMessage_update (\<lambda>_. Some [])));
     body \<leftarrow> fw_reconcileBody E reconcileTimeout;
     fw_deferred E body
   }"

definition fw_Reconcile :: "env \<Rightarrow> duration \<Rightarrow> NamespacedName \<Rightarrow> (unit, outcome) op" where
  "fw_Reconcile E reconcileTimeout req = do {
     r \<leftarrow> perform (K8s (KGet KFirewall req)) (\<lambda>h. k_GetFirewall (k8s E) h req);
     case r of
       Inl err \<Rightarrow> ret (noResult, IgnoreNotFound E (IgnoreNotFound E (Some err)))
     | Inr fw0 \<Rightarrow> do {
         q \<leftarrow> linkCluster E (lfw_Meta fw0) (\<lambda>om. OFirewall (fw0\<lparr>lfw_Meta := om\<rparr>));
         case q of
           Inl err \<Rightarrow> ret (noResult, Some err)
         | Inr (cluster, om) \<Rightarrow> do {
             let fw = fw0\<lparr>lfw_Meta := om\<rparr>;
             sc \<leftarrow> NewFirewallScope E (Some fw) cluster;
             case sc of
               Inl err \<Rightarrow> ret (noResult, Some (ErrWrap ''failed to create cluster scope: '' err))
             | Inr scope \<Rightarrow> do {
                 p \<leftarrow> checkPaused E cluster om (OFirewall fw) (fw_Conditions (lfw_Status fw));
                 case p of
                   Inl out \<Rightarrow> ret out
                 | Inr conds \<Rightarrow>
                     withScope (scope\<lparr>fs_LinodeFirewall := LinodeFirewall_SetConditions conds fw\<rparr>) (fw_reconcile E reconcileTimeout)
               }
           }
       }
   }"


section \<open>Chunks\<close>

text \<open>The reference: cut the list every \<open>n\<close> elements.\<close>

function chunksOf :: "nat \<Rightarrow> 'a list \<Rightarrow> 'a list list" where
  "chunksOf n xs = (if n = 0 \<or> length xs \<le> n then [xs] else take n xs # chunksOf n (drop n xs))"
  by pat_completeness auto
termination by (relation "measure (\<lambda>(_, xs). length xs)") auto

declare chunksOf.simps [simp del]

definition nChunks :: "nat \<Rightarrow> nat" where
  "nChunks k = (k + (maxIPsPerFirewallRule - 1)) div maxIPsPerFirewallRule"

lemma chunkLoop_chunksOf:
  "c * maxIPsPerFirewallRule \<le> length ips \<Longrightarrow> n = length ips - c * maxIPsPerFirewallRule \<Longrightarrow>
   chunkLoop ips n c acc = acc @ chunksOf maxIPsPerFirewallRule (drop (c * maxIPsPerFirewallRule) ips)"
proof (induction n arbitrary: c acc rule: less_induct)
  case (less n)
  show ?case
  proof (cases "maxIPsPerFirewallRule < n")
    case True
    have "chunkLoop ips (n - maxIPsPerFirewallRule) (c + 1) (acc @ [drop (c * maxIPsPerFirewallRule) (take ((c + 1) * maxIPsPerFirewallRule) ips)])
      = (acc @ [drop (c * maxIPsPerFirewallRule) (take ((c + 1) * maxIPsPerFirewallRule) ips)])
        @ chunksOf maxIPsPerFirewallRule (drop ((c + 1) * maxIPsPerFirewallRule) ips)"
      by (rule less.IH) (use True less.prems in \<open>auto simp: fw_limits\<close>)
    with True less.prems show ?thesis
      by (subst chunkLoop.simps, subst chunksOf.simps)
        (simp add: drop_take drop_drop fw_limits Let_def algebra_simps)
  next
    case False
    with less.prems show ?thesis
      by (subst chunkLoop.simps, subst chunksOf.simps) simp
  qed
qed

lemma chunkIPs_chunksOf: "chunkIPs ips = (if ips = [] then [] else chunksOf maxIPsPerFirewallRule ips)"
proof (cases "length ips \<le> maxIPsPerFirewallRule")
  case True
  then show ?thesis by (auto simp: chunkIPs_def chunksOf.simps [of _ ips])
next
  case False
  then show ?thesis using chunkLoop_chunksOf [of 0 ips "length ips" "[]"] by (auto simp: chunkIPs_def Let_def)
qed

lemma concat_chunksOf: "concat (chunksOf n xs) = xs"
  by (induction n xs rule: chunksOf.induct) (subst chunksOf.simps, simp)

lemma chunksOf_bounds: "xs \<noteq> [] \<Longrightarrow> 0 < n \<Longrightarrow> c \<in> set (chunksOf n xs) \<Longrightarrow> c \<noteq> [] \<and> length c \<le> n"
proof (induction n xs rule: chunksOf.induct)
  case (1 n xs)
  from 1(4) have "c = xs \<and> length xs \<le> n \<or> \<not> length xs \<le> n \<and> (c = take n xs \<or> c \<in> set (chunksOf n (drop n xs)))"
    using 1(3) by (subst (asm) chunksOf.simps) (auto split: if_splits)
  with 1 show ?case by auto
qed

lemma length_chunksOf: "xs \<noteq> [] \<Longrightarrow> 0 < n \<Longrightarrow> length (chunksOf n xs) = (length xs + (n - 1)) div n"
proof (induction n xs rule: chunksOf.induct)
  case (1 n xs)
  show ?case
  proof (cases "length xs \<le> n")
    case True
    with 1 have "(length xs + (n - 1)) div n = 1"
      by (cases xs) (auto intro!: div_nat_eqI)
    with True show ?thesis by (subst chunksOf.simps) simp
  next
    case False
    with 1 have "length (chunksOf n (drop n xs)) = (length xs - n + (n - 1)) div n" by simp
    moreover have "(length xs + (n - 1)) div n = Suc ((length xs - n + (n - 1)) div n)"
      using False 1(3) by (subst div_if) auto
    ultimately show ?thesis using False 1(3) by (subst chunksOf.simps) simp
  qed
qed

lemma concat_chunkIPs: "concat (chunkIPs ips) = ips"
  by (simp add: chunkIPs_chunksOf concat_chunksOf)

lemma chunkIPs_bounds: "c \<in> set (chunkIPs ips) \<Longrightarrow> c \<noteq> [] \<and> length c \<le> maxIPsPerFirewallRule"
  using chunksOf_bounds [of ips maxIPsPerFirewallRule c]
  by (auto simp: chunkIPs_chunksOf fw_limits split: if_splits)

lemma length_chunkIPs: "length (chunkIPs ips) = nChunks (length ips)"
  by (simp add: chunkIPs_chunksOf nChunks_def length_chunksOf fw_limits)


section \<open>A rule and the group of rules that realises it\<close>

text \<open>
  \<open>realises spec A B rs\<close>: the API rules \<open>rs\<close> carry the addresses \<open>A\<close> (IPv4) and \<open>B\<close> (IPv6), all within the
  limits of the API, with the action, ports and protocol of the spec, and there are no more of
  them than needed.
\<close>

definition realises :: "FirewallRuleSpec \<Rightarrow> string set \<Rightarrow> string set \<Rightarrow> LFirewallRule list \<Rightarrow> bool" where
  "realises spec A B rs \<longleftrightarrow>
     (\<Union>r\<in>set rs. set (lr_IPv4 r)) = A \<and> (\<Union>r\<in>set rs. set (lr_IPv6 r)) = B \<and>
     length rs = nChunks (card A) + nChunks (card B) \<and>
     (\<forall>r\<in>set rs. lr_Action r = fr_Action spec \<and> lr_Ports r = fr_Ports spec \<and> lr_Protocol r = fr_Protocol spec \<and>
        lr_IPv4 r @ lr_IPv6 r \<noteq> [] \<and> length (lr_IPv4 r @ lr_IPv6 r) \<le> maxIPsPerFirewallRule \<and>
        length (lr_Label r) \<le> maxFirewallRuleLabelLen)"

lemma length_formatRuleLabel: "length (formatRuleLabel p l) \<le> maxFirewallRuleLabelLen"
  by (auto simp: formatRuleLabel_def Let_def)

lemma mkRule_simps [simp]:
  "lr_IPv4 (mkRule spec l i a b) = a" "lr_IPv6 (mkRule spec l i a b) = b" "lr_Action (mkRule spec l i a b) = fr_Action spec"
  "lr_Ports (mkRule spec l i a b) = fr_Ports spec" "lr_Protocol (mkRule spec l i a b) = fr_Protocol spec"
  "lr_Label (mkRule spec l i a b) = l"
  by (simp_all add: mkRule_def)

lemma set_enumerate_snd: "(\<Union>p\<in>set (enumerate n xs). set (snd p)) = set (concat xs)"
  by (induction xs arbitrary: n) auto

lemma snd_enumerate: "(i, c) \<in> set (enumerate n xs) \<Longrightarrow> c \<in> set xs"
  by (induction xs arbitrary: n) auto

lemma realises_chunkRules:
  assumes "distinct a" and "distinct b"
  shows "realises spec (set a) (set b) (chunkRules spec a b)"
proof -
  have u: "(\<Union>p\<in>set (enumerate 0 (chunkIPs xs)). set (snd p)) = set xs" for xs
    unfolding set_enumerate_snd concat_chunkIPs ..
  have bd: "c \<noteq> [] \<and> length c \<le> maxIPsPerFirewallRule" if "(i, c) \<in> set (enumerate 0 (chunkIPs xs))" for i c xs
    using snd_enumerate [OF that] by (rule chunkIPs_bounds)
  show ?thesis
    unfolding realises_def chunkRules_def Let_def
    using u [of a] u [of b]
    by (auto simp: case_prod_beta length_chunkIPs distinct_card assms length_formatRuleLabel dest!: bd)
qed

lemma realises_empty: "realises spec {} {} []"
  by (simp add: realises_def nChunks_def fw_limits)

text \<open>What adding the rules of one spec does to the rules collected so far.\<close>

definition addRules :: "string \<Rightarrow> LFirewallRule list \<Rightarrow> LFirewallRules \<Rightarrow> LFirewallRules" where
  "addRules ruleType new rules =
     (if ruleType = ruleTypeInbound then lrs_Inbound_update (\<lambda>rs. rs @ new) rules
      else lrs_Outbound_update (\<lambda>rs. rs @ new) rules)"

lemma processIPRules_realises:
  assumes "ruleType = ruleTypeInbound \<or> ruleType = ruleTypeOutbound" and "distinct a" and "distinct b"
  shows "\<exists>new. processIPRules a b spec (Some rules) ruleType = addRules ruleType new rules
    \<and> realises spec (set a) (set b) new"
proof (cases "a = [] \<and> b = []")
  case True
  then show ?thesis
    by (intro exI [of _ "[]"]) (auto simp: processIPRules_def addRules_def realises_empty)
next
  case False
  then show ?thesis
    using assms by (intro exI [of _ "chunkRules spec a b"])
      (auto simp: processIPRules_def addRules_def realises_chunkRules)
qed


section \<open>The addresses of a rule when the API server is quiet\<close>

text \<open>
  While no one changes the address sets and the rules, the API server answers by the key alone:
  \<open>f\<close> and \<open>g\<close> are the stored objects.
\<close>

definition stableACL :: "env \<Rightarrow> (NamespacedName \<Rightarrow> AddressSet) \<Rightarrow> (NamespacedName \<Rightarrow> FirewallRule) \<Rightarrow> bool" where
  "stableACL E f g \<longleftrightarrow> (\<forall>h key. k_GetAddressSet (k8s E) h key = Inr (f key)) \<and>
     (\<forall>h key. k_GetFirewallRule (k8s E) h key = Inr (g key))"

definition refKey :: "string \<Rightarrow> ObjectReference \<Rightarrow> NamespacedName" where
  "refKey ns ref = \<lparr>nn_Namespace = obr_Namespace (defaultNS ns ref), nn_Name = obr_Name (defaultNS ns ref)\<rparr>"

definition cidrs :: "string list option \<Rightarrow> string set" where
  "cidrs ips = transformToCIDR ` (case ips of None \<Rightarrow> {} | Some xs \<Rightarrow> set xs)"

definition ruleIPv4 :: "(NamespacedName \<Rightarrow> AddressSet) \<Rightarrow> string \<Rightarrow> FirewallRuleSpec \<Rightarrow> string set" where
  "ruleIPv4 f ns spec = (case fr_Addresses spec of None \<Rightarrow> {} | Some a \<Rightarrow> cidrs (na_IPv4 a)) \<union>
     (\<Union>ref\<in>set (fr_AddressSetRefs spec). cidrs (as_IPv4 (ads_Spec (f (refKey ns ref)))))"

definition ruleIPv6 :: "(NamespacedName \<Rightarrow> AddressSet) \<Rightarrow> string \<Rightarrow> FirewallRuleSpec \<Rightarrow> string set" where
  "ruleIPv6 f ns spec = (case fr_Addresses spec of None \<Rightarrow> {} | Some a \<Rightarrow> cidrs (na_IPv6 a)) \<union>
     (\<Union>ref\<in>set (fr_AddressSetRefs spec). cidrs (as_IPv6 (ads_Spec (f (refKey ns ref)))))"

lemma set_cidrSet [simp]: "set (cidrSet ips ks) = cidrs ips \<union> set ks"
  by (cases ips) (auto simp: cidrSet_def cidrs_def)

lemma distinct_cidrSet [simp]: "distinct ks \<Longrightarrow> distinct (cidrSet ips ks)"
  by (cases ips) (simp_all add: cidrSet_def)

lemma set_dedup [simp]: "set (fold (\<lambda>ip. setAdd ip) xs []) = set xs"
  using set_fold_setAdd [of "\<lambda>x. x" xs "[]"] by simp

lemma distinct_dedup [simp]: "distinct (fold (\<lambda>ip. setAdd ip) xs [])"
  using distinct_fold_setAdd [of "[]" "\<lambda>x. x" xs] by simp

text \<open>The loop over the references, with the invariant on the two sets it collects.\<close>

lemma wp_processAddressSetRefLoop:
  fixes s :: "'o world"
  assumes st: "stableACL E f g" and "distinct (fst sets)" "distinct (snd sets)"
  shows "wp (mapAccumE (processAddressSetRef E ns) refs sets)
    (\<lambda>(refs', r) t. \<exists>v4 v6. refs' = map (defaultNS ns) refs \<and> r = Inr (v4, v6) \<and> distinct v4 \<and> distinct v6 \<and>
       set v4 = set (fst sets) \<union> (\<Union>ref\<in>set refs. cidrs (as_IPv4 (ads_Spec (f (refKey ns ref))))) \<and>
       set v6 = set (snd sets) \<union> (\<Union>ref\<in>set refs. cidrs (as_IPv6 (ads_Spec (f (refKey ns ref))))) \<and> obj t = obj s) s"
  using assms(2,3)
proof (induction refs arbitrary: sets s)
  case Nil
  then show ?case by (cases sets) (simp add: wp_rules)
next
  case (Cons ref refs)
  let ?sets = "(cidrSet (as_IPv4 (ads_Spec (f (refKey ns ref)))) (fst sets), cidrSet (as_IPv6 (ads_Spec (f (refKey ns ref)))) (snd sets))"
  have d: "distinct (fst ?sets)" "distinct (snd ?sets)" using Cons.prems by simp_all
  have "wp (processAddressSetRef E ns ref sets) (\<lambda>(ref', r) t. ref' = defaultNS ns ref \<and> r = Inr ?sets \<and> obj t = obj s) s"
    using st by (simp add: processAddressSetRef_def wp_rules stableACL_def refKey_def Let_def)
  then show ?case
    unfolding mapAccumE.simps wp_bind
  proof (rule wp_mono, clarify)
    fix t :: "'o world" assume t: "obj t = obj s"
    show "wp (case Inr ?sets of Inl e \<Rightarrow> ret (defaultNS ns ref # refs, Inl e)
       | Inr b' \<Rightarrow> State_Monad.bind (mapAccumE (processAddressSetRef E ns) refs b') (\<lambda>(xs', r'). ret (defaultNS ns ref # xs', r')))
       (\<lambda>(refs', r) t. \<exists>v4 v6. refs' = map (defaultNS ns) (ref # refs) \<and> r = Inr (v4, v6) \<and> distinct v4 \<and> distinct v6 \<and>
       set v4 = set (fst sets) \<union> (\<Union>ref\<in>set (ref # refs). cidrs (as_IPv4 (ads_Spec (f (refKey ns ref))))) \<and>
       set v6 = set (snd sets) \<union> (\<Union>ref\<in>set (ref # refs). cidrs (as_IPv6 (ads_Spec (f (refKey ns ref))))) \<and> obj t = obj s) t"
      unfolding sum.case wp_bind
      by (rule wp_mono [OF Cons.IH [OF d]]) (auto simp: wp_return t)
  qed
qed

lemma wp_processRule:
  fixes s :: "'o world"
  assumes st: "stableACL E f g" and ty: "ruleType = ruleTypeInbound \<or> ruleType = ruleTypeOutbound"
  shows "wp (processRule E ns ruleType spec rules)
    (\<lambda>(spec', r) t. spec' = spec\<lparr>fr_AddressSetRefs := map (defaultNS ns) (fr_AddressSetRefs spec)\<rparr> \<and> obj t = obj s \<and>
       (\<exists>new. r = Inr (addRules ruleType new rules) \<and> realises spec (ruleIPv4 f ns spec) (ruleIPv6 f ns spec) new)) s"
proof -
  define Q :: "FirewallRuleSpec \<times> LFirewallRules res \<Rightarrow> 'o world \<Rightarrow> bool" where "Q = (\<lambda>(spec', r) t. spec' = spec\<lparr>fr_AddressSetRefs := map (defaultNS ns) (fr_AddressSetRefs spec)\<rparr> \<and> obj t = obj s \<and>
       (\<exists>new. r = Inr (addRules ruleType new rules) \<and> realises spec (ruleIPv4 f ns spec) (ruleIPv6 f ns spec) new))"
  let ?v4 = "\<Union>ref\<in>set (fr_AddressSetRefs spec). cidrs (as_IPv4 (ads_Spec (f (refKey ns ref))))"
  let ?v6 = "\<Union>ref\<in>set (fr_AddressSetRefs spec). cidrs (as_IPv6 (ads_Spec (f (refKey ns ref))))"
  have refs: "wp (processAddressSetRefs E ns (fr_AddressSetRefs spec))
    (\<lambda>(refs', r) t. \<exists>v4 v6. refs' = map (defaultNS ns) (fr_AddressSetRefs spec) \<and> r = Inr (v4, v6)
       \<and> set v4 = ?v4 \<and> set v6 = ?v6 \<and> obj t = obj s0) s0" for s0 :: "'o world"
    unfolding processAddressSetRefs_def wp_bind
    by (rule wp_mono [OF wp_processAddressSetRefLoop [OF st]]) (auto simp: wp_rules)
  have fin: "Q (spec\<lparr>fr_AddressSetRefs := map (defaultNS ns) (fr_AddressSetRefs spec)\<rparr>, Inr (processIPRules f4 f6 spec (Some rules) ruleType)) t"
    if "distinct f4" "distinct f6" "set f4 = ruleIPv4 f ns spec" "set f6 = ruleIPv6 f ns spec" "obj t = obj s" for f4 f6 t
    using processIPRules_realises [OF ty that(1,2), of spec rules] that by (auto simp: Q_def)
  have step: "wp (State_Monad.bind (processAddressSetRefs E ns (fr_AddressSetRefs spec)) (\<lambda>(refs, r).
     let spec' = spec\<lparr>fr_AddressSetRefs := refs\<rparr> in case r of Inl err \<Rightarrow> ret (spec', Inl err)
     | Inr (s4, s6) \<Rightarrow> State_Monad.bind (filterDuplicates E (a4 @ s4) (a6 @ s6)) (\<lambda>(f4, f6).
         ret (spec', Inr (processIPRules f4 f6 spec (Some rules) ruleType))))) Q t"
    if "?v4 \<union> set a4 = ruleIPv4 f ns spec" "?v6 \<union> set a6 = ruleIPv6 f ns spec" "obj t = obj s" for a4 a6 t
    unfolding wp_bind
    by (rule wp_mono [OF refs], clarsimp simp: wp_rules filterDuplicates_def Let_def, rule fin) (simp_all add: that)
  have addrs: "wp (processAddresses E (fr_Addresses spec)) (\<lambda>(a4, a6) t. ?v4 \<union> set a4 = ruleIPv4 f ns spec
      \<and> ?v6 \<union> set a6 = ruleIPv6 f ns spec \<and> obj t = obj s) s"
    by (cases "fr_Addresses spec") (auto simp: processAddresses_def wp_rules ruleIPv4_def ruleIPv6_def)
  show ?thesis
    unfolding processRule_def Q_def [symmetric]
    by (subst wp_bind, rule wp_mono [OF addrs], clarify) (rule step)
qed

lemma wp_processFirewallRule:
  fixes s :: "'o world"
  assumes st: "stableACL E f g" and ty: "ruleType = ruleTypeInbound \<or> ruleType = ruleTypeOutbound"
  shows "wp (processFirewallRule E ns ruleType ref rules)
    (\<lambda>(ref', r) t. ref' = defaultNS ns ref \<and> obj t = obj s \<and>
       (\<exists>new. r = Inr (addRules ruleType new rules) \<and>
          realises (frl_Spec (g (refKey ns ref))) (ruleIPv4 f ns (frl_Spec (g (refKey ns ref)))) (ruleIPv6 f ns (frl_Spec (g (refKey ns ref)))) new)) s"
proof -
  have "k_GetFirewallRule (k8s E) h key = Inr (g key)" for h key using st by (simp add: stableACL_def)
  then show ?thesis
    unfolding processFirewallRule_def Let_def refKey_def [symmetric]
    by (simp add: wp_rules, intro wp_mono [OF wp_processRule [OF st ty]]) (auto simp: wp_rules)
qed

text \<open>A loop over specs or references collects one group of rules per element.\<close>

lemma addRules_append: "addRules ty (a @ b) rules = addRules ty b (addRules ty a rules)"
  by (simp add: addRules_def)

lemma addRules_Nil: "addRules ty [] rules = rules"
  by (simp add: addRules_def)

lemma group_Cons:
  "R x new \<Longrightarrow> list_all2 R xs news \<Longrightarrow>
   \<exists>news'. addRules ty (concat news) (addRules ty new b) = addRules ty (concat news') b \<and> list_all2 R (x # xs) news'"
  by (intro exI [of _ "new # news"]) (simp add: addRules_append)

lemma wp_groups:
  fixes s :: "'o world"
  assumes body: "\<And>x b (s :: 'o world). wp (F x b) (\<lambda>(x', r) t. x' = u x \<and> obj t = obj s \<and> (\<exists>new. r = Inr (addRules ty new b) \<and> R x new)) s"
  shows "wp (mapAccumE F xs b) (\<lambda>(xs', r) t. xs' = map u xs \<and> obj t = obj s \<and>
    (\<exists>news. r = Inr (addRules ty (concat news) b) \<and> list_all2 R xs news)) s"
proof (induction xs arbitrary: b s)
  case Nil
  then show ?case by (simp add: wp_rules addRules_Nil)
next
  case (Cons x xs)
  show ?case unfolding mapAccumE.simps wp_bind
  proof (rule wp_mono [OF body], clarify)
    fix new and t :: "'o world" assume new: "R x new" "obj t = obj s"
    have "wp (mapAccumE F xs (addRules ty new b)) (\<lambda>(xs', r) t. xs' = map u xs \<and> obj t = obj s \<and>
      (\<exists>news. r = Inr (addRules ty (concat news) (addRules ty new b)) \<and> list_all2 R xs news)) t"
      using Cons.IH [of "addRules ty new b" t] new by simp
    then show "wp (case Inr (addRules ty new b) of Inl e \<Rightarrow> ret (u x # xs, Inl e)
        | Inr b' \<Rightarrow> State_Monad.bind (mapAccumE F xs b') (\<lambda>(xs', r'). ret (u x # xs', r')))
       (\<lambda>(xs', r) t. xs' = map u (x # xs) \<and> obj t = obj s \<and> (\<exists>news. r = Inr (addRules ty (concat news) b) \<and> list_all2 R (x # xs) news)) t"
      unfolding sum.case wp_bind
      by (rule wp_mono) (use new in \<open>auto simp: wp_return intro!: group_Cons\<close>)
  qed
qed


section \<open>The translation of an ACL\<close>

definition inSpecs :: "(NamespacedName \<Rightarrow> FirewallRule) \<Rightarrow> string \<Rightarrow> LinodeFirewallSpec \<Rightarrow> FirewallRuleSpec list" where
  "inSpecs g ns spec = fw_InboundRules spec @ map (\<lambda>ref. frl_Spec (g (refKey ns ref))) (fw_InboundRuleRefs spec)"

definition outSpecs :: "(NamespacedName \<Rightarrow> FirewallRule) \<Rightarrow> string \<Rightarrow> LinodeFirewallSpec \<Rightarrow> FirewallRuleSpec list" where
  "outSpecs g ns spec = fw_OutboundRules spec @ map (\<lambda>ref. frl_Spec (g (refKey ns ref))) (fw_OutboundRuleRefs spec)"

text \<open>The number of API rules a spec needs, and an ACL altogether.\<close>

definition ruleNeed :: "(NamespacedName \<Rightarrow> AddressSet) \<Rightarrow> string \<Rightarrow> FirewallRuleSpec \<Rightarrow> nat" where
  "ruleNeed f ns spec = nChunks (card (ruleIPv4 f ns spec)) + nChunks (card (ruleIPv6 f ns spec))"

definition aclNeed ::
  "(NamespacedName \<Rightarrow> AddressSet) \<Rightarrow> (NamespacedName \<Rightarrow> FirewallRule) \<Rightarrow> string \<Rightarrow> LinodeFirewallSpec \<Rightarrow> nat" where
  "aclNeed f g ns spec = sum_list (map (ruleNeed f ns) (inSpecs g ns spec)) + sum_list (map (ruleNeed f ns) (outSpecs g ns spec))"

abbreviation realisesIn :: "(NamespacedName \<Rightarrow> AddressSet) \<Rightarrow> string \<Rightarrow> FirewallRuleSpec \<Rightarrow> LFirewallRule list \<Rightarrow> bool" where
  "realisesIn f ns spec \<equiv> realises spec (ruleIPv4 f ns spec) (ruleIPv6 f ns spec)"

definition aclResult :: "LinodeFirewallSpec \<Rightarrow> LFirewallRule list \<Rightarrow> LFirewallRule list \<Rightarrow> LFirewallRules" where
  "aclResult spec ins outs = \<lparr>lrs_Inbound = ins, lrs_InboundPolicy = policyOr (fw_InboundPolicy spec),
     lrs_Outbound = outs, lrs_OutboundPolicy = policyOr (fw_OutboundPolicy spec)\<rparr>"

text \<open>The spec after the run: every reference has a namespace.\<close>

definition nsSpec :: "string \<Rightarrow> LinodeFirewallSpec \<Rightarrow> LinodeFirewallSpec" where
  "nsSpec ns spec = spec\<lparr>
     fw_InboundRules := map (\<lambda>r. r\<lparr>fr_AddressSetRefs := map (defaultNS ns) (fr_AddressSetRefs r)\<rparr>) (fw_InboundRules spec),
     fw_InboundRuleRefs := map (defaultNS ns) (fw_InboundRuleRefs spec),
     fw_OutboundRules := map (\<lambda>r. r\<lparr>fr_AddressSetRefs := map (defaultNS ns) (fr_AddressSetRefs r)\<rparr>) (fw_OutboundRules spec),
     fw_OutboundRuleRefs := map (defaultNS ns) (fw_OutboundRuleRefs spec)\<rparr>"

lemma length_groups: "list_all2 (realisesIn f ns) specs gs \<Longrightarrow> length (concat gs) = sum_list (map (ruleNeed f ns) specs)"
  by (induction specs gs rule: list_all2_induct) (auto simp: realises_def ruleNeed_def)

lemma wp_processACL:
  fixes s :: "'o world"
  assumes st: "stableACL E f g"
  shows "wp (processACL E ns spec) (\<lambda>(spec', r) t. spec' = nsSpec ns spec \<and> obj t = obj s \<and>
    (\<exists>ins outs. list_all2 (realisesIn f ns) (inSpecs g ns spec) ins \<and> list_all2 (realisesIn f ns) (outSpecs g ns spec) outs \<and>
       r = (if maxRulesPerFirewall < aclNeed f g ns spec then Inl (ErrSentinel ErrTooManyIPs)
            else Inr (aclResult spec (concat ins) (concat outs))))) s"
proof -
  let ?u = "\<lambda>r. r\<lparr>fr_AddressSetRefs := map (defaultNS ns) (fr_AddressSetRefs r)\<rparr>"
  have rules: "wp (mapAccumE (processRule E ns ty) xs b) (\<lambda>(xs', r) t. xs' = map ?u xs \<and> obj t = obj s \<and>
     (\<exists>news. r = Inr (addRules ty (concat news) b) \<and> list_all2 (realisesIn f ns) xs news)) s"
    if "ty = ruleTypeInbound \<or> ty = ruleTypeOutbound" for ty xs b and s :: "'o world"
    by (rule wp_groups) (rule wp_processRule [OF st that])
  have refs: "wp (mapAccumE (processFirewallRule E ns ty) xs b) (\<lambda>(xs', r) t. xs' = map (defaultNS ns) xs \<and> obj t = obj s \<and>
     (\<exists>news. r = Inr (addRules ty (concat news) b) \<and> list_all2 (\<lambda>ref. realisesIn f ns (frl_Spec (g (refKey ns ref)))) xs news)) s"
    if "ty = ruleTypeInbound \<or> ty = ruleTypeOutbound" for ty xs b and s :: "'o world"
    by (rule wp_groups) (rule wp_processFirewallRule [OF st that])
  have join: "list_all2 (realisesIn f ns) (as @ map h bs) (x @ y)"
    if "list_all2 (realisesIn f ns) as x" "list_all2 (\<lambda>b. realisesIn f ns (h b)) bs y"
    for as x bs y and h :: "ObjectReference \<Rightarrow> FirewallRuleSpec"
    using that by (intro list_all2_appendI) (simp_all add: list_all2_map1)
  have i: "ruleTypeInbound = ruleTypeInbound \<or> ruleTypeInbound = ruleTypeOutbound"
    and o: "ruleTypeOutbound = ruleTypeInbound \<or> ruleTypeOutbound = ruleTypeOutbound" by simp_all
  define Q :: "LinodeFirewallSpec \<times> LFirewallRules res \<Rightarrow> 'o world \<Rightarrow> bool" where
    "Q = (\<lambda>(spec', r) t. spec' = nsSpec ns spec \<and> obj t = obj s \<and>
    (\<exists>ins outs. list_all2 (realisesIn f ns) (inSpecs g ns spec) ins \<and> list_all2 (realisesIn f ns) (outSpecs g ns spec) outs \<and>
       r = (if maxRulesPerFirewall < aclNeed f g ns spec then Inl (ErrSentinel ErrTooManyIPs)
            else Inr (aclResult spec (concat ins) (concat outs)))))"
  have fin: "\<forall>t. obj t = obj s \<longrightarrow> Q (nsSpec ns spec, if maxRulesPerFirewall < length (concat (i1 @ i2)) + length (concat (o1 @ o2))
       then Inl (ErrSentinel ErrTooManyIPs) else Inr (aclResult spec (concat (i1 @ i2)) (concat (o1 @ o2)))) t"
    if "list_all2 (realisesIn f ns) (fw_InboundRules spec) i1"
      "list_all2 (\<lambda>ref. realisesIn f ns (frl_Spec (g (refKey ns ref)))) (fw_InboundRuleRefs spec) i2"
      "list_all2 (realisesIn f ns) (fw_OutboundRules spec) o1"
      "list_all2 (\<lambda>ref. realisesIn f ns (frl_Spec (g (refKey ns ref)))) (fw_OutboundRuleRefs spec) o2" for i1 i2 o1 o2
  proof -
    have l: "list_all2 (realisesIn f ns) (inSpecs g ns spec) (i1 @ i2)"
      "list_all2 (realisesIn f ns) (outSpecs g ns spec) (o1 @ o2)"
      unfolding inSpecs_def outSpecs_def using that by (auto intro: join)
    have "length (concat (i1 @ i2)) + length (concat (o1 @ o2)) = aclNeed f g ns spec"
      unfolding length_groups [OF l(1)] length_groups [OF l(2)] aclNeed_def ..
    with l show ?thesis
      unfolding Q_def prod.case by (intro allI impI conjI exI [of _ "i1 @ i2"] exI [of _ "o1 @ o2"]) simp_all
  qed
  show ?thesis
    unfolding processACL_def Q_def [symmetric]
    by (simp only: wp_bind Let_def, rule wp_mono [OF rules [OF i]], clarsimp simp: wp_bind,
      rule wp_mono [OF refs [OF i]], clarsimp simp: wp_bind, rule wp_mono [OF rules [OF o]], clarsimp simp: wp_bind,
      rule wp_mono [OF refs [OF o]], clarsimp, drule (3) fin)
     (auto simp: wp_return addRules_def noRules_def aclResult_def add_ac simp flip: nsSpec_def split: if_splits)
qed


section \<open>What the handlers touch\<close>

text \<open>Building the rules asks the API server and picks key orders; it changes no service.\<close>

lemma calm_processRule [keeps_rules]: "keeps (calm isPlain) (processRule E ns ty spec rules)"
  unfolding processRule_def processAddresses_def processAddressSetRefs_def processAddressSetRef_def filterDuplicates_def Let_def
  by (auto intro!: calm_rules split: option.splits sum.splits prod.splits)

lemma calm_processFirewallRule [keeps_rules]: "keeps (calm isPlain) (processFirewallRule E ns ty ref rules)"
  unfolding processFirewallRule_def Let_def
  by (auto intro!: calm_rules keeps_rules split: sum.splits prod.splits)

lemma calm_processACL [keeps_rules]: "keeps (calm isPlain) (processACL E ns spec)"
  unfolding processACL_def Let_def
  by (auto intro!: calm_rules keeps_rules split: sum.splits prod.splits)

lemma wp_createFirewall:
  "wp (createFirewall E cfg) (\<lambda>r t. (\<forall>f. r = Inr f \<longrightarrow> fw_FirewallID (lfw_Spec (fs_LinodeFirewall (obj t))) = Some (lf_ID f) \<and>
      fw_Enabled (lfw_Spec (fs_LinodeFirewall (obj t))) = fw_Enabled (lfw_Spec (fs_LinodeFirewall (obj s))))) s"
  by (auto simp: createFirewall_def wp_rules Let_def Filter_String_def Filter_MarshalJSON_def split: prod.splits sum.splits option.splits list.splits)

lemma wp_updateFirewall:
  "wp (updateFirewall E i cfg) (\<lambda>r t. obj t = obj s \<and>
     (\<forall>f. r = Inr f \<longrightarrow> (\<exists>rest. tr t = FW (CUpdateFirewallRules (lf_ID f) cfg) # rest))) s"
  by (auto simp: updateFirewall_def wp_rules split: prod.splits option.splits)

abbreviation fwOf :: "FirewallScope world \<Rightarrow> LinodeFirewall" where
  "fwOf w \<equiv> fs_LinodeFirewall (obj w)"

lemma wp_fwSetCondition [wp_rules]:
  "wp (fwSetCondition E c) Q s =
     Q () (s\<lparr>tr := Runtime TimeNow # tr s, obj := fs_LinodeFirewall_update (LinodeFirewall_SetCondition (rt_Now (rt E) (tr s)) c) (obj s)\<rparr>)"
  by (cases s) (simp add: fwSetCondition_def wp_rules)

text \<open>The newest event of \<open>t\<close> pushed the status that the spec asks for, successfully.\<close>

definition statusPushed :: "env \<Rightarrow> FirewallScope world \<Rightarrow> bool" where
  "statusPushed E t \<longleftrightarrow> (\<exists>i rest. tr t = FW (CUpdateFirewall i (fwStatus (lfw_Spec (fwOf t)))) # rest \<and>
     fwe_UpdateFirewall (fwe E) rest i (fwStatus (lfw_Spec (fwOf t))) = None \<and> fw_FirewallID (lfw_Spec (fwOf t)) \<noteq> None)"

lemma wp_pushStatus:
  assumes "\<forall>f. r = Inr f \<longrightarrow> fw_FirewallID (lfw_Spec (fwOf u)) \<noteq> None \<and> fw_Enabled (lfw_Spec (fwOf u)) = fw_Enabled spec"
  shows "wp (case r of Inl err \<Rightarrow> ret (Some err)
     | Inr linodeFW \<Rightarrow> perform (FW (CUpdateFirewall (lf_ID linodeFW) (fwStatus spec))) (\<lambda>h. fwe_UpdateFirewall (fwe E) h (lf_ID linodeFW) (fwStatus spec)))
     (\<lambda>r t. r = None \<longrightarrow> statusPushed E t) u"
  using assms by (cases r) (auto simp: wp_rules statusPushed_def fwStatus_def)

lemma wp_reconcileFirewall: "wp (reconcileFirewall E) (\<lambda>r t. r = None \<longrightarrow> statusPushed E t) s"
proof -
  have fin: "wp (case fw_FirewallID spec of None \<Rightarrow> createFirewall E cfg | Some i \<Rightarrow> updateFirewall E i cfg)
     (\<lambda>r. wp (case r of Inl err \<Rightarrow> ret (Some err)
       | Inr linodeFW \<Rightarrow> perform (FW (CUpdateFirewall (lf_ID linodeFW) (fwStatus spec))) (\<lambda>h. fwe_UpdateFirewall (fwe E) h (lf_ID linodeFW) (fwStatus spec)))
       (\<lambda>r t. r = None \<longrightarrow> statusPushed E t)) u"
    if "lfw_Spec (fwOf u) = spec" for spec cfg u
  proof (cases "fw_FirewallID spec")
    case None
    then show ?thesis
      by simp (rule wp_mono [OF wp_createFirewall], rule wp_pushStatus, simp add: that)
  next
    case (Some i)
    then show ?thesis
      by simp (rule wp_mono [OF wp_updateFirewall], rule wp_pushStatus, simp add: that)
  qed
  show ?thesis
    unfolding reconcileFirewall_def
    by (simp only: wp_bind wp_update wp_get wp_return)
      (rule wp_mono [OF wp_calm [OF calm_processACL]],
        auto simp: wp_bind wp_update wp_get wp_return split: sum.splits intro!: fin)
qed


section \<open>Properties\<close>

text \<open>
\<open>chunkIPs\<close> cuts the addresses into consecutive chunks: nothing is lost, duplicated or reordered,
no chunk is empty or exceeds 255 addresses, and there are as few chunks as possible.
\<close>

theorem chunkIPs_correct:
  "concat (chunkIPs ips) = ips
   \<and> list_all (\<lambda>c. c \<noteq> [] \<and> length c \<le> 255) (chunkIPs ips)
   \<and> length (chunkIPs ips) = (length ips + 254) div 255"
  using chunkIPs_bounds [of _ ips] length_chunkIPs [of ips]
  by (auto simp: concat_chunkIPs list_all_iff nChunks_def fw_limits)

text \<open>
C37: while the API server is quiet, \<open>processACL\<close> implements its specification. The inbound and the
outbound rules are one group per rule spec (inline rules first, then referenced ones); each group
carries exactly the addresses of its spec and of the address sets it refers to, in CIDR form,
within the limits of the API; empty policies become ACCEPT; and the call fails with
\<open>errTooManyIPs\<close> exactly when more than 25 rules are needed. The references of the spec get the
namespace of the firewall, and nothing else of the scope changes.
\<close>

theorem processACL_refines:
  assumes "stableACL E f g"
  shows "wp (processACL E ns spec) (\<lambda>(spec', r) t. spec' = nsSpec ns spec \<and> obj t = obj s \<and>
    (\<exists>ins outs. list_all2 (realisesIn f ns) (inSpecs g ns spec) ins \<and> list_all2 (realisesIn f ns) (outSpecs g ns spec) outs \<and>
       r = (if 25 < aclNeed f g ns spec then Inl (ErrSentinel ErrTooManyIPs)
            else Inr (aclResult spec (concat ins) (concat outs))))) s"
  using wp_processACL [OF assms] unfolding fw_limits .

definition addrSet1 :: AddressSet where
  "addrSet1 = \<lparr>ads_Meta = meta0, ads_Spec = \<lparr>as_IPv4 = Some [''10.0.0.1'', ''10.0.0.0/8''], as_IPv6 = None\<rparr>\<rparr>"

definition ruleSpec1 :: FirewallRuleSpec where
  "ruleSpec1 = \<lparr>fr_Action = ''ACCEPT'', fr_Label = ''ssh'', fr_Description = [], fr_Ports = ''22'', fr_Protocol = ''TCP'',
     fr_Addresses = Some \<lparr>na_IPv4 = Some [''10.0.0.1''], na_IPv6 = Some [''::1'']\<rparr>,
     fr_AddressSetRefs = [\<lparr>obr_Kind = ''AddressSet'', obr_Namespace = [], obr_Name = ''a''\<rparr>]\<rparr>"

definition fwSpec1 :: LinodeFirewallSpec where
  "fwSpec1 = \<lparr>fw_FirewallID = None, fw_Enabled = True, fw_InboundRules = [ruleSpec1],
     fw_InboundRuleRefs = [\<lparr>obr_Kind = ''FirewallRule'', obr_Namespace = [], obr_Name = ''r''\<rparr>], fw_InboundPolicy = ''DROP'',
     fw_OutboundRules = [], fw_OutboundRuleRefs = [], fw_OutboundPolicy = [], fw_CredentialsRef = None\<rparr>"

definition envACL :: env where
  "envACL = env0\<lparr>k8s := k8s0\<lparr>k_GetAddressSet := \<lambda>_ _. Inr addrSet1,
     k_GetFirewallRule := \<lambda>_ _. Inr \<lparr>frl_Meta = meta0, frl_Spec = ruleSpec1\<rparr>\<rparr>\<rparr>"

lemma stableACL_env: "stableACL envACL (\<lambda>_. addrSet1) (\<lambda>_. \<lparr>frl_Meta = meta0, frl_Spec = ruleSpec1\<rparr>)"
  by (simp add: stableACL_def envACL_def)

theorem processACL_refines_witness:
  "wp (processACL envACL ''ns'' fwSpec1) (\<lambda>(spec', r) t. spec' = nsSpec ''ns'' fwSpec1 \<and> obj t = () \<and>
    (\<exists>ins outs. list_all2 (realisesIn (\<lambda>_. addrSet1) ''ns'') [ruleSpec1, ruleSpec1] ins \<and> outs = [] \<and>
       r = (if 25 < aclNeed (\<lambda>_. addrSet1) (\<lambda>_. \<lparr>frl_Meta = meta0, frl_Spec = ruleSpec1\<rparr>) ''ns'' fwSpec1
            then Inl (ErrSentinel ErrTooManyIPs) else Inr (aclResult fwSpec1 (concat ins) (concat outs))))) (start ())"
  using processACL_refines [OF stableACL_env, of "''ns''" fwSpec1 "start ()"]
  by (rule wp_mono) (auto simp: inSpecs_def outSpecs_def fwSpec1_def)

text \<open>
When \<open>reconcileFirewall\<close> succeeds, its last request set the status of the Cloud Firewall to what
\<open>spec.enabled\<close> says, the API accepted it, and the resource knows the ID of its firewall. This
holds for every behaviour of the services.
\<close>

theorem reconcileFirewall_pushes_status:
  "wp (reconcileFirewall E) (\<lambda>r t. case r of None \<Rightarrow> statusPushed E t | Some _ \<Rightarrow> True) s"
  using wp_reconcileFirewall [of E s] by (rule wp_mono) (auto split: option.splits)

text \<open>
C38: \<open>reconcileDelete\<close> gives up the finalizer of a firewall only when there is no firewall ID or when
the deletion of that firewall was requested and answered with success or 404; otherwise the
finalizers are untouched, and an error or a requeue within 3 s to 4.2 s is returned.
\<close>

theorem fw_delete_finalizer:
  "wp (fw_reconcileDelete E timeout) (\<lambda>(res, err) t.
     fw_FirewallID (lfw_Spec (fwOf s)) = None \<and> err = None
   \<or> (\<exists>i h. fw_FirewallID (lfw_Spec (fwOf s)) = Some i \<and> tr t = FW (CDeleteFirewall i) # h \<and> err = None \<and>
        IgnoreLinodeAPIError E (fwe_DeleteFirewall (fwe E) h i) [StatusNotFound] = None)
   \<or> om_Finalizers (lfw_Meta (fwOf t)) = om_Finalizers (lfw_Meta (fwOf s)) \<and>
       (case err of Some _ \<Rightarrow> True | None \<Rightarrow> 3 * second \<le> RequeueAfter res \<and> RequeueAfter res \<le> 3 * second + 1200000000)) s"
proof -
  have keep: "keeps (calm isK8s) (FirewallScope_RemoveCredentialsRefFinalizer E)" by (rule keeps_rules)
  show ?thesis
  proof (cases "fw_FirewallID (lfw_Spec (fwOf s))")
    case None
    then show ?thesis by (simp add: fw_reconcileDelete_def fwRemoveFinalizer_def wp_rules)
  next
    case (Some i)
    then show ?thesis
      unfolding fw_reconcileDelete_def
      by (simp only: wp_bind wp_get wp_return option.case)
        (rule wp_mono [OF wp_calm [OF keep]],
          auto simp: calm_def wp_rules fwRemoveFinalizer_def DefaultFWControllerReconcilerDelay_def split: option.splits)
  qed
qed

text \<open>The report of a failure: \<open>Ready\<close> is false, and the \<open>Ready\<close> condition carries the reason and the error.\<close>

definition fwReported :: "string \<Rightarrow> error \<Rightarrow> LinodeFirewall \<Rightarrow> bool" where
  "fwReported reason e fw \<longleftrightarrow> \<not> fw_Ready (lfw_Status fw) \<and>
     (case LinodeFirewall_GetCondition ReadyCondition fw of None \<Rightarrow> False
      | Some c \<Rightarrow> cd_Status c = statusFalse \<and> cd_Reason c = reason \<and> cd_Message c = errText e)"

text \<open>The part of the scope that the ACL is computed from.\<close>

definition fwACLInput :: "FirewallScope world \<Rightarrow> string \<times> LinodeFirewallSpec \<times> bool" where
  "fwACLInput s = (if om_Namespace (lfw_Meta (fwOf s)) = [] then ''default'' else om_Namespace (lfw_Meta (fwOf s)),
     lfw_Spec (fwOf s), fw_Ready (lfw_Status (fwOf s)))"

lemma wp_reconcileFirewall_refused:
  assumes "stableACL E f g" and "fwACLInput s = (ns, spec, rdy)" and "25 < aclNeed f g ns spec"
  shows "wp (reconcileFirewall E) (\<lambda>r t. r = Some (ErrSentinel ErrTooManyIPs) \<and> fw_Ready (lfw_Status (fwOf t)) = rdy \<and> adds isPlain s t) s"
proof -
  define s1 where "s1 = obj_update (fs_LinodeFirewall_update (lfw_Meta_update (om_Namespace_update (\<lambda>ns. if ns = [] then ''default'' else ns)))) s"
  have s1: "om_Namespace (lfw_Meta (fwOf s1)) = ns" "lfw_Spec (fwOf s1) = spec" "tr s1 = tr s" "fw_Ready (lfw_Status (fwOf s1)) = rdy"
    using assms(2) by (auto simp: s1_def fwACLInput_def)
  have acl: "wp (processACL E ns spec) (\<lambda>(spec', r) t. r = Inl (ErrSentinel ErrTooManyIPs) \<and> calm isPlain s1 t) s1"
    by (rule wp_mono [OF wp_conjI [OF wp_processACL [OF assms(1)] keeps_wp [OF calm_processACL]]])
      (use assms(3) in \<open>auto simp: fw_limits split: if_splits\<close>)
  show ?thesis
    unfolding reconcileFirewall_def
    by (simp only: wp_bind wp_update wp_get wp_return s1_def [symmetric] s1)
      (rule wp_mono [OF acl], auto simp: wp_rules calm_def adds_def s1)
qed

lemma fw_ready_set:
  "LinodeFirewall_GetCondition ReadyCondition (LinodeFirewall_SetCondition now (mkCond ReadyCondition st rs msg) fw)
   = Some (stampCond now (mkCond ReadyCondition st rs msg))"
  "fw_Ready (lfw_Status (LinodeFirewall_SetCondition now c fw)) = fw_Ready (lfw_Status fw)"
  by (simp add: LinodeFirewall_GetCondition_def fwc.lookup_SetCondition) (simp add: LinodeFirewall_SetCondition_def)

lemma wp_fw_reconcileFailed_refused:
  "\<not> fw_Ready (lfw_Status (fwOf s)) \<Longrightarrow> wp (fw_reconcileFailed E timeout reason (ErrSentinel ErrTooManyIPs))
     (\<lambda>out t. out = (noResult, None) \<and> fwReported reason (ErrSentinel ErrTooManyIPs) (fwOf t) \<and> adds isPlain s t) s"
  by (simp add: fw_reconcileFailed_def wp_rules fwReported_def fw_ready_set stampCond_def adds_def)

text \<open>
C39: a reconciliation of a firewall whose ACL needs more than 25 rules sends no request to the
firewall service, sets \<open>Ready\<close> to false and the \<open>Ready\<close> condition to false with the text of
\<open>errTooManyIPs\<close> and the reason \<open>CreateFirewallError\<close>, or \<open>UpdateFirewallError\<close> when the resource has a
firewall ID, stores the resource as its last request, and ends without an error and without a
requeue, so that the next attempt waits for a change. The firewall is not being deleted and has no
\<open>credentialsRef\<close>, the objects that the ACL refers to do not change during the reconciliation and the
API server accepts the patches of the resource.
\<close>

theorem fw_too_many_ips:
  assumes "stableACL E f g" and "\<And>h fw. k_Patch (k8s E) h (OFirewall fw) = None"
    and "fw_CredentialsRef (lfw_Spec (fwOf s)) = None" and "om_DeletionTimestamp (lfw_Meta (fwOf s)) = None"
    and "25 < aclNeed f g (if om_Namespace (lfw_Meta (fwOf s)) = [] then ''default'' else om_Namespace (lfw_Meta (fwOf s))) (lfw_Spec (fwOf s))"
  shows "wp (fw_reconcile E timeout) (\<lambda>out t. out = (noResult, None) \<and> adds isPlain s t \<and>
      fwReported (if fw_FirewallID (lfw_Spec (fwOf s)) = None then CreateFirewallError else UpdateFirewallError) (ErrSentinel ErrTooManyIPs) (fwOf t) \<and>
      hd (tr t) = K8s (KPatch (OFirewall (fwOf t)))) s"
proof -
  define reason where "reason = (if fw_FirewallID (lfw_Spec (fwOf s)) = None then CreateFirewallError else UpdateFirewallError)"
  let ?refused = "\<lambda>r t. fst r = (noResult, None) \<and> fwReported reason (ErrSentinel ErrTooManyIPs) (fwOf t) \<and> adds isPlain s t"
  let ?input = "(fst (fwACLInput s), lfw_Spec (fwOf s), False)"
  have fin: "wp (FirewallScope_AddFinalizer E) (\<lambda>e t. e = None \<and> fwACLInput t = fwACLInput u \<and> adds isPlain u t) u" for u
    by (auto simp: FirewallScope_AddFinalizer_def FirewallScope_Close_def assms(2) wp_rules fwACLInput_def adds_def split: prod.split)
  have ref: "wp (if b then ret None else FirewallScope_AddCredentialsRefFinalizer E) (\<lambda>e t. e = None \<and> t = v) v"
    if "fwACLInput v = ?input" for b v
    using assms(3) that by (simp add: FirewallScope_AddCredentialsRefFinalizer_def fwACLInput_def wp_rules)
  have last: "wp (reconcileFirewall E) (\<lambda>err. wp (case err of
          None \<Rightarrow> do { _ \<leftarrow> modFW (lfw_Status_update (fw_Ready_update (\<lambda>_. True))); ret ((noResult, None), reason) }
        | Some e \<Rightarrow> do { r \<leftarrow> fw_reconcileFailed E timeout reason e; ret (r, reason) }) ?refused) v"
    if "fwACLInput v = ?input" "adds isPlain s v" for v
    by (rule wp_mono [OF wp_reconcileFirewall_refused [OF assms(1) that(1)]])
      (use assms(5) that(2) in \<open>auto simp: fwACLInput_def wp_bind wp_return intro!: wp_mono [OF wp_fw_reconcileFailed_refused] elim: adds.trans\<close>)
  have body: "wp (fw_reconcileBody E timeout) ?refused u"
    if u: "fwACLInput u = ?input" "om_DeletionTimestamp (lfw_Meta (fwOf u)) = None" "tr u = tr s" for u
  proof -
    have spec: "lfw_Spec (fwOf u) = lfw_Spec (fwOf s)" using u(1) by (simp add: fwACLInput_def)
    have token: "wp (FirewallScope_SetCredentialRefToken E) (\<lambda>e t. e = None \<and> t = u) u"
      using assms(3) by (simp add: FirewallScope_SetCredentialRefToken_def wp_rules spec)
    have why: "(if fw_FirewallID (lfw_Spec (fwOf s)) \<noteq> None then UpdateFirewallError else CreateFirewallError) = reason"
      by (simp add: reason_def)
    show ?thesis
      unfolding fw_reconcileBody_def
      by (rule wp_seq [OF token], simp only: wp_bind wp_get wp_return simp_thms if_False Let_def spec why u(2))
        (rule wp_mono [OF fin], elim conjE, simp only: simp_thms if_False wp_bind,
          rule wp_mono [OF ref], simp only: u(1), elim conjE, simp only: option.case wp_bind,
          rule last, use u in \<open>auto simp: adds_def\<close>)
  qed
  show ?thesis
    unfolding fw_reconcile_def reason_def [symmetric]
    by (simp only: wp_bind wp_update, rule wp_mono [OF body])
      (auto simp: fwACLInput_def assms fw_deferred_def FirewallScope_Close_def wp_rules adds_def)
qed

definition fwScope1 :: FirewallScope where
  "fwScope1 = \<lparr>fs_LinodeFirewall = \<lparr>lfw_Meta = meta0, lfw_Spec = fwSpec1,
     lfw_Status = \<lparr>fw_Conditions = [], fw_Ready = False, fw_FailureReason = None, fw_FailureMessage = None\<rparr>\<rparr>, fs_Cluster = None\<rparr>"

definition ruleSpec2 :: FirewallRuleSpec where
  "ruleSpec2 = ruleSpec1\<lparr>fr_Addresses := Some \<lparr>na_IPv4 = Some [''10.0.0.0/8''], na_IPv6 = None\<rparr>, fr_AddressSetRefs := []\<rparr>"

definition fwScope26 :: FirewallScope where
  "fwScope26 = fs_LinodeFirewall_update (lfw_Spec_update (\<lambda>spec. spec\<lparr>fw_InboundRules := replicate 26 ruleSpec2, fw_InboundRuleRefs := []\<rparr>)) fwScope1"

lemma need26: "25 < aclNeed f g ns (lfw_Spec (fs_LinodeFirewall fwScope26))"
proof -
  have "ruleNeed f ns ruleSpec2 = 1"
    by (simp add: ruleNeed_def ruleIPv4_def ruleIPv6_def ruleSpec2_def cidrs_def transformToCIDR_def HasPrefix_def nChunks_def fw_limits)
  then show ?thesis
    by (simp add: aclNeed_def inSpecs_def outSpecs_def fwScope26_def fwScope1_def fwSpec1_def sum_list_replicate)
qed

theorem fw_too_many_ips_witness:
  "wp (fw_reconcile envACL 0) (\<lambda>out t. out = (noResult, None) \<and> adds isPlain (start fwScope26) t \<and>
      fwReported CreateFirewallError (ErrSentinel ErrTooManyIPs) (fwOf t) \<and> hd (tr t) = K8s (KPatch (OFirewall (fwOf t)))) (start fwScope26)"
proof -
  have "fw_FirewallID (lfw_Spec (fs_LinodeFirewall fwScope26)) = None" "fw_CredentialsRef (lfw_Spec (fs_LinodeFirewall fwScope26)) = None"
    "om_DeletionTimestamp (lfw_Meta (fs_LinodeFirewall fwScope26)) = None" "\<And>h fw. k_Patch (k8s envACL) h (OFirewall fw) = None"
    by (simp_all add: fwScope26_def fwScope1_def fwSpec1_def meta0_def envACL_def k8s0_def)
  then show ?thesis using fw_too_many_ips [OF stableACL_env, of "start fwScope26" 0] by (simp add: need26)
qed

text \<open>
The reconcile timeout never ends the retries of a failing firewall. However long the
resource has been failing, a retryable error is turned into a requeue without error, because
the failure just recorded carries the present as its transition time. The only assumption is
that the clock does not jump past the timeout between two consecutive readings.
\<close>

theorem fw_failure_requeues:
  assumes "\<not> errIs e ErrTooManyIPs" and "IsRetryableError E (Some e)"
    and "rt_Now (rt E) (Runtime TimeNow # tr s) \<le> rt_Now (rt E) (tr s) + DefaultTimeout timeout DefaultFWControllerReconcileTimeout"
  shows "wp (fw_reconcileFailed E timeout reason e)
    (\<lambda>(res, err) t. err = None \<and> 3 * second \<le> RequeueAfter res \<and> RequeueAfter res \<le> 3 * second + 1200000000) s"
  using assms by (simp add: fw_reconcileFailed_def wp_rules fw_ready_set stampCond_def DefaultFWControllerReconcilerDelay_def)

definition errBadGateway :: error where "errBadGateway = ErrExt 502 ''bad gateway'' None"

theorem fw_failure_requeues_witness:
  "wp (fw_reconcileFailed env0 0 UpdateFirewallError errBadGateway)
    (\<lambda>(res, err) t. err = None \<and> 3 * second \<le> RequeueAfter res \<and> RequeueAfter res \<le> 3 * second + 1200000000) (start fwScope1)"
  by (rule fw_failure_requeues)
    (simp_all add: errBadGateway_def IsRetryableError_def env0_def lib0_def rt0_def retryableCodes_def time_defs
      DefaultTimeout_def DefaultFWControllerReconcileTimeout_def)

text \<open>
A failure to persist the finalizer is lost. When the patch of \<open>AddFinalizer\<close> fails, \<open>reconcile\<close>
ends without an error and without a requeue, before any request to the firewall service.
\<close>

theorem fw_finalizer_error_lost:
  assumes "fw_CredentialsRef (lfw_Spec (fwOf s)) = None" and "om_DeletionTimestamp (lfw_Meta (fwOf s)) = None"
    and "lib_AddFinalizer (lib E) (om_Finalizers (lfw_Meta (fwOf s))) FirewallFinalizer = (fs, True)"
    and "\<And>fw. k_Patch (k8s E) (tr s) (OFirewall fw) = Some e"
  shows "wp (fw_reconcileBody E timeout) (\<lambda>(out, reason) t. out = (noResult, None) \<and> adds isK8s s t) s"
  using assms
  by (simp add: fw_reconcileBody_def FirewallScope_SetCredentialRefToken_def FirewallScope_AddFinalizer_def
      FirewallScope_Close_def wp_rules adds_def)

theorem fw_finalizer_error_lost_witness:
  "wp (fw_reconcileBody (env0\<lparr>k8s := k8s0\<lparr>k_Patch := \<lambda>_ _. Some errBadGateway\<rparr>\<rparr>) 0)
     (\<lambda>(out, reason) t. out = (noResult, None) \<and> adds isK8s (start fwScope1) t) (start fwScope1)"
  by (rule fw_finalizer_error_lost [where e = errBadGateway and fs = "[FirewallFinalizer]"])
    (simp_all add: fwScope1_def fwSpec1_def meta0_def env0_def lib0_def)

text \<open>
A firewall that is deleted before it got an ID leaves its finalizer on the credentials secret:
\<open>reconcileDelete\<close> removes its own finalizer and makes no request at all, although \<open>reconcile\<close> adds
the finalizer to the secret before it creates the firewall.
\<close>

theorem fw_delete_without_id:
  assumes "fw_FirewallID (lfw_Spec (fwOf s)) = None"
  shows "wp (fw_reconcileDelete E timeout) (\<lambda>out t. out = (noResult, None) \<and> tr t = tr s \<and>
     om_Finalizers (lfw_Meta (fwOf t)) = lib_RemoveFinalizer (lib E) (om_Finalizers (lfw_Meta (fwOf s))) FirewallFinalizer) s"
  using assms by (simp add: fw_reconcileDelete_def fwRemoveFinalizer_def wp_rules)

theorem fw_delete_without_id_witness:
  "wp (fw_reconcileDelete env0 0) (\<lambda>out t. out = (noResult, None) \<and> tr t = [] \<and>
     om_Finalizers (lfw_Meta (fwOf t)) = lib_RemoveFinalizer lib0 [] FirewallFinalizer) (start fwScope1)"
  using fw_delete_without_id [of "start fwScope1" env0 0]
  by (simp add: fwScope1_def fwSpec1_def meta0_def env0_def)

end
