(* ===== verification/ResourceRuns.thy ===== *)
theory ResourceRuns
  imports PlacementGroup Firewall Runs
begin

text \<open>
  Sequences of reconciliations of one placement group and of one firewall: they are granted at most one group
  and at most one Cloud Firewall, since the ID in the spec guards the creation. The rules are those of the
  locale \<open>creator\<close>.
\<close>

section \<open>Placement groups\<close>

text \<open>How often the history shows a request to create a group that was answered with one and without an error.\<close>

fun pgCreated :: "env \<Rightarrow> hist \<Rightarrow> nat" where
  "pgCreated E [] = 0"
| "pgCreated E (c # h) = (case c of
     PG (CCreatePlacementGroup opts) \<Rightarrow> (case pge_CreatePlacementGroup (pge E) h opts of (Some _, None) \<Rightarrow> 1 | _ \<Rightarrow> 0)
   | _ \<Rightarrow> 0) + pgCreated E h"

definition createsPG :: "call \<Rightarrow> bool" where
  "createsPG c = (case c of PG (CCreatePlacementGroup _) \<Rightarrow> True | _ \<Rightarrow> False)"

abbreviation pgID :: "PlacementGroupScope \<Rightarrow> int option" where
  "pgID s \<equiv> pg_PGID (lpg_Spec (ps_LinodePlacementGroup s))"

abbreviation pgDeleted :: "PlacementGroupScope \<Rightarrow> gotime option" where
  "pgDeleted s \<equiv> om_DeletionTimestamp (lpg_Meta (ps_LinodePlacementGroup s))"

interpretation pgr: creator createsPG "pgCreated E" pgID pgDeleted for E
  by unfold_locales (auto simp: createsPG_def split: call.splits pg_call.splits)

lemma createsPG_simps [simp]:
  "\<not> createsPG (K8s x)" "\<not> createsPG (Runtime r)" "\<not> createsPG (SetToken tk)" "\<not> createsPG NewLinodeClient"
  "\<not> createsPG (PG (CGetPlacementGroup i))" "\<not> createsPG (PG (CListPlacementGroups f))" "\<not> createsPG (PG (CDeletePlacementGroup i))"
  by (simp_all add: createsPG_def)

lemma isK8s_not_createsPG: "isK8s c \<Longrightarrow> \<not> createsPG c"
  by (auto simp: isK8s_def createsPG_def split: call.splits)

lemmas pg_begun_K8s = pgr.begun_calm [OF _ isK8s_not_createsPG]

lemmas begun_pg = calm_scope_creds(7-9) [THEN pg_begun_K8s] calm_scope_close(3) [THEN pg_begun_K8s]

lemma begun_pgRuntime:
  "keeps pgr.begun (pgReadyFalse E rs msg)"
  "keeps pgr.begun (WithJitter E d)"
  "keeps pgr.begun (HasStaleCondition E c d)"
  "keeps pgr.begun (withinDeletion E ts d)"
  "keeps pgr.begun (PlacementGroupScope_AddFinalizer E)"
  by (rule keepsI; simp add: wp_rules WithJitter_def HasStaleCondition_def PlacementGroupScope_AddFinalizer_def PlacementGroupScope_Close_def
      pgr.begun_def adds_def split: option.split prod.split)+

lemma grows_reconcilePlacementGroup: "pgr.grows E (reconcilePlacementGroup E)"
  by (auto simp: pgr.grows_def pgr.grew_def reconcilePlacementGroup_def wp_rules Let_def split: sum.split option.split list.split prod.split)

lemma pg_release_creates_none: "keeps (adds (\<lambda>c. \<not> createsPG c)) (pgReleaseFinalizers E T)"
  unfolding pgReleaseFinalizers_def pgRemoveFinalizer_def pgRetryOr_def
  by (intro adds_rules keeps_case pgr.holds_adds [OF pgr.begun_holds] begun_pg begun_pgRuntime; simp)

lemma pg_delete_creates_none: "keeps (adds (\<lambda>c. \<not> createsPG c)) (pg_reconcileDelete E dt T)"
  unfolding pg_reconcileDelete_def pg_deleteEmpty_def pgRetryOr_def
  by (intro adds_rules keeps_case pg_release_creates_none pgr.holds_adds [OF pgr.begun_holds] begun_pg begun_pgRuntime; simp)

lemma begun_pg_deferred: "keeps pgr.begun (pg_deferred E body)"
  unfolding pg_deferred_def
  by (intro pgr.beginning.keeps_all keeps_case begun_pg begun_pgRuntime pgr.begun_modObj; simp)

lemma grows_pg_reconcile: "pgr.grows E (pg_reconcile E dt T)"
proof -
  note calmly = pgr.holds_adds [OF pgr.begun_holds]
  have create: "pgr.grows E (pg_reconcileCreate E)"
    unfolding pg_reconcileCreate_def
    by (rule pgr.grows_before [OF calmly [OF begun_pg(1)]] pgr.grows_cases pgr.grows_keeps pgr.grows_after [OF grows_reconcilePlacementGroup]
        adds.keeps_bind calmly [OF begun_pgRuntime(1)] adds.keeps_return keeps_case
        pgr.begun_holds pgr.beginning.keeps_bind pgr.beginning.keeps_return begun_pgRuntime(1) pgr.begun_modObj | simp)+
  have after: "keeps pgr.begun (if e2 = None then ret ((noResult, None), CreatePlacementGroupError)
       else do {
         p' \<leftarrow> thePG;
         stale \<leftarrow> HasStaleCondition E (LinodePlacementGroup_GetCondition ReadyCondition p')
                    (DefaultTimeout T DefaultPGControllerReconcileTimeout);
         if \<not> stale then do { d \<leftarrow> WithJitter E DefaultPGControllerReconcilerDelay; ret ((requeue d, None), CreatePlacementGroupError) }
         else ret ((noResult, e2), CreatePlacementGroupError)
       })" for e2
    by (intro pgr.beginning.keeps_all keeps_case begun_pgRuntime)
  have "pgr.grows E (pg_reconcileBody E dt T)"
    unfolding pg_reconcileBody_def
    by (rule pgr.grows_before calmly [OF begun_pg(3)] calmly [OF begun_pgRuntime(5)] pgr.grows_if pgr.grows_after [OF create pgr.begun_holds [OF after]]
       pgr.grows_keeps [OF pg_delete_creates_none] pgr.grows_keeps adds.keeps_bind adds.keeps_get adds.keeps_return pg_delete_creates_none adds_modify | simp)+
  then have body: "pgr.grows E (do { body \<leftarrow> pg_reconcileBody E dt T; pg_deferred E body })"
    by (rule pgr.grows_after) (rule pgr.begun_holds [OF begun_pg_deferred])
  show ?thesis
    unfolding pg_reconcile_def by (rule pgr.grows_before adds_modify body | simp)+
qed

lemma settles_pg_reconcile:
  assumes some: "pgDeleted (obj s) \<noteq> None \<or> pgID (obj s) \<noteq> None"
  shows "pgr.settles s (pg_reconcile E dt T)"
proof -
  have same: "pgDeleted (obj t) = pgDeleted (obj s)" "pgID (obj t) = pgID (obj s)" if "pgr.begun s t" for t
    using that by (simp_all add: pgr.begun_def)
  have del: "pgr.settles s (do { r \<leftarrow> pg_reconcileDelete E dt T; ret (r, x) })" if "pgDeleted (obj s) \<noteq> None" for x :: string
    by (intro pgr.settles_deleting that adds_rules pg_delete_creates_none)
  have ready: "pgr.settles s (do { _ \<leftarrow> modPG (lpg_Status_update (pg_Ready_update (\<lambda>_. True))); ret x })" for x :: "outcome \<times> string"
    by (intro pgr.settles_keeps pgr.beginning.keeps_all pgr.begun_modObj) simp
  have "pgr.settles s (pg_reconcileBody E dt T)"
    unfolding pg_reconcileBody_def
  proof (intro pgr.settles_bind [OF begun_pg(3)] pgr.settles_if pgr.settles_keeps [OF pgr.beginning.keeps_return] pgr.settles_gets
      pgr.settles_bind [OF begun_pgRuntime(5)] del ready)
  qed (use some in \<open>simp_all add: same\<close>)
  then have body: "pgr.settles s (do { body \<leftarrow> pg_reconcileBody E dt T; pg_deferred E body })"
    by (rule pgr.settles_then [OF _ pgr.begun_holds [OF begun_pg_deferred] some])
  show ?thesis
    unfolding pg_reconcile_def by (rule body pgr.settles_bind pgr.begun_modObj | simp)+
qed

abbreviation pgRuns :: "env \<Rightarrow> int option \<Rightarrow> bool \<Rightarrow> hist \<Rightarrow> nat \<Rightarrow> bool" where
  "pgRuns E \<equiv> runs (stepOf {m. \<exists>dt T. m = pg_reconcile E dt T}) (pgCreated E) pgID (\<lambda>s. pgDeleted s \<noteq> None)"

interpretation pgGuard: id_guard "stepOf {m. \<exists>dt T. m = pg_reconcile E dt T}" "pgCreated E" pgID "\<lambda>s. pgDeleted s \<noteq> None" for E
  by (rule pgr.guarded) (auto intro: grows_pg_reconcile settles_pg_reconcile)


section \<open>Firewalls\<close>

text \<open>How often the history shows a request to create a Cloud Firewall that was answered with one and without an error.\<close>

fun fwCreated :: "env \<Rightarrow> hist \<Rightarrow> nat" where
  "fwCreated E [] = 0"
| "fwCreated E (c # h) = (case c of
     FW (CCreateFirewall name rules) \<Rightarrow> (case fwe_CreateFirewall (fwe E) h name rules of (Some _, None) \<Rightarrow> 1 | _ \<Rightarrow> 0)
   | _ \<Rightarrow> 0) + fwCreated E h"

definition createsFW :: "call \<Rightarrow> bool" where
  "createsFW c = (case c of FW (CCreateFirewall _ _) \<Rightarrow> True | _ \<Rightarrow> False)"

abbreviation fwID :: "FirewallScope \<Rightarrow> int option" where
  "fwID s \<equiv> fw_FirewallID (lfw_Spec (fs_LinodeFirewall s))"

abbreviation fwDeleted :: "FirewallScope \<Rightarrow> gotime option" where
  "fwDeleted s \<equiv> om_DeletionTimestamp (lfw_Meta (fs_LinodeFirewall s))"

interpretation fwr: creator createsFW "fwCreated E" fwID fwDeleted for E
  by unfold_locales (auto simp: createsFW_def split: call.splits firewall_call.splits)

lemma createsFW_simps [simp]:
  "\<not> createsFW (K8s x)" "\<not> createsFW (Runtime r)" "\<not> createsFW (SetToken tk)" "\<not> createsFW NewLinodeClient"
  "\<not> createsFW (FW (CGetFirewall i))" "\<not> createsFW (FW (CListFirewalls f))" "\<not> createsFW (FW (CDeleteFirewall i))"
  "\<not> createsFW (FW (CUpdateFirewall i st))" "\<not> createsFW (FW (CUpdateFirewallRules i rules))"
  by (simp_all add: createsFW_def)

lemma plain_not_createsFW: "isPlain c \<Longrightarrow> \<not> createsFW c"
  by (auto simp: isPlain_def isK8s_def isRuntime_def createsFW_def split: call.splits)

lemma isK8s_not_createsFW: "isK8s c \<Longrightarrow> \<not> createsFW c"
  by (rule plain_not_createsFW) (simp add: isPlain_def)

lemmas fw_begun_K8s = fwr.begun_calm [OF _ isK8s_not_createsFW]

lemmas begun_fw = calm_scope_creds(1-3) [THEN fw_begun_K8s] calm_scope_close(1) [THEN fw_begun_K8s]

lemma begun_fwRuntime:
  "keeps fwr.begun (fwSetCondition E c)"
  "keeps fwr.begun (WithJitter E d)"
  "keeps fwr.begun (HasStaleCondition E rc d)"
  "keeps fwr.begun (withinDeletion E ts d)"
  "keeps fwr.begun (FirewallScope_AddFinalizer E)"
  by (rule keepsI; simp add: wp_rules WithJitter_def HasStaleCondition_def FirewallScope_AddFinalizer_def FirewallScope_Close_def LinodeFirewall_SetCondition_def
      fwr.begun_def adds_def split: option.split prod.split)+

text \<open>The spec that \<open>processACL\<close> leaves has the ID it had.\<close>

lemma wp_processACL_ID: "wp (processACL E ns spec) (\<lambda>x _. fw_FirewallID (fst x) = fw_FirewallID spec) s"
proof -
  have any: "wp (mapAccumE f xs r) (\<lambda>_ _. True) u" for f xs r u by (simp add: wp_def split: prod.split)
  show ?thesis
    unfolding processACL_def Let_def
    by (rule wp_seq [OF any] | simp add: wp_return split: prod.split sum.split; intro allI impI)+
qed

lemma grows_createFirewall: "fwr.grows E (createFirewall E cfg)"
  by (auto simp: fwr.grows_def fwr.grew_def createFirewall_def wp_rules Let_def Filter_String_def Filter_MarshalJSON_def
      split: sum.split option.split list.split prod.split)

lemma begun_updateFirewall: "keeps fwr.begun (updateFirewall E i cfg)"
  unfolding updateFirewall_def
  by (intro fwr.beginning.keeps_all keeps_case fwr.begun_perform; simp)

lemma begun_fw_failed: "keeps fwr.begun (fw_reconcileFailed E T rs e)"
  unfolding fw_reconcileFailed_def
  by (intro fwr.beginning.keeps_all keeps_case begun_fwRuntime)

lemma begun_fw_deferred: "keeps fwr.begun (fw_deferred E body)"
  unfolding fw_deferred_def
  by (intro fwr.beginning.keeps_all keeps_case begun_fw begun_fwRuntime fwr.begun_modObj; simp)

lemma fw_delete_creates_none: "keeps (adds (\<lambda>c. \<not> createsFW c)) (fw_reconcileDelete E T)"
  unfolding fw_reconcileDelete_def fwRemoveFinalizer_def
  by (intro adds_rules keeps_case fwr.holds_adds [OF fwr.begun_holds] begun_fw begun_fwRuntime; simp)

text \<open>What \<open>reconcileFirewall\<close> does with the rules: the ID of the spec decides between a creation and an update.\<close>

definition applyRules :: "env \<Rightarrow> LinodeFirewallSpec \<Rightarrow> LFirewallRules res \<Rightarrow> (FirewallScope, error option) op" where
  "applyRules E spec acl = (case acl of Inl err \<Rightarrow> ret (Some err)
     | Inr fwConfig \<Rightarrow> do {
         r \<leftarrow> (case fw_FirewallID spec of None \<Rightarrow> createFirewall E fwConfig | Some i \<Rightarrow> updateFirewall E i fwConfig);
         case r of
           Inl err \<Rightarrow> ret (Some err)
         | Inr linodeFW \<Rightarrow>
             perform (FW (CUpdateFirewall (lf_ID linodeFW) (fwStatus spec))) (\<lambda>h. fwe_UpdateFirewall (fwe E) h (lf_ID linodeFW) (fwStatus spec))
       })"

lemma wp_reconcileFirewall_rules:
  assumes "\<And>spec acl t. fwr.begun s t \<Longrightarrow> fw_FirewallID spec = fwID (obj s) \<Longrightarrow> wp (applyRules E spec acl) (\<lambda>_ u. Q u) t"
  shows "wp (reconcileFirewall E) (\<lambda>_ u. Q u) s"
proof -
  have acl: "wp (processACL E ns spec) (\<lambda>x t. fw_FirewallID (fst x) = fw_FirewallID spec \<and> calm isPlain u t) u" for ns spec u
    by (rule wp_conjI [OF wp_processACL_ID wp_calm [OF calm_processACL]])
  show ?thesis
    unfolding reconcileFirewall_def applyRules_def [symmetric] wp_bind wp_update wp_get wp_return
    by (rule wp_mono [OF acl], clarsimp simp: wp_bind wp_update, rule assms)
      (auto simp: fwr.begun_def calm_def adds_def dest: plain_not_createsFW)
qed

lemma grows_reconcileFirewall: "fwr.grows E (reconcileFirewall E)"
  unfolding fwr.grows_def
proof (intro allI, rule wp_reconcileFirewall_rules)
  fix s t :: "FirewallScope world" and spec :: LinodeFirewallSpec and acl assume b: "fwr.begun s t"
  have "fwr.grows E (applyRules E spec acl)"
    unfolding applyRules_def
    by (rule fwr.grows_cases fwr.grows_keeps [OF adds.keeps_return] fwr.grows_after grows_createFirewall
        fwr.grows_keeps [OF fwr.holds_adds [OF fwr.begun_holds [OF begun_updateFirewall]]] keeps_case fwr.holding.keeps_return
        fwr.begun_holds [OF fwr.begun_perform] | simp)+
  then have "wp (applyRules E spec acl) (\<lambda>_ u. fwr.grew E t u) t" by (simp add: fwr.grows_def)
  moreover have "fwCreated E (tr t) = fwCreated E (tr s)" using b by (auto simp: fwr.begun_def dest: fwr.count_adds)
  ultimately show "wp (applyRules E spec acl) (\<lambda>_ u. fwr.grew E s u) t" by (simp add: fwr.grew_def)
qed

lemma settles_reconcileFirewall:
  assumes "fwID (obj s) \<noteq> None"
  shows "fwr.settles s (reconcileFirewall E)"
  unfolding fwr.settles_def
proof (intro allI impI, rule wp_reconcileFirewall_rules)
  fix t u :: "FirewallScope world" and spec :: LinodeFirewallSpec and acl
  assume b: "fwr.begun s t" "fwr.begun t u" and i: "fw_FirewallID spec = fwID (obj t)"
  obtain k where k: "fw_FirewallID spec = Some k" using assms b(1) i by (auto simp: fwr.begun_def)
  have "keeps fwr.begun (applyRules E spec acl)"
    unfolding applyRules_def k option.case
    by (intro fwr.beginning.keeps_all keeps_case begun_updateFirewall fwr.begun_perform; simp)
  from keeps_wp [OF this] show "wp (applyRules E spec acl) (\<lambda>_ v. fwr.settled s v) u"
    by (rule wp_mono) (use b in \<open>blast intro: fwr.begun_settled dest: fwr.begun_trans\<close>)
qed

lemma fw_after_reconcile:
  "keeps fwr.holds (case err of
       None \<Rightarrow> do { _ \<leftarrow> modFW (lfw_Status_update (fw_Ready_update (\<lambda>_. True))); ret x }
     | Some e \<Rightarrow> do { r \<leftarrow> fw_reconcileFailed E T rs e; ret (r, rs) })"
  by (intro fwr.begun_holds keeps_case fwr.beginning.keeps_all fwr.begun_modObj begun_fw_failed; simp)

lemma grows_fw_reconcile: "fwr.grows E (fw_reconcile E T)"
proof -
  note calmly = fwr.holds_adds [OF fwr.begun_holds]
  have read: "keeps (adds P) theFW" for P by (intro adds_rules)
  have del: "fwr.grows E (do { r \<leftarrow> fw_reconcileDelete E T; ret (r, x) })" for x :: string
    by (intro fwr.grows_keeps adds_rules fw_delete_creates_none)
  have failed: "fwr.grows E (do { _ \<leftarrow> fwSetCondition E c; ret x })" for c and x :: "outcome \<times> string"
    by (intro fwr.grows_keeps adds_rules calmly [OF begun_fwRuntime(1)])
  have "fwr.grows E (fw_reconcileBody E T)"
    unfolding fw_reconcileBody_def Let_def
    by (intro fwr.grows_after [OF grows_reconcileFirewall fw_after_reconcile] fwr.grows_before [OF calmly [OF begun_fw(3)]] fwr.grows_before [OF calmly [OF begun_fwRuntime(5)]]
       fwr.grows_before [OF read] fwr.grows_before [OF keeps_case(1)] adds.keeps_return calmly [OF begun_fw(1)] fwr.grows_if fwr.grows_cases
       fwr.grows_keeps [OF adds.keeps_return] del failed)
  then have body: "fwr.grows E (do { body \<leftarrow> fw_reconcileBody E T; fw_deferred E body })"
    by (rule fwr.grows_after) (rule fwr.begun_holds [OF begun_fw_deferred])
  show ?thesis
    unfolding fw_reconcile_def by (rule fwr.grows_before adds_modify body | simp)+
qed

lemma settles_fw_reconcile:
  assumes some: "fwDeleted (obj s) \<noteq> None \<or> fwID (obj s) \<noteq> None"
  shows "fwr.settles s (fw_reconcile E T)"
proof -
  have same: "fwDeleted (obj t) = fwDeleted (obj s)" if "fwr.begun s t" for t
    using that by (simp add: fwr.begun_def)
  have del: "fwr.settles s (do { r \<leftarrow> fw_reconcileDelete E T; ret (r, x) })" if "fwDeleted (obj s) \<noteq> None" for x :: string
    by (intro fwr.settles_deleting that adds_rules fw_delete_creates_none)
  have failed: "fwr.settles s (do { _ \<leftarrow> fwSetCondition E c; ret x })" for c and x :: "outcome \<times> string"
    by (intro fwr.settles_keeps fwr.beginning.keeps_all begun_fwRuntime)
  have settle: "fwr.settles s (case e2 of
       None \<Rightarrow> State_Monad.bind (reconcileFirewall E) (\<lambda>err. case err of
           None \<Rightarrow> do { _ \<leftarrow> modFW (lfw_Status_update (fw_Ready_update (\<lambda>_. True))); ret x }
         | Some e \<Rightarrow> do { r \<leftarrow> fw_reconcileFailed E T rs e; ret (r, rs) })
     | Some e \<Rightarrow> do { _ \<leftarrow> fwSetCondition E (c e); ret y })" if "fwDeleted (obj s) = None" for e2 x y c rs
    using that some by (cases e2) (auto intro!: failed fwr.settles_then [OF settles_reconcileFirewall fw_after_reconcile])
  have "fwr.settles s (fw_reconcileBody E T)"
    unfolding fw_reconcileBody_def Let_def
  proof (intro fwr.settles_bind [OF begun_fw(3)] fwr.settles_if fwr.settles_keeps [OF fwr.beginning.keeps_return] fwr.settles_gets
      fwr.settles_bind [OF begun_fwRuntime(5)] fwr.settles_bind [OF keeps_case(1)] fwr.beginning.keeps_return begun_fw(1) del settle)
  qed (simp_all add: same)
  then have body: "fwr.settles s (do { body \<leftarrow> fw_reconcileBody E T; fw_deferred E body })"
    by (rule fwr.settles_then [OF _ fwr.begun_holds [OF begun_fw_deferred] some])
  show ?thesis
    unfolding fw_reconcile_def by (rule body fwr.settles_bind fwr.begun_modObj | simp)+
qed

abbreviation fwRuns :: "env \<Rightarrow> int option \<Rightarrow> bool \<Rightarrow> hist \<Rightarrow> nat \<Rightarrow> bool" where
  "fwRuns E \<equiv> runs (stepOf {m. \<exists>T. m = fw_reconcile E T}) (fwCreated E) fwID (\<lambda>s. fwDeleted s \<noteq> None)"

interpretation fwGuard: id_guard "stepOf {m. \<exists>T. m = fw_reconcile E T}" "fwCreated E" fwID "\<lambda>s. fwDeleted s \<noteq> None" for E
  by (rule fwr.guarded) (auto intro: grows_fw_reconcile settles_fw_reconcile)


section \<open>Properties\<close>

text \<open>
C22: However often a new placement group is reconciled, in whatever order the services fail and whoever else works
on the API meanwhile, its reconciliations are granted at most one group in all, provided that the ID they leave
in the spec is stored; and from then on the resource has an ID until it is deleted.
\<close>

theorem pg_one_group:
  assumes "pgRuns E i del h n"
  shows "n \<le> 1 \<and> (n = 0 \<or> del \<or> i \<noteq> None)"
  using pgGuard.at_most_one [OF assms] by auto

definition newPG :: PlacementGroupScope where
  "newPG = ps_LinodePlacementGroup_update (\<lambda>p. p\<lparr>lpg_Meta := meta0, lpg_Spec := (lpg_Spec p)\<lparr>pg_PGID := None\<rparr>\<rparr>) pgScope1"

definition envPG :: env where
  "envPG = env0\<lparr>pge := pge0\<lparr>pge_ListPlacementGroups := \<lambda>_ _. Inr [],
     pge_CreatePlacementGroup := \<lambda>_ _. (Some \<lparr>lpgr_ID = 4, lpgr_Members = []\<rparr>, None)\<rparr>\<rparr>"

definition pgFirst :: "PlacementGroupScope world" where
  "pgFirst = snd (State_Monad.run_state (pg_reconcile envPG (\<lambda>_. []) 0) (start newPG))"

lemma pgFirst_reached: "pgRuns envPG (pgID (obj pgFirst)) False (tr pgFirst) (pgCreated envPG (tr pgFirst))"
  using runs_first [of "pg_reconcile envPG (\<lambda>_. []) 0" "{m. \<exists>dt T. m = pg_reconcile envPG dt T}" pgID newPG "pgCreated envPG" "\<lambda>s. pgDeleted s \<noteq> None"]
  by (auto simp: pgFirst_def newPG_def meta0_def)

lemma pgFirst_created: "pgCreated envPG (tr pgFirst) = 1"
proof -
  have "wp (pg_reconcile envPG (\<lambda>_. []) 0) (\<lambda>_ t. pgCreated envPG (tr t) = 1) (start newPG)"
    by (simp add: pg_reconcile_def pg_reconcileBody_def pg_reconcileCreate_def reconcilePlacementGroup_def pg_deferred_def scope_cred_defs
        PlacementGroupScope_AddFinalizer_def PlacementGroupScope_Close_def linodePlacementGroupSpecToPGCreateConfig_def Filter_String_def
        Filter_MarshalJSON_def filterOf_def newPG_def pgScope1_def envPG_def env0_defs meta0_def wp_rules Let_def)
  then show ?thesis by (simp add: pgFirst_def wp_def split: prod.splits)
qed

theorem pg_one_group_witness: "(1::nat) \<le> 1 \<and> ((1::nat) = 0 \<or> False \<or> pgID (obj pgFirst) \<noteq> None)"
  using pg_one_group [OF pgFirst_reached] unfolding pgFirst_created .

text \<open>
C23: However often a new firewall is reconciled, in whatever order the services fail and whoever else works on the
API meanwhile, its reconciliations are granted at most one Cloud Firewall in all, provided that the ID they leave
in the spec is stored; and from then on the resource has an ID until it is deleted.
\<close>

theorem fw_one_firewall:
  assumes "fwRuns E i del h n"
  shows "n \<le> 1 \<and> (n = 0 \<or> del \<or> i \<noteq> None)"
  using fwGuard.at_most_one [OF assms] by auto

definition newFW :: FirewallScope where
  "newFW = fs_LinodeFirewall_update (lfw_Spec_update (\<lambda>spec. spec\<lparr>fw_InboundRules := [], fw_InboundRuleRefs := [], fw_OutboundRules := [],
     fw_OutboundRuleRefs := [], fw_FirewallID := None\<rparr>)) fwScope1"

definition fwFirst :: "FirewallScope world" where
  "fwFirst = snd (State_Monad.run_state (fw_reconcile env0 0) (start newFW))"

lemma fwFirst_reached: "fwRuns env0 (fwID (obj fwFirst)) False (tr fwFirst) (fwCreated env0 (tr fwFirst))"
  using runs_first [of "fw_reconcile env0 0" "{m. \<exists>T. m = fw_reconcile env0 T}" fwID newFW "fwCreated env0" "\<lambda>s. fwDeleted s \<noteq> None"]
  by (auto simp: fwFirst_def newFW_def fwScope1_def meta0_def)

lemma fwFirst_created: "fwCreated env0 (tr fwFirst) = 1"
proof -
  have "wp (fw_reconcile env0 0) (\<lambda>_ t. fwCreated env0 (tr t) = 1) (start newFW)"
    by (simp add: fw_reconcile_def fw_reconcileBody_def reconcileFirewall_def processACL_def createFirewall_def fw_deferred_def scope_cred_defs
        FirewallScope_AddFinalizer_def FirewallScope_Close_def newFW_def fwScope1_def fwSpec1_def noRules_def fw_limits env0_defs meta0_def
        wp_rules Let_def)
  then show ?thesis by (simp add: fwFirst_def wp_def split: prod.splits)
qed

theorem fw_one_firewall_witness: "(1::nat) \<le> 1 \<and> ((1::nat) = 0 \<or> False \<or> fwID (obj fwFirst) \<noteq> None)"
  using fw_one_firewall [OF fwFirst_reached] unfolding fwFirst_created .

end
