(* ===== verification/Vpc.thy ===== *)
theory Vpc
  imports Reconcile
begin

text \<open>
  The VPC controller: \<open>internal/controller/linodevpc_controller_helpers.go\<close> (creating a VPC, adopting an
  existing one and its subnets) and \<open>linodevpc_controller.go\<close> (the reconciler and the deletion, with
  retained VPCs and subnets).
\<close>

abbreviation theVPC :: "(VPCScope, LinodeVPC) op" where
  "theVPC \<equiv> gets (\<lambda>w. vs_LinodeVPC (obj w))"

abbreviation modVPC :: "(LinodeVPC \<Rightarrow> LinodeVPC) \<Rightarrow> (VPCScope, unit) op" where
  "modVPC f \<equiv> modObj (vs_LinodeVPC_update f)"

abbreviation vpcOf :: "VPCScope world \<Rightarrow> LinodeVPC" where
  "vpcOf w \<equiv> vs_LinodeVPC (obj w)"


section \<open>Creating and adopting\<close>

definition vpcIPv6Option :: "VPCCreateOptionsIPv6 \<Rightarrow> LVPCIPv6CreateOptions" where
  "vpcIPv6Option ipv6 =
     (let c0 = None; c1 = (if vo6_AllocationClassLegacy ipv6 \<noteq> None then vo6_AllocationClassLegacy ipv6 else c0);
          c2 = (if vo6_AllocationClass ipv6 \<noteq> None then vo6_AllocationClass ipv6 else c1)
      in \<lparr>lvo6_Range = vo6_Range ipv6, lvo6_AllocationClass = c2\<rparr>)"

definition subnetCreateOption :: "VPCSubnetCreateOptions \<Rightarrow> LSubnetCreateOptions" where
  "subnetCreateOption sn = \<lparr>lso_Label = sn_Label sn, lso_IPv4 = sn_IPv4 sn, lso_IPv6 = map vs6_Range (sn_IPv6Range sn)\<rparr>"

definition linodeVPCSpecToVPCCreateConfig :: "LinodeVPCSpec \<Rightarrow> LVPCCreateOptions option" where
  "linodeVPCSpecToVPCCreateConfig vpcSpec =
     Some \<lparr>lvo_Label = [], lvo_Description = vpc_Description vpcSpec, lvo_Region = vpc_Region vpcSpec,
       lvo_Subnets = map subnetCreateOption (vpc_Subnets vpcSpec), lvo_IPv6 = map vpcIPv6Option (vpc_IPv6Range vpcSpec),
       lvo_IPv4 = vpc_IPv4Range vpcSpec\<rparr>"

definition setVPCFields :: "LVPC \<Rightarrow> LinodeVPCSpec \<Rightarrow> LinodeVPCSpec" where
  "setVPCFields linodeVPC vpc = vpc\<lparr>vpc_VPCID := Some (lvpc_ID linodeVPC),
     vpc_IPv6 := map (\<lambda>r. \<lparr>r6_Range = r6_Range r\<rparr>) (lvpc_IPv6 linodeVPC),
     vpc_IPv4 := map (\<lambda>r. \<lparr>r4_Range = r4_Range r\<rparr>) (lvpc_IPv4 linodeVPC)\<rparr>"

definition setSubnetFields :: "LSubnet \<Rightarrow> VPCSubnetCreateOptions \<Rightarrow> VPCSubnetCreateOptions" where
  "setSubnetFields vpcSubnet subnet = subnet\<lparr>sn_SubnetID := lsn_ID vpcSubnet,
     sn_IPv6 := map (\<lambda>r. \<lparr>r6_Range = r6_Range r\<rparr>) (lsn_IPv6 vpcSubnet)\<rparr>"

definition updateVPCSpecSubnets :: "LVPC \<Rightarrow> LinodeVPCSpec \<Rightarrow> LinodeVPCSpec" where
  "updateVPCSpecSubnets vpc spec = spec\<lparr>vpc_Subnets :=
     map (\<lambda>sn. case find (\<lambda>v. sn_Label sn = lsn_Label v) (lvpc_Subnets vpc) of
                 None \<Rightarrow> sn | Some v \<Rightarrow> setSubnetFields v sn) (vpc_Subnets spec)\<rparr>"

text \<open>The maps by label and by ID: a later subnet replaces an earlier one with the same key.\<close>

definition subnetsByLabel :: "LSubnet list \<Rightarrow> string \<rightharpoonup> LSubnet" where
  "subnetsByLabel sns = fold (\<lambda>sn m. m(lsn_Label sn \<mapsto> sn)) sns Map.empty"

definition subnetsById :: "LSubnet list \<Rightarrow> int \<rightharpoonup> LSubnet" where
  "subnetsById sns = fold (\<lambda>sn m. m(lsn_ID sn \<mapsto> sn)) sns Map.empty"

definition adoptSubnet ::
  "env \<Rightarrow> int \<Rightarrow> LSubnet list \<Rightarrow> VPCSubnetCreateOptions \<Rightarrow> unit \<Rightarrow> ('o, VPCSubnetCreateOptions \<times> unit res) op" where
  "adoptSubnet E vpcID sns subnet _ =
     (if sn_SubnetID subnet \<noteq> 0 then
        ret (case subnetsById sns (sn_SubnetID subnet) of
               None \<Rightarrow> subnet
             | Some c \<Rightarrow> subnet\<lparr>sn_Label := lsn_Label c, sn_IPv6 := lsn_IPv6 c, sn_IPv4 := lsn_IPv4 c\<rparr>, Inr ())
      else (case subnetsByLabel sns (sn_Label subnet) of
        Some c \<Rightarrow> ret (subnet\<lparr>sn_SubnetID := lsn_ID c, sn_IPv6 := lsn_IPv6 c, sn_IPv4 := lsn_IPv4 c\<rparr>, Inr ())
      | None \<Rightarrow> do {
          let opts = subnetCreateOption subnet;
          r \<leftarrow> perform (VPC (CCreateVPCSubnet opts vpcID)) (\<lambda>h. vpe_CreateVPCSubnet (vpe E) h opts vpcID);
          ret (case r of Inl err \<Rightarrow> (subnet, Inl err) | Inr newSubnet \<Rightarrow> (setSubnetFields newSubnet subnet, Inr ()))
        }))"

definition reconcileExistingVPC :: "env \<Rightarrow> LVPC \<Rightarrow> (VPCScope, error option) op" where
  "reconcileExistingVPC E vpc = do {
     _ \<leftarrow> modVPC (lv_Spec_update (setVPCFields vpc));
     v \<leftarrow> theVPC;
     let ranges = vpc_IPv4Range (lv_Spec v);
     upd \<leftarrow> (if ranges \<noteq> [] then perform (VPC (CUpdateVPC (lvpc_ID vpc) ranges)) (\<lambda>h. vpe_UpdateVPC (vpe E) h (lvpc_ID vpc) ranges)
             else ret None);
     case upd of
       Some err \<Rightarrow> ret (Some err)
     | None \<Rightarrow> do {
         (sns, r) \<leftarrow> mapAccumE (adoptSubnet E (lvpc_ID vpc) (lvpc_Subnets vpc)) (vpc_Subnets (lv_Spec v)) ();
         _ \<leftarrow> modVPC (lv_Spec_update (vpc_Subnets_update (\<lambda>_. sns)));
         ret (errOf r)
       }
   }"

definition reconcileVPC :: "env \<Rightarrow> (VPCScope, error option) op" where
  "reconcileVPC E = do {
     v \<leftarrow> theVPC;
     case linodeVPCSpecToVPCCreateConfig (lv_Spec v) of
       None \<Rightarrow> ret (Some (ErrNew ''failed to convert VPC spec to create VPC config''))
     | Some createConfig0 \<Rightarrow> do {
         let createConfig = createConfig0\<lparr>lvo_Label := om_Name (lv_Meta v)\<rparr>;
         let vpcID = vpc_VPCID (lv_Spec v);
         case Filter_String (filterOf vpcID (if vpcID = None then om_Name (lv_Meta v) else []) []) of
           Inl err \<Rightarrow> ret (Some err)
         | Inr flt \<Rightarrow> do {
             r \<leftarrow> perform (VPC (CListVPCs flt)) (\<lambda>h. vpe_ListVPCs (vpe E) h flt);
             case r of
               Inl err \<Rightarrow> ret (Some err)
             | Inr (vpc # _) \<Rightarrow> reconcileExistingVPC E vpc
             | Inr [] \<Rightarrow> do {
                 c \<leftarrow> perform (VPC (CCreateVPC createConfig)) (\<lambda>h. vpe_CreateVPC (vpe E) h createConfig);
                 case c of
                   Inl err \<Rightarrow> ret (Some err)
                 | Inr vpc \<Rightarrow> do {
                     _ \<leftarrow> modVPC (lv_Spec_update (\<lambda>sp. updateVPCSpecSubnets vpc (setVPCFields vpc sp)));
                     ret None
                   }
               }
           }
       }
   }"

definition getVPC :: "env \<Rightarrow> (VPCScope, LVPC res) op" where
  "getVPC E = do {
     v \<leftarrow> theVPC;
     case vpc_VPCID (lv_Spec v) of
       None \<Rightarrow> ret (Inl (ErrSentinel ErrVPCNotFound))
     | Some i \<Rightarrow> do {
         r \<leftarrow> perform (VPC (CGetVPC i)) (\<lambda>h. vpe_GetVPC (vpe E) h i);
         ret (case r of
                Inl err \<Rightarrow> if IgnoreLinodeAPIError E (Some err) [StatusNotFound] = None then Inl (ErrSentinel ErrVPCNotFound) else Inl err
              | Inr vpc \<Rightarrow> Inr vpc)
       }
   }"


section \<open>The reconciler\<close>

definition vpcSetCondition :: "env \<Rightarrow> Condition \<Rightarrow> (VPCScope, unit) op" where
  "vpcSetCondition E c = do { now \<leftarrow> timeNow E; modVPC (LinodeVPC_SetCondition now c) }"

definition vpcRemoveFinalizer :: "env \<Rightarrow> string \<Rightarrow> (VPCScope, unit) op" where
  "vpcRemoveFinalizer E f = modVPC (lv_Meta_update (om_Finalizers_update (\<lambda>fs. lib_RemoveFinalizer (lib E) fs f)))"

definition vpcReadyFalse :: "env \<Rightarrow> string \<Rightarrow> string \<Rightarrow> (VPCScope, unit) op" where
  "vpcReadyFalse E reason msg = vpcSetCondition E (mkCond ReadyCondition statusFalse reason msg)"

definition vpcDeleting :: "env \<Rightarrow> duration \<Rightarrow> duration \<Rightarrow> (VPCScope, bool) op" where
  "vpcDeleting E reconcileTimeout backup = do {
     v \<leftarrow> theVPC;
     withinDeletion E (om_DeletionTimestamp (lv_Meta v)) (DefaultTimeout reconcileTimeout backup)
   }"

definition vpc_reconcileCreate :: "env \<Rightarrow> (VPCScope, error option) op" where
  "vpc_reconcileCreate E = do {
     e1 \<leftarrow> VPCScope_AddCredentialsRefFinalizer E;
     case e1 of
       Some err \<Rightarrow> do { _ \<leftarrow> vpcReadyFalse E CreateVPCError (errText err); ret e1 }
     | None \<Rightarrow> do {
         e2 \<leftarrow> reconcileVPC E;
         case e2 of
           Some err \<Rightarrow> do { _ \<leftarrow> vpcReadyFalse E CreateVPCError (errText err); ret e2 }
         | None \<Rightarrow> do { _ \<leftarrow> modVPC (lv_Status_update (vpc_Ready_update (\<lambda>_. True))); ret None }
       }
   }"

definition vpc_reconcileUpdate :: "env \<Rightarrow> (VPCScope, error option) op" where
  "vpc_reconcileUpdate E = do {
     e \<leftarrow> reconcileVPC E;
     case e of
       Some err \<Rightarrow> do { _ \<leftarrow> vpcReadyFalse E UpdateVPCError (errText err); ret e }
     | None \<Rightarrow> do { _ \<leftarrow> modVPC (lv_Status_update (vpc_Ready_update (\<lambda>_. True))); ret None }
   }"

definition reconcileAgainOr :: "env \<Rightarrow> duration \<Rightarrow> error \<Rightarrow> (VPCScope, error option) op" where
  "reconcileAgainOr E reconcileTimeout err = do {
     again \<leftarrow> vpcDeleting E reconcileTimeout DefaultVPCControllerReconcileTimeout;
     ret (if again then Some (ErrSentinel ErrReconcileAgain) else Some err)
   }"

definition deleteRetainedSubnet :: "env \<Rightarrow> duration \<Rightarrow> LVPC \<Rightarrow> VPCSubnetCreateOptions \<Rightarrow> (VPCScope, unit res) op" where
  "deleteRetainedSubnet E reconcileTimeout vpc subnet = do {
     v \<leftarrow> theVPC;
     let sid = sn_SubnetID subnet;
     if sn_Retain subnet then ret (Inr ())
     else if (case subnetsById (lvpc_Subnets vpc) sid of None \<Rightarrow> False | Some a \<Rightarrow> lsn_Linodes a \<noteq> []) then do {
       again \<leftarrow> vpcDeleting E reconcileTimeout DefaultVPCControllerWaitForHasNodesTimeout;
       if again then ret (Inl (ErrSentinel ErrReconcileAgain))
       else do {
         let msg = ''will not delete subnet '' @ Itoa sid @ '' with node(s) attached'';
         _ \<leftarrow> vpcReadyFalse E ''NotDeleting'' msg;
         ret (Inl (ErrNew msg))
       }
     }
     else do {
       let vid = the (vpc_VPCID (lv_Spec v));
       deleteErr \<leftarrow> perform (VPC (CDeleteVPCSubnet vid sid)) (\<lambda>h. vpe_DeleteVPCSubnet (vpe E) h vid sid);
       case IgnoreLinodeAPIError E deleteErr [StatusNotFound] of
         None \<Rightarrow> ret (Inr ())
       | Some err \<Rightarrow> do { r \<leftarrow> reconcileAgainOr E reconcileTimeout err; ret (Inl (the r)) }
     }
   }"

definition handleRetainedSubnets :: "env \<Rightarrow> duration \<Rightarrow> (VPCScope, error option) op" where
  "handleRetainedSubnets E reconcileTimeout = do {
     r \<leftarrow> getVPC E;
     case r of
       Inl err \<Rightarrow> if errIs err ErrVPCNotFound then ret None else reconcileAgainOr E reconcileTimeout err
     | Inr vpc \<Rightarrow> do {
         v \<leftarrow> theVPC;
         q \<leftarrow> forE (vpc_Subnets (lv_Spec v)) (deleteRetainedSubnet E reconcileTimeout vpc);
         ret (errOf q)
       }
   }"

definition GroupVersionString :: string where
  "GroupVersionString = ''infrastructure.cluster.x-k8s.io/v1alpha2''"

text \<open>The end of both ways to delete: give up the credentials and then the finalizers.\<close>

definition vpcReleaseFinalizers :: "env \<Rightarrow> duration \<Rightarrow> (VPCScope, outcome) op" where
  "vpcReleaseFinalizers E reconcileTimeout = do {
     e \<leftarrow> VPCScope_RemoveCredentialsRefFinalizer E;
     if e \<noteq> None then do {
       again \<leftarrow> vpcDeleting E reconcileTimeout DefaultVPCControllerReconcileTimeout;
       if again then do { d \<leftarrow> WithJitter E DefaultVPCControllerReconcileDelay; ret (requeue d, None) }
       else ret (noResult, e)
     }
     else do {
       _ \<leftarrow> vpcRemoveFinalizer E VPCFinalizer;
       v \<leftarrow> theVPC;
       _ \<leftarrow> (if lib_ContainsFinalizer (lib E) (om_Finalizers (lv_Meta v)) GroupVersionString
            then vpcRemoveFinalizer E GroupVersionString else ret ());
       ret (noResult, None)
     }
   }"

definition requeueIfAgain :: "env \<Rightarrow> error \<Rightarrow> ('o, outcome) op" where
  "requeueIfAgain E err =
     (if errIs err ErrReconcileAgain then do { d \<leftarrow> WithJitter E DefaultVPCControllerReconcileDelay; ret (requeue d, None) }
      else ret (noResult, Some err))"

definition handleRetainedVPC :: "env \<Rightarrow> duration \<Rightarrow> (VPCScope, outcome) op" where
  "handleRetainedVPC E reconcileTimeout = do {
     e \<leftarrow> handleRetainedSubnets E reconcileTimeout;
     case e of
       Some err \<Rightarrow> requeueIfAgain E err
     | None \<Rightarrow> do {
         _ \<leftarrow> vpcReadyFalse E ''NotDeleting'' ''VPC retained as requested, associated cloud resource was not deleted.'';
         vpcReleaseFinalizers E reconcileTimeout
       }
   }"

definition deleteVPCResources :: "env \<Rightarrow> duration \<Rightarrow> (VPCScope, error option) op" where
  "deleteVPCResources E reconcileTimeout = do {
     r \<leftarrow> getVPC E;
     case r of
       Inl err \<Rightarrow> if errIs err ErrVPCNotFound then ret None else reconcileAgainOr E reconcileTimeout err
     | Inr vpc \<Rightarrow>
         if \<exists>sn\<in>set (lvpc_Subnets vpc). lsn_Linodes sn \<noteq> [] then do {
           now \<leftarrow> timeNow E;
           if now < lvpc_Updated vpc + DefaultTimeout reconcileTimeout DefaultVPCControllerWaitForHasNodesTimeout
           then ret (Some (ErrSentinel ErrReconcileAgain))
           else do {
             _ \<leftarrow> vpcReadyFalse E ''NotDeleting'' ''skipped due to node(s) attached'';
             ret (Some (ErrNew ''will not delete VPC with node(s) attached''))
           }
         }
         else do {
           v \<leftarrow> theVPC;
           let vid = the (vpc_VPCID (lv_Spec v));
           err \<leftarrow> perform (VPC (CDeleteVPC vid)) (\<lambda>h. vpe_DeleteVPC (vpe E) h vid);
           case err of
             None \<Rightarrow> ret None
           | Some e \<Rightarrow> if IgnoreLinodeAPIError E err [StatusNotFound] = None then ret None
                       else reconcileAgainOr E reconcileTimeout e
         }
   }"

definition vpc_reconcileDelete :: "env \<Rightarrow> duration \<Rightarrow> (VPCScope, outcome) op" where
  "vpc_reconcileDelete E reconcileTimeout = do {
     v \<leftarrow> theVPC;
     if vpc_Retain (lv_Spec v) then handleRetainedVPC E reconcileTimeout
     else do {
       e \<leftarrow> deleteVPCResources E reconcileTimeout;
       case e of
         Some err \<Rightarrow> requeueIfAgain E err
       | None \<Rightarrow> do {
           _ \<leftarrow> vpcReadyFalse E ''DeletionCompleted'' ''VPC deleted'';
           _ \<leftarrow> modVPC (lv_Spec_update (vpc_VPCID_update (\<lambda>_. None)));
           vpcReleaseFinalizers E reconcileTimeout
         }
     }
   }"

text \<open>The end of the create and of the update branch of \<open>reconcile\<close>.\<close>

definition vpcRequeueUnlessStale :: "env \<Rightarrow> duration \<Rightarrow> error option \<Rightarrow> (VPCScope, outcome) op" where
  "vpcRequeueUnlessStale E reconcileTimeout err =
     (if err = None then ret (noResult, None)
      else do {
        v \<leftarrow> theVPC;
        stale \<leftarrow> HasStaleCondition E (LinodeVPC_GetCondition ReadyCondition v)
                   (DefaultTimeout reconcileTimeout DefaultVPCControllerReconcileTimeout);
        if \<not> stale then do { d \<leftarrow> WithJitter E DefaultVPCControllerReconcileDelay; ret (requeue d, None) }
        else ret (noResult, err)
      })"

definition vpc_reconcileBody :: "env \<Rightarrow> duration \<Rightarrow> (VPCScope, outcome \<times> string) op" where
  "vpc_reconcileBody E reconcileTimeout = do {
     e0 \<leftarrow> VPCScope_SetCredentialRefToken E;
     if e0 \<noteq> None then ret ((noResult, e0), ''UnknownError'')
     else do {
     v \<leftarrow> theVPC;
     if om_DeletionTimestamp (lv_Meta v) \<noteq> None
     then do { r \<leftarrow> vpc_reconcileDelete E reconcileTimeout; ret (r, DeleteVPCError) }
     else do {
     e1 \<leftarrow> VPCScope_AddFinalizer E;
     if e1 \<noteq> None then ret ((noResult, e1), ''UnknownError'')
     else if vpc_VPCID (lv_Spec v) \<noteq> None then do {
       e2 \<leftarrow> vpc_reconcileUpdate E;
       r \<leftarrow> vpcRequeueUnlessStale E reconcileTimeout e2;
       ret (r, UpdateVPCError)
     }
     else do {
       e2 \<leftarrow> vpc_reconcileCreate E;
       r \<leftarrow> vpcRequeueUnlessStale E reconcileTimeout e2;
       ret (r, CreateVPCError)
     }
   }}}"

definition vpc_deferred :: "env \<Rightarrow> outcome \<times> string \<Rightarrow> (VPCScope, outcome) op" where
  "vpc_deferred E body = (case body of ((res, err), failureReason) \<Rightarrow> do {
     _ \<leftarrow> (case err of None \<Rightarrow> ret ()
          | Some e \<Rightarrow> do {
              _ \<leftarrow> modVPC (lv_Status_update (vpc_FailureReason_update (\<lambda>_. Some failureReason)));
              _ \<leftarrow> modVPC (lv_Status_update (vpc_FailureMessage_update (\<lambda>_. Some (errText e))));
              vpcReadyFalse E failureReason (errText e)
            });
     patchErr \<leftarrow> VPCScope_Close E;
     if patchErr \<noteq> None \<and> lib_FilterOutNotFound (lib E) (UnwrapError patchErr) \<noteq> None
     then ret (res, errors_Join [err, patchErr])
     else ret (res, err)
   })"

definition vpc_reconcile :: "env \<Rightarrow> duration \<Rightarrow> (VPCScope, outcome) op" where
  "vpc_reconcile E reconcileTimeout = do {
     _ \<leftarrow> modVPC (lv_Status_update (vpc_Ready_update (\<lambda>_. False)));
     _ \<leftarrow> modVPC (lv_Status_update (vpc_FailureReason_update (\<lambda>_. None)));
     _ \<leftarrow> modVPC (lv_Status_update (vpc_FailureMessage_update (\<lambda>_. Some [])));
     body \<leftarrow> vpc_reconcileBody E reconcileTimeout;
     vpc_deferred E body
   }"

definition vpc_Reconcile :: "env \<Rightarrow> duration \<Rightarrow> NamespacedName \<Rightarrow> (unit, outcome) op" where
  "vpc_Reconcile E reconcileTimeout req = do {
     r \<leftarrow> perform (K8s (KGet KVPC req)) (\<lambda>h. k_GetVPC (k8s E) h req);
     case r of
       Inl err \<Rightarrow> ret (noResult, IgnoreNotFound E (Some err))
     | Inr v0 \<Rightarrow> do {
         q \<leftarrow> linkCluster E (lv_Meta v0) (\<lambda>om. OVPC (v0\<lparr>lv_Meta := om\<rparr>));
         case q of
           Inl err \<Rightarrow> ret (noResult, Some err)
         | Inr (cluster, om) \<Rightarrow> do {
             let v = v0\<lparr>lv_Meta := om\<rparr>;
             sc \<leftarrow> NewVPCScope E (Some v) cluster;
             case sc of
               Inl err \<Rightarrow> ret (noResult, Some (ErrWrap ''failed to create VPC scope: '' err))
             | Inr scope \<Rightarrow> do {
                 p \<leftarrow> checkPaused E cluster om (OVPC v) (vpc_Conditions (lv_Status v));
                 case p of
                   Inl out \<Rightarrow> ret out
                 | Inr conds \<Rightarrow>
                     withScope (scope\<lparr>vs_LinodeVPC := LinodeVPC_SetConditions conds v\<rparr>) (vpc_reconcile E reconcileTimeout)
               }
           }
       }
   }"


section \<open>Safety of deletions\<close>

text \<open>
  The VPC that the newest \<open>GetVPC\<close> for the ID \<open>i\<close> returned, if the newest \<open>GetVPC\<close> of the history was for
  \<open>i\<close> and succeeded.
\<close>

fun seenVPC :: "env \<Rightarrow> hist \<Rightarrow> int \<Rightarrow> LVPC option" where
  "seenVPC E [] i = None"
| "seenVPC E (c # h) i = (case c of
     VPC (CGetVPC j) \<Rightarrow> (if i = j then (case vpe_GetVPC (vpe E) h i of Inl _ \<Rightarrow> None | Inr v \<Rightarrow> Some v) else None)
   | _ \<Rightarrow> seenVPC E h i)"

text \<open>A deletion is allowed by what the program has seen: no Linode is attached.\<close>

definition vpcDeleteOK :: "env \<Rightarrow> hist \<Rightarrow> int \<Rightarrow> bool" where
  "vpcDeleteOK E h i = (case seenVPC E h i of None \<Rightarrow> False | Some v \<Rightarrow> list_all (\<lambda>sn. lsn_Linodes sn = []) (lvpc_Subnets v))"

definition subnetDeleteOK :: "env \<Rightarrow> hist \<Rightarrow> int \<Rightarrow> int \<Rightarrow> bool" where
  "subnetDeleteOK E h i sid = (case seenVPC E h i of None \<Rightarrow> False
     | Some v \<Rightarrow> (case subnetsById (lvpc_Subnets v) sid of None \<Rightarrow> True | Some a \<Rightarrow> lsn_Linodes a = []))"

fun vpcSafe :: "env \<Rightarrow> hist \<Rightarrow> bool" where
  "vpcSafe E [] = True"
| "vpcSafe E (c # h) = (vpcSafe E h \<and> (case c of
     VPC (CDeleteVPC i) \<Rightarrow> vpcDeleteOK E h i
   | VPC (CDeleteVPCSubnet i sid) \<Rightarrow> subnetDeleteOK E h i sid
   | _ \<Rightarrow> True))"

definition deletesWholeVPC :: "call \<Rightarrow> bool" where
  "deletesWholeVPC c = (case c of VPC (CDeleteVPC _) \<Rightarrow> True | _ \<Rightarrow> False)"

lemma deletesWholeVPC_simps [simp]:
  "deletesWholeVPC (VPC (CDeleteVPC i))" "\<not> deletesWholeVPC (VPC (CGetVPC i))" "\<not> deletesWholeVPC (VPC (CDeleteVPCSubnet i j))"
  "\<not> deletesWholeVPC (Runtime r)" "\<not> deletesWholeVPC (K8s k)"
  by (simp_all add: deletesWholeVPC_def)

text \<open>Events that delete nothing are safe, and only \<open>GetVPC\<close> changes what was seen.\<close>

definition deletesVPC :: "call \<Rightarrow> bool" where
  "deletesVPC c = (case c of VPC (CDeleteVPC _) \<Rightarrow> True | VPC (CDeleteVPCSubnet _ _) \<Rightarrow> True | _ \<Rightarrow> False)"

lemma deletesVPC_simps [simp]:
  "\<not> deletesVPC (K8s x)" "\<not> deletesVPC (Runtime r)" "\<not> deletesVPC (SetToken tk)" "\<not> deletesVPC NewLinodeClient"
  "\<not> deletesVPC (VPC (CGetVPC i))" "\<not> deletesVPC (VPC (CListVPCs f))" "\<not> deletesVPC (VPC (CCreateVPC opts))"
  "\<not> deletesVPC (VPC (CUpdateVPC i rs))" "\<not> deletesVPC (VPC (CCreateVPCSubnet so i))"
  by (simp_all add: deletesVPC_def)

lemma isK8s_not_deletes: "isK8s c \<Longrightarrow> \<not> deletesVPC c"
  by (auto simp: isK8s_def deletesVPC_def split: call.splits)

lemma vpcSafe_other: "\<not> deletesVPC c \<Longrightarrow> vpcSafe E h \<Longrightarrow> vpcSafe E (c # h)"
  by (auto simp: deletesVPC_def split: call.splits vpc_call.splits)

lemma hist_vpcSafe: "keeps (adds (\<lambda>c. \<not> deletesVPC c)) m \<Longrightarrow> keeps (histInv (vpcSafe E)) m"
  by (erule hist_adds) (rule vpcSafe_other)

lemma hist_vpcSafe_K8s: "keeps (adds isK8s) m \<Longrightarrow> keeps (histInv (vpcSafe E)) m"
  by (erule hist_adds) (rule vpcSafe_other [OF isK8s_not_deletes])

lemma hist_vpcSafe_calm: "keeps (calm isK8s) m \<Longrightarrow> keeps (histInv (vpcSafe E)) m"
  by (rule hist_vpcSafe_K8s) (rule calm_adds)

lemma wp_vpcSetCondition [wp_rules]:
  "wp (vpcReadyFalse E rs msg) Q s =
     Q () (s\<lparr>tr := Runtime TimeNow # tr s,
       obj := vs_LinodeVPC_update (LinodeVPC_SetCondition (rt_Now (rt E) (tr s)) (mkCond ReadyCondition statusFalse rs msg)) (obj s)\<rparr>)"
  by (cases s) (simp add: vpcReadyFalse_def vpcSetCondition_def wp_rules)

lemma wp_vpcDeleting [wp_rules]:
  "wp (vpcDeleting E T b) Q s =
     Q (rt_Now (rt E) (tr s) < the (om_DeletionTimestamp (lv_Meta (vpcOf s))) + DefaultTimeout T b) (s\<lparr>tr := Runtime TimeNow # tr s\<rparr>)"
  by (simp add: vpcDeleting_def wp_rules)

lemma LinodeVPC_SetCondition_other [simp]:
  "lv_Spec (LinodeVPC_SetCondition now c v) = lv_Spec v" "lv_Meta (LinodeVPC_SetCondition now c v) = lv_Meta v"
  by (simp_all add: LinodeVPC_SetCondition_def)

lemma hist_reconcileAgainOr [keeps_rules]: "keeps (histInv (vpcSafe E)) (reconcileAgainOr E' T err)"
  by (rule keepsI) (simp add: reconcileAgainOr_def wp_rules histInv_def)

lemma wp_getVPC:
  "wp (getVPC E) (\<lambda>r t. obj t = obj s \<and> (vpcSafe E (tr s) \<longrightarrow> vpcSafe E (tr t)) \<and>
     (\<forall>vpc. r = Inr vpc \<longrightarrow> (\<exists>i. vpc_VPCID (lv_Spec (vpcOf s)) = Some i \<and> seenVPC E (tr t) i = Some vpc))) s"
  by (auto simp: getVPC_def wp_rules split: option.splits sum.splits)

lemma hist_deleteVPCResources [keeps_rules]: "keeps (histInv (vpcSafe E)) (deleteVPCResources E T)"
proof (rule keepsI)
  fix s :: "VPCScope world"
  show "wp (deleteVPCResources E T) (\<lambda>_. histInv (vpcSafe E) s) s"
    unfolding deleteVPCResources_def wp_bind
    by (rule wp_mono [OF wp_getVPC])
      (auto simp: wp_rules histInv_def reconcileAgainOr_def vpcDeleteOK_def list_all_iff split: sum.splits option.splits)
qed

lemma hist_deleteRetainedSubnet:
  assumes "vpcSafe E (tr s)" and "seenVPC E (tr s) i = Some vpc" and "vpc_VPCID (lv_Spec (vpcOf s)) = Some i"
  shows "wp (deleteRetainedSubnet E T vpc sn) (\<lambda>r. case r of
      Inl e \<Rightarrow> \<lambda>t. vpcSafe E (tr t)
    | Inr _ \<Rightarrow> \<lambda>t. vpcSafe E (tr t) \<and> seenVPC E (tr t) i = Some vpc \<and> vpc_VPCID (lv_Spec (vpcOf t)) = Some i) s"
  using assms
  by (auto simp: deleteRetainedSubnet_def wp_rules Let_def reconcileAgainOr_def subnetDeleteOK_def split: option.splits)

lemma hist_handleRetainedSubnets [keeps_rules]: "keeps (histInv (vpcSafe E)) (handleRetainedSubnets E T)"
proof (rule keepsI)
  fix s :: "VPCScope world"
  have loop: "wp (forE sns (deleteRetainedSubnet E T vpc)) (\<lambda>_ t. vpcSafe E (tr t)) u"
    if "vpcSafe E (tr u)" and ex: "\<exists>i. seenVPC E (tr u) i = Some vpc \<and> vpc_VPCID (lv_Spec (vpcOf u)) = Some i" for sns vpc u
  proof -
    obtain i where i: "seenVPC E (tr u) i = Some vpc" "vpc_VPCID (lv_Spec (vpcOf u)) = Some i" using ex by blast
    show ?thesis
      by (rule wp_forE [where I = "\<lambda>t. vpcSafe E (tr t) \<and> seenVPC E (tr t) i = Some vpc \<and> vpc_VPCID (lv_Spec (vpcOf t)) = Some i"])
        (use that(1) i hist_deleteRetainedSubnet in \<open>auto split: sum.splits\<close>)
  qed
  show "wp (handleRetainedSubnets E T) (\<lambda>_. histInv (vpcSafe E) s) s"
  proof (cases "vpcSafe E (tr s)")
    case True
    then show ?thesis
      unfolding handleRetainedSubnets_def wp_bind
      by (intro wp_mono [OF wp_getVPC])
        (auto simp: wp_rules histInv_def reconcileAgainOr_def split: sum.splits intro!: wp_mono [OF loop])
  qed (simp add: histInv_def wp_def split: prod.splits)
qed

text \<open>Everything else of the reconciler deletes nothing.\<close>

lemma adds_reconcileVPC: "keeps (adds (\<lambda>c. \<not> deletesVPC c)) (reconcileVPC E)"
  unfolding reconcileVPC_def reconcileExistingVPC_def adoptSubnet_def Let_def
  by (auto intro!: adds_rules split: option.splits sum.splits list.splits prod.splits)

lemma adds_vpcReadyFalse: "keeps (adds (\<lambda>c. \<not> deletesVPC c)) (vpcReadyFalse E rs msg)"
  unfolding vpcReadyFalse_def vpcSetCondition_def by (auto intro!: adds_rules)

lemma hist_vpcReadyFalse [keeps_rules]: "keeps (histInv (vpcSafe E)) (vpcReadyFalse E' rs msg)"
  by (rule hist_vpcSafe [OF adds_vpcReadyFalse])

lemma hist_vpcRuntime [keeps_rules]:
  "keeps (histInv (vpcSafe E)) (reconcileVPC E')"
  "keeps (histInv (vpcSafe E)) (WithJitter E' d)"
  "keeps (histInv (vpcSafe E)) (HasStaleCondition E' c d)"
  "keeps (histInv (vpcSafe E)) (vpcDeleting E' T d)"
  by (rule hist_vpcSafe [OF adds_reconcileVPC] hist_vpcSafe [OF adds_WithJitter] hist_vpcSafe [OF adds_HasStaleCondition] keepsI;
      simp add: wp_rules histInv_def)+

lemma hist_vpcScope [keeps_rules]:
  "keeps (histInv (vpcSafe E)) (VPCScope_AddFinalizer E')"
  "keeps (histInv (vpcSafe E)) (VPCScope_AddCredentialsRefFinalizer E')"
  "keeps (histInv (vpcSafe E)) (VPCScope_RemoveCredentialsRefFinalizer E')"
  "keeps (histInv (vpcSafe E)) (VPCScope_SetCredentialRefToken E')"
  "keeps (histInv (vpcSafe E)) (VPCScope_Close E')"
  "keeps (histInv (vpcSafe E)) (linkCluster E' om mk)"
  "keeps (histInv (vpcSafe E)) (checkPaused E' cl om ob cs)"
  "keeps (histInv (vpcSafe E)) (newScopeClients E' ob)"
  by (rule hist_vpcSafe_K8s [OF adds_scope_finalizer(2)] hist_vpcSafe_calm, (rule keeps_rules)?)+

lemma hist_vpc_reconcile: "keeps (histInv (vpcSafe E)) (vpc_reconcile E T)"
  unfolding vpc_reconcile_def vpc_reconcileBody_def vpc_deferred_def vpc_reconcileDelete_def handleRetainedVPC_def
    vpcReleaseFinalizers_def requeueIfAgain_def vpcRequeueUnlessStale_def vpc_reconcileCreate_def vpc_reconcileUpdate_def
    vpcRemoveFinalizer_def Let_def
  by (auto intro!: hist_rules keeps_rules split: option.splits prod.splits)

lemma hist_vpc_Reconcile: "keeps (histInv (vpcSafe E)) (vpc_Reconcile E T req)"
  unfolding vpc_Reconcile_def NewVPCScope_def Let_def
  by (auto intro!: hist_rules keeps_rules hist_vpc_reconcile vpcSafe_other split: option.splits sum.splits prod.splits)


section \<open>Adoption of subnets\<close>

definition createsSubnet :: "call \<Rightarrow> bool" where
  "createsSubnet c = (case c of VPC (CCreateVPCSubnet _ _) \<Rightarrow> True | _ \<Rightarrow> False)"

text \<open>An event of the adoption of \<open>vpc\<close>: an update of its ranges, or a subnet whose label it has not.\<close>

definition adoptionEvent :: "LVPC \<Rightarrow> call \<Rightarrow> bool" where
  "adoptionEvent vpc c = (case c of
     VPC (CUpdateVPC i _) \<Rightarrow> i = lvpc_ID vpc
   | VPC (CCreateVPCSubnet opts i) \<Rightarrow> i = lvpc_ID vpc \<and> subnetsByLabel (lvpc_Subnets vpc) (lso_Label opts) = None
   | _ \<Rightarrow> False)"

text \<open>The IDs of the Linode API are not zero: zero is the value of a missing ID in the spec.\<close>

definition apiSubnetIDs :: "env \<Rightarrow> LVPC \<Rightarrow> bool" where
  "apiSubnetIDs E vpc = (list_all (\<lambda>sn. lsn_ID sn \<noteq> 0) (lvpc_Subnets vpc) \<and>
     (\<forall>h opts i sn. vpe_CreateVPCSubnet (vpe E) h opts i = Inr sn \<longrightarrow> lsn_ID sn \<noteq> 0))"

lemma subnetsByLabel_member: "subnetsByLabel sns l = Some sn \<Longrightarrow> sn \<in> set sns"
proof -
  have "fold (\<lambda>sn m. m(lsn_Label sn \<mapsto> sn)) sns m l = Some sn \<Longrightarrow> sn \<in> set sns \<or> m l = Some sn" for m
  proof (induction sns arbitrary: m)
    case (Cons a sns)
    from Cons.IH [of "m(lsn_Label a \<mapsto> a)"] Cons.prems show ?case by (auto split: if_splits)
  qed simp
  from this [of Map.empty] show "subnetsByLabel sns l = Some sn \<Longrightarrow> sn \<in> set sns" by (auto simp: subnetsByLabel_def)
qed

lemma adds_adoption: "keeps (adds (adoptionEvent vpc)) (reconcileExistingVPC E vpc)"
  unfolding reconcileExistingVPC_def adoptSubnet_def Let_def
  by (auto intro!: adds_rules simp: adoptionEvent_def subnetCreateOption_def split: option.splits sum.splits prod.splits)

lemma wp_adoptSubnets:
  assumes "apiSubnetIDs E vpc"
  shows "wp (mapAccumE (adoptSubnet E i (lvpc_Subnets vpc)) sns ())
    (\<lambda>(sns', r) t. (r = Inr () \<longrightarrow> list_all (\<lambda>sn. sn_SubnetID sn \<noteq> 0) sns') \<and> obj t = obj s) s"
proof (induction sns arbitrary: s)
  case Nil
  then show ?case by (simp add: wp_rules)
next
  case (Cons sn sns)
  have "wp (adoptSubnet E i (lvpc_Subnets vpc) sn ()) (\<lambda>(sn', r) t. (r = Inr () \<longrightarrow> sn_SubnetID sn' \<noteq> 0) \<and> obj t = obj s) s"
    using assms
    by (auto simp: adoptSubnet_def wp_rules apiSubnetIDs_def list_all_iff setSubnetFields_def Let_def
        dest: subnetsByLabel_member split: option.splits sum.splits)
  then show ?case
    unfolding mapAccumE.simps wp_bind
    by (rule wp_mono) (auto simp: wp_rules split: sum.splits intro!: wp_mono [OF Cons.IH])
qed

lemma wp_adoptNone:
  "list_all (\<lambda>sn. sn_SubnetID sn \<noteq> 0) sns \<Longrightarrow>
   wp (mapAccumE (adoptSubnet E i api) sns ()) (\<lambda>_ t. tr t = tr s) s"
proof (induction sns arbitrary: s)
  case (Cons sn sns)
  from Cons.IH [OF _, of s] Cons.prems show ?case
    by (auto simp: adoptSubnet_def wp_rules elim!: wp_mono)
qed (simp add: wp_rules)


section \<open>When the finalizer is given up\<close>

text \<open>The history shows that the VPC is gone: it was not found, or its deletion was accepted.\<close>

fun vpcGone :: "env \<Rightarrow> hist \<Rightarrow> int \<Rightarrow> bool" where
  "vpcGone E [] i = False"
| "vpcGone E (c # h) i = (vpcGone E h i \<or> (case c of
     VPC (CGetVPC j) \<Rightarrow> j = i \<and> (case vpe_GetVPC (vpe E) h i of
        Inl e \<Rightarrow> IgnoreLinodeAPIError E (Some e) [StatusNotFound] = None \<or> errIs e ErrVPCNotFound | Inr _ \<Rightarrow> False)
   | VPC (CDeleteVPC j) \<Rightarrow> j = i \<and> IgnoreLinodeAPIError E (vpe_DeleteVPC (vpe E) h i) [StatusNotFound] = None
   | _ \<Rightarrow> False))"

lemma vpcGone_append: "vpcGone E h i \<Longrightarrow> vpcGone E (new @ h) i"
  by (induction new) auto

lemma vpcGone_adds: "adds P s t \<Longrightarrow> vpcGone E (tr s) i \<Longrightarrow> vpcGone E (tr t) i"
  by (auto simp: adds_def intro: vpcGone_append)

abbreviation vpcFinalizers :: "VPCScope world \<Rightarrow> string list" where
  "vpcFinalizers w \<equiv> om_Finalizers (lv_Meta (vpcOf w))"

lemma wp_deleteVPCResources:
  "wp (deleteVPCResources E T) (\<lambda>r t. lv_Meta (vpcOf t) = lv_Meta (vpcOf s) \<and>
     (r = None \<longrightarrow> (case vpc_VPCID (lv_Spec (vpcOf s)) of None \<Rightarrow> True | Some i \<Rightarrow> vpcGone E (tr t) i))) s"
  by (auto simp: deleteVPCResources_def getVPC_def reconcileAgainOr_def wp_rules split: option.splits sum.splits if_splits)

lemma wp_vpcReleaseFinalizers:
  "wp (vpcReleaseFinalizers E T) (\<lambda>(res, err) t. adds isPlain s t \<and> (vpcFinalizers t = vpcFinalizers s \<or> err = None)) s"
  unfolding vpcReleaseFinalizers_def wp_bind
  by (rule wp_mono [OF keeps_wp [OF calm_scope_creds(5)]])
    (auto simp: wp_rules calm_def adds_def isPlain_def vpcRemoveFinalizer_def)

lemma wp_vpc_reconcileDelete:
  assumes "\<not> vpc_Retain (lv_Spec (vpcOf s))" and "vpc_VPCID (lv_Spec (vpcOf s)) = Some i"
  shows "wp (vpc_reconcileDelete E T) (\<lambda>_ t. vpcFinalizers t = vpcFinalizers s \<or> vpcGone E (tr t) i) s"
proof -
  have rel: "wp (vpcReleaseFinalizers E T) (\<lambda>_ t. vpcFinalizers t = vpcFinalizers s \<or> vpcGone E (tr t) i) u"
    if "vpcGone E (tr u) i" for u
    by (rule wp_mono [OF wp_vpcReleaseFinalizers]) (auto intro: vpcGone_adds that)
  show ?thesis
    using assms unfolding vpc_reconcileDelete_def
    by (simp add: wp_bind wp_get wp_return)
      (rule wp_mono [OF wp_deleteVPCResources], auto simp: wp_rules requeueIfAgain_def split: option.splits intro!: rel)
qed


section \<open>Properties\<close>

text \<open>
C34: no reconciliation of a VPC ever deletes a VPC or a subnet to which Linodes are attached, as far
as the program can know: every request to delete a VPC in the history of \<open>Reconcile\<close> follows a \<open>GetVPC\<close>
for the same VPC whose answer shows no Linode in any subnet, and every request to delete a subnet
follows one whose answer shows no Linode in that subnet. It holds for every behaviour of the
services, errors and concurrent changes included.
\<close>

theorem vpc_deletions_safe: "wp (vpc_Reconcile E timeout req) (\<lambda>_ t. vpcSafe E (tr t)) (start ())"
  by (rule wp_mono [OF keeps_wp [OF hist_vpc_Reconcile]]) (simp add: histInv_def)

text \<open>
A VPC with the retain flag is never deleted: the deletion of the resource sends no request to
delete the VPC.
\<close>

theorem vpc_retained:
  assumes "vpc_Retain (lv_Spec (vpcOf s))"
  shows "wp (vpc_reconcileDelete E timeout) (\<lambda>_ t. adds (\<lambda>c. \<not> deletesWholeVPC c) s t) s"
proof -
  have k8s: "keeps (adds (\<lambda>c. \<not> deletesWholeVPC c)) (VPCScope_RemoveCredentialsRefFinalizer E)"
    by (rule adds_mono [OF calm_adds [OF calm_scope_creds(5)]]) (auto simp: deletesWholeVPC_def isK8s_def split: call.splits)
  have "keeps (adds (\<lambda>c. \<not> deletesWholeVPC c)) (handleRetainedVPC E timeout)"
    unfolding handleRetainedVPC_def handleRetainedSubnets_def getVPC_def deleteRetainedSubnet_def reconcileAgainOr_def
      vpcReleaseFinalizers_def requeueIfAgain_def vpcReadyFalse_def vpcSetCondition_def vpcDeleting_def withinDeletion_def
      vpcRemoveFinalizer_def Let_def
    by (auto intro!: adds_rules adds_WithJitter k8s split: option.splits sum.splits)
  then show ?thesis using assms by (simp add: vpc_reconcileDelete_def wp_rules keeps_wp)
qed

definition vpcSpec1 :: LinodeVPCSpec where
  "vpcSpec1 = \<lparr>vpc_VPCID = Some 7, vpc_Description = [], vpc_Region = ''us-sea'', vpc_IPv6 = [], vpc_IPv4 = [], vpc_IPv6Range = [],
     vpc_IPv4Range = [''10.0.0.0/8''],
     vpc_Subnets = [\<lparr>sn_Label = ''a'', sn_IPv4 = ''10.0.0.0/24'', sn_IPv6 = [], sn_IPv6Range = [], sn_SubnetID = 0, sn_Retain = False\<rparr>],
     vpc_Retain = True, vpc_CredentialsRef = None\<rparr>"

definition vpcScope1 :: VPCScope where
  "vpcScope1 = \<lparr>vs_LinodeVPC = \<lparr>lv_Meta = meta0\<lparr>om_DeletionTimestamp := Some 0\<rparr>, lv_Spec = vpcSpec1,
     lv_Status = \<lparr>vpc_Conditions = [], vpc_Ready = False, vpc_FailureReason = None, vpc_FailureMessage = None\<rparr>\<rparr>, vs_Cluster = None\<rparr>"

theorem vpc_retained_witness:
  "wp (vpc_reconcileDelete env0 0) (\<lambda>_ t. adds (\<lambda>c. \<not> deletesWholeVPC c) (start vpcScope1) t) (start vpcScope1)"
  by (rule vpc_retained) (simp add: vpcScope1_def vpcSpec1_def)

text \<open>
Adopting a VPC creates only subnets whose label the VPC does not have yet; after a success every
subnet of the spec has an ID and the resource has the ID of the VPC, so that a second
reconciliation, whatever VPC the API returns, creates no subnet.
\<close>

theorem vpc_adoption_idempotent:
  assumes "apiSubnetIDs E vpc"
  shows "wp (reconcileExistingVPC E vpc) (\<lambda>r t. adds (adoptionEvent vpc) s t \<and> vpc_VPCID (lv_Spec (vpcOf t)) = Some (lvpc_ID vpc) \<and>
     (r = None \<longrightarrow> list_all (\<lambda>sn. sn_SubnetID sn \<noteq> 0) (vpc_Subnets (lv_Spec (vpcOf t))) \<and>
        wp (reconcileExistingVPC E' vpc') (\<lambda>_ u. adds (\<lambda>c. \<not> createsSubnet c) t u) t)) s"
proof -
  have again: "wp (reconcileExistingVPC E' vpc') (\<lambda>_ u. adds (\<lambda>c. \<not> createsSubnet c) t u) t"
    if "list_all (\<lambda>sn. sn_SubnetID sn \<noteq> 0) (vpc_Subnets (lv_Spec (vpcOf t)))" for t
    using that unfolding reconcileExistingVPC_def Let_def
    by (auto simp: wp_rules setVPCFields_def adds_def createsSubnet_def split: option.splits intro!: wp_mono [OF wp_adoptNone])
  have "wp (reconcileExistingVPC E vpc) (\<lambda>r t. vpc_VPCID (lv_Spec (vpcOf t)) = Some (lvpc_ID vpc) \<and>
     (r = None \<longrightarrow> list_all (\<lambda>sn. sn_SubnetID sn \<noteq> 0) (vpc_Subnets (lv_Spec (vpcOf t))))) s"
    unfolding reconcileExistingVPC_def Let_def
    by (auto simp: wp_rules setVPCFields_def split: option.splits sum.splits intro!: wp_mono [OF wp_adoptSubnets [OF assms]])
  from wp_conjI [OF keeps_wp [OF adds_adoption] this] show ?thesis
    by (rule wp_mono) (auto intro: again)
qed

definition apiVPC1 :: LVPC where
  "apiVPC1 = \<lparr>lvpc_ID = 7, lvpc_Label = ''v'', lvpc_IPv4 = [], lvpc_IPv6 = [],
     lvpc_Subnets = [\<lparr>lsn_ID = 3, lsn_Label = ''b'', lsn_IPv4 = ''10.1.0.0/24'', lsn_IPv6 = [], lsn_Linodes = [1]\<rparr>], lvpc_Updated = 0\<rparr>"

definition envVPC :: env where
  "envVPC = env0\<lparr>vpe := vpe0\<lparr>vpe_CreateVPCSubnet := \<lambda>_ opt _. Inr \<lparr>lsn_ID = 5, lsn_Label = lso_Label opt, lsn_IPv4 = lso_IPv4 opt,
     lsn_IPv6 = [], lsn_Linodes = []\<rparr>\<rparr>\<rparr>"

theorem vpc_adoption_idempotent_witness:
  "wp (reconcileExistingVPC envVPC apiVPC1) (\<lambda>r t. adds (adoptionEvent apiVPC1) (start vpcScope1) t \<and>
     vpc_VPCID (lv_Spec (vpcOf t)) = Some 7 \<and>
     (r = None \<longrightarrow> list_all (\<lambda>sn. sn_SubnetID sn \<noteq> 0) (vpc_Subnets (lv_Spec (vpcOf t))) \<and>
        wp (reconcileExistingVPC env0 apiVPC1) (\<lambda>_ u. adds (\<lambda>c. \<not> createsSubnet c) t u) t)) (start vpcScope1)"
  using vpc_adoption_idempotent [of envVPC apiVPC1 "start vpcScope1" env0 apiVPC1]
  by (simp add: apiSubnetIDs_def envVPC_def apiVPC1_def)

text \<open>
The deletion of a VPC resource that is not retained gives up the finalizers only when the history
shows that the VPC is gone: it was not found, or the request to delete it was accepted (404
included). In every other case the finalizers stay as they were.
\<close>

theorem vpc_finalizer_kept:
  assumes "\<not> vpc_Retain (lv_Spec (vpcOf s))" and "vpc_VPCID (lv_Spec (vpcOf s)) = Some i"
  shows "wp (vpc_reconcileDelete E timeout) (\<lambda>_ t. vpcFinalizers t = vpcFinalizers s \<or> vpcGone E (tr t) i) s"
  using assms by (rule wp_vpc_reconcileDelete)

definition vpcScope2 :: VPCScope where
  "vpcScope2 = vs_LinodeVPC_update (lv_Spec_update (vpc_Retain_update (\<lambda>_. False))) vpcScope1"

theorem vpc_finalizer_kept_witness:
  "wp (vpc_reconcileDelete env0 0) (\<lambda>_ t. vpcFinalizers t = vpcFinalizers (start vpcScope2) \<or> vpcGone env0 (tr t) 7) (start vpcScope2)"
  by (rule vpc_finalizer_kept) (simp_all add: vpcScope2_def vpcScope1_def vpcSpec1_def)

text \<open>
An update of a VPC never reports an error: whatever fails, the reconciler requeues, and the
reconcile timeout is never reached, because the failure just recorded carries the present as its
transition time. The clock is assumed not to jump past the timeout between two readings.
\<close>

theorem vpc_update_requeues:
  assumes "\<And>h. rt_Now (rt E) (Runtime TimeNow # h) \<le> rt_Now (rt E) h + DefaultTimeout timeout DefaultVPCControllerReconcileTimeout"
  shows "wp (State_Monad.bind (vpc_reconcileUpdate E) (vpcRequeueUnlessStale E timeout)) (\<lambda>(res, err) t. err = None) s"
proof -
  have "LinodeVPC_GetCondition ReadyCondition (LinodeVPC_SetCondition now (mkCond ReadyCondition st rs msg) v)
    = Some (stampCond now (mkCond ReadyCondition st rs msg))" for now st rs msg v
    by (simp add: LinodeVPC_GetCondition_def vpcc.lookup_SetCondition)
  with assms have step: "wp (case e of Some err \<Rightarrow> State_Monad.bind (vpcReadyFalse E UpdateVPCError (errText err)) (\<lambda>_. ret e)
       | None \<Rightarrow> State_Monad.bind (modVPC (lv_Status_update (vpc_Ready_update (\<lambda>_. True)))) (\<lambda>_. ret None))
     (\<lambda>r. wp (vpcRequeueUnlessStale E timeout r) (\<lambda>(res, err) t. err = None)) t" for e t
    by (cases e) (simp_all add: vpcRequeueUnlessStale_def wp_rules stampCond_def not_less)
  show ?thesis
    unfolding vpc_reconcileUpdate_def wp_bind by (rule wpI) (rule step [unfolded wp_bind])
qed

theorem vpc_update_requeues_witness:
  "wp (State_Monad.bind (vpc_reconcileUpdate env0) (vpcRequeueUnlessStale env0 0)) (\<lambda>(res, err) t. err = None) (start vpcScope2)"
  by (rule vpc_update_requeues)
    (simp_all add: env0_def rt0_def time_defs DefaultTimeout_def DefaultVPCControllerReconcileTimeout_def)

end
