(* ===== verification/VpcRuns.thy ===== *)
theory VpcRuns
  imports Vpc Runs
begin

text \<open>
  Sequences of reconciliations of one VPC: they are granted at most one VPC while nobody else deletes it. The
  ID in the spec does not guard the creation by itself: a VPC that is not listed under its ID is created anew, so the ID
  of every reconciliation is traced back to the answer of the API it was taken from.
\<close>

section \<open>Granted VPCs\<close>

fun vpcMade :: "env \<Rightarrow> hist \<Rightarrow> nat" where
  "vpcMade E [] = 0"
| "vpcMade E (c # h) = (case c of
     VPC (CCreateVPC opts) \<Rightarrow> (case vpe_CreateVPC (vpe E) h opts of Inl _ \<Rightarrow> 0 | Inr _ \<Rightarrow> 1)
   | _ \<Rightarrow> 0) + vpcMade E h"

definition createsVPC :: "call \<Rightarrow> bool" where
  "createsVPC c = (case c of VPC (CCreateVPC _) \<Rightarrow> True | _ \<Rightarrow> False)"

abbreviation vpcID :: "VPCScope \<Rightarrow> int option" where
  "vpcID s \<equiv> vpc_VPCID (lv_Spec (vs_LinodeVPC s))"

abbreviation vpcDeleted :: "VPCScope \<Rightarrow> gotime option" where
  "vpcDeleted s \<equiv> om_DeletionTimestamp (lv_Meta (vs_LinodeVPC s))"

interpretation vpr: creator createsVPC "vpcMade E" vpcID vpcDeleted for E
  by unfold_locales (auto simp: createsVPC_def split: call.splits vpc_call.splits)

text \<open>
  The requests that bring a VPC about or end it. A reconciliation of a VPC that is not deleted and has an ID sends none of them, which
  is shown with a second interpretation of the same locale.
\<close>

definition touchesVPC :: "call \<Rightarrow> bool" where
  "touchesVPC c = (case c of VPC (CCreateVPC _) \<Rightarrow> True | VPC (CDeleteVPC _) \<Rightarrow> True | _ \<Rightarrow> False)"

interpretation vpt: creator touchesVPC "vpcMade E" vpcID vpcDeleted for E
  by unfold_locales (auto simp: touchesVPC_def split: call.splits vpc_call.splits)

text \<open>
  The API has shown the VPC \<open>i\<close>: it granted it, or a listing had it first. While no request to delete this VPC is in the history, a
  listing by its ID, when it is answered, has it first.
\<close>

fun vpcSeen :: "env \<Rightarrow> hist \<Rightarrow> int \<Rightarrow> bool" where
  "vpcSeen E [] i = False"
| "vpcSeen E (c # h) i = (vpcSeen E h i \<or> (case c of
     VPC (CCreateVPC opts) \<Rightarrow> (case vpe_CreateVPC (vpe E) h opts of Inl _ \<Rightarrow> False | Inr v \<Rightarrow> lvpc_ID v = i)
   | VPC (CListVPCs f) \<Rightarrow> (case vpe_ListVPCs (vpe E) h f of Inr (v # _) \<Rightarrow> lvpc_ID v = i | _ \<Rightarrow> False)
   | _ \<Rightarrow> False))"

definition vpcListed :: "env \<Rightarrow> bool" where
  "vpcListed E = (\<forall>h i flt vs. vpcSeen E h i \<longrightarrow> VPC (CDeleteVPC i) \<notin> set h \<longrightarrow> Filter_String (filterOf (Some i) [] []) = Inr flt \<longrightarrow>
     vpe_ListVPCs (vpe E) h flt = Inr vs \<longrightarrow> (\<exists>v vs'. vs = v # vs' \<and> lvpc_ID v = i))"

lemma vpcSeen_append: "vpcSeen E h i \<Longrightarrow> vpcSeen E (new @ h) i"
  by (induction new) auto

lemma touchesVPC_simps [simp]:
  "\<not> touchesVPC (K8s x)" "\<not> touchesVPC (Runtime r)" "\<not> touchesVPC (SetToken tk)" "\<not> touchesVPC NewLinodeClient"
  "\<not> touchesVPC (VPC (CListVPCs f))" "\<not> touchesVPC (VPC (CGetVPC i))" "\<not> touchesVPC (VPC (CUpdateVPC i rs))"
  "\<not> touchesVPC (VPC (CCreateVPCSubnet so i))" "\<not> touchesVPC (VPC (CDeleteVPCSubnet i j))" "touchesVPC (VPC (CDeleteVPC i))"
  by (simp_all add: touchesVPC_def)

lemma createsVPC_touches: "createsVPC c \<Longrightarrow> touchesVPC c"
  by (auto simp: createsVPC_def touchesVPC_def split: call.splits vpc_call.splits)

lemma vpt_vpr: "keeps vpt.begun m \<Longrightarrow> keeps vpr.begun m"
  by (erule keeps_mono) (auto simp: vpt.begun_def vpr.begun_def adds_def dest: createsVPC_touches)

lemma createsVPC_simps [simp]:
  "\<not> createsVPC (K8s x)" "\<not> createsVPC (Runtime r)" "\<not> createsVPC (SetToken tk)" "\<not> createsVPC NewLinodeClient"
  "\<not> createsVPC (VPC (CListVPCs f))" "\<not> createsVPC (VPC (CGetVPC i))" "\<not> createsVPC (VPC (CUpdateVPC i rs))"
  "\<not> createsVPC (VPC (CDeleteVPC i))" "\<not> createsVPC (VPC (CCreateVPCSubnet so i))" "\<not> createsVPC (VPC (CDeleteVPCSubnet i j))"
  by (simp_all add: createsVPC_def)

lemma isK8s_not_touchesVPC: "isK8s c \<Longrightarrow> \<not> touchesVPC c"
  by (auto simp: isK8s_def touchesVPC_def split: call.splits)

lemmas vpc_begun_K8s = vpt.begun_calm [OF _ isK8s_not_touchesVPC]

lemmas vpt_begun = calm_scope_creds(4-6) [THEN vpc_begun_K8s] calm_scope_close(2) [THEN vpc_begun_K8s]
lemmas begun_vpc = vpt_begun [THEN vpt_vpr]

lemma vpt_begunRuntime:
  "keeps vpt.begun (vpcReadyFalse E rs msg)"
  "keeps vpt.begun (WithJitter E d)"
  "keeps vpt.begun (HasStaleCondition E c d)"
  "keeps vpt.begun (vpcDeleting E T d)"
  "keeps vpt.begun (VPCScope_AddFinalizer E)"
  "keeps vpt.begun (requeueIfAgain E err)"
  by (rule keepsI; simp add: wp_rules WithJitter_def HasStaleCondition_def VPCScope_AddFinalizer_def VPCScope_Close_def vpcReadyFalse_def
      vpcSetCondition_def LinodeVPC_SetCondition_def vpcDeleting_def withinDeletion_def requeueIfAgain_def vpt.begun_def adds_def
      split: option.split prod.split)+

lemmas begun_vpcRuntime = vpt_begunRuntime [THEN vpt_vpr]

lemma vpc_delete_creates_none: "keeps (adds (\<lambda>c. \<not> createsVPC c)) (vpc_reconcileDelete E T)"
proof -
  note calmly = vpr.holds_adds [OF vpr.begun_holds]
  have get: "keeps (adds (\<lambda>c. \<not> createsVPC c)) (getVPC E)"
    unfolding getVPC_def by (intro adds_rules keeps_case; simp)
  have again: "keeps (adds (\<lambda>c. \<not> createsVPC c)) (reconcileAgainOr E T err)" for err
    unfolding reconcileAgainOr_def by (intro adds_rules calmly [OF begun_vpcRuntime(4)])
  have release: "keeps (adds (\<lambda>c. \<not> createsVPC c)) (vpcReleaseFinalizers E T)"
    unfolding vpcReleaseFinalizers_def vpcRemoveFinalizer_def
    by (intro adds_rules keeps_case calmly [OF begun_vpc(2)] calmly [OF begun_vpcRuntime(4)] calmly [OF begun_vpcRuntime(2)]; simp)
  show ?thesis
    unfolding vpc_reconcileDelete_def handleRetainedVPC_def handleRetainedSubnets_def deleteRetainedSubnet_def deleteVPCResources_def Let_def
    by (intro adds_rules keeps_case get again release calmly [OF begun_vpcRuntime(1)] calmly [OF begun_vpcRuntime(4)] calmly [OF begun_vpcRuntime(6)]; simp)
qed


section \<open>Creating and adopting\<close>

lemma begun_adopted:
  "keeps vpt.begun (do {
     v \<leftarrow> theVPC;
     let ranges = vpc_IPv4Range (lv_Spec v);
     upd \<leftarrow> (if ranges \<noteq> [] then perform (VPC (CUpdateVPC (lvpc_ID vpc) ranges)) (\<lambda>h. vpe_UpdateVPC (vpe E) h (lvpc_ID vpc) ranges)
             else ret None);
     case upd of
       Some err \<Rightarrow> ret (Some err)
     | None \<Rightarrow> do {
         (sns, r) \<leftarrow> mapAccumE (adoptSubnet E (lvpc_ID vpc) (lvpc_Subnets vpc)) (vpc_Subnets (lv_Spec v)) ();
         _ \<leftarrow> modVPC (lv_Spec_update (vpc_Subnets_update (\<lambda>_. sns)));
         ret (errOf r)
       }
   })"
proof -
  have sub: "keeps vpt.begun (adoptSubnet E j sns sn x)" for j sns sn x
    unfolding adoptSubnet_def Let_def by (intro vpt.beginning.keeps_all keeps_case vpt.begun_perform; simp)
  show ?thesis
    unfolding Let_def by (intro vpt.beginning.keeps_all keeps_case vpt.begun_perform vpt.begun_modObj sub; simp)
qed

lemma begun_existing: "wp (reconcileExistingVPC E vpc) (\<lambda>_ t. vpt.begun (obj_update (vs_LinodeVPC_update (lv_Spec_update (setVPCFields vpc))) s) t) s"
  unfolding reconcileExistingVPC_def wp_bind [of "modVPC f" for f] wp_update by (rule keeps_wp [OF begun_adopted])

lemma adds_existing: "keeps (adds (\<lambda>c. \<not> createsVPC c)) (reconcileExistingVPC E vpc)"
proof -
  have sub: "keeps (adds (\<lambda>c. \<not> createsVPC c)) (adoptSubnet E j sns sn x :: (VPCScope, _) op)" for j sns sn x
    unfolding adoptSubnet_def Let_def by (intro adds_rules keeps_case; simp)
  show ?thesis unfolding reconcileExistingVPC_def Let_def by (intro adds_rules keeps_case sub; simp)
qed

lemma grows_reconcileVPC: "vpr.grows E (reconcileVPC E)"
  unfolding vpr.grows_def
proof
  fix s
  have old: "wp (reconcileExistingVPC E vpc) (\<lambda>_ t. vpr.grew E s t) (s\<lparr>tr := VPC (CListVPCs flt) # tr s\<rparr>)" for vpc flt
    by (rule wp_mono [OF keeps_wp [OF adds_existing]]) (auto simp: vpr.grew_def dest: vpr.count_adds [where E = E])
  show "wp (reconcileVPC E) (\<lambda>_ t. vpr.grew E s t) s"
    by (auto simp: reconcileVPC_def linodeVPCSpecToVPCCreateConfig_def wp_rules Let_def old [unfolded vpr.grew_def, simplified] vpr.grew_def setVPCFields_def updateVPCSpecSubnets_def
        split: sum.split list.split)
qed

lemma settles_reconcileVPC:
  assumes "vpcListed E" and id: "vpcID (obj s) = Some i" and "vpcSeen E (tr s) i" and "VPC (CDeleteVPC i) \<notin> set (tr s)"
  shows "vpt.settles s (reconcileVPC E)"
  unfolding vpt.settles_def
proof (intro allI impI)
  fix t assume st: "vpt.begun s t"
  then have i: "vpcID (obj t) = Some i" using id by (simp add: vpt.begun_def)
  obtain new where new: "tr t = new @ tr s" "\<forall>c\<in>set new. \<not> touchesVPC c" using st by (auto simp: vpt.begun_def adds_def)
  have alive: "vpcSeen E (tr t) i" "VPC (CDeleteVPC i) \<notin> set (tr t)"
    using new assms(3,4) by (auto intro: vpcSeen_append)
  have old: "wp (reconcileExistingVPC E vpc) (\<lambda>_ u. vpt.settled s u) (t\<lparr>tr := VPC (CListVPCs flt) # tr t\<rparr>)" if "lvpc_ID vpc = i" for vpc flt
  proof (rule wp_mono [OF begun_existing])
    have "vpt.begun s (obj_update (vs_LinodeVPC_update (lv_Spec_update (setVPCFields vpc))) (t\<lparr>tr := VPC (CListVPCs flt) # tr t\<rparr>))"
      using st i that by (auto simp: vpt.begun_def adds_def setVPCFields_def)
    then show "vpt.settled s u"
      if "vpt.begun (obj_update (vs_LinodeVPC_update (lv_Spec_update (setVPCFields vpc))) (t\<lparr>tr := VPC (CListVPCs flt) # tr t\<rparr>)) u" for u
      using vpt.begun_settled vpt.begun_trans that by blast
  qed
  have same: "vpt.settled s t" "\<And>c. \<not> touchesVPC c \<Longrightarrow> vpt.settled s (t\<lparr>tr := c # tr t\<rparr>)"
    using st by (auto simp: vpt.begun_def vpt.settled_def adds_def)
  show "wp (reconcileVPC E) (\<lambda>_ u. vpt.settled s u) t"
  proof (cases "Filter_String (filterOf (Some i) [] [])")
    case (Inl e)
    with i same show ?thesis by (simp add: reconcileVPC_def linodeVPCSpecToVPCCreateConfig_def wp_rules Let_def)
  next
    case (Inr f)
    have "vs \<noteq> [] \<and> lvpc_ID (hd vs) = i" if "vpe_ListVPCs (vpe E) (tr t) f = Inr vs" for vs
      using assms(1) alive Inr that unfolding vpcListed_def by fastforce
    with i Inr same old show ?thesis
      by (cases "vpe_ListVPCs (vpe E) (tr t) f")
        (auto simp: reconcileVPC_def linodeVPCSpecToVPCCreateConfig_def wp_rules Let_def split: list.split)
  qed
qed


section \<open>The reconciler\<close>

lemma vpt_begunRequeue: "keeps vpt.begun (vpcRequeueUnlessStale E T err)"
  unfolding vpcRequeueUnlessStale_def by (intro vpt.beginning.keeps_all keeps_case vpt_begunRuntime)

lemma vpt_begun_deferred: "keeps vpt.begun (vpc_deferred E body)"
  unfolding vpc_deferred_def
  by (intro vpt.beginning.keeps_all keeps_case vpt_begun vpt_begunRuntime vpt.begun_modObj; simp)

text \<open>What follows \<open>reconcileVPC\<close> in both branches, up to the requeue.\<close>

lemma vpt_begun_applied:
  "keeps vpt.begun (case e of
       Some err \<Rightarrow> do { _ \<leftarrow> vpcReadyFalse E rs (errText err); ret e }
     | None \<Rightarrow> do { _ \<leftarrow> modVPC (lv_Status_update (vpc_Ready_update (\<lambda>_. True))); ret None })"
  by (intro keeps_case vpt.beginning.keeps_all vpt_begunRuntime vpt.begun_modObj; simp)

lemmas begun_vpcRequeue = vpt_begunRequeue [THEN vpt_vpr]
lemmas begun_vpc_deferred = vpt_begun_deferred [THEN vpt_vpr]
lemmas begun_applied = vpt_begun_applied [THEN vpt_vpr]

lemma grows_vpcBranches: "vpr.grows E (vpc_reconcileUpdate E)" "vpr.grows E (vpc_reconcileCreate E)"
proof -
  show "vpr.grows E (vpc_reconcileUpdate E)"
    unfolding vpc_reconcileUpdate_def by (rule vpr.grows_after [OF grows_reconcileVPC vpr.begun_holds [OF begun_applied]])
  have failed: "vpr.grows E (do { _ \<leftarrow> vpcReadyFalse E rs msg; ret x })" for rs msg and x :: "error option"
    by (intro vpr.grows_keeps adds_rules vpr.holds_adds [OF vpr.begun_holds [OF begun_vpcRuntime(1)]])
  show "vpr.grows E (vpc_reconcileCreate E)"
    unfolding vpc_reconcileCreate_def
    by (intro vpr.grows_before [OF vpr.holds_adds [OF vpr.begun_holds [OF begun_vpc(1)]]] vpr.grows_cases failed
        vpr.grows_after [OF grows_reconcileVPC vpr.begun_holds [OF begun_applied]])
qed

lemma settles_vpc_reconcileUpdate:
  assumes "vpcListed E" and "vpcID (obj s) = Some i" and "vpcSeen E (tr s) i" and "VPC (CDeleteVPC i) \<notin> set (tr s)"
  shows "vpt.settles s (vpc_reconcileUpdate E)"
  unfolding vpc_reconcileUpdate_def
  by (rule vpt.settles_then [OF settles_reconcileVPC [OF assms] vpt.begun_holds [OF vpt_begun_applied]]) (use assms in simp)

lemma vpt_begun_requeued: "keeps vpt.begun (do { r \<leftarrow> vpcRequeueUnlessStale E T e2; ret (r, rs) })" for rs :: string
  by (intro vpt.beginning.keeps_all vpt_begunRequeue)

lemmas begun_requeued = vpt_begun_requeued [THEN vpt_vpr]

lemma grows_vpc_reconcile: "vpr.grows E (vpc_reconcile E T)"
proof -
  note calmly = vpr.holds_adds [OF vpr.begun_holds]
  have read: "keeps (adds P) theVPC" for P by (intro adds_rules)
  have del: "vpr.grows E (do { r \<leftarrow> vpc_reconcileDelete E T; ret (r, x) })" for x :: string
    by (intro vpr.grows_keeps adds_rules vpc_delete_creates_none)
  have "vpr.grows E (vpc_reconcileBody E T)"
    unfolding vpc_reconcileBody_def
    by (intro vpr.grows_before [OF calmly [OF begun_vpc(3)]] vpr.grows_before [OF calmly [OF begun_vpcRuntime(5)]] vpr.grows_before [OF read]
        vpr.grows_if vpr.grows_keeps [OF adds.keeps_return] del
        vpr.grows_after [OF grows_vpcBranches(1) vpr.begun_holds [OF begun_requeued]] vpr.grows_after [OF grows_vpcBranches(2) vpr.begun_holds [OF begun_requeued]])
  then have body: "vpr.grows E (do { body \<leftarrow> vpc_reconcileBody E T; vpc_deferred E body })"
    by (rule vpr.grows_after) (rule vpr.begun_holds [OF begun_vpc_deferred])
  show ?thesis
    unfolding vpc_reconcile_def by (rule vpr.grows_before adds_modify body | simp)+
qed

text \<open>A VPC that is deleted is not created again; one that has an ID is left alone while it lives.\<close>

lemma deleting_vpc_reconcile:
  assumes "vpcDeleted (obj s) \<noteq> None"
  shows "vpr.settles s (vpc_reconcile E T)"
proof -
  have del: "vpr.settles s (do { r \<leftarrow> vpc_reconcileDelete E T; ret (r, x) })" for x :: string
    by (intro vpr.settles_deleting assms adds_rules vpc_delete_creates_none)
  have "vpr.settles s (vpc_reconcileBody E T)"
    unfolding vpc_reconcileBody_def
  proof (intro vpr.settles_bind [OF begun_vpc(3)] vpr.settles_if vpr.settles_keeps [OF vpr.beginning.keeps_return] vpr.settles_gets
      vpr.settles_bind [OF begun_vpcRuntime(5)] del)
  qed (use assms in \<open>auto simp: vpr.begun_def\<close>)
  then have body: "vpr.settles s (do { body \<leftarrow> vpc_reconcileBody E T; vpc_deferred E body })"
    by (rule vpr.settles_then [OF _ vpr.begun_holds [OF begun_vpc_deferred]]) (use assms in simp)
  show ?thesis
    unfolding vpc_reconcile_def by (rule body vpr.settles_bind vpr.begun_modObj | simp)+
qed

lemma settles_vpc_reconcile:
  assumes live: "vpcListed E" "vpcID (obj s) = Some i" "vpcSeen E (tr s) i" "VPC (CDeleteVPC i) \<notin> set (tr s)" and "vpcDeleted (obj s) = None"
  shows "vpt.settles s (vpc_reconcile E T)"
proof -
  have upd: "vpt.settles s (do { e2 \<leftarrow> vpc_reconcileUpdate E; r \<leftarrow> vpcRequeueUnlessStale E T e2; ret (r, x) })" for x :: string
    by (rule vpt.settles_then [OF settles_vpc_reconcileUpdate [OF live] vpt.begun_holds [OF vpt_begun_requeued]]) (use live in simp)
  have "vpt.settles s (vpc_reconcileBody E T)"
    unfolding vpc_reconcileBody_def
  proof (intro vpt.settles_bind [OF vpt_begun(3)] vpt.settles_if vpt.settles_keeps [OF vpt.beginning.keeps_return] vpt.settles_gets
      vpt.settles_bind [OF vpt_begunRuntime(5)] upd)
  qed (use assms in \<open>auto simp: vpt.begun_def\<close>)
  then have body: "vpt.settles s (do { body \<leftarrow> vpc_reconcileBody E T; vpc_deferred E body })"
    by (rule vpt.settles_then [OF _ vpt.begun_holds [OF vpt_begun_deferred]]) (use live in simp)
  show ?thesis
    unfolding vpc_reconcile_def by (rule body vpt.settles_bind vpt.begun_modObj | simp)+
qed


section \<open>Where the ID comes from\<close>

definition idSeen :: "env \<Rightarrow> VPCScope world \<Rightarrow> VPCScope world \<Rightarrow> bool" where
  "idSeen E s t = (adds (\<lambda>_. True) s t \<and> (\<forall>i. vpcID (obj t) = Some i \<longrightarrow> vpcID (obj s) = Some i \<or> vpcSeen E (tr t) i))"

interpretation ids: preorder_rel "idSeen E"
proof unfold_locales
  show "idSeen E s s" for s by (simp add: idSeen_def adds.refl)
  fix s t u assume a: "idSeen E s t" "idSeen E t u"
  then have "vpcSeen E (tr t) i \<Longrightarrow> vpcSeen E (tr u) i" for i by (auto simp: idSeen_def adds_def intro: vpcSeen_append)
  with a show "idSeen E s u" by (auto simp: idSeen_def intro: adds.trans)
qed

lemma ids_begun: "keeps vpr.begun m \<Longrightarrow> keeps (idSeen E) m"
  by (erule keeps_mono) (auto simp: vpr.begun_def idSeen_def adds_def)

lemma ids_perform: "keeps (idSeen E) (perform c f)"
  by (simp add: keeps_def wp_perform idSeen_def adds_def)

lemma ids_modVPC:
  assumes "\<And>v. vpc_VPCID (lv_Spec (f v)) \<in> {None, vpc_VPCID (lv_Spec v)}"
  shows "keeps (idSeen E) (modVPC f)"
proof (rule keepsI)
  fix s show "wp (modVPC f) (\<lambda>_ t. idSeen E s t) s"
    using assms [of "vs_LinodeVPC (obj s)"] by (auto simp: wp_update idSeen_def adds_def)
qed

lemmas ids_rules = ids.keeps_all ids_perform ids_modVPC

lemma ids_existing: "wp (reconcileExistingVPC E vpc) (\<lambda>_ t. idSeen E s t) (s\<lparr>tr := VPC (CListVPCs flt) # tr s\<rparr>)"
  if list: "vpe_ListVPCs (vpe E) (tr s) flt = Inr (vpc # vs)"
proof -
  let ?u = "obj_update (vs_LinodeVPC_update (lv_Spec_update (setVPCFields vpc))) (s\<lparr>tr := VPC (CListVPCs flt) # tr s\<rparr>)"
  show ?thesis
  proof (rule wp_mono [OF begun_existing])
    fix t assume t: "vpt.begun ?u t"
    have "vpcSeen E (tr ?u) (lvpc_ID vpc)" using list by simp
    moreover obtain new where "tr t = new @ tr ?u" using t by (auto simp: vpt.begun_def adds_def)
    ultimately have "vpcSeen E (tr t) (lvpc_ID vpc)" by (simp only: vpcSeen_append)
    with t show "idSeen E s t" by (auto simp: vpt.begun_def idSeen_def adds_def setVPCFields_def)
  qed
qed

lemma ids_reconcileVPC: "keeps (idSeen E) (reconcileVPC E)"
proof (rule keepsI)
  fix s
  have more: "idSeen E s s" "idSeen E s (s\<lparr>tr := c # tr s\<rparr>)" "idSeen E s (s\<lparr>tr := c # d # tr s\<rparr>)" for c d
    by (simp_all add: idSeen_def adds_def)
  have new: "idSeen E s (obj_update (vs_LinodeVPC_update (lv_Spec_update (\<lambda>sp. updateVPCSpecSubnets v (setVPCFields v sp)))) (s\<lparr>tr := VPC (CCreateVPC opts) # c # tr s\<rparr>))"
    if "vpe_CreateVPC (vpe E) (c # tr s) opts = Inr v" for v opts c
    using that by (simp add: idSeen_def adds_def setVPCFields_def updateVPCSpecSubnets_def)
  show "wp (reconcileVPC E) (\<lambda>_ t. idSeen E s t) s"
    by (auto simp: reconcileVPC_def linodeVPCSpecToVPCCreateConfig_def wp_rules Let_def more split: sum.split list.split intro!: ids_existing new)
qed

lemma ids_vpc_reconcile: "keeps (idSeen E) (vpc_reconcile E T)"
proof -
  note calmly = ids_begun
  have del: "keeps (idSeen E) (vpc_reconcileDelete E T)"
    unfolding vpc_reconcileDelete_def handleRetainedVPC_def handleRetainedSubnets_def deleteRetainedSubnet_def deleteVPCResources_def getVPC_def
      reconcileAgainOr_def vpcReleaseFinalizers_def vpcRemoveFinalizer_def Let_def
    by (intro ids_rules keeps_case begun_vpc(2) [THEN calmly] begun_vpcRuntime [THEN calmly]; simp)
  have "keeps (idSeen E) (vpc_reconcileUpdate E)" "keeps (idSeen E) (vpc_reconcileCreate E)"
    unfolding vpc_reconcileUpdate_def vpc_reconcileCreate_def
    by (intro ids_rules keeps_case ids_reconcileVPC begun_vpc [THEN calmly] begun_vpcRuntime [THEN calmly]; simp)+
  then show ?thesis
    unfolding vpc_reconcile_def vpc_reconcileBody_def
    by (intro ids_rules keeps_case del begun_vpc [THEN calmly] begun_vpcRuntime [THEN calmly] begun_vpcRequeue [THEN calmly] begun_vpc_deferred [THEN calmly]; simp)
qed


section \<open>Sequences of reconciliations\<close>

text \<open>A reconciliation, while nobody has asked to delete the VPC of a resource that is not deleted itself.\<close>

definition vpcStep :: "env \<Rightarrow> VPCScope world \<Rightarrow> VPCScope world \<Rightarrow> bool" where
  "vpcStep E w u = (stepOf {m. \<exists>T. m = vpc_reconcile E T} w u
     \<and> (vpcDeleted (obj w) \<noteq> None \<or> (\<forall>i. vpcID (obj w) = Some i \<longrightarrow> VPC (CDeleteVPC i) \<notin> set (tr w))))"

abbreviation vpcRuns :: "env \<Rightarrow> int option \<Rightarrow> bool \<Rightarrow> hist \<Rightarrow> nat \<Rightarrow> bool" where
  "vpcRuns E \<equiv> runs (vpcStep E) (vpcMade E) vpcID (\<lambda>s. vpcDeleted s \<noteq> None)"

definition seenStep :: "env \<Rightarrow> VPCScope world \<Rightarrow> VPCScope world \<Rightarrow> bool" where
  "seenStep E w u = (vpcListed E \<and> vpcStep E w u \<and> (\<forall>i. vpcID (obj w) = Some i \<longrightarrow> vpcSeen E (tr w) i))"

lemma stepOf_wp: "stepOf M w u \<Longrightarrow> (\<And>m. m \<in> M \<Longrightarrow> wp m (\<lambda>_ t. Q t) w) \<Longrightarrow> Q u"
  by (auto simp: stepOf_def wp_def split: prod.splits) force

interpretation vguard: id_guard "seenStep E" "vpcMade E" vpcID "\<lambda>s. vpcDeleted s \<noteq> None" for E
proof unfold_locales
  fix w u assume step: "seenStep E w u"
  then have st: "stepOf {m. \<exists>T. m = vpc_reconcile E T} w u" by (simp add: seenStep_def vpcStep_def)
  have settled: "vpt.settled w u" if "vpcDeleted (obj w) = None" "vpcID (obj w) = Some i" for i
    by (rule stepOf_wp [OF st])
      (use step that in \<open>auto simp: seenStep_def vpcStep_def intro!: vpt.settles_wp settles_vpc_reconcile\<close>)
  have deleted: "vpr.settled w u" if "vpcDeleted (obj w) \<noteq> None"
    by (rule stepOf_wp [OF st]) (use that in \<open>auto intro!: vpr.settles_wp deleting_vpc_reconcile\<close>)
  show "vpcMade E (tr u) = vpcMade E (tr w)" if "vpcDeleted (obj w) \<noteq> None \<or> vpcID (obj w) \<noteq> None"
  proof (cases "vpcDeleted (obj w) = None")
    case True
    with that settled show ?thesis by (auto simp: vpt.settled_def dest: vpt.count_adds [where E = E])
  next
    case False
    with deleted show ?thesis by (auto simp: vpr.settled_def dest: vpr.count_adds [where E = E])
  qed
  show "vpcID (obj u) = vpcID (obj w)" if "\<not> vpcDeleted (obj w) \<noteq> None" "vpcID (obj w) \<noteq> None"
    using that settled by (auto simp: vpt.settled_def)
  have "vpr.grew E w u"
    by (rule stepOf_wp [OF st]) (use grows_vpc_reconcile in \<open>auto simp: vpr.grows_def\<close>)
  then show "vpcMade E (tr u) = vpcMade E (tr w) \<or> vpcMade E (tr u) = Suc (vpcMade E (tr w)) \<and> vpcID (obj u) \<noteq> None"
    by (simp add: vpr.grew_def)
qed

lemma vpcRuns_seen:
  assumes "vpcListed E" and "vpcRuns E i del h n"
  shows "runs (seenStep E) (vpcMade E) vpcID (\<lambda>s. vpcDeleted s \<noteq> None) i del h n \<and> (\<forall>k. i = Some k \<longrightarrow> vpcSeen E h k)"
  using assms(2)
proof (induction rule: runs.induct)
  case (runs_start h)
  then show ?case by (simp add: runs.runs_start)
next
  case (runs_step i del h n w u)
  have seen: "vpcSeen E (tr w) k" if "vpcID (obj w) = Some k" for k
    using runs_step.IH runs_step.hyps(2,4) that by (auto simp: suffix_def intro: vpcSeen_append)
  then have step: "seenStep E w u" using runs_step.hyps(5) assms(1) by (simp add: seenStep_def)
  have "idSeen E w u"
    by (rule stepOf_wp) (use runs_step.hyps(5) keeps_wp [OF ids_vpc_reconcile] in \<open>auto simp: vpcStep_def\<close>)
  then have "vpcSeen E (tr u) k" if "vpcID (obj u) = Some k" for k
    using that seen by (auto simp: idSeen_def adds_def intro: vpcSeen_append)
  moreover have "runs (seenStep E) (vpcMade E) vpcID (\<lambda>s. vpcDeleted s \<noteq> None) (vpcID (obj u)) (vpcDeleted (obj w) \<noteq> None) (tr u) (n + (vpcMade E (tr u) - vpcMade E (tr w)))"
    by (rule runs.runs_step [where step = "seenStep E" and ident = vpcID and gone = "\<lambda>s. vpcDeleted s \<noteq> None" and count = "vpcMade E",
          OF conjunct1 [OF runs_step.IH] runs_step.hyps(2) _ runs_step.hyps(4) step]) (rule runs_step.hyps(3))
  ultimately show ?case by blast
qed


section \<open>Properties\<close>

text \<open>
C24: However often a new VPC is reconciled, in whatever order the services fail, its reconciliations are granted at most one VPC in
all, and from then on the resource has an ID until it is deleted. This assumes that the ID they leave in the spec is
stored, that nobody asks to delete this VPC while the resource is not deleted, and that the API, as long as this is so, finds a
VPC that it has granted or listed: a listing by its ID fails or has it first.
\<close>

theorem vpc_one_vpc:
  assumes "vpcListed E" and "vpcRuns E i del h n"
  shows "n \<le> 1 \<and> (n = 0 \<or> del \<or> i \<noteq> None)"
  using vguard.at_most_one [OF conjunct1 [OF vpcRuns_seen [OF assms]]] by auto

definition newVPC :: VPCScope where
  "newVPC = vs_LinodeVPC_update (\<lambda>v. v\<lparr>lv_Meta := meta0\<lparr>om_Name := ''v''\<rparr>, lv_Spec := (lv_Spec v)\<lparr>vpc_VPCID := None\<rparr>\<rparr>) vpcScope1"

text \<open>An API that grants the VPC on request and finds it under its ID, but not under a label.\<close>

definition envNewVPC :: env where
  "envNewVPC = env0\<lparr>vpe := vpe0\<lparr>vpe_ListVPCs := \<lambda>_ f. Inr (if Filter_String (filterOf (Some (lvpc_ID apiVPC1)) [] []) = Inr f then [apiVPC1] else []),
     vpe_CreateVPC := \<lambda>_ _. Inr apiVPC1\<rparr>\<rparr>"

definition vpcFirst :: "VPCScope world" where
  "vpcFirst = snd (State_Monad.run_state (vpc_reconcile envNewVPC 0) (start newVPC))"

definition vpcSecond :: "VPCScope world" where
  "vpcSecond = snd (State_Monad.run_state (vpc_reconcile envNewVPC 0) vpcFirst)"

lemma envNewVPC_seen: "vpcSeen envNewVPC h i \<Longrightarrow> i = lvpc_ID apiVPC1"
  by (induction h) (auto simp: envNewVPC_def split: call.splits vpc_call.splits if_splits)

lemma envNewVPC_listed: "vpcListed envNewVPC"
  unfolding vpcListed_def
proof (intro allI impI)
  fix h i flt vs assume a: "vpcSeen envNewVPC h i" "Filter_String (filterOf (Some i) [] []) = Inr flt" "vpe_ListVPCs (vpe envNewVPC) h flt = Inr vs"
  have "i = lvpc_ID apiVPC1" using a(1) by (rule envNewVPC_seen)
  with a(2,3) have "vs = [apiVPC1]" by (simp add: envNewVPC_def)
  with \<open>i = lvpc_ID apiVPC1\<close> show "\<exists>v vs'. vs = v # vs' \<and> lvpc_ID v = i" by simp
qed

lemmas vpc_run_defs = vpc_reconcile_def vpc_reconcileBody_def vpc_reconcileCreate_def vpc_reconcileUpdate_def reconcileVPC_def reconcileExistingVPC_def vpc_deferred_def
  scope_cred_defs VPCScope_AddFinalizer_def VPCScope_Close_def linodeVPCSpecToVPCCreateConfig_def Filter_String_def vpcRequeueUnlessStale_def
  Filter_MarshalJSON_def filterOf_def newVPC_def vpcScope1_def vpcSpec1_def envNewVPC_def env0_defs meta0_def wp_rules Let_def
  filterFields_def jsonMap_def jsonString_def jsonChar_def apiVPC1_def setVPCFields_def updateVPCSpecSubnets_def

lemma vpcFirst_state: "vpcDeleted (obj vpcFirst) = None \<and> vpcID (obj vpcFirst) = Some (lvpc_ID apiVPC1) \<and> vpcMade envNewVPC (tr vpcFirst) = 1 \<and> VPC (CDeleteVPC (lvpc_ID apiVPC1)) \<notin> set (tr vpcFirst)"
proof -
  have "wp (vpc_reconcile envNewVPC 0) (\<lambda>_ t. vpcDeleted (obj t) = None \<and> vpcID (obj t) = Some (lvpc_ID apiVPC1) \<and> vpcMade envNewVPC (tr t) = 1
      \<and> VPC (CDeleteVPC (lvpc_ID apiVPC1)) \<notin> set (tr t)) (start newVPC)"
    by (simp add: vpc_run_defs)
  then show ?thesis by (simp add: vpcFirst_def wp_def split: prod.splits)
qed

lemma vpcFirst_reached: "vpcRuns envNewVPC (vpcID (obj vpcFirst)) False (tr vpcFirst) (vpcMade envNewVPC (tr vpcFirst))"
proof -
  have "vpcStep envNewVPC (start newVPC) vpcFirst" by (auto simp: vpcStep_def stepOf_def vpcFirst_def)
  from runs_step [where ident = vpcID and gone = "\<lambda>s. vpcDeleted s \<noteq> None" and count = "vpcMade envNewVPC", OF runs_start [where step = "vpcStep envNewVPC" and ident = vpcID and gone = "\<lambda>s. vpcDeleted s \<noteq> None" and count = "vpcMade envNewVPC" and h = "[]"] _ _ _ this]
  show ?thesis by (simp add: newVPC_def meta0_def)
qed

text \<open>The second reconciliation finds the VPC by its ID and creates none.\<close>

theorem vpc_one_vpc_witness:
  "let n = vpcMade envNewVPC (tr vpcFirst) + (vpcMade envNewVPC (tr vpcSecond) - vpcMade envNewVPC (tr vpcFirst))
   in n \<le> 1 \<and> (n = 0 \<or> False \<or> vpcID (obj vpcSecond) \<noteq> None)"
proof -
  have "vpcStep envNewVPC vpcFirst vpcSecond" using vpcFirst_state by (auto simp: vpcStep_def stepOf_def vpcSecond_def)
  from runs_step [where ident = vpcID and gone = "\<lambda>s. vpcDeleted s \<noteq> None" and count = "vpcMade envNewVPC", OF vpcFirst_reached refl _ _ this]
  have "vpcRuns envNewVPC (vpcID (obj vpcSecond)) (vpcDeleted (obj vpcFirst) \<noteq> None) (tr vpcSecond)
     (vpcMade envNewVPC (tr vpcFirst) + (vpcMade envNewVPC (tr vpcSecond) - vpcMade envNewVPC (tr vpcFirst)))" by simp
  from vpc_one_vpc [OF envNewVPC_listed this] show ?thesis using vpcFirst_state by (simp add: Let_def)
qed

end
