(* ===== verification/LoadBalancer.thy ===== *)
theory LoadBalancer
  imports Reconcile VlanIPs
begin

text \<open>
  The scope of a cluster (\<open>cloud/scope/cluster.go\<close>) and the NodeBalancer in front of its control plane
  (\<open>cloud/services/loadbalancers.go\<close>): choosing a subnet, creating the NodeBalancer and its configurations,
  adding the backend nodes of a machine and removing them.
\<close>

section \<open>ClusterScope\<close>

record ClusterScope =
  cs_Cluster :: Cluster
  cs_LinodeCluster :: LinodeCluster
  cs_LinodeMachines :: "LinodeMachine list"

abbreviation csLC :: "(ClusterScope, LinodeCluster) op" where
  "csLC \<equiv> gets (\<lambda>w. cs_LinodeCluster (obj w))"

abbreviation modLC :: "(LinodeCluster \<Rightarrow> LinodeCluster) \<Rightarrow> (ClusterScope, unit) op" where
  "modLC f \<equiv> modObj (cs_LinodeCluster_update f)"

abbreviation lcOf :: "ClusterScope world \<Rightarrow> LinodeCluster" where
  "lcOf w \<equiv> cs_LinodeCluster (obj w)"

abbreviation netOf :: "LinodeCluster \<Rightarrow> NetworkSpec" where
  "netOf lc \<equiv> lcs_Network (lc_Spec lc)"

definition validateClusterScopeParams :: "Cluster option \<Rightarrow> LinodeCluster option \<Rightarrow> error option" where
  "validateClusterScopeParams cl lc =
     (if cl = None then Some (ErrNew ''cluster is required when creating a ClusterScope'')
      else if lc = None then Some (ErrNew ''linodeCluster is required when creating a ClusterScope'')
      else None)"

definition NewClusterScope :: "env \<Rightarrow> Cluster option \<Rightarrow> LinodeCluster option \<Rightarrow> LinodeMachine list \<Rightarrow> ('o, ClusterScope res) op" where
  "NewClusterScope E cl lc lms =
     (case validateClusterScopeParams cl lc of
        Some err \<Rightarrow> ret (Inl err)
      | None \<Rightarrow> do {
          e1 \<leftarrow> newScopeClients E (OCluster (the lc));
          case e1 of
            Some e \<Rightarrow> ret (Inl e)
          | None \<Rightarrow> do {
              e2 \<leftarrow> perform NewEdgeDNSClient (k_NewEdgeDNSClient (k8s E));
              case e2 of
                Some e \<Rightarrow> ret (Inl (ErrWrap ''failed to create akamai dns client: '' e))
              | None \<Rightarrow> do {
                  e3 \<leftarrow> perform NewLinodeClient (k_NewLinodeClient (k8s E));
                  ret (case e3 of
                         Some e \<Rightarrow> Inl (ErrWrap ''failed to create linode client: '' e)
                       | None \<Rightarrow> Inr \<lparr>cs_Cluster = the cl, cs_LinodeCluster = the lc, cs_LinodeMachines = lms\<rparr>)
                }
            }
        })"

definition ClusterScope_Close :: "env \<Rightarrow> (ClusterScope, error option) op" where
  "ClusterScope_Close E = do {
     lc \<leftarrow> csLC;
     perform (K8s (KPatch (OCluster lc))) (\<lambda>h. k_Patch (k8s E) h (OCluster lc))
   }"

definition ClusterScope_AddFinalizer :: "env \<Rightarrow> (ClusterScope, error option) op" where
  "ClusterScope_AddFinalizer E = do {
     lc \<leftarrow> csLC;
     let (fs, updated) = lib_AddFinalizer (lib E) (om_Finalizers (lc_Meta lc)) ClusterFinalizer;
     _ \<leftarrow> modLC (lc_Meta_update (om_Finalizers_update (\<lambda>_. fs)));
     if updated then ClusterScope_Close E else ret None
   }"

definition ClusterScope_AddCredentialsRefFinalizer :: "env \<Rightarrow> (ClusterScope, error option) op" where
  "ClusterScope_AddCredentialsRefFinalizer E = do {
     lc \<leftarrow> csLC;
     case lcs_CredentialsRef (lc_Spec lc) of
       None \<Rightarrow> ret None
     | Some ref \<Rightarrow> addCredentialsFinalizer E ref (om_Namespace (lc_Meta lc)) (toFinalizer (lc_Meta lc))
   }"

definition ClusterScope_RemoveCredentialsRefFinalizer :: "env \<Rightarrow> (ClusterScope, error option) op" where
  "ClusterScope_RemoveCredentialsRefFinalizer E = do {
     lc \<leftarrow> csLC;
     case lcs_CredentialsRef (lc_Spec lc) of
       None \<Rightarrow> ret None
     | Some ref \<Rightarrow> removeCredentialsFinalizer E ref (om_Namespace (lc_Meta lc)) (toFinalizer (lc_Meta lc))
   }"

text \<open>The domains client uses the token \<open>dnsToken\<close> and, without one, the token of the Linode client.\<close>

definition ClusterScope_SetCredentialRefToken :: "env \<Rightarrow> (ClusterScope, error option) op" where
  "ClusterScope_SetCredentialRefToken E = do {
     lc \<leftarrow> csLC;
     case lcs_CredentialsRef (lc_Spec lc) of
       None \<Rightarrow> ret None
     | Some ref \<Rightarrow> do {
         r \<leftarrow> setTokenFromRef E ref (om_Namespace (lc_Meta lc));
         case r of
           Inl err \<Rightarrow> ret (Some err)
         | Inr apiToken \<Rightarrow> do {
             d \<leftarrow> getCredentialDataFromRef E ref (om_Namespace (lc_Meta lc)) ''dnsToken'';
             let dnsToken = (case d of Inl _ \<Rightarrow> apiToken | Inr t \<Rightarrow> if t = [] then apiToken else t);
             _ \<leftarrow> perform (SetDomainsToken dnsToken) (\<lambda>_. ());
             ret None
           }
       }
   }"

lemma calm_ClusterScope_creds [keeps_rules]:
  "keeps (calm isK8s) (ClusterScope_AddCredentialsRefFinalizer E)"
  "keeps (calm isK8s) (ClusterScope_RemoveCredentialsRefFinalizer E)"
  "keeps (calm isK8s) (ClusterScope_SetCredentialRefToken E)"
  "keeps (calm isK8s) (ClusterScope_Close E)"
  unfolding ClusterScope_AddCredentialsRefFinalizer_def ClusterScope_RemoveCredentialsRefFinalizer_def
    ClusterScope_SetCredentialRefToken_def ClusterScope_Close_def Let_def
  by (auto intro!: calm_rules keeps_rules split: option.splits sum.splits)

lemma calm_NewClusterScope [keeps_rules]: "keeps (calm isK8s) (NewClusterScope E cl lc lms)"
  unfolding NewClusterScope_def by (auto intro!: calm_rules keeps_rules split: option.splits)

lemma adds_ClusterScope_AddFinalizer [keeps_rules]: "keeps (adds isK8s) (ClusterScope_AddFinalizer E)"
  unfolding ClusterScope_AddFinalizer_def Let_def
  by (auto intro!: adds_rules calm_ClusterScope_creds [THEN calm_adds] split: prod.splits)


section \<open>Ports and subnets\<close>

definition DefaultApiserverLBPort :: int where "DefaultApiserverLBPort = 6443"
definition DefaultKonnectivityLBPort :: int where "DefaultKonnectivityLBPort = 8132"

definition DetermineAPIServerLBPort :: "LinodeCluster \<Rightarrow> int" where
  "DetermineAPIServerLBPort lc =
     (if net_ApiserverLoadBalancerPort (netOf lc) \<noteq> 0 then net_ApiserverLoadBalancerPort (netOf lc) else DefaultApiserverLBPort)"

definition ShouldUseVPC :: "LinodeCluster \<Rightarrow> bool" where
  "ShouldUseVPC lc = (net_EnableVPCBackends (netOf lc) \<and> (lcs_VPCRef (lc_Spec lc) \<noteq> None \<or> lcs_VPCID (lc_Spec lc) \<noteq> None))"

text \<open>The argument \<open>subnets interface{}\<close> of \<open>FindSubnet\<close> at the two types it has.\<close>

datatype subnetsArg = SubnetsOfVPC "LSubnet list" | SubnetsOfRef "VPCSubnetCreateOptions list"

definition selectSubnet :: "string \<Rightarrow> 'a list \<Rightarrow> ('a \<Rightarrow> string \<times> int) \<Rightarrow> int res" where
  "selectSubnet subnetName subnets getProps =
     (case subnets of
        [] \<Rightarrow> Inl (ErrNew ''no subnets available in the VPC'')
      | s # _ \<Rightarrow>
          if subnetName \<noteq> [] then
            (case find (\<lambda>x. fst (getProps x) = subnetName) subnets of
               Some x \<Rightarrow> Inr (snd (getProps x))
             | None \<Rightarrow> Inl (ErrNew (''subnet with label '' @ subnetName @ '' not found in VPC'')))
          else Inr (snd (getProps s)))"

definition findDirectVPCSubnet :: "string \<Rightarrow> subnetsArg \<Rightarrow> int res" where
  "findDirectVPCSubnet subnetName subnets =
     (case subnets of
        SubnetsOfRef _ \<Rightarrow> Inl (ErrNew ''invalid subnet data type for direct VPC: expected []linodego.VPCSubnet'')
      | SubnetsOfVPC ss \<Rightarrow> if ss = [] then Inl (ErrNew ''no subnets found in VPC'')
          else selectSubnet subnetName ss (\<lambda>s. (lsn_Label s, lsn_ID s)))"

definition findVPCRefSubnet :: "string \<Rightarrow> subnetsArg \<Rightarrow> int res" where
  "findVPCRefSubnet subnetName subnets =
     (case subnets of
        SubnetsOfVPC _ \<Rightarrow> Inl (ErrNew ''invalid subnet data type for VPC reference: expected []v1alpha2.VPCSubnetCreateOptions'')
      | SubnetsOfRef ss \<Rightarrow> if ss = [] then Inl (ErrNew ''no subnets found in LinodeVPC'')
          else selectSubnet subnetName ss (\<lambda>s. (sn_Label s, sn_SubnetID s)))"

definition FindSubnet :: "string \<Rightarrow> bool \<Rightarrow> subnetsArg \<Rightarrow> int res" where
  "FindSubnet subnetName isDirectVPC subnets =
     (case (if isDirectVPC then findDirectVPCSubnet subnetName subnets else findVPCRefSubnet subnetName subnets) of
        Inl err \<Rightarrow> Inl err
      | Inr subnetID \<Rightarrow> if subnetID = 0 then Inl (ErrNew ''invalid subnet ID: selected subnet ID is 0'') else Inr subnetID)"

text \<open>A reference without a namespace means the namespace of the cluster.\<close>

definition clusterRefKey :: "LinodeCluster \<Rightarrow> ObjectReference \<Rightarrow> NamespacedName" where
  "clusterRefKey lc ref =
     \<lparr>nn_Namespace = (if obr_Namespace ref = [] then om_Namespace (lc_Meta lc) else obr_Namespace ref), nn_Name = obr_Name ref\<rparr>"

definition getSubnetID :: "env \<Rightarrow> (ClusterScope, int res) op" where
  "getSubnetID E = do {
     lc \<leftarrow> csLC;
     let subnetName = net_SubnetName (netOf lc);
     case lcs_VPCID (lc_Spec lc) of
       Some vpcID \<Rightarrow>
         bindE (perform (VPC (CGetVPC vpcID)) (\<lambda>h. vpe_GetVPC (vpe E) h vpcID)) (\<lambda>vpc.
           ret (if lvpc_Subnets vpc = [] then Inl (ErrNew ''no subnets found in VPC'')
                else FindSubnet subnetName True (SubnetsOfVPC (lvpc_Subnets vpc))))
     | None \<Rightarrow> (case lcs_VPCRef (lc_Spec lc) of
         None \<Rightarrow> ret (Inl (ErrNew ''neither VPCID nor VPCRef is specified in LinodeCluster''))
       | Some ref \<Rightarrow>
           if obr_Name ref = [] then ret (Inl (ErrNew ''VPCRef name is not specified in LinodeCluster''))
           else do {
             let key = clusterRefKey lc ref;
             bindE (wrapE (''failed to fetch LinodeVPC '' @ nn_Namespace key @ ''/'' @ nn_Name key @ '': '')
                      (perform (K8s (KGet KVPC key)) (\<lambda>h. k_GetVPC (k8s E) h key))) (\<lambda>linodeVPC.
               ret (if vpc_Subnets (lv_Spec linodeVPC) = [] then Inl (ErrNew ''no subnets found in LinodeVPC'')
                    else FindSubnet subnetName False (SubnetsOfRef (vpc_Subnets (lv_Spec linodeVPC)))))
           })
   }"


section \<open>The NodeBalancer\<close>

text \<open>The caller has checked that the reference is there.\<close>

definition lb_getFirewallID :: "env \<Rightarrow> ObjectReference \<Rightarrow> (ClusterScope, int res) op" where
  "lb_getFirewallID E ref = do {
     lc \<leftarrow> csLC;
     let key = clusterRefKey lc ref;
     bindE (perform (K8s (KGet KFirewall key)) (\<lambda>h. k_GetFirewall (k8s E) h key)) (\<lambda>fw.
       ret (case fw_FirewallID (lfw_Spec fw) of None \<Rightarrow> Inl (ErrNew ''nil firewallID'') | Some i \<Rightarrow> Inr i))
   }"

definition getNBFromLabel :: "env \<Rightarrow> (ClusterScope, LNodeBalancer option res) op" where
  "getNBFromLabel E = do {
     lc \<leftarrow> csLC;
     let label = om_Name (lc_Meta lc);
     case Filter_String (filterOf None label []) of
       Inl err \<Rightarrow> ret (Inl err)
     | Inr flt \<Rightarrow>
         bindE (perform (NB (CListNodeBalancers flt)) (\<lambda>h. nbe_ListNodeBalancers (nbe E) h flt)) (\<lambda>nbs.
           ret (case nbs of nb # _ \<Rightarrow> Inr (Some nb) | [] \<Rightarrow> Inl (ErrNew (''no NodeBalancer found with label '' @ label))))
   }"

definition nbVPCs :: "env \<Rightarrow> (ClusterScope, LNodeBalancerVPCOptions list res) op" where
  "nbVPCs E = do {
     lc \<leftarrow> csLC;
     if ShouldUseVPC lc then
       bindE (getSubnetID E) (\<lambda>subnetID.
         ret (Inr [\<lparr>nbv_SubnetID = subnetID, nbv_IPv4Range = net_NodeBalancerBackendIPv4Range (netOf lc)\<rparr>]))
     else ret (Inr [])
   }"

text \<open>\<open>firewall.ID\<close> is a panic when the client returns neither a firewall nor an error.\<close>

definition nbFirewallID :: "env \<Rightarrow> (ClusterScope, int res) op" where
  "nbFirewallID E = do {
     lc \<leftarrow> csLC;
     case net_NodeBalancerFirewallID (netOf lc) of
       Some firewallID \<Rightarrow> do {
         (fw, err) \<leftarrow> perform (FW (CGetFirewall firewallID)) (\<lambda>h. fwe_GetFirewall (fwe E) h firewallID);
         ret (case err of Some e \<Rightarrow> Inl e
              | None \<Rightarrow> (case fw of None \<Rightarrow> Inl (ErrSentinel ErrPanic) | Some f \<Rightarrow> Inr (lf_ID f)))
       }
     | None \<Rightarrow> (case lcs_NodeBalancerFirewallRef (lc_Spec lc) of
         Some ref \<Rightarrow> lb_getFirewallID E ref
       | None \<Rightarrow> ret (Inr 0))
   }"

definition EnsureNodeBalancer :: "env \<Rightarrow> (ClusterScope, LNodeBalancer option res) op" where
  "EnsureNodeBalancer E = do {
     lc \<leftarrow> csLC;
     let nbID = net_NodeBalancerID (netOf lc);
     if nbID \<noteq> None \<and> nbID \<noteq> Some 0 then do {
       (nb, err) \<leftarrow> perform (NB (CGetNodeBalancer (the nbID))) (\<lambda>h. nbe_GetNodeBalancer (nbe E) h (the nbID));
       ret (case err of Some e \<Rightarrow> Inl e | None \<Rightarrow> Inr nb)
     }
     else bindE (nbVPCs E) (\<lambda>vpcs. bindE (nbFirewallID E) (\<lambda>firewallID. do {
       let createConfig = \<lparr>nbo_Label = om_Name (lc_Meta lc), nbo_Region = lcs_Region (lc_Spec lc), nbo_Tags = [om_UID (lc_Meta lc)],
             nbo_VPCs = vpcs, nbo_FirewallID = firewallID\<rparr>;
       (nb, err) \<leftarrow> perform (NB (CCreateNodeBalancer createConfig)) (\<lambda>h. nbe_CreateNodeBalancer (nbe E) h createConfig);
       case err of
         None \<Rightarrow> ret (Inr nb)
       | Some e \<Rightarrow>
           if lib_ErrHasStatus (lib E) err [StatusBadRequest] \<and> strings_Contains (errText e) ''Label must be unique''
           then getNBFromLabel E
           else ret (Inl e)
     }))
   }"

definition nbConfigOptions :: "int \<Rightarrow> LNodeBalancerConfigCreateOptions" where
  "nbConfigOptions port = \<lparr>nco_Port = port, nco_Protocol = ''tcp'', nco_Algorithm = ''roundrobin'', nco_Check = ''connection''\<rparr>"

definition createNBConfig :: "env \<Rightarrow> int \<Rightarrow> int \<Rightarrow> ('o, LNodeBalancerConfig res) op" where
  "createNBConfig E nbID port =
     perform (NB (CCreateNodeBalancerConfig nbID (nbConfigOptions port))) (\<lambda>h. nbe_CreateNodeBalancerConfig (nbe E) h nbID (nbConfigOptions port))"

text \<open>A missing \<open>NodeBalancerID\<close> is dereferenced before the request is sent.\<close>

definition EnsureNodeBalancerConfigs :: "env \<Rightarrow> (ClusterScope, LNodeBalancerConfig list res) op" where
  "EnsureNodeBalancerConfigs E = do {
     lc \<leftarrow> csLC;
     case net_NodeBalancerID (netOf lc) of
       None \<Rightarrow> ret (Inl (ErrSentinel ErrPanic))
     | Some nbID \<Rightarrow>
         bindE (case net_ApiserverNodeBalancerConfigID (netOf lc) of
                  Some configID \<Rightarrow> perform (NB (CGetNodeBalancerConfig nbID configID)) (\<lambda>h. nbe_GetNodeBalancerConfig (nbe E) h nbID configID)
                | None \<Rightarrow> createNBConfig E nbID (DetermineAPIServerLBPort lc)) (\<lambda>apiserverConfig.
           foldE (\<lambda>portConfig nbConfigs. bindE (createNBConfig E nbID (nbp_Port portConfig)) (\<lambda>nbConfig. ret (Inr (nbConfigs @ [nbConfig]))))
             (net_AdditionalPorts (netOf lc)) [apiserverConfig])
   }"


section \<open>Backend nodes\<close>

definition ipPort :: "string \<Rightarrow> int \<Rightarrow> string" where
  "ipPort ip port = ip @ '':'' @ Itoa port"

text \<open>The ports of the control plane with the NodeBalancer configuration of each, which may be missing.\<close>

definition nbPorts :: "LinodeCluster \<Rightarrow> (int option \<times> int) list" where
  "nbPorts lc = (net_ApiserverNodeBalancerConfigID (netOf lc), DetermineAPIServerLBPort lc)
     # map (\<lambda>p. (nbp_NodeBalancerConfigID p, nbp_Port p)) (net_AdditionalPorts (netOf lc))"

definition createNBNode :: "env \<Rightarrow> string \<Rightarrow> int \<Rightarrow> int \<Rightarrow> (ClusterScope, unit res) op" where
  "createNBNode E addr configID subnetID = do {
     s \<leftarrow> getObj;
     let opts = \<lparr>nno_Label = om_Name (cl_Meta (cs_Cluster s)), nno_Address = addr, nno_Mode = ''accept'', nno_SubnetID = subnetID\<rparr>;
     case net_NodeBalancerID (netOf (cs_LinodeCluster s)) of
       None \<Rightarrow> ret (Inl (ErrSentinel ErrPanic))
     | Some nbID \<Rightarrow> do {
         err \<leftarrow> perform (NB (CCreateNodeBalancerNode nbID configID opts)) (\<lambda>h. nbe_CreateNodeBalancerNode (nbe E) h nbID configID opts);
         ret (case err of Some e \<Rightarrow> Inl e | None \<Rightarrow> Inr ())
       }
   }"

definition processAndCreateNodeBalancerNodes :: "env \<Rightarrow> string \<Rightarrow> LNodeBalancerNode list \<Rightarrow> int \<Rightarrow> (ClusterScope, unit res) op" where
  "processAndCreateNodeBalancerNodes E ipAddress nodeBalancerNodes subnetID = do {
     lc \<leftarrow> csLC;
     let portsToBeAdded = nbPorts lc;
     if \<exists>p\<in>set portsToBeAdded. fst p = None then ret (Inl (ErrSentinel ErrPanic))
     else forE portsToBeAdded (\<lambda>(configID, port). do {
       let ipPortCombo = ipPort ipAddress port;
       if \<exists>n\<in>set nodeBalancerNodes. nbn_Address n = ipPortCombo then ret (Inr ())
       else createNBNode E ipPortCombo (the configID) subnetID
     })
   }"

definition isInternal :: "MachineAddress \<Rightarrow> bool" where
  "isInternal a = (ma_Type a = MachineInternalIP)"

text \<open>
  The variable \<open>subnetID\<close> of the VPC branch is a new one: the private address is always added without a
  subnet.
\<close>

definition AddNodesToNB :: "env \<Rightarrow> LinodeMachine \<Rightarrow> LNodeBalancerNode list \<Rightarrow> (ClusterScope, unit res) op" where
  "AddNodesToNB E linodeMachine nodeBalancerNodes = do {
     lc \<leftarrow> csLC;
     let addrs = lms_Addresses (lm_Status linodeMachine);
     let privateNode = (case find (\<lambda>a. isInternal a \<and> IsLinodePrivateIP (ma_Address a)) addrs of
           None \<Rightarrow> ret (Inl (ErrNew ''no private IP address''))
         | Some a \<Rightarrow> processAndCreateNodeBalancerNodes E (ma_Address a) nodeBalancerNodes 0);
     if net_ApiserverNodeBalancerConfigID (netOf lc) = None then ret (Inl (ErrNew ''nil NodeBalancer Config ID''))
     else if ShouldUseVPC lc then
       bindE (getSubnetID E) (\<lambda>subnetID.
         case find (\<lambda>a. isInternal a \<and> \<not> IsLinodePrivateIP (ma_Address a)) addrs of
           Some a \<Rightarrow> processAndCreateNodeBalancerNodes E (ma_Address a) nodeBalancerNodes subnetID
         | None \<Rightarrow> privateNode)
     else privateNode
   }"

definition deleteNBNode :: "env \<Rightarrow> int option \<Rightarrow> int option \<Rightarrow> int \<Rightarrow> ('o, unit res) op" where
  "deleteNBNode E nbID configID nodeID =
     (case (nbID, configID) of
        (Some nb, Some cfg) \<Rightarrow> do {
          err \<leftarrow> perform (NB (CDeleteNodeBalancerNode nb cfg nodeID)) (\<lambda>h. nbe_DeleteNodeBalancerNode (nbe E) h nb cfg nodeID);
          ret (if IgnoreLinodeAPIError E err [StatusNotFound] \<noteq> None then Inl (the err) else Inr ())
        }
      | _ \<Rightarrow> ret (Inl (ErrSentinel ErrPanic)))"

definition DeleteNodesFromNB :: "env \<Rightarrow> (ClusterScope, unit res) op" where
  "DeleteNodesFromNB E = do {
     s \<leftarrow> getObj;
     let lc = cs_LinodeCluster s;
     let net = netOf lc;
     if ep_Host (lcs_ControlPlaneEndpoint (lc_Spec lc)) = [] then ret (Inr ())
     else forE (cs_LinodeMachines s) (\<lambda>eachMachine.
       case GetInstanceID (lms_ProviderID (lm_Spec eachMachine)) of
         (_, Some _) \<Rightarrow> ret (Inr ())
       | (instanceID, None) \<Rightarrow>
           forE (net_ApiserverNodeBalancerConfigID net # map nbp_NodeBalancerConfigID (net_AdditionalPorts net)) (\<lambda>configID. deleteNBNode E (net_NodeBalancerID net) configID instanceID))
   }"

end
