(* ===== verification/Domains.thy ===== *)
theory Domains
  imports LoadBalancer
begin

text \<open>
  \<open>cloud/services/domains.go\<close>: the DNS names of a control plane. The entries are computed from the
  machines of the cluster, oldest first, and written to the Linode domains service or to Akamai's
  Edge DNS. The mutex in \<open>DNSEntries\<close> guards a variable of one call, so it has no counterpart here.
\<close>

section \<open>The entries of a cluster\<close>

record DNSOptions =
  dns_Hostname :: string
  dns_Target :: string
  dns_RecordType :: string
  dns_TTLSec :: int

abbreviation "recordTypeA \<equiv> ''A''"
abbreviation "recordTypeAAAA \<equiv> ''AAAA''"
abbreviation "recordTypeTXT \<equiv> ''TXT''"

definition getSubDomain :: "LinodeCluster \<Rightarrow> string" where
  "getSubDomain lc =
     (if net_DNSSubDomainOverride (netOf lc) \<noteq> [] then net_DNSSubDomainOverride (netOf lc)
      else om_Name (lc_Meta lc) @
        (if net_DNSUniqueIdentifier (netOf lc) \<noteq> [] then ''-'' @ net_DNSUniqueIdentifier (netOf lc) else []))"

text \<open>
  A machine of a \<open>KubeadmControlPlane\<close> is ready when the filter of Cluster API finds none of its control
  plane components unhealthy; any other machine when its \<open>Ready\<close> condition is true.
\<close>

definition isCapiMachineReady :: "env \<Rightarrow> Machine \<Rightarrow> ('o, bool res) op" where
  "isCapiMachineReady E capiMachine =
     (case lib_GetControllerOf (lib E) (mc_Meta capiMachine) of
        Some ref \<Rightarrow>
          if or_Kind ref = ''KubeadmControlPlane'' then do {
            let key = \<lparr>nn_Namespace = om_Namespace (mc_Meta capiMachine), nn_Name = or_Name ref\<rparr>;
            bindE (perform (K8s (KGet KKubeadmControlPlane key)) (\<lambda>h. k_GetKCPEtcdExternal (k8s E) h key)) (\<lambda>isEtcdManagedExternally.
              ret (Inr (\<not> lib_HasUnhealthyControlPlaneComponents (lib E) (\<not> isEtcdManagedExternally) capiMachine)))
          }
          else ret (Inr (ConditionTrue (lookupCond ReadyCondition (mc_Conditions capiMachine))))
      | None \<Rightarrow> ret (Inr (ConditionTrue (lookupCond ReadyCondition (mc_Conditions capiMachine)))))"

text \<open>The external addresses of a machine, with the record type of each. The text of the parser's error is not modelled.\<close>

fun addressOptions :: "string \<Rightarrow> int \<Rightarrow> MachineAddress list \<Rightarrow> DNSOptions list res" where
  "addressOptions subdomain ttl [] = Inr []"
| "addressOptions subdomain ttl (a # as) =
     (if ma_Type a \<noteq> MachineExternalIP then addressOptions subdomain ttl as
      else case netip_ParseAddr (ma_Address a) of
        None \<Rightarrow> Inl (ErrWrap ''not a valid IP '' (ErrNew ''ParseAddr''))
      | Some (bs, _) \<Rightarrow> (case addressOptions subdomain ttl as of
            Inl err \<Rightarrow> Inl err
          | Inr opts \<Rightarrow> Inr (\<lparr>dns_Hostname = subdomain, dns_Target = ma_Address a,
                dns_RecordType = (if length bs = 4 then recordTypeA else recordTypeAAAA), dns_TTLSec = ttl\<rparr> # opts)))"

definition processLinodeMachine :: "env \<Rightarrow> LinodeMachine \<Rightarrow> int \<Rightarrow> string \<Rightarrow> bool \<Rightarrow> ('o, DNSOptions list res) op" where
  "processLinodeMachine E machine dnsTTLSec subdomain firstMachine =
     bindE (wrapE (''failed to get CAPI machine for LinodeMachine '' @ om_Name (lm_Meta machine) @ '': '')
              (perform (K8s (KGetOwnerMachine (lm_Meta machine))) (\<lambda>h. k_GetOwnerMachine (k8s E) h (lm_Meta machine)))) (\<lambda>m.
       case m of
         None \<Rightarrow> ret (Inr [])
       | Some capiMachine \<Rightarrow>
           if om_DeletionTimestamp (mc_Meta capiMachine) \<noteq> None then ret (Inr [])
           else bindE (wrapE (''failed to determine if linode machine '' @ om_Name (lm_Meta machine) @ '' is ready: '')
                         (isCapiMachineReady E capiMachine)) (\<lambda>isReady.
             ret (if \<not> firstMachine \<and> \<not> isReady then Inl (ErrSentinel ErrReconcileAgain)
                  else addressOptions subdomain dnsTTLSec (lms_Addresses (lm_Status machine)))))"

text \<open>The loop over the machines: the options of all of them and the errors on the way.\<close>

fun collectDNS :: "env \<Rightarrow> int \<Rightarrow> string \<Rightarrow> bool \<Rightarrow> LinodeMachine list \<Rightarrow> ('o, DNSOptions list \<times> error option list) op" where
  "collectDNS E ttl subdomain firstMachine [] = ret ([], [])"
| "collectDNS E ttl subdomain firstMachine (m # ms) = do {
     r \<leftarrow> processLinodeMachine E m ttl subdomain firstMachine;
     (opts, errs) \<leftarrow> collectDNS E ttl subdomain False ms;
     ret (case r of
            Inl err \<Rightarrow> (opts, Some (ErrWrap (''failed to process LinodeMachine '' @ om_Name (lm_Meta m) @ '': '') err) # errs)
          | Inr os \<Rightarrow> (os @ opts, errs))
   }"

definition dnsTTL :: "LinodeCluster \<Rightarrow> int" where
  "dnsTTL lc = (if net_DNSTTLSec (netOf lc) \<noteq> 0 then net_DNSTTLSec (netOf lc) else DefaultDNSTTLSec)"

definition ownerEntry :: "LinodeCluster \<Rightarrow> DNSOptions" where
  "ownerEntry lc = \<lparr>dns_Hostname = getSubDomain lc, dns_Target = om_Name (lc_Meta lc), dns_RecordType = recordTypeTXT, dns_TTLSec = dnsTTL lc\<rparr>"

text \<open>The machines of the scope are sorted in place.\<close>

definition getDNSEntriesToEnsure :: "env \<Rightarrow> (ClusterScope, DNSOptions list \<times> error option) op" where
  "getDNSEntriesToEnsure E = do {
     _ \<leftarrow> modObj (cs_LinodeMachines_update (sort_key (\<lambda>m. om_CreationTimestamp (lm_Meta m))));
     s \<leftarrow> getObj;
     let lc = cs_LinodeCluster s;
     (opts, errs) \<leftarrow> collectDNS E (dnsTTL lc) (getSubDomain lc) True (cs_LinodeMachines s);
     ret (opts @ [ownerEntry lc], errors_Join errs)
   }"

definition getDNSMachineIPs :: "DNSOptions list \<Rightarrow> string list \<times> string list" where
  "getDNSMachineIPs dnsEntries =
     (map dns_Target (filter (\<lambda>e. dns_RecordType e = recordTypeA) dnsEntries),
      map dns_Target (filter (\<lambda>e. dns_RecordType e = recordTypeAAAA) dnsEntries))"


section \<open>Linode domains\<close>

definition optE :: "error option \<Rightarrow> unit res" where
  "optE err = (case err of Some e \<Rightarrow> Inl e | None \<Rightarrow> Inr ())"

lemma optE_simps [simp]: "optE (Some e) = Inl e" "optE None = Inr ()"
  by (simp_all add: optE_def)

definition deleteDomainRecordCall :: "env \<Rightarrow> int \<Rightarrow> int \<Rightarrow> ('o, unit res) op" where
  "deleteDomainRecordCall E domainID recordID = do {
     err \<leftarrow> perform (DNS (CDeleteDomainRecord domainID recordID)) (\<lambda>h. dne_DeleteDomainRecord (dne E) h domainID recordID);
     ret (optE err)
   }"

definition listDomainRecords :: "env \<Rightarrow> int \<Rightarrow> (string \<times> string) list \<Rightarrow> ('o, LDomainRecord list res) op" where
  "listDomainRecords E domainID kvs =
     perform (DNS (CListDomainRecords domainID (jsonMap kvs))) (\<lambda>h. dne_ListDomainRecords (dne E) h domainID (jsonMap kvs))"

definition deleteStaleLinodeEntries :: "env \<Rightarrow> LDomainRecord list \<Rightarrow> int \<Rightarrow> DNSOptions list \<Rightarrow> ('o, unit res) op" where
  "deleteStaleLinodeEntries E domainRecords domainID dnsEntries =
     (let (ipv4IPs, ipv6IPs) = getDNSMachineIPs dnsEntries
      in forE domainRecords (\<lambda>record.
           if ldr_Type record = recordTypeTXT then ret (Inr ())
           else if ldr_Target record \<notin> set ipv4IPs \<and> ldr_Target record \<notin> set ipv6IPs
           then deleteDomainRecordCall E domainID (ldr_ID record)
           else ret (Inr ())))"

definition GetDomainID :: "env \<Rightarrow> (ClusterScope, int res) op" where
  "GetDomainID E = do {
     lc \<leftarrow> csLC;
     let rootDomain = net_DNSRootDomain (netOf lc);
     let flt = jsonMap [(''domain'', rootDomain)];
     bindE (perform (DNS (CListDomains flt)) (\<lambda>h. dne_ListDomains (dne E) h flt)) (\<lambda>domains.
       ret (case domains of
              [d] \<Rightarrow> if ldm_Domain d = rootDomain then Inr (ldm_ID d)
                else Inl (ErrNew (''domain '' @ rootDomain @ '' not found in list of domains owned by this account''))
            | _ \<Rightarrow> Inl (ErrNew (''domain '' @ rootDomain @ '' not found in list of domains owned by this account''))))
   }"

definition entryFilter :: "DNSOptions \<Rightarrow> (string \<times> string) list" where
  "entryFilter e = [(''name'', dns_Hostname e), (''target'', dns_Target e), (''type'', dns_RecordType e)]"

definition CreateDomainRecord :: "env \<Rightarrow> int \<Rightarrow> DNSOptions \<Rightarrow> ('o, unit res) op" where
  "CreateDomainRecord E domainID dnsEntry =
     bindE (listDomainRecords E domainID (entryFilter dnsEntry)) (\<lambda>domainRecords.
       if domainRecords = [] then do {
         let opts = \<lparr>dro_Type = dns_RecordType dnsEntry, dro_Name = dns_Hostname dnsEntry, dro_Target = dns_Target dnsEntry, dro_TTLSec = dns_TTLSec dnsEntry\<rparr>;
         err \<leftarrow> perform (DNS (CCreateDomainRecord domainID opts)) (\<lambda>h. dne_CreateDomainRecord (dne E) h domainID opts);
         ret (optE err)
       }
       else ret (Inr ()))"

definition IsLinodeDomainRecordOwner :: "env \<Rightarrow> string \<Rightarrow> int \<Rightarrow> ('o, bool res) op" where
  "IsLinodeDomainRecordOwner E hostname domainID =
     bindE (listDomainRecords E domainID [(''name'', hostname), (''type'', recordTypeTXT)]) (\<lambda>domainRecords.
       ret (if domainRecords = [] then Inl (ErrNew (''no txt record '' @ hostname @ '' found'')) else Inr True))"

definition DeleteDomainRecord :: "env \<Rightarrow> int \<Rightarrow> DNSOptions \<Rightarrow> ('o, unit res) op" where
  "DeleteDomainRecord E domainID dnsEntry =
     bindE (listDomainRecords E domainID (entryFilter dnsEntry)) (\<lambda>domainRecords.
       case domainRecords of
         [] \<Rightarrow> ret (Inr ())
       | record # _ \<Rightarrow>
           if dns_RecordType dnsEntry \<noteq> recordTypeTXT then
             bindE (IsLinodeDomainRecordOwner E (dns_Hostname dnsEntry) domainID) (\<lambda>isOwner.
               if \<not> isOwner then ret (Inl (ErrNew ''the domain record is not owned by this entity. wont delete''))
               else deleteDomainRecordCall E domainID (ldr_ID record))
           else deleteDomainRecordCall E domainID (ldr_ID record))"

definition EnsureLinodeDNSEntries :: "env \<Rightarrow> string \<Rightarrow> DNSOptions list \<Rightarrow> (ClusterScope, unit res) op" where
  "EnsureLinodeDNSEntries E operation dnsEntries = do {
     lc \<leftarrow> csLC;
     bindE (GetDomainID E) (\<lambda>domainID.
     bindE (listDomainRecords E domainID [(''name'', getSubDomain lc)]) (\<lambda>domainRecords.
     bindE (deleteStaleLinodeEntries E domainRecords domainID dnsEntries) (\<lambda>_.
       forE dnsEntries (\<lambda>dnsEntry.
         if operation = ''delete'' then DeleteDomainRecord E domainID dnsEntry
         else CreateDomainRecord E domainID dnsEntry))))
   }"


section \<open>Akamai Edge DNS\<close>

definition fqdn :: "LinodeCluster \<Rightarrow> string" where
  "fqdn lc = getSubDomain lc @ ''.'' @ net_DNSRootDomain (netOf lc)"

definition akGet :: "env \<Rightarrow> LinodeCluster \<Rightarrow> string \<Rightarrow> ('o, AkamaiRecord option \<times> error option) op" where
  "akGet E lc ty = perform (AKAM (CGetRecord (net_DNSRootDomain (netOf lc)) (fqdn lc) ty))
     (\<lambda>h. ake_GetRecord (ake E) h (net_DNSRootDomain (netOf lc)) (fqdn lc) ty)"

definition akUpdate :: "env \<Rightarrow> string \<Rightarrow> AkamaiRecord \<Rightarrow> ('o, unit res) op" where
  "akUpdate E zone record = do {
     err \<leftarrow> perform (AKAM (CUpdateRecord record zone)) (\<lambda>h. ake_UpdateRecord (ake E) h record zone);
     ret (optE err)
   }"

definition akDelete :: "env \<Rightarrow> string \<Rightarrow> AkamaiRecord \<Rightarrow> ('o, unit res) op" where
  "akDelete E zone record = do {
     err \<leftarrow> perform (AKAM (CDeleteRecord zone (akr_Name record) (akr_RecordType record)))
       (\<lambda>h. ake_DeleteRecord (ake E) h zone (akr_Name record) (akr_RecordType record));
     ret (optE err)
   }"

definition akNotFound :: "error \<Rightarrow> bool" where
  "akNotFound err = strings_Contains (errText err) ''Not Found''"

definition resetAkamaiRecord :: "env \<Rightarrow> AkamaiRecord \<Rightarrow> string list \<Rightarrow> string \<Rightarrow> ('o, unit res) op" where
  "resetAkamaiRecord E recordResponse machineIPList rootDomain =
     (let freshEntries = filter (\<lambda>ip. ip \<in> set machineIPList) (map (\<lambda>ip. strings_Replace ip '':0:0:'' ''::'' 8) (akr_Target recordResponse))
      in if freshEntries = [] then akDelete E rootDomain recordResponse
         else akUpdate E rootDomain (recordResponse\<lparr>akr_Target := freshEntries\<rparr>))"

definition resetAkamaiType :: "env \<Rightarrow> LinodeCluster \<Rightarrow> string \<Rightarrow> string list \<Rightarrow> ('o, unit res) op" where
  "resetAkamaiType E lc ty ips = do {
     (record, err) \<leftarrow> akGet E lc ty;
     if err \<noteq> None \<and> \<not> akNotFound (the err) then ret (Inl (the err))
     else case record of
       None \<Rightarrow> ret (Inr ())
     | Some r \<Rightarrow> resetAkamaiRecord E r ips (net_DNSRootDomain (netOf lc))
   }"

definition deleteStaleAkamaiEntries :: "env \<Rightarrow> DNSOptions list \<Rightarrow> (ClusterScope, unit res) op" where
  "deleteStaleAkamaiEntries E dnsEntries = do {
     lc \<leftarrow> csLC;
     let (ipv4IPs, ipv6IPs) = getDNSMachineIPs dnsEntries;
     bindE (resetAkamaiType E lc recordTypeA ipv4IPs) (\<lambda>_. resetAkamaiType E lc recordTypeAAAA ipv6IPs)
   }"

definition createAkamaiEntry :: "env \<Rightarrow> DNSOptions \<Rightarrow> string \<Rightarrow> string \<Rightarrow> ('o, unit res) op" where
  "createAkamaiEntry E dnsEntry fqdn0 rootDomain = do {
     let record = \<lparr>akr_Name = fqdn0, akr_RecordType = dns_RecordType dnsEntry, akr_TTL = dns_TTLSec dnsEntry, akr_Active = False,
           akr_Target = [dns_Target dnsEntry]\<rparr>;
     err \<leftarrow> perform (AKAM (CCreateRecord record rootDomain)) (\<lambda>h. ake_CreateRecord (ake E) h record rootDomain);
     ret (optE err)
   }"

definition IsAkamaiDomainRecordOwner :: "env \<Rightarrow> (ClusterScope, bool res) op" where
  "IsAkamaiDomainRecordOwner E = do {
     lc \<leftarrow> csLC;
     (recordBody, err) \<leftarrow> akGet E lc recordTypeTXT;
     ret (if err \<noteq> None \<or> recordBody = None then Inl (ErrNew (''no txt record '' @ fqdn lc @ '' found'')) else Inr True)
   }"

text \<open>
  \<open>removeElement\<close> deletes from the slice it ranges over. The loop visits the \<open>n\<close> indices of the slice it
  started with and reads the shared array, in which \<open>slices.Delete\<close> moves the rest one place forward and
  clears the last place; \<open>m\<close> is the length of the slice now. Deleting at an index that is no longer
  in the slice is a panic, the value \<open>None\<close>.
\<close>

function removeLoop :: "string \<Rightarrow> nat \<Rightarrow> string list \<Rightarrow> nat \<Rightarrow> nat \<Rightarrow> string list option" where
  "removeLoop x n arr m i =
     (if n \<le> i then Some (take m arr)
      else if arr ! i = x then
        (if i < m then removeLoop x n (take i arr @ drop (Suc i) (take m arr) @ [''''] @ drop m arr) (m - 1) (Suc i) else None)
      else removeLoop x n arr m (Suc i))"
  by pat_completeness auto
termination
  by (relation "measure (\<lambda>(x, n, arr, m, i). n - i)") auto

declare removeLoop.simps [simp del]

definition removeElement :: "string list \<Rightarrow> string \<Rightarrow> string list option" where
  "removeElement stringList elemToRemove = removeLoop elemToRemove (length stringList) stringList (length stringList) 0"

definition deleteAkamaiEntry :: "env \<Rightarrow> AkamaiRecord \<Rightarrow> DNSOptions \<Rightarrow> (ClusterScope, unit res) op" where
  "deleteAkamaiEntry E recordBody dnsEntry = do {
     lc \<leftarrow> csLC;
     let rootDomain = net_DNSRootDomain (netOf lc);
     bindE (if dns_RecordType dnsEntry \<noteq> recordTypeTXT
            then bindE (IsAkamaiDomainRecordOwner E) (\<lambda>isOwner.
                   ret (if \<not> isOwner then Inl (ErrNew ''the domain record is not owned by this entity. wont delete'') else Inr ()))
            else ret (Inr ())) (\<lambda>_.
       if 1 < length (akr_Target recordBody) then
         (case removeElement (akr_Target recordBody) (strings_Replace (dns_Target dnsEntry) ''::'' '':0:0:'' 8) of
            None \<Rightarrow> ret (Inl (ErrSentinel ErrPanic))
          | Some target \<Rightarrow> akUpdate E rootDomain (recordBody\<lparr>akr_Target := target\<rparr>))
       else akDelete E rootDomain recordBody)
   }"

text \<open>Whether a target is in the record already: as a part of a text, or as the same address.\<close>

definition targetPresent :: "AkamaiRecord \<Rightarrow> string \<Rightarrow> bool" where
  "targetPresent recordBody t =
     (\<exists>target\<in>set (akr_Target recordBody).
        if akr_RecordType recordBody = ''TXT'' then strings_Contains target t else ParseIP target = ParseIP t)"

definition EnsureAkamaiDNSEntries :: "env \<Rightarrow> string \<Rightarrow> DNSOptions \<Rightarrow> (ClusterScope, unit res) op" where
  "EnsureAkamaiDNSEntries E operation dnsEntry = do {
     lc \<leftarrow> csLC;
     let rootDomain = net_DNSRootDomain (netOf lc);
     (record, err) \<leftarrow> akGet E lc (dns_RecordType dnsEntry);
     case err of
       Some e \<Rightarrow>
         if \<not> akNotFound e then ret (Inl e)
         else if operation \<noteq> ''create'' then ret (Inr ())
         else createAkamaiEntry E dnsEntry (fqdn lc) rootDomain
     | None \<Rightarrow> (case record of
         None \<Rightarrow> ret (Inl (ErrNew ''akamai dns returned empty dns record''))
       | Some recordBody \<Rightarrow>
           if operation = ''delete'' then deleteAkamaiEntry E recordBody dnsEntry
           else if targetPresent recordBody (dns_Target dnsEntry) then ret (Inr ())
           else akUpdate E rootDomain (recordBody\<lparr>akr_Target := akr_Target recordBody @ [dns_Target dnsEntry]\<rparr>))
   }"


section \<open>All entries\<close>

text \<open>The list of entries is never empty: it ends with the owner's entry.\<close>

definition EnsureDNSEntries :: "env \<Rightarrow> string \<Rightarrow> (ClusterScope, unit res) op" where
  "EnsureDNSEntries E operation = do {
     (dnsEntries, err) \<leftarrow> getDNSEntriesToEnsure E;
     case err of
       Some e \<Rightarrow> ret (Inl e)
     | None \<Rightarrow> do {
         lc \<leftarrow> csLC;
         if dnsEntries = [] then ret (Inr ())
         else if net_DNSProvider (netOf lc) = ''akamai'' then
           bindE (deleteStaleAkamaiEntries E dnsEntries) (\<lambda>_. forE dnsEntries (EnsureAkamaiDNSEntries E operation))
         else EnsureLinodeDNSEntries E operation dnsEntries
       }
   }"

end
