(* ===== verification/ClusterCtl.thy ===== *)
theory ClusterCtl
  imports Domains
begin

text \<open>
  The cluster controller: \<open>internal/controller/linodecluster_controller_helpers.go\<close> and
  \<open>linodecluster_controller.go\<close>. Kubernetes events (\<open>Recorder.Eventf\<close>) and log lines are left out.
\<close>

section \<open>Constants and conditions\<close>

definition lbTypeDNS :: string where "lbTypeDNS = ''dns''"
definition lbTypeExternal :: string where "lbTypeExternal = ''external''"
definition lbTypeNB :: string where "lbTypeNB = ''NodeBalancer''"
definition ConditionPreflightLinodeNBFirewallReady :: string where
  "ConditionPreflightLinodeNBFirewallReady = ''PreflightLinodeNBFirewallReady''"
definition MachineControlPlaneLabel :: string where "MachineControlPlaneLabel = ''cluster.x-k8s.io/control-plane''"

definition lcSetCondition :: "env \<Rightarrow> Condition \<Rightarrow> (ClusterScope, unit) op" where
  "lcSetCondition E c = do { now \<leftarrow> timeNow E; modLC (LinodeCluster_SetCondition now c) }"

definition setFailureReason :: "env \<Rightarrow> string \<Rightarrow> string \<Rightarrow> (ClusterScope, unit) op" where
  "setFailureReason E failureReason failureMessage = do {
     _ \<leftarrow> modLC (lc_Status_update (lcs_FailureReason_update (\<lambda>_. Some failureReason)));
     _ \<leftarrow> modLC (lc_Status_update (lcs_FailureMessage_update (\<lambda>_. Some failureMessage)));
     lcSetCondition E (mkCond ReadyCondition statusFalse failureReason failureMessage)
   }"


section \<open>The machines behind the load balancer\<close>

definition findFirstVPCInternalIP :: "MachineAddress list \<Rightarrow> string \<times> bool" where
  "findFirstVPCInternalIP addresses =
     (case find (\<lambda>a. isInternal a \<and> \<not> IsLinodePrivateIP (ma_Address a)) addresses of
        Some a \<Rightarrow> (ma_Address a, True) | None \<Rightarrow> ([], False))"

definition findFirstPrivateInternalIP :: "MachineAddress list \<Rightarrow> string \<times> bool" where
  "findFirstPrivateInternalIP addresses =
     (case find (\<lambda>a. isInternal a \<and> IsLinodePrivateIP (ma_Address a)) addresses of
        Some a \<Rightarrow> (ma_Address a, True) | None \<Rightarrow> ([], False))"

definition buildPortCombosForIP :: "string \<Rightarrow> int \<Rightarrow> LinodeNBPortConfig list \<Rightarrow> string list" where
  "buildPortCombosForIP ip apiServerLBPort additionalPorts =
     ipPort ip apiServerLBPort # map (\<lambda>p. ipPort ip (nbp_Port p)) additionalPorts"

definition selectIP :: "bool \<Rightarrow> MachineAddress list \<Rightarrow> string" where
  "selectIP useVPCIPs addresses =
     (let selectedIP = (if useVPCIPs then fst (findFirstVPCInternalIP addresses) else [])
      in if selectedIP = [] then fst (findFirstPrivateInternalIP addresses) else selectedIP)"

definition getIPPortCombo :: "ClusterScope \<Rightarrow> string list" where
  "getIPPortCombo s =
     (let lc = cs_LinodeCluster s; ips = map (\<lambda>m. selectIP (ShouldUseVPC lc) (lms_Addresses (lm_Status m))) (cs_LinodeMachines s)
      in concat (map (\<lambda>ip. if ip \<noteq> [] then buildPortCombosForIP ip (DetermineAPIServerLBPort lc) (net_AdditionalPorts (netOf lc)) else []) ips))"

definition deleteStaleNode :: "env \<Rightarrow> LNodeBalancerNode \<Rightarrow> ('o, unit res) op" where
  "deleteStaleNode E node = do {
     err \<leftarrow> perform (NB (CDeleteNodeBalancerNode (nbn_NodeBalancerID node) (nbn_ConfigID node) (nbn_ID node)))
       (\<lambda>h. nbe_DeleteNodeBalancerNode (nbe E) h (nbn_NodeBalancerID node) (nbn_ConfigID node) (nbn_ID node));
     ret (optE err)
   }"

text \<open>The part of \<open>addMachineToLB\<close> for a NodeBalancer whose identifiers are set.\<close>

definition syncNBNodes :: "env \<Rightarrow> int \<Rightarrow> int \<Rightarrow> (ClusterScope, unit res) op" where
  "syncNBNodes E nbID configID =
     bindE (perform (NB (CListNodeBalancerNodes nbID configID)) (\<lambda>h. nbe_ListNodeBalancerNodes (nbe E) h nbID configID)) (\<lambda>nodeBalancerNodes. do {
       s \<leftarrow> getObj;
       bindE (forE (cs_LinodeMachines s) (\<lambda>eachMachine. AddNodesToNB E eachMachine nodeBalancerNodes)) (\<lambda>_.
         forE nodeBalancerNodes (\<lambda>node.
           if nbn_Address node \<notin> set (getIPPortCombo s) then deleteStaleNode E node else ret (Inr ())))
     })"

definition addMachineToLB :: "env \<Rightarrow> (ClusterScope, unit res) op" where
  "addMachineToLB E = do {
     lc \<leftarrow> csLC;
     let net = netOf lc;
     if net_LoadBalancerType net = lbTypeExternal then ret (Inr ())
     else if net_LoadBalancerType net = lbTypeDNS then EnsureDNSEntries E ''create''
     else case (net_NodeBalancerID net, net_ApiserverNodeBalancerConfigID net) of
       (Some nbID, Some configID) \<Rightarrow> syncNBNodes E nbID configID
     | _ \<Rightarrow> do {
         _ \<leftarrow> modLC (lc_Spec_update (lcs_Network_update (net_LoadBalancerType_update (\<lambda>_. lbTypeExternal))));
         ret (Inr ())
       }
   }"

definition removeMachineFromDNS :: "env \<Rightarrow> (ClusterScope, unit res) op" where
  "removeMachineFromDNS E = EnsureDNSEntries E ''delete''"

definition removeMachineFromNB :: "env \<Rightarrow> (ClusterScope, unit res) op" where
  "removeMachineFromNB E = DeleteNodesFromNB E"


section \<open>Watches\<close>

text \<open>\<open>None\<close> is an object of another type.\<close>

definition requestForCluster :: "env \<Rightarrow> ObjectMeta \<Rightarrow> ('o, NamespacedName list) op" where
  "requestForCluster E om = do {
     let key = \<lparr>nn_Namespace = om_Namespace om, nn_Name = (case om_Labels om ClusterNameLabel of None \<Rightarrow> [] | Some n \<Rightarrow> n)\<rparr>;
     r \<leftarrow> perform (K8s (KGet KCluster key)) (\<lambda>h. k_GetCluster (k8s E) h key);
     ret (case r of Inl _ \<Rightarrow> [] | Inr lc \<Rightarrow> [\<lparr>nn_Namespace = om_Namespace (lc_Meta lc), nn_Name = om_Name (lc_Meta lc)\<rparr>])
   }"

definition machineToLinodeCluster :: "env \<Rightarrow> Machine option \<Rightarrow> ('o, NamespacedName list) op" where
  "machineToLinodeCluster E ob = (case ob of None \<Rightarrow> ret [] | Some machine \<Rightarrow> requestForCluster E (mc_Meta machine))"

definition linodeMachineToLinodeCluster :: "env \<Rightarrow> LinodeMachine option \<Rightarrow> ('o, NamespacedName list) op" where
  "linodeMachineToLinodeCluster E ob =
     (case ob of None \<Rightarrow> ret []
      | Some linodeMachine \<Rightarrow> do {
          r \<leftarrow> perform (K8s (KGetOwnerMachine (lm_Meta linodeMachine))) (\<lambda>h. k_GetOwnerMachine (k8s E) h (lm_Meta linodeMachine));
          case r of
            Inl _ \<Rightarrow> ret []
          | Inr None \<Rightarrow> ret []
          | Inr (Some machine) \<Rightarrow>
              if lib_IsControlPlaneMachine (lib E) machine then requestForCluster E (lm_Meta linodeMachine) else ret []
        })"


section \<open>Creating\<close>

definition setEndpoint :: "string \<Rightarrow> int \<Rightarrow> (ClusterScope, unit) op" where
  "setEndpoint host port = modLC (lc_Spec_update (lcs_ControlPlaneEndpoint_update (\<lambda>_. \<lparr>ep_Host = host, ep_Port = wrap32 port\<rparr>)))"

definition handleDNS :: "(ClusterScope, unit) op" where
  "handleDNS = do {
     lc \<leftarrow> csLC;
     let net = netOf lc;
     let uniqueID = (if net_DNSUniqueIdentifier net \<noteq> [] then ''-'' @ net_DNSUniqueIdentifier net else []);
     let subDomain = (if net_DNSSubDomainOverride net \<noteq> [] then net_DNSSubDomainOverride net else om_Name (lc_Meta lc) @ uniqueID);
     setEndpoint (subDomain @ ''.'' @ net_DNSRootDomain net) (DetermineAPIServerLBPort lc)
   }"

text \<open>\<open>*linodeNB.IPv4\<close> is a panic for a NodeBalancer without an address.\<close>

definition handleNBCreate :: "env \<Rightarrow> (ClusterScope, unit res) op" where
  "handleNBCreate E =
     bindE (EnsureNodeBalancer E) (\<lambda>linodeNB.
       case linodeNB of
         None \<Rightarrow> ret (Inl (ErrNew ''nodeBalancer created was nil''))
       | Some nb \<Rightarrow> do {
           _ \<leftarrow> modLC (lc_Spec_update (lcs_Network_update (net_NodeBalancerID_update (\<lambda>_. Some (lnb_ID nb)))));
           bindE (EnsureNodeBalancerConfigs E) (\<lambda>configs. do {
             _ \<leftarrow> modLC (lc_Spec_update (lcs_Network_update (net_ApiserverNodeBalancerConfigID_update (\<lambda>_. Some (ncf_ID (hd configs))))));
             let additionalPorts = map (\<lambda>c. \<lparr>nbp_Port = ncf_Port c, nbp_NodeBalancerConfigID = Some (ncf_ID c)\<rparr>) (tl configs);
             _ \<leftarrow> modLC (lc_Spec_update (lcs_Network_update (net_AdditionalPorts_update (\<lambda>_. additionalPorts))));
             case lnb_IPv4 nb of
               None \<Rightarrow> ret (Inl (ErrSentinel ErrPanic))
             | Some ip \<Rightarrow> do { _ \<leftarrow> setEndpoint ip (ncf_Port (hd configs)); ret (Inr ()) }
           })
         })"

definition c_reconcileCreate :: "env \<Rightarrow> (ClusterScope, unit res) op" where
  "c_reconcileCreate E = do {
     e1 \<leftarrow> ClusterScope_AddCredentialsRefFinalizer E;
     case e1 of
       Some err \<Rightarrow> do { _ \<leftarrow> setFailureReason E CreateError (errText err); ret (Inl err) }
     | None \<Rightarrow> do {
         lc \<leftarrow> csLC;
         if net_LoadBalancerType (netOf lc) = lbTypeDNS then do { _ \<leftarrow> handleDNS; ret (Inr ()) }
         else handleNBCreate E
       }
   }"


section \<open>Preflight checks\<close>

definition notReady :: "env \<Rightarrow> string \<Rightarrow> string \<Rightarrow> string \<Rightarrow> (ClusterScope, outcome) op" where
  "notReady E cond reason msg = do {
     _ \<leftarrow> lcSetCondition E (mkCond cond statusFalse reason msg);
     requeueLater E DefaultClusterControllerReconcileDelay
   }"

definition preflightDone :: "env \<Rightarrow> string \<Rightarrow> string \<Rightarrow> (ClusterScope, outcome) op" where
  "preflightDone E cond reason = do { _ \<leftarrow> lcSetCondition E (mkCond cond statusTrue reason []); ret (noResult, None) }"

text \<open>A referenced resource cannot be fetched: an error once the condition is stale, before that another try.\<close>

definition fetchFailed :: "env \<Rightarrow> duration \<Rightarrow> string \<Rightarrow> string \<Rightarrow> error \<Rightarrow> (ClusterScope, outcome) op" where
  "fetchFailed E reconcileTimeout cond reason err = do {
     lc \<leftarrow> csLC;
     stale \<leftarrow> HasStaleCondition E (LinodeCluster_GetCondition cond lc) (DefaultTimeout reconcileTimeout DefaultClusterControllerReconcileTimeout);
     if stale then do { _ \<leftarrow> lcSetCondition E (mkCond cond statusFalse CreateError (errText err)); ret (noResult, Some err) }
     else notReady E cond reason []
   }"

definition c_reconcilePreflightLinodeFirewallCheck :: "env \<Rightarrow> duration \<Rightarrow> ObjectReference \<Rightarrow> (ClusterScope, outcome) op" where
  "c_reconcilePreflightLinodeFirewallCheck E reconcileTimeout ref = do {
     lc \<leftarrow> csLC;
     let cond = ConditionPreflightLinodeNBFirewallReady;
     case net_NodeBalancerFirewallID (netOf lc) of
       Some firewallID \<Rightarrow> do {
         (_, err) \<leftarrow> perform (FW (CGetFirewall firewallID)) (\<lambda>h. fwe_GetFirewall (fwe E) h firewallID);
         case err of
           Some e \<Rightarrow> notReady E cond CreateError (errText e)
         | None \<Rightarrow> preflightDone E cond ''LinodeFirewallReady''
       }
     | None \<Rightarrow> do {
         let key = clusterRefKey lc ref;
         r \<leftarrow> perform (K8s (KGet KFirewall key)) (\<lambda>h. k_GetFirewall (k8s E) h key);
         case r of
           Inl err \<Rightarrow> fetchFailed E reconcileTimeout cond ''LinodeFirewallNotYetAvailable'' err
         | Inr fw \<Rightarrow>
             if fw_FirewallID (lfw_Spec fw) = None then notReady E cond ''LinodeFirewallNotYetAvailable'' []
             else preflightDone E cond ''LinodeFirewallReady''
       }
   }"

text \<open>The check runs only with a VPC ID or a reference; the message of a failed lookup has the ID and the error.\<close>

definition c_reconcilePreflightLinodeVPCCheck :: "env \<Rightarrow> duration \<Rightarrow> (ClusterScope, outcome) op" where
  "c_reconcilePreflightLinodeVPCCheck E reconcileTimeout = do {
     lc \<leftarrow> csLC;
     let cond = ConditionPreflightLinodeVPCReady;
     case lcs_VPCID (lc_Spec lc) of
       Some vpcID \<Rightarrow> do {
         r \<leftarrow> perform (VPC (CGetVPC vpcID)) (\<lambda>h. vpe_GetVPC (vpe E) h vpcID);
         case r of
           Inl err \<Rightarrow> notReady E cond CreateError (''VPC with ID '' @ Itoa vpcID @ '' not found: '' @ errText err)
         | Inr vpc \<Rightarrow>
             if lvpc_Subnets vpc = [] then notReady E cond CreateError (''VPC with ID '' @ Itoa vpcID @ '' has no subnets'')
             else preflightDone E cond ''LinodeVPCReady''
       }
     | None \<Rightarrow> do {
         let key = clusterRefKey lc (the (lcs_VPCRef (lc_Spec lc)));
         r \<leftarrow> perform (K8s (KGet KVPC key)) (\<lambda>h. k_GetVPC (k8s E) h key);
         case r of
           Inl err \<Rightarrow> fetchFailed E reconcileTimeout cond ''LinodeVPCNotYetAvailable'' err
         | Inr linodeVPC \<Rightarrow>
             if \<not> vpc_Ready (lv_Status linodeVPC) then notReady E cond ''LinodeVPCNotYetAvailable'' []
             else preflightDone E cond ''LinodeVPCReady''
       }
   }"

definition lcCondTrue :: "string \<Rightarrow> LinodeCluster \<Rightarrow> bool" where
  "lcCondTrue t lc = ConditionTrue (LinodeCluster_GetCondition t lc)"

definition performPreflightChecks :: "env \<Rightarrow> duration \<Rightarrow> (ClusterScope, outcome) op" where
  "performPreflightChecks E reconcileTimeout = do {
     lc \<leftarrow> csLC;
     r1 \<leftarrow> (if (lcs_VPCID (lc_Spec lc) \<noteq> None \<or> lcs_VPCRef (lc_Spec lc) \<noteq> None) \<and> \<not> lcCondTrue ConditionPreflightLinodeVPCReady lc
            then c_reconcilePreflightLinodeVPCCheck E reconcileTimeout
            else ret (noResult, None));
     if snd r1 \<noteq> None \<or> \<not> Result_IsZero (fst r1) then ret r1
     else do {
       lc' \<leftarrow> csLC;
       case lcs_NodeBalancerFirewallRef (lc_Spec lc') of
         Some ref \<Rightarrow>
           if \<not> lcCondTrue ConditionPreflightLinodeNBFirewallReady lc'
           then c_reconcilePreflightLinodeFirewallCheck E reconcileTimeout ref
           else ret (noResult, None)
       | None \<Rightarrow> ret (noResult, None)
     }
   }"


section \<open>Deleting\<close>

definition lbDeleted :: "env \<Rightarrow> string \<Rightarrow> (ClusterScope, unit) op" where
  "lbDeleted E msg = lcSetCondition E (mkCond ReadyCondition statusFalse ''DeletionCompleted'' msg)"

definition removeLB :: "env \<Rightarrow> ('s, unit res) m \<Rightarrow> ('s, unit res) m" where
  "removeLB E m = do {
     r \<leftarrow> m;
     ret (case r of Inl err \<Rightarrow> Inl (wrapUnlessPanic ''remove machine from loadbalancer: '' err) | Inr u \<Rightarrow> Inr u)
   }"

definition deleteNB :: "env \<Rightarrow> int \<Rightarrow> (ClusterScope, unit res) op" where
  "deleteNB E nbID = do {
     err \<leftarrow> perform (NB (CDeleteNodeBalancer nbID)) (\<lambda>h. nbe_DeleteNodeBalancer (nbe E) h nbID);
     if IgnoreLinodeAPIError E err [StatusNotFound] \<noteq> None then do {
       _ \<leftarrow> setFailureReason E DeleteError (errText (the err));
       ret (Inl (the err))
     }
     else do {
       _ \<leftarrow> lbDeleted E ''Load balancer for Type NodeBalancer deleted'';
       _ \<leftarrow> modLC (lc_Spec_update (lcs_Network_update (net_NodeBalancerID_update (\<lambda>_. None))));
       _ \<leftarrow> modLC (lc_Spec_update (lcs_Network_update (net_ApiserverNodeBalancerConfigID_update (\<lambda>_. None))));
       _ \<leftarrow> modLC (lc_Spec_update (lcs_Network_update (net_AdditionalPorts_update (\<lambda>_. []))));
       ret (Inr ())
     }
   }"

text \<open>The \<open>switch\<close> of \<open>reconcileDelete\<close>.\<close>

definition deleteLoadBalancer :: "env \<Rightarrow> (ClusterScope, unit res) op" where
  "deleteLoadBalancer E = do {
     lc \<leftarrow> csLC;
     let net = netOf lc;
     if net_LoadBalancerType net = lbTypeExternal then do { _ \<leftarrow> lbDeleted E ''Deletion in progress''; ret (Inr ()) }
     else if net_LoadBalancerType net = lbTypeDNS then
       bindE (removeLB E (removeMachineFromDNS E)) (\<lambda>_. do { _ \<leftarrow> lbDeleted E ''Load balancing for Type DNS deleted''; ret (Inr ()) })
     else if net_LoadBalancerType net = lbTypeNB then
       (case net_NodeBalancerID net of
          None \<Rightarrow> ret (Inr ())
        | Some nbID \<Rightarrow> bindE (removeLB E (removeMachineFromNB E)) (\<lambda>_. deleteNB E nbID))
     else ret (Inr ())
   }"

definition lcRemoveFinalizer :: "env \<Rightarrow> string \<Rightarrow> (ClusterScope, unit) op" where
  "lcRemoveFinalizer E f = modLC (lc_Meta_update (om_Finalizers_update (\<lambda>fs. lib_RemoveFinalizer (lib E) fs f)))"

definition c_reconcileDelete :: "env \<Rightarrow> (ClusterScope, unit res) op" where
  "c_reconcileDelete E =
     bindE (deleteLoadBalancer E) (\<lambda>_. do {
       s \<leftarrow> getObj;
       if cs_LinodeMachines s \<noteq> [] then ret (Inl (ErrNew ''waiting for associated LinodeMachine objects to be deleted''))
       else do {
         _ \<leftarrow> DeleteClusterIPs (om_Name (cl_Meta (cs_Cluster s))) (om_Namespace (cl_Meta (cs_Cluster s)));
         e \<leftarrow> ClusterScope_RemoveCredentialsRefFinalizer E;
         case e of
           Some err \<Rightarrow> do { _ \<leftarrow> setFailureReason E DeleteError (errText err); ret (Inl err) }
         | None \<Rightarrow> do {
             _ \<leftarrow> lcRemoveFinalizer E ClusterFinalizer;
             lc \<leftarrow> csLC;
             _ \<leftarrow> (if lib_ContainsFinalizer (lib E) (om_Finalizers (lc_Meta lc)) ''infrastructure.cluster.x-k8s.io/v1alpha2''
                  then lcRemoveFinalizer E ''infrastructure.cluster.x-k8s.io/v1alpha2'' else ret ());
             ret (Inr ())
           }
       }
     })"


section \<open>The reconciler\<close>

text \<open>The treatment of an error of \<open>reconcileDelete\<close> and \<open>reconcileCreate\<close>: another try until the ready condition is stale.\<close>

definition requeueUnlessStale :: "env \<Rightarrow> duration \<Rightarrow> error \<Rightarrow> (ClusterScope, outcome) op" where
  "requeueUnlessStale E reconcileTimeout err =
     (if err = ErrSentinel ErrPanic then ret (noResult, Some err)
      else do {
        lc \<leftarrow> csLC;
        stale \<leftarrow> HasStaleCondition E (LinodeCluster_GetCondition ReadyCondition lc)
          (DefaultTimeout reconcileTimeout DefaultClusterControllerReconcileTimeout);
        if stale then ret (noResult, Some err) else requeueLater E DefaultClusterControllerReconcileDelay
      })"

definition finishLB :: "env \<Rightarrow> (ClusterScope, outcome) op" where
  "finishLB E = do {
     _ \<leftarrow> modLC (lc_Status_update (lcs_Ready_update (\<lambda>_. True)));
     _ \<leftarrow> lcSetCondition E (mkCond ReadyCondition statusTrue ''LoadBalancerReady'' []);
     s \<leftarrow> getObj;
     if \<exists>m\<in>set (cs_LinodeMachines s). lms_Addresses (lm_Status m) = [] then ret (noResult, None)
     else do {
       r \<leftarrow> addMachineToLB E;
       case r of
         Inr _ \<Rightarrow> ret (noResult, None)
       | Inl err \<Rightarrow>
           if err = ErrSentinel ErrPanic then ret (noResult, Some err)
           else if errors_Is (Some err) ErrReconcileAgain then requeueLater E DefaultMachineControllerRetryDelay
           else retryIfTransient E err
     }
   }"

definition c_apply :: "env \<Rightarrow> duration \<Rightarrow> (ClusterScope, outcome) op" where
  "c_apply E reconcileTimeout = do {
     e \<leftarrow> ClusterScope_AddFinalizer E;
     if e \<noteq> None then ret (noResult, e)
     else do {
       p \<leftarrow> performPreflightChecks E reconcileTimeout;
       if snd p \<noteq> None \<or> \<not> Result_IsZero (fst p) then ret p
       else do {
         lc \<leftarrow> csLC;
         if ep_Host (lcs_ControlPlaneEndpoint (lc_Spec lc)) = [] then do {
           r \<leftarrow> c_reconcileCreate E;
           case r of Inl err \<Rightarrow> requeueUnlessStale E reconcileTimeout err | Inr _ \<Rightarrow> finishLB E
         }
         else finishLB E
       }
     }
   }"

definition controlPlaneLabels :: "Cluster \<Rightarrow> (string \<times> string) list" where
  "controlPlaneLabels cl = [(MachineControlPlaneLabel, []), (ClusterNameLabel, om_Name (cl_Meta cl))]"

definition c_reconcileBody :: "env \<Rightarrow> duration \<Rightarrow> (ClusterScope, outcome) op" where
  "c_reconcileBody E reconcileTimeout = do {
     s \<leftarrow> getObj;
     let ns = om_Namespace (lc_Meta (cs_LinodeCluster s));
     let labels = controlPlaneLabels (cs_Cluster s);
     l \<leftarrow> perform (K8s (KList KMachine ns labels)) (\<lambda>h. k_ListMachines (k8s E) h ns labels);
     case l of
       Inl err \<Rightarrow> ret (noResult, Some err)
     | Inr items \<Rightarrow> do {
         _ \<leftarrow> modObj (cs_LinodeMachines_update (\<lambda>_. items));
         e \<leftarrow> ClusterScope_SetCredentialRefToken E;
         if e \<noteq> None then ret (noResult, e)
         else do {
           lc \<leftarrow> csLC;
           if om_DeletionTimestamp (lc_Meta lc) \<noteq> None then do {
             r \<leftarrow> c_reconcileDelete E;
             case r of Inl err \<Rightarrow> requeueUnlessStale E reconcileTimeout err | Inr _ \<Rightarrow> ret (noResult, None)
           }
           else c_apply E reconcileTimeout
         }
       }
   }"

definition c_deferred :: "env \<Rightarrow> outcome \<Rightarrow> (ClusterScope, outcome) op" where
  "c_deferred E out = do {
     err \<leftarrow> ClusterScope_Close E;
     ret (if lib_FilterOutNotFound (lib E) (UnwrapError err) \<noteq> None \<and> snd out = None then (fst out, err) else out)
   }"

definition c_reconcile :: "env \<Rightarrow> duration \<Rightarrow> (ClusterScope, outcome) op" where
  "c_reconcile E reconcileTimeout = do {
     _ \<leftarrow> modLC (lc_Status_update (lcs_Ready_update (\<lambda>_. False)));
     _ \<leftarrow> modLC (lc_Status_update (lcs_FailureReason_update (\<lambda>_. None)));
     _ \<leftarrow> modLC (lc_Status_update (lcs_FailureMessage_update (\<lambda>_. Some [])));
     out \<leftarrow> c_reconcileBody E reconcileTimeout;
     c_deferred E out
   }"

definition c_Reconcile :: "env \<Rightarrow> duration \<Rightarrow> NamespacedName \<Rightarrow> (unit, outcome) op" where
  "c_Reconcile E reconcileTimeout req = do {
     r \<leftarrow> perform (K8s (KGet KCluster req)) (\<lambda>h. k_GetCluster (k8s E) h req);
     case r of
       Inl err \<Rightarrow> ret (noResult, IgnoreNotFound E (Some err))
     | Inr linodeCluster \<Rightarrow> do {
         c \<leftarrow> perform (K8s (KGetOwnerCluster (lc_Meta linodeCluster))) (\<lambda>h. k_GetOwnerCluster (k8s E) h (lc_Meta linodeCluster));
         case c of
           Inl err \<Rightarrow> ret (noResult, IgnoreNotFound E (Some err))
         | Inr None \<Rightarrow> ret (noResult, None)
         | Inr (Some cluster) \<Rightarrow> do {
             sc \<leftarrow> NewClusterScope E (Some cluster) (Some linodeCluster) [];
             case sc of
               Inl err \<Rightarrow> ret (noResult, Some (ErrWrap ''failed to create cluster scope: '' err))
             | Inr scope \<Rightarrow> do {
                 (conds, p) \<leftarrow> perform (K8s (KEnsurePaused (OCluster linodeCluster))) (\<lambda>h. k_EnsurePaused (k8s E) h (Some cluster) (OCluster linodeCluster));
                 case p of
                   Inl err \<Rightarrow> ret (noResult, Some err)
                 | Inr isPaused \<Rightarrow>
                     if isPaused then ret (noResult, None)
                     else withScope (scope\<lparr>cs_LinodeCluster := LinodeCluster_SetConditions conds linodeCluster\<rparr>) (c_reconcile E reconcileTimeout)
               }
           }
       }
   }"

end
