(* ===== verification/DomainsProps.thy ===== *)
theory DomainsProps
  imports Domains
begin

text \<open>
  What \<open>cloud/services/domains.go\<close> guarantees: the entries are the external addresses of the machines
  that are not being deleted; creating entries deletes stale address records only and leaves every
  entry present; the removal of one target from a record.
\<close>

section \<open>The entries follow the machines\<close>

text \<open>An API server whose answers about machines do not change during the run.\<close>

definition stableMachines :: "env \<Rightarrow> (ObjectMeta \<Rightarrow> Machine option res) \<Rightarrow> (NamespacedName \<Rightarrow> bool res) \<Rightarrow> bool" where
  "stableMachines E owner kcp =
     ((\<forall>h. k_GetOwnerMachine (k8s E) h = owner) \<and> (\<forall>h. k_GetKCPEtcdExternal (k8s E) h = kcp))"

definition ownerLive :: "(ObjectMeta \<Rightarrow> Machine option res) \<Rightarrow> LinodeMachine \<Rightarrow> bool" where
  "ownerLive owner m = (case owner (lm_Meta m) of Inr (Some mc) \<Rightarrow> om_DeletionTimestamp (mc_Meta mc) = None | _ \<Rightarrow> False)"

definition machineReady :: "env \<Rightarrow> (NamespacedName \<Rightarrow> bool res) \<Rightarrow> Machine \<Rightarrow> bool" where
  "machineReady E kcp mc =
     (case lib_GetControllerOf (lib E) (mc_Meta mc) of
        Some ref \<Rightarrow> if or_Kind ref = ''KubeadmControlPlane''
          then (case kcp \<lparr>nn_Namespace = om_Namespace (mc_Meta mc), nn_Name = or_Name ref\<rparr> of
                  Inr ext \<Rightarrow> \<not> lib_HasUnhealthyControlPlaneComponents (lib E) (\<not> ext) mc | Inl _ \<Rightarrow> False)
          else ConditionTrue (lookupCond ReadyCondition (mc_Conditions mc))
      | None \<Rightarrow> ConditionTrue (lookupCond ReadyCondition (mc_Conditions mc)))"

definition ownerReady :: "env \<Rightarrow> (ObjectMeta \<Rightarrow> Machine option res) \<Rightarrow> (NamespacedName \<Rightarrow> bool res) \<Rightarrow> LinodeMachine \<Rightarrow> bool" where
  "ownerReady E owner kcp m = (case owner (lm_Meta m) of Inr (Some mc) \<Rightarrow> machineReady E kcp mc | _ \<Rightarrow> False)"

definition addressEntry :: "LinodeCluster \<Rightarrow> MachineAddress \<Rightarrow> DNSOptions" where
  "addressEntry lc a = \<lparr>dns_Hostname = getSubDomain lc, dns_Target = ma_Address a,
     dns_RecordType = (if parseIPv4 (ma_Address a) \<noteq> None then recordTypeA else recordTypeAAAA), dns_TTLSec = dnsTTL lc\<rparr>"

definition machineEntries :: "LinodeCluster \<Rightarrow> LinodeMachine \<Rightarrow> DNSOptions list" where
  "machineEntries lc m = map (addressEntry lc) (filter (\<lambda>a. ma_Type a = MachineExternalIP) (lms_Addresses (lm_Status m)))"

lemma netip_v4: "netip_ParseAddr s = Some (bs, z) \<Longrightarrow> (length bs = 4) = (parseIPv4 s \<noteq> None)"
proof -
  assume p: "netip_ParseAddr s = Some (bs, z)"
  let ?sep = "\<lambda>c. c = CHR ''.'' \<or> c = CHR '':'' \<or> c = CHR ''%''"
  let ?r = "dropWhile (\<lambda>c. c \<noteq> CHR ''.'' \<and> c \<noteq> CHR '':'' \<and> c \<noteq> CHR ''%'') s"
  obtain c t where r: "?r = c # t" using p by (cases ?r) (simp_all add: netip_ParseAddr_def)
  show ?thesis
  proof (cases "c = CHR ''.''")
    case True
    with p r have "parseIPv4 s = Some bs" by (auto simp: netip_ParseAddr_def)
    moreover from this have "length bs = 4" by (auto simp: parseIPv4_def Let_def split: if_splits)
    ultimately show ?thesis by simp
  next
    case False
    with p r have c: "c = CHR '':''" and six: "parseIPv6 s = Some (bs, z)" by (auto simp: netip_ParseAddr_def split: if_splits)
    have "16 \<le> length bs" using six by (auto simp: parseIPv6_def Let_def split: if_splits option.splits prod.splits)
    moreover have "parseIPv4 s = None"
    proof (rule ccontr)
      assume "parseIPv4 s \<noteq> None"
      then have f: "None \<notin> set (map parseIPv4Field (splitOn CHR ''.'' s))" by (auto simp: parseIPv4_def Let_def split: if_splits)
      have "c \<in> set s" using r by (metis list.set_intros(1) set_dropWhileD)
      have "\<exists>w\<in>set (splitOn CHR ''.'' u). CHR '':'' \<in> set w" if "CHR '':'' \<in> set u" for u
        using that by (induction u) (auto split: list.splits)
      with \<open>c \<in> set s\<close> c obtain w where w: "w \<in> set (splitOn CHR ''.'' s)" "CHR '':'' \<in> set w" by auto
      then have "parseIPv4Field w \<noteq> None" using f by (metis imageI list.set_map)
      then show False using w(2) by (auto simp: parseIPv4Field_def list_all_iff isDigit_def split: if_splits)
    qed
    ultimately show ?thesis by simp
  qed
qed


lemma addressOptions_entries:
  "addressOptions (getSubDomain lc) (dnsTTL lc) as = Inr opts \<Longrightarrow>
   opts = map (addressEntry lc) (filter (\<lambda>a. ma_Type a = MachineExternalIP) as)"
proof (induction as arbitrary: opts)
  case (Cons a as)
  then show ?case
    by (auto simp: addressEntry_def netip_v4 split: if_splits option.splits sum.splits)
qed simp

text \<open>What one machine contributes, when nothing fails: its entries if it is live, and then it is ready or the oldest.\<close>

definition contributes :: "env \<Rightarrow> (ObjectMeta \<Rightarrow> Machine option res) \<Rightarrow> (NamespacedName \<Rightarrow> bool res) \<Rightarrow> LinodeCluster \<Rightarrow> bool \<Rightarrow>
    LinodeMachine \<Rightarrow> DNSOptions list \<Rightarrow> bool" where
  "contributes E owner kcp lc oldest m opts =
     (if ownerLive owner m then opts = machineEntries lc m \<and> (oldest \<or> ownerReady E owner kcp m) else opts = [])"

lemma wp_isCapiMachineReady:
  assumes "stableMachines E owner kcp"
  shows "wp (isCapiMachineReady E mc) (\<lambda>r t. obj t = obj s \<and> (case r of Inl _ \<Rightarrow> True | Inr b \<Rightarrow> b = machineReady E kcp mc)) s"
  using assms by (auto simp: isCapiMachineReady_def machineReady_def stableMachines_def wp_rules split: option.splits sum.splits)

lemma wp_processLinodeMachine:
  assumes "stableMachines E owner kcp"
  shows "wp (processLinodeMachine E m (dnsTTL lc) (getSubDomain lc) oldest)
     (\<lambda>r t. obj t = obj s \<and> (case r of Inl _ \<Rightarrow> True | Inr opts \<Rightarrow> contributes E owner kcp lc oldest m opts)) s"
proof -
  have own: "k_GetOwnerMachine (k8s E) h = owner" for h using assms by (simp add: stableMachines_def)
  show ?thesis
    unfolding processLinodeMachine_def
    by (auto simp: wp_bindE wp_wrapE wp_perform wp_return own contributes_def ownerLive_def ownerReady_def machineEntries_def
        split: sum.splits option.splits
        intro!: wp_mono [OF wp_isCapiMachineReady [OF assms]] dest: addressOptions_entries)
qed

text \<open>The loop: without an error the entries are those of the live machines, in order.\<close>

definition allReady :: "env \<Rightarrow> (ObjectMeta \<Rightarrow> Machine option res) \<Rightarrow> (NamespacedName \<Rightarrow> bool res) \<Rightarrow> bool \<Rightarrow> LinodeMachine list \<Rightarrow> bool" where
  "allReady E owner kcp oldest ms = list_all (\<lambda>m. \<not> ownerLive owner m \<or> ownerReady E owner kcp m) (if oldest then tl ms else ms)"

lemma wp_collectDNS:
  assumes "stableMachines E owner kcp"
  shows "wp (collectDNS E (dnsTTL lc) (getSubDomain lc) oldest ms) (\<lambda>(opts, errs) t. obj t = obj s \<and> None \<notin> set errs \<and>
     (errs = [] \<longrightarrow> opts = concat (map (machineEntries lc) (filter (ownerLive owner) ms)) \<and> allReady E owner kcp oldest ms)) s"
proof (induction ms arbitrary: oldest s)
  case Nil
  then show ?case by (simp add: wp_return allReady_def)
next
  case (Cons m ms)
  have step: "(if oldest then tl (m # ms) else m # ms) = (if oldest then ms else m # ms)" by simp
  show ?case
    unfolding collectDNS.simps
    by (rule wp_seq [OF wp_processLinodeMachine [OF assms]], rule wp_seq [OF Cons.IH [of False]])
      (auto simp: wp_rules contributes_def allReady_def split: sum.splits if_splits)
qed

lemma errors_Join_None: "None \<notin> set es \<Longrightarrow> (errors_Join es = None) = (es = [])"
  by (cases es) (auto simp: errors_Join_def List.map_filter_def)

lemma wp_getDNSEntriesToEnsure:
  assumes "stableMachines E owner kcp"
  shows "wp (getDNSEntriesToEnsure E) (\<lambda>(opts, err) t. case err of Some _ \<Rightarrow> True | None \<Rightarrow>
     opts = concat (map (machineEntries (lcOf s)) (filter (ownerLive owner) (sort_key (\<lambda>m. om_CreationTimestamp (lm_Meta m)) (cs_LinodeMachines (obj s)))))
       @ [ownerEntry (lcOf s)]
     \<and> allReady E owner kcp True (sort_key (\<lambda>m. om_CreationTimestamp (lm_Meta m)) (cs_LinodeMachines (obj s)))) s"
  unfolding getDNSEntriesToEnsure_def wp_bind wp_update wp_get wp_return Let_def
  by (simp, rule wp_mono [OF wp_collectDNS [OF assms]]) (auto simp: wp_return errors_Join_None split: option.splits)


section \<open>Creating the records\<close>

text \<open>
  A record of the host name is stale when it is not a text record and its target is the address of no entry; like
  the code, this does not look at the type any further.
\<close>

definition staleRecord :: "DNSOptions list \<Rightarrow> LDomainRecord \<Rightarrow> bool" where
  "staleRecord es r = (ldr_Type r \<noteq> ''TXT'' \<and> (\<forall>e\<in>set es. dns_RecordType e \<in> {''A'', ''AAAA''} \<longrightarrow> ldr_Target r \<noteq> dns_Target e))"

text \<open>The domain of the cluster: a listing of the domains with the name of its root domain had just this one.\<close>

fun domainFound :: "env \<Rightarrow> LinodeCluster \<Rightarrow> hist \<Rightarrow> int \<Rightarrow> bool" where
  "domainFound E lc [] d = False"
| "domainFound E lc (c # h) d = (domainFound E lc h d \<or> (case c of
     DNS (CListDomains f) \<Rightarrow> f = jsonMap [(''domain'', net_DNSRootDomain (netOf lc))] \<and>
       (case dne_ListDomains (dne E) h f of Inr [x] \<Rightarrow> ldm_Domain x = net_DNSRootDomain (netOf lc) \<and> ldm_ID x = d | _ \<Rightarrow> False)
   | _ \<Rightarrow> False))"

text \<open>A listing of the records with the host name of the cluster returned the record \<open>i\<close> and it was stale.\<close>

definition hostFilter :: "LinodeCluster \<Rightarrow> string" where
  "hostFilter lc = jsonMap [(''name'', getSubDomain lc)]"

fun listedStale :: "env \<Rightarrow> LinodeCluster \<Rightarrow> DNSOptions list \<Rightarrow> hist \<Rightarrow> int \<Rightarrow> int \<Rightarrow> bool" where
  "listedStale E lc es [] d i = False"
| "listedStale E lc es (c # h) d i = (listedStale E lc es h d i \<or> (case c of
     DNS (CListDomainRecords e f) \<Rightarrow> e = d \<and> f = hostFilter lc \<and> (case dne_ListDomainRecords (dne E) h d f of
         Inr R \<Rightarrow> \<exists>r\<in>set R. ldr_ID r = i \<and> staleRecord es r | Inl _ \<Rightarrow> False)
   | _ \<Rightarrow> False))"

text \<open>Every deletion in the history was of a stale record of the host name, in the domain of the cluster.\<close>

fun dnsSafe :: "env \<Rightarrow> LinodeCluster \<Rightarrow> DNSOptions list \<Rightarrow> hist \<Rightarrow> bool" where
  "dnsSafe E lc es [] = True"
| "dnsSafe E lc es (c # h) = (dnsSafe E lc es h \<and> (case c of
     DNS (CDeleteDomainRecord d i) \<Rightarrow> domainFound E lc h d \<and> listedStale E lc es h d i | _ \<Rightarrow> True))"

fun recordDeleted :: "env \<Rightarrow> hist \<Rightarrow> int \<Rightarrow> int \<Rightarrow> bool" where
  "recordDeleted E [] d i = False"
| "recordDeleted E (c # h) d i = (recordDeleted E h d i \<or>
     c = DNS (CDeleteDomainRecord d i) \<and> dne_DeleteDomainRecord (dne E) h d i = None)"

text \<open>A listing of the records with the host name was answered, and the stale ones of the answer are deleted.\<close>

definition staleDeleted :: "env \<Rightarrow> LinodeCluster \<Rightarrow> DNSOptions list \<Rightarrow> hist \<Rightarrow> int \<Rightarrow> bool" where
  "staleDeleted E lc es h d = (\<exists>new h0 R. h = new @ DNS (CListDomainRecords d (hostFilter lc)) # h0
     \<and> dne_ListDomainRecords (dne E) h0 d (hostFilter lc) = Inr R \<and> (\<forall>r\<in>set R. staleRecord es r \<longrightarrow> recordDeleted E h d (ldr_ID r)))"

definition entryRequest :: "DNSOptions \<Rightarrow> LDomainRecordCreateOptions" where
  "entryRequest e = \<lparr>dro_Type = dns_RecordType e, dro_Name = dns_Hostname e, dro_Target = dns_Target e, dro_TTLSec = dns_TTLSec e\<rparr>"

text \<open>The entry is in the domain: a listing found it, or its creation succeeded.\<close>

fun entryThere :: "env \<Rightarrow> int \<Rightarrow> hist \<Rightarrow> DNSOptions \<Rightarrow> bool" where
  "entryThere E d [] e = False"
| "entryThere E d (c # h) e = (entryThere E d h e \<or> (case c of
     DNS (CListDomainRecords d' f) \<Rightarrow> d' = d \<and> f = jsonMap (entryFilter e) \<and>
       (case dne_ListDomainRecords (dne E) h d f of Inr R \<Rightarrow> R \<noteq> [] | Inl _ \<Rightarrow> False)
   | DNS (CCreateDomainRecord d' opts) \<Rightarrow> d' = d \<and> opts = entryRequest e \<and> dne_CreateDomainRecord (dne E) h d opts = None
   | _ \<Rightarrow> False))"

definition noDelete :: "call \<Rightarrow> bool" where
  "noDelete c = (case c of DNS (CDeleteDomainRecord _ _) \<Rightarrow> False | _ \<Rightarrow> True)"

lemma noDelete_simps [simp]: "noDelete (DNS (CListDomains f))" "noDelete (DNS (CListDomainRecords i f))" "noDelete (DNS (CCreateDomainRecord i opts))"
  by (simp_all add: noDelete_def)

lemma dnsSafe_other: "noDelete c \<Longrightarrow> dnsSafe E lc es h \<Longrightarrow> dnsSafe E lc es (c # h)"
  by (auto simp: noDelete_def split: call.splits dns_call.splits)

lemma dnsSafe_adds: "adds noDelete s t \<Longrightarrow> dnsSafe E lc es (tr s) \<Longrightarrow> dnsSafe E lc es (tr t)"
proof -
  have "dnsSafe E lc es (new @ h)" if "dnsSafe E lc es h" "\<forall>c\<in>set new. noDelete c" for new h
    using that by (induction new) (simp, simp only: append_Cons, rule dnsSafe_other, simp_all)
  then show "adds noDelete s t \<Longrightarrow> dnsSafe E lc es (tr s) \<Longrightarrow> dnsSafe E lc es (tr t)" by (auto simp: adds_def)
qed

lemma dns_facts_append:
  "domainFound E lc h d \<Longrightarrow> domainFound E lc (new @ h) d"
  "recordDeleted E h d i \<Longrightarrow> recordDeleted E (new @ h) d i"
  by (induction new) auto

lemma staleDeleted_append: "staleDeleted E lc es h d \<Longrightarrow> staleDeleted E lc es (new @ h) d"
  unfolding staleDeleted_def by (metis append.assoc dns_facts_append(2))

lemma dns_facts_adds:
  assumes "adds P s t"
  shows "domainFound E lc (tr s) d \<Longrightarrow> domainFound E lc (tr t) d" and "staleDeleted E lc es (tr s) d \<Longrightarrow> staleDeleted E lc es (tr t) d"
  using assms by (auto simp: adds_def intro: dns_facts_append staleDeleted_append)

lemma entryThere_adds: "adds P s t \<Longrightarrow> entryThere E d (tr s) e \<Longrightarrow> entryThere E d (tr t) e"
proof -
  have "entryThere E d h e \<Longrightarrow> entryThere E d (new @ h) e" for new h by (induction new) auto
  then show "adds P s t \<Longrightarrow> entryThere E d (tr s) e \<Longrightarrow> entryThere E d (tr t) e" by (auto simp: adds_def)
qed

text \<open>After the listing \<open>R\<close> by host name: the loop deletes stale records only and, on success, all of them.\<close>

lemma wp_deleteStaleLinodeEntries:
  assumes "dnsSafe E lc es (tr s)" and "domainFound E lc (tr s) d"
    and "\<And>r. r \<in> set R \<Longrightarrow> staleRecord es r \<Longrightarrow> listedStale E lc es (tr s) d (ldr_ID r)"
  shows "wp (deleteStaleLinodeEntries E R d es) (\<lambda>r t. dnsSafe E lc es (tr t) \<and> adds (\<lambda>_. True) s t \<and>
     (case r of Inl _ \<Rightarrow> True | Inr _ \<Rightarrow> \<forall>r\<in>set R. staleRecord es r \<longrightarrow> recordDeleted E (tr t) d (ldr_ID r))) s"
proof -
  obtain v4 v6 where ips: "getDNSMachineIPs es = (v4, v6)" by (cases "getDNSMachineIPs es")
  then have st: "(ldr_Type r \<noteq> recordTypeTXT \<and> ldr_Target r \<notin> set v4 \<and> ldr_Target r \<notin> set v6) = staleRecord es r" for r
    by (auto simp: staleRecord_def getDNSMachineIPs_def)
  show ?thesis
    using assms unfolding deleteStaleLinodeEntries_def ips Let_def prod.case
  proof (induction R arbitrary: s)
    case Nil
    then show ?case by (simp add: wp_return adds.refl)
  next
    case (Cons r R)
    let ?body = "if ldr_Type r = recordTypeTXT then ret (Inr ())
       else if ldr_Target r \<notin> set v4 \<and> ldr_Target r \<notin> set v6 then deleteDomainRecordCall E d (ldr_ID r) else ret (Inr ())"
    have body: "?body = (if staleRecord es r then deleteDomainRecordCall E d (ldr_ID r) else ret (Inr ()))" using st [of r] by auto
    have one: "wp ?body (\<lambda>x t. dnsSafe E lc es (tr t) \<and> adds (\<lambda>_. True) s t \<and> (\<forall>i. listedStale E lc es (tr s) d i \<longrightarrow> listedStale E lc es (tr t) d i) \<and>
       (case x of Inl _ \<Rightarrow> True | Inr _ \<Rightarrow> staleRecord es r \<longrightarrow> recordDeleted E (tr t) d (ldr_ID r))) s"
      unfolding body using Cons.prems by (auto simp: wp_rules deleteDomainRecordCall_def optE_def adds_def split: option.split)
    show ?case unfolding forE.simps
    proof (rule wp_seqE [OF one])
      fix x t assume t: "dnsSafe E lc es (tr t) \<and> adds (\<lambda>_. True) s t \<and> (\<forall>i. listedStale E lc es (tr s) d i \<longrightarrow> listedStale E lc es (tr t) d i) \<and>
         (case Inr x of Inl _ \<Rightarrow> True | Inr _ \<Rightarrow> staleRecord es r \<longrightarrow> recordDeleted E (tr t) d (ldr_ID r))"
      have later: "recordDeleted E (tr t) d i \<Longrightarrow> adds P t u \<Longrightarrow> recordDeleted E (tr u) d i" for i P u
        by (auto simp: adds_def intro: dns_facts_append)
      show "wp (forE R (\<lambda>record. if ldr_Type record = recordTypeTXT then ret (Inr ())
           else if ldr_Target record \<notin> set v4 \<and> ldr_Target record \<notin> set v6 then deleteDomainRecordCall E d (ldr_ID record) else ret (Inr ())))
         (\<lambda>x t. dnsSafe E lc es (tr t) \<and> adds (\<lambda>_. True) s t \<and>
           (case x of Inl _ \<Rightarrow> True | Inr _ \<Rightarrow> \<forall>r\<in>set (r # R). staleRecord es r \<longrightarrow> recordDeleted E (tr t) d (ldr_ID r))) t"
        by (rule wp_mono [OF Cons.IH]) (use t Cons.prems in \<open>auto intro: dns_facts_adds adds.trans later split: sum.splits\<close>)
    qed simp
  qed
qed

lemma wp_CreateDomainRecord: "wp (CreateDomainRecord E d e) (\<lambda>r t. adds noDelete s t \<and> (case r of Inl _ \<Rightarrow> True | Inr _ \<Rightarrow> entryThere E d (tr t) e)) s"
proof (rule wp_conjI)
  show "wp (CreateDomainRecord E d e) (\<lambda>_ t. adds noDelete s t) s"
    by (rule keeps_wp) (unfold CreateDomainRecord_def listDomainRecords_def Let_def, intro adds_rules keeps_case; simp)
  show "wp (CreateDomainRecord E d e) (\<lambda>r t. case r of Inl _ \<Rightarrow> True | Inr _ \<Rightarrow> entryThere E d (tr t) e) s"
    by (auto simp: CreateDomainRecord_def listDomainRecords_def wp_rules entryRequest_def optE_def split: sum.splits option.splits)
qed

lemma wp_createAll:
  "wp (forE es (CreateDomainRecord E d)) (\<lambda>r t. adds noDelete s t \<and> (case r of Inl _ \<Rightarrow> True | Inr _ \<Rightarrow> list_all (entryThere E d (tr t)) es)) s"
proof (induction es arbitrary: s)
  case Nil
  then show ?case by (simp add: wp_return adds.refl)
next
  case (Cons e es)
  show ?case unfolding forE.simps
  proof (rule wp_seqE [OF wp_CreateDomainRecord])
    fix x t assume "adds noDelete s t \<and> (case Inr x of Inl _ \<Rightarrow> True | Inr _ \<Rightarrow> entryThere E d (tr t) e)"
    then show "wp (forE es (CreateDomainRecord E d))
       (\<lambda>r t. adds noDelete s t \<and> (case r of Inl _ \<Rightarrow> True | Inr _ \<Rightarrow> list_all (entryThere E d (tr t)) (e # es))) t"
      by (intro wp_mono [OF Cons.IH]) (auto intro: adds.trans entryThere_adds split: sum.splits)
  qed simp
qed

text \<open>What creating the entries guarantees.\<close>

definition dnsCreated :: "env \<Rightarrow> LinodeCluster \<Rightarrow> DNSOptions list \<Rightarrow> unit res \<Rightarrow> hist \<Rightarrow> bool" where
  "dnsCreated E lc es r h = (dnsSafe E lc es h \<and> (case r of Inl _ \<Rightarrow> True
     | Inr _ \<Rightarrow> \<exists>d. domainFound E lc h d \<and> staleDeleted E lc es h d \<and> list_all (entryThere E d h) es))"

lemma dnsCreated_simps [simp]:
  "dnsCreated E lc es (Inl e) h = dnsSafe E lc es h"
  "dnsCreated E lc es (Inr x) h = (dnsSafe E lc es h \<and> (\<exists>d. domainFound E lc h d \<and> staleDeleted E lc es h d \<and> list_all (entryThere E d h) es))"
  by (simp_all add: dnsCreated_def)

lemma wp_GetDomainID:
  "wp (GetDomainID E) (\<lambda>r t. adds noDelete s t \<and> obj t = obj s \<and> (case r of Inl _ \<Rightarrow> True | Inr d \<Rightarrow> domainFound E (lcOf s) (tr t) d)) s"
  by (auto simp: GetDomainID_def wp_rules adds_def split: sum.split list.split)

lemma wp_EnsureLinodeDNSEntries:
  assumes "operation \<noteq> ''delete''" and "dnsSafe E (lcOf s) es (tr s)"
  shows "wp (EnsureLinodeDNSEntries E operation es) (\<lambda>r t. dnsCreated E (lcOf s) es r (tr t)) s"
  unfolding EnsureLinodeDNSEntries_def wp_gets
proof (rule wp_seqE [OF wp_GetDomainID])
  let ?lc = "lcOf s"
  show "adds noDelete s t \<and> obj t = obj s \<and> (case Inl e of Inl _ \<Rightarrow> True | Inr d \<Rightarrow> domainFound E ?lc (tr t) d) \<Longrightarrow> dnsCreated E ?lc es (Inl e) (tr t)" for e t
    using dnsSafe_adds [OF _ assms(2)] by simp
  fix d t assume "adds noDelete s t \<and> obj t = obj s \<and> (case Inr d of Inl _ \<Rightarrow> True | Inr d \<Rightarrow> domainFound E ?lc (tr t) d)"
  then have t: "dnsSafe E ?lc es (tr t)" "domainFound E ?lc (tr t) d" using dnsSafe_adds [OF _ assms(2)] by simp_all
  let ?f = "jsonMap [(''name'', getSubDomain ?lc)]"
  let ?u = "t\<lparr>tr := DNS (CListDomainRecords d ?f) # tr t\<rparr>"
  show "wp (bindE (listDomainRecords E d [(''name'', getSubDomain ?lc)]) (\<lambda>R. bindE (deleteStaleLinodeEntries E R d es) (\<lambda>_.
       forE es (\<lambda>e. if operation = ''delete'' then DeleteDomainRecord E d e else CreateDomainRecord E d e))))
     (\<lambda>r t. dnsCreated E ?lc es r (tr t)) t"
  proof (rule wp_seqE [where P = "\<lambda>r u. u = ?u \<and> r = dne_ListDomainRecords (dne E) (tr t) d ?f"])
    fix R u assume u: "u = ?u \<and> Inr R = dne_ListDomainRecords (dne E) (tr t) d ?f"
    then have del: "wp (deleteStaleLinodeEntries E R d es) (\<lambda>r v. dnsSafe E ?lc es (tr v) \<and> adds (\<lambda>_. True) u v \<and>
       (case r of Inl _ \<Rightarrow> True | Inr _ \<Rightarrow> \<forall>r\<in>set R. staleRecord es r \<longrightarrow> recordDeleted E (tr v) d (ldr_ID r))) u"
      using t by (intro wp_deleteStaleLinodeEntries) (auto simp: hostFilter_def split: sum.splits)
    have op: "(\<lambda>e. if operation = ''delete'' then DeleteDomainRecord E d e else CreateDomainRecord E d e) = CreateDomainRecord E d"
      using assms(1) by auto
    show "wp (bindE (deleteStaleLinodeEntries E R d es) (\<lambda>_.
       forE es (\<lambda>e. if operation = ''delete'' then DeleteDomainRecord E d e else CreateDomainRecord E d e)))
      (\<lambda>r t. dnsCreated E ?lc es r (tr t)) u"
      unfolding op
    proof (rule wp_seqE [OF del])
      fix x and v :: "ClusterScope world"
      assume v: "dnsSafe E ?lc es (tr v) \<and> adds (\<lambda>_. True) u v \<and>
        (case Inr x of Inl _ \<Rightarrow> True | Inr _ \<Rightarrow> \<forall>r\<in>set R. staleRecord es r \<longrightarrow> recordDeleted E (tr v) d (ldr_ID r))"
      then obtain new where new: "tr v = new @ tr u" by (auto simp: adds_def)
      have "staleDeleted E ?lc es (tr v) d"
        unfolding staleDeleted_def hostFilter_def using u v new by (intro exI [of _ new] exI [of _ "tr t"] exI [of _ R]) simp
      moreover have "domainFound E ?lc (tr v) d" unfolding new using u t(2) by (intro dns_facts_append) simp
      ultimately show "wp (forE es (CreateDomainRecord E d)) (\<lambda>r t. dnsCreated E ?lc es r (tr t)) v"
        using v by (intro wp_mono [OF wp_createAll]) (auto intro: dnsSafe_adds dns_facts_adds simp: dnsCreated_def split: sum.splits)
    qed simp
  qed (use t in \<open>auto simp: listDomainRecords_def wp_perform\<close>)
qed


section \<open>Removing a target\<close>

text \<open>
  The specification of \<open>removeElement\<close>: after each element it removes, the element that follows moves
  into the place just visited and is not looked at.
\<close>

fun removeSkipping :: "string \<Rightarrow> string list \<Rightarrow> string list" where
  "removeSkipping x [] = []"
| "removeSkipping x (y # ys) = (if y = x then (case ys of [] \<Rightarrow> [] | z # zs \<Rightarrow> z # removeSkipping x zs) else y # removeSkipping x ys)"

lemma removeLoop_blank:
  "x \<noteq> '''' \<Longrightarrow> removeLoop x (i + k) (pre @ replicate k '''') m i = Some (take m (pre @ replicate k ''''))" if "length pre = i"
  using that
proof (induction k arbitrary: i pre)
  case 0
  then show ?case by (subst removeLoop.simps) simp
next
  case (Suc k)
  have "removeLoop x (Suc i + k) ((pre @ ['''']) @ replicate k '''') m (Suc i) = Some (take m ((pre @ ['''']) @ replicate k ''''))"
    using Suc.prems by (intro Suc.IH) simp_all
  then show ?case using Suc.prems
    by (subst removeLoop.simps) (simp add: nth_append replicate_append_same)
qed

lemma removeLoop_skipping:
  assumes "x \<noteq> ''''" and "length pre = i"
  shows "removeLoop x (i + length ys + k) (pre @ ys @ replicate k '''') (i + length ys) i = Some (pre @ removeSkipping x ys)"
  using assms
proof (induction x ys arbitrary: i pre k rule: removeSkipping.induct)
  case (1 x)
  then show ?case using removeLoop_blank [of pre i x k i] by simp
next
  case (2 x y ys)
  show ?case
  proof (cases "y = x")
    case False
    have "removeLoop x (Suc i + length ys + k) ((pre @ [y]) @ ys @ replicate k '''') (Suc i + length ys) (Suc i)
       = Some ((pre @ [y]) @ removeSkipping x ys)"
      by (rule 2(2) [OF False]) (simp_all add: 2(3,4))
    with False 2(4) show ?thesis by (subst removeLoop.simps) (auto simp: nth_append)
  next
    case True
    show ?thesis
    proof (cases ys)
      case Nil
      have "removeLoop x (Suc i + k) ((pre @ ['''']) @ replicate k '''') i (Suc i) = Some (take i ((pre @ ['''']) @ replicate k ''''))"
        by (rule removeLoop_blank) (use 2(3,4) in simp_all)
      with True Nil 2(4) show ?thesis by (subst removeLoop.simps) (auto simp: nth_append)
    next
      case (Cons z zs)
      have "removeLoop x (Suc i + length zs + Suc k) ((pre @ [z]) @ zs @ replicate (Suc k) '''') (Suc i + length zs) (Suc i)
         = Some ((pre @ [z]) @ removeSkipping x zs)"
        by (rule 2(1) [OF True Cons]) (simp_all add: 2(3,4))
      with True Cons 2(4) show ?thesis by (subst removeLoop.simps) (auto simp: nth_append replicate_append_same)
    qed
  qed
qed

lemma removeElement_skipping: "x \<noteq> '''' \<Longrightarrow> removeElement xs x = Some (removeSkipping x xs)"
  using removeLoop_skipping [of x "[]" 0 xs 0] by (simp add: removeElement_def)

lemma removeSkipping_distinct: "distinct xs \<Longrightarrow> removeSkipping x xs = filter (\<lambda>y. y \<noteq> x) xs"
proof (induction x xs rule: removeSkipping.induct)
  case (2 x y ys)
  have "filter (\<lambda>y. y \<noteq> x) zs = zs" if "x \<notin> set zs" for zs using that by (induction zs) auto
  moreover have "removeSkipping x zs = zs" if "x \<notin> set zs" for zs using that by (induction zs) auto
  ultimately show ?case using 2 by (auto split: list.splits)
qed simp

end
