(* ===== verification/ClusterProps.thy ===== *)
theory ClusterProps
  imports ClusterCtl DomainsProps Samples
begin

text \<open>
  What the cluster controller guarantees: a deleted cluster is given up only when its NodeBalancer is
  gone and no control plane machine is left; one reconciliation creates at most one NodeBalancer; the
  backend nodes of the API server follow the machines; the DNS records follow the entries.
\<close>

section \<open>Steps of the load balancer\<close>

definition createsNB :: "call \<Rightarrow> bool" where
  "createsNB c = (case c of NB (CCreateNodeBalancer _) \<Rightarrow> True | _ \<Rightarrow> False)"

abbreviation noNB :: "call \<Rightarrow> bool" where
  "noNB c \<equiv> \<not> createsNB c"

lemma createsNB_simps [simp]:
  "noNB (K8s x)" "noNB (Runtime r)" "noNB (SetToken t)" "noNB (SetDomainsToken t)" "noNB NewLinodeClient" "noNB NewEdgeDNSClient"
  "noNB (FW a)" "noNB (VPC b)" "noNB (DNS d)" "noNB (AKAM k)"
  "noNB (NB (CGetNodeBalancer i))" "noNB (NB (CListNodeBalancers f))" "noNB (NB (CListNodeBalancerNodes i j))"
  "noNB (NB (CGetNodeBalancerConfig i j))" "noNB (NB (CCreateNodeBalancerConfig i co))" "noNB (NB (CDeleteNodeBalancerNode i j k2))"
  "noNB (NB (CDeleteNodeBalancer i))" "noNB (NB (CCreateNodeBalancerNode i j no))" "createsNB (NB (CCreateNodeBalancer opts))"
  by (simp_all add: createsNB_def)

lemma isK8s_noNB: "isK8s c \<Longrightarrow> noNB c"
  by (auto simp: isK8s_def createsNB_def split: call.splits)

text \<open>
  \<open>lbStep\<close>: no NodeBalancer is created, and the metadata of the cluster, the addresses of the VLAN and the
  machines, up to their order, stay as they are.
\<close>

definition lbStep :: "ClusterScope world \<Rightarrow> ClusterScope world \<Rightarrow> bool" where
  "lbStep s t = (adds noNB s t \<and> lc_Meta (lcOf t) = lc_Meta (lcOf s) \<and> cs_Cluster (obj t) = cs_Cluster (obj s)
     \<and> set (cs_LinodeMachines (obj t)) = set (cs_LinodeMachines (obj s)) \<and> vlanIPsMap t = vlanIPsMap s)"

interpretation lbstep: preorder_rel lbStep
  by unfold_locales (auto simp: lbStep_def adds.refl intro: adds.trans)

lemma lbStep_perform: "noNB c \<Longrightarrow> keeps lbStep (perform c f)"
  by (simp add: keeps_def wp_perform lbStep_def adds_def)

lemma lbStep_modLC: "(\<And>lc. lc_Meta (f lc) = lc_Meta lc) \<Longrightarrow> keeps lbStep (modLC f)"
  by (simp add: keeps_def wp_update lbStep_def adds_def)

lemma lbStep_sort: "keeps lbStep (modObj (cs_LinodeMachines_update (sort_key k)))"
  by (simp add: keeps_def wp_update lbStep_def adds_def)

lemma lbStep_calm: "keeps (calm isK8s) m \<Longrightarrow> keeps lbStep m"
  by (erule keeps_mono) (auto simp: calm_def lbStep_def adds_def isK8s_noNB)

lemmas lbStep_rules = lbstep.keeps_all lbStep_perform lbStep_modLC lbStep_sort

lemma lbStep_conditions: "keeps lbStep (lcSetCondition E c)" "keeps lbStep (setFailureReason E r msg)" "keeps lbStep (lbDeleted E msg)"
  unfolding lcSetCondition_def setFailureReason_def lbDeleted_def LinodeCluster_SetCondition_def
  by (intro lbStep_rules; simp)+

text \<open>\<open>nodeStep\<close>: moreover the ID of the NodeBalancer, the endpoint and the readiness stay as they are.\<close>

definition lbView :: "LinodeCluster \<Rightarrow> int option \<times> APIEndpoint \<times> bool" where
  "lbView lc = (net_NodeBalancerID (netOf lc), lcs_ControlPlaneEndpoint (lc_Spec lc), lcs_Ready (lc_Status lc))"

definition nodeStep :: "ClusterScope world \<Rightarrow> ClusterScope world \<Rightarrow> bool" where
  "nodeStep s t = (lbStep s t \<and> lbView (lcOf t) = lbView (lcOf s))"

interpretation ndstep: preorder_rel nodeStep
  by unfold_locales (auto simp: nodeStep_def lbstep.refl intro: lbstep.trans)

lemma nodeStep_perform: "noNB c \<Longrightarrow> keeps nodeStep (perform c f)"
  by (simp add: keeps_def wp_perform nodeStep_def lbStep_def adds_def)

lemma nodeStep_modLC: "(\<And>lc. lc_Meta (f lc) = lc_Meta lc \<and> lbView (f lc) = lbView lc) \<Longrightarrow> keeps nodeStep (modLC f)"
  by (simp add: keeps_def wp_update nodeStep_def lbStep_def adds_def)

lemma nodeStep_sort: "keeps nodeStep (modObj (cs_LinodeMachines_update (sort_key k)))"
  by (simp add: keeps_def wp_update nodeStep_def lbStep_def adds_def)

lemma nodeStep_lbStep: "keeps nodeStep m \<Longrightarrow> keeps lbStep m"
  by (erule keeps_mono) (simp add: nodeStep_def)

lemmas nodeStep_rules = ndstep.keeps_all nodeStep_perform nodeStep_modLC nodeStep_sort

lemma nodeStep_DNS: "keeps nodeStep (EnsureDNSEntries E operation)"
proof -
  have "keeps nodeStep (isCapiMachineReady E m)" for m
    unfolding isCapiMachineReady_def Let_def by (intro nodeStep_rules keeps_case; simp)
  then have "keeps nodeStep (processLinodeMachine E m ttl sub fst)" for m ttl sub fst
    unfolding processLinodeMachine_def by (intro nodeStep_rules keeps_case; simp)
  then have "keeps nodeStep (collectDNS E ttl sub fst ms)" for ttl sub fst ms
    by (induction ms arbitrary: fst) (auto intro!: nodeStep_rules split: prod.splits)
  then have entries: "keeps nodeStep (getDNSEntriesToEnsure E)"
    unfolding getDNSEntriesToEnsure_def Let_def by (intro nodeStep_rules keeps_case; simp)
  have reqs: "keeps nodeStep (akGet E lc ty)" "keeps nodeStep (akUpdate E z r)" "keeps nodeStep (akDelete E z r)"
    "keeps nodeStep (listDomainRecords E i kvs)" "keeps nodeStep (deleteDomainRecordCall E i j)" for lc ty z r i kvs j
    unfolding akGet_def akUpdate_def akDelete_def listDomainRecords_def deleteDomainRecordCall_def by (intro nodeStep_rules; simp)+
  have "keeps nodeStep (resetAkamaiType E lc ty ips)" for lc ty ips
    unfolding resetAkamaiType_def resetAkamaiRecord_def Let_def by (intro nodeStep_rules keeps_case reqs; simp)
  then have stale: "keeps nodeStep (deleteStaleAkamaiEntries E es)" for es
    unfolding deleteStaleAkamaiEntries_def Let_def by (intro nodeStep_rules keeps_case; simp)
  have own: "keeps nodeStep (IsAkamaiDomainRecordOwner E)" "keeps nodeStep (IsLinodeDomainRecordOwner E host i)" for host i
    unfolding IsAkamaiDomainRecordOwner_def IsLinodeDomainRecordOwner_def by (intro nodeStep_rules keeps_case reqs; simp)+
  have "keeps nodeStep (deleteAkamaiEntry E r e)" for r e
    unfolding deleteAkamaiEntry_def Let_def by (intro nodeStep_rules keeps_case reqs own; simp)
  then have ak: "keeps nodeStep (EnsureAkamaiDNSEntries E operation e)" for e
    unfolding EnsureAkamaiDNSEntries_def createAkamaiEntry_def Let_def by (intro nodeStep_rules keeps_case reqs; simp)
  have "keeps nodeStep (EnsureLinodeDNSEntries E operation es)" for es
    unfolding EnsureLinodeDNSEntries_def GetDomainID_def deleteStaleLinodeEntries_def DeleteDomainRecord_def CreateDomainRecord_def Let_def
    by (intro nodeStep_rules keeps_case reqs own; simp)
  then show ?thesis
    unfolding EnsureDNSEntries_def by (intro nodeStep_rules keeps_case entries stale ak; simp)
qed

lemma nodeStep_DeleteNodesFromNB: "keeps nodeStep (DeleteNodesFromNB E)"
  unfolding DeleteNodesFromNB_def deleteNBNode_def Let_def by (intro nodeStep_rules keeps_case; simp)


lemmas lbStep_DNS = nodeStep_DNS [THEN nodeStep_lbStep]
lemmas lbStep_DeleteNodesFromNB = nodeStep_DeleteNodesFromNB [THEN nodeStep_lbStep]


section \<open>Deletion\<close>

fun nbGone :: "env \<Rightarrow> hist \<Rightarrow> int \<Rightarrow> bool" where
  "nbGone E [] i = False"
| "nbGone E (c # h) i = (nbGone E h i \<or> (case c of
     NB (CDeleteNodeBalancer j) \<Rightarrow> j = i \<and> IgnoreLinodeAPIError E (nbe_DeleteNodeBalancer (nbe E) h i) [StatusNotFound] = None
   | _ \<Rightarrow> False))"

lemma nbGone_adds: "adds P s t \<Longrightarrow> nbGone E (tr s) i \<Longrightarrow> nbGone E (tr t) i"
proof -
  have "nbGone E h i \<Longrightarrow> nbGone E (new @ h) i" for new h by (induction new) auto
  then show "adds P s t \<Longrightarrow> nbGone E (tr s) i \<Longrightarrow> nbGone E (tr t) i" by (auto simp: adds_def)
qed

text \<open>The NodeBalancer that a deletion has to remove.\<close>

definition ownNB :: "LinodeCluster \<Rightarrow> int option" where
  "ownNB lc = (if net_LoadBalancerType (netOf lc) = lbTypeNB then net_NodeBalancerID (netOf lc) else None)"

definition lbGone :: "env \<Rightarrow> LinodeCluster \<Rightarrow> hist \<Rightarrow> bool" where
  "lbGone E lc h = (case ownNB lc of None \<Rightarrow> True | Some i \<Rightarrow> nbGone E h i)"

lemma lbGone_adds: "adds P s t \<Longrightarrow> lbGone E lc (tr s) \<Longrightarrow> lbGone E lc (tr t)"
  by (auto simp: lbGone_def intro: nbGone_adds split: option.splits)

definition lbRemoved :: "env \<Rightarrow> ClusterScope world \<Rightarrow> unit res \<Rightarrow> ClusterScope world \<Rightarrow> bool" where
  "lbRemoved E s r t = (lbStep s t \<and> (case r of Inl _ \<Rightarrow> True | Inr _ \<Rightarrow> lbGone E (lcOf s) (tr t)))"

lemma wp_removeLB: "keeps lbStep m \<Longrightarrow> keeps lbStep (removeLB E m)"
  unfolding removeLB_def by (intro lbStep_rules; simp)

lemma wp_deleteNB: "wp (deleteNB E i) (\<lambda>r t. lbStep s t \<and> (case r of Inl _ \<Rightarrow> True | Inr _ \<Rightarrow> nbGone E (tr t) i)) s"
proof (rule wp_conjI)
  show "wp (deleteNB E i) (\<lambda>_ t. lbStep s t) s"
    by (rule keeps_wp) (unfold deleteNB_def, intro lbStep_rules keeps_case lbStep_conditions; simp)
  show "wp (deleteNB E i) (\<lambda>r t. case r of Inl _ \<Rightarrow> True | Inr _ \<Rightarrow> nbGone E (tr t) i) s"
    by (simp add: deleteNB_def setFailureReason_def lbDeleted_def lcSetCondition_def wp_rules)
qed

lemma wp_deleteLoadBalancer: "wp (deleteLoadBalancer E) (lbRemoved E s) s"
proof -
  let ?net = "netOf (lcOf s)"
  have cond: "wp (do { _ \<leftarrow> lbDeleted E msg; ret (Inr ()) }) (lbRemoved E s) t"
    if "lbStep s t" "ownNB (lcOf s) = None" for msg t
    using that keeps_wp [OF lbStep_conditions(3), of E msg t]
    by (simp add: wp_bind wp_return) (erule wp_mono, auto simp: lbRemoved_def lbGone_def intro: lbstep.trans)
  have del: "wp (deleteNB E i) (lbRemoved E s) t" if "lbStep s t" "ownNB (lcOf s) = Some i" for i t
    by (rule wp_mono [OF wp_deleteNB]) (use that in \<open>auto simp: lbRemoved_def lbGone_def intro: lbstep.trans split: sum.splits\<close>)
  have dns: "keeps lbStep (removeLB E (removeMachineFromDNS E))" and nb: "keeps lbStep (removeLB E (removeMachineFromNB E))"
    unfolding removeMachineFromDNS_def removeMachineFromNB_def
    by (intro wp_removeLB lbStep_DNS lbStep_DeleteNodesFromNB)+
  have ext: "lbTypeExternal \<noteq> lbTypeNB" "lbTypeDNS \<noteq> lbTypeNB" by (simp_all add: lbTypeExternal_def lbTypeNB_def lbTypeDNS_def)
  have triv: "lbRemoved E s (Inr ()) s" if "ownNB (lcOf s) = None" using that by (simp add: lbRemoved_def lbGone_def lbstep.refl)
  have err: "lbRemoved E s (Inl e) t" if "lbStep s t" for e t using that by (simp add: lbRemoved_def)
  show ?thesis
    unfolding deleteLoadBalancer_def wp_gets Let_def
    by (intro wp_ifI cond wp_seqE [OF keeps_wp [OF dns]])
      (use ext in \<open>auto simp: ownNB_def wp_return lbstep.refl err triv split: option.splits
        intro!: wp_seqE [OF keeps_wp [OF nb]] del\<close>)
qed

text \<open>
  \<open>lcKept\<close>: the finalizers and the VLAN addresses are those of before, unless no machine is left and the
  NodeBalancer is gone.
\<close>

definition lcKept :: "env \<Rightarrow> ClusterScope world \<Rightarrow> ClusterScope world \<Rightarrow> bool" where
  "lcKept E s t =
     (om_Finalizers (lc_Meta (lcOf t)) = om_Finalizers (lc_Meta (lcOf s)) \<and> vlanIPsMap t = vlanIPsMap s
      \<or> cs_LinodeMachines (obj s) = [] \<and> lbGone E (lcOf s) (tr t))"

lemma lbStep_Kept: "lbStep s t \<Longrightarrow> lcKept E s t"
  by (simp add: lbStep_def lcKept_def)

lemma wp_c_reconcileDelete: "wp (c_reconcileDelete E) (\<lambda>_ t. lcKept E s t) s"
  unfolding c_reconcileDelete_def
proof (rule wp_seqE [OF wp_deleteLoadBalancer])
  fix e t assume "lbRemoved E s (Inl e) t"
  then show "lcKept E s t" by (simp add: lbRemoved_def lbStep_Kept)
next
  fix x t assume t: "lbRemoved E s (Inr x) t"
  then have gone: "lbGone E (lcOf s) (tr t)" and st: "lbStep s t" by (simp_all add: lbRemoved_def)
  have none: "cs_LinodeMachines (obj s) = []" if "cs_LinodeMachines (obj t) = []" using st that by (simp add: lbStep_def)
  let ?u = "vlanIPsMap_update (\<lambda>m. m(vlanKey (om_Name (cl_Meta (cs_Cluster (obj t)))) (om_Namespace (cl_Meta (cs_Cluster (obj t)))) := None)) t"
  have fin: "lcKept E s (obj_update f u)" "lcKept E s (obj_update f (u\<lparr>tr := c # tr u\<rparr>))"
    if "calm isK8s ?u u" "cs_LinodeMachines (obj t) = []" for u f c
  proof -
    have "adds (\<lambda>_. True) t (obj_update f u)" "adds (\<lambda>_. True) t (obj_update f (u\<lparr>tr := c # tr u\<rparr>))"
      using that(1) by (auto simp: calm_def adds_def)
    then show "lcKept E s (obj_update f u)" "lcKept E s (obj_update f (u\<lparr>tr := c # tr u\<rparr>))"
      using none [OF that(2)] lbGone_adds gone unfolding lcKept_def by blast+
  qed
  note creds = wp_calm [OF calm_ClusterScope_creds(2)]
  show "wp (do {
       s \<leftarrow> getObj;
       if cs_LinodeMachines s \<noteq> [] then ret (Inl (ErrNew ''waiting for associated LinodeMachine objects to be deleted''))
       else do {
         _ \<leftarrow> DeleteClusterIPs (om_Name (cl_Meta (cs_Cluster s))) (om_Namespace (cl_Meta (cs_Cluster s)));
         e \<leftarrow> ClusterScope_RemoveCredentialsRefFinalizer E;
         case e of
           Some err \<Rightarrow> do { _ \<leftarrow> setFailureReason E DeleteError (errText err); ret (Inl err) }
         | None \<Rightarrow> do {
             _ \<leftarrow> lcRemoveFinalizer E ClusterFinalizer;
             lc \<leftarrow> csLC;
             _ \<leftarrow> (if lib_ContainsFinalizer (lib E) (om_Finalizers (lc_Meta lc)) ''infrastructure.cluster.x-k8s.io/v1alpha2''
                  then lcRemoveFinalizer E ''infrastructure.cluster.x-k8s.io/v1alpha2'' else ret ());
             ret (Inr ())
           }
       }
     }) (\<lambda>_ t. lcKept E s t) t"
    unfolding wp_gets DeleteClusterIPs_def
    by (rule wp_ifI) (auto simp: wp_return wp_bind wp_update lbStep_Kept [OF st] setFailureReason_def lcSetCondition_def
        lcRemoveFinalizer_def wp_perform wp_if wp_get wp_case_option
        split: option.splits if_splits intro!: wp_mono [OF creds] intro: fin)
qed


section \<open>Creation\<close>

lemma nodeStep_subnet: "keeps nodeStep (getSubnetID E)" "keeps nodeStep (nbVPCs E)" "keeps nodeStep (nbFirewallID E)"
  unfolding nbVPCs_def nbFirewallID_def lb_getFirewallID_def getSubnetID_def Let_def by (intro nodeStep_rules keeps_case; simp)+

lemma nodeStep_nodes: "keeps nodeStep (AddNodesToNB E m ns)" "keeps nodeStep (syncNBNodes E i j)"
proof -
  have "keeps nodeStep (processAndCreateNodeBalancerNodes E ip ns sub)" for ip ns sub
    unfolding processAndCreateNodeBalancerNodes_def createNBNode_def Let_def by (intro nodeStep_rules keeps_case; simp)
  then show add: "keeps nodeStep (AddNodesToNB E m ns)" for m ns
    unfolding AddNodesToNB_def Let_def by (intro nodeStep_rules keeps_case nodeStep_subnet)
  show "keeps nodeStep (syncNBNodes E i j)"
    unfolding syncNBNodes_def deleteStaleNode_def by (intro nodeStep_rules keeps_case add; simp)
qed

lemma nodeStep_addMachineToLB: "keeps nodeStep (addMachineToLB E)"
  unfolding addMachineToLB_def Let_def by (intro nodeStep_rules keeps_case nodeStep_nodes nodeStep_DNS; simp add: lbView_def)

lemmas lbStep_subnet = nodeStep_subnet [THEN nodeStep_lbStep]
lemmas lbStep_addMachineToLB = nodeStep_addMachineToLB [THEN nodeStep_lbStep]

lemma lbStep_noNB: "keeps lbStep m \<Longrightarrow> keeps (adds noNB) m"
  by (erule keeps_mono) (simp add: lbStep_def)

text \<open>\<open>specStep\<close>: no NodeBalancer is created and the spec is the same.\<close>

definition specStep :: "ClusterScope world \<Rightarrow> ClusterScope world \<Rightarrow> bool" where
  "specStep s t = (adds noNB s t \<and> lc_Spec (lcOf t) = lc_Spec (lcOf s))"

interpretation spst: preorder_rel specStep
  by unfold_locales (auto simp: specStep_def adds.refl intro: adds.trans)

lemma specStep_perform: "noNB c \<Longrightarrow> keeps specStep (perform c f)"
  by (simp add: keeps_def wp_perform specStep_def adds_def)

lemma specStep_modify: "(\<And>w. tr (f w) = tr w \<and> lc_Spec (lcOf (f w)) = lc_Spec (lcOf w)) \<Longrightarrow> keeps specStep (modify f)"
  by (simp add: keeps_def wp_update specStep_def adds_def)

lemma specStep_calm: "keeps (calm isK8s) m \<Longrightarrow> keeps specStep m"
  by (erule keeps_mono) (auto simp: calm_def specStep_def adds_def isK8s_noNB)

lemma specStep_noNB: "keeps specStep m \<Longrightarrow> keeps (adds noNB) m"
  by (erule keeps_mono) (simp add: specStep_def)

lemmas specStep_rules = spst.keeps_all specStep_perform specStep_modify

lemma specStep_conditions: "keeps specStep (lcSetCondition E c)" "keeps specStep (setFailureReason E r msg)"
  "keeps specStep (WithJitter E d)" "keeps specStep (HasStaleCondition E co d)" "keeps specStep (requeueLater E d)"
  "keeps specStep (retryIfTransient E err)"
  unfolding lcSetCondition_def setFailureReason_def LinodeCluster_SetCondition_def WithJitter_def HasStaleCondition_def requeueLater_def
    retryIfTransient_def
  by (intro specStep_rules keeps_case; simp)+

lemma specStep_requeue: "keeps specStep (requeueUnlessStale E T err)"
  unfolding requeueUnlessStale_def by (intro specStep_rules specStep_conditions keeps_case)

lemma specStep_preflight: "keeps specStep (performPreflightChecks E T)"
  unfolding performPreflightChecks_def c_reconcilePreflightLinodeVPCCheck_def c_reconcilePreflightLinodeFirewallCheck_def
    fetchFailed_def notReady_def preflightDone_def Let_def
  by (intro specStep_rules keeps_case specStep_conditions; simp)

lemma specStep_scope: "keeps specStep (ClusterScope_AddFinalizer E)" "keeps specStep (ClusterScope_AddCredentialsRefFinalizer E)"
  "keeps specStep (ClusterScope_SetCredentialRefToken E)" "keeps specStep (ClusterScope_Close E)"
proof -
  note creds = calm_ClusterScope_creds [THEN specStep_calm]
  show "keeps specStep (ClusterScope_AddFinalizer E)"
    unfolding ClusterScope_AddFinalizer_def Let_def by (intro specStep_rules keeps_case creds; simp)
qed (rule calm_ClusterScope_creds [THEN specStep_calm])+

text \<open>A NodeBalancer is created only for a cluster without an endpoint, without DNS and without the ID of a NodeBalancer.\<close>

definition wantsNB :: "LinodeClusterSpec \<Rightarrow> bool" where
  "wantsNB sp = (net_LoadBalancerType (lcs_Network sp) \<noteq> lbTypeDNS \<and> net_NodeBalancerID (lcs_Network sp) \<in> {None, Some 0})"

definition needsNB :: "LinodeClusterSpec \<Rightarrow> bool" where
  "needsNB sp = (ep_Host (lcs_ControlPlaneEndpoint sp) = [] \<and> wantsNB sp)"

definition createsIf :: "(LinodeClusterSpec \<Rightarrow> bool) \<Rightarrow> (ClusterScope, 'a) op \<Rightarrow> bool" where
  "createsIf R m = (\<forall>s. wp m (\<lambda>_ t. countOf createsNB (tr t) \<le> of_bool (R (lc_Spec (lcOf s))) + countOf createsNB (tr s)) s)"

lemma createsIf_none: "keeps (adds noNB) m \<Longrightarrow> createsIf R m"
  unfolding createsIf_def by (auto dest: countOf_adds intro!: wp_mono [OF keeps_wp])

lemma createsIf_before:
  assumes "keeps specStep m" and "\<And>x. createsIf R (f x)"
  shows "createsIf R (State_Monad.bind m f)"
  unfolding createsIf_def
proof (intro allI wp_seq [OF keeps_wp [OF assms(1)]])
  fix s r t assume "specStep s t"
  then have "lc_Spec (lcOf t) = lc_Spec (lcOf s)" "countOf createsNB (tr t) = countOf createsNB (tr s)"
    by (auto simp: specStep_def dest: countOf_adds)
  then show "wp (f r) (\<lambda>_ u. countOf createsNB (tr u) \<le> of_bool (R (lc_Spec (lcOf s))) + countOf createsNB (tr s)) t"
    using assms(2) [of r, unfolded createsIf_def, rule_format, of t] by simp
qed

lemma createsIf_after:
  assumes "createsIf R m" and "\<And>x. keeps (adds noNB) (f x)"
  shows "createsIf R (State_Monad.bind m f)"
  unfolding createsIf_def
proof
  fix s
  have "wp m (\<lambda>_ t. countOf createsNB (tr t) \<le> of_bool (R (lc_Spec (lcOf s))) + countOf createsNB (tr s)) s"
    using assms(1) by (simp add: createsIf_def)
  then show "wp (State_Monad.bind m f) (\<lambda>_ t. countOf createsNB (tr t) \<le> of_bool (R (lc_Spec (lcOf s))) + countOf createsNB (tr s)) s"
    by (rule wp_seq) (auto dest: countOf_adds intro!: wp_mono [OF keeps_wp [OF assms(2)]])
qed

lemma createsIf_cases:
  "createsIf R m \<Longrightarrow> createsIf R n \<Longrightarrow> createsIf R (if b then m else n)"
  "(\<And>e. createsIf R (f e)) \<Longrightarrow> (\<And>x. createsIf R (g x)) \<Longrightarrow> createsIf R (case z of Inl e \<Rightarrow> f e | Inr x \<Rightarrow> g x)"
  "createsIf R (ret y)"
  by (simp_all add: createsIf_none adds.keeps_return split: sum.splits)

lemma createsIf_gets:
  assumes "\<And>s. wp (f (g s)) (\<lambda>_ t. countOf createsNB (tr t) \<le> of_bool (R (lc_Spec (lcOf s))) + countOf createsNB (tr s)) s"
  shows "createsIf R (State_Monad.bind (gets g) f)"
  unfolding createsIf_def wp_gets using assms by simp

lemma once_EnsureNodeBalancer: "once createsNB (EnsureNodeBalancer E)"
proof -
  have "keeps lbStep (getNBFromLabel E)"
    unfolding getNBFromLabel_def Let_def by (intro lbStep_rules keeps_case; simp)
  then show ?thesis
    unfolding EnsureNodeBalancer_def Let_def
    by (intro once_before [OF adds.keeps_bind [OF adds.keeps_get adds.keeps_return]] once_if once_beforeE once_after [OF once_perform]
        lbStep_subnet [THEN lbStep_noNB] once_keeps keeps_case adds_rules lbStep_noNB; simp)
qed

lemma createsIf_EnsureNodeBalancer: "createsIf (\<lambda>sp. net_NodeBalancerID (lcs_Network sp) \<in> {None, Some 0}) (EnsureNodeBalancer E)"
  unfolding createsIf_def
proof
  fix s
  show "wp (EnsureNodeBalancer E) (\<lambda>_ t. countOf createsNB (tr t)
      \<le> of_bool (net_NodeBalancerID (netOf (lcOf s)) \<in> {None, Some 0}) + countOf createsNB (tr s)) s"
  proof (cases "net_NodeBalancerID (netOf (lcOf s)) \<in> {None, Some 0}")
    case True
    then show ?thesis using once_EnsureNodeBalancer [of E] by (simp add: once_def)
  next
    case False
    then show ?thesis
      by (simp add: EnsureNodeBalancer_def wp_rules countOf_def split: prod.splits)
  qed
qed

lemma lbStep_configs: "keeps (adds noNB) (EnsureNodeBalancerConfigs E)"
  unfolding EnsureNodeBalancerConfigs_def createNBConfig_def by (intro adds_rules keeps_case; simp)

lemma createsIf_handleNBCreate: "createsIf (\<lambda>sp. net_NodeBalancerID (lcs_Network sp) \<in> {None, Some 0}) (handleNBCreate E)"
  unfolding handleNBCreate_def bindE_def [of "EnsureNodeBalancer E"] setEndpoint_def Let_def
  by (intro createsIf_after [OF createsIf_EnsureNodeBalancer] adds_rules keeps_case lbStep_configs; simp)

lemma createsIf_c_reconcileCreate: "createsIf wantsNB (c_reconcileCreate E)"
  unfolding c_reconcileCreate_def
proof (rule createsIf_before [OF specStep_scope(2)])
  fix e
  have dns: "keeps (adds noNB) handleDNS"
    unfolding handleDNS_def setEndpoint_def Let_def by (intro adds_rules; simp)
  have "createsIf wantsNB (do { lc \<leftarrow> csLC; if net_LoadBalancerType (netOf lc) = lbTypeDNS then do { _ \<leftarrow> handleDNS; ret (Inr ()) } else handleNBCreate E })"
  proof (rule createsIf_gets)
    fix s
    show "wp (if net_LoadBalancerType (netOf (lcOf s)) = lbTypeDNS then do { _ \<leftarrow> handleDNS; ret (Inr ()) } else handleNBCreate E)
       (\<lambda>_ t. countOf createsNB (tr t) \<le> of_bool (wantsNB (lc_Spec (lcOf s))) + countOf createsNB (tr s)) s"
    proof (cases "net_LoadBalancerType (netOf (lcOf s)) = lbTypeDNS")
      case True
      then show ?thesis
        by (simp only: refl if_True) (rule wp_mono [OF keeps_wp [OF adds.keeps_bind [OF dns adds.keeps_return]]], simp add: countOf_adds)
    next
      case False
      then show ?thesis
        using createsIf_handleNBCreate [of E, unfolded createsIf_def, rule_format, of s] by (simp add: wantsNB_def)
    qed
  qed
  then show "createsIf wantsNB (case e of
       Some err \<Rightarrow> do { _ \<leftarrow> setFailureReason E CreateError (errText err); ret (Inl err) }
     | None \<Rightarrow> do {
         lc \<leftarrow> csLC;
         if net_LoadBalancerType (netOf lc) = lbTypeDNS then do { _ \<leftarrow> handleDNS; ret (Inr ()) } else handleNBCreate E
       })"
    by (auto intro!: createsIf_none adds_rules specStep_conditions [THEN specStep_noNB] split: option.splits)
qed


lemma noNB_finishLB: "keeps (adds noNB) (finishLB E)"
  unfolding finishLB_def
  by (intro adds_rules keeps_case specStep_conditions [THEN specStep_noNB] lbStep_noNB [OF lbStep_addMachineToLB]; simp)

lemma noNB_c_reconcileDelete: "keeps (adds noNB) (c_reconcileDelete E)"
proof -
  have lb: "keeps (adds noNB) (deleteLoadBalancer E)"
    by (rule keepsI, rule wp_mono [OF wp_deleteLoadBalancer]) (simp add: lbRemoved_def lbStep_def)
  show ?thesis
    unfolding c_reconcileDelete_def DeleteClusterIPs_def lcRemoveFinalizer_def
    by (intro adds_rules lb keeps_case specStep_conditions [THEN specStep_noNB] specStep_noNB [OF specStep_calm [OF calm_ClusterScope_creds(2)]]; simp)
qed

lemma createsIf_c_apply: "createsIf needsNB (c_apply E T)"
proof -
  have create: "createsIf needsNB (do {
         lc \<leftarrow> csLC;
         if ep_Host (lcs_ControlPlaneEndpoint (lc_Spec lc)) = [] then do {
           r \<leftarrow> c_reconcileCreate E;
           case r of Inl err \<Rightarrow> requeueUnlessStale E T err | Inr _ \<Rightarrow> finishLB E
         }
         else finishLB E
       })"
  proof (rule createsIf_gets, rule wp_ifI)
    fix s assume "ep_Host (lcs_ControlPlaneEndpoint (lc_Spec (lcOf s))) = []"
    moreover have "createsIf wantsNB (do { r \<leftarrow> c_reconcileCreate E; case r of Inl err \<Rightarrow> requeueUnlessStale E T err | Inr _ \<Rightarrow> finishLB E })"
      by (intro createsIf_after createsIf_c_reconcileCreate keeps_case noNB_finishLB specStep_noNB [OF specStep_requeue])
    ultimately show "wp (do { r \<leftarrow> c_reconcileCreate E; case r of Inl err \<Rightarrow> requeueUnlessStale E T err | Inr _ \<Rightarrow> finishLB E })
       (\<lambda>_ t. countOf createsNB (tr t) \<le> of_bool (needsNB (lc_Spec (lcOf s))) + countOf createsNB (tr s)) s"
      by (simp add: createsIf_def needsNB_def)
  next
    fix s :: "ClusterScope world" assume "ep_Host (lcs_ControlPlaneEndpoint (lc_Spec (lcOf s))) \<noteq> []"
    then show "wp (finishLB E) (\<lambda>_ t. countOf createsNB (tr t) \<le> of_bool (needsNB (lc_Spec (lcOf s))) + countOf createsNB (tr s)) s"
      by (intro wp_mono [OF keeps_wp [OF noNB_finishLB]]) (simp add: countOf_adds)
  qed
  then show ?thesis
    unfolding c_apply_def
    by (intro createsIf_before [OF specStep_scope(1)] createsIf_before [OF specStep_preflight] createsIf_cases)
qed

lemma createsIf_c_reconcile: "createsIf needsNB (c_reconcile E T)"
proof -
  have "createsIf needsNB (c_reconcileBody E T)"
    unfolding c_reconcileBody_def Let_def
    by (intro createsIf_before [OF spst.keeps_bind [OF spst.keeps_get spst.keeps_return]] createsIf_before [OF specStep_perform]
        createsIf_before [OF specStep_modify] createsIf_before [OF specStep_scope(3)] createsIf_cases createsIf_c_apply
        createsIf_after [OF createsIf_none [OF noNB_c_reconcileDelete]] keeps_case adds.keeps_return specStep_noNB [OF specStep_requeue]; simp)
  then show ?thesis
    unfolding c_reconcile_def c_deferred_def
    by (intro createsIf_before [OF specStep_modify] createsIf_after adds_rules specStep_scope [THEN specStep_noNB]; simp)
qed


section \<open>Backend nodes\<close>

text \<open>The backend nodes that a history asks for, by NodeBalancer, configuration and address, and those it asks to delete.\<close>

fun nodeReqs :: "hist \<Rightarrow> (int \<times> int \<times> string) set" where
  "nodeReqs [] = {}"
| "nodeReqs (c # h) = (case c of NB (CCreateNodeBalancerNode nb cfg opts) \<Rightarrow> insert (nb, cfg, nno_Address opts) (nodeReqs h) | _ \<Rightarrow> nodeReqs h)"

fun nodeDels :: "hist \<Rightarrow> (int \<times> int \<times> int) set" where
  "nodeDels [] = {}"
| "nodeDels (c # h) = (case c of NB (CDeleteNodeBalancerNode nb cfg i) \<Rightarrow> insert (nb, cfg, i) (nodeDels h) | _ \<Rightarrow> nodeDels h)"

text \<open>\<open>nodePost A D s\<close>: the scope is the same and, on success, exactly the nodes \<open>A\<close> were asked for and \<open>D\<close> deleted.\<close>

definition nodePost :: "(int \<times> int \<times> string) set \<Rightarrow> (int \<times> int \<times> int) set \<Rightarrow> ClusterScope world \<Rightarrow> 'a res \<Rightarrow> ClusterScope world \<Rightarrow> bool" where
  "nodePost A D s r t = (obj t = obj s \<and> (case r of Inl _ \<Rightarrow> True
     | Inr _ \<Rightarrow> nodeReqs (tr t) = A \<union> nodeReqs (tr s) \<and> nodeDels (tr t) = D \<union> nodeDels (tr s)))"

lemma nodePost_simps [simp]:
  "nodePost A D s (Inl e) t = (obj t = obj s)"
  "nodePost A D s (Inr x) t = (obj t = obj s \<and> nodeReqs (tr t) = A \<union> nodeReqs (tr s) \<and> nodeDels (tr t) = D \<union> nodeDels (tr s))"
  by (simp_all add: nodePost_def)

lemma nodePost_forE:
  assumes "\<And>x t. x \<in> set xs \<Longrightarrow> obj t = obj s \<Longrightarrow> wp (f x) (nodePost (A x) (D x) t) t"
  shows "wp (forE xs f) (nodePost (\<Union>x\<in>set xs. A x) (\<Union>x\<in>set xs. D x) s) s"
  using assms
proof (induction xs arbitrary: s)
  case Nil
  then show ?case by (simp add: wp_return)
next
  case (Cons x xs)
  show ?case unfolding forE.simps
  proof (rule wp_seqE [OF Cons.prems [of x s]])
    fix u t assume t: "nodePost (A x) (D x) s (Inr u) t"
    then have "obj t = obj s" by simp
    then have "wp (forE xs f) (nodePost (\<Union>x\<in>set xs. A x) (\<Union>x\<in>set xs. D x) t) t"
      by (intro Cons.IH Cons.prems(1)) simp_all
    then show "wp (forE xs f) (nodePost (\<Union>x\<in>set (x # xs). A x) (\<Union>x\<in>set (x # xs). D x) s) t"
      by (rule wp_mono) (use t in \<open>auto simp: nodePost_def split: sum.splits\<close>)
  qed simp_all
qed

lemma nodePost_subnet: "wp (getSubnetID E) (nodePost {} {} s) s"
  by (auto simp: getSubnetID_def wp_rules nodePost_def split: option.splits sum.splits)

text \<open>
  The nodes that a cluster should have: one for each of its ports at the address of each machine. A machine is
  reached at its first internal address inside the VPC, when the cluster has its backends there and the machine has
  such an address, and at its first internal address in the private network of the data centre otherwise.
\<close>

definition internalIPs :: "bool \<Rightarrow> LinodeMachine \<Rightarrow> string list" where
  "internalIPs private m = map ma_Address (filter (\<lambda>a. ma_Type a = ''InternalIP'' \<and> IsLinodePrivateIP (ma_Address a) = private) (lms_Addresses (lm_Status m)))"

definition backendIP :: "LinodeCluster \<Rightarrow> LinodeMachine \<Rightarrow> string option" where
  "backendIP lc m = (case (if ShouldUseVPC lc then internalIPs False m else []) @ internalIPs True m of [] \<Rightarrow> None | ip # _ \<Rightarrow> Some ip)"

definition backendPorts :: "LinodeCluster \<Rightarrow> (int option \<times> int) set" where
  "backendPorts lc = insert (net_ApiserverNodeBalancerConfigID (netOf lc),
       if net_ApiserverLoadBalancerPort (netOf lc) = 0 then 6443 else net_ApiserverLoadBalancerPort (netOf lc))
     ((\<lambda>p. (nbp_NodeBalancerConfigID p, nbp_Port p)) ` set (net_AdditionalPorts (netOf lc)))"

definition wantedNodes :: "LinodeCluster \<Rightarrow> LinodeMachine list \<Rightarrow> (int \<times> string) set" where
  "wantedNodes lc ms = (\<Union>m\<in>set ms. case backendIP lc m of None \<Rightarrow> {}
     | Some ip \<Rightarrow> (\<lambda>p. (the (fst p), ip @ '':'' @ Itoa (snd p))) ` backendPorts lc)"

text \<open>The wanted nodes whose address is not listed, and the listed nodes whose address belongs to no wanted node.\<close>

definition missingNodes :: "LinodeCluster \<Rightarrow> LinodeMachine list \<Rightarrow> LNodeBalancerNode list \<Rightarrow> (int \<times> int \<times> string) set" where
  "missingNodes lc ms ns = Pair (the (net_NodeBalancerID (netOf lc))) ` {n \<in> wantedNodes lc ms. snd n \<notin> nbn_Address ` set ns}"

definition staleNodes :: "LinodeCluster \<Rightarrow> LinodeMachine list \<Rightarrow> LNodeBalancerNode list \<Rightarrow> (int \<times> int \<times> int) set" where
  "staleNodes lc ms ns = (\<lambda>n. (nbn_NodeBalancerID n, nbn_ConfigID n, nbn_ID n)) ` {n \<in> set ns. nbn_Address n \<notin> snd ` wantedNodes lc ms}"

lemma set_nbPorts: "set (nbPorts lc) = backendPorts lc"
  by (simp add: nbPorts_def backendPorts_def DetermineAPIServerLBPort_def DefaultApiserverLBPort_def)

lemma find_filter: "find P xs = (case filter P xs of [] \<Rightarrow> None | x # _ \<Rightarrow> Some x)"
  by (induction xs) auto

lemma backendIP_find:
  "backendIP lc m = map_option ma_Address
     (case (if ShouldUseVPC lc then find (\<lambda>a. isInternal a \<and> \<not> IsLinodePrivateIP (ma_Address a)) (lms_Addresses (lm_Status m)) else None) of
        Some a \<Rightarrow> Some a | None \<Rightarrow> find (\<lambda>a. isInternal a \<and> IsLinodePrivateIP (ma_Address a)) (lms_Addresses (lm_Status m)))"
  unfolding backendIP_def find_filter internalIPs_def isInternal_def MachineInternalIP_def by (auto split: list.split)

lemma wantedNodes_one: "backendIP lc m = Some ip \<Longrightarrow> wantedNodes lc [m] = (\<lambda>p. (the (fst p), ipPort ip (snd p))) ` backendPorts lc"
  by (simp add: wantedNodes_def ipPort_def)

lemma missingNodes_Un: "(\<Union>m\<in>set ms. missingNodes lc [m] ns) = missingNodes lc ms ns"
  by (auto simp: missingNodes_def wantedNodes_def)

lemma nodePost_process:
  assumes "backendIP (lcOf s) m = Some ip"
  shows "wp (processAndCreateNodeBalancerNodes E ip ns sub) (nodePost (missingNodes (lcOf s) [m] ns) {} s) s"
proof -
  let ?A = "\<lambda>p. if \<exists>n\<in>set ns. nbn_Address n = ipPort ip (snd p) then {}
     else {(the (net_NodeBalancerID (netOf (lcOf s))), the (fst p), ipPort ip (snd p))}"
  have "wp (forE (nbPorts (lcOf s)) (\<lambda>(configID, port).
       if \<exists>n\<in>set ns. nbn_Address n = ipPort ip port then ret (Inr ()) else createNBNode E (ipPort ip port) (the configID) sub))
     (nodePost (\<Union>x\<in>set (nbPorts (lcOf s)). ?A x) (\<Union>x\<in>set (nbPorts (lcOf s)). {}) s) s"
    by (rule nodePost_forE) (auto simp: wp_rules createNBNode_def split: option.splits prod.splits)
  moreover have "(\<Union>x\<in>set (nbPorts (lcOf s)). ?A x) = missingNodes (lcOf s) [m] ns"
    unfolding missingNodes_def wantedNodes_one [OF assms] set_nbPorts by (auto simp: image_iff split: if_splits) force+
  ultimately show ?thesis
    unfolding processAndCreateNodeBalancerNodes_def wp_gets Let_def by (intro wp_ifI) (simp_all add: wp_return)
qed

text \<open>No address is the empty string, which \<open>getIPPortCombo\<close> takes for no address.\<close>

definition addressesSet :: "LinodeMachine list \<Rightarrow> bool" where
  "addressesSet ms = (\<forall>m\<in>set ms. \<forall>a\<in>set (lms_Addresses (lm_Status m)). ma_Address a \<noteq> [])"

lemma selectIP_backend:
  assumes "addressesSet [m]"
  shows "selectIP (ShouldUseVPC lc) (lms_Addresses (lm_Status m)) = (case backendIP lc m of None \<Rightarrow> [] | Some ip \<Rightarrow> ip)" and "backendIP lc m \<noteq> Some []"
proof -
  have ne: "ma_Address a \<noteq> []" if "find P (lms_Addresses (lm_Status m)) = Some a" for P a
    using assms find_SomeD [OF that] by (auto simp: addressesSet_def)
  show "selectIP (ShouldUseVPC lc) (lms_Addresses (lm_Status m)) = (case backendIP lc m of None \<Rightarrow> [] | Some ip \<Rightarrow> ip)"
    unfolding backendIP_find selectIP_def findFirstVPCInternalIP_def findFirstPrivateInternalIP_def
    by (auto dest: ne simp: Let_def simp del: find_eq_None split: option.split)
  show "backendIP lc m \<noteq> Some []"
    unfolding backendIP_find by (auto dest: ne simp del: find_eq_None split: option.splits if_splits)
qed

text \<open>The clean-up keeps the addresses that the machines are added with.\<close>

lemma set_getIPPortCombo:
  assumes "addressesSet (cs_LinodeMachines s)"
  shows "set (getIPPortCombo s) = snd ` wantedNodes (cs_LinodeCluster s) (cs_LinodeMachines s)"
proof -
  let ?lc = "cs_LinodeCluster s"
  have ports: "set (buildPortCombosForIP ip (DetermineAPIServerLBPort ?lc) (net_AdditionalPorts (netOf ?lc))) = (\<lambda>p. ipPort ip (snd p)) ` backendPorts ?lc" for ip
    by (auto simp: buildPortCombosForIP_def backendPorts_def DetermineAPIServerLBPort_def DefaultApiserverLBPort_def image_image)
  have ms: "addressesSet [m]" if "m \<in> set (cs_LinodeMachines s)" for m using assms that by (simp add: addressesSet_def)
  have "set (getIPPortCombo s) = (\<Union>m\<in>set (cs_LinodeMachines s). case backendIP ?lc m of None \<Rightarrow> {} | Some ip \<Rightarrow> (\<lambda>p. ipPort ip (snd p)) ` backendPorts ?lc)"
    unfolding getIPPortCombo_def Let_def set_concat set_map image_image
    by (intro SUP_cong refl) (use selectIP_backend [OF ms] ports in \<open>auto split: option.splits\<close>)
  also have "\<dots> = snd ` wantedNodes ?lc (cs_LinodeMachines s)"
    unfolding wantedNodes_def image_UN ipPort_def by (intro SUP_cong refl) (auto simp: image_image split: option.split)
  finally show ?thesis .
qed

lemma nodePost_AddNodesToNB: "wp (AddNodesToNB E m ns) (nodePost (missingNodes (lcOf s) [m] ns) {} s) s"
proof -
  let ?as = "lms_Addresses (lm_Status m)" and ?A = "missingNodes (lcOf s) [m] ns"
  let ?vpc = "find (\<lambda>a. isInternal a \<and> \<not> IsLinodePrivateIP (ma_Address a)) ?as"
  let ?priv = "find (\<lambda>a. isInternal a \<and> IsLinodePrivateIP (ma_Address a)) ?as"
  have at: "wp (processAndCreateNodeBalancerNodes E ip ns sub) (nodePost ?A {} s) t"
    if "backendIP (lcOf s) m = Some ip" "obj t = obj s" "nodeReqs (tr t) = nodeReqs (tr s)" "nodeDels (tr t) = nodeDels (tr s)" for ip sub t
    by (rule wp_mono [OF nodePost_process]) (use that in \<open>auto simp: nodePost_def split: sum.splits\<close>)
  have byPriv: "wp (case ?priv of None \<Rightarrow> ret (Inl (ErrNew ''no private IP address''))
         | Some a \<Rightarrow> processAndCreateNodeBalancerNodes E (ma_Address a) ns 0) (nodePost ?A {} s) t"
    if t: "obj t = obj s" "nodeReqs (tr t) = nodeReqs (tr s)" "nodeDels (tr t) = nodeDels (tr s)" "\<not> ShouldUseVPC (lcOf s) \<or> ?vpc = None" for t
  proof (cases ?priv)
    case None
    show ?thesis unfolding None option.case using t by (simp add: wp_return)
  next
    case (Some a)
    show ?thesis unfolding Some option.case
      by (rule at) (use t Some in \<open>auto simp: backendIP_find simp del: find_eq_None\<close>)
  qed
  show ?thesis
    unfolding AddNodesToNB_def wp_gets Let_def
  proof (intro wp_ifI)
    show "wp (ret (Inl (ErrNew ''nil NodeBalancer Config ID''))) (nodePost ?A {} s) s" by (simp add: wp_return)
    show "wp (bindE (getSubnetID E) (\<lambda>subnetID. case ?vpc of Some a \<Rightarrow> processAndCreateNodeBalancerNodes E (ma_Address a) ns subnetID
         | None \<Rightarrow> case ?priv of None \<Rightarrow> ret (Inl (ErrNew ''no private IP address''))
             | Some a \<Rightarrow> processAndCreateNodeBalancerNodes E (ma_Address a) ns 0)) (nodePost ?A {} s) s"
      if use: "ShouldUseVPC (lcOf s)"
    proof (rule wp_seqE [OF nodePost_subnet])
      fix sub :: int and t assume t: "nodePost {} {} s (Inr sub) t"
      show "wp (case ?vpc of Some a \<Rightarrow> processAndCreateNodeBalancerNodes E (ma_Address a) ns sub
         | None \<Rightarrow> case ?priv of None \<Rightarrow> ret (Inl (ErrNew ''no private IP address''))
             | Some a \<Rightarrow> processAndCreateNodeBalancerNodes E (ma_Address a) ns 0) (nodePost ?A {} s) t"
      proof (cases ?vpc)
        case None
        show ?thesis unfolding None option.case by (rule byPriv [OF _ _ _ disjI2 [OF None]]) (use t in simp_all)
      next
        case (Some a)
        show ?thesis unfolding Some option.case by (rule at) (use t use Some in \<open>simp_all add: backendIP_find\<close>)
      qed
    qed simp
    show "wp (case ?priv of None \<Rightarrow> ret (Inl (ErrNew ''no private IP address''))
         | Some a \<Rightarrow> processAndCreateNodeBalancerNodes E (ma_Address a) ns 0) (nodePost ?A {} s) s" if "\<not> ShouldUseVPC (lcOf s)"
      by (rule byPriv) (simp_all add: that)
  qed
qed

lemma nodePost_syncNBNodes:
  assumes as: "addressesSet (cs_LinodeMachines (obj s))" and ns: "nbe_ListNodeBalancerNodes (nbe E) (tr s) nbID configID = Inr ns"
  shows "wp (syncNBNodes E nbID configID) (nodePost (missingNodes (lcOf s) (cs_LinodeMachines (obj s)) ns) (staleNodes (lcOf s) (cs_LinodeMachines (obj s)) ns) s) s"
proof -
  let ?ms = "cs_LinodeMachines (obj s)"
  let ?u = "s\<lparr>tr := NB (CListNodeBalancerNodes nbID configID) # tr s\<rparr>"
  have "wp (forE ?ms (\<lambda>m. AddNodesToNB E m ns)) (nodePost (\<Union>m\<in>set ?ms. missingNodes (lcOf s) [m] ns) (\<Union>m\<in>set ?ms. {}) ?u) ?u"
  proof (rule nodePost_forE)
    fix m and t :: "ClusterScope world" assume t: "obj t = obj ?u"
    show "wp (AddNodesToNB E m ns) (nodePost (missingNodes (lcOf s) [m] ns) {} t) t" using nodePost_AddNodesToNB [of E m ns t] t by simp
  qed
  note add = this [unfolded missingNodes_Un]
  have "wp (forE ns (\<lambda>node. if nbn_Address node \<notin> set (getIPPortCombo (obj s)) then deleteStaleNode E node else ret (Inr ())))
     (nodePost (\<Union>n\<in>set ns. {}) (\<Union>n\<in>set ns. if nbn_Address n \<notin> set (getIPPortCombo (obj s)) then {(nbn_NodeBalancerID n, nbn_ConfigID n, nbn_ID n)} else {}) t) t" for t
    by (rule nodePost_forE) (auto simp: deleteStaleNode_def optE_def wp_rules split: option.splits)
  moreover have "(\<Union>n\<in>set ns. if nbn_Address n \<notin> set (getIPPortCombo (obj s)) then {(nbn_NodeBalancerID n, nbn_ConfigID n, nbn_ID n)} else {})
      = staleNodes (lcOf s) ?ms ns"
    unfolding staleNodes_def set_getIPPortCombo [OF as] by (auto split: if_splits)
  ultimately have del: "wp (forE ns (\<lambda>node. if nbn_Address node \<notin> set (getIPPortCombo (obj s)) then deleteStaleNode E node else ret (Inr ())))
     (nodePost {} (staleNodes (lcOf s) ?ms ns) t) t" for t
    by simp
  show ?thesis
    unfolding syncNBNodes_def
  proof (rule wp_seqE [where P = "\<lambda>r t. r = Inr ns \<and> t = ?u"])
    show "wp (perform (NB (CListNodeBalancerNodes nbID configID)) (\<lambda>h. nbe_ListNodeBalancerNodes (nbe E) h nbID configID))
       (\<lambda>r t. r = Inr ns \<and> t = ?u) s" by (simp add: wp_perform ns)
  qed (auto intro!: wp_seqE [OF add] wp_mono [OF del] simp: wp_bind wp_get nodePost_def split: sum.splits if_splits)
qed


section \<open>The properties\<close>


text \<open>
A reconciliation of a cluster asks for at most one new NodeBalancer, and for none when the
cluster has an endpoint, uses DNS or has the ID of a NodeBalancer already.
\<close>

theorem nb_created_once:
  "wp (c_reconcile E timeout) (\<lambda>_ t. countOf createsNB (tr t) \<le> of_bool (needsNB (lc_Spec (lcOf s))) + countOf createsNB (tr s)) s"
  using createsIf_c_reconcile by (simp add: createsIf_def)

text \<open>
C10: synchronising the backend nodes of the NodeBalancer, when it succeeds, asks for exactly the wanted nodes
whose address is not among the listed ones, and deletes exactly the listed nodes whose address is that of no
wanted node. A node is wanted for each port of the cluster, in the configuration of that port, and each machine,
at its first internal VPC address when the backends are in the VPC and at its first private address otherwise.
The listing shows the nodes of the API server's configuration only, so a node of an additional port counts as
missing in every call.
\<close>

theorem nb_nodes_follow_machines:
  assumes "addressesSet (cs_LinodeMachines (obj s))" and "nbe_ListNodeBalancerNodes (nbe E) (tr s) nbID configID = Inr ns"
  shows "wp (syncNBNodes E nbID configID)
     (nodePost (missingNodes (lcOf s) (cs_LinodeMachines (obj s)) ns) (staleNodes (lcOf s) (cs_LinodeMachines (obj s)) ns) s) s"
  using assms by (rule nodePost_syncNBNodes)

definition lm2 :: LinodeMachine where
  "lm2 = lm_Status_update (lms_Addresses_update (\<lambda>_. [\<lparr>ma_Type = ''ExternalIP'', ma_Address = ''203.0.113.5''\<rparr>,
     \<lparr>ma_Type = ''InternalIP'', ma_Address = ''192.168.130.5''\<rparr>])) lm1"

definition cscope1 :: ClusterScope where
  "cscope1 = \<lparr>cs_Cluster = cl1,
     cs_LinodeCluster = lc_Spec_update (lcs_Network_update (\<lambda>_. net1\<lparr>net_LoadBalancerType := ''NodeBalancer'', net_NodeBalancerID := Some 7,
       net_ApiserverNodeBalancerConfigID := Some 8, net_AdditionalPorts := [\<lparr>nbp_Port = 9000, nbp_NodeBalancerConfigID = Some 9\<rparr>]\<rparr>)) lc1,
     cs_LinodeMachines = [lm2]\<rparr>"

lemmas cscope1_defs = cscope1_def lm2_def lm1_def lc1_def net1_def cl1_def

definition nodeAt :: "int \<Rightarrow> int \<Rightarrow> string \<Rightarrow> LNodeBalancerNode" where
  "nodeAt i cfg a = \<lparr>nbn_ID = i, nbn_Address = a, nbn_ConfigID = cfg, nbn_NodeBalancerID = 7\<rparr>"

definition envNodes :: env where
  "envNodes = env0\<lparr>nbe := nbe0\<lparr>nbe_ListNodeBalancerNodes :=
     (\<lambda>_ _ cfg. Inr (if cfg = 8 then [nodeAt 1 8 ''192.168.130.5:6443'', nodeAt 3 8 ''192.168.130.9:6443''] else [nodeAt 2 9 ''192.168.130.5:9000'']))\<rparr>\<rparr>"

lemma address_facts:
  "IsLinodePrivateIP ''192.168.130.5''" "ipPort ''192.168.130.5'' 6443 = ''192.168.130.5:6443''" "ipPort ''192.168.130.5'' 9000 = ''192.168.130.5:9000''"
  by (simp_all add: IsLinodePrivateIP_def ParseIP_def netip_ParseAddr_def parseIPv4_def parseIPv4Field_def readNat_def digitVal_def isDigit_def
      IPNet_Contains_def To4_def v4InV6Prefix_def bytesVal_def drop_bit_eq_div ipPort_def Itoa_def showNat.simps char_of_def bit_0)

text \<open>The configuration of the API server has a node of the machine and one of a machine that is gone.\<close>

lemma cscope1_nodes:
  "missingNodes (cs_LinodeCluster cscope1) [lm2] [nodeAt 1 8 ''192.168.130.5:6443'', nodeAt 3 8 ''192.168.130.9:6443''] = {(7, 9, ''192.168.130.5:9000'')}"
  "staleNodes (cs_LinodeCluster cscope1) [lm2] [nodeAt 1 8 ''192.168.130.5:6443'', nodeAt 3 8 ''192.168.130.9:6443''] = {(7, 8, 3)}"
proof -
  have ip: "backendIP (cs_LinodeCluster cscope1) lm2 = Some ''192.168.130.5''"
    by (simp add: backendIP_def internalIPs_def ShouldUseVPC_def cscope1_defs address_facts)
  have wanted: "wantedNodes (cs_LinodeCluster cscope1) [lm2] = {(8, ''192.168.130.5:6443''), (9, ''192.168.130.5:9000'')}"
    unfolding wantedNodes_one [OF ip] by (simp add: backendPorts_def cscope1_defs address_facts)
  have filt: "{n \<in> insert a A. P n} = (if P a then insert a {n \<in> A. P n} else {n \<in> A. P n})" for a A and P :: "'a \<Rightarrow> bool" by auto
  have nb: "net_NodeBalancerID (netOf (cs_LinodeCluster cscope1)) = Some 7" by (simp add: cscope1_defs)
  show "missingNodes (cs_LinodeCluster cscope1) [lm2] [nodeAt 1 8 ''192.168.130.5:6443'', nodeAt 3 8 ''192.168.130.9:6443''] = {(7, 9, ''192.168.130.5:9000'')}"
    unfolding missingNodes_def wanted nb filt by (simp add: nodeAt_def)
  show "staleNodes (cs_LinodeCluster cscope1) [lm2] [nodeAt 1 8 ''192.168.130.5:6443'', nodeAt 3 8 ''192.168.130.9:6443''] = {(7, 8, 3)}"
    unfolding staleNodes_def wanted list.set filt by (simp add: nodeAt_def)
qed

theorem nb_nodes_follow_machines_witness:
  "wp (syncNBNodes envNodes 7 8) (nodePost {(7, 9, ''192.168.130.5:9000'')} {(7, 8, 3)} (start cscope1)) (start cscope1)"
proof -
  have scope: "cs_LinodeMachines (obj (start cscope1)) = [lm2]" "lcOf (start cscope1) = cs_LinodeCluster cscope1" by (simp_all add: cscope1_def)
  have "addressesSet [lm2]" by (simp add: addressesSet_def lm2_def)
  moreover have "nbe_ListNodeBalancerNodes (nbe envNodes) h 7 8 = Inr [nodeAt 1 8 ''192.168.130.5:6443'', nodeAt 3 8 ''192.168.130.9:6443'']" for h
    by (simp add: envNodes_def env0_defs)
  ultimately show ?thesis
    using nb_nodes_follow_machines [of "start cscope1" envNodes 7 8 "[nodeAt 1 8 ''192.168.130.5:6443'', nodeAt 3 8 ''192.168.130.9:6443'']", unfolded scope] by (simp only: cscope1_nodes)
qed

text \<open>
The nodes of an additional port are asked for again by every reconciliation, although they are
there: only the nodes of the API server's configuration are listed.
\<close>

theorem nb_nodes_requested_again:
  "wp (syncNBNodes envNodes 7 8) (\<lambda>r t. r = Inr () \<and> (7, 9, ''192.168.130.5:9000'') \<in> nodeReqs (tr t)) (start cscope1)"
  by (simp add: syncNBNodes_def AddNodesToNB_def processAndCreateNodeBalancerNodes_def createNBNode_def deleteStaleNode_def getIPPortCombo_def
      selectIP_def findFirstPrivateInternalIP_def buildPortCombosForIP_def nbPorts_def DetermineAPIServerLBPort_def DefaultApiserverLBPort_def
      ShouldUseVPC_def isInternal_def MachineInternalIP_def address_facts envNodes_def nodeAt_def cscope1_defs env0_defs wp_rules)


definition envConfigFails :: env where
  "envConfigFails = env0\<lparr>nbe := nbe0\<lparr>nbe_CreateNodeBalancerConfig :=
     (\<lambda>_ _ opts. if nco_Port opts = 6443 then Inr \<lparr>ncf_ID = 8, ncf_Port = 6443\<rparr> else Inl (ErrExt 500 ''fail'' None))\<rparr>\<rparr>"

definition cscope2 :: ClusterScope where
  "cscope2 = cscope1\<lparr>cs_LinodeCluster := lc_Spec_update (lcs_Network_update (\<lambda>_. net1\<lparr>net_AdditionalPorts := [\<lparr>nbp_Port = 9000, nbp_NodeBalancerConfigID = None\<rparr>]\<rparr>)) lc1\<rparr>"

definition isApiConfig :: "call \<Rightarrow> bool" where
  "isApiConfig c = (case c of NB (CCreateNodeBalancerConfig i opts) \<Rightarrow> i = 1 \<and> nco_Port opts = 6443 | _ \<Rightarrow> False)"

text \<open>
A configuration that cannot be created for an additional port loses the one just created for the API
server: its ID is not stored, and the next attempt asks for it again.
\<close>

theorem nb_config_lost:
  "wp (do { _ \<leftarrow> handleNBCreate envConfigFails; handleNBCreate envConfigFails }) (\<lambda>r t. r = Inl (ErrExt 500 ''fail'' None)
     \<and> countOf isApiConfig (tr t) = 2 \<and> net_ApiserverNodeBalancerConfigID (netOf (lcOf t)) = None) (start cscope2)"
  by (simp add: handleNBCreate_def EnsureNodeBalancer_def EnsureNodeBalancerConfigs_def nbVPCs_def nbFirewallID_def createNBConfig_def nbConfigOptions_def
      ShouldUseVPC_def DetermineAPIServerLBPort_def DefaultApiserverLBPort_def isApiConfig_def countOf_def envConfigFails_def cscope2_def cscope1_defs
      env0_defs wp_rules)

definition deletesByInstance :: "LinodeMachine list \<Rightarrow> call \<Rightarrow> bool" where
  "deletesByInstance ms c = (case c of
     NB (CDeleteNodeBalancerNode _ _ i) \<Rightarrow> i \<in> fst ` GetInstanceID ` lms_ProviderID ` lm_Spec ` set ms | _ \<Rightarrow> False)"

text \<open>
The backend nodes of a deleted cluster are addressed by the IDs of the instances: every request of
\<open>DeleteNodesFromNB\<close> names the instance ID of a machine where the service expects the ID of a node.
\<close>

theorem nb_delete_by_instance_id:
  "wp (DeleteNodesFromNB E) (\<lambda>_ t. adds (deletesByInstance (cs_LinodeMachines (obj s))) s t) s"
proof -
  let ?P = "deletesByInstance (cs_LinodeMachines (obj s))"
  have P: "?P (NB (CDeleteNodeBalancerNode i j k))"
    if "m \<in> set (cs_LinodeMachines (obj s))" "GetInstanceID (lms_ProviderID (lm_Spec m)) = (k, None)" for i j k m
    using that by (simp add: deletesByInstance_def) (metis fst_conv image_eqI)
  have "keeps (adds ?P) (forE (cs_LinodeMachines (obj s)) (\<lambda>m. case GetInstanceID (lms_ProviderID (lm_Spec m)) of
         (_, Some _) \<Rightarrow> ret (Inr ())
       | (instanceID, None) \<Rightarrow> forE cfgs (\<lambda>configID. deleteNBNode E nb configID instanceID)))" for cfgs nb
    by (intro adds_rules; auto split: prod.splits option.splits simp: deleteNBNode_def intro: P intro!: adds_rules)
  note loop = this
  show ?thesis
    unfolding DeleteNodesFromNB_def wp_gets Let_def by (rule wp_ifI, simp add: wp_return adds.refl, rule keeps_wp [OF loop])
qed

text \<open>
C11: when no step fails, the DNS entries of a cluster are the external addresses of the machines whose
owner is not being deleted, oldest first, followed by the text record of the owner; every such machine
but the oldest is ready.
\<close>

theorem dns_entries_follow_machines:
  assumes "stableMachines E owner kcp"
  shows "wp (getDNSEntriesToEnsure E) (\<lambda>(opts, err) t. case err of Some _ \<Rightarrow> True | None \<Rightarrow>
     opts = concat (map (machineEntries (lcOf s)) (filter (ownerLive owner) (sort_key (\<lambda>m. om_CreationTimestamp (lm_Meta m)) (cs_LinodeMachines (obj s)))))
       @ [ownerEntry (lcOf s)]
     \<and> allReady E owner kcp True (sort_key (\<lambda>m. om_CreationTimestamp (lm_Meta m)) (cs_LinodeMachines (obj s)))) s"
  using assms by (rule wp_getDNSEntriesToEnsure)

definition envOwner :: env where
  "envOwner = env0\<lparr>k8s := k8s0\<lparr>k_GetOwnerMachine := (\<lambda>_ _. Inr (Some mc1))\<rparr>\<rparr>"

theorem dns_entries_follow_machines_witness:
  "wp (getDNSEntriesToEnsure envOwner) (\<lambda>(opts, err) t. case err of Some _ \<Rightarrow> True | None \<Rightarrow>
     opts = concat (map (machineEntries (cs_LinodeCluster cscope1)) (filter (ownerLive (\<lambda>_. Inr (Some mc1))) (sort_key (\<lambda>m. om_CreationTimestamp (lm_Meta m)) [lm2])))
       @ [ownerEntry (cs_LinodeCluster cscope1)]
     \<and> allReady envOwner (\<lambda>_. Inr (Some mc1)) (\<lambda>_. Inl errNotFound) True (sort_key (\<lambda>m. om_CreationTimestamp (lm_Meta m)) [lm2])) (start cscope1)"
proof -
  have "stableMachines envOwner (\<lambda>_. Inr (Some mc1)) (\<lambda>_. Inl errNotFound)" by (simp add: stableMachines_def envOwner_def env0_defs)
  moreover have "cs_LinodeMachines (obj (start cscope1)) = [lm2]" by (simp add: cscope1_def)
  ultimately show ?thesis
    using dns_entries_follow_machines [of envOwner "\<lambda>_. Inr (Some mc1)" "\<lambda>_. Inl errNotFound" "start cscope1"] by (simp only: start_simps)
qed


text \<open>A domain with one stale record and without the entry.\<close>

definition envStaleRecord :: env where
  "envStaleRecord = env0\<lparr>dne := dne0\<lparr>dne_ListDomains := (\<lambda>_ _. Inr [\<lparr>ldm_ID = 3, ldm_Domain = net_DNSRootDomain (netOf (cs_LinodeCluster cscope1))\<rparr>]),
     dne_ListDomainRecords := (\<lambda>_ _ f. Inr (if f = hostFilter (cs_LinodeCluster cscope1) then [\<lparr>ldr_ID = 5, ldr_Type = ''A'', ldr_Target = ''192.0.2.1''\<rparr>] else [])),
     dne_DeleteDomainRecord := (\<lambda>_ _ _. None), dne_CreateDomainRecord := (\<lambda>_ _ _. None)\<rparr>\<rparr>"


text \<open>
\<open>removeElement\<close> removes a target from a list without repetitions, and never panics on one.
\<close>

theorem removeElement_distinct:
  assumes "distinct xs" and "x \<noteq> ''''"
  shows "removeElement xs x = Some (filter (\<lambda>y. y \<noteq> x) xs)"
  using assms by (simp add: removeElement_skipping removeSkipping_distinct)

theorem removeElement_distinct_witness:
  "removeElement [''a'', ''b'', ''c''] ''b'' = Some (filter (\<lambda>y. y \<noteq> ''b'') [''a'', ''b'', ''c''])"
  by (rule removeElement_distinct) simp_all

text \<open>
Of two equal neighbours it removes only the first.
\<close>

theorem removeElement_neighbours: "x \<noteq> '''' \<Longrightarrow> removeElement [x, x] x = Some [x]"
  by (simp add: removeElement_skipping)

definition envForeign :: env where
  "envForeign = env0\<lparr>dne := dne0\<lparr>dne_ListDomainRecords := (\<lambda>_ _ _. Inr [\<lparr>ldr_ID = 5, ldr_Type = ''TXT'', ldr_Target = ''other''\<rparr>])\<rparr>\<rparr>"

text \<open>
An address record is deleted although the text record beside it names another cluster: the owner
is not compared.
\<close>

theorem dns_owner_not_compared:
  "wp (DeleteDomainRecord envForeign 3 \<lparr>dns_Hostname = ''c'', dns_Target = ''203.0.113.5'', dns_RecordType = ''A'', dns_TTLSec = 30\<rparr>)
     (\<lambda>r t. r = Inr () \<and> DNS (CDeleteDomainRecord 3 5) \<in> set (tr t)) (start cscope1)"
  by (simp add: DeleteDomainRecord_def IsLinodeDomainRecordOwner_def listDomainRecords_def deleteDomainRecordCall_def envForeign_def env0_defs wp_rules)

text \<open>
A failed creation of the load balancer is never reported while the cluster has no \<open>Ready\<close> condition,
which \<open>handleNBCreate\<close> does not set: it is tried again after 3 s to 4.2 s, however long it has been failing.
\<close>

theorem cluster_create_error_hidden:
  assumes "LinodeCluster_GetCondition ReadyCondition (lcOf s) = None" and "err \<noteq> ErrSentinel ErrPanic"
  shows "wp (requeueUnlessStale E timeout err) (\<lambda>(res, e) _. e = None \<and> 3 * second \<le> RequeueAfter res \<and> 10 * RequeueAfter res \<le> 42 * second) s"
  using jitter_bounds [of "3 * second" "rt_Rand (rt E) (tr s)"] assms
  by (auto simp: requeueUnlessStale_def wp_rules DefaultClusterControllerReconcileDelay_def maxJitter_def second_def)

theorem cluster_create_error_hidden_witness:
  "wp (requeueUnlessStale env0 0 errNotFound) (\<lambda>(res, e) _. e = None \<and> 3 * second \<le> RequeueAfter res \<and> 10 * RequeueAfter res \<le> 42 * second) (start cscope1)"
  by (rule cluster_create_error_hidden) (simp_all add: LinodeCluster_GetCondition_def lookupCond_def cscope1_defs errNotFound_def)

end
