(* ===== verification/ObjectStorage.thy ===== *)
theory ObjectStorage
  imports Reconcile
begin

text \<open>
  The scopes \<open>cloud/scope/object_storage_bucket.go\<close> and \<open>object_storage_key.go\<close>, and the services
  \<open>cloud/services/object_storage_buckets.go\<close>, \<open>object_storage_keys.go\<close> and the part of
  \<open>object_storage_objects.go\<close> that empties a bucket. The paginators, the template engine and the AWS
  client are third-party code, answered by the environment.
\<close>

section \<open>ObjectStorageBucketScope\<close>

record ObjectStorageBucketScope =
  bs_Bucket :: LinodeObjectStorageBucket

abbreviation modBucket :: "(LinodeObjectStorageBucket \<Rightarrow> LinodeObjectStorageBucket) \<Rightarrow> (ObjectStorageBucketScope, unit) op" where
  "modBucket f \<equiv> modObj (bs_Bucket_update f)"

abbreviation getBucket :: "(ObjectStorageBucketScope, LinodeObjectStorageBucket) op" where
  "getBucket \<equiv> gets (\<lambda>w. bs_Bucket (obj w))"

text \<open>The logger is always given.\<close>

definition validateObjectStorageBucketScopeParams :: "LinodeObjectStorageBucket option \<Rightarrow> error option" where
  "validateObjectStorageBucketScopeParams b =
     (if b = None then Some (ErrNew ''object storage bucket is required when creating an ObjectStorageBucketScope'') else None)"

definition NewObjectStorageBucketScope :: "env \<Rightarrow> LinodeObjectStorageBucket option \<Rightarrow> ('o, ObjectStorageBucketScope res) op" where
  "NewObjectStorageBucketScope E b =
     (case validateObjectStorageBucketScopeParams b of
        Some err \<Rightarrow> ret (Inl err)
      | None \<Rightarrow>
          bindE (case bk_CredentialsRef (lobj_Spec (the b)) of
                   None \<Rightarrow> ret (Inr [])
                 | Some ref \<Rightarrow> setTokenFromRef E ref (om_Namespace (lobj_Meta (the b)))) (\<lambda>_. do {
            err \<leftarrow> newScopeClients E (OBucket (the b));
            ret (case err of Some e \<Rightarrow> Inl e | None \<Rightarrow> Inr \<lparr>bs_Bucket = the b\<rparr>)
          }))"

definition BucketScope_Close :: "env \<Rightarrow> (ObjectStorageBucketScope, error option) op" where
  "BucketScope_Close E = do {
     b \<leftarrow> getBucket;
     perform (K8s (KPatch (OBucket b))) (\<lambda>h. k_Patch (k8s E) h (OBucket b))
   }"

definition BucketScope_AddFinalizer :: "env \<Rightarrow> (ObjectStorageBucketScope, error option) op" where
  "BucketScope_AddFinalizer E = do {
     b \<leftarrow> getBucket;
     let (fs, updated) = lib_AddFinalizer (lib E) (om_Finalizers (lobj_Meta b)) BucketFinalizer;
     _ \<leftarrow> modBucket (lobj_Meta_update (om_Finalizers_update (\<lambda>_. fs)));
     if updated then BucketScope_Close E else ret None
   }"

definition getAccessKey :: "env \<Rightarrow> (ObjectStorageBucketScope, (ObjectReference \<times> LinodeObjectStorageKey) res) op" where
  "getAccessKey E = do {
     b \<leftarrow> getBucket;
     case bk_AccessKeyRef (lobj_Spec b) of
       None \<Rightarrow> ret (Inl (ErrNew (''accessKeyRef is nil for bucket '' @ om_Name (lobj_Meta b))))
     | Some ref \<Rightarrow> do {
         let key = \<lparr>nn_Namespace = (if obr_Namespace ref = [] then om_Namespace (lobj_Meta b) else obr_Namespace ref), nn_Name = obr_Name ref\<rparr>;
         bindE (wrapE (''get linodeobjectstoragekey '' @ obr_Name ref @ '': '') (perform (K8s (KGet KKey key)) (\<lambda>h. k_GetKey (k8s E) h key)))
           (\<lambda>k. ret (Inr (ref, k)))
       }
   }"

definition updateKeyFinalizers :: "env \<Rightarrow> string \<Rightarrow> (string list \<Rightarrow> string list) \<Rightarrow> (ObjectStorageBucketScope, error option) op" where
  "updateKeyFinalizers E verb f = do {
     r \<leftarrow> getAccessKey E;
     case r of
       Inl err \<Rightarrow> ret (Some err)
     | Inr (ref, k) \<Rightarrow> do {
         let k' = lok_Meta_update (om_Finalizers_update f) k;
         u \<leftarrow> perform (K8s (KUpdate (OKey k'))) (\<lambda>h. k_Update (k8s E) h (OKey k'));
         ret (case u of Inl err \<Rightarrow> Some (ErrWrap (verb @ '' linodeobjectstoragekey finalizer '' @ obr_Namespace ref @ ''/'' @ obr_Name ref @ '': '') err)
                      | Inr _ \<Rightarrow> None)
       }
   }"

definition AddAccessKeyRefFinalizer :: "env \<Rightarrow> string \<Rightarrow> (ObjectStorageBucketScope, error option) op" where
  "AddAccessKeyRefFinalizer E finalizer = updateKeyFinalizers E ''add'' (\<lambda>fs. fst (lib_AddFinalizer (lib E) fs finalizer))"

definition RemoveAccessKeyRefFinalizer :: "env \<Rightarrow> string \<Rightarrow> (ObjectStorageBucketScope, error option) op" where
  "RemoveAccessKeyRefFinalizer E finalizer = updateKeyFinalizers E ''remove'' (\<lambda>fs. lib_RemoveFinalizer (lib E) fs finalizer)"


section \<open>ObjectStorageKeyScope\<close>

record ObjectStorageKeyScope =
  ks_Key :: LinodeObjectStorageKey

abbreviation modKey :: "(LinodeObjectStorageKey \<Rightarrow> LinodeObjectStorageKey) \<Rightarrow> (ObjectStorageKeyScope, unit) op" where
  "modKey f \<equiv> modObj (ks_Key_update f)"

abbreviation getKey :: "(ObjectStorageKeyScope, LinodeObjectStorageKey) op" where
  "getKey \<equiv> gets (\<lambda>w. ks_Key (obj w))"

definition validateObjectStorageKeyScopeParams :: "LinodeObjectStorageKey option \<Rightarrow> error option" where
  "validateObjectStorageKeyScopeParams k =
     (if k = None then Some (ErrNew ''object storage key is required when creating an ObjectStorageKeyScope'') else None)"

definition NewObjectStorageKeyScope :: "env \<Rightarrow> LinodeObjectStorageKey option \<Rightarrow> ('o, ObjectStorageKeyScope res) op" where
  "NewObjectStorageKeyScope E k =
     (case validateObjectStorageKeyScopeParams k of
        Some err \<Rightarrow> ret (Inl err)
      | None \<Rightarrow> do {
          err \<leftarrow> newScopeClients E (OKey (the k));
          ret (case err of Some e \<Rightarrow> Inl e | None \<Rightarrow> Inr \<lparr>ks_Key = the k\<rparr>)
        })"

definition KeyScope_Close :: "env \<Rightarrow> (ObjectStorageKeyScope, error option) op" where
  "KeyScope_Close E = do {
     k \<leftarrow> getKey;
     perform (K8s (KPatch (OKey k))) (\<lambda>h. k_Patch (k8s E) h (OKey k))
   }"

definition KeyScope_AddFinalizer :: "env \<Rightarrow> (ObjectStorageKeyScope, error option) op" where
  "KeyScope_AddFinalizer E = do {
     k \<leftarrow> getKey;
     let (fs, updated) = lib_AddFinalizer (lib E) (om_Finalizers (lok_Meta k)) ObjectStorageKeyFinalizer;
     _ \<leftarrow> modKey (lok_Meta_update (om_Finalizers_update (\<lambda>_. fs)));
     if updated then KeyScope_Close E else ret None
   }"

definition ClusterResourceSetSecretType :: string where
  "ClusterResourceSetSecretType = ''addons.cluster.x-k8s.io/resource-set''"

text \<open>
  The values for the templates. \<open>bucket.Label\<close> is a panic when the client returns neither a bucket nor an
  error.
\<close>

definition bucketTemplateData :: "env \<Rightarrow> LinodeObjectStorageKeySpec \<Rightarrow> ('o, (string \<rightharpoonup> string) res) op" where
  "bucketTemplateData E spec =
     (case ky_BucketAccess spec of
        [] \<Rightarrow> ret (Inl (ErrNew (''unable to generate '' @ ClusterResourceSetSecretType @ ''; spec.bucketAccess must not be empty'')))
      | bucketRef # _ \<Rightarrow> do {
          (bucket, err) \<leftarrow> perform (OBJ (CGetObjectStorageBucket (ba_Region bucketRef) (ba_BucketName bucketRef)))
            (\<lambda>h. obe_GetBucket (obe E) h (ba_Region bucketRef) (ba_BucketName bucketRef));
          ret (case err of
                 Some e \<Rightarrow> Inl (ErrWrap (''unable to generate '' @ ClusterResourceSetSecretType @ ''; failed to get bucket: '') e)
               | None \<Rightarrow> (case bucket of
                   None \<Rightarrow> Inl (ErrSentinel ErrPanic)
                 | Some b \<Rightarrow> Inr [''BucketName'' \<mapsto> lbk_Label b, ''BucketEndpoint'' \<mapsto> lbk_Hostname b,
                     ''S3Endpoint'' \<mapsto> ''https://'' @ TrimPrefix (lbk_Hostname b) (lbk_Label b @ ''.'')]))
        })"

definition fillTemplate :: "env \<Rightarrow> (string \<rightharpoonup> string) \<Rightarrow> string \<times> string \<Rightarrow> (string \<rightharpoonup> string) \<Rightarrow> ('o, (string \<rightharpoonup> string) res) op" where
  "fillTemplate E tmplData kt acc = ret (case kt of (key, tmpl) \<Rightarrow>
     (case lib_TemplateParse (lib E) tmpl of
        Some err \<Rightarrow> Inl (ErrWrap (''unable to generate secret; failed to parse template in secret data format for key '' @ key @ '': '') err)
      | None \<Rightarrow> (case lib_TemplateExecute (lib E) tmpl tmplData of
          Inl err \<Rightarrow> Inl (ErrWrap (''unable to generate secret; failed to exec template in secret data format for key '' @ key @ '': '') err)
        | Inr output \<Rightarrow> Inr (acc(key \<mapsto> output)))))"

text \<open>The strings of the secret are its data; its owner references are those the library sets.\<close>

definition GenerateKeySecret :: "env \<Rightarrow> LObjectStorageKey option \<Rightarrow> (ObjectStorageKeyScope, Secret res) op" where
  "GenerateKeySecret E key =
     (case key of
        None \<Rightarrow> ret (Inl (ErrNew ''expected non-nil object storage key''))
      | Some lk \<Rightarrow> do {
          k \<leftarrow> getKey;
          let gs = ky_GeneratedSecret (lok_Spec k);
          let access = [''AccessKey'' \<mapsto> lky_AccessKey lk, ''SecretKey'' \<mapsto> lky_SecretKey lk];
          bindE (if gs_Format gs = [] then ret (Inr Map.empty) else bucketTemplateData E (lok_Spec k)) (\<lambda>more. do {
            format \<leftarrow> mapKeys E (gs_Format gs);
            let first = (if gs_Format gs = [] then [''access'' \<mapsto> lky_AccessKey lk, ''secret'' \<mapsto> lky_SecretKey lk] else Map.empty);
            bindE (foldE (fillTemplate E (access ++ more)) format first) (\<lambda>secretStringData. do {
              let om = meta0\<lparr>om_Name := gs_Name gs, om_Namespace := gs_Namespace gs\<rparr>;
              let secret = \<lparr>sec_Meta = om, sec_Type = gs_Type gs, sec_Data = secretStringData\<rparr>;
              ret (if gs_Namespace gs = om_Namespace (lok_Meta k) then
                     (case lib_SetKeyControllerReference (lib E) k om of
                        Inl err \<Rightarrow> Inl (ErrWrap (''could not set controller ref on access key secret '' @ gs_Name gs @ ''/'' @ gs_Namespace gs @ '': '') err)
                      | Inr refs \<Rightarrow> Inr (secret\<lparr>sec_Meta := om\<lparr>om_OwnerReferences := refs\<rparr>\<rparr>))
                   else Inr secret)
            })
          })
        })"

definition ShouldInitKey :: "LinodeObjectStorageKey \<Rightarrow> bool" where
  "ShouldInitKey k = (ky_LastKeyGeneration (lok_Status k) = None)"

text \<open>\<open>*Spec.KeyGeneration\<close> is a panic when it is nil and a generation is recorded.\<close>

definition ShouldRotateKey :: "LinodeObjectStorageKey \<Rightarrow> bool res" where
  "ShouldRotateKey k =
     (case ky_LastKeyGeneration (lok_Status k) of
        None \<Rightarrow> Inr False
      | Some l \<Rightarrow> (case ky_KeyGeneration (lok_Spec k) of None \<Rightarrow> Inl (ErrSentinel ErrPanic) | Some g \<Rightarrow> Inr (g \<noteq> l)))"

definition KeyScope_SetCredentialRefToken :: "env \<Rightarrow> (ObjectStorageKeyScope, error option) op" where
  "KeyScope_SetCredentialRefToken E = do {
     k \<leftarrow> getKey;
     case ky_CredentialsRef (lok_Spec k) of
       None \<Rightarrow> ret None
     | Some ref \<Rightarrow> do { r \<leftarrow> setTokenFromRef E ref (om_Namespace (lok_Meta k)); ret (errOf r) }
   }"


section \<open>Access keys\<close>

definition keyCreateOptions :: "LinodeObjectStorageKey \<Rightarrow> LKeyCreateOptions" where
  "keyCreateOptions k = \<lparr>lko_Label = om_Name (lok_Meta k),
     lko_BucketAccess = map (\<lambda>b. \<lparr>lka_Region = ba_Region b, lka_BucketName = ba_BucketName b, lka_Permissions = ba_Permissions b\<rparr>)
       (ky_BucketAccess (lok_Spec k))\<rparr>"

definition createObjectStorageKey :: "env \<Rightarrow> (ObjectStorageKeyScope, LObjectStorageKey res) op" where
  "createObjectStorageKey E = do {
     k \<leftarrow> getKey;
     let opts = keyCreateOptions k;
     wrapE ''failed to create access key: '' (perform (OBJ (CCreateObjectStorageKey opts)) (\<lambda>h. obe_CreateKey (obe E) h opts))
   }"

definition RevokeObjectStorageKey :: "env \<Rightarrow> (ObjectStorageKeyScope, error option) op" where
  "RevokeObjectStorageKey E = do {
     k \<leftarrow> getKey;
     case ky_AccessKeyRef (lok_Status k) of
       None \<Rightarrow> ret (Some (ErrSentinel ErrPanic))
     | Some i \<Rightarrow> do {
         err \<leftarrow> perform (OBJ (CDeleteObjectStorageKey i)) (\<lambda>h. obe_DeleteKey (obe E) h i);
         ret (if IgnoreLinodeAPIError E err [StatusNotFound] \<noteq> None then Some (ErrWrap ''failed to revoke access key: '' (the err)) else None)
       }
   }"

text \<open>A failed revocation is logged only; a panic is not stopped.\<close>

definition RotateObjectStorageKey :: "env \<Rightarrow> (ObjectStorageKeyScope, LObjectStorageKey res) op" where
  "RotateObjectStorageKey E =
     bindE (createObjectStorageKey E) (\<lambda>key. do {
       k \<leftarrow> getKey;
       if ShouldInitKey k then ret (Inr key)
       else (case ShouldRotateKey k of
         Inl panic \<Rightarrow> ret (Inl panic)
       | Inr False \<Rightarrow> ret (Inr key)
       | Inr True \<Rightarrow> do {
           err \<leftarrow> RevokeObjectStorageKey E;
           ret (if err = Some (ErrSentinel ErrPanic) then Inl (ErrSentinel ErrPanic) else Inr key)
         })
     })"

definition GetObjectStorageKey :: "env \<Rightarrow> (ObjectStorageKeyScope, LObjectStorageKey res) op" where
  "GetObjectStorageKey E = do {
     k \<leftarrow> getKey;
     case ky_AccessKeyRef (lok_Status k) of
       None \<Rightarrow> ret (Inl (ErrSentinel ErrPanic))
     | Some i \<Rightarrow> perform (OBJ (CGetObjectStorageKey i)) (\<lambda>h. obe_GetKey (obe E) h i)
   }"


section \<open>Buckets\<close>

text \<open>A nil error formatted with \<open>%w\<close>.\<close>

definition fmtNilError :: string where
  "fmtNilError = ''%!w(<nil>)''"

definition updateBucketAccess :: "env \<Rightarrow> LBucket \<Rightarrow> (ObjectStorageBucketScope, LBucket res) op" where
  "updateBucketAccess E bucket = do {
     b \<leftarrow> getBucket;
     (access, err) \<leftarrow> perform (OBJ (CGetObjectStorageBucketAccess (lbk_Region bucket) (lbk_Label bucket)))
       (\<lambda>h. obe_GetBucketAccess (obe E) h (lbk_Region bucket) (lbk_Label bucket));
     let failed = ''failed to get bucket access details for '' @ om_Name (lobj_Meta b) @ '': '';
     case err of
       Some e \<Rightarrow> ret (Inl (ErrWrap failed e))
     | None \<Rightarrow> (case access of
         None \<Rightarrow> ret (Inl (ErrNew (failed @ fmtNilError)))
       | Some a \<Rightarrow>
           if lba_ACL a = bk_ACL (lobj_Spec b) \<and> lba_CorsEnabled a = None then ret (Inl (ErrSentinel ErrPanic))
           else if lba_ACL a = bk_ACL (lobj_Spec b) \<and> lba_CorsEnabled a = Some (bk_CorsEnabled (lobj_Spec b)) then ret (Inr bucket)
           else do {
             let opts = \<lparr>lbu_ACL = bk_ACL (lobj_Spec b), lbu_CorsEnabled = bk_CorsEnabled (lobj_Spec b)\<rparr>;
             u \<leftarrow> perform (OBJ (CUpdateObjectStorageBucketAccess (lbk_Region bucket) (lbk_Label bucket) opts))
               (\<lambda>h. obe_UpdateBucketAccess (obe E) h (lbk_Region bucket) (lbk_Label bucket) opts);
             ret (case u of
                    Some e \<Rightarrow> Inl (ErrWrap (''failed to update the bucket access options for '' @ om_Name (lobj_Meta b) @ '': '') e)
                  | None \<Rightarrow> Inr bucket)
           })
   }"

definition EnsureAndUpdateObjectStorageBucket :: "env \<Rightarrow> (ObjectStorageBucketScope, LBucket res) op" where
  "EnsureAndUpdateObjectStorageBucket E = do {
     b \<leftarrow> getBucket;
     let region = bk_Region (lobj_Spec b);
     let label = om_Name (lobj_Meta b);
     (bucket, err) \<leftarrow> perform (OBJ (CGetObjectStorageBucket region label)) (\<lambda>h. obe_GetBucket (obe E) h region label);
     if IgnoreLinodeAPIError E err [StatusNotFound] \<noteq> None
     then ret (Inl (ErrWrap (''failed to get bucket from region '' @ region @ '': '') (the err)))
     else (case bucket of
       None \<Rightarrow> do {
         let opts = \<lparr>lbo_Region = region, lbo_Label = label, lbo_ACL = bk_ACL (lobj_Spec b), lbo_CorsEnabled = bk_CorsEnabled (lobj_Spec b)\<rparr>;
         wrapE ''failed to create bucket: '' (perform (OBJ (CCreateObjectStorageBucket opts)) (\<lambda>h. obe_CreateBucket (obe E) h opts))
       }
     | Some bk \<Rightarrow> updateBucketAccess E bk)
   }"

text \<open>The endpoint, the access key and the secret key are read from the secret of the key; the namespace is stored in the resource.\<close>

definition createS3ClientWithAccessKey :: "env \<Rightarrow> (ObjectStorageBucketScope, unit res) op" where
  "createS3ClientWithAccessKey E = do {
     b \<leftarrow> getBucket;
     case bk_AccessKeyRef (lobj_Spec b) of
       None \<Rightarrow> ret (Inl (ErrNew ''accessKeyRef is nil''))
     | Some ref \<Rightarrow> do {
         let ns = (if obr_Namespace ref = [] then om_Namespace (lobj_Meta b) else obr_Namespace ref);
         _ \<leftarrow> modBucket (lobj_Spec_update (bk_AccessKeyRef_update (\<lambda>_. Some (ref\<lparr>obr_Namespace := ns\<rparr>))));
         let key = \<lparr>nn_Namespace = ns, nn_Name = obr_Name ref @ ''-obj-key''\<rparr>;
         bindE (wrapE ''failed to get bucket secret: '' (perform (K8s (KGet KSecret key)) (\<lambda>h. k_GetSecret (k8s E) h key))) (\<lambda>objSecret. do {
           err \<leftarrow> perform (S3 (CAccessKeyClient objSecret)) (\<lambda>h. s3_AccessKeyClient (s3e E) h objSecret);
           ret (case err of Some e \<Rightarrow> Inl (ErrWrap ''failed to create aws config: '' e) | None \<Rightarrow> Inr ())
         })
       }
   }"


section \<open>Emptying a bucket\<close>

definition IsObjNotFoundErr :: "env \<Rightarrow> error \<Rightarrow> bool" where
  "IsObjNotFoundErr E err = (case lib_S3ErrorCode (lib E) err of None \<Rightarrow> False | Some code \<Rightarrow> code = ''NotFound'' \<or> code = ''Forbidden'')"

text \<open>
  The loops over the pages of a listing end when the paginator says so. They are partial: \<open>None\<close> is a
  loop without end.
\<close>

definition keyOnly :: "S3Object \<Rightarrow> S3Object" where
  "keyOnly x = \<lparr>so_Key = so_Key x, so_VersionId = None\<rparr>"

partial_function (option) objectPages :: "env \<Rightarrow> string \<Rightarrow> S3Object list \<Rightarrow> hist \<Rightarrow> (S3Object list res \<times> hist) option" where
  "objectPages E bucket objects h =
     (if s3_HasMorePages (s3e E) h
      then (case s3_NextPage (s3e E) (S3 CHasMorePages # h) bucket of
              Inl err \<Rightarrow> Some (Inl err, S3 (CNextPage bucket) # S3 CHasMorePages # h)
            | Inr page \<Rightarrow> objectPages E bucket (objects @ map keyOnly page) (S3 (CNextPage bucket) # S3 CHasMorePages # h))
      else Some (Inr objects, S3 CHasMorePages # h))"

definition pageObjects :: "S3VersionPage option \<Rightarrow> S3Object list" where
  "pageObjects page = (case page of None \<Rightarrow> [] | Some p \<Rightarrow> svp_Versions p @ svp_DeleteMarkers p)"

partial_function (option) versionPages :: "env \<Rightarrow> string \<Rightarrow> string \<Rightarrow> bool \<Rightarrow> S3Object list \<Rightarrow> hist \<Rightarrow> (S3Object list res \<times> hist) option" where
  "versionPages E bucket pfx ignoreNotFound objects h =
     (if s3_HasMorePages (s3e E) h
      then (case s3_NextVersionPage (s3e E) (S3 CHasMorePages # h) bucket pfx of (page, err) \<Rightarrow>
        if err \<noteq> None \<and> (\<not> IsObjNotFoundErr E (the err) \<or> \<not> ignoreNotFound)
        then Some (Inl (the err), S3 (CNextVersionPage bucket pfx) # S3 CHasMorePages # h)
        else versionPages E bucket pfx ignoreNotFound (objects @ pageObjects page) (S3 (CNextVersionPage bucket pfx) # S3 CHasMorePages # h))
      else Some (Inr objects, S3 CHasMorePages # h))"

text \<open>A loop without end never gives control back, like a panic: no statement after it is executed.\<close>

definition listing :: "(hist \<Rightarrow> ('a res \<times> hist) option) \<Rightarrow> ('o, 'a res) op" where
  "listing f = State_Monad.State (\<lambda>s. case f (tr s) of None \<Rightarrow> (Inl (ErrSentinel ErrPanic), s) | Some (r, h) \<Rightarrow> (r, s\<lparr>tr := h\<rparr>))"

definition deleteObjectsCall :: "env \<Rightarrow> string \<Rightarrow> S3Object list \<Rightarrow> bool \<Rightarrow> ('o, error option) op" where
  "deleteObjectsCall E bucket objects bypassRetention =
     perform (S3 (CDeleteObjects bucket objects bypassRetention)) (\<lambda>h. s3_DeleteObjects (s3e E) h bucket objects bypassRetention)"

definition DeleteAllObjects :: "env \<Rightarrow> string \<Rightarrow> bool \<Rightarrow> ('o, unit res) op" where
  "DeleteAllObjects E bucketName bypassRetention =
     bindE (listing (objectPages E bucketName [])) (\<lambda>objectsToDelete.
       if objectsToDelete = [] then ret (Inr ())
       else do {
         err \<leftarrow> deleteObjectsCall E bucketName objectsToDelete bypassRetention;
         ret (case err of Some e \<Rightarrow> Inl e | None \<Rightarrow> Inr ())
       })"

definition DeleteAllObjectVersionsAndDeleteMarkers :: "env \<Rightarrow> string \<Rightarrow> string \<Rightarrow> bool \<Rightarrow> bool \<Rightarrow> ('o, unit res) op" where
  "DeleteAllObjectVersionsAndDeleteMarkers E bucket pfx bypassRetention ignoreNotFound =
     bindE (listing (versionPages E bucket pfx ignoreNotFound [])) (\<lambda>objectsToDelete.
       if objectsToDelete = [] then ret (Inr ())
       else do {
         err \<leftarrow> deleteObjectsCall E bucket objectsToDelete bypassRetention;
         ret (if err \<noteq> None \<and> (\<not> IsObjNotFoundErr E (the err) \<or> \<not> ignoreNotFound) then Inl (the err) else Inr ())
       })"

definition PurgeAllObjects :: "env \<Rightarrow> string \<Rightarrow> bool \<Rightarrow> bool \<Rightarrow> ('o, unit res) op" where
  "PurgeAllObjects E bucket bypassRetention ignoreNotFound =
     bindE (perform (S3 (CGetBucketVersioning bucket)) (\<lambda>h. s3_GetBucketVersioning (s3e E) h bucket)) (\<lambda>status.
       if status = ''Enabled'' then DeleteAllObjectVersionsAndDeleteMarkers E bucket [] bypassRetention ignoreNotFound
       else DeleteAllObjects E bucket bypassRetention)"

definition wrapUnlessPanicE :: "string \<Rightarrow> ('s, 'a res) m \<Rightarrow> ('s, 'a res) m" where
  "wrapUnlessPanicE t m = State_Monad.bind m (\<lambda>r. ret (case r of Inl e \<Rightarrow> Inl (wrapUnlessPanic t e) | Inr x \<Rightarrow> Inr x))"

definition DeleteBucket :: "env \<Rightarrow> (ObjectStorageBucketScope, unit res) op" where
  "DeleteBucket E =
     bindE (wrapE ''failed to create S3 client: '' (createS3ClientWithAccessKey E)) (\<lambda>_. do {
       b \<leftarrow> getBucket;
       bindE (wrapUnlessPanicE ''failed to purge all objects: '' (PurgeAllObjects E (om_Name (lobj_Meta b)) True True)) (\<lambda>_. do {
         err \<leftarrow> perform (OBJ (CDeleteObjectStorageBucket (bk_Region (lobj_Spec b)) (om_Name (lobj_Meta b))))
           (\<lambda>h. obe_DeleteBucket (obe E) h (bk_Region (lobj_Spec b)) (om_Name (lobj_Meta b)));
         ret (case err of Some e \<Rightarrow> Inl (ErrWrap ''failed to delete bucket: '' e) | None \<Rightarrow> Inr ())
       })
     })"

end
