(* ===== verification/ObjectStorageCtl.thy ===== *)
theory ObjectStorageCtl
  imports ObjectStorage
begin

text \<open>
  The controllers \<open>internal/controller/linodeobjectstoragebucket_controller.go\<close> and
  \<open>linodeobjectstoragekey_controller.go\<close>. Events for the recorder are left out.
\<close>

section \<open>The bucket controller\<close>

definition bkSetCondition :: "env \<Rightarrow> Condition \<Rightarrow> (ObjectStorageBucketScope, unit) op" where
  "bkSetCondition E c = do { now \<leftarrow> timeNow E; modBucket (LinodeObjectStorageBucket_SetCondition now c) }"

definition bk_setFailure :: "env \<Rightarrow> string \<Rightarrow> string \<Rightarrow> (ObjectStorageBucketScope, unit) op" where
  "bk_setFailure E failureReason failureMessage = do {
     _ \<leftarrow> modBucket (lobj_Status_update (bk_FailureMessage_update (\<lambda>_. Some failureMessage)));
     _ \<leftarrow> modBucket (lobj_Status_update (bk_FailureReason_update (\<lambda>_. Some failureReason)));
     bkSetCondition E (mkCond ReadyCondition statusFalse failureReason failureMessage)
   }"

text \<open>The result of \<open>EnsureAndUpdateObjectStorageBucket\<close> goes into the status; \<open>*bucket.Created\<close> is a panic when it is nil.\<close>

definition bucketReady :: "env \<Rightarrow> LBucket \<Rightarrow> (ObjectStorageBucketScope, outcome) op" where
  "bucketReady E bucket = do {
     _ \<leftarrow> modBucket (lobj_Status_update (bk_Hostname_update (\<lambda>_. Some (lbk_Hostname bucket))));
     case lbk_Created bucket of
       None \<Rightarrow> ret (noResult, Some (ErrSentinel ErrPanic))
     | Some created \<Rightarrow> do {
         _ \<leftarrow> modBucket (lobj_Status_update (bk_CreationTime_update (\<lambda>_. Some created)));
         _ \<leftarrow> modBucket (lobj_Status_update (bk_Ready_update (\<lambda>_. True)));
         _ \<leftarrow> bkSetCondition E (mkCond ReadyCondition statusTrue ''ObjectStorageBucketReady'' []);
         ret (noResult, None)
       }
   }"

definition bucketFinalizers :: "env \<Rightarrow> (ObjectStorageBucketScope, error option) op" where
  "bucketFinalizers E = do {
     b \<leftarrow> getBucket;
     if bk_AccessKeyRef (lobj_Spec b) = None then ret None
     else do {
       e \<leftarrow> BucketScope_AddFinalizer E;
       if e \<noteq> None then ret e else AddAccessKeyRefFinalizer E (om_Name (lobj_Meta b))
     }
   }"

definition bk_reconcileApply :: "env \<Rightarrow> (ObjectStorageBucketScope, outcome) op" where
  "bk_reconcileApply E = do {
     _ \<leftarrow> modBucket (lobj_Status_update (bk_Ready_update (\<lambda>_. False)));
     _ \<leftarrow> modBucket (lobj_Status_update (bk_FailureMessage_update (\<lambda>_. None)));
     e \<leftarrow> bucketFinalizers E;
     if e \<noteq> None then requeueLater E DefaultObjectStorageBucketControllerReconcileDelay
     else do {
       r \<leftarrow> EnsureAndUpdateObjectStorageBucket E;
       case r of
         Inl err \<Rightarrow> do {
           _ \<leftarrow> (if err = ErrSentinel ErrPanic then ret () else bk_setFailure E ''EnsureAndUpdateFailed'' (errText err));
           ret (noResult, Some err)
         }
       | Inr bucket \<Rightarrow> bucketReady E bucket
     }
   }"

definition bkFailed :: "env \<Rightarrow> error \<Rightarrow> (ObjectStorageBucketScope, unit res) op" where
  "bkFailed E err = do {
     _ \<leftarrow> (if err = ErrSentinel ErrPanic then ret () else bk_setFailure E DeleteError (errText err));
     ret (Inl err)
   }"

definition releaseBucket :: "env \<Rightarrow> (ObjectStorageBucketScope, unit res) op" where
  "releaseBucket E = do {
     b \<leftarrow> getBucket;
     if bk_AccessKeyRef (lobj_Spec b) = None then ret (Inr ())
     else do {
       e \<leftarrow> RetryOnConflict E (lib_RetrySteps (lib E)) (RemoveAccessKeyRefFinalizer E (om_Name (lobj_Meta b)));
       case e of
         Some err \<Rightarrow> bkFailed E err
       | None \<Rightarrow> do {
           _ \<leftarrow> modBucket (lobj_Meta_update (om_Finalizers_update (\<lambda>fs. lib_RemoveFinalizer (lib E) fs BucketFinalizer)));
           ret (Inr ())
         }
     }
   }"

definition bk_reconcileDelete :: "env \<Rightarrow> (ObjectStorageBucketScope, unit res) op" where
  "bk_reconcileDelete E = do {
     b \<leftarrow> getBucket;
     r \<leftarrow> (if bk_ForceDeleteBucket (lobj_Spec b) then DeleteBucket E else ret (Inr ()));
     case r of Inl err \<Rightarrow> bkFailed E err | Inr _ \<Rightarrow> releaseBucket E
   }"

definition bk_reconcileBody :: "env \<Rightarrow> (ObjectStorageBucketScope, outcome) op" where
  "bk_reconcileBody E = do {
     b \<leftarrow> getBucket;
     if om_DeletionTimestamp (lobj_Meta b) \<noteq> None then do {
       r \<leftarrow> bk_reconcileDelete E;
       case r of
         Inl err \<Rightarrow> if err = ErrSentinel ErrPanic then ret (noResult, Some err) else retryIfTransient E err
       | Inr _ \<Rightarrow> ret (noResult, None)
     }
     else bk_reconcileApply E
   }"

definition bk_reconcile :: "env \<Rightarrow> (ObjectStorageBucketScope, outcome) op" where
  "bk_reconcile E = do {
     out \<leftarrow> bk_reconcileBody E;
     err \<leftarrow> BucketScope_Close E;
     ret (if lib_FilterOutNotFound (lib E) err \<noteq> None \<and> snd out = None then (fst out, err) else out)
   }"

text \<open>The owner reference is set again after a conflict; the metadata keeps what the failed attempts wrote into it.\<close>

fun retryOwner :: "env \<Rightarrow> nat \<Rightarrow> Cluster option \<Rightarrow> (ObjectMeta \<Rightarrow> kobj) \<Rightarrow> ObjectMeta \<Rightarrow> ('o, ObjectMeta \<times> error option) op" where
  "retryOwner E 0 cluster mk om = SetOwnerReferenceToLinodeCluster E cluster mk om"
| "retryOwner E (Suc n) cluster mk om = do {
     (om', err) \<leftarrow> SetOwnerReferenceToLinodeCluster E cluster mk om;
     if err \<noteq> None \<and> lib_IsConflict (lib E) err then retryOwner E n cluster mk om' else ret (om', err)
   }"

definition linkBucket :: "env \<Rightarrow> LinodeObjectStorageBucket \<Rightarrow> ('o, ObjectMeta res) op" where
  "linkBucket E b =
     (case om_Labels (lobj_Meta b) ClusterNameLabel of
        None \<Rightarrow> ret (Inr (lobj_Meta b))
      | Some _ \<Rightarrow> do {
          r \<leftarrow> perform (K8s (KGetClusterFromMetadata (lobj_Meta b))) (\<lambda>h. k_GetClusterFromMetadata (k8s E) h (lobj_Meta b));
          let cluster = (case r of Inl _ \<Rightarrow> None | Inr cl \<Rightarrow> Some cl);
          if IgnoreNotFound E (errOf r) \<noteq> None then ret (Inl (the (errOf r)))
          else do {
            (om, e) \<leftarrow> retryOwner E (lib_RetrySteps (lib E)) cluster (\<lambda>om. OBucket (b\<lparr>lobj_Meta := om\<rparr>)) (lobj_Meta b);
            ret (case e of Some err \<Rightarrow> Inl err | None \<Rightarrow> Inr om)
          }
        })"

definition bk_Reconcile :: "env \<Rightarrow> NamespacedName \<Rightarrow> (unit, outcome) op" where
  "bk_Reconcile E req = do {
     r \<leftarrow> perform (K8s (KGet KBucket req)) (\<lambda>h. k_GetBucket (k8s E) h req);
     case r of
       Inl err \<Rightarrow> ret (noResult, IgnoreNotFound E (Some err))
     | Inr b0 \<Rightarrow> do {
         l \<leftarrow> linkBucket E b0;
         case l of
           Inl err \<Rightarrow> ret (noResult, Some err)
         | Inr om \<Rightarrow> do {
             sc \<leftarrow> NewObjectStorageBucketScope E (Some (b0\<lparr>lobj_Meta := om\<rparr>));
             case sc of
               Inl err \<Rightarrow> ret (noResult, Some (ErrWrap ''failed to create object storage bucket scope: '' err))
             | Inr scope \<Rightarrow> withScope scope (bk_reconcile E)
           }
       }
   }"


section \<open>The key controller\<close>

definition kySetCondition :: "env \<Rightarrow> Condition \<Rightarrow> (ObjectStorageKeyScope, unit) op" where
  "kySetCondition E c = do { now \<leftarrow> timeNow E; modKey (LinodeObjectStorageKey_SetCondition now c) }"

definition ky_setFailure :: "env \<Rightarrow> string \<Rightarrow> string \<Rightarrow> (ObjectStorageKeyScope, unit) op" where
  "ky_setFailure E failureReason failureMessage = do {
     _ \<leftarrow> modKey (lok_Status_update (ky_FailureMessage_update (\<lambda>_. Some failureMessage)));
     _ \<leftarrow> modKey (lok_Status_update (ky_FailureReason_update (\<lambda>_. Some failureReason)));
     kySetCondition E (mkCond ReadyCondition statusFalse failureReason failureMessage)
   }"

text \<open>Every failed step is recorded in the status, except a panic.\<close>

definition orFail :: "env \<Rightarrow> string \<Rightarrow> (ObjectStorageKeyScope, 'a res) op \<Rightarrow> (ObjectStorageKeyScope, 'a res) op" where
  "orFail E reason m = do {
     r \<leftarrow> m;
     case r of
       Inl err \<Rightarrow> do {
         _ \<leftarrow> (if err = ErrSentinel ErrPanic then ret () else ky_setFailure E reason (reason @ ''Failed''));
         ret (Inl err)
       }
     | Inr x \<Rightarrow> ret (Inr x)
   }"

definition newKey :: "env \<Rightarrow> (ObjectStorageKeyScope, LObjectStorageKey option res) op" where
  "newKey E =
     bindE (orFail E ''ProvisionAccessKey'' (RotateObjectStorageKey E)) (\<lambda>key. do {
       _ \<leftarrow> modKey (lok_Status_update (ky_AccessKeyRef_update (\<lambda>_. Some (lky_ID key))));
       k \<leftarrow> getKey;
       if ky_LastKeyGeneration (lok_Status k) = None then do {
         now \<leftarrow> timeNow E;
         _ \<leftarrow> modKey (lok_Status_update (ky_CreationTime_update (\<lambda>_. Some now)));
         ret (Inr (Some key))
       }
       else ret (Inr (Some key))
     })"

definition restoreKey :: "env \<Rightarrow> (ObjectStorageKeyScope, LObjectStorageKey option res) op" where
  "restoreKey E = do {
     k \<leftarrow> getKey;
     let gs = ky_GeneratedSecret (lok_Spec k);
     let key = \<lparr>nn_Namespace = gs_Namespace gs, nn_Name = gs_Name gs\<rparr>;
     r \<leftarrow> perform (K8s (KGet KSecret key)) (\<lambda>h. k_GetSecret (k8s E) h key);
     case r of
       Inr _ \<Rightarrow> ret (Inr None)
     | Inl err \<Rightarrow>
         if lib_IsNotFound (lib E) (Some err)
         then bindE (orFail E ''RestoreAccessKey'' (GetObjectStorageKey E)) (\<lambda>key. ret (Inr (Some key)))
         else orFail E ''CheckAccessKeySecret'' (ret (Inl err))
   }"

definition keyForSecret :: "env \<Rightarrow> (ObjectStorageKeyScope, LObjectStorageKey option res) op" where
  "keyForSecret E = do {
     k \<leftarrow> getKey;
     if ShouldInitKey k then newKey E
     else (case ShouldRotateKey k of
       Inl panic \<Rightarrow> ret (Inl panic)
     | Inr True \<Rightarrow> newKey E
     | Inr False \<Rightarrow> if ky_AccessKeyRef (lok_Status k) \<noteq> None then restoreKey E else ret (Inr None))
   }"

definition applySecret :: "env \<Rightarrow> Secret \<Rightarrow> (ObjectStorageKeyScope, unit res) op" where
  "applySecret E secret = do {
     k \<leftarrow> getKey;
     let secret' = secret\<lparr>sec_Type := gs_Type (ky_GeneratedSecret (lok_Spec k))\<rparr>;
     err \<leftarrow> perform (K8s (KCreateOrUpdateSecret secret')) (\<lambda>h. k_CreateOrUpdateSecret (k8s E) h secret');
     ret (case err of Some e \<Rightarrow> Inl e | None \<Rightarrow> Inr ())
   }"

definition writeSecret :: "env \<Rightarrow> LObjectStorageKey option \<Rightarrow> (ObjectStorageKeyScope, unit res) op" where
  "writeSecret E key =
     (if key = None then ret (Inr ())
      else bindE (orFail E ''GenerateKeySecret'' (GenerateKeySecret E key)) (\<lambda>secret. orFail E ''ApplyKeySecret'' (applySecret E secret)))"

definition keySynced :: "env \<Rightarrow> (ObjectStorageKeyScope, unit res) op" where
  "keySynced E = do {
     k \<leftarrow> getKey;
     _ \<leftarrow> modKey (lok_Status_update (ky_LastKeyGeneration_update (\<lambda>_. ky_KeyGeneration (lok_Spec k))));
     _ \<leftarrow> modKey (lok_Status_update (ky_Ready_update (\<lambda>_. True)));
     _ \<leftarrow> kySetCondition E (mkCond ReadyCondition statusTrue ''LinodeObjectStorageKeySynced'' []);
     ret (Inr ())
   }"

definition ky_reconcileApply :: "env \<Rightarrow> (ObjectStorageKeyScope, unit res) op" where
  "ky_reconcileApply E = do {
     _ \<leftarrow> modKey (lok_Status_update (ky_Ready_update (\<lambda>_. False)));
     _ \<leftarrow> modKey (lok_Status_update (ky_FailureMessage_update (\<lambda>_. None)));
     bindE (keyForSecret E) (\<lambda>key. bindE (writeSecret E key) (\<lambda>_. keySynced E))
   }"

definition revokeKey :: "env \<Rightarrow> (ObjectStorageKeyScope, unit res) op" where
  "revokeKey E = do { e \<leftarrow> RevokeObjectStorageKey E; ret (case e of Some err \<Rightarrow> Inl err | None \<Rightarrow> Inr ()) }"

text \<open>A secret in another namespace has no owner reference and is deleted by hand.\<close>

definition deleteForeignSecret :: "env \<Rightarrow> (ObjectStorageKeyScope, unit res) op" where
  "deleteForeignSecret E = do {
     k \<leftarrow> getKey;
     let gs = ky_GeneratedSecret (lok_Spec k);
     if gs_Namespace gs = om_Namespace (lok_Meta k) then ret (Inr ())
     else do {
       let secret = \<lparr>sec_Meta = meta0\<lparr>om_Name := gs_Name gs, om_Namespace := gs_Namespace gs\<rparr>, sec_Type = [], sec_Data = Map.empty\<rparr>;
       err \<leftarrow> perform (K8s (KDelete (OSecret secret))) (\<lambda>h. k_Delete (k8s E) h (OSecret secret));
       ret (case err of Some e \<Rightarrow> Inl e | None \<Rightarrow> Inr ())
     }
   }"

text \<open>\<open>controllerutil.RemoveFinalizer\<close> reports whether the list has changed.\<close>

definition removeKeyFinalizer :: "env \<Rightarrow> (ObjectStorageKeyScope, unit res) op" where
  "removeKeyFinalizer E = do {
     k \<leftarrow> getKey;
     let fs = om_Finalizers (lok_Meta k);
     let fs' = lib_RemoveFinalizer (lib E) fs ObjectStorageKeyFinalizer;
     _ \<leftarrow> modKey (lok_Meta_update (om_Finalizers_update (\<lambda>_. fs')));
     ret (if fs' = fs then Inl (ErrNew ''failed to remove finalizer from key; unable to delete'') else Inr ())
   }"

definition removeOldKeyFinalizer :: "env \<Rightarrow> (ObjectStorageKeyScope, unit res) op" where
  "removeOldKeyFinalizer E = do {
     k \<leftarrow> getKey;
     _ \<leftarrow> (if lib_ContainsFinalizer (lib E) (om_Finalizers (lok_Meta k)) ''infrastructure.cluster.x-k8s.io/v1alpha2''
          then modKey (lok_Meta_update (om_Finalizers_update (\<lambda>fs. lib_RemoveFinalizer (lib E) fs ''infrastructure.cluster.x-k8s.io/v1alpha2'')))
          else ret ());
     ret (Inr ())
   }"

definition ky_reconcileDelete :: "env \<Rightarrow> (ObjectStorageKeyScope, unit res) op" where
  "ky_reconcileDelete E =
     bindE (orFail E ''RevokeAccessKey'' (revokeKey E)) (\<lambda>_.
     bindE (orFail E ''DeleteKeySecret'' (deleteForeignSecret E)) (\<lambda>_.
     bindE (orFail E ''RemoveFinalizer'' (removeKeyFinalizer E)) (\<lambda>_. removeOldKeyFinalizer E)))"

definition ky_reconcileBody :: "env \<Rightarrow> (ObjectStorageKeyScope, unit res) op" where
  "ky_reconcileBody E = do {
     e \<leftarrow> KeyScope_SetCredentialRefToken E;
     case e of
       Some err \<Rightarrow> ret (Inl err)
     | None \<Rightarrow> do {
         k \<leftarrow> getKey;
         if om_DeletionTimestamp (lok_Meta k) \<noteq> None then ky_reconcileDelete E
         else do {
           a \<leftarrow> KeyScope_AddFinalizer E;
           case a of Some err \<Rightarrow> ret (Inl err) | None \<Rightarrow> ky_reconcileApply E
         }
       }
   }"

definition ky_reconcile :: "env \<Rightarrow> (ObjectStorageKeyScope, outcome) op" where
  "ky_reconcile E = do {
     r \<leftarrow> ky_reconcileBody E;
     err \<leftarrow> KeyScope_Close E;
     ret (noResult, if lib_FilterOutNotFound (lib E) err \<noteq> None \<and> errOf r = None then err else errOf r)
   }"

definition ky_Reconcile :: "env \<Rightarrow> NamespacedName \<Rightarrow> (unit, outcome) op" where
  "ky_Reconcile E req = do {
     r \<leftarrow> perform (K8s (KGet KKey req)) (\<lambda>h. k_GetKey (k8s E) h req);
     case r of
       Inl err \<Rightarrow> ret (noResult, IgnoreNotFound E (Some err))
     | Inr k0 \<Rightarrow> do {
         l \<leftarrow> linkCluster E (lok_Meta k0) (\<lambda>om. OKey (k0\<lparr>lok_Meta := om\<rparr>));
         case l of
           Inl err \<Rightarrow> ret (noResult, Some err)
         | Inr (_, om) \<Rightarrow> do {
             sc \<leftarrow> NewObjectStorageKeyScope E (Some (k0\<lparr>lok_Meta := om\<rparr>));
             case sc of
               Inl err \<Rightarrow> ret (noResult, Some (ErrWrap ''failed to create object storage key scope: '' err))
             | Inr scope \<Rightarrow> withScope scope (ky_reconcile E)
           }
       }
   }"

end
