(* ===== verification/ObjectStorageProps.thy ===== *)
theory ObjectStorageProps
  imports "HOL-Library.Multiset" ObjectStorageCtl
begin

text \<open>
  What holds of buckets and access keys: which objects a purge deletes, when a bucket and its finalizer
  go, which keys are created, delivered and revoked, and where the controllers get stuck.
\<close>

section \<open>Emptying a bucket\<close>

text \<open>The requests to delete objects in a history, newest first.\<close>

fun deleteReqs :: "hist \<Rightarrow> (string \<times> S3Object list) list" where
  "deleteReqs [] = []"
| "deleteReqs (c # h) = (case c of S3 (CDeleteObjects b xs _) \<Rightarrow> (b, xs) # deleteReqs h | _ \<Rightarrow> deleteReqs h)"

text \<open>
  What has to be deleted according to a paginator, from a history on until it says that there are no more pages: every object by its
  key alone and, in a versioned bucket, every version and every delete marker by key and version.
\<close>

inductive objectListing :: "env \<Rightarrow> string \<Rightarrow> hist \<Rightarrow> S3Object multiset \<Rightarrow> bool" for E b where
  last_page: "\<not> s3_HasMorePages (s3e E) h \<Longrightarrow> objectListing E b h {#}"
| next_page: "s3_HasMorePages (s3e E) h \<Longrightarrow> s3_NextPage (s3e E) (S3 CHasMorePages # h) b = Inr p
    \<Longrightarrow> objectListing E b (S3 (CNextPage b) # S3 CHasMorePages # h) L
    \<Longrightarrow> objectListing E b h ({#\<lparr>so_Key = so_Key x, so_VersionId = None\<rparr>. x \<in># mset p#} + L)"

inductive versionListing :: "env \<Rightarrow> string \<Rightarrow> hist \<Rightarrow> S3Object multiset \<Rightarrow> bool" for E b where
  last_versions: "\<not> s3_HasMorePages (s3e E) h \<Longrightarrow> versionListing E b h {#}"
| next_versions: "s3_HasMorePages (s3e E) h \<Longrightarrow> s3_NextVersionPage (s3e E) (S3 CHasMorePages # h) b [] = (Some p, err)
    \<Longrightarrow> err = None \<or> IsObjNotFoundErr E (the err)
    \<Longrightarrow> versionListing E b (S3 (CNextVersionPage b []) # S3 CHasMorePages # h) L
    \<Longrightarrow> versionListing E b h (mset (svp_Versions p) + mset (svp_DeleteMarkers p) + L)"
| no_versions: "s3_HasMorePages (s3e E) h \<Longrightarrow> s3_NextVersionPage (s3e E) (S3 CHasMorePages # h) b [] = (None, err)
    \<Longrightarrow> err = None \<or> IsObjNotFoundErr E (the err)
    \<Longrightarrow> versionListing E b (S3 (CNextVersionPage b []) # S3 CHasMorePages # h) L \<Longrightarrow> versionListing E b h L"

lemma wp_listing [wp_rules]:
  "wp (listing f) Q s = (case f (tr s) of None \<Rightarrow> Q (Inl (ErrSentinel ErrPanic)) s | Some (r, h) \<Rightarrow> Q r (s\<lparr>tr := h\<rparr>))"
  by (simp add: wp_def listing_def split: option.splits prod.splits)

lemma objectPages_listing:
  "objectListing E b h L \<Longrightarrow> \<exists>xs h'. objectPages E b acc h = Some (Inr (acc @ xs), h') \<and> mset xs = L \<and> deleteReqs h' = deleteReqs h"
proof (induction arbitrary: acc rule: objectListing.induct)
  case (last_page h)
  then show ?case by (subst objectPages.simps) simp
next
  case (next_page h p L)
  from next_page.IH [of "acc @ map keyOnly p"] obtain xs h' where
    "objectPages E b (acc @ map keyOnly p) (S3 (CNextPage b) # S3 CHasMorePages # h) = Some (Inr ((acc @ map keyOnly p) @ xs), h')" "mset xs = L"
    "deleteReqs h' = deleteReqs h" by auto
  with next_page.hyps(1,2) show ?case
    by (subst objectPages.simps) (auto simp: keyOnly_def [abs_def] intro!: exI [of _ "map keyOnly p @ xs"])
qed

lemma versionPages_listing:
  "versionListing E b h L \<Longrightarrow> \<exists>xs h'. versionPages E b [] True acc h = Some (Inr (acc @ xs), h') \<and> mset xs = L \<and> deleteReqs h' = deleteReqs h"
proof (induction arbitrary: acc rule: versionListing.induct)
  case (last_versions h)
  then show ?case by (subst versionPages.simps) simp
next
  case (next_versions h p err L)
  from next_versions.IH [of "acc @ pageObjects (Some p)"] obtain xs h' where
    "versionPages E b [] True (acc @ pageObjects (Some p)) (S3 (CNextVersionPage b []) # S3 CHasMorePages # h) = Some (Inr ((acc @ pageObjects (Some p)) @ xs), h')"
    "mset xs = L" "deleteReqs h' = deleteReqs h" by auto
  with next_versions.hyps(1-3) show ?case
    by (subst versionPages.simps) (auto simp: pageObjects_def intro!: exI [of _ "pageObjects (Some p) @ xs"])
next
  case (no_versions h err L)
  from no_versions.IH [of acc] no_versions.hyps(1-3) show ?case
    by (subst versionPages.simps) (auto simp: pageObjects_def)
qed

text \<open>The listing that a purge consults, by the versioning status of the bucket.\<close>

definition purgeListing :: "env \<Rightarrow> string \<Rightarrow> string \<Rightarrow> hist \<Rightarrow> S3Object multiset \<Rightarrow> bool" where
  "purgeListing E b status h L = (if status = ''Enabled'' then versionListing E b h L else objectListing E b h L)"

definition deleteAccepted :: "env \<Rightarrow> string \<Rightarrow> error option \<Rightarrow> bool" where
  "deleteAccepted E status err = (err = None \<or> status = ''Enabled'' \<and> IsObjNotFoundErr E (the err))"

definition purged :: "env \<Rightarrow> string \<Rightarrow> string \<Rightarrow> bool \<Rightarrow> S3Object multiset \<Rightarrow> 'o world \<Rightarrow> unit res \<Rightarrow> 'o world \<Rightarrow> bool" where
  "purged E b status bypass L s r t =
     (if L = {#} then r = Inr () \<and> deleteReqs (tr t) = deleteReqs (tr s)
      else \<exists>xs h. mset xs = L \<and> tr t = S3 (CDeleteObjects b xs bypass) # h \<and> deleteReqs h = deleteReqs (tr s)
         \<and> (r = Inr ()) = deleteAccepted E status (s3_DeleteObjects (s3e E) h b xs bypass))"

text \<open>
C19: A purge of a bucket ends when the listing ends. When the listing has something it sends one request to delete, which names
exactly every listed object and, when versioning is enabled, every listed version and every listed delete marker, and it succeeds exactly
when that request is accepted (in a versioned bucket also when it is answered with not found or forbidden); when the listing is
empty it sends no such request and succeeds.
\<close>

theorem purge_deletes_listing:
  assumes status: "s3_GetBucketVersioning (s3e E) (tr s) b = Inr status"
    and "purgeListing E b status (S3 (CGetBucketVersioning b) # tr s) L"
  shows "wp (PurgeAllObjects E b bypass True) (purged E b status bypass L s) s"
proof (cases "status = ''Enabled''")
  case True
  with assms(2) have "versionListing E b (S3 (CGetBucketVersioning b) # tr s) L" by (simp add: purgeListing_def)
  from versionPages_listing [OF this, of "[]"] status True show ?thesis
    by (auto simp: PurgeAllObjects_def DeleteAllObjectVersionsAndDeleteMarkers_def deleteObjectsCall_def purged_def deleteAccepted_def wp_rules)
next
  case False
  with assms(2) have "objectListing E b (S3 (CGetBucketVersioning b) # tr s) L" by (simp add: purgeListing_def)
  from objectPages_listing [OF this, of "[]"] status False show ?thesis
    by (auto simp: PurgeAllObjects_def DeleteAllObjects_def deleteObjectsCall_def purged_def deleteAccepted_def wp_rules split: option.splits)
qed

text \<open>A versioned bucket whose listing is one page with a version and a delete marker of the same object.\<close>

definition pagesSeen :: "hist \<Rightarrow> nat" where
  "pagesSeen h = countOf (\<lambda>c. case c of S3 (CNextVersionPage _ _) \<Rightarrow> True | _ \<Rightarrow> False) h"

definition envPages :: env where
  "envPages = env0\<lparr>s3e := s3e0\<lparr>s3_GetBucketVersioning := (\<lambda>_ _. Inr ''Enabled''), s3_HasMorePages := (\<lambda>h. pagesSeen h < 1),
     s3_NextVersionPage := (\<lambda>h _ _. (Some \<lparr>svp_Versions = [\<lparr>so_Key = ''a'', so_VersionId = Some ''1''\<rparr>],
       svp_DeleteMarkers = [\<lparr>so_Key = ''a'', so_VersionId = Some ''2''\<rparr>]\<rparr>, None))\<rparr>\<rparr>"

theorem purge_deletes_listing_witness:
  "wp (PurgeAllObjects envPages ''bucket'' True True)
     (purged envPages ''bucket'' ''Enabled'' True {#\<lparr>so_Key = ''a'', so_VersionId = Some ''1''\<rparr>, \<lparr>so_Key = ''a'', so_VersionId = Some ''2''\<rparr>#} (start ())) (start ())"
proof (rule purge_deletes_listing)
  show "s3_GetBucketVersioning (s3e envPages) (tr (start ())) ''bucket'' = Inr ''Enabled''" by (simp add: envPages_def env0_defs)
  let ?h = "S3 (CGetBucketVersioning ''bucket'') # tr (start ())"
  let ?p = "\<lparr>svp_Versions = [\<lparr>so_Key = ''a'', so_VersionId = Some ''1''\<rparr>], svp_DeleteMarkers = [\<lparr>so_Key = ''a'', so_VersionId = Some ''2''\<rparr>]\<rparr>"
  have "versionListing envPages ''bucket'' ?h (mset (svp_Versions ?p) + mset (svp_DeleteMarkers ?p) + {#})"
    by (rule next_versions [where err = None], simp_all add: envPages_def env0_defs pagesSeen_def countOf_def)
      (rule last_versions, simp add: envPages_def env0_defs pagesSeen_def countOf_def)
  then show "purgeListing envPages ''bucket'' ''Enabled'' ?h {#\<lparr>so_Key = ''a'', so_VersionId = Some ''1''\<rparr>, \<lparr>so_Key = ''a'', so_VersionId = Some ''2''\<rparr>#}"
    by (simp add: purgeListing_def add_mset_commute)
qed

text \<open>A page that fails the same way for ever.\<close>

definition alwaysMissing :: "env \<Rightarrow> string \<Rightarrow> bool" where
  "alwaysMissing E b = (\<forall>h. s3_HasMorePages (s3e E) h \<and> (\<exists>err. s3_NextVersionPage (s3e E) h b [] = (None, Some err) \<and> IsObjNotFoundErr E err))"

text \<open>
A versioned bucket whose listing is answered with \<open>NotFound\<close> or \<open>Forbidden\<close>: the error is passed over, the
paginator still has its first page, and the loop asks for it again without end.
\<close>

theorem purge_missing_loops:
  assumes "alwaysMissing E b"
  shows "versionPages E b [] True acc h = None"
proof -
  have never: "\<not> (alwaysMissing E b \<and> pfx = [] \<and> ignoreNotFound)" if "versionPages E b pfx ignoreNotFound acc h = Some r"
    for E b pfx ignoreNotFound acc h r
    using that
  proof (rule versionPages.raw_induct [rotated, where P = "\<lambda>E b pfx ignoreNotFound _ _ _. \<not> (alwaysMissing E b \<and> pfx = [] \<and> ignoreNotFound)"])
    fix f :: "env \<Rightarrow> string \<Rightarrow> string \<Rightarrow> bool \<Rightarrow> S3Object list \<Rightarrow> hist \<Rightarrow> (S3Object list res \<times> hist) option"
      and E b pfx ignoreNotFound objects h r
    assume IH: "\<And>E b pfx ignoreNotFound objects h r. f E b pfx ignoreNotFound objects h = Some r \<Longrightarrow> \<not> (alwaysMissing E b \<and> pfx = [] \<and> ignoreNotFound)"
      and eq: "(if s3_HasMorePages (s3e E) h
        then (case s3_NextVersionPage (s3e E) (S3 CHasMorePages # h) b pfx of (page, err) \<Rightarrow>
          if err \<noteq> None \<and> (\<not> IsObjNotFoundErr E (the err) \<or> \<not> ignoreNotFound)
          then Some (Inl (the err), S3 (CNextVersionPage b pfx) # S3 CHasMorePages # h)
          else f E b pfx ignoreNotFound (objects @ pageObjects page) (S3 (CNextVersionPage b pfx) # S3 CHasMorePages # h))
        else Some (Inr objects, S3 CHasMorePages # h)) = Some r"
    show "\<not> (alwaysMissing E b \<and> pfx = [] \<and> ignoreNotFound)"
    proof
      assume A: "alwaysMissing E b \<and> pfx = [] \<and> ignoreNotFound"
      then obtain err where "s3_HasMorePages (s3e E) h" "s3_NextVersionPage (s3e E) (S3 CHasMorePages # h) b pfx = (None, Some err)" "IsObjNotFoundErr E err"
        by (auto simp: alwaysMissing_def)
      with eq A have "f E b pfx ignoreNotFound (objects @ pageObjects None) (S3 (CNextVersionPage b pfx) # S3 CHasMorePages # h) = Some r" by simp
      with A IH show False by blast
    qed
  qed
  show ?thesis
  proof (rule ccontr)
    assume "versionPages E b [] True acc h \<noteq> None"
    then obtain r where "versionPages E b [] True acc h = Some r" by blast
    from never [OF this] assms show False by simp
  qed
qed

definition envMissing :: env where
  "envMissing = env0\<lparr>s3e := s3e0\<lparr>s3_HasMorePages := (\<lambda>_. True)\<rparr>\<rparr>"

theorem purge_missing_loops_witness: "versionPages envMissing ''bucket'' [] True [] [] = None"
  by (rule purge_missing_loops) (simp add: alwaysMissing_def IsObjNotFoundErr_def envMissing_def env0_defs errNotFound_def)


section \<open>Deleting a bucket\<close>

abbreviation bkOf :: "ObjectStorageBucketScope world \<Rightarrow> LinodeObjectStorageBucket" where
  "bkOf s \<equiv> bs_Bucket (obj s)"

fun bucketDeleted :: "env \<Rightarrow> string \<Rightarrow> string \<Rightarrow> hist \<Rightarrow> bool" where
  "bucketDeleted E region label [] = False"
| "bucketDeleted E region label (c # h) = ((case c of
     OBJ (CDeleteObjectStorageBucket r l) \<Rightarrow> r = region \<and> l = label \<and> obe_DeleteBucket (obe E) h r l = None | _ \<Rightarrow> False)
   \<or> bucketDeleted E region label h)"

lemma bucketDeleted_append: "bucketDeleted E r l h \<Longrightarrow> bucketDeleted E r l (new @ h)"
  by (induction new) auto

text \<open>Steps that leave the object of the scope alone.\<close>

definition sameObj :: "'o world \<Rightarrow> 'o world \<Rightarrow> bool" where
  "sameObj s t = (obj t = obj s)"

interpretation same: preorder_rel sameObj
  by unfold_locales (simp_all add: sameObj_def)

lemma same_perform: "keeps sameObj (perform c f)"
  by (simp add: keeps_def wp_perform sameObj_def)

lemma same_listing: "keeps sameObj (listing f)"
  by (simp add: keeps_def wp_listing sameObj_def split: option.splits prod.splits)

lemmas same_rules = same.keeps_all same_perform same_listing

lemma same_Purge: "keeps sameObj (PurgeAllObjects E b x y)"
  unfolding PurgeAllObjects_def DeleteAllObjects_def DeleteAllObjectVersionsAndDeleteMarkers_def deleteObjectsCall_def
  by (intro same_rules keeps_case)

text \<open>The metadata and the parts of the spec that decide about the deletion.\<close>

definition bkFixed :: "ObjectStorageBucketScope world \<Rightarrow> ObjectStorageBucketScope world \<Rightarrow> bool" where
  "bkFixed s t = (lobj_Meta (bkOf t) = lobj_Meta (bkOf s) \<and> bk_Region (lobj_Spec (bkOf t)) = bk_Region (lobj_Spec (bkOf s)))"

interpretation bkf: preorder_rel bkFixed
  by unfold_locales (simp_all add: bkFixed_def)

lemma bkf_perform: "keeps bkFixed (perform c f)"
  by (simp add: keeps_def wp_perform bkFixed_def)

lemma bkf_modBucket:
  "(\<And>b. lobj_Meta (f b) = lobj_Meta b \<and> bk_Region (lobj_Spec (f b)) = bk_Region (lobj_Spec b)) \<Longrightarrow> keeps bkFixed (modBucket f)"
  by (simp add: keeps_def wp_update bkFixed_def)

lemma bkf_same: "keeps sameObj m \<Longrightarrow> keeps bkFixed m"
  by (erule keeps_mono) (simp add: sameObj_def bkFixed_def)

lemma bkf_calm: "keeps (calm P) m \<Longrightarrow> keeps bkFixed m"
  by (erule keeps_mono) (simp add: calm_def bkFixed_def)

lemmas bkf_rules = bkf.keeps_all bkf_perform bkf_modBucket bkf_same [OF same_Purge]

lemma bkf_setFailure: "keeps bkFixed (bk_setFailure E r msg)"
  unfolding bk_setFailure_def bkSetCondition_def
  by (intro bkf_rules; simp add: LinodeObjectStorageBucket_SetCondition_def)+

lemma plain_setFailure: "keeps (adds isPlain) (bk_setFailure E r msg)"
  unfolding bk_setFailure_def bkSetCondition_def by (intro adds_rules; simp)+

lemma bkf_createS3Client: "keeps bkFixed (createS3ClientWithAccessKey E)"
  unfolding createS3ClientWithAccessKey_def Let_def by (intro bkf_rules keeps_case; simp)+

lemma calm_updateKeyFinalizers: "keeps (calm isK8s) (updateKeyFinalizers E v f)"
  unfolding updateKeyFinalizers_def getAccessKey_def Let_def by (intro calm_rules keeps_case; simp)+

lemma calm_RemoveAccessKeyRefFinalizer: "keeps (calm isK8s) (RetryOnConflict E n (RemoveAccessKeyRefFinalizer E fin))"
  unfolding RemoveAccessKeyRefFinalizer_def by (intro calm_RetryOnConflict calm_updateKeyFinalizers)

lemma wp_wrapUnlessPanicE: "wp m (\<lambda>r t. case r of Inl _ \<Rightarrow> \<forall>e. Q (Inl e) t | Inr x \<Rightarrow> Q (Inr x) t) s \<Longrightarrow> wp (wrapUnlessPanicE p m) Q s"
  unfolding wrapUnlessPanicE_def wp_bind wp_return by (erule wp_mono) (auto split: sum.splits)

lemma wp_DeleteBucket:
  "wp (DeleteBucket E) (\<lambda>r t. bkFixed s t \<and>
     (case r of Inl _ \<Rightarrow> True | Inr _ \<Rightarrow> bucketDeleted E (bk_Region (lobj_Spec (bkOf s))) (om_Name (lobj_Meta (bkOf s))) (tr t))) s"
proof -
  have 1: "wp (wrapE ''failed to create S3 client: '' (createS3ClientWithAccessKey E)) (\<lambda>_ t. bkFixed s t) s"
    by (intro keeps_wp bkf.keeps_wrapE bkf_createS3Client)
  have 2: "wp (wrapUnlessPanicE ''failed to purge all objects: '' (PurgeAllObjects E b True True)) (\<lambda>_ t. bkFixed s t) u" if "bkFixed s u" for u b
    using that by (intro wp_wrapUnlessPanicE wp_mono [OF keeps_wp [OF same_Purge]]) (auto simp: bkFixed_def sameObj_def split: sum.splits)
  show ?thesis
    unfolding DeleteBucket_def
    by (rule wp_seqE [OF 1], simp, rule wp_getsI, rule wp_seqE [OF 2], assumption, simp) (auto simp: wp_rules bkFixed_def split: option.splits)
qed

text \<open>
  What a deletion may do: without \<open>forceDeleteBucket\<close> only the API server is asked; the finalizers change
  only at its successful end, and with the flag only after the bucket was deleted.
\<close>

definition bucketKept :: "env \<Rightarrow> ObjectStorageBucketScope world \<Rightarrow> unit res \<Rightarrow> ObjectStorageBucketScope world \<Rightarrow> bool" where
  "bucketKept E s r t =
     ((case r of
         Inl _ \<Rightarrow> lobj_Meta (bkOf t) = lobj_Meta (bkOf s)
       | Inr _ \<Rightarrow> if bk_ForceDeleteBucket (lobj_Spec (bkOf s))
                  then bucketDeleted E (bk_Region (lobj_Spec (bkOf s))) (om_Name (lobj_Meta (bkOf s))) (tr t) else True)
      \<and> (if bk_ForceDeleteBucket (lobj_Spec (bkOf s)) then True else adds isPlain s t))"

lemma calm_plain: "calm isK8s s t \<Longrightarrow> adds isPlain s t \<and> obj t = obj s"
  by (auto simp: calm_def adds_def isPlain_def)

lemma bucketKept_failed:
  assumes "bkFixed s t" and "if bk_ForceDeleteBucket (lobj_Spec (bkOf s)) then True else adds isPlain s t"
  shows "wp (bkFailed E err) (bucketKept E s) t"
proof -
  have "wp (if err = ErrSentinel ErrPanic then ret () else bk_setFailure E DeleteError (errText err)) (\<lambda>_ u. bkFixed t u \<and> adds isPlain t u) t"
    by (intro wp_conjI keeps_wp keeps_case bkf_setFailure plain_setFailure bkf.keeps_return adds.keeps_return)
  then show ?thesis
    unfolding bkFailed_def
    by (rule wp_seq) (use assms in \<open>auto simp: wp_rules bucketKept_def bkFixed_def intro: adds.trans\<close>)
qed

lemma bucketKept_release:
  assumes "bkFixed s t"
    and "if bk_ForceDeleteBucket (lobj_Spec (bkOf s))
         then bucketDeleted E (bk_Region (lobj_Spec (bkOf s))) (om_Name (lobj_Meta (bkOf s))) (tr t) else adds isPlain s t"
  shows "wp (releaseBucket E) (bucketKept E s) t"
proof -
  have step: "wp (case e of Some err \<Rightarrow> bkFailed E err | None \<Rightarrow> do {
        _ \<leftarrow> modBucket (lobj_Meta_update (om_Finalizers_update (\<lambda>fs. lib_RemoveFinalizer (lib E) fs BucketFinalizer))); ret (Inr ()) })
      (bucketKept E s) u" if "calm isK8s t u" for e and u :: "ObjectStorageBucketScope world"
  proof (cases e)
    case None
    with assms calm_plain [OF that] show ?thesis
      by (auto simp: wp_rules bucketKept_def adds_def split: if_splits intro: bucketDeleted_append)
  next
    case (Some err)
    from assms calm_plain [OF that] have "wp (bkFailed E err) (bucketKept E s) u"
      by (intro bucketKept_failed) (auto simp: bkFixed_def split: if_splits intro: adds.trans)
    with Some show ?thesis by simp
  qed
  show ?thesis
    unfolding releaseBucket_def
    by (rule wp_getsI, rule wp_ifI, use assms in \<open>simp add: wp_return bucketKept_def split: if_splits\<close>,
        rule wp_seq [OF keeps_wp [OF calm_RemoveAccessKeyRefFinalizer]], erule step)
qed

lemma wp_bk_reconcileDelete: "wp (bk_reconcileDelete E) (bucketKept E s) s"
proof (cases "bk_ForceDeleteBucket (lobj_Spec (bkOf s))")
  case True
  show ?thesis
    unfolding bk_reconcileDelete_def wp_gets if_P [OF True]
    by (rule wp_seq [OF wp_DeleteBucket [of E s]])
      (use True in \<open>auto split: sum.splits intro!: bucketKept_failed bucketKept_release\<close>)
next
  case False
  then show ?thesis
    unfolding bk_reconcileDelete_def wp_gets if_not_P [OF False]
    by (auto simp: wp_return wp_bind bkFixed_def adds.refl intro!: bucketKept_release)
qed


section \<open>Access keys\<close>

abbreviation kyOf :: "ObjectStorageKeyScope world \<Rightarrow> LinodeObjectStorageKey" where
  "kyOf s \<equiv> ks_Key (obj s)"

fun keyRevoked :: "env \<Rightarrow> int \<Rightarrow> hist \<Rightarrow> bool" where
  "keyRevoked E i [] = False"
| "keyRevoked E i (c # h) = ((case c of
     OBJ (CDeleteObjectStorageKey j) \<Rightarrow> j = i \<and> IgnoreLinodeAPIError E (obe_DeleteKey (obe E) h j) [StatusNotFound] = None | _ \<Rightarrow> False)
   \<or> keyRevoked E i h)"

text \<open>The key that a successful creation returned.\<close>

fun keyCreated :: "env \<Rightarrow> LKeyCreateOptions \<Rightarrow> LObjectStorageKey \<Rightarrow> hist \<Rightarrow> bool" where
  "keyCreated E opts key [] = False"
| "keyCreated E opts key (c # h) = ((case c of
     OBJ (CCreateObjectStorageKey os) \<Rightarrow> os = opts \<and> obe_CreateKey (obe E) h os = Inr key | _ \<Rightarrow> False)
   \<or> keyCreated E opts key h)"

text \<open>A secret that was written, by its name, its namespace and its data.\<close>

fun secretWritten :: "env \<Rightarrow> string \<Rightarrow> string \<Rightarrow> (string \<rightharpoonup> string) \<Rightarrow> hist \<Rightarrow> bool" where
  "secretWritten E name ns data [] = False"
| "secretWritten E name ns data (c # h) = ((case c of
     K8s (KCreateOrUpdateSecret sec) \<Rightarrow> om_Name (sec_Meta sec) = name \<and> om_Namespace (sec_Meta sec) = ns \<and> sec_Data sec = data
       \<and> k_CreateOrUpdateSecret (k8s E) h sec = None | _ \<Rightarrow> False)
   \<or> secretWritten E name ns data h)"

lemma key_history_append:
  "keyRevoked E i h \<Longrightarrow> keyRevoked E i (new @ h)"
  "keyCreated E opts key h \<Longrightarrow> keyCreated E opts key (new @ h)"
  "secretWritten E name ns data h \<Longrightarrow> secretWritten E name ns data (new @ h)"
  by (induction new) auto

text \<open>Every request to revoke a key names the given one and comes after a successful creation of another.\<close>

definition revokesKey :: "call \<Rightarrow> bool" where
  "revokesKey c = (case c of OBJ (CDeleteObjectStorageKey _) \<Rightarrow> True | _ \<Rightarrow> False)"

abbreviation noRevoke :: "call \<Rightarrow> bool" where
  "noRevoke c \<equiv> \<not> revokesKey c"

fun revokesSafe :: "env \<Rightarrow> LinodeObjectStorageKey \<Rightarrow> hist \<Rightarrow> bool" where
  "revokesSafe E k [] = True"
| "revokesSafe E k (c # h) = (revokesSafe E k h \<and> (case c of
     OBJ (CDeleteObjectStorageKey i) \<Rightarrow> ky_AccessKeyRef (lok_Status k) = Some i \<and> (\<exists>key. keyCreated E (keyCreateOptions k) key h) | _ \<Rightarrow> True))"

lemma noRevoke_simps [simp]:
  "noRevoke (K8s x)" "noRevoke (Runtime r)" "noRevoke (OBJ (CCreateObjectStorageKey opts))" "noRevoke (OBJ (CGetObjectStorageBucket a b))"
  "noRevoke (OBJ (CGetObjectStorageKey i))" "\<not> noRevoke (OBJ (CDeleteObjectStorageKey i))"
  by (simp_all add: revokesKey_def)

lemma revokesSafe_adds: "adds noRevoke s t \<Longrightarrow> revokesSafe E k (tr s) \<Longrightarrow> revokesSafe E k (tr t)"
proof -
  have "revokesSafe E k (new @ h)" if "revokesSafe E k h" "\<forall>c\<in>set new. noRevoke c" for new h
    using that by (induction new) (auto simp: revokesKey_def split: call.splits obj_call.splits)
  then show "adds noRevoke s t \<Longrightarrow> revokesSafe E k (tr s) \<Longrightarrow> revokesSafe E k (tr t)" by (auto simp: adds_def)
qed

text \<open>Steps that change neither the metadata nor the ID of the key nor what decides about a rotation.\<close>

definition kyFixed :: "ObjectStorageKeyScope world \<Rightarrow> ObjectStorageKeyScope world \<Rightarrow> bool" where
  "kyFixed s t = (lok_Meta (kyOf t) = lok_Meta (kyOf s) \<and> lok_Spec (kyOf t) = lok_Spec (kyOf s)
     \<and> ky_AccessKeyRef (lok_Status (kyOf t)) = ky_AccessKeyRef (lok_Status (kyOf s))
     \<and> ky_LastKeyGeneration (lok_Status (kyOf t)) = ky_LastKeyGeneration (lok_Status (kyOf s)) \<and> adds noRevoke s t)"

interpretation kyf: preorder_rel kyFixed
  by unfold_locales (auto simp: kyFixed_def adds.refl intro: adds.trans)

lemma kyf_perform: "noRevoke c \<Longrightarrow> keeps kyFixed (perform c f)"
  by (simp add: keeps_def wp_perform kyFixed_def adds_def)

lemma kyf_modKey:
  "(\<And>k. lok_Meta (f k) = lok_Meta k \<and> lok_Spec (f k) = lok_Spec k \<and> ky_AccessKeyRef (lok_Status (f k)) = ky_AccessKeyRef (lok_Status k)
     \<and> ky_LastKeyGeneration (lok_Status (f k)) = ky_LastKeyGeneration (lok_Status k)) \<Longrightarrow> keeps kyFixed (modKey f)"
  by (simp add: keeps_def wp_update kyFixed_def adds_def)

lemmas kyf_rules = kyf.keeps_all kyf_perform kyf_modKey

lemma kyf_setFailure: "keeps kyFixed (ky_setFailure E r msg)"
  unfolding ky_setFailure_def kySetCondition_def by (intro kyf_rules; simp add: LinodeObjectStorageKey_SetCondition_def)+

lemma kyf_orFail: "keeps kyFixed m \<Longrightarrow> keeps kyFixed (orFail E reason m)"
  unfolding orFail_def by (intro kyf.keeps_all keeps_case kyf_setFailure)

lemma kyf_GenerateKeySecret: "keeps kyFixed (GenerateKeySecret E key)"
  unfolding GenerateKeySecret_def bucketTemplateData_def fillTemplate_def Let_def by (intro kyf_rules keeps_case; simp)+

lemma kyf_writeSecret: "keeps kyFixed (writeSecret E key)"
  unfolding writeSecret_def applySecret_def Let_def
  by (intro kyf_orFail kyf_GenerateKeySecret kyf_rules keeps_case; simp)+

lemma kyf_restoreKey: "keeps kyFixed (restoreKey E)"
  unfolding restoreKey_def GetObjectStorageKey_def Let_def by (intro kyf_orFail kyf_rules keeps_case; simp)+

text \<open>A failed step does nothing but record its failure.\<close>

lemma wp_orFail:
  assumes "wp m P s" and "\<And>e t u. P (Inl e) t \<Longrightarrow> kyFixed t u \<Longrightarrow> Q (Inl e) u" and "\<And>x t. P (Inr x) t \<Longrightarrow> Q (Inr x) t"
  shows "wp (orFail E reason m) Q s"
  unfolding orFail_def
proof (rule wp_seq [OF assms(1)])
  fix r t assume P: "P r t"
  show "wp (case r of Inl err \<Rightarrow> do { _ \<leftarrow> if err = ErrSentinel ErrPanic then ret () else ky_setFailure E reason (reason @ ''Failed''); ret (Inl err) }
      | Inr x \<Rightarrow> ret (Inr x)) Q t"
  proof (cases r)
    case (Inl e)
    have "wp (if e = ErrSentinel ErrPanic then ret () else ky_setFailure E reason (reason @ ''Failed'')) (\<lambda>_ u. kyFixed t u) t"
      by (intro keeps_wp keeps_case kyf.keeps_return kyf_setFailure)
    with Inl P assms(2) show ?thesis by (auto simp: wp_return intro!: wp_seq)
  next
    case (Inr x)
    with P assms(3) show ?thesis by (simp add: wp_return)
  qed
qed

subsection \<open>Deleting a key\<close>

definition keyKept :: "env \<Rightarrow> ObjectStorageKeyScope world \<Rightarrow> ObjectStorageKeyScope world \<Rightarrow> bool" where
  "keyKept E s t = (lok_Meta (kyOf t) = lok_Meta (kyOf s)
     \<or> (\<exists>i. ky_AccessKeyRef (lok_Status (kyOf s)) = Some i \<and> keyRevoked E i (tr t)))"

lemma wp_revokeKey:
  "wp (revokeKey E) (\<lambda>r t. lok_Meta (kyOf t) = lok_Meta (kyOf s) \<and>
     (case r of Inl _ \<Rightarrow> True | Inr _ \<Rightarrow> \<exists>i. ky_AccessKeyRef (lok_Status (kyOf s)) = Some i \<and> keyRevoked E i (tr t))) s"
  by (simp add: revokeKey_def RevokeObjectStorageKey_def wp_rules split: option.splits)

lemma adds_deleteRest:
  "keeps (adds (\<lambda>_. True)) (orFail E r (deleteForeignSecret E))" "keeps (adds (\<lambda>_. True)) (orFail E r (removeKeyFinalizer E))"
  unfolding orFail_def deleteForeignSecret_def removeKeyFinalizer_def ky_setFailure_def kySetCondition_def Let_def
  by (intro adds_rules keeps_case; simp)+

lemma keyRevoked_adds: "adds P s t \<Longrightarrow> keyRevoked E i (tr s) \<Longrightarrow> keyRevoked E i (tr t)"
  by (auto simp: adds_def intro: key_history_append)

lemma wp_ky_reconcileDelete: "wp (ky_reconcileDelete E) (\<lambda>_ t. keyKept E s t) s"
proof -
  let ?P = "\<lambda>(r :: unit res) t. case r of Inl _ \<Rightarrow> lok_Meta (kyOf t) = lok_Meta (kyOf s)
    | Inr _ \<Rightarrow> \<exists>i. ky_AccessKeyRef (lok_Status (kyOf s)) = Some i \<and> keyRevoked E i (tr t)"
  have 1: "wp (orFail E ''RevokeAccessKey'' (revokeKey E)) ?P s"
    by (rule wp_orFail [OF wp_revokeKey]) (auto simp: kyFixed_def)
  have rest: "keeps (adds (\<lambda>_. True)) (bindE (orFail E ''DeleteKeySecret'' (deleteForeignSecret E)) (\<lambda>_.
     bindE (orFail E ''RemoveFinalizer'' (removeKeyFinalizer E)) (\<lambda>_. removeOldKeyFinalizer E)))"
    unfolding removeOldKeyFinalizer_def by (intro adds_deleteRest adds_rules keeps_case; simp)+
  show ?thesis
    unfolding ky_reconcileDelete_def
    by (rule wp_seqE [OF 1], simp add: keyKept_def, rule wp_mono [OF keeps_wp [OF rest]])
      (auto simp: keyKept_def dest: keyRevoked_adds)
qed


subsection \<open>Creating and rotating a key\<close>

lemma wp_createObjectStorageKey:
  "wp (createObjectStorageKey E) (\<lambda>r t. kyFixed s t \<and> obj t = obj s \<and>
     (case r of Inl _ \<Rightarrow> True | Inr key \<Rightarrow> keyCreated E (keyCreateOptions (kyOf s)) key (tr t))) s"
  by (auto simp: createObjectStorageKey_def wp_rules kyFixed_def adds_def split: sum.splits)

lemma revokesSafe_Revoke:
  assumes "revokesSafe E k (tr s)" and "\<exists>key. keyCreated E (keyCreateOptions k) key (tr s)" and "kyOf s = k"
  shows "wp (RevokeObjectStorageKey E) (\<lambda>_ t. obj t = obj s \<and> revokesSafe E k (tr t) \<and> (\<exists>new. tr t = new @ tr s)) s"
  using assms by (auto simp: RevokeObjectStorageKey_def wp_rules split: option.splits)

text \<open>A rotation, when it succeeds, returns the key it created; it revokes nothing before that.\<close>

definition rotated :: "env \<Rightarrow> ObjectStorageKeyScope world \<Rightarrow> LObjectStorageKey res \<Rightarrow> ObjectStorageKeyScope world \<Rightarrow> bool" where
  "rotated E s r t = (obj t = obj s \<and> (revokesSafe E (kyOf s) (tr s) \<longrightarrow> revokesSafe E (kyOf s) (tr t)) \<and>
     (case r of Inl _ \<Rightarrow> True | Inr key \<Rightarrow> keyCreated E (keyCreateOptions (kyOf s)) key (tr t)))"

lemma wp_RotateObjectStorageKey: "wp (RotateObjectStorageKey E) (rotated E s) s"
  unfolding RotateObjectStorageKey_def
proof (rule wp_seqE [OF wp_createObjectStorageKey [of E s]])
  show "rotated E s (Inl e) t" if "kyFixed s t \<and> obj t = obj s \<and> (case Inl e of Inl _ \<Rightarrow> True | Inr key \<Rightarrow> keyCreated E (keyCreateOptions (kyOf s)) key (tr t))" for e t
    using that by (auto simp: rotated_def kyFixed_def intro: revokesSafe_adds)
  fix key t
  assume "kyFixed s t \<and> obj t = obj s \<and> (case Inr key of Inl _ \<Rightarrow> True | Inr key \<Rightarrow> keyCreated E (keyCreateOptions (kyOf s)) key (tr t))"
  then have o: "obj t = obj s" and c: "keyCreated E (keyCreateOptions (kyOf s)) key (tr t)"
    and r: "revokesSafe E (kyOf s) (tr s) \<longrightarrow> revokesSafe E (kyOf s) (tr t)"
    by (auto simp: kyFixed_def intro: revokesSafe_adds)
  have rev: "wp (RevokeObjectStorageKey E) (\<lambda>_ u. obj u = obj s \<and> (revokesSafe E (kyOf s) (tr s) \<longrightarrow> revokesSafe E (kyOf s) (tr u))
      \<and> keyCreated E (keyCreateOptions (kyOf s)) key (tr u)) t"
    using o c r by (auto simp: RevokeObjectStorageKey_def wp_rules split: option.splits)
  show "wp (do {
       k \<leftarrow> getKey;
       if ShouldInitKey k then ret (Inr key)
       else (case ShouldRotateKey k of
         Inl panic \<Rightarrow> ret (Inl panic)
       | Inr False \<Rightarrow> ret (Inr key)
       | Inr True \<Rightarrow> do { err \<leftarrow> RevokeObjectStorageKey E; ret (if err = Some (ErrSentinel ErrPanic) then Inl (ErrSentinel ErrPanic) else Inr key) })
     }) (rotated E s) t"
    unfolding wp_gets
    by (auto simp: wp_return rotated_def o c r split: sum.splits bool.splits intro!: wp_seq [OF rev])
qed

lemma newKey_safe:
  assumes "revokesSafe E (kyOf s) (tr s)"
  shows "wp (newKey E) (\<lambda>_ t. revokesSafe E (kyOf s) (tr t)) s"
proof -
  have "wp (orFail E ''ProvisionAccessKey'' (RotateObjectStorageKey E)) (\<lambda>_ t. revokesSafe E (kyOf s) (tr t)) s"
    using assms by (intro wp_orFail [OF wp_RotateObjectStorageKey]) (auto simp: rotated_def kyFixed_def intro: revokesSafe_adds)
  then show ?thesis
    unfolding newKey_def by (rule wp_seqE) (auto simp: wp_rules)
qed

lemma keyForSecret_safe:
  assumes "revokesSafe E k (tr s)" and "kyOf s = k"
  shows "wp (keyForSecret E) (\<lambda>_ t. revokesSafe E k (tr t)) s"
  using assms newKey_safe [of E s]
  by (auto simp: keyForSecret_def wp_rules kyFixed_def split: sum.splits bool.splits
      intro!: wp_mono [OF keeps_wp [OF kyf_restoreKey]] intro: revokesSafe_adds)

lemma revokesSafe_status:
  "ky_AccessKeyRef (lok_Status k) = ky_AccessKeyRef (lok_Status k') \<Longrightarrow> keyCreateOptions k = keyCreateOptions k' \<Longrightarrow> revokesSafe E k h = revokesSafe E k' h"
  by (induction h) (auto split: call.splits obj_call.splits)

lemma wp_ky_reconcileApply_safe:
  assumes "revokesSafe E (kyOf s) (tr s)"
  shows "wp (ky_reconcileApply E) (\<lambda>_ t. revokesSafe E (kyOf s) (tr t)) s"
proof -
  define u where "u = obj_update (ks_Key_update (lok_Status_update (ky_FailureMessage_update (\<lambda>_. None))))
    (obj_update (ks_Key_update (lok_Status_update (ky_Ready_update (\<lambda>_. False)))) s)"
  have eq: "revokesSafe E (kyOf u) = revokesSafe E (kyOf s)"
    by (rule ext, rule revokesSafe_status) (simp_all add: keyCreateOptions_def u_def)
  have "tr u = tr s" by (simp add: u_def)
  with keyForSecret_safe [of E "kyOf u" u] assms have 1: "wp (keyForSecret E) (\<lambda>_ t. revokesSafe E (kyOf s) (tr t)) u"
    unfolding eq by simp
  have rest: "wp (bindE (writeSecret E key) (\<lambda>_. keySynced E)) (\<lambda>_ t. revokesSafe E (kyOf s) (tr t)) t"
    if "revokesSafe E (kyOf s) (tr t)" for key t
    by (rule wp_seqE [OF keeps_wp [OF kyf_writeSecret]])
      (use that in \<open>auto simp: kyFixed_def keySynced_def kySetCondition_def wp_rules intro: revokesSafe_adds\<close>)
  show ?thesis
    unfolding ky_reconcileApply_def wp_bind wp_update u_def [symmetric] by (rule wp_seqE [OF 1], assumption, erule rest)
qed

text \<open>
  The data of the secret of an access key: its two halves or, with a format, one entry for each template of the format, filled
  in with the two halves and with what the service says of the first bucket of the key.
\<close>

definition needsNewKey :: "LinodeObjectStorageKey \<Rightarrow> bool" where
  "needsNewKey k = (ShouldInitKey k \<or> ShouldRotateKey k = Inr True)"

definition bucketShown :: "env \<Rightarrow> LinodeObjectStorageKey \<Rightarrow> hist \<Rightarrow> LBucket \<Rightarrow> bool" where
  "bucketShown E k h b = (\<exists>a as new h0. ky_BucketAccess (lok_Spec k) = a # as
     \<and> h = new @ OBJ (CGetObjectStorageBucket (ba_Region a) (ba_BucketName a)) # h0
     \<and> obe_GetBucket (obe E) h0 (ba_Region a) (ba_BucketName a) = (Some b, None))"

definition templateVars :: "LObjectStorageKey \<Rightarrow> LBucket \<Rightarrow> (string \<rightharpoonup> string)" where
  "templateVars key b = [''AccessKey'' \<mapsto> lky_AccessKey key, ''SecretKey'' \<mapsto> lky_SecretKey key, ''BucketName'' \<mapsto> lbk_Label b,
     ''BucketEndpoint'' \<mapsto> lbk_Hostname b, ''S3Endpoint'' \<mapsto> ''https://'' @ TrimPrefix (lbk_Hostname b) (lbk_Label b @ ''.'')]"

definition secretHolds :: "env \<Rightarrow> LinodeObjectStorageKey \<Rightarrow> LObjectStorageKey \<Rightarrow> hist \<Rightarrow> (string \<rightharpoonup> string) \<Rightarrow> bool" where
  "secretHolds E k key h data = (let format = gs_Format (ky_GeneratedSecret (lok_Spec k)) in
     if format = [] then data = [''access'' \<mapsto> lky_AccessKey key, ''secret'' \<mapsto> lky_SecretKey key]
     else \<exists>b. bucketShown E k h b \<and> dom data = fst ` set format
       \<and> (\<forall>(name, tmpl)\<in>set format. lib_TemplateExecute (lib E) tmpl (templateVars key b) = Inr (the (data name))))"

text \<open>Applying a key that is due: an error leaves it not ready and due; a success leaves it ready, recorded and with its secret written.\<close>

definition keyDelivered :: "env \<Rightarrow> LinodeObjectStorageKey \<Rightarrow> unit res \<Rightarrow> ObjectStorageKeyScope world \<Rightarrow> bool" where
  "keyDelivered E k r t = (case r of
     Inl _ \<Rightarrow> \<not> ky_Ready (lok_Status (kyOf t)) \<and> ky_LastKeyGeneration (lok_Status (kyOf t)) = ky_LastKeyGeneration (lok_Status k)
   | Inr _ \<Rightarrow> ky_Ready (lok_Status (kyOf t)) \<and> ky_LastKeyGeneration (lok_Status (kyOf t)) = ky_KeyGeneration (lok_Spec k) \<and> (\<exists>key data.
     keyCreated E (keyCreateOptions k) key (tr t)
     \<and> ky_AccessKeyRef (lok_Status (kyOf t)) = Some (lky_ID key)
     \<and> secretWritten E (gs_Name (ky_GeneratedSecret (lok_Spec k))) (gs_Namespace (ky_GeneratedSecret (lok_Spec k))) data (tr t)
     \<and> secretHolds E k key (tr t) data))"

text \<open>No step but the last makes the key ready or records its generation, and the last does not fail.\<close>

definition kyDue :: "ObjectStorageKeyScope world \<Rightarrow> ObjectStorageKeyScope world \<Rightarrow> bool" where
  "kyDue s t = (ky_Ready (lok_Status (kyOf t)) = ky_Ready (lok_Status (kyOf s))
     \<and> ky_LastKeyGeneration (lok_Status (kyOf t)) = ky_LastKeyGeneration (lok_Status (kyOf s)))"

interpretation kyd: preorder_rel kyDue
  by unfold_locales (auto simp: kyDue_def)

lemma kyd_perform: "keeps kyDue (perform c f)"
  by (simp add: keeps_def wp_perform kyDue_def)

lemma kyd_modKey:
  "(\<And>k. ky_Ready (lok_Status (f k)) = ky_Ready (lok_Status k) \<and> ky_LastKeyGeneration (lok_Status (f k)) = ky_LastKeyGeneration (lok_Status k))
    \<Longrightarrow> keeps kyDue (modKey f)"
  by (simp add: keeps_def wp_update kyDue_def)

lemmas kyd_rules = kyd.keeps_all kyd_perform kyd_modKey

lemma keeps_case_bool: "keeps I m \<Longrightarrow> keeps I n \<Longrightarrow> keeps I (case b of True \<Rightarrow> m | False \<Rightarrow> n)"
  by (cases b) simp_all

lemma kyd_orFail: "keeps kyDue m \<Longrightarrow> keeps kyDue (orFail E reason m)"
  unfolding orFail_def ky_setFailure_def kySetCondition_def LinodeObjectStorageKey_SetCondition_def by (intro kyd_rules keeps_case keeps_case_bool; simp)

lemma kyd_keyForSecret: "keeps kyDue (keyForSecret E)"
proof -
  have "keeps kyDue (RotateObjectStorageKey E)"
    unfolding RotateObjectStorageKey_def createObjectStorageKey_def RevokeObjectStorageKey_def Let_def by (intro kyd_rules keeps_case keeps_case_bool; simp)
  then show ?thesis
    unfolding keyForSecret_def newKey_def restoreKey_def GetObjectStorageKey_def Let_def by (intro kyd_orFail kyd_rules keeps_case keeps_case_bool; simp)
qed

lemma kyd_writeSecret: "keeps kyDue (writeSecret E key)"
  unfolding writeSecret_def applySecret_def GenerateKeySecret_def bucketTemplateData_def fillTemplate_def Let_def
  by (intro kyd_orFail kyd_rules keeps_case keeps_case_bool; simp)

lemma wp_ky_reconcileApply_due:
  "wp (ky_reconcileApply E) (\<lambda>r t. r \<noteq> Inr () \<longrightarrow> \<not> ky_Ready (lok_Status (kyOf t))
     \<and> ky_LastKeyGeneration (lok_Status (kyOf t)) = ky_LastKeyGeneration (lok_Status (kyOf s))) s"
proof -
  let ?u = "obj_update (ks_Key_update (lok_Status_update (ky_FailureMessage_update (\<lambda>_. None))))
    (obj_update (ks_Key_update (lok_Status_update (ky_Ready_update (\<lambda>_. False)))) s)"
  let ?Q = "\<lambda>r t. r \<noteq> Inr () \<longrightarrow> \<not> ky_Ready (lok_Status (kyOf t)) \<and> ky_LastKeyGeneration (lok_Status (kyOf t)) = ky_LastKeyGeneration (lok_Status (kyOf s))"
  have "wp (bindE (keyForSecret E) (\<lambda>key. bindE (writeSecret E key) (\<lambda>_. keySynced E))) ?Q ?u"
  proof (rule wp_seqE [OF keeps_wp [OF kyd_keyForSecret]])
    fix key t assume t: "kyDue ?u t"
    show "wp (bindE (writeSecret E key) (\<lambda>_. keySynced E)) ?Q t"
      by (rule wp_seqE [OF keeps_wp [OF kyd_writeSecret]]) (use t in \<open>auto simp: kyDue_def keySynced_def kySetCondition_def wp_rules\<close>)
  qed (simp add: kyDue_def)
  then show ?thesis unfolding ky_reconcileApply_def wp_bind wp_update .
qed

text \<open>The result of a step matters only when it succeeds.\<close>

definition onOk :: "('a \<Rightarrow> 's \<Rightarrow> bool) \<Rightarrow> 'a res \<Rightarrow> 's \<Rightarrow> bool" where
  "onOk Q r t = (case r of Inl _ \<Rightarrow> True | Inr x \<Rightarrow> Q x t)"

lemma wp_orFail_ok: "wp m (onOk Q) s \<Longrightarrow> wp (orFail E reason m) (onOk Q) s"
  by (erule wp_orFail) (simp_all add: onOk_def)

lemma wp_bindE_ok: "wp m (onOk P) s \<Longrightarrow> (\<And>x t. P x t \<Longrightarrow> wp (f x) (onOk Q) t) \<Longrightarrow> wp (bindE m f) (onOk Q) s"
  by (erule wp_seqE) (simp_all add: onOk_def)

lemma newKey_ok:
  "wp (newKey E) (onOk (\<lambda>x t. \<exists>key. x = Some key \<and> keyCreated E (keyCreateOptions (kyOf s)) key (tr t)
     \<and> ky_AccessKeyRef (lok_Status (kyOf t)) = Some (lky_ID key) \<and> lok_Spec (kyOf t) = lok_Spec (kyOf s))) s"
proof -
  have "wp (orFail E ''ProvisionAccessKey'' (RotateObjectStorageKey E))
      (onOk (\<lambda>key t. obj t = obj s \<and> keyCreated E (keyCreateOptions (kyOf s)) key (tr t))) s"
    by (intro wp_orFail_ok wp_mono [OF wp_RotateObjectStorageKey]) (auto simp: onOk_def rotated_def split: sum.splits)
  then show ?thesis
    unfolding newKey_def by (rule wp_bindE_ok) (auto simp: wp_rules onOk_def)
qed

text \<open>Filling in the templates, in any order.\<close>

lemma foldE_fillTemplate:
  assumes "distinct (map fst fs)" and "fst ` set fs \<inter> dom acc = {}"
  shows "wp (foldE (fillTemplate E vars) fs acc) (onOk (\<lambda>data t. t = s \<and> dom data = fst ` set fs \<union> dom acc \<and> (\<forall>x\<in>dom acc. data x = acc x)
     \<and> (\<forall>(name, tmpl)\<in>set fs. lib_TemplateExecute (lib E) tmpl vars = Inr (the (data name))))) s"
  using assms
proof (induction fs arbitrary: acc)
  case Nil
  then show ?case by (simp add: wp_return onOk_def)
next
  case (Cons f fs)
  obtain name tmpl where f: "f = (name, tmpl)" by (cases f)
  show ?case
  proof (cases "lib_TemplateParse (lib E) tmpl = None \<and> (\<exists>out. lib_TemplateExecute (lib E) tmpl vars = Inr out)")
    case True
    then obtain out where out: "lib_TemplateParse (lib E) tmpl = None" "lib_TemplateExecute (lib E) tmpl vars = Inr out" by blast
    have "wp (foldE (fillTemplate E vars) fs (acc(name \<mapsto> out))) (onOk (\<lambda>data t. t = s \<and> dom data = fst ` set fs \<union> dom (acc(name \<mapsto> out))
       \<and> (\<forall>x\<in>dom (acc(name \<mapsto> out)). data x = (acc(name \<mapsto> out)) x)
       \<and> (\<forall>(name, tmpl)\<in>set fs. lib_TemplateExecute (lib E) tmpl vars = Inr (the (data name))))) s"
      using Cons.prems by (intro Cons.IH) (force simp: f)+
    then show ?thesis
      using Cons.prems unfolding foldE.simps wp_bindE fillTemplate_def wp_return f
      by (simp add: out) (erule wp_mono, auto simp: onOk_def out split: sum.splits if_splits)
  next
    case False
    then show ?thesis by (auto simp: f fillTemplate_def wp_rules onOk_def split: option.split sum.split)
  qed
qed

lemma distinct_fst_permuteKeys: "distinct (map fst ks) \<Longrightarrow> distinct (map fst (permuteKeys p ks))"
  by (simp add: distinct_map)

lemma bucketShown_here:
  "ky_BucketAccess (lok_Spec k) = a # as \<Longrightarrow> obe_GetBucket (obe E) h (ba_Region a) (ba_BucketName a) = (Some b, None) \<Longrightarrow>
   bucketShown E k (OBJ (CGetObjectStorageBucket (ba_Region a) (ba_BucketName a)) # h) b"
  unfolding bucketShown_def by (metis append_Nil)

lemma bucketShown_append: "bucketShown E k h b \<Longrightarrow> bucketShown E k (new @ h) b"
  unfolding bucketShown_def by (metis append.assoc)

lemma secretHolds_append: "secretHolds E k key h data \<Longrightarrow> secretHolds E k key (new @ h) data"
  by (auto simp: secretHolds_def Let_def intro: bucketShown_append split: if_splits)

lemma GenerateKeySecret_ok:
  assumes "distinct (map fst (gs_Format (ky_GeneratedSecret (lok_Spec (kyOf s)))))"
  shows "wp (GenerateKeySecret E (Some key)) (onOk (\<lambda>sec t. kyFixed s t \<and> om_Name (sec_Meta sec) = gs_Name (ky_GeneratedSecret (lok_Spec (kyOf s)))
      \<and> om_Namespace (sec_Meta sec) = gs_Namespace (ky_GeneratedSecret (lok_Spec (kyOf s))) \<and> secretHolds E (kyOf s) key (tr t) (sec_Data sec))) s"
proof -
  let ?gs = "ky_GeneratedSecret (lok_Spec (kyOf s))"
  let ?Q = "onOk (\<lambda>sec t. kyFixed s t \<and> om_Name (sec_Meta sec) = gs_Name ?gs \<and> om_Namespace (sec_Meta sec) = gs_Namespace ?gs
      \<and> secretHolds E (kyOf s) key (tr t) (sec_Data sec))"
  let ?access = "[''AccessKey'' \<mapsto> lky_AccessKey key, ''SecretKey'' \<mapsto> lky_SecretKey key]"
  show ?thesis
  proof (cases "gs_Format ?gs = []")
    case True
    then show ?thesis
      by (auto simp: GenerateKeySecret_def secretHolds_def wp_rules onOk_def kyFixed_def adds_def split: sum.splits)
  next
    case False
    have bucket: "wp (bucketTemplateData E (lok_Spec (kyOf s))) (onOk (\<lambda>more t. kyFixed s t \<and> obj t = obj s \<and>
        (\<exists>b. bucketShown E (kyOf s) (tr t) b \<and> ?access ++ more = templateVars key b))) s"
      by (auto simp: bucketTemplateData_def templateVars_def wp_rules onOk_def kyFixed_def adds_def map_add_def fun_eq_iff
          split: list.split option.split prod.split intro!: exI bucketShown_here)
    have fill: "wp (foldE (fillTemplate E vars) (permuteKeys ps (gs_Format ?gs)) Map.empty)
       (onOk (\<lambda>data u. u = t \<and> dom data = fst ` set (gs_Format ?gs) \<and> (\<forall>(name, tmpl)\<in>set (gs_Format ?gs). lib_TemplateExecute (lib E) tmpl vars = Inr (the (data name))))) t"
      for ps vars t
      by (rule wp_mono [OF foldE_fillTemplate [OF distinct_fst_permuteKeys [OF assms]]]) (use assms in \<open>auto simp: onOk_def split: sum.splits\<close>)
    have filled: "wp (bindE (foldE (fillTemplate E (?access ++ more)) (permuteKeys ps (gs_Format ?gs)) Map.empty) (\<lambda>d. ret (out d))) ?Q u"
      if "kyFixed s u" "bucketShown E (kyOf s) (tr u) b" "?access ++ more = templateVars key b"
        "\<And>d sec. out d = Inr sec \<Longrightarrow> sec_Data sec = d \<and> om_Name (sec_Meta sec) = gs_Name ?gs \<and> om_Namespace (sec_Meta sec) = gs_Namespace ?gs"
      for more ps u b out
      by (rule wp_bindE_ok [OF fill])
        (use that False in \<open>auto simp: wp_return onOk_def secretHolds_def Let_def split: sum.split\<close>)
    show ?thesis
      unfolding GenerateKeySecret_def option.case wp_gets Let_def if_not_P [OF False]
    proof (rule wp_bindE_ok [OF bucket], elim conjE exE)
      fix more t b assume t: "kyFixed s t" "obj t = obj s" "bucketShown E (kyOf s) (tr t) b" "?access ++ more = templateVars key b"
      have "kyFixed t (t\<lparr>tr := Runtime MapKeys # tr t\<rparr>)" by (simp add: kyFixed_def adds_def revokesKey_def)
      then have u: "kyFixed s (t\<lparr>tr := Runtime MapKeys # tr t\<rparr>)" "bucketShown E (kyOf s) (Runtime MapKeys # tr t) b"
        using kyf.trans [OF t(1)] bucketShown_append [OF t(3), of "[Runtime MapKeys]"] by simp_all
      show "wp (do { format \<leftarrow> mapKeys E (gs_Format ?gs);
          bindE (foldE (fillTemplate E (?access ++ more)) format Map.empty) (\<lambda>d. ret (
            if gs_Namespace ?gs = om_Namespace (lok_Meta (kyOf s)) then
              (case lib_SetKeyControllerReference (lib E) (kyOf s) (meta0\<lparr>om_Name := gs_Name ?gs, om_Namespace := gs_Namespace ?gs\<rparr>) of
                 Inl err \<Rightarrow> Inl (ErrWrap (''could not set controller ref on access key secret '' @ gs_Name ?gs @ ''/'' @ gs_Namespace ?gs @ '': '') err)
               | Inr refs \<Rightarrow> Inr (\<lparr>sec_Meta = meta0\<lparr>om_Name := gs_Name ?gs, om_Namespace := gs_Namespace ?gs\<rparr>, sec_Type = gs_Type ?gs, sec_Data = d\<rparr>
                   \<lparr>sec_Meta := meta0\<lparr>om_Name := gs_Name ?gs, om_Namespace := gs_Namespace ?gs, om_OwnerReferences := refs\<rparr>\<rparr>))
            else Inr \<lparr>sec_Meta = meta0\<lparr>om_Name := gs_Name ?gs, om_Namespace := gs_Namespace ?gs\<rparr>, sec_Type = gs_Type ?gs, sec_Data = d\<rparr>)) }) ?Q t"
        unfolding wp_bind wp_perform
        by (rule filled [OF u(1)]) (use u(2) t(4) in \<open>auto split: if_splits sum.splits\<close>)
    qed
  qed
qed

lemma writeSecret_ok:
  assumes "distinct (map fst (gs_Format (ky_GeneratedSecret (lok_Spec (kyOf s)))))"
  shows "wp (writeSecret E (Some key)) (onOk (\<lambda>_ t. kyFixed s t \<and> (\<exists>data. secretHolds E (kyOf s) key (tr t) data \<and>
     secretWritten E (gs_Name (ky_GeneratedSecret (lok_Spec (kyOf s)))) (gs_Namespace (ky_GeneratedSecret (lok_Spec (kyOf s)))) data (tr t)))) s"
proof -
  have app: "wp (applySecret E sec) (onOk (\<lambda>_ u. kyFixed t u \<and> (\<exists>new. tr u = new @ tr t)
      \<and> secretWritten E (om_Name (sec_Meta sec)) (om_Namespace (sec_Meta sec)) (sec_Data sec) (tr u))) t" for sec t
    by (auto simp: applySecret_def wp_rules onOk_def kyFixed_def adds_def split: option.split)
  show ?thesis
    unfolding writeSecret_def
    by (simp, rule wp_bindE_ok [OF wp_orFail_ok [OF GenerateKeySecret_ok [OF assms]]], rule wp_orFail_ok, rule wp_mono [OF app])
      (auto simp: onOk_def intro: kyf.trans split: sum.splits, blast intro: secretHolds_append)
qed

lemma wp_ky_reconcileApply_delivers:
  assumes "needsNewKey (kyOf s)" and "distinct (map fst (gs_Format (ky_GeneratedSecret (lok_Spec (kyOf s)))))"
  shows "wp (ky_reconcileApply E) (keyDelivered E (kyOf s)) s"
proof -
  define u where "u = obj_update (ks_Key_update (lok_Status_update (ky_FailureMessage_update (\<lambda>_. None))))
    (obj_update (ks_Key_update (lok_Status_update (ky_Ready_update (\<lambda>_. False)))) s)"
  let ?k = "kyOf s" and ?gs = "ky_GeneratedSecret (lok_Spec (kyOf s))"
  have u: "needsNewKey (kyOf u)" "keyCreateOptions (kyOf u) = keyCreateOptions ?k" "lok_Spec (kyOf u) = lok_Spec ?k"
    using assms(1) by (simp_all add: u_def needsNewKey_def ShouldInitKey_def ShouldRotateKey_def keyCreateOptions_def cong: option.case_cong)
  have 1: "wp (keyForSecret E) (onOk (\<lambda>x t. \<exists>key. x = Some key \<and> keyCreated E (keyCreateOptions ?k) key (tr t)
     \<and> ky_AccessKeyRef (lok_Status (kyOf t)) = Some (lky_ID key) \<and> lok_Spec (kyOf t) = lok_Spec ?k)) u"
    using newKey_ok [of E u] u unfolding keyForSecret_def wp_gets by (auto simp: needsNewKey_def)
  have "wp (bindE (keyForSecret E) (\<lambda>key. bindE (writeSecret E key) (\<lambda>_. keySynced E))) (onOk (\<lambda>x t. keyDelivered E ?k (Inr x) t)) u"
  proof (rule wp_bindE_ok [OF 1], elim exE conjE)
    fix x t key assume x: "x = Some key" and c: "keyCreated E (keyCreateOptions ?k) key (tr t)"
      and r: "ky_AccessKeyRef (lok_Status (kyOf t)) = Some (lky_ID key)" and sp: "lok_Spec (kyOf t) = lok_Spec ?k"
    have "secretHolds E (kyOf t) = secretHolds E ?k" by (intro ext) (simp add: secretHolds_def bucketShown_def sp)
    then have 2: "wp (writeSecret E (Some key)) (onOk (\<lambda>_ v. kyFixed t v \<and> (\<exists>data. secretHolds E ?k key (tr v) data \<and>
       secretWritten E (gs_Name ?gs) (gs_Namespace ?gs) data (tr v)))) t"
      using writeSecret_ok [of t E key] assms(2) by (simp add: sp)
    have sync: "wp (keySynced E) (onOk (\<lambda>x t. keyDelivered E ?k (Inr x) t)) v"
      if "kyFixed t v" "secretHolds E ?k key (tr v) data" "secretWritten E (gs_Name ?gs) (gs_Namespace ?gs) data (tr v)" for v data
    proof -
      have "keyCreated E (keyCreateOptions ?k) key (tr v)" using that(1) c by (auto simp: kyFixed_def adds_def intro: key_history_append)
      then show ?thesis
        using that r sp secretHolds_append [OF that(2), of "[Runtime TimeNow]"]
        by (auto simp: keySynced_def kySetCondition_def wp_rules onOk_def keyDelivered_def kyFixed_def LinodeObjectStorageKey_SetCondition_def)
    qed
    show "wp (bindE (writeSecret E x) (\<lambda>_. keySynced E)) (onOk (\<lambda>x t. keyDelivered E ?k (Inr x) t)) t"
      unfolding x by (rule wp_bindE_ok [OF 2]) (elim conjE exE, rule sync)
  qed
  then have "wp (ky_reconcileApply E) (onOk (\<lambda>x t. keyDelivered E ?k (Inr x) t)) s"
    unfolding ky_reconcileApply_def wp_bind wp_update u_def .
  from wp_conjI [OF this wp_ky_reconcileApply_due] show ?thesis
    by (rule wp_mono) (auto simp: onOk_def keyDelivered_def split: sum.splits)
qed



section \<open>The properties\<close>

text \<open>
C13: Deleting a bucket: without \<open>forceDeleteBucket\<close> nothing but the API server is asked, so the bucket and its
objects stay; with it, the deletion ends without an error only after the request to delete the bucket
succeeded; and a deletion that ends with an error changes no finalizer.
\<close>

theorem bucket_deleted_when_forced: "wp (bk_reconcileDelete E) (bucketKept E s) s"
  by (rule wp_bk_reconcileDelete)

text \<open>
C14: Deleting a key keeps its finalizers unless the key it names was revoked or is unknown to the service.
\<close>

theorem key_finalizer_kept: "wp (ky_reconcileDelete E) (\<lambda>_ t. keyKept E s t) s"
  by (rule wp_ky_reconcileDelete)

text \<open>
C18: When a key is applied that is new or whose generation has changed, it is ready afterwards exactly when no error is reported. A
success means that a new access key was created with the options of the key, its ID is recorded, the generated secret
was accepted under its name with the two halves of this access key (or, with a format, with each template of the
format filled in from them and from the first bucket), and the generation is recorded, so that the next run creates
none. An error leaves the recorded generation as it was. The format is a map, so its names are distinct.
\<close>

theorem key_delivered:
  assumes "needsNewKey (kyOf s)" and "distinct (map fst (gs_Format (ky_GeneratedSecret (lok_Spec (kyOf s)))))"
  shows "wp (ky_reconcileApply E) (keyDelivered E (kyOf s)) s"
  using assms by (rule wp_ky_reconcileApply_delivers)

definition key1 :: LinodeObjectStorageKey where
  "key1 = \<lparr>lok_Meta = meta0\<lparr>om_Name := ''k'', om_Namespace := ''ns'', om_Finalizers := [ObjectStorageKeyFinalizer]\<rparr>,
     lok_Spec = \<lparr>ky_BucketAccess = [\<lparr>ba_BucketName = ''b'', ba_Permissions = ''read_only'', ba_Region = ''us-sea''\<rparr>], ky_CredentialsRef = None,
       ky_KeyGeneration = Some 0, ky_GeneratedSecret = \<lparr>gs_Name = ''k-obj-key'', gs_Namespace = ''ns'', gs_Type = ''Opaque'', gs_Format = []\<rparr>,
       ky_SecretType = [], ky_SecretDataFormat = []\<rparr>,
     lok_Status = \<lparr>ky_Conditions = [], ky_Ready = False, ky_FailureMessage = None, ky_FailureReason = None, ky_CreationTime = None,
       ky_LastKeyGeneration = None, ky_AccessKeyRef = None\<rparr>\<rparr>"

theorem key_delivered_witness: "wp (ky_reconcileApply env0) (keyDelivered env0 key1) (start \<lparr>ks_Key = key1\<rparr>)"
  using key_delivered [of "start \<lparr>ks_Key = key1\<rparr>" env0] by (simp add: needsNewKey_def ShouldInitKey_def key1_def)

text \<open>
C15: Applying a key revokes at most the key that was recorded before, and only after a new one was created.
\<close>

theorem key_revoked_last:
  assumes "revokesSafe E (kyOf s) (tr s)"
  shows "wp (ky_reconcileApply E) (\<lambda>_ t. revokesSafe E (kyOf s) (tr t)) s"
  using assms by (rule wp_ky_reconcileApply_safe)

theorem key_revoked_last_witness:
  "wp (ky_reconcileApply env0) (\<lambda>_ t. revokesSafe env0 key1 (tr t)) (start \<lparr>ks_Key = key1\<rparr>)"
  using key_revoked_last [of env0 "start \<lparr>ks_Key = key1\<rparr>"] by simp

text \<open>
A key whose access key was never created cannot be deleted: the nil ID is dereferenced, and every
attempt ends in a panic with the finalizer in place.
\<close>

theorem key_delete_panics:
  assumes "ky_AccessKeyRef (lok_Status (kyOf s)) = None"
  shows "wp (ky_reconcileDelete E) (\<lambda>r t. r = Inl (ErrSentinel ErrPanic) \<and> t = s) s"
  using assms by (simp add: ky_reconcileDelete_def orFail_def revokeKey_def RevokeObjectStorageKey_def wp_rules)

theorem key_delete_panics_witness:
  "wp (ky_reconcileDelete env0) (\<lambda>r t. r = Inl (ErrSentinel ErrPanic) \<and> t = start \<lparr>ks_Key = key1\<rparr>) (start \<lparr>ks_Key = key1\<rparr>)"
  by (rule key_delete_panics) (simp add: key1_def)

definition envNoSecret :: env where
  "envNoSecret = env0\<lparr>k8s := k8s0\<lparr>k_CreateOrUpdateSecret := (\<lambda>_ _. Some (ErrExt 403 ''forbidden'' None))\<rparr>\<rparr>"

definition createsKey :: "call \<Rightarrow> bool" where
  "createsKey c = (case c of OBJ (CCreateObjectStorageKey _) \<Rightarrow> True | _ \<Rightarrow> False)"

text \<open>
While the secret of a new key cannot be written, every reconciliation creates another access key and
revokes none: the first key stays valid and nothing names it any more.
\<close>

theorem key_leaked:
  "wp (do { _ \<leftarrow> ky_reconcile envNoSecret; ky_reconcile envNoSecret })
     (\<lambda>_ t. countOf createsKey (tr t) = 2 \<and> countOf revokesKey (tr t) = 0) (start \<lparr>ks_Key = key1\<rparr>)"
  by (simp add: ky_reconcile_def ky_reconcileBody_def KeyScope_SetCredentialRefToken_def KeyScope_AddFinalizer_def KeyScope_Close_def ky_reconcileApply_def
      keyForSecret_def newKey_def writeSecret_def applySecret_def GenerateKeySecret_def orFail_def ky_setFailure_def kySetCondition_def
      LinodeObjectStorageKey_SetCondition_def RotateObjectStorageKey_def createObjectStorageKey_def ShouldInitKey_def key1_def meta0_def
      envNoSecret_def env0_defs wp_rules countOf_def createsKey_def revokesKey_def)

definition bucket1 :: LinodeObjectStorageBucket where
  "bucket1 = \<lparr>lobj_Meta = meta0\<lparr>om_Name := ''b'', om_Namespace := ''ns'', om_Finalizers := [BucketFinalizer], om_DeletionTimestamp := Some 0\<rparr>,
     lobj_Spec = \<lparr>bk_Region = ''us-sea'', bk_ACL = ''private'', bk_CorsEnabled = False, bk_CredentialsRef = None,
       bk_AccessKeyRef = Some \<lparr>obr_Kind = [], obr_Namespace = ''ns'', obr_Name = ''k''\<rparr>, bk_ForceDeleteBucket = True\<rparr>,
     lobj_Status = \<lparr>bk_Conditions = [], bk_Ready = False, bk_FailureMessage = None, bk_FailureReason = None, bk_Hostname = None, bk_CreationTime = None\<rparr>\<rparr>"

definition envBucketGone :: env where
  "envBucketGone = env0\<lparr>k8s := k8s0\<lparr>k_GetSecret := (\<lambda>_ _. Inr \<lparr>sec_Meta = meta0, sec_Type = [], sec_Data = Map.empty\<rparr>)\<rparr>,
     s3e := s3e0\<lparr>s3_GetBucketVersioning := (\<lambda>_ _. Inl errNotFound)\<rparr>\<rparr>"

text \<open>
A bucket that is gone already is not let go: the failed request for its versioning status is taken for a
failed deletion, the finalizer stays, and the reconciliation ends without an error and without a retry.
\<close>

theorem bucket_gone_stuck:
  "wp (bk_reconcile envBucketGone) (\<lambda>out t. out = (noResult, None) \<and> om_Finalizers (lobj_Meta (bkOf t)) = [BucketFinalizer]) (start \<lparr>bs_Bucket = bucket1\<rparr>)"
  by (simp add: bk_reconcile_def bk_reconcileBody_def bk_reconcileDelete_def DeleteBucket_def createS3ClientWithAccessKey_def PurgeAllObjects_def
      wrapUnlessPanicE_def wrapUnlessPanic_def bkFailed_def bk_setFailure_def bkSetCondition_def LinodeObjectStorageBucket_SetCondition_def
      retryIfTransient_def IsRetryableError_def BucketScope_Close_def bucket1_def envBucketGone_def env0_defs errNotFound_def wp_rules)

end
