(* ===== verification/Conditions.thy ===== *)
theory Conditions
  imports PlacementGroup Firewall Vpc MachineProps ClusterProps ObjectStorageProps
begin

text \<open>
  The conditions in the status of a resource are a list that the API server treats as a map keyed by the type
  (\<open>+listType=map\<close>, \<open>+listMapKey=type\<close> in \<open>api/v1alpha2\<close>): a list with a type twice is rejected. The locale
  \<open>typed_status\<close> has the rules by which a handler is shown to keep the list well formed, whatever the services
  answer; it is interpreted on the scopes of the seven controllers that write conditions.
\<close>

section \<open>Handlers that keep the conditions well formed\<close>

locale typed_status =
  fixes conds :: "'o \<Rightarrow> Condition list"
begin

definition wfKept :: "'o world \<Rightarrow> 'o world \<Rightarrow> bool" where
  "wfKept s t = (conds_wf (conds (obj s)) \<longrightarrow> conds_wf (conds (obj t)))"

lemma wfKept_perform: "keeps wfKept (perform c f)"
  by (simp add: keeps_def wp_perform wfKept_def)

lemma wfKept_modify: "(\<And>w. conds_wf (conds (obj w)) \<Longrightarrow> conds_wf (conds (obj (f w)))) \<Longrightarrow> keeps wfKept (modify f)"
  by (simp add: keeps_def wp_update wfKept_def)

lemma wfKept_calm: "keeps (calm P) m \<Longrightarrow> keeps wfKept m"
  by (erule keeps_mono) (simp add: calm_def wfKept_def)

lemma wfKept_same: "keeps sameObj m \<Longrightarrow> keeps wfKept m"
  by (erule keeps_mono) (simp add: sameObj_def wfKept_def)

lemma wfKept_wp: "keeps wfKept m \<Longrightarrow> conds_wf (conds (obj s)) \<Longrightarrow> wp m (\<lambda>_ t. conds_wf (conds (obj t))) s"
  by (drule keeps_wp [where s = s], erule wp_mono) (simp add: wfKept_def)

end

sublocale typed_status \<subseteq> wfkept: preorder_rel wfKept
  by unfold_locales (simp_all add: wfKept_def)

context typed_status
begin

lemmas wfKept_rules = wfkept.keeps_all wfKept_perform wfKept_modify

lemma wfKept_runtime:
  "keeps wfKept (WithJitter E d)"
  "keeps wfKept (HasStaleCondition E rc d)"
  "keeps wfKept (withinDeletion E ts d)"
  "keeps wfKept (requeueLater E d)"
  "keeps wfKept (retryIfTransient E err)"
  unfolding WithJitter_def HasStaleCondition_def withinDeletion_def requeueLater_def retryIfTransient_def
  by (intro wfKept_rules keeps_case)+

end


section \<open>Placement groups, firewalls and VPCs\<close>

interpretation tpg: typed_status "\<lambda>s. pg_Conditions (lpg_Status (ps_LinodePlacementGroup s))" .
interpretation tfw: typed_status "\<lambda>s. fw_Conditions (lfw_Status (fs_LinodeFirewall s))" .
interpretation tvp: typed_status "\<lambda>s. vpc_Conditions (lv_Status (vs_LinodeVPC s))" .

lemma wf_pg_reconcile: "keeps tpg.wfKept (pg_reconcile E dt T)"
  unfolding pg_reconcile_def pg_reconcileBody_def pg_deferred_def pg_reconcileCreate_def reconcilePlacementGroup_def pg_reconcileDelete_def
    pg_deleteEmpty_def pgReleaseFinalizers_def pgRetryOr_def pgRemoveFinalizer_def pgReadyFalse_def PlacementGroupScope_AddFinalizer_def
    LinodePlacementGroup_SetCondition_def
  by (intro tpg.wfKept_rules keeps_case tpg.wfKept_runtime calm_scope_creds(7-9) [THEN tpg.wfKept_calm] calm_scope_close(3) [THEN tpg.wfKept_calm]; simp)

lemma wf_fw_reconcile: "keeps tfw.wfKept (fw_reconcile E T)"
  unfolding fw_reconcile_def fw_reconcileBody_def fw_deferred_def reconcileFirewall_def createFirewall_def updateFirewall_def fw_reconcileDelete_def
    fw_reconcileFailed_def fwSetCondition_def fwRemoveFinalizer_def FirewallScope_AddFinalizer_def LinodeFirewall_SetCondition_def
  by (intro tfw.wfKept_rules keeps_case tfw.wfKept_runtime calm_scope_creds(1-3) [THEN tfw.wfKept_calm] calm_scope_close(1) [THEN tfw.wfKept_calm]
      calm_processACL [THEN tfw.wfKept_calm]; simp)

lemma wf_vpc_reconcile: "keeps tvp.wfKept (vpc_reconcile E T)"
proof -
  have set: "keeps tvp.wfKept (vpcSetCondition E c)" "keeps tvp.wfKept (vpcReadyFalse E rs msg)" for c rs msg
    unfolding vpcSetCondition_def vpcReadyFalse_def LinodeVPC_SetCondition_def by (intro tvp.wfKept_rules; simp)+
  have del: "keeps tvp.wfKept (vpc_reconcileDelete E T)"
    unfolding vpc_reconcileDelete_def handleRetainedVPC_def handleRetainedSubnets_def deleteRetainedSubnet_def deleteVPCResources_def
      vpcReleaseFinalizers_def requeueIfAgain_def reconcileAgainOr_def vpcDeleting_def getVPC_def vpcRemoveFinalizer_def
    by (intro tvp.wfKept_rules keeps_case tvp.wfKept_runtime calm_scope_creds(4-6) [THEN tvp.wfKept_calm] set; simp)
  have rec: "keeps tvp.wfKept (reconcileVPC E)"
    unfolding reconcileVPC_def reconcileExistingVPC_def adoptSubnet_def by (intro tvp.wfKept_rules keeps_case; simp)
  show ?thesis
    unfolding vpc_reconcile_def vpc_reconcileBody_def vpc_deferred_def vpc_reconcileCreate_def vpc_reconcileUpdate_def
      vpcRequeueUnlessStale_def VPCScope_AddFinalizer_def
    by (intro tvp.wfKept_rules keeps_case tvp.wfKept_runtime calm_scope_creds(4-6) [THEN tvp.wfKept_calm] calm_scope_close(2) [THEN tvp.wfKept_calm]
        set del rec; simp)
qed


section \<open>Clusters\<close>

interpretation tlc: typed_status "\<lambda>s. lcs_Conditions (lc_Status (cs_LinodeCluster s))" .

lemma wf_DNS: "keeps tlc.wfKept (EnsureDNSEntries E operation)"
proof -
  have "keeps tlc.wfKept (processLinodeMachine E m ttl sub fst)" for m ttl sub fst
    unfolding processLinodeMachine_def isCapiMachineReady_def Let_def by (intro tlc.wfKept_rules keeps_case)
  then have collect: "keeps tlc.wfKept (collectDNS E ttl sub fst ms)" for ttl sub fst ms
    by (induction ms arbitrary: fst) (auto intro!: tlc.wfKept_rules split: prod.splits)
  have ak: "keeps tlc.wfKept (EnsureAkamaiDNSEntries E operation e)" for e
    unfolding EnsureAkamaiDNSEntries_def createAkamaiEntry_def deleteAkamaiEntry_def IsAkamaiDomainRecordOwner_def akGet_def akUpdate_def akDelete_def Let_def
    by (intro tlc.wfKept_rules keeps_case)
  have li: "keeps tlc.wfKept (EnsureLinodeDNSEntries E operation es)" for es
    unfolding EnsureLinodeDNSEntries_def GetDomainID_def deleteStaleLinodeEntries_def DeleteDomainRecord_def CreateDomainRecord_def
      IsLinodeDomainRecordOwner_def listDomainRecords_def deleteDomainRecordCall_def Let_def
    by (intro tlc.wfKept_rules keeps_case)
  show ?thesis
    unfolding EnsureDNSEntries_def getDNSEntriesToEnsure_def deleteStaleAkamaiEntries_def resetAkamaiType_def resetAkamaiRecord_def
      akGet_def akUpdate_def akDelete_def Let_def
    by (intro tlc.wfKept_rules keeps_case collect ak li; simp)
qed

lemma wf_nodes:
  "keeps tlc.wfKept (getSubnetID E)" "keeps tlc.wfKept (AddNodesToNB E m ns)" "keeps tlc.wfKept (DeleteNodesFromNB E)"
proof -
  show sub: "keeps tlc.wfKept (getSubnetID E)"
    unfolding getSubnetID_def Let_def by (intro tlc.wfKept_rules keeps_case)
  show "keeps tlc.wfKept (AddNodesToNB E m ns)"
    unfolding AddNodesToNB_def processAndCreateNodeBalancerNodes_def createNBNode_def Let_def
    by (intro tlc.wfKept_rules keeps_case sub; simp)
  show "keeps tlc.wfKept (DeleteNodesFromNB E)"
    unfolding DeleteNodesFromNB_def deleteNBNode_def Let_def by (intro tlc.wfKept_rules keeps_case; simp)
qed

lemma wf_lcSetCondition: "keeps tlc.wfKept (lcSetCondition E c)" "keeps tlc.wfKept (setFailureReason E rs msg)"
  unfolding setFailureReason_def lcSetCondition_def LinodeCluster_SetCondition_def by (intro tlc.wfKept_rules; simp)+

lemmas wf_cluster_rules = tlc.wfKept_rules keeps_case tlc.wfKept_runtime wf_lcSetCondition calm_ClusterScope_creds [THEN tlc.wfKept_calm]

lemma wf_c_reconcileCreate: "keeps tlc.wfKept (c_reconcileCreate E)"
  unfolding c_reconcileCreate_def handleNBCreate_def handleDNS_def setEndpoint_def EnsureNodeBalancer_def EnsureNodeBalancerConfigs_def
    nbVPCs_def nbFirewallID_def lb_getFirewallID_def getNBFromLabel_def createNBConfig_def Let_def
  by (intro wf_cluster_rules wf_nodes(1); simp)

lemma wf_c_reconcileDelete: "keeps tlc.wfKept (c_reconcileDelete E)"
  unfolding c_reconcileDelete_def deleteLoadBalancer_def deleteNB_def removeLB_def removeMachineFromDNS_def removeMachineFromNB_def
    lbDeleted_def lcRemoveFinalizer_def DeleteClusterIPs_def Let_def
  by (intro wf_cluster_rules wf_nodes wf_DNS; simp)

lemma wf_performPreflightChecks: "keeps tlc.wfKept (performPreflightChecks E T)"
  unfolding performPreflightChecks_def c_reconcilePreflightLinodeVPCCheck_def c_reconcilePreflightLinodeFirewallCheck_def
    notReady_def preflightDone_def fetchFailed_def Let_def
  by (intro wf_cluster_rules; simp)

lemma wf_c_reconcile: "keeps tlc.wfKept (c_reconcile E T)"
  unfolding c_reconcile_def c_reconcileBody_def c_deferred_def c_apply_def finishLB_def requeueUnlessStale_def addMachineToLB_def syncNBNodes_def
    deleteStaleNode_def ClusterScope_AddFinalizer_def Let_def
  by (intro wf_cluster_rules wf_nodes wf_DNS wf_c_reconcileCreate wf_c_reconcileDelete wf_performPreflightChecks; simp)


section \<open>Machines\<close>

interpretation tlm: typed_status "\<lambda>s. lms_Conditions (lm_Status (ms_LinodeMachine s))" .

lemma wf_tame: "keeps tame m \<Longrightarrow> keeps tlm.wfKept m"
  by (erule keeps_mono) (simp add: tame_def lmCore_def tlm.wfKept_def)

lemma wf_lmSetCondition: "keeps tlm.wfKept (lmSetCondition E c)"
  unfolding lmSetCondition_def LinodeMachine_SetCondition_def by (intro tlm.wfKept_rules; simp)

lemmas wf_machine_rules = tlm.wfKept_rules keeps_case tlm.wfKept_runtime wf_lmSetCondition calm_machineScope [THEN tlm.wfKept_calm]

lemma wf_steps:
  "keeps tlm.wfKept (stepDone E c r)"
  "keeps tlm.wfKept again \<Longrightarrow> keeps tlm.wfKept (stepFailed E T b c err again)"
  "keeps tlm.wfKept m \<Longrightarrow> keeps tlm.wfKept n \<Longrightarrow> keeps tlm.wfKept (preflight d m n)"
  unfolding stepDone_def stepFailed_def preflight_def by (intro wf_machine_rules; simp)+

lemma wf_configureDataDisks: "keeps tlm.wfKept (configureDataDisks E i devs)"
proof (induction devs)
  case (Cons d devs)
  obtain name sel upd where d: "d = (name, sel, upd)" by (cases d)
  show ?case unfolding d configureDataDisks.simps configureDisk_def
    by (intro wf_machine_rules Cons.IH; simp)
qed (auto intro: tlm.wfKept_rules)

lemma wf_instanceSteps:
  "keeps tlm.wfKept (reconcilePreflightConfigure E T i)"
  "keeps tlm.wfKept (reconcilePreflightBoot E T i)"
  "keeps tlm.wfKept (reconcilePreflightReady E T i)"
  unfolding reconcilePreflightConfigure_def configureDisks_def createDisks_def updateInstanceConfigProfile_def
    reconcilePreflightBoot_def reconcilePreflightReady_def
  by (intro wf_machine_rules wf_steps wf_configureDataDisks wf_tame [OF tame_instance(1)] wf_tame [OF tame_instance(2)]; simp)+

lemma wf_preflights:
  "keeps tlm.wfKept (preflightFirewall E T)"
  "keeps tlm.wfKept (reconcilePreflightVPC E T ref)"
  "keeps tlm.wfKept (reconcilePreflightMetadataSupportConfigure E)"
  unfolding preflightFirewall_def reconcilePreflightLinodeFirewallCheck_def checkFirewallID_def reconcilePreflightVPC_def validateVPC_def
    reconcilePreflightMetadataSupportConfigure_def
  by (intro wf_machine_rules wf_steps; simp add: Let_def; intro wf_machine_rules)+

lemma wf_reconcilePreflightCreate: "keeps tlm.wfKept (reconcilePreflightCreate E gz T)"
  unfolding reconcilePreflightCreate_def createInstance_def GetPostReqCounter_def retryAfterNow_def theCounter_def
  by (intro wf_machine_rules wf_steps wf_tame [OF tame_newCreateConfig]; simp)

lemma wf_m_reconcileCreate: "keeps tlm.wfKept (m_reconcileCreate E gz T)"
  unfolding m_reconcileCreate_def createAfterPreflight_def bootAndDone_def readyAndDone_def
  by (intro wf_machine_rules wf_steps wf_preflights wf_instanceSteps wf_reconcilePreflightCreate; simp)

lemma wf_m_reconcileUpdate: "keeps tlm.wfKept (m_reconcileUpdate E)"
  unfolding m_reconcileUpdate_def updateTail_def reconcileFirewallID_def
  by (intro wf_machine_rules wf_tame [OF tame_configParts(1)] wf_tame [OF tame_instance(3)] wf_tame [OF tame_instance(4)] wf_tame [OF tame_bootstrap(2)]; simp)

lemma wf_m_reconcile: "keeps tlm.wfKept (m_reconcile E gz T)"
proof -
  have del: "keeps tlm.wfKept (m_reconcileDelete E T)"
    unfolding m_reconcileDelete_def machineReleaseFinalizers_def by (intro wf_machine_rules wf_tame [OF tame_bootstrap(2)]; simp)
  have token: "keeps tlm.wfKept (MachineScope_SetCredentialRefToken E)"
    unfolding MachineScope_SetCredentialRefToken_def by (intro wf_machine_rules calm_setTokenFromRef [THEN tlm.wfKept_calm]; simp)
  show ?thesis
    unfolding m_reconcile_def m_reconcileBody_def m_deferred_def MachineScope_AddFinalizer_def
    by (intro wf_machine_rules del token wf_m_reconcileUpdate wf_m_reconcileCreate; simp)
qed


section \<open>Object storage\<close>

interpretation tbk: typed_status "\<lambda>s. bk_Conditions (lobj_Status (bs_Bucket s))" .
interpretation tky: typed_status "\<lambda>s. ky_Conditions (lok_Status (ks_Key s))" .

lemma wf_bk_reconcile: "keeps tbk.wfKept (bk_reconcile E)"
proof -
  have set: "keeps tbk.wfKept (bkSetCondition E c)" "keeps tbk.wfKept (bk_setFailure E rs msg)" for c rs msg
    unfolding bk_setFailure_def bkSetCondition_def LinodeObjectStorageBucket_SetCondition_def by (intro tbk.wfKept_rules; simp)+
  have fin: "keeps tbk.wfKept (bucketFinalizers E)"
    unfolding bucketFinalizers_def BucketScope_AddFinalizer_def AddAccessKeyRefFinalizer_def BucketScope_Close_def
    by (intro tbk.wfKept_rules keeps_case calm_updateKeyFinalizers [THEN tbk.wfKept_calm]; simp)
  have ens: "keeps tbk.wfKept (EnsureAndUpdateObjectStorageBucket E)"
    unfolding EnsureAndUpdateObjectStorageBucket_def updateBucketAccess_def by (intro tbk.wfKept_rules keeps_case; simp)
  have purge: "keeps tbk.wfKept (DeleteBucket E)"
    unfolding DeleteBucket_def wrapUnlessPanicE_def createS3ClientWithAccessKey_def getAccessKey_def
    by (intro tbk.wfKept_rules keeps_case same_Purge [THEN tbk.wfKept_same]; simp)
  show ?thesis
    unfolding bk_reconcile_def bk_reconcileBody_def bk_reconcileApply_def bk_reconcileDelete_def bucketReady_def bkFailed_def releaseBucket_def
      BucketScope_Close_def
    by (intro tbk.wfKept_rules keeps_case tbk.wfKept_runtime set fin ens purge calm_RemoveAccessKeyRefFinalizer [THEN tbk.wfKept_calm]; simp)
qed

lemma wf_ky_reconcile: "keeps tky.wfKept (ky_reconcile E)"
proof -
  have set: "keeps tky.wfKept (kySetCondition E c)" "keeps tky.wfKept (ky_setFailure E rs msg)" for c rs msg
    unfolding ky_setFailure_def kySetCondition_def LinodeObjectStorageKey_SetCondition_def by (intro tky.wfKept_rules; simp)+
  then have fail: "keeps tky.wfKept m \<Longrightarrow> keeps tky.wfKept (orFail E reason m)" for m reason
    unfolding orFail_def by (intro tky.wfKept_rules keeps_case keeps_case_bool; simp)
  have rotate: "keeps tky.wfKept (RotateObjectStorageKey E)" "keeps tky.wfKept (GetObjectStorageKey E)" "keeps tky.wfKept (RevokeObjectStorageKey E)"
    unfolding RotateObjectStorageKey_def createObjectStorageKey_def RevokeObjectStorageKey_def GetObjectStorageKey_def
    by (intro tky.wfKept_rules keeps_case keeps_case_bool; simp)+
  have secret: "keeps tky.wfKept (GenerateKeySecret E key)" for key
    unfolding GenerateKeySecret_def fillTemplate_def bucketTemplateData_def by (intro tky.wfKept_rules keeps_case keeps_case_bool; simp)
  have sync: "keeps tky.wfKept (ky_reconcileApply E)"
    unfolding ky_reconcileApply_def keyForSecret_def newKey_def restoreKey_def writeSecret_def applySecret_def keySynced_def
    by (intro tky.wfKept_rules keeps_case keeps_case_bool fail rotate secret set; simp)
  have del: "keeps tky.wfKept (ky_reconcileDelete E)"
    unfolding ky_reconcileDelete_def revokeKey_def deleteForeignSecret_def removeKeyFinalizer_def removeOldKeyFinalizer_def
    by (intro tky.wfKept_rules keeps_case keeps_case_bool fail rotate; simp)
  show ?thesis
    unfolding ky_reconcile_def ky_reconcileBody_def KeyScope_SetCredentialRefToken_def KeyScope_AddFinalizer_def KeyScope_Close_def
    by (intro tky.wfKept_rules keeps_case keeps_case_bool sync del calm_setTokenFromRef [THEN tky.wfKept_calm]; simp)
qed


section \<open>Properties\<close>

text \<open>
C25: Whatever the services answer, a reconciliation of any of the seven resources with conditions leaves a list of
conditions in which no type occurs twice, if it began with one; this is the list that its last request
writes back. The API server rejects any other list.
\<close>

theorem conditions_well_formed:
  "(conds_wf (lms_Conditions (lm_Status (lmOf m))) \<longrightarrow> wp (m_reconcile E gz T) (\<lambda>_ t. conds_wf (lms_Conditions (lm_Status (lmOf t)))) m) \<and>
   (conds_wf (lcs_Conditions (lc_Status (lcOf c))) \<longrightarrow> wp (c_reconcile E T) (\<lambda>_ t. conds_wf (lcs_Conditions (lc_Status (lcOf t)))) c) \<and>
   (conds_wf (vpc_Conditions (lv_Status (vpcOf v))) \<longrightarrow> wp (vpc_reconcile E T) (\<lambda>_ t. conds_wf (vpc_Conditions (lv_Status (vpcOf t)))) v) \<and>
   (conds_wf (fw_Conditions (lfw_Status (fwOf f))) \<longrightarrow> wp (fw_reconcile E T) (\<lambda>_ t. conds_wf (fw_Conditions (lfw_Status (fwOf t)))) f) \<and>
   (conds_wf (pg_Conditions (lpg_Status (pgOf p))) \<longrightarrow> wp (pg_reconcile E dt T) (\<lambda>_ t. conds_wf (pg_Conditions (lpg_Status (pgOf t)))) p) \<and>
   (conds_wf (bk_Conditions (lobj_Status (bs_Bucket (obj b)))) \<longrightarrow> wp (bk_reconcile E) (\<lambda>_ t. conds_wf (bk_Conditions (lobj_Status (bs_Bucket (obj t))))) b) \<and>
   (conds_wf (ky_Conditions (lok_Status (ks_Key (obj k)))) \<longrightarrow> wp (ky_reconcile E) (\<lambda>_ t. conds_wf (ky_Conditions (lok_Status (ks_Key (obj t))))) k)"
  by (intro conjI impI tlm.wfKept_wp [OF wf_m_reconcile] tlc.wfKept_wp [OF wf_c_reconcile] tvp.wfKept_wp [OF wf_vpc_reconcile]
      tfw.wfKept_wp [OF wf_fw_reconcile] tpg.wfKept_wp [OF wf_pg_reconcile] tbk.wfKept_wp [OF wf_bk_reconcile] tky.wfKept_wp [OF wf_ky_reconcile])

theorem conditions_well_formed_witness:
  "wp (m_reconcile env0 True 0) (\<lambda>_ t. conds_wf (lms_Conditions (lm_Status (lmOf t)))) (start scope1) \<and>
   wp (c_reconcile env0 0) (\<lambda>_ t. conds_wf (lcs_Conditions (lc_Status (lcOf t)))) (start cscope1) \<and>
   wp (vpc_reconcile env0 0) (\<lambda>_ t. conds_wf (vpc_Conditions (lv_Status (vpcOf t)))) (start vpcScope1) \<and>
   wp (fw_reconcile env0 0) (\<lambda>_ t. conds_wf (fw_Conditions (lfw_Status (fwOf t)))) (start fwScope1) \<and>
   wp (pg_reconcile env0 (\<lambda>_. []) 0) (\<lambda>_ t. conds_wf (pg_Conditions (lpg_Status (pgOf t)))) (start pgScope1) \<and>
   wp (bk_reconcile env0) (\<lambda>_ t. conds_wf (bk_Conditions (lobj_Status (bs_Bucket (obj t))))) (start \<lparr>bs_Bucket = bucket1\<rparr>) \<and>
   wp (ky_reconcile env0) (\<lambda>_ t. conds_wf (ky_Conditions (lok_Status (ks_Key (obj t))))) (start \<lparr>ks_Key = key1\<rparr>)"
  using conditions_well_formed [where m = "start scope1" and c = "start cscope1" and v = "start vpcScope1" and f = "start fwScope1" and p = "start pgScope1"
      and b = "start \<lparr>bs_Bucket = bucket1\<rparr>" and k = "start \<lparr>ks_Key = key1\<rparr>" and E = env0 and gz = True and T = 0 and dt = "\<lambda>_. []"]
  by (simp add: scope1_def lm1_def cscope1_defs vpcScope1_def fwScope1_def pgScope1_def bucket1_def key1_def conds_wf_def)

end
