(* ===== verification/ClusterRuns.thy ===== *)
theory ClusterRuns
  imports ClusterProps Runs
begin

text \<open>
  Sequences of reconciliations of one cluster: they are granted at most one NodeBalancer, since the ID in the
  spec guards the creation. The rules are those of the locale \<open>creator\<close>. An ID of zero counts as none, as in
  \<open>EnsureNodeBalancer\<close>.
\<close>

section \<open>Granted NodeBalancers\<close>

fun nbMade :: "env \<Rightarrow> hist \<Rightarrow> nat" where
  "nbMade E [] = 0"
| "nbMade E (c # h) = (case c of
     NB (CCreateNodeBalancer opts) \<Rightarrow> (case nbe_CreateNodeBalancer (nbe E) h opts of (Some nb, None) \<Rightarrow> of_bool (lnb_ID nb \<noteq> 0) | _ \<Rightarrow> 0)
   | _ \<Rightarrow> 0) + nbMade E h"

definition nbIdent :: "ClusterScope \<Rightarrow> int option" where
  "nbIdent s = (case net_NodeBalancerID (netOf (cs_LinodeCluster s)) of None \<Rightarrow> None | Some i \<Rightarrow> if i = 0 then None else Some i)"

abbreviation clusterDeleted :: "ClusterScope \<Rightarrow> gotime option" where
  "clusterDeleted s \<equiv> om_DeletionTimestamp (lc_Meta (cs_LinodeCluster s))"

interpretation clr: creator createsNB "nbMade E" nbIdent clusterDeleted for E
  by unfold_locales (auto simp: createsNB_def split: call.splits nb_call.splits)

text \<open>The answer to a request for a NodeBalancer by its ID has this ID.\<close>

definition nbHonest :: "env \<Rightarrow> bool" where
  "nbHonest E = (\<forall>h i nb. nbe_GetNodeBalancer (nbe E) h i = (Some nb, None) \<longrightarrow> lnb_ID nb = i)"

lemma begun_nodeStep: "keeps nodeStep m \<Longrightarrow> keeps clr.begun m"
  by (erule keeps_mono) (simp add: nodeStep_def lbStep_def lbView_def clr.begun_def nbIdent_def)

lemma begun_modLC:
  "(\<And>lc. om_DeletionTimestamp (lc_Meta (f lc)) = om_DeletionTimestamp (lc_Meta lc) \<and> net_NodeBalancerID (netOf (f lc)) = net_NodeBalancerID (netOf lc))
    \<Longrightarrow> keeps clr.begun (modLC f)"
  by (rule clr.begun_modObj) (simp add: nbIdent_def)

lemmas begun_rules = clr.beginning.keeps_all clr.begun_perform begun_modLC

lemma begun_conditions: "keeps clr.begun (lcSetCondition E c)" "keeps clr.begun (setFailureReason E r msg)"
  "keeps clr.begun (WithJitter E d)" "keeps clr.begun (HasStaleCondition E co d)" "keeps clr.begun (requeueLater E d)"
  "keeps clr.begun (retryIfTransient E err)"
  unfolding lcSetCondition_def setFailureReason_def LinodeCluster_SetCondition_def WithJitter_def HasStaleCondition_def requeueLater_def
    retryIfTransient_def
  by (intro begun_rules keeps_case; simp)+

lemma begun_requeue: "keeps clr.begun (requeueUnlessStale E T err)"
  unfolding requeueUnlessStale_def by (intro begun_rules begun_conditions keeps_case)

lemma begun_preflight: "keeps clr.begun (performPreflightChecks E T)"
  unfolding performPreflightChecks_def c_reconcilePreflightLinodeVPCCheck_def c_reconcilePreflightLinodeFirewallCheck_def
    fetchFailed_def notReady_def preflightDone_def Let_def
  by (intro begun_rules keeps_case begun_conditions; simp)

lemmas begun_creds = calm_ClusterScope_creds [THEN clr.begun_calm, OF isK8s_noNB]

lemma begun_AddFinalizer: "keeps clr.begun (ClusterScope_AddFinalizer E)"
  unfolding ClusterScope_AddFinalizer_def Let_def by (intro begun_rules keeps_case begun_creds; simp)

lemma begun_finishLB: "keeps clr.begun (finishLB E)"
  unfolding finishLB_def
  by (intro begun_rules keeps_case begun_conditions begun_nodeStep [OF nodeStep_addMachineToLB]; simp)

lemma begun_configs: "keeps clr.begun (EnsureNodeBalancerConfigs E)"
  unfolding EnsureNodeBalancerConfigs_def createNBConfig_def by (intro begun_rules keeps_case; simp)

lemma begun_handleDNS: "keeps clr.begun handleDNS"
  unfolding handleDNS_def setEndpoint_def Let_def by (intro begun_rules; simp)

lemma begun_subnet: "keeps clr.begun (nbVPCs E)" "keeps clr.begun (nbFirewallID E)"
  by (intro begun_nodeStep nodeStep_subnet)+

lemma begun_getNBFromLabel: "keeps clr.begun (getNBFromLabel E)"
  unfolding getNBFromLabel_def Let_def by (intro begun_rules keeps_case; simp)


section \<open>Creating the NodeBalancer\<close>

definition ensured :: "env \<Rightarrow> ClusterScope world \<Rightarrow> LNodeBalancer option res \<Rightarrow> ClusterScope world \<Rightarrow> bool" where
  "ensured E s r t = (nbMade E (tr t) = nbMade E (tr s) \<or> nbMade E (tr t) = Suc (nbMade E (tr s)) \<and> (\<exists>nb. r = Inr (Some nb) \<and> lnb_ID nb \<noteq> 0))"

lemma ensured_begun: "clr.begun s t \<Longrightarrow> ensured E s r t"
  by (auto simp: ensured_def clr.begun_def dest: clr.count_adds)

lemma wp_EnsureNodeBalancer: "wp (EnsureNodeBalancer E) (ensured E s) s"
proof -
  have request: "wp (do {
       (nb, err) \<leftarrow> perform (NB (CCreateNodeBalancer opts)) (\<lambda>h. nbe_CreateNodeBalancer (nbe E) h opts);
       case err of
         None \<Rightarrow> ret (Inr nb)
       | Some e \<Rightarrow>
           if lib_ErrHasStatus (lib E) err [StatusBadRequest] \<and> strings_Contains (errText e) ''Label must be unique''
           then getNBFromLabel E
           else ret (Inl e)
     }) (ensured E s) t" if t: "clr.begun s t" for opts t
  proof -
    have count: "nbMade E (tr t) = nbMade E (tr s)" using t by (auto simp: clr.begun_def dest: clr.count_adds)
    have label: "wp (getNBFromLabel E) (ensured E s) (t\<lparr>tr := NB (CCreateNodeBalancer opts) # tr t\<rparr>)"
      if "nbe_CreateNodeBalancer (nbe E) (tr t) opts = (nb, Some e)" for nb e
      by (rule wp_mono [OF keeps_wp [OF begun_getNBFromLabel]])
        (use count that in \<open>auto simp: ensured_def clr.begun_def dest!: clr.count_adds [where E = E] split: option.splits\<close>)
    show ?thesis
      by (cases "nbe_CreateNodeBalancer (nbe E) (tr t) opts")
        (use count label in \<open>auto simp: wp_rules ensured_def split: option.split\<close>)
  qed
  show ?thesis
    unfolding EnsureNodeBalancer_def wp_gets Let_def
  proof (rule wp_ifI)
    show "wp (do {
       (nb, err) \<leftarrow> perform (NB (CGetNodeBalancer i)) (\<lambda>h. nbe_GetNodeBalancer (nbe E) h i);
       ret (case err of Some e \<Rightarrow> Inl e | None \<Rightarrow> Inr nb)
     }) (ensured E s) s" for i
      by (auto simp: wp_rules ensured_def split: prod.split)
  next
    have err: "clr.begun s t \<Longrightarrow> ensured E s (Inl e) t" for e t by (rule ensured_begun)
    show "wp (bindE (nbVPCs E) (\<lambda>vpcs. bindE (nbFirewallID E) (\<lambda>firewallID. do {
       (nb, err) \<leftarrow> perform (NB (CCreateNodeBalancer (f vpcs firewallID))) (\<lambda>h. nbe_CreateNodeBalancer (nbe E) h (f vpcs firewallID));
       case err of
         None \<Rightarrow> ret (Inr nb)
       | Some e \<Rightarrow>
           if lib_ErrHasStatus (lib E) err [StatusBadRequest] \<and> strings_Contains (errText e) ''Label must be unique''
           then getNBFromLabel E
           else ret (Inl e)
     }))) (ensured E s) s" for f
      by (rule wp_seqE [OF keeps_wp [OF begun_subnet(1)]], erule err, rule wp_seqE [OF keeps_wp [OF begun_subnet(2)]])
        (blast intro: err request clr.begun_trans)+
  qed
qed

lemma wp_EnsureNodeBalancer_owned:
  assumes "nbHonest E" and "nbIdent (obj s) = Some i"
  shows "wp (EnsureNodeBalancer E) (\<lambda>r t. clr.begun s t \<and> (\<forall>nb. r = Inr (Some nb) \<longrightarrow> lnb_ID nb = i)) s"
proof -
  have "net_NodeBalancerID (netOf (lcOf s)) = Some i" "i \<noteq> 0" using assms(2) by (auto simp: nbIdent_def split: option.splits if_splits)
  with assms(1) show ?thesis
    by (auto simp: EnsureNodeBalancer_def wp_rules Let_def nbHonest_def clr.begun_def adds_def split: prod.split option.split)
qed

text \<open>The rest of \<open>handleNBCreate\<close>, when the ID is in the spec.\<close>

definition withConfigs :: "env \<Rightarrow> LNodeBalancer \<Rightarrow> (ClusterScope, unit res) op" where
  "withConfigs E nb =
     bindE (EnsureNodeBalancerConfigs E) (\<lambda>configs. do {
       _ \<leftarrow> modLC (lc_Spec_update (lcs_Network_update (net_ApiserverNodeBalancerConfigID_update (\<lambda>_. Some (ncf_ID (hd configs))))));
       _ \<leftarrow> modLC (lc_Spec_update (lcs_Network_update (net_AdditionalPorts_update
              (\<lambda>_. map (\<lambda>c. \<lparr>nbp_Port = ncf_Port c, nbp_NodeBalancerConfigID = Some (ncf_ID c)\<rparr>) (tl configs)))));
       case lnb_IPv4 nb of
         None \<Rightarrow> ret (Inl (ErrSentinel ErrPanic))
       | Some ip \<Rightarrow> do { _ \<leftarrow> setEndpoint ip (ncf_Port (hd configs)); ret (Inr ()) }
     })"

lemma begun_withConfigs: "keeps clr.begun (withConfigs E nb)"
  unfolding withConfigs_def setEndpoint_def by (intro begun_rules keeps_case begun_configs; simp)

lemma handleNBCreate_parts:
  "handleNBCreate E = bindE (EnsureNodeBalancer E) (\<lambda>linodeNB. case linodeNB of
     None \<Rightarrow> ret (Inl (ErrNew ''nodeBalancer created was nil''))
   | Some nb \<Rightarrow> do {
       _ \<leftarrow> modLC (lc_Spec_update (lcs_Network_update (net_NodeBalancerID_update (\<lambda>_. Some (lnb_ID nb)))));
       withConfigs E nb
     })"
  unfolding handleNBCreate_def withConfigs_def Let_def by (rule refl)

lemma grows_handleNBCreate: "clr.grows E (handleNBCreate E)"
  unfolding clr.grows_def handleNBCreate_parts
proof (intro allI, rule wp_seqE [OF wp_EnsureNodeBalancer])
  fix s t e assume "ensured E s (Inl e) t"
  then show "clr.grew E s t" by (simp add: ensured_def clr.grew_def)
next
  fix s t nbo assume t: "ensured E s (Inr nbo) t"
  show "wp (case nbo of
     None \<Rightarrow> ret (Inl (ErrNew ''nodeBalancer created was nil''))
   | Some nb \<Rightarrow> do {
       _ \<leftarrow> modLC (lc_Spec_update (lcs_Network_update (net_NodeBalancerID_update (\<lambda>_. Some (lnb_ID nb)))));
       withConfigs E nb
     }) (\<lambda>_ u. clr.grew E s u) t"
  proof (cases nbo)
    case None
    with t show ?thesis by (simp add: wp_return ensured_def clr.grew_def)
  next
    case (Some nb)
    have "clr.grew E s u" if "clr.begun (obj_update (cs_LinodeCluster_update (lc_Spec_update (lcs_Network_update (net_NodeBalancerID_update (\<lambda>_. Some (lnb_ID nb)))))) t) u" for u
      using t Some that by (auto simp: ensured_def clr.grew_def clr.begun_def nbIdent_def dest!: clr.count_adds [where E = E])
    with Some show ?thesis
      by (simp add: wp_bind wp_update) (rule wp_mono [OF keeps_wp [OF begun_withConfigs]], simp)
  qed
qed

lemma settles_handleNBCreate:
  assumes "nbHonest E" and "nbIdent (obj s) \<noteq> None"
  shows "clr.settles s (handleNBCreate E)"
  unfolding clr.settles_def handleNBCreate_parts
proof (intro allI impI)
  fix t assume st: "clr.begun s t"
  obtain i where i: "nbIdent (obj t) = Some i" using assms(2) st by (auto simp: clr.begun_def)
  have set: "clr.begun s (obj_update (cs_LinodeCluster_update (lc_Spec_update (lcs_Network_update (net_NodeBalancerID_update (\<lambda>_. Some i))))) u)"
    if "clr.begun t u" for u
  proof -
    have "i \<noteq> 0" using i by (auto simp: nbIdent_def split: option.splits if_splits)
    with clr.begun_trans [OF st that] i that show ?thesis by (auto simp: clr.begun_def nbIdent_def adds_def)
  qed
  show "wp (bindE (EnsureNodeBalancer E) (\<lambda>linodeNB. case linodeNB of
     None \<Rightarrow> ret (Inl (ErrNew ''nodeBalancer created was nil''))
   | Some nb \<Rightarrow> do {
       _ \<leftarrow> modLC (lc_Spec_update (lcs_Network_update (net_NodeBalancerID_update (\<lambda>_. Some (lnb_ID nb)))));
       withConfigs E nb
     })) (\<lambda>_ u. clr.settled s u) t"
  proof (rule wp_seqE [OF wp_EnsureNodeBalancer_owned [OF assms(1) i]])
    fix u nbo assume u: "clr.begun t u \<and> (\<forall>nb. (Inr nbo :: LNodeBalancer option res) = Inr (Some nb) \<longrightarrow> lnb_ID nb = i)"
    show "wp (case nbo of
       None \<Rightarrow> ret (Inl (ErrNew ''nodeBalancer created was nil''))
     | Some nb \<Rightarrow> do {
         _ \<leftarrow> modLC (lc_Spec_update (lcs_Network_update (net_NodeBalancerID_update (\<lambda>_. Some (lnb_ID nb)))));
         withConfigs E nb
       }) (\<lambda>_ u. clr.settled s u) u"
    proof (cases nbo)
      case None
      with u show ?thesis by (simp add: wp_return clr.begun_settled clr.begun_trans [OF st])
    next
      case (Some nb)
      from u have nb: "lnb_ID nb = i" and tu: "clr.begun t u" by (simp_all add: Some)
      show ?thesis
        unfolding Some option.case wp_bind wp_update nb
        by (rule wp_mono [OF keeps_wp [OF begun_withConfigs]]) (rule clr.begun_settled [OF clr.begun_trans [OF set [OF tu]]])
    qed
  qed (use st in \<open>blast intro: clr.begun_settled clr.begun_trans\<close>)
qed

lemma grows_c_reconcileCreate: "clr.grows E (c_reconcileCreate E)"
  unfolding c_reconcileCreate_def
  by (rule clr.grows_before clr.holds_adds [OF clr.begun_holds] begun_creds clr.grows_cases clr.grows_if grows_handleNBCreate clr.grows_keeps
      adds.keeps_bind begun_conditions begun_handleDNS adds.keeps_return adds.keeps_get | simp)+

lemma settles_c_reconcileCreate:
  assumes "nbHonest E" and "nbIdent (obj s) \<noteq> None"
  shows "clr.settles s (c_reconcileCreate E)"
proof -
  have failed: "clr.settles s (do { _ \<leftarrow> setFailureReason E r msg; ret x })" for r msg and x :: "unit res"
    by (intro clr.settles_keeps clr.beginning.keeps_all begun_conditions)
  have lb: "clr.settles s (do { lc \<leftarrow> csLC; if net_LoadBalancerType (netOf lc) = lbTypeDNS then do { _ \<leftarrow> handleDNS; ret (Inr ()) } else handleNBCreate E })"
    by (intro clr.settles_gets clr.settles_if settles_handleNBCreate assms clr.settles_keeps clr.beginning.keeps_all begun_handleDNS)
  show ?thesis
    unfolding c_reconcileCreate_def
  proof (rule clr.settles_bind [OF begun_creds(1)])
    show "clr.settles s (case e of
         Some err \<Rightarrow> do { _ \<leftarrow> setFailureReason E CreateError (errText err); ret (Inl err) }
       | None \<Rightarrow> do {
           lc \<leftarrow> csLC;
           if net_LoadBalancerType (netOf lc) = lbTypeDNS then do { _ \<leftarrow> handleDNS; ret (Inr ()) } else handleNBCreate E
         })" for e
      by (cases e) (simp_all only: option.case lb failed)
  qed
qed


section \<open>The reconciler\<close>

lemma begun_afterCreate: "keeps clr.begun (case r of Inl err \<Rightarrow> requeueUnlessStale E T err | Inr _ \<Rightarrow> finishLB E)"
  by (intro keeps_case begun_requeue begun_finishLB)

lemma grows_c_apply: "clr.grows E (c_apply E T)"
proof -
  have read: "keeps (adds P) csLC" for P by (intro adds_rules)
  show ?thesis
    unfolding c_apply_def
    by (intro clr.grows_before [OF clr.holds_adds [OF clr.begun_holds [OF begun_AddFinalizer]]] clr.grows_if
        clr.grows_before [OF clr.holds_adds [OF clr.begun_holds [OF begun_preflight]]] clr.grows_before [OF read]
        clr.grows_after [OF grows_c_reconcileCreate clr.begun_holds [OF begun_afterCreate]]
        clr.grows_keeps [OF clr.holds_adds [OF clr.begun_holds [OF begun_finishLB]]] clr.grows_keeps [OF adds.keeps_return])
qed

lemma settles_c_apply:
  assumes "nbHonest E" and "nbIdent (obj s) \<noteq> None"
  shows "clr.settles s (c_apply E T)"
  unfolding c_apply_def
  by (intro clr.settles_bind [OF begun_AddFinalizer] clr.settles_if clr.settles_bind [OF begun_preflight] clr.settles_gets
      clr.settles_then [OF settles_c_reconcileCreate [OF assms] clr.begun_holds [OF begun_afterCreate]]
      clr.settles_keeps [OF begun_finishLB] clr.settles_keeps [OF clr.beginning.keeps_return] disjI2 assms)

lemma begun_c_deferred: "keeps clr.begun (c_deferred E out)"
  unfolding c_deferred_def by (intro begun_rules begun_creds)

lemma noNB_deletion: "keeps (adds noNB) (do { r \<leftarrow> c_reconcileDelete E; case r of Inl err \<Rightarrow> requeueUnlessStale E T err | Inr _ \<Rightarrow> ret (noResult, None) })"
  by (intro adds_rules keeps_case noNB_c_reconcileDelete clr.holds_adds [OF clr.begun_holds [OF begun_requeue]])

lemma begun_machines: "keeps clr.begun (modObj (cs_LinodeMachines_update f))"
  by (rule clr.begun_modObj) (simp add: nbIdent_def)

lemma grows_c_reconcile: "clr.grows E (c_reconcile E T)"
proof -
  note calmly = clr.holds_adds [OF clr.begun_holds]
  have read: "keeps (adds P) csLC" "keeps (adds P) getObj" for P by (intro adds_rules)+
  have "clr.grows E (c_reconcileBody E T)"
    unfolding c_reconcileBody_def Let_def
    by (intro clr.grows_before [OF read(1)] clr.grows_before [OF read(2)] clr.grows_before [OF adds_perform] clr.grows_cases clr.grows_if
        clr.grows_before [OF calmly [OF begun_machines]] clr.grows_before [OF calmly [OF begun_creds(3)]]
        clr.grows_keeps [OF adds.keeps_return] clr.grows_keeps [OF noNB_deletion] grows_c_apply; simp)
  then have body: "clr.grows E (do { out \<leftarrow> c_reconcileBody E T; c_deferred E out })"
    by (rule clr.grows_after) (rule clr.begun_holds [OF begun_c_deferred])
  show ?thesis
    unfolding c_reconcile_def by (rule clr.grows_before adds_modify body | simp)+
qed

lemma settles_c_reconcile:
  assumes "nbHonest E" and some: "clusterDeleted (obj s) \<noteq> None \<or> nbIdent (obj s) \<noteq> None"
  shows "clr.settles s (c_reconcile E T)"
proof -
  have same: "clusterDeleted (obj t) = clusterDeleted (obj s)" if "clr.begun s t" for t
    using that by (simp add: clr.begun_def)
  have branch: "clr.settles s (do {
       lc \<leftarrow> csLC;
       if om_DeletionTimestamp (lc_Meta lc) \<noteq> None then do {
         r \<leftarrow> c_reconcileDelete E;
         case r of Inl err \<Rightarrow> requeueUnlessStale E T err | Inr _ \<Rightarrow> ret (noResult, None)
       }
       else c_apply E T
     })"
    by (intro clr.settles_gets clr.settles_if clr.settles_deleting noNB_deletion settles_c_apply assms(1)) (use some in \<open>simp_all add: same\<close>)
  have list: "clr.settles s (case l of
       Inl err \<Rightarrow> ret (noResult, Some err)
     | Inr items \<Rightarrow> do {
         _ \<leftarrow> modObj (cs_LinodeMachines_update (\<lambda>_. items));
         e \<leftarrow> ClusterScope_SetCredentialRefToken E;
         if e \<noteq> None then ret (noResult, e)
         else do {
           lc \<leftarrow> csLC;
           if om_DeletionTimestamp (lc_Meta lc) \<noteq> None then do {
             r \<leftarrow> c_reconcileDelete E;
             case r of Inl err \<Rightarrow> requeueUnlessStale E T err | Inr _ \<Rightarrow> ret (noResult, None)
           }
           else c_apply E T
         }
       })" for l
    by (cases l; simp only: sum.case)
      (intro clr.settles_keeps clr.beginning.keeps_return clr.settles_bind [OF begun_machines] clr.settles_bind [OF begun_creds(3)] clr.settles_if branch)+
  have "clr.settles s (c_reconcileBody E T)"
    unfolding c_reconcileBody_def Let_def
    by (intro clr.settles_gets clr.settles_bind [OF clr.begun_perform] list; simp)
  then have body: "clr.settles s (do { out \<leftarrow> c_reconcileBody E T; c_deferred E out })"
    by (rule clr.settles_then [OF _ clr.begun_holds [OF begun_c_deferred] some])
  show ?thesis
    unfolding c_reconcile_def by (rule body clr.settles_bind begun_modLC | simp)+
qed

text \<open>The reconciliations of a cluster on an API that answers with what it was asked for.\<close>

definition clusterSteps :: "env \<Rightarrow> (ClusterScope, outcome) op set" where
  "clusterSteps E = {m. nbHonest E \<and> (\<exists>T. m = c_reconcile E T)}"

abbreviation clusterRuns :: "env \<Rightarrow> int option \<Rightarrow> bool \<Rightarrow> hist \<Rightarrow> nat \<Rightarrow> bool" where
  "clusterRuns E \<equiv> runs (stepOf {m. \<exists>T. m = c_reconcile E T}) (nbMade E) nbIdent (\<lambda>s. clusterDeleted s \<noteq> None)"

interpretation cguard: id_guard "stepOf (clusterSteps E)" "nbMade E" nbIdent "\<lambda>s. clusterDeleted s \<noteq> None" for E
  by (rule clr.guarded) (auto simp: clusterSteps_def intro: grows_c_reconcile settles_c_reconcile)


section \<open>Properties\<close>

text \<open>
C7: However often a new cluster is reconciled, in whatever order the services fail and whoever else works on the API
meanwhile, its reconciliations are granted at most one NodeBalancer in all, provided that the ID they leave in the
spec is stored and that a NodeBalancer asked for by its ID has this ID; and from then on the cluster has the ID
of a NodeBalancer until it is deleted.
\<close>

theorem cluster_one_nodebalancer:
  assumes "nbHonest E" and "clusterRuns E i del h n"
  shows "n \<le> 1 \<and> (n = 0 \<or> del \<or> i \<noteq> None)"
proof -
  have "clusterSteps E = {m. \<exists>T. m = c_reconcile E T}" using assms(1) by (simp add: clusterSteps_def)
  with cguard.at_most_one [of E] assms(2) show ?thesis by fastforce
qed

definition newCluster :: ClusterScope where
  "newCluster = \<lparr>cs_Cluster = cl1, cs_LinodeCluster = lc_Spec_update (lcs_Network_update (net_LoadBalancerType_update (\<lambda>_. lbTypeNB))) lc1, cs_LinodeMachines = []\<rparr>"

definition clusterFirst :: "ClusterScope world" where
  "clusterFirst = snd (State_Monad.run_state (c_reconcile env0 0) (start newCluster))"

lemma clusterFirst_reached: "clusterRuns env0 (nbIdent (obj clusterFirst)) False (tr clusterFirst) (nbMade env0 (tr clusterFirst))"
  using runs_first [of "c_reconcile env0 0" "{m. \<exists>T. m = c_reconcile env0 T}" nbIdent newCluster "nbMade env0" "\<lambda>s. clusterDeleted s \<noteq> None"]
  by (auto simp: clusterFirst_def newCluster_def lc1_def net1_def meta0_def nbIdent_def)

lemma clusterFirst_created: "nbMade env0 (tr clusterFirst) = 1"
proof -
  have "wp (c_reconcile env0 0) (\<lambda>_ t. nbMade env0 (tr t) = 1) (start newCluster)"
    by (simp add: c_reconcile_def c_reconcileBody_def c_apply_def c_reconcileCreate_def handleNBCreate_def EnsureNodeBalancer_def nbVPCs_def nbFirewallID_def
        lb_getFirewallID_def EnsureNodeBalancerConfigs_def createNBConfig_def setEndpoint_def finishLB_def addMachineToLB_def syncNBNodes_def lcSetCondition_def
        ShouldUseVPC_def performPreflightChecks_def c_deferred_def scope_cred_defs ClusterScope_AddFinalizer_def ClusterScope_Close_def
        ClusterScope_SetCredentialRefToken_def ClusterScope_AddCredentialsRefFinalizer_def LinodeCluster_SetCondition_def
        newCluster_def lc1_def net1_def cl1_def lbTypeNB_def lbTypeDNS_def lbTypeExternal_def env0_defs meta0_def wp_rules Let_def)
  then show ?thesis by (simp add: clusterFirst_def wp_def split: prod.splits)
qed

lemma nbHonest_env0: "nbHonest env0"
  by (auto simp: nbHonest_def env0_defs)

theorem cluster_one_nodebalancer_witness:
  "nbHonest env0 \<and> (1::nat) \<le> 1 \<and> ((1::nat) = 0 \<or> False \<or> nbIdent (obj clusterFirst) \<noteq> None)"
  using cluster_one_nodebalancer [OF nbHonest_env0 clusterFirst_reached] nbHonest_env0 unfolding clusterFirst_created by blast

end
