(* ===== verification/ClusterProgress.thy ===== *)
theory ClusterProgress
  imports ClusterProps
begin

text \<open>
  Progress of a cluster: while the API serves NodeBalancers, one reconciliation gives a cluster an endpoint and
  makes it ready, whatever was left undone before and whatever becomes of its backend nodes.
\<close>

section \<open>What the reconciliation relies on\<close>

definition goodNB :: "LNodeBalancer option \<times> error option \<Rightarrow> bool" where
  "goodNB r = (\<exists>nb ip. r = (Some nb, None) \<and> lnb_IPv4 nb = Some ip \<and> ip \<noteq> [])"

definition nbServes :: "env \<Rightarrow> bool" where
  "nbServes E = (\<forall>h.
     (\<forall>opts. goodNB (nbe_CreateNodeBalancer (nbe E) h opts)) \<and>
     (\<forall>i. goodNB (nbe_GetNodeBalancer (nbe E) h i)) \<and>
     (\<forall>i c. \<exists>cfg. nbe_GetNodeBalancerConfig (nbe E) h i c = Inr cfg) \<and>
     (\<forall>i opts. \<exists>cfg. nbe_CreateNodeBalancerConfig (nbe E) h i opts = Inr cfg) \<and>
     (\<forall>ns ls. \<exists>ms. k_ListMachines (k8s E) h ns ls = Inr ms) \<and>
     (\<forall>ob. k_Patch (k8s E) h ob = None))"

lemma nbServesD:
  assumes "nbServes E"
  shows "goodNB (nbe_CreateNodeBalancer (nbe E) h opts)" and "goodNB (nbe_GetNodeBalancer (nbe E) h i)"
    and "\<exists>cfg. nbe_GetNodeBalancerConfig (nbe E) h i c = Inr cfg" and "\<exists>cfg. nbe_CreateNodeBalancerConfig (nbe E) h i copts = Inr cfg"
    and "\<exists>ms. k_ListMachines (k8s E) h ns ls = Inr ms" and "k_Patch (k8s E) h ob = None"
  using assms by (simp_all add: nbServes_def)

text \<open>A cluster behind a NodeBalancer that uses the token of the manager and refers to no VPC and no firewall.\<close>

definition plainCluster :: "LinodeCluster \<Rightarrow> bool" where
  "plainCluster lc = (om_DeletionTimestamp (lc_Meta lc) = None \<and> net_LoadBalancerType (netOf lc) \<noteq> lbTypeDNS \<and> lcs_CredentialsRef (lc_Spec lc) = None
     \<and> lcs_VPCRef (lc_Spec lc) = None \<and> lcs_VPCID (lc_Spec lc) = None \<and> lcs_NodeBalancerFirewallRef (lc_Spec lc) = None
     \<and> net_NodeBalancerFirewallID (netOf lc) = None)"

text \<open>\<open>lbSteady\<close>: the endpoint and the readiness stay.\<close>

definition lbSteady :: "ClusterScope world \<Rightarrow> ClusterScope world \<Rightarrow> bool" where
  "lbSteady s t = (snd (lbView (lcOf t)) = snd (lbView (lcOf s)))"

interpretation lbst: preorder_rel lbSteady
  by unfold_locales (auto simp: lbSteady_def)

lemma lbSteady_perform: "keeps lbSteady (perform c f)"
  by (simp add: keeps_def wp_perform lbSteady_def)

lemma lbSteady_modLC: "(\<And>lc. snd (lbView (f lc)) = snd (lbView lc)) \<Longrightarrow> keeps lbSteady (modLC f)"
  by (simp add: keeps_def wp_update lbSteady_def)

lemma lbSteady_nodeStep: "keeps nodeStep m \<Longrightarrow> keeps lbSteady m"
  by (erule keeps_mono) (simp add: nodeStep_def lbSteady_def)

lemma lbSteady_calm: "keeps (calm P) m \<Longrightarrow> keeps lbSteady m"
  by (erule keeps_mono) (simp add: calm_def lbSteady_def)

lemmas lbSteady_rules = lbst.keeps_all lbSteady_perform lbSteady_modLC

lemma lbSteady_runtime: "keeps lbSteady (lcSetCondition E c)" "keeps lbSteady (requeueLater E d)" "keeps lbSteady (retryIfTransient E err)"
  unfolding lcSetCondition_def LinodeCluster_SetCondition_def requeueLater_def WithJitter_def retryIfTransient_def
  by (intro lbSteady_rules keeps_case; simp add: lbView_def)+


section \<open>The steps succeed\<close>

lemma steady_finishLB: "wp (finishLB E) (\<lambda>_ t. lcs_Ready (lc_Status (lcOf t)) \<and> lcs_ControlPlaneEndpoint (lc_Spec (lcOf t)) = lcs_ControlPlaneEndpoint (lc_Spec (lcOf s))) s"
proof -
  have rest: "keeps lbSteady (do {
     _ \<leftarrow> lcSetCondition E c;
     s \<leftarrow> getObj;
     if \<exists>m\<in>set (cs_LinodeMachines s). lms_Addresses (lm_Status m) = [] then ret (noResult, None)
     else do {
       r \<leftarrow> addMachineToLB E;
       case r of
         Inr _ \<Rightarrow> ret (noResult, None)
       | Inl err \<Rightarrow>
           if err = ErrSentinel ErrPanic then ret (noResult, Some err)
           else if errors_Is (Some err) ErrReconcileAgain then requeueLater E DefaultMachineControllerRetryDelay
           else retryIfTransient E err
     }
   })" for c
    by (intro lbSteady_rules keeps_case lbSteady_runtime lbSteady_nodeStep [OF nodeStep_addMachineToLB])
  show ?thesis
    unfolding finishLB_def wp_bind [of "modLC f" for f] wp_update
    by (rule wp_mono [OF keeps_wp [OF rest]]) (simp add: lbSteady_def lbView_def)
qed

lemma done_portConfigs:
  assumes "nbServes E"
  shows "wp (foldE (\<lambda>portConfig nbConfigs. bindE (createNBConfig E nbID (nbp_Port portConfig)) (\<lambda>nbConfig. ret (Inr (nbConfigs @ [nbConfig])))) ps cs)
    (\<lambda>r t. (\<exists>cs'. r = Inr cs') \<and> obj t = obj s) s"
proof (induction ps arbitrary: cs s)
  case (Cons p ps)
  obtain cfg where "\<And>h i opts. nbe_CreateNodeBalancerConfig (nbe E) h i opts = Inr (cfg h i opts)" using nbServesD(4) [OF assms] by metis
  then show ?case
    using Cons.IH [of _ "s\<lparr>tr := x\<rparr>" for x] by (simp add: createNBConfig_def bindE_def wp_bind wp_perform wp_return)
qed (simp add: wp_return)

lemma done_configs:
  assumes "nbServes E" and "net_NodeBalancerID (netOf (lcOf s)) \<noteq> None"
  shows "wp (EnsureNodeBalancerConfigs E) (\<lambda>r t. (\<exists>cs. r = Inr cs) \<and> obj t = obj s) s"
proof -
  obtain get new where "\<And>h i c. nbe_GetNodeBalancerConfig (nbe E) h i c = Inr (get h i c)"
    "\<And>h i opts. nbe_CreateNodeBalancerConfig (nbe E) h i opts = Inr (new h i opts)" using nbServesD(3,4) [OF assms(1)] by metis
  with assms(2) show ?thesis
    using done_portConfigs [OF assms(1), of _ _ _ "s\<lparr>tr := x\<rparr>" for x]
    by (auto simp: EnsureNodeBalancerConfigs_def createNBConfig_def bindE_def wp_bind wp_get wp_perform wp_return split: option.split)
qed

lemma done_EnsureNodeBalancer:
  assumes "nbServes E" and "plainCluster (lcOf s)"
  shows "wp (EnsureNodeBalancer E) (\<lambda>r t. (\<exists>nb ip. r = Inr (Some nb) \<and> lnb_IPv4 nb = Some ip \<and> ip \<noteq> []) \<and> obj t = obj s) s"
proof -
  obtain new get ip ip' where "\<And>h opts. nbe_CreateNodeBalancer (nbe E) h opts = (Some (new h opts), None)"
    "\<And>h opts. lnb_IPv4 (new h opts) = Some (ip h opts) \<and> ip h opts \<noteq> []"
    "\<And>h i. nbe_GetNodeBalancer (nbe E) h i = (Some (get h i), None)" "\<And>h i. lnb_IPv4 (get h i) = Some (ip' h i) \<and> ip' h i \<noteq> []"
    using nbServesD(1,2) [OF assms(1)] unfolding goodNB_def by metis
  with assms(2) show ?thesis
    by (simp add: EnsureNodeBalancer_def nbVPCs_def ShouldUseVPC_def nbFirewallID_def plainCluster_def bindE_def wp_rules Let_def)
qed

lemma done_c_reconcileCreate:
  assumes "nbServes E" and "plainCluster (lcOf s)"
  shows "wp (c_reconcileCreate E) (\<lambda>r t. r = Inr () \<and> ep_Host (lcs_ControlPlaneEndpoint (lc_Spec (lcOf t))) \<noteq> []) s"
proof -
  have "wp (handleNBCreate E) (\<lambda>r t. r = Inr () \<and> ep_Host (lcs_ControlPlaneEndpoint (lc_Spec (lcOf t))) \<noteq> []) s"
    unfolding handleNBCreate_def setEndpoint_def Let_def
    by (rule wp_seqE [OF done_EnsureNodeBalancer [OF assms]])
      (auto simp: wp_bind wp_update wp_return intro!: wp_seqE [OF done_configs [OF assms(1)]])
  with assms(2) show ?thesis
    by (simp add: c_reconcileCreate_def ClusterScope_AddCredentialsRefFinalizer_def plainCluster_def wp_rules)
qed


abbreviation clusterUp :: "ClusterScope world \<Rightarrow> bool" where
  "clusterUp t \<equiv> lcs_Ready (lc_Status (lcOf t)) \<and> ep_Host (lcs_ControlPlaneEndpoint (lc_Spec (lcOf t))) \<noteq> []"

lemma up_finishLB: "ep_Host (lcs_ControlPlaneEndpoint (lc_Spec (lcOf s))) \<noteq> [] \<Longrightarrow> wp (finishLB E) (\<lambda>_ t. clusterUp t) s"
  by (rule wp_mono [OF steady_finishLB]) auto

lemma up_c_apply:
  assumes "nbServes E" and "plainCluster (lcOf s)"
  shows "wp (c_apply E T) (\<lambda>_ t. clusterUp t) s"
proof -
  have add: "wp (ClusterScope_AddFinalizer E) (\<lambda>r t. r = None \<and> plainCluster (lcOf t)) s"
    using assms(2) by (simp add: ClusterScope_AddFinalizer_def ClusterScope_Close_def nbServesD(6) [OF assms(1)] plainCluster_def wp_rules Let_def split: prod.split)
  have checks: "wp (performPreflightChecks E T) (\<lambda>r t. r = (noResult, None) \<and> plainCluster (lcOf t)) t" if "plainCluster (lcOf t)" for t
    using that by (simp add: performPreflightChecks_def plainCluster_def wp_rules)
  have last: "wp (do {
         lc \<leftarrow> csLC;
         if ep_Host (lcs_ControlPlaneEndpoint (lc_Spec lc)) = [] then do {
           r \<leftarrow> c_reconcileCreate E;
           case r of Inl err \<Rightarrow> requeueUnlessStale E T err | Inr _ \<Rightarrow> finishLB E
         }
         else finishLB E
       }) (\<lambda>_ t. clusterUp t) t" if "plainCluster (lcOf t)" for t
    using that
    by (intro wp_getsI wp_ifI up_finishLB, rule_tac [1] wp_seq [OF done_c_reconcileCreate [OF assms(1)]]) (auto intro: up_finishLB)
  have rest: "wp (do {
       p \<leftarrow> performPreflightChecks E T;
       if snd p \<noteq> None \<or> \<not> Result_IsZero (fst p) then ret p
       else do {
         lc \<leftarrow> csLC;
         if ep_Host (lcs_ControlPlaneEndpoint (lc_Spec lc)) = [] then do {
           r \<leftarrow> c_reconcileCreate E;
           case r of Inl err \<Rightarrow> requeueUnlessStale E T err | Inr _ \<Rightarrow> finishLB E
         }
         else finishLB E
       }
     }) (\<lambda>_ t. clusterUp t) t" if "plainCluster (lcOf t)" for t
    by (rule wp_seq [OF checks [OF that]], rule wp_ifI, simp, rule last, blast)
  show ?thesis
    unfolding c_apply_def by (rule wp_seq [OF add], rule wp_ifI, blast, rule rest, blast)
qed

text \<open>
C8: A cluster becomes ready: one reconciliation leaves it ready and with an endpoint, whatever becomes of the backend nodes. This is for a
cluster that is not deleted, is not behind DNS and has no \<open>credentialsRef\<close>, no VPC (neither a reference nor an ID) and no
NodeBalancer firewall (neither a reference nor an ID), while the Linode API creates and returns NodeBalancers with an address and
their configurations, and the API server lists the machines and stores every patch.
\<close>

theorem cluster_becomes_ready:
  assumes "nbServes E" and "plainCluster (lcOf s)"
  shows "wp (c_reconcile E T) (\<lambda>_ t. clusterUp t) s"
proof -
  obtain ms where ms: "\<And>h ns ls. k_ListMachines (k8s E) h ns ls = Inr (ms h ns ls)" using nbServesD(5) [OF assms(1)] by metis
  have body: "wp (c_reconcileBody E T) (\<lambda>_ t. clusterUp t) t" if "plainCluster (lcOf t)" for t
    unfolding c_reconcileBody_def ClusterScope_SetCredentialRefToken_def
    using that by (simp add: ms wp_rules Let_def plainCluster_def) (rule up_c_apply [OF assms(1)], simp add: plainCluster_def)
  have close: "keeps lbSteady (c_deferred E out)" for out
    unfolding c_deferred_def by (intro lbSteady_rules lbSteady_calm [OF calm_ClusterScope_creds(4)])
  show ?thesis
    unfolding c_reconcile_def wp_bind [of "modLC f" for f] wp_update
    by (rule wp_seq [OF body])
      (use assms(2) in \<open>auto simp: plainCluster_def lbSteady_def lbView_def intro!: wp_mono [OF keeps_wp [OF close]]\<close>)
qed

definition readyCluster :: ClusterScope where
  "readyCluster = \<lparr>cs_Cluster = cl1, cs_LinodeCluster = lc_Spec_update (lcs_Network_update (net_LoadBalancerType_update (\<lambda>_. lbTypeNB))) lc1, cs_LinodeMachines = []\<rparr>"

theorem cluster_becomes_ready_witness:
  "nbServes env0 \<and> plainCluster (cs_LinodeCluster readyCluster) \<and> wp (c_reconcile env0 0) (\<lambda>_ t. clusterUp t) (start readyCluster)"
proof -
  have "nbServes env0" by (simp add: nbServes_def goodNB_def env0_defs)
  moreover have "plainCluster (cs_LinodeCluster readyCluster)"
    by (simp add: plainCluster_def readyCluster_def lc1_def net1_def meta0_def lbTypeNB_def lbTypeDNS_def)
  ultimately show ?thesis using cluster_becomes_ready [of env0 "start readyCluster" 0] by simp
qed

end
