(* ===== verification/Deletions.thy ===== *)
theory Deletions
  imports MachineProps Firewall PlacementGroup Vpc ClusterProps
begin

text \<open>
  The progress of deletions: once the Linode API lets go of what a resource stands for, one reconciliation of the
  deleted resource gives up its finalizer and stores this, with no error and no requeue. The other direction,
  that no finalizer is given up before, is with each controller.
\<close>

section \<open>What the reconciliations rely on\<close>

text \<open>Requests to delete are accepted or answered with 404, nothing is attached any more, a cluster has no control
  plane machine left, and patches are stored.\<close>

definition accepted :: "env \<Rightarrow> error option \<Rightarrow> bool" where
  "accepted E e = (IgnoreLinodeAPIError E e [StatusNotFound] = None)"

definition letsGo :: "env \<Rightarrow> bool" where
  "letsGo E = (\<forall>h.
     (\<forall>i. accepted E (ine_DeleteInstance (ine E) h i)) \<and>
     (\<forall>i. accepted E (fwe_DeleteFirewall (fwe E) h i)) \<and>
     (\<forall>i. case pge_GetPlacementGroup (pge E) h i of (pg, err) \<Rightarrow> accepted E err \<and> (case pg of None \<Rightarrow> True | Some g \<Rightarrow> lpgr_Members g = [])) \<and>
     (\<forall>i. accepted E (pge_DeletePlacementGroup (pge E) h i)) \<and>
     (\<forall>i. case vpe_GetVPC (vpe E) h i of Inl e \<Rightarrow> accepted E (Some e) | Inr v \<Rightarrow> \<forall>sn \<in> set (lvpc_Subnets v). lsn_Linodes sn = []) \<and>
     (\<forall>i. accepted E (vpe_DeleteVPC (vpe E) h i)) \<and>
     (\<forall>i. accepted E (nbe_DeleteNodeBalancer (nbe E) h i)) \<and>
     (\<forall>ns ls. k_ListMachines (k8s E) h ns ls = Inr []) \<and>
     (\<forall>ob. k_Patch (k8s E) h ob = None))"

lemma letsGoD:
  assumes "letsGo E"
  shows "accepted E (ine_DeleteInstance (ine E) h i)" and "accepted E (fwe_DeleteFirewall (fwe E) h i)"
    and "pge_GetPlacementGroup (pge E) h i = (pg, err) \<Longrightarrow> accepted E err \<and> (pg = Some g \<longrightarrow> lpgr_Members g = [])"
    and "accepted E (pge_DeletePlacementGroup (pge E) h i)"
    and "vpe_GetVPC (vpe E) h i = Inl e \<Longrightarrow> accepted E (Some e)"
    and "vpe_GetVPC (vpe E) h i = Inr v \<Longrightarrow> sn \<in> set (lvpc_Subnets v) \<Longrightarrow> lsn_Linodes sn = []"
    and "accepted E (vpe_DeleteVPC (vpe E) h i)" and "k_Patch (k8s E) h ob = None"
    and "accepted E (nbe_DeleteNodeBalancer (nbe E) h i)" and "k_ListMachines (k8s E) h ns ls = Inr []"
  using assms [unfolded letsGo_def, rule_format, of h] by (auto split: option.splits prod.splits sum.splits)

text \<open>\<open>controllerutil.RemoveFinalizer\<close> removes the finalizer and adds none; nothing is left of no error.\<close>

definition finalizerLaws :: "env \<Rightarrow> bool" where
  "finalizerLaws E = ((\<forall>fs f. f \<notin> set (lib_RemoveFinalizer (lib E) fs f) \<and> set (lib_RemoveFinalizer (lib E) fs f) \<subseteq> set fs)
     \<and> lib_FilterOutNotFound (lib E) None = None)"

lemma finalizerLawsD:
  assumes "finalizerLaws E"
  shows "f \<notin> set (lib_RemoveFinalizer (lib E) fs f)" and "g \<notin> set fs \<Longrightarrow> g \<notin> set (lib_RemoveFinalizer (lib E) fs f)"
    and "lib_FilterOutNotFound (lib E) None = None"
  using assms by (auto simp: finalizerLaws_def)

text \<open>The outcome of a completed deletion: nothing more to do, and the last request stores the object without the finalizer.\<close>

definition released :: "string \<Rightarrow> ('o world \<Rightarrow> ObjectMeta) \<Rightarrow> ('o world \<Rightarrow> kobj) \<Rightarrow> outcome \<Rightarrow> 'o world \<Rightarrow> bool" where
  "released fin meta ob r t = (r = (noResult, None) \<and> fin \<notin> set (om_Finalizers (meta t)) \<and> hd (tr t) = K8s (KPatch (ob t)))"


section \<open>The five resources\<close>

lemma firewall_released:
  assumes go: "letsGo E" and fin: "finalizerLaws E"
    and "om_DeletionTimestamp (lfw_Meta (fwOf s)) \<noteq> None" and "fw_CredentialsRef (lfw_Spec (fwOf s)) = None"
  shows "wp (fw_reconcile E T) (released FirewallFinalizer (\<lambda>w. lfw_Meta (fs_LinodeFirewall (obj w))) (\<lambda>w. OFirewall (fs_LinodeFirewall (obj w)))) s"
  using assms(3,4)
  by (auto simp: letsGoD(2) [OF go, unfolded accepted_def] fw_reconcile_def fw_reconcileBody_def fw_reconcileDelete_def fwRemoveFinalizer_def fw_deferred_def scope_cred_defs FirewallScope_Close_def
      letsGoD(8) [OF go] finalizerLawsD [OF fin] released_def wp_rules Let_def simp del: IgnoreLinodeAPIError.simps split: option.split)

lemma wp_pgReleased:
  assumes fin: "finalizerLaws E" and "pg_CredentialsRef (lpg_Spec (pgOf s)) = None"
  shows "wp (pgReleaseFinalizers E T) (\<lambda>r t. r = (noResult, None) \<and> PlacementGroupFinalizer \<notin> set (om_Finalizers (lpg_Meta (ps_LinodePlacementGroup (obj t))))) s"
  using assms(2) by (simp add: pgReleaseFinalizers_def pgReadyFalse_def pgRemoveFinalizer_def scope_cred_defs LinodePlacementGroup_SetCondition_def
      finalizerLawsD [OF fin] wp_rules)

lemma group_released:
  assumes go: "letsGo E" and fin: "finalizerLaws E"
    and "om_DeletionTimestamp (lpg_Meta (pgOf s)) \<noteq> None" and "pg_CredentialsRef (lpg_Spec (pgOf s)) = None"
  shows "wp (pg_reconcile E dt T)
    (released PlacementGroupFinalizer (\<lambda>w. lpg_Meta (ps_LinodePlacementGroup (obj w))) (\<lambda>w. OPlacementGroup (ps_LinodePlacementGroup (obj w)))) s"
proof -
  note rel = wp_mono [OF wp_pgReleased [OF fin]]
  have del: "pge_DeletePlacementGroup (pge E) h i = Some e \<Longrightarrow> IgnoreLinodeAPIError E (Some e) [StatusNotFound] = None" for h i e
    using letsGoD(4) [OF go, of h i] by (simp add: accepted_def)
  have got: "pge_GetPlacementGroup (pge E) h i = (pg, err) \<Longrightarrow> IgnoreLinodeAPIError E err [StatusNotFound] = None"
    "pge_GetPlacementGroup (pge E) h i = (Some g, err) \<Longrightarrow> lpgr_Members g = []" for h i pg err g
    using letsGoD(3) [OF go, of h i] by (auto simp: accepted_def)
  show ?thesis
    using assms(3,4)
    by (auto simp: pg_reconcile_def pg_reconcileBody_def pg_reconcileDelete_def pg_deleteEmpty_def pg_deferred_def scope_cred_defs PlacementGroupScope_Close_def
        letsGoD(8) [OF go] got released_def wp_rules Let_def del simp del: IgnoreLinodeAPIError.simps dest: got split: option.split prod.split intro!: rel)
qed

lemma wp_vpcReleased:
  assumes fin: "finalizerLaws E" and "vpc_CredentialsRef (lv_Spec (vpcOf s)) = None"
  shows "wp (vpcReleaseFinalizers E T) (\<lambda>r t. r = (noResult, None) \<and> VPCFinalizer \<notin> set (om_Finalizers (lv_Meta (vpcOf t)))) s"
  using assms(2) by (simp add: vpcReleaseFinalizers_def vpcRemoveFinalizer_def scope_cred_defs finalizerLawsD [OF fin] wp_rules)

lemma vpc_released:
  assumes go: "letsGo E" and fin: "finalizerLaws E" and "om_DeletionTimestamp (lv_Meta (vpcOf s)) \<noteq> None"
    and "vpc_CredentialsRef (lv_Spec (vpcOf s)) = None" and "\<not> vpc_Retain (lv_Spec (vpcOf s))"
  shows "wp (vpc_reconcile E T) (released VPCFinalizer (\<lambda>w. lv_Meta (vpcOf w)) (\<lambda>w. OVPC (vpcOf w))) s"
proof -
  have del: "vpe_DeleteVPC (vpe E) h i = Some e \<Longrightarrow> IgnoreLinodeAPIError E (Some e) [StatusNotFound] = None" for h i e
    using letsGoD(7) [OF go, of h i] by (simp add: accepted_def)
  have "wp (deleteVPCResources E T) (\<lambda>r t. r = None \<and> obj t = obj s) s" for s
    using letsGoD(5,6) [OF go] unfolding deleteVPCResources_def getVPC_def accepted_def
    by (auto simp: wp_rules Let_def del simp del: IgnoreLinodeAPIError.simps split: option.split sum.split)
  note gone = wp_mono [OF this] and rel = wp_mono [OF wp_vpcReleased [OF fin]]
  show ?thesis
    using assms(3-5)
    by (auto simp: vpc_reconcile_def vpc_reconcileBody_def vpc_reconcileDelete_def vpc_deferred_def scope_cred_defs VPCScope_Close_def vpcReadyFalse_def
        vpcSetCondition_def LinodeVPC_SetCondition_def letsGoD(8) [OF go] released_def wp_rules Let_def split: option.split prod.split intro!: gone rel)
qed

lemma wp_machineReleased:
  assumes fin: "finalizerLaws E" and "lms_CredentialsRef (lm_Spec (lmOf s)) = None"
  shows "wp (machineReleaseFinalizers E) (\<lambda>r t. r = (noResult, None) \<and> MachineFinalizer \<notin> set (om_Finalizers (lm_Meta (lmOf t)))) s"
  using assms(2) by (simp add: machineReleaseFinalizers_def MachineScope_RemoveCredentialsRefFinalizer_def finalizerLawsD [OF fin] wp_rules)

lemma wp_machineDeleted:
  assumes go: "letsGo E" and fin: "finalizerLaws E" and "lms_CredentialsRef (lm_Spec (lmOf s)) = None"
    and "pidOf s = None \<or> snd (GetInstanceID (pidOf s)) = None"
  shows "wp (m_reconcileDelete E T) (\<lambda>r t. r = (noResult, None) \<and> MachineFinalizer \<notin> set (om_Finalizers (lm_Meta (lmOf t)))) s"
  unfolding m_reconcileDelete_def
proof (rule wp_seq [OF keeps_wp [OF tame_bootstrap(2)]])
  fix r t assume "tame s t"
  then have "lm_Spec (lmOf t) = lm_Spec (lmOf s)" by (simp add: tame_def lmCore_def)
  with assms(3,4) letsGoD(1) [OF go] show "wp (do {
     lm \<leftarrow> theLM;
     if lms_ProviderID (lm_Spec lm) = None then machineReleaseFinalizers E
     else case GetInstanceID (lms_ProviderID (lm_Spec lm)) of (instanceID, err) \<Rightarrow>
       if err \<noteq> None then ret (noResult, err)
       else do {
         e \<leftarrow> perform (INST (CDeleteInstance instanceID)) (\<lambda>h. ine_DeleteInstance (ine E) h instanceID);
         if e \<noteq> None \<and> IgnoreLinodeAPIError E e [StatusNotFound] \<noteq> None then do {
           again \<leftarrow> withinDeletion E (om_DeletionTimestamp (lm_Meta lm)) (DefaultTimeout T DefaultMachineControllerRetryDelay);
           if again then requeueLater E DefaultMachineControllerRetryDelay else ret (noResult, e)
         }
         else do {
           _ \<leftarrow> lmSetCondition E (mkCond ReadyCondition statusFalse ''DeletionCompleted'' ''instance deleted'');
           _ \<leftarrow> modLM (lm_Spec_update (lms_ProviderID_update (\<lambda>_. None)));
           _ \<leftarrow> modLM (lm_Status_update (lms_InstanceState_update (\<lambda>_. None)));
           machineReleaseFinalizers E
         }
       }
   }) (\<lambda>r t. r = (noResult, None) \<and> MachineFinalizer \<notin> set (om_Finalizers (lm_Meta (lmOf t)))) t"
    by (auto simp: accepted_def wp_rules wp_lmSetCondition LinodeMachine_SetCondition_def simp del: IgnoreLinodeAPIError.simps split: prod.split
        intro!: wp_machineReleased [OF fin])
qed

lemma machine_released:
  assumes go: "letsGo E" and fin: "finalizerLaws E" and "om_DeletionTimestamp (lm_Meta (lmOf s)) \<noteq> None"
    and "lms_CredentialsRef (lm_Spec (lmOf s)) = None" and "lcs_CredentialsRef (lc_Spec (ms_LinodeCluster (obj s))) = None"
    and "pidOf s = None \<or> snd (GetInstanceID (pidOf s)) = None"
  shows "wp (m_reconcile E gzip T) (released MachineFinalizer (\<lambda>w. lm_Meta (lmOf w)) (\<lambda>w. OMachine (lmOf w))) s"
  using assms(3-)
  by (auto simp: m_reconcile_def m_reconcileBody_def m_deferred_def MachineScope_AddFinalizer_def MachineScope_Close_def letsGoD(8) [OF go] released_def
      wp_rules Let_def split: prod.split intro!: wp_mono [OF wp_machineDeleted [OF go fin]])

lemma wp_lbDeleted:
  assumes go: "letsGo E" and "net_LoadBalancerType (netOf (lcOf s)) \<noteq> lbTypeDNS" and "cs_LinodeMachines (obj s) = []"
  shows "wp (deleteLoadBalancer E) (\<lambda>r t. r = Inr () \<and> cs_LinodeMachines (obj t) = [] \<and> lcs_CredentialsRef (lc_Spec (lcOf t)) = lcs_CredentialsRef (lc_Spec (lcOf s))) s"
  using assms(2,3) unfolding deleteLoadBalancer_def removeLB_def removeMachineFromNB_def DeleteNodesFromNB_def deleteNB_def lbDeleted_def lcSetCondition_def
  by (auto simp: letsGoD(9) [OF go, unfolded accepted_def] LinodeCluster_SetCondition_def wp_rules Let_def simp del: IgnoreLinodeAPIError.simps split: option.split)

lemma cluster_released:
  assumes go: "letsGo E" and fin: "finalizerLaws E" and "om_DeletionTimestamp (lc_Meta (lcOf s)) \<noteq> None"
    and "lcs_CredentialsRef (lc_Spec (lcOf s)) = None" and "net_LoadBalancerType (netOf (lcOf s)) \<noteq> lbTypeDNS"
  shows "wp (c_reconcile E T) (released ClusterFinalizer (\<lambda>w. lc_Meta (lcOf w)) (\<lambda>w. OCluster (lcOf w))) s"
  using assms(3-)
  by (auto simp: c_reconcile_def c_reconcileBody_def c_reconcileDelete_def c_deferred_def ClusterScope_Close_def ClusterScope_RemoveCredentialsRefFinalizer_def
      ClusterScope_SetCredentialRefToken_def DeleteClusterIPs_def lcRemoveFinalizer_def letsGoD(8,10) [OF go] finalizerLawsD [OF fin] UnwrapError.simps released_def
      wp_rules Let_def intro!: wp_mono [OF wp_lbDeleted [OF go]])


section \<open>Properties\<close>

text \<open>
C9: Deletions complete: one reconciliation of a deleted machine, firewall, placement group, VPC or cluster ends without an error and
without a requeue, the resource no longer has the finalizer of its controller, and the last request stores it so. The
conditions: the Linode API accepts every request to delete an instance, firewall, placement group, VPC or NodeBalancer or answers
it with 404; the placement group has no member and the subnets of the VPC have no Linode (or they are not found); the API server
lists no machine of the cluster and stores every patch; no resource has a \<open>credentialsRef\<close> (for the machine, neither it nor its cluster); the
provider ID of the machine, if it has one, is well formed; the VPC is not retained; the cluster is not behind DNS.
\<close>

theorem deletions_complete:
  assumes "letsGo E" and "finalizerLaws E"
    and machine: "om_DeletionTimestamp (lm_Meta (lmOf m)) \<noteq> None" "lms_CredentialsRef (lm_Spec (lmOf m)) = None"
      "lcs_CredentialsRef (lc_Spec (ms_LinodeCluster (obj m))) = None" "pidOf m = None \<or> snd (GetInstanceID (pidOf m)) = None"
    and firewall: "om_DeletionTimestamp (lfw_Meta (fwOf f)) \<noteq> None" "fw_CredentialsRef (lfw_Spec (fwOf f)) = None"
    and group: "om_DeletionTimestamp (lpg_Meta (pgOf p)) \<noteq> None" "pg_CredentialsRef (lpg_Spec (pgOf p)) = None"
    and vpc: "om_DeletionTimestamp (lv_Meta (vpcOf v)) \<noteq> None" "vpc_CredentialsRef (lv_Spec (vpcOf v)) = None" "\<not> vpc_Retain (lv_Spec (vpcOf v))"
    and cluster: "om_DeletionTimestamp (lc_Meta (lcOf c)) \<noteq> None" "lcs_CredentialsRef (lc_Spec (lcOf c)) = None"
      "net_LoadBalancerType (netOf (lcOf c)) \<noteq> lbTypeDNS"
  shows "wp (m_reconcile E gzip T) (released MachineFinalizer (\<lambda>w. lm_Meta (lmOf w)) (\<lambda>w. OMachine (lmOf w))) m
    \<and> wp (fw_reconcile E T) (released FirewallFinalizer (\<lambda>w. lfw_Meta (fwOf w)) (\<lambda>w. OFirewall (fwOf w))) f
    \<and> wp (pg_reconcile E dt T) (released PlacementGroupFinalizer (\<lambda>w. lpg_Meta (pgOf w)) (\<lambda>w. OPlacementGroup (pgOf w))) p
    \<and> wp (vpc_reconcile E T) (released VPCFinalizer (\<lambda>w. lv_Meta (vpcOf w)) (\<lambda>w. OVPC (vpcOf w))) v
    \<and> wp (c_reconcile E T) (released ClusterFinalizer (\<lambda>w. lc_Meta (lcOf w)) (\<lambda>w. OCluster (lcOf w))) c"
  using machine_released [OF assms(1,2) machine] firewall_released [OF assms(1,2) firewall] group_released [OF assms(1,2) group]
    vpc_released [OF assms(1,2) vpc] cluster_released [OF assms(1,2) cluster] by blast

lemma letsGo_env0: "letsGo env0"
  by (simp add: letsGo_def accepted_def env0_defs errNotFound_def StatusNotFound_def)

lemma finalizerLaws_env0: "finalizerLaws env0"
  by (auto simp: finalizerLaws_def env0_defs)

definition deletedMachine :: MachineScope where
  "deletedMachine = ms_LinodeMachine_update (lm_Meta_update (om_DeletionTimestamp_update (\<lambda>_. Some 0))) scope1"

definition deletedFirewall :: FirewallScope where
  "deletedFirewall = fs_LinodeFirewall_update (lfw_Meta_update (om_DeletionTimestamp_update (\<lambda>_. Some 0))) fwScope1"

definition deletedCluster :: ClusterScope where
  "deletedCluster = cs_LinodeCluster_update (lc_Meta_update (om_DeletionTimestamp_update (\<lambda>_. Some 0))) cscope1"

theorem deletions_complete_witness:
  "wp (m_reconcile env0 True 0) (released MachineFinalizer (\<lambda>w. lm_Meta (lmOf w)) (\<lambda>w. OMachine (lmOf w))) (start deletedMachine)
    \<and> wp (fw_reconcile env0 0) (released FirewallFinalizer (\<lambda>w. lfw_Meta (fwOf w)) (\<lambda>w. OFirewall (fwOf w))) (start deletedFirewall)
    \<and> wp (pg_reconcile env0 (\<lambda>_. []) 0) (released PlacementGroupFinalizer (\<lambda>w. lpg_Meta (pgOf w)) (\<lambda>w. OPlacementGroup (pgOf w))) (start pgScope1)
    \<and> wp (vpc_reconcile env0 0) (released VPCFinalizer (\<lambda>w. lv_Meta (vpcOf w)) (\<lambda>w. OVPC (vpcOf w))) (start vpcScope2)
    \<and> wp (c_reconcile env0 0) (released ClusterFinalizer (\<lambda>w. lc_Meta (lcOf w)) (\<lambda>w. OCluster (lcOf w))) (start deletedCluster)"
  by (rule deletions_complete [OF letsGo_env0 finalizerLaws_env0])
    (simp_all add: deletedMachine_def deletedFirewall_def deletedCluster_def scope1_simps fwScope1_def fwSpec1_def pgScope1_def vpcScope2_def vpcScope1_def
      vpcSpec1_def cscope1_defs lbTypeDNS_def scope1_def lmSpec1_def)

end
