(* ===== verification/MachineTemplate.thy ===== *)
theory MachineTemplate
  imports Reconcile
begin

text \<open>
  \<open>internal/controller/linodemachinetemplate_controller.go\<close> and \<open>cloud/scope/machine_template.go\<close>: the tags
  and the firewall of a template are copied to the machines that were cloned from it, and recorded in
  the status of the template when all of them have been patched.
\<close>

section \<open>The scope\<close>

record MachineTemplateScope =
  mts_LinodeMachineTemplate :: LinodeMachineTemplate

abbreviation lmtOf :: "MachineTemplateScope world \<Rightarrow> LinodeMachineTemplate" where
  "lmtOf s \<equiv> mts_LinodeMachineTemplate (obj s)"

abbreviation getTemplate :: "(MachineTemplateScope, LinodeMachineTemplate) op" where
  "getTemplate \<equiv> gets (\<lambda>w. lmtOf w)"

abbreviation modTemplate :: "(LinodeMachineTemplate \<Rightarrow> LinodeMachineTemplate) \<Rightarrow> (MachineTemplateScope, unit) op" where
  "modTemplate f \<equiv> modObj (mts_LinodeMachineTemplate_update f)"

definition validateMachineTemplateScope :: "LinodeMachineTemplate option \<Rightarrow> error option" where
  "validateMachineTemplateScope t =
     (if t = None then Some (ErrNew ''LinodeMachineTemplate is required when creating a MachineTemplateScope'') else None)"

definition newPatchHelper :: "env \<Rightarrow> kobj \<Rightarrow> ('o, unit res) op" where
  "newPatchHelper E ob = do {
     e \<leftarrow> perform (K8s (KNewHelper ob)) (\<lambda>h. k_NewHelper (k8s E) h ob);
     ret (case e of Some err \<Rightarrow> Inl (ErrWrap ''failed to init patch helper: '' err) | None \<Rightarrow> Inr ())
   }"

definition NewMachineTemplateScope :: "env \<Rightarrow> LinodeMachineTemplate option \<Rightarrow> ('o, MachineTemplateScope res) op" where
  "NewMachineTemplateScope E t =
     (case validateMachineTemplateScope t of
        Some err \<Rightarrow> ret (Inl err)
      | None \<Rightarrow> bindE (newPatchHelper E (OMachineTemplate (the t))) (\<lambda>_. ret (Inr \<lparr>mts_LinodeMachineTemplate = the t\<rparr>)))"

definition MachineTemplateScope_Close :: "env \<Rightarrow> (MachineTemplateScope, error option) op" where
  "MachineTemplateScope_Close E = do {
     t \<leftarrow> getTemplate;
     perform (K8s (KPatch (OMachineTemplate t))) (\<lambda>h. k_Patch (k8s E) h (OMachineTemplate t))
   }"


section \<open>The controller\<close>

definition TemplateClonedFromNameAnnotation :: string where
  "TemplateClonedFromNameAnnotation = ''cluster.x-k8s.io/cloned-from-name''"

text \<open>Store a machine after a change; the patch helper is made from the machine before it.\<close>

definition patchMachine :: "env \<Rightarrow> string \<Rightarrow> (LinodeMachineSpec \<Rightarrow> LinodeMachineSpec) \<Rightarrow> LinodeMachine \<Rightarrow> ('o, LinodeMachine res) op" where
  "patchMachine E what f machine =
     bindE (newPatchHelper E (OMachine machine)) (\<lambda>_. do {
       let machine' = lm_Spec_update f machine;
       e \<leftarrow> perform (K8s (KPatch (OMachine machine'))) (\<lambda>h. k_Patch (k8s E) h (OMachine machine'));
       ret (case e of
              Some err \<Rightarrow> Inl (ErrWrap (''failed to patch LinodeMachine '' @ om_Name (lm_Meta machine) @ '' with new '' @ what @ '': '') err)
            | None \<Rightarrow> Inr machine')
     })"

definition mt_reconcileTags :: "env \<Rightarrow> LinodeMachineTemplate \<Rightarrow> LinodeMachine \<Rightarrow> ('o, LinodeMachine res) op" where
  "mt_reconcileTags E lmt machine = patchMachine E ''tags'' (lms_Tags_update (\<lambda>_. lms_Tags (lmtr_Spec (lmts_Template (lmt_Spec lmt))))) machine"

definition mt_reconcileFirewallID :: "env \<Rightarrow> LinodeMachineTemplate \<Rightarrow> LinodeMachine \<Rightarrow> ('o, LinodeMachine res) op" where
  "mt_reconcileFirewallID E lmt machine = patchMachine E ''firewallID'' (lms_FirewallID_update (\<lambda>_. lms_FirewallID (lmtr_Spec (lmts_Template (lmt_Spec lmt))))) machine"

text \<open>A missing annotation reads as the empty string.\<close>

definition clonedFrom :: "LinodeMachineTemplate \<Rightarrow> LinodeMachine \<Rightarrow> bool" where
  "clonedFrom lmt machine =
     ((case om_Annotations (lm_Meta machine) TemplateClonedFromNameAnnotation of None \<Rightarrow> [] | Some n \<Rightarrow> n) = om_Name (lmt_Meta lmt))"

definition tagsDiffer :: "LinodeMachineTemplate \<Rightarrow> bool" where
  "tagsDiffer lmt = (lms_Tags (lmtr_Spec (lmts_Template (lmt_Spec lmt))) \<noteq> lmts_Tags (lmt_Status lmt))"

definition firewallDiffers :: "LinodeMachineTemplate \<Rightarrow> bool" where
  "firewallDiffers lmt = (lms_FirewallID (lmtr_Spec (lmts_Template (lmt_Spec lmt))) \<noteq> lmts_FirewallID (lmt_Status lmt))"

definition updateMachine :: "env \<Rightarrow> LinodeMachineTemplate \<Rightarrow> LinodeMachine \<Rightarrow> ('o, unit res) op" where
  "updateMachine E lmt machine =
     bindE (if tagsDiffer lmt then mt_reconcileTags E lmt machine else ret (Inr machine)) (\<lambda>machine'.
     bindE (if firewallDiffers lmt then mt_reconcileFirewallID E lmt machine' else ret (Inr machine')) (\<lambda>_. ret (Inr ())))"

text \<open>
  The body of \<open>reconcile\<close> up to its return statement: the variable \<open>outErr\<close> that the deferred function
  reads, the failure reason and the error returned. A failed listing sets another variable \<open>outErr\<close>, of
  the \<open>if\<close> statement only.
\<close>

definition mt_reconcileBody :: "env \<Rightarrow> (MachineTemplateScope, error option \<times> string \<times> error option) op" where
  "mt_reconcileBody E = do {
     lmt \<leftarrow> getTemplate;
     let ns = om_Namespace (lmt_Meta lmt);
     l \<leftarrow> perform (K8s (KList KMachine ns [])) (\<lambda>h. k_ListMachines (k8s E) h ns []);
     case l of
       Inl err \<Rightarrow> ret (None, ''FailedToListLinodeMachines'', Some err)
     | Inr items \<Rightarrow> do {
         let machines = filter (clonedFrom lmt) items;
         r \<leftarrow> forE machines (updateMachine E lmt);
         case r of
           Inl err \<Rightarrow> do { let outErr = errors_Join [None, Some err]; ret (outErr, ''FailedToPatchLinodeMachine'', outErr) }
         | Inr _ \<Rightarrow>
             if machines = [] then ret (None, [], None)
             else do {
               _ \<leftarrow> modTemplate (lmt_Status_update (lmts_Tags_update (\<lambda>_. lms_Tags (lmtr_Spec (lmts_Template (lmt_Spec lmt))))));
               _ \<leftarrow> modTemplate (lmt_Status_update (lmts_FirewallID_update (\<lambda>_. lms_FirewallID (lmtr_Spec (lmts_Template (lmt_Spec lmt))))));
               ret (None, [], None)
             }
       }
   }"

text \<open>The results of \<open>reconcile\<close> have no names: what the deferred function assigns to \<open>outErr\<close> is not returned.\<close>

definition mt_deferred :: "env \<Rightarrow> error option \<Rightarrow> string \<Rightarrow> (MachineTemplateScope, unit) op" where
  "mt_deferred E outErr failureReason = do {
     now \<leftarrow> timeNow E;
     _ \<leftarrow> modTemplate (LinodeMachineTemplate_SetCondition now (case outErr of
            Some err \<Rightarrow> mkCond ReadyCondition statusFalse failureReason (errText err)
          | None \<Rightarrow> mkCond ReadyCondition statusTrue ''Reconciled'' ''LinodeMachineTemplate reconciled successfully''));
     _ \<leftarrow> MachineTemplateScope_Close E;
     ret ()
   }"

definition mt_reconcile :: "env \<Rightarrow> (MachineTemplateScope, outcome) op" where
  "mt_reconcile E = do {
     lmt \<leftarrow> getTemplate;
     if om_DeletionTimestamp (lmt_Meta lmt) \<noteq> None then ret (noResult, None)
     else do {
       (outErr, failureReason, err) \<leftarrow> mt_reconcileBody E;
       _ \<leftarrow> mt_deferred E outErr failureReason;
       ret (noResult, err)
     }
   }"

definition mt_Reconcile :: "env \<Rightarrow> NamespacedName \<Rightarrow> (unit, outcome) op" where
  "mt_Reconcile E req = do {
     r \<leftarrow> perform (K8s (KGet KMachineTemplate req)) (\<lambda>h. k_GetMachineTemplate (k8s E) h req);
     case r of
       Inl err \<Rightarrow> ret (noResult, IgnoreNotFound E (Some err))
     | Inr lmt \<Rightarrow> do {
         sc \<leftarrow> NewMachineTemplateScope E (Some lmt);
         case sc of
           Inl err \<Rightarrow> ret (noResult, Some (ErrWrap ''failed to create Machine Template scope: '' err))
         | Inr scope \<Rightarrow> withScope scope (mt_reconcile E)
       }
   }"


section \<open>What it shows\<close>

fun patchAccepted :: "env \<Rightarrow> kobj \<Rightarrow> hist \<Rightarrow> bool" where
  "patchAccepted E ob [] = False"
| "patchAccepted E ob (c # h) = ((case c of K8s (KPatch x) \<Rightarrow> x = ob \<and> k_Patch (k8s E) h x = None | _ \<Rightarrow> False) \<or> patchAccepted E ob h)"

lemma patchAccepted_append: "patchAccepted E ob h \<Longrightarrow> patchAccepted E ob (new @ h)"
  by (induction new) auto

text \<open>The last form in which a machine is stored: with the tags and the firewall that differ.\<close>

definition followed :: "LinodeMachineTemplate \<Rightarrow> LinodeMachine \<Rightarrow> LinodeMachine" where
  "followed lmt m =
     (let spec = lmtr_Spec (lmts_Template (lmt_Spec lmt));
          m1 = (if tagsDiffer lmt then lm_Spec_update (lms_Tags_update (\<lambda>_. lms_Tags spec)) m else m)
      in if firewallDiffers lmt then lm_Spec_update (lms_FirewallID_update (\<lambda>_. lms_FirewallID spec)) m1 else m1)"

definition follows :: "env \<Rightarrow> LinodeMachineTemplate \<Rightarrow> hist \<Rightarrow> LinodeMachine \<Rightarrow> bool" where
  "follows E lmt h m = (if tagsDiffer lmt \<or> firewallDiffers lmt then patchAccepted E (OMachine (followed lmt m)) h else True)"

lemma follows_append: "follows E lmt h m \<Longrightarrow> follows E lmt (new @ h) m"
  by (simp add: follows_def patchAccepted_append)

lemma list_all_follows_append: "list_all (follows E lmt h) ms \<Longrightarrow> list_all (follows E lmt (new @ h)) ms"
  by (induction ms) (auto intro: follows_append)

lemma wp_updateMachine:
  "wp (updateMachine E lmt m) (\<lambda>r t. obj t = obj s \<and> (\<exists>new. tr t = new @ tr s) \<and> (case r of Inl _ \<Rightarrow> True | Inr _ \<Rightarrow> follows E lmt (tr t) m)) s"
  by (auto simp: updateMachine_def mt_reconcileTags_def mt_reconcileFirewallID_def patchMachine_def newPatchHelper_def wp_rules follows_def followed_def Let_def
      split: option.splits)

lemma wp_updateMachines:
  fixes s :: "MachineTemplateScope world"
  shows "wp (forE ms (updateMachine E lmt)) (\<lambda>r t. obj t = obj s \<and> (\<exists>new. tr t = new @ tr s)
     \<and> (case r of Inl _ \<Rightarrow> True | Inr _ \<Rightarrow> list_all (follows E lmt (tr t)) ms)) s"
proof (induction ms arbitrary: s)
  case Nil
  then show ?case by (simp add: wp_return)
next
  case (Cons m ms)
  show ?case
    unfolding forE.simps
  proof (rule wp_seqE [OF wp_updateMachine [of E lmt m s]])
    fix x :: unit and t :: "MachineTemplateScope world"
    assume A: "obj t = obj s \<and> (\<exists>new. tr t = new @ tr s) \<and> (case Inr x of Inl _ \<Rightarrow> True | Inr _ \<Rightarrow> follows E lmt (tr t) m)"
    show "wp (forE ms (updateMachine E lmt)) (\<lambda>r t. obj t = obj s \<and> (\<exists>new. tr t = new @ tr s)
        \<and> (case r of Inl _ \<Rightarrow> True | Inr _ \<Rightarrow> list_all (follows E lmt (tr t)) (m # ms))) t"
      by (rule wp_mono [OF Cons.IH]) (use A in \<open>auto split: sum.splits intro: follows_append\<close>)
  qed auto
qed

text \<open>The tags and the firewall that the status records.\<close>

definition recorded :: "LinodeMachineTemplate \<Rightarrow> string list \<times> int" where
  "recorded lmt = (lmts_Tags (lmt_Status lmt), lmts_FirewallID (lmt_Status lmt))"

definition templateFollowed :: "env \<Rightarrow> MachineTemplateScope world \<Rightarrow> outcome \<Rightarrow> MachineTemplateScope world \<Rightarrow> bool" where
  "templateFollowed E s out t =
     (recorded (lmtOf t) = recorded (lmtOf s)
      \<or> snd out = None
        \<and> recorded (lmtOf t) = (lms_Tags (lmtr_Spec (lmts_Template (lmt_Spec (lmtOf s)))), lms_FirewallID (lmtr_Spec (lmts_Template (lmt_Spec (lmtOf s)))))
        \<and> (\<exists>items. k_ListMachines (k8s E) (tr s) (om_Namespace (lmt_Meta (lmtOf s))) [] = Inr items
            \<and> list_all (follows E (lmtOf s) (tr t)) (filter (clonedFrom (lmtOf s)) items)))"

lemma mt_deferred_keeps:
  "wp (mt_deferred E e r) (\<lambda>_ t. recorded (lmtOf t) = recorded (lmtOf s) \<and> (\<exists>new. tr t = new @ tr s)) s"
  by (auto simp: mt_deferred_def MachineTemplateScope_Close_def wp_rules recorded_def LinodeMachineTemplate_SetCondition_def)

lemma wp_mt_reconcileBody: "wp (mt_reconcileBody E) (\<lambda>(_, _, e) t. templateFollowed E s (noResult, e) t) s"
proof -
  let ?lmt = "lmtOf s" and ?ns = "om_Namespace (lmt_Meta (lmtOf s))"
  show ?thesis
  proof (cases "k_ListMachines (k8s E) (tr s) ?ns []")
    case (Inl err)
    then show ?thesis by (simp add: mt_reconcileBody_def wp_rules templateFollowed_def)
  next
    case (Inr items)
    let ?s1 = "s\<lparr>tr := K8s (KList KMachine ?ns []) # tr s\<rparr>"
    have "wp (forE (filter (clonedFrom ?lmt) items) (updateMachine E ?lmt)) (\<lambda>r t. obj t = obj ?s1 \<and> (\<exists>new. tr t = new @ tr ?s1)
        \<and> (case r of Inl _ \<Rightarrow> True | Inr _ \<Rightarrow> list_all (follows E ?lmt (tr t)) (filter (clonedFrom ?lmt) items))) ?s1"
      by (rule wp_updateMachines)
    then show ?thesis
      unfolding mt_reconcileBody_def wp_gets unfolding Let_def wp_bind wp_perform Inr sum.case
      by (rule wp_mono) (auto simp: wp_rules templateFollowed_def recorded_def Inr split: sum.splits)
  qed
qed

text \<open>
C21: The status of a template records new tags or a new firewall only when the reconciliation ends
without an error and every machine that was cloned from the template has been stored with them.
\<close>

theorem template_recorded_after_machines: "wp (mt_reconcile E) (templateFollowed E s) s"
proof -
  have "wp (do { (outErr, failureReason, err) \<leftarrow> mt_reconcileBody E; _ \<leftarrow> mt_deferred E outErr failureReason; ret (noResult, err) }) (templateFollowed E s) s"
  proof (rule wp_seq [OF wp_mt_reconcileBody [of E s]], clarify)
    fix e :: "error option" and reason err and t :: "MachineTemplateScope world"
    assume A: "templateFollowed E s (noResult, err) t"
    show "wp (do { _ \<leftarrow> mt_deferred E e reason; ret (noResult, err) }) (templateFollowed E s) t"
      by (rule wp_seq [OF mt_deferred_keeps [of E e reason t]])
        (use A in \<open>auto simp: wp_return templateFollowed_def intro: list_all_follows_append\<close>)
  qed
  then show ?thesis
    unfolding mt_reconcile_def wp_gets by (intro wp_ifI) (simp_all add: wp_return templateFollowed_def)
qed

text \<open>
When the machines cannot be listed the error is returned, but the template is marked ready: the
deferred function reads a variable \<open>outErr\<close> that the failing branch has shadowed.
\<close>

theorem template_ready_on_list_error:
  assumes "om_DeletionTimestamp (lmt_Meta (lmtOf s)) = None"
    and "k_ListMachines (k8s E) (tr s) (om_Namespace (lmt_Meta (lmtOf s))) [] = Inl err"
  shows "wp (mt_reconcile E) (\<lambda>(_, e) t. e = Some err \<and>
     (\<exists>c. lookupCond ReadyCondition (lmts_Conditions (lmt_Status (lmtOf t))) = Some c \<and> cd_Status c = statusTrue)) s"
  using assms
  by (simp add: mt_reconcile_def mt_reconcileBody_def mt_deferred_def MachineTemplateScope_Close_def LinodeMachineTemplate_SetCondition_def
      wp_rules lookup_putCond)

end
