(* ===== verification/Webhooks.thy ===== *)
theory Webhooks
  imports ObjectStorage
begin

text \<open>
  The admission webhooks of \<open>internal/webhook/v1alpha2\<close>: what is accepted when a resource is created (or,
  for access keys, updated) and the defaults of access keys. \<open>ValidateUpdate\<close> and \<open>ValidateDelete\<close> of the
  other resources accept everything. IP sets come from the package \<open>go4.org/netipx\<close>, a parameter of the
  VPC validator; prefixes come from the standard library and are modelled here.
\<close>

section \<open>Prefixes (net/netip and net)\<close>

type_synonym ipprefix = "ip \<times> nat"

text \<open>Clear all but the first \<open>n\<close> bits.\<close>

definition maskIP :: "nat \<Rightarrow> ip \<Rightarrow> ip" where
  "maskIP n bs = map (\<lambda>(i, b). let k = 8 - min 8 (n - 8 * i) in b div 2 ^ k * 2 ^ k) (enumerate 0 bs)"

definition beforeLast :: "char \<Rightarrow> string \<Rightarrow> (string \<times> string) option" where
  "beforeLast c s = (if c \<in> set s then Some (butlast (rev (dropWhile (\<lambda>x. x \<noteq> c) (rev s))), rev (takeWhile (\<lambda>x. x \<noteq> c) (rev s))) else None)"

definition bitLen :: "ip \<Rightarrow> nat" where
  "bitLen bs = 8 * length bs"

text \<open>\<open>netip.ParsePrefix\<close>: no zone, no sign and no leading zero in the number of bits.\<close>

definition ParsePrefix :: "string \<Rightarrow> ipprefix option" where
  "ParsePrefix s = (case beforeLast CHR ''/'' s of
     None \<Rightarrow> None
   | Some (a, bitsStr) \<Rightarrow> (case netip_ParseAddr a of
       None \<Rightarrow> None
     | Some (bs, zone) \<Rightarrow>
         if zone \<noteq> [] then None
         else if 1 < length bitsStr \<and> (\<not> isDigit (hd bitsStr) \<or> hd bitsStr = CHR ''0'') then None
         else (case Atoi bitsStr of
           Inl _ \<Rightarrow> None
         | Inr bits \<Rightarrow> if bits < 0 \<or> int (bitLen bs) < bits then None else Some (bs, nat bits))))"

definition Masked :: "ipprefix \<Rightarrow> ipprefix" where
  "Masked p = (maskIP (snd p) (fst p), snd p)"

text \<open>\<open>net.ParseCIDR\<close>: the address of the network and the length of its mask.\<close>

definition ParseCIDR :: "string \<Rightarrow> (ip \<times> nat) option" where
  "ParseCIDR s =
     (let a = takeWhile (\<lambda>c. c \<noteq> CHR ''/'') s; rest = dropWhile (\<lambda>c. c \<noteq> CHR ''/'') s; mask = tl rest in
      if rest = [] then None
      else (case netip_ParseAddr a of
        None \<Rightarrow> None
      | Some (bs, zone) \<Rightarrow>
          if zone \<noteq> [] \<or> mask = [] \<or> \<not> list_all isDigit mask \<or> bitLen bs < readNat mask then None
          else Some (maskIP (readNat mask) bs, readNat mask)))"


section \<open>Field errors\<close>

datatype ErrorType = ErrorTypeInvalid | ErrorTypeNotFound | ErrorTypeRequired | ErrorTypeInternal

record FieldError =
  fe_Type :: ErrorType
  fe_Field :: string
  fe_BadValue :: string
  fe_Detail :: string

abbreviation field_Invalid :: "string \<Rightarrow> string \<Rightarrow> string \<Rightarrow> FieldError" where
  "field_Invalid path v detail \<equiv> \<lparr>fe_Type = ErrorTypeInvalid, fe_Field = path, fe_BadValue = v, fe_Detail = detail\<rparr>"

abbreviation field_NotFound :: "string \<Rightarrow> string \<Rightarrow> FieldError" where
  "field_NotFound path v \<equiv> \<lparr>fe_Type = ErrorTypeNotFound, fe_Field = path, fe_BadValue = v, fe_Detail = []\<rparr>"

abbreviation field_InternalError :: "string \<Rightarrow> error \<Rightarrow> FieldError" where
  "field_InternalError path err \<equiv> \<lparr>fe_Type = ErrorTypeInternal, fe_Field = path, fe_BadValue = [], fe_Detail = errText err\<rparr>"

text \<open>The answer of a webhook: a rejection is the error \<open>apierrors.NewInvalid\<close> makes of a kind, a name and a list.\<close>

datatype admission = Admitted | AdmissionError error | Rejected string string "FieldError list"

definition admit :: "string \<Rightarrow> string \<Rightarrow> FieldError list \<Rightarrow> admission" where
  "admit kind name errs = (if errs = [] then Admitted else Rejected kind name errs)"

definition toList :: "'a option \<Rightarrow> 'a list" where
  "toList x = (case x of None \<Rightarrow> [] | Some y \<Rightarrow> [y])"


section \<open>Helpers (webhook\_helpers.go)\<close>

definition minLabelLength :: nat where "minLabelLength = 3"
definition maxLabelLength :: nat where "maxLabelLength = 32"
definition labelLengthDetail :: string where "labelLengthDetail = ''must be between 3 and 32 characters''"

definition validateLabelLength :: "string \<Rightarrow> string \<Rightarrow> FieldError option" where
  "validateLabelLength label path =
     (if length label < minLabelLength \<or> maxLabelLength < length label then Some (field_Invalid path label labelLengthDetail) else None)"

definition validateRegion :: "env \<Rightarrow> string \<Rightarrow> string \<Rightarrow> string list \<Rightarrow> ('o, FieldError option) op" where
  "validateRegion E rid path capabilities = do {
     (err, caps) \<leftarrow> perform (INST (CGetRegion rid)) (\<lambda>h. (ine_GetRegion (ine E) h rid, ine_RegionCapabilities (ine E) h rid));
     ret (if err \<noteq> None then Some (field_NotFound path rid)
          else map_option (\<lambda>c. field_Invalid path rid (''no capability: '' @ c)) (find (\<lambda>c. c \<notin> set caps) capabilities))
   }"

text \<open>Of a plan only the size of its disk is used.\<close>

definition validateLinodeType :: "env \<Rightarrow> string \<Rightarrow> string \<Rightarrow> ('o, int option \<times> FieldError option) op" where
  "validateLinodeType E tid path = do {
     r \<leftarrow> perform (INST (CGetType tid)) (\<lambda>h. ine_GetTypeDisk (ine E) h tid);
     ret (case r of Inl _ \<Rightarrow> (None, Some (field_NotFound path tid)) | Inr disk \<Rightarrow> (Some disk, None))
   }"

definition wh_getCredentials :: "env \<Rightarrow> SecretReference \<Rightarrow> string \<Rightarrow> ('o, Secret res) op" where
  "wh_getCredentials E credentialsRef defaultNamespace = do {
     let ns = (if sr_Namespace credentialsRef = [] then defaultNamespace else sr_Namespace credentialsRef);
     let key = \<lparr>nn_Namespace = ns, nn_Name = sr_Name credentialsRef\<rparr>;
     wrapE (''get credentials secret '' @ ns @ ''/'' @ sr_Name credentialsRef @ '': '')
       (perform (K8s (KGet KSecret key)) (\<lambda>h. k_GetSecret (k8s E) h key))
   }"

definition wh_getCredentialDataFromRef :: "env \<Rightarrow> SecretReference \<Rightarrow> string \<Rightarrow> ('o, string res) op" where
  "wh_getCredentialDataFromRef E credentialsRef defaultNamespace =
     bindE (wh_getCredentials E credentialsRef defaultNamespace) (\<lambda>credSecret.
       ret (case sec_Data credSecret ''apiToken'' of
              None \<Rightarrow> Inl (ErrNew (''no apiToken key in credentials secret '' @ sr_Namespace credentialsRef @ ''/'' @ sr_Name credentialsRef))
            | Some rawData \<Rightarrow> Inr rawData))"

text \<open>The result says whether the validation against the API is skipped.\<close>

definition setupClientWithCredentials :: "env \<Rightarrow> SecretReference option \<Rightarrow> string \<Rightarrow> ('o, bool res) op" where
  "setupClientWithCredentials E credRef namespace = do {
     c \<leftarrow> perform NewLinodeClient (k_NewLinodeClient (k8s E));
     case c of
       Some err \<Rightarrow> ret (Inl err)
     | None \<Rightarrow> do {
         r \<leftarrow> (case credRef of
                None \<Rightarrow> ret (Inr (lib_LinodeToken (lib E)))
              | Some ref \<Rightarrow> wh_getCredentialDataFromRef E ref namespace);
         case r of
           Inr apiToken \<Rightarrow> do { _ \<leftarrow> perform (SetToken apiToken) (\<lambda>_. ()); ret (Inr False) }
         | Inl err \<Rightarrow> ret (Inr (lib_IsNotFound (lib E) (Some err)))
       }
   }"

text \<open>The frame of every \<open>ValidateCreate\<close> that talks to the Linode API.\<close>

definition validateCreate :: "env \<Rightarrow> SecretReference option \<Rightarrow> ObjectMeta \<Rightarrow> string \<Rightarrow> (bool \<Rightarrow> ('o, FieldError list) op) \<Rightarrow> ('o, admission) op" where
  "validateCreate E credRef om kind validateSpec = do {
     r \<leftarrow> setupClientWithCredentials E credRef (om_Namespace om);
     case r of
       Inl err \<Rightarrow> ret (AdmissionError err)
     | Inr skipAPIValidation \<Rightarrow> do {
         errs \<leftarrow> validateSpec skipAPIValidation;
         ret (admit kind (om_Name om) (toList (validateLabelLength (om_Name om) ''metadata.name'') @ errs))
       }
   }"


section \<open>Machines (linodemachine\_webhook.go)\<close>

text \<open>The space that is left after a disk, in bytes.\<close>

definition validateDisk :: "env \<Rightarrow> InstanceDisk option \<Rightarrow> string \<Rightarrow> int \<Rightarrow> int \<Rightarrow> FieldError + int" where
  "validateDisk E disk path planSize remainSize =
     (case disk of
        None \<Rightarrow> Inr remainSize
      | Some d \<Rightarrow>
          if dk_Size d < 1 then Inl (field_Invalid path (lib_QuantityString (lib E) (dk_Size d)) ''invalid size'')
          else if remainSize < dk_Size d
          then Inl (field_Invalid path (lib_QuantityString (lib E) (dk_Size d)) (''sum disk sizes exceeds plan storage: '' @ lib_QuantityString (lib E) planSize))
          else Inr (remainSize - dk_Size d))"

fun validateDiskList :: "env \<Rightarrow> int \<Rightarrow> (string \<times> InstanceDisk option) list \<Rightarrow> int \<Rightarrow> FieldError + int" where
  "validateDiskList E planSize [] remainSize = Inr remainSize"
| "validateDiskList E planSize ((path, d) # ds) remainSize =
     (case validateDisk E d path planSize remainSize of Inl err \<Rightarrow> Inl err | Inr r \<Rightarrow> validateDiskList E planSize ds r)"

definition validateDataDisks :: "env \<Rightarrow> InstanceDisks option \<Rightarrow> string \<Rightarrow> int \<Rightarrow> int \<Rightarrow> FieldError + int" where
  "validateDataDisks E disks path planSize remainSize =
     (case disks of
        None \<Rightarrow> Inr remainSize
      | Some ds \<Rightarrow> validateDiskList E planSize
          [(path @ ''.SDB'', dks_SDB ds), (path @ ''.SDC'', dks_SDC ds), (path @ ''.SDD'', dks_SDD ds), (path @ ''.SDE'', dks_SDE ds),
           (path @ ''.SDF'', dks_SDF ds), (path @ ''.SDG'', dks_SDG ds), (path @ ''.SDH'', dks_SDH ds)] remainSize)"

text \<open>A plan gives its size in megabytes.\<close>

definition validateLinodeMachineDisks :: "env \<Rightarrow> int option \<Rightarrow> LinodeMachineSpec \<Rightarrow> FieldError option" where
  "validateLinodeMachineDisks E plan spec =
     (case plan of
        None \<Rightarrow> None
      | Some disk \<Rightarrow>
          let planSize = disk * 1000000 in
          (case validateDisk E (lms_OSDisk spec) ''spec.osDisk'' planSize planSize of
             Inl err \<Rightarrow> Some err
           | Inr remainSize \<Rightarrow> (case validateDataDisks E (lms_DataDisks spec) ''spec.dataDisks'' planSize remainSize of
               Inl err \<Rightarrow> Some err | Inr _ \<Rightarrow> None)))"

definition validateLinodeInterfaces :: "LinodeMachineSpec \<Rightarrow> FieldError list" where
  "validateLinodeInterfaces spec =
     (if lms_Interfaces spec \<noteq> [] then [field_Invalid ''spec.linodeInterfaces/spec.interfaces'' [] ''Cannot specify both LinodeInterfaces and Interfaces''] else [])
     @ (if lms_PrivateIP spec = Some True then [field_Invalid ''spec.linodeInterfaces/spec.privateIP'' [] ''Linode Interfaces do not support private IPs''] else [])"

definition machineAPIErrors :: "env \<Rightarrow> LinodeMachineSpec \<Rightarrow> ('o, FieldError list) op" where
  "machineAPIErrors E spec = do {
     regionErr \<leftarrow> validateRegion E (lms_Region spec) ''spec.region'' (if lms_LinodeInterfaces spec \<noteq> [] then [''Linode Interfaces''] else []);
     (plan, typeErr) \<leftarrow> validateLinodeType E (lms_Type spec) ''spec.type'';
     ret (toList regionErr @ toList typeErr @ toList (validateLinodeMachineDisks E plan spec))
   }"

definition validateLinodeMachineSpec :: "env \<Rightarrow> LinodeMachineSpec \<Rightarrow> bool \<Rightarrow> ('o, FieldError list) op" where
  "validateLinodeMachineSpec E spec skipAPIValidation = do {
     errs \<leftarrow> (if skipAPIValidation then ret [] else machineAPIErrors E spec);
     ret (errs
       @ (if lms_VPCID spec \<noteq> None \<and> lms_VPCRef spec \<noteq> None then [field_Invalid ''spec.vpcID/spec.vpcRef'' [] ''Cannot specify both VPCID and VPCRef''] else [])
       @ (if lms_LinodeInterfaces spec \<noteq> [] then validateLinodeInterfaces spec else [])
       @ (if lms_FirewallID spec \<noteq> 0 \<and> lms_FirewallRef spec \<noteq> None
          then [field_Invalid ''spec.firewallID/spec.firewallRef'' [] ''Cannot specify both FirewallID and FirewallRef''] else []))
   }"

definition machine_ValidateCreate :: "env \<Rightarrow> LinodeMachine \<Rightarrow> ('o, admission) op" where
  "machine_ValidateCreate E m =
     validateCreate E (lms_CredentialsRef (lm_Spec m)) (lm_Meta m) ''LinodeMachine'' (validateLinodeMachineSpec E (lm_Spec m))"


section \<open>VPCs (linodevpc\_webhook.go)\<close>

text \<open>
  The package \<open>netipx\<close>: a builder is the list of what was added to it; the type of its sets is \<open>'x\<close>.
\<close>

datatype 'x additem = AddPrefix ipprefix | AddSet 'x

record 'x netipx =
  nx_ComparePrefix :: "ipprefix \<Rightarrow> ipprefix \<Rightarrow> int"
  nx_MaskSize :: "ipprefix \<Rightarrow> int"
  nx_EmptySet :: 'x
  nx_IPSet :: "'x additem list \<Rightarrow> 'x \<times> error option"
  nx_Overlaps :: "'x \<Rightarrow> 'x \<Rightarrow> bool"
  nx_OverlapsPrefix :: "'x \<Rightarrow> ipprefix \<Rightarrow> bool"
  nx_PrefixesText :: "'x \<Rightarrow> string"

definition mustParseIPSet :: "'x netipx \<Rightarrow> string list \<Rightarrow> 'x" where
  "mustParseIPSet N cidrs = fst (nx_IPSet N (map (\<lambda>c. AddPrefix (case ParsePrefix c of None \<Rightarrow> ([], 0) | Some p \<Rightarrow> p)) cidrs))"

definition LinodeVPCSubnetReserved :: "'x netipx \<Rightarrow> 'x" where
  "LinodeVPCSubnetReserved N = mustParseIPSet N [''192.168.128.0/17'']"

definition isAlnum :: "char \<Rightarrow> bool" where
  "isAlnum c = (let n = of_char c :: nat in 48 \<le> n \<and> n \<le> 57 \<or> 65 \<le> n \<and> n \<le> 90 \<or> 97 \<le> n \<and> n \<le> 122)"

definition validateVPCLabel :: "string \<Rightarrow> string \<Rightarrow> FieldError option" where
  "validateVPCLabel label path =
     (if length label < 1 \<or> 64 < length label then Some (field_Invalid path label ''1..64 characters'')
      else if \<not> list_all (\<lambda>c. c = CHR ''-'' \<or> isAlnum c) label
      then Some (field_Invalid path label ''can only contain ASCII letters, numbers, and hyphens (-)'')
      else if strings_Contains label ''--'' then Some (field_Invalid path label ''cannot contain two consecutive hyphens (--)'')
      else None)"

definition validateSubnetIPv4CIDR :: "'x netipx \<Rightarrow> string \<Rightarrow> string \<Rightarrow> FieldError + 'x" where
  "validateSubnetIPv4CIDR N cidr path =
     (let notCanonical = Inl (field_Invalid path cidr ''must be IPv4 range in CIDR canonical form'') in
      case ParsePrefix cidr of
        None \<Rightarrow> notCanonical
      | Some pfx \<Rightarrow>
          if length (fst pfx) \<noteq> 4 then notCanonical
          else if nx_ComparePrefix N pfx (Masked pfx) \<noteq> 0 then notCanonical
          else if nx_MaskSize N pfx < 1 \<or> 29 < nx_MaskSize N pfx then Inl (field_Invalid path cidr ''allowed prefix lengths: 1-29'')
          else if nx_OverlapsPrefix N (LinodeVPCSubnetReserved N) pfx
          then Inl (field_Invalid path cidr (''range must not overlap with '' @ nx_PrefixesText N (LinodeVPCSubnetReserved N)))
          else (case nx_IPSet N [AddPrefix pfx] of
            (ipset, None) \<Rightarrow> Inr ipset
          | (_, Some err) \<Rightarrow> Inl (field_InternalError path (ErrWrap ''build ip set: '' err))))"

definition validateIPv6Range :: "string option \<Rightarrow> string \<Rightarrow> FieldError option" where
  "validateIPv6Range ipv6Range path =
     (let s = (case ipv6Range of None \<Rightarrow> ''auto'' | Some r \<Rightarrow> r);
          bounds = ''IPv6 range must be between /0 and /128'' in
      if s = ''auto'' then None
      else if (case ParseCIDR s of Some (net, ones) \<Rightarrow> To4 net = [] | None \<Rightarrow> False) then None
      else if s \<noteq> [] \<and> hd s = CHR ''/'' then
        (case Atoi (tl s) of
           Inl _ \<Rightarrow> Some (field_Invalid path s (''IPv6 range doesn'' @ [CHR 39] @ ''t contain a valid number after /''))
         | Inr num \<Rightarrow> if num < 0 \<or> 128 < num then Some (field_Invalid path s bounds) else None)
      else Some (field_Invalid path s (''IPv6 range must be either '' @ [CHR 39] @ ''auto'' @ [CHR 39]
            @ '', valid IPv6 prefix or start with /. Example: auto, /52, 2001:db8::/52'')))"

definition indexed :: "string \<Rightarrow> nat \<Rightarrow> string \<Rightarrow> string" where
  "indexed path i child = path @ ''['' @ Itoa (int i) @ ''].'' @ child"

definition validateRanges :: "string \<Rightarrow> string option list \<Rightarrow> FieldError list" where
  "validateRanges path ranges = concat (map (\<lambda>(i, r). toList (validateIPv6Range r (indexed path i ''Range''))) (enumerate 0 ranges))"

definition subnetLabel :: "string \<Rightarrow> string \<Rightarrow> string list \<Rightarrow> FieldError list \<times> string list" where
  "subnetLabel label path labels =
     (case validateVPCLabel label path of
        Some err \<Rightarrow> ([err], labels)
      | None \<Rightarrow> if label \<in> set labels then ([field_Invalid path label (''must be unique among the vpc'' @ [CHR 39] @ ''s subnets'')], labels)
                else ([], labels @ [label]))"

text \<open>The loop over the subnets; a failure to build the set ends it with that error alone.\<close>

fun subnetLoop :: "'x netipx \<Rightarrow> nat \<Rightarrow> VPCSubnetCreateOptions list \<Rightarrow> FieldError list \<Rightarrow> 'x additem list \<Rightarrow> 'x \<Rightarrow> string list \<Rightarrow> FieldError list" where
  "subnetLoop N idx [] errs builder cidrs labels = errs"
| "subnetLoop N idx (subnet # subnets) errs builder cidrs labels =
     (let ipPath = indexed ''spec.Subnets'' idx ''IPv4'';
          (labelErrs, labels') = subnetLabel (sn_Label subnet) (indexed ''spec.Subnets'' idx ''Label'') labels in
      case validateSubnetIPv4CIDR N (sn_IPv4 subnet) ipPath of
        Inl ferr \<Rightarrow> subnetLoop N (idx + 1) subnets (errs @ labelErrs @ [ferr]) builder cidrs labels'
      | Inr cidr \<Rightarrow>
          let overlapErrs = (if nx_Overlaps N cidrs cidr
                then [field_Invalid ipPath (sn_IPv4 subnet) ''range must not overlap with other subnets on the same vpc''] else []);
              builder' = builder @ [AddSet cidr] in
          (case nx_IPSet N builder' of
             (_, Some err) \<Rightarrow> [field_InternalError ipPath (ErrWrap ''build ip set: '' err)]
           | (cidrs', None) \<Rightarrow> subnetLoop N (idx + 1) subnets
               (errs @ labelErrs @ overlapErrs @ validateRanges (indexed ''spec.Subnets'' idx ''IPv6Range'') (map vs6_Range (sn_IPv6Range subnet)))
               builder' cidrs' labels'))"

definition validateLinodeVPCSubnets :: "'x netipx \<Rightarrow> LinodeVPCSpec \<Rightarrow> FieldError list" where
  "validateLinodeVPCSubnets N spec = subnetLoop N 0 (vpc_Subnets spec) [] [] (nx_EmptySet N) []"

definition validateLinodeVPCSpec :: "'x netipx \<Rightarrow> env \<Rightarrow> LinodeVPCSpec \<Rightarrow> bool \<Rightarrow> ('o, FieldError list) op" where
  "validateLinodeVPCSpec N E spec skipAPIValidation = do {
     regionErr \<leftarrow> (if skipAPIValidation then ret None else validateRegion E (vpc_Region spec) ''spec.region'' [''VPCs'']);
     ret (toList regionErr @ validateLinodeVPCSubnets N spec @ validateRanges ''spec.IPv6Range'' (map vo6_Range (vpc_IPv6Range spec)))
   }"

definition vpc_ValidateCreate :: "'x netipx \<Rightarrow> env \<Rightarrow> LinodeVPC \<Rightarrow> ('o, admission) op" where
  "vpc_ValidateCreate N E v =
     validateCreate E (vpc_CredentialsRef (lv_Spec v)) (lv_Meta v) ''LinodeVPC'' (validateLinodeVPCSpec N E (lv_Spec v))"


section \<open>Clusters, placement groups, buckets and firewalls\<close>

definition validateLinodeClusterSpec :: "env \<Rightarrow> LinodeClusterSpec \<Rightarrow> bool \<Rightarrow> ('o, FieldError list) op" where
  "validateLinodeClusterSpec E spec skipAPIValidation = do {
     regionErr \<leftarrow> (if skipAPIValidation then ret None else validateRegion E (lcs_Region spec) ''spec.region'' []);
     let net = lcs_Network spec;
     ret (toList regionErr
       @ (if net_LoadBalancerType net = ''dns'' \<and> net_DNSRootDomain net = []
          then [\<lparr>fe_Type = ErrorTypeRequired, fe_Field = ''dnsRootDomain needs to be set when LoadBalancer Type is DNS'', fe_BadValue = [], fe_Detail = []\<rparr>] else [])
       @ (if net_UseVlan net \<and> lcs_VPCRef spec \<noteq> None
          then [field_Invalid ''Cannot use VLANs and VPCs together. Unset `network.useVlan` or remove `vpcRef`'' [] []] else [])
       @ (if lcs_VPCID spec \<noteq> None \<and> lcs_VPCRef spec \<noteq> None then [field_Invalid ''spec.vpcID/spec.vpcRef'' [] ''Cannot specify both VPCID and VPCRef''] else [])
       @ (if net_NodeBalancerFirewallID net \<noteq> None \<and> lcs_NodeBalancerFirewallRef spec \<noteq> None
          then [field_Invalid ''spec.network.nodeBalancerFirewallID/spec.nodeBalancerFirewallRef'' []
                  ''Cannot specify both NodeBalancerFirewallID and NodeBalancerFirewallRef''] else []))
   }"

definition cluster_ValidateCreate :: "env \<Rightarrow> LinodeCluster \<Rightarrow> ('o, admission) op" where
  "cluster_ValidateCreate E lc =
     validateCreate E (lcs_CredentialsRef (lc_Spec lc)) (lc_Meta lc) ''LinodeCluster'' (validateLinodeClusterSpec E (lc_Spec lc))"

definition validatePlacementGroupLabel :: "string \<Rightarrow> string \<Rightarrow> FieldError option" where
  "validatePlacementGroupLabel label path =
     (if length label < 1 \<or> 64 < length label then Some (field_Invalid path label ''1..64 characters'')
      else if \<not> (isAlnum (hd label) \<and> isAlnum (last label) \<and> list_all (\<lambda>c. c \<in> set ''-_.'' \<or> isAlnum c) label)
      then Some (field_Invalid path label
        ''can only contain ASCII letters, numbers, hyphens (-), underscores (_) and periods (.), must start and end with a alphanumeric character'')
      else None)"

definition validateLinodePlacementGroupSpec :: "env \<Rightarrow> LinodePlacementGroupSpec \<Rightarrow> string \<Rightarrow> bool \<Rightarrow> ('o, FieldError list) op" where
  "validateLinodePlacementGroupSpec E spec label skipAPIValidation = do {
     regionErr \<leftarrow> (if skipAPIValidation then ret None else validateRegion E (pg_Region spec) ''spec.region'' [''Placement Group'']);
     ret (toList regionErr @ toList (validatePlacementGroupLabel label ''metadata.name''))
   }"

definition pg_ValidateCreate :: "env \<Rightarrow> LinodePlacementGroup \<Rightarrow> ('o, admission) op" where
  "pg_ValidateCreate E pg =
     validateCreate E (pg_CredentialsRef (lpg_Spec pg)) (lpg_Meta pg) ''LinodePlacementGroup''
       (validateLinodePlacementGroupSpec E (lpg_Spec pg) (om_Name (lpg_Meta pg)))"

definition validateLinodeObjectStorageBucketSpec :: "env \<Rightarrow> LinodeObjectStorageBucket \<Rightarrow> bool \<Rightarrow> ('o, FieldError list) op" where
  "validateLinodeObjectStorageBucketSpec E b skipAPIValidation =
     (if skipAPIValidation then ret []
      else do { regionErr \<leftarrow> validateRegion E (bk_Region (lobj_Spec b)) ''spec.region'' [''Object Storage'']; ret (toList regionErr) })"

definition bucket_ValidateCreate :: "env \<Rightarrow> LinodeObjectStorageBucket \<Rightarrow> ('o, admission) op" where
  "bucket_ValidateCreate E b =
     validateCreate E (bk_CredentialsRef (lobj_Spec b)) (lobj_Meta b) ''LinodeObjectStorageBucket'' (validateLinodeObjectStorageBucketSpec E b)"

definition firewall_ValidateCreate :: "LinodeFirewall \<Rightarrow> admission" where
  "firewall_ValidateCreate fw =
     admit ''LinodeFirewall'' (om_Name (lfw_Meta fw)) (toList (validateLabelLength (om_Name (lfw_Meta fw)) ''metadata.name''))"


section \<open>Access keys (linodeobjectstoragekey\_webhook.go)\<close>

text \<open>The bad value is the empty format itself.\<close>

definition validateLinodeObjectStorageKey :: "LinodeObjectStorageKey \<Rightarrow> FieldError list" where
  "validateLinodeObjectStorageKey k =
     (let gs = ky_GeneratedSecret (lok_Spec k) in
      if gs_Type gs = ClusterResourceSetSecretType \<and> gs_Format gs = []
      then [field_Invalid ''spec.generatedSecret.format'' ''map[]'' (''must not be empty with Secret type '' @ ClusterResourceSetSecretType)] else [])"

definition key_ValidateCreate :: "LinodeObjectStorageKey \<Rightarrow> admission" where
  "key_ValidateCreate k =
     admit ''LinodeObjectStorageKey'' (om_Name (lok_Meta k))
       (toList (validateLabelLength (om_Name (lok_Meta k)) ''metadata.name'') @ validateLinodeObjectStorageKey k)"

definition key_ValidateUpdate :: "LinodeObjectStorageKey \<Rightarrow> admission" where
  "key_ValidateUpdate k = admit ''LinodeObjectStorageKey'' (om_Name (lok_Meta k)) (validateLinodeObjectStorageKey k)"

definition defaultKeySecretName :: "string \<Rightarrow> string" where
  "defaultKeySecretName name = name @ ''-obj-key''"

definition key_Default :: "LinodeObjectStorageKey \<Rightarrow> LinodeObjectStorageKey" where
  "key_Default k =
     (let gs = ky_GeneratedSecret (lok_Spec k);
          gs1 = (if gs_Name gs = [] then gs\<lparr>gs_Name := defaultKeySecretName (om_Name (lok_Meta k))\<rparr> else gs);
          gs2 = (if gs_Namespace gs1 = [] then gs1\<lparr>gs_Namespace := om_Namespace (lok_Meta k)\<rparr> else gs1)
      in lok_Spec_update (ky_GeneratedSecret_update (\<lambda>_. gs2)) k)"

end
