(* ===== verification/WebhooksProps.thy ===== *)
theory WebhooksProps
  imports Webhooks
begin

text \<open>
  What a resource that the webhooks admit satisfies: the disks of a machine fit into its plan, the
  subnets of a VPC have different valid labels and disjoint ranges, the defaults of an access key are
  stable.
\<close>

section \<open>Disks\<close>

definition sizesOf :: "InstanceDisk option list \<Rightarrow> int list" where
  "sizesOf ds = map dk_Size (List.map_filter id ds)"

definition diskSizes :: "LinodeMachineSpec \<Rightarrow> int list" where
  "diskSizes spec = sizesOf (lms_OSDisk spec # (case lms_DataDisks spec of None \<Rightarrow> []
     | Some ds \<Rightarrow> [dks_SDB ds, dks_SDC ds, dks_SDD ds, dks_SDE ds, dks_SDF ds, dks_SDG ds, dks_SDH ds]))"

lemma sizesOf_simps [simp]: "sizesOf [] = []" "sizesOf (None # ds) = sizesOf ds" "sizesOf (Some d # ds) = dk_Size d # sizesOf ds"
  by (simp_all add: sizesOf_def List.map_filter_simps)

lemma sum_list_nonneg_int: "list_all (\<lambda>n. 1 \<le> (n :: int)) xs \<Longrightarrow> 0 \<le> sum_list xs"
  by (induction xs) auto

lemma validateDiskList_fits:
  "(\<exists>r. validateDiskList E p ds space = Inr r) = (list_all (\<lambda>n. 1 \<le> n) (sizesOf (map snd ds)) \<and> (sizesOf (map snd ds) = [] \<or> sum_list (sizesOf (map snd ds)) \<le> space))"
proof (induction ds arbitrary: space)
  case (Cons pd ds)
  obtain path d where [simp]: "pd = (path, d)" by (cases pd)
  show ?case
  proof (cases d)
    case (Some dk)
    have "sizesOf (map snd ds) = [] \<or> 0 \<le> sum_list (sizesOf (map snd ds)) \<or> \<not> list_all (\<lambda>n. 1 \<le> n) (sizesOf (map snd ds))"
      using sum_list_nonneg_int by blast
    with Cons.IH Some show ?thesis by (auto simp: validateDisk_def)
  qed (use Cons.IH in \<open>auto simp: validateDisk_def\<close>)
qed simp

text \<open>
The webhook accepts the disks of a machine exactly when each of them has a positive size and they fit
into the storage of the plan together (without any disk there is nothing to check).
\<close>

lemma machine_disks_admitted:
  "(validateLinodeMachineDisks E (Some disk) spec = None)
     = (list_all (\<lambda>n. 1 \<le> n) (diskSizes spec) \<and> (diskSizes spec = [] \<or> sum_list (diskSizes spec) \<le> disk * 1000000))"
proof -
  let ?ds = "(''spec.osDisk'', lms_OSDisk spec) # (case lms_DataDisks spec of None \<Rightarrow> [] | Some ds \<Rightarrow>
      [(''spec.dataDisks.SDB'', dks_SDB ds), (''spec.dataDisks.SDC'', dks_SDC ds), (''spec.dataDisks.SDD'', dks_SDD ds), (''spec.dataDisks.SDE'', dks_SDE ds),
       (''spec.dataDisks.SDF'', dks_SDF ds), (''spec.dataDisks.SDG'', dks_SDG ds), (''spec.dataDisks.SDH'', dks_SDH ds)])"
  have "(validateLinodeMachineDisks E (Some disk) spec = None) = (\<exists>r. validateDiskList E (disk * 1000000) ?ds (disk * 1000000) = Inr r)"
    by (simp add: validateLinodeMachineDisks_def validateDataDisks_def Let_def split: sum.splits option.splits)
  moreover have "sizesOf (map snd ?ds) = diskSizes spec"
    by (simp add: diskSizes_def split: option.split)
  ultimately show ?thesis unfolding validateDiskList_fits by simp
qed


section \<open>Subnets\<close>

text \<open>The addresses of a prefix, and those of the range of a subnet.\<close>

definition prefixAddrs :: "ipprefix \<Rightarrow> ip set" where
  "prefixAddrs p = {a. length a = length (fst p) \<and> maskIP (snd p) a = maskIP (snd p) (fst p)}"

definition rangeAddrs :: "string \<Rightarrow> ip set" where
  "rangeAddrs cidr = (case ParsePrefix cidr of None \<Rightarrow> {} | Some p \<Rightarrow> prefixAddrs p)"

text \<open>
  What \<open>netipx\<close> documents about the IPv4 prefixes and sets the validator uses: \<open>sem\<close> gives the addresses
  of a set.
\<close>

definition v4Prefix :: "ipprefix \<Rightarrow> bool" where
  "v4Prefix p = (length (fst p) = 4 \<and> snd p \<le> 32)"

primrec itemValid :: "'x additem \<Rightarrow> bool" where
  "itemValid (AddPrefix p) = v4Prefix p"
| "itemValid (AddSet s) = True"

primrec itemAddrs :: "('x \<Rightarrow> ip set) \<Rightarrow> 'x additem \<Rightarrow> ip set" where
  "itemAddrs sem (AddPrefix p) = prefixAddrs p"
| "itemAddrs sem (AddSet s) = sem s"

definition netipxLaws :: "'x netipx \<Rightarrow> ('x \<Rightarrow> ip set) \<Rightarrow> bool" where
  "netipxLaws N sem =
     ((\<forall>p q. v4Prefix p \<longrightarrow> v4Prefix q \<longrightarrow> (nx_ComparePrefix N p q = 0) = (p = q))
    \<and> (\<forall>p. v4Prefix p \<longrightarrow> nx_MaskSize N p = int (snd p))
    \<and> sem (nx_EmptySet N) = {}
    \<and> (\<forall>items. list_all itemValid items \<longrightarrow> (\<exists>s. nx_IPSet N items = (s, None) \<and> sem s = (\<Union>x\<in>set items. itemAddrs sem x)))
    \<and> (\<forall>s t. nx_Overlaps N s t = (sem s \<inter> sem t \<noteq> {}))
    \<and> (\<forall>s p. v4Prefix p \<longrightarrow> nx_OverlapsPrefix N s p = (sem s \<inter> prefixAddrs p \<noteq> {})))"

text \<open>
  The rules for a subnet. Its range is an IPv4 prefix of 1 to 29 bits in canonical form, outside the reserved one. Its label has 1 to
  64 letters, digits and hyphens and no two hyphens in a row. An IPv6 range is \<open>auto\<close> (also when it is left out), an IPv6
  prefix, or a slash and a number from 0 to 128.
\<close>

definition rangeAllowed :: "string \<Rightarrow> bool" where
  "rangeAllowed cidr = (case ParsePrefix cidr of None \<Rightarrow> False
     | Some p \<Rightarrow> length (fst p) = 4 \<and> Masked p = p \<and> 1 \<le> snd p \<and> snd p \<le> 29 \<and> prefixAddrs p \<inter> rangeAddrs ''192.168.128.0/17'' = {})"

definition labelAllowed :: "string \<Rightarrow> bool" where
  "labelAllowed l = (length l \<in> {1..64}
     \<and> set l \<subseteq> set ''-0123456789ABCDEFGHIJKLMNOPQRSTUVWXYZabcdefghijklmnopqrstuvwxyz''
     \<and> successively (\<lambda>c d. \<not> (c = CHR ''-'' \<and> d = CHR ''-'')) l)"

definition range6Allowed :: "string option \<Rightarrow> bool" where
  "range6Allowed r = (case r of None \<Rightarrow> True
     | Some s \<Rightarrow> s = ''auto'' \<or> (\<exists>net ones. ParseCIDR s = Some (net, ones) \<and> To4 net = [])
        \<or> (\<exists>t n. s = CHR ''/'' # t \<and> Atoi t = Inr n \<and> n \<in> {0..128}))"

definition subnetAllowed :: "VPCSubnetCreateOptions \<Rightarrow> bool" where
  "subnetAllowed s = (labelAllowed (sn_Label s) \<and> rangeAllowed (sn_IPv4 s) \<and> list_all (\<lambda>r. range6Allowed (vs6_Range r)) (sn_IPv6Range s))"

lemma ParsePrefix_bits: "ParsePrefix s = Some p \<Longrightarrow> length (fst p) = 4 \<Longrightarrow> v4Prefix p"
  by (auto simp: ParsePrefix_def v4Prefix_def bitLen_def nat_le_iff split: option.splits sum.splits if_splits)

lemma netipxLawsD:
  assumes "netipxLaws N sem"
  shows "v4Prefix p \<Longrightarrow> v4Prefix q \<Longrightarrow> (nx_ComparePrefix N p q = 0) = (p = q)"
    and "v4Prefix p \<Longrightarrow> nx_MaskSize N p = int (snd p)"
    and "sem (nx_EmptySet N) = {}"
    and "list_all itemValid items \<Longrightarrow> \<exists>s. nx_IPSet N items = (s, None) \<and> sem s = (\<Union>x\<in>set items. itemAddrs sem x)"
    and "nx_Overlaps N s t = (sem s \<inter> sem t \<noteq> {})"
    and "v4Prefix p \<Longrightarrow> nx_OverlapsPrefix N s p = (sem s \<inter> prefixAddrs p \<noteq> {})"
  using assms by (simp_all add: netipxLaws_def del: split_paired_All split_paired_Ex)

lemma reserved_prefix: "ParsePrefix ''192.168.128.0/17'' = Some ([192, 168, 128, 0], 17)"
  by code_simp

lemma v4Prefix_Masked: "v4Prefix (Masked p) = v4Prefix p"
  by (simp add: v4Prefix_def Masked_def maskIP_def)

lemma reserved_sem: "netipxLaws N sem \<Longrightarrow> sem (LinodeVPCSubnetReserved N) = rangeAddrs ''192.168.128.0/17''"
proof -
  assume laws: "netipxLaws N sem"
  have "list_all itemValid [AddPrefix ([192, 168, 128, 0], 17) :: 'a additem]" by (simp add: v4Prefix_def)
  from netipxLawsD(4) [OF laws this]
  obtain s where "nx_IPSet N [AddPrefix ([192, 168, 128, 0], 17)] = (s, None)" "sem s = prefixAddrs ([192, 168, 128, 0], 17)"
    by auto
  then show ?thesis by (simp add: LinodeVPCSubnetReserved_def mustParseIPSet_def reserved_prefix rangeAddrs_def)
qed

lemma validateSubnetIPv4CIDR_spec:
  assumes "netipxLaws N sem"
  shows "case validateSubnetIPv4CIDR N cidr path of Inl _ \<Rightarrow> \<not> rangeAllowed cidr | Inr s \<Rightarrow> rangeAllowed cidr \<and> sem s = rangeAddrs cidr"
proof (cases "ParsePrefix cidr")
  case (Some p)
  show ?thesis
  proof (cases "length (fst p) = 4")
    case True
    with Some have v: "v4Prefix p" by (rule ParsePrefix_bits)
    have cmp: "(nx_ComparePrefix N p (Masked p) = 0) = (Masked p = p)" and size: "nx_MaskSize N p = int (snd p)"
      and over: "nx_OverlapsPrefix N (LinodeVPCSubnetReserved N) p = (prefixAddrs p \<inter> rangeAddrs ''192.168.128.0/17'' \<noteq> {})"
      using netipxLawsD(1,2,6) [OF assms] v reserved_sem [OF assms] by (auto simp: v4Prefix_Masked)
    have "list_all itemValid [AddPrefix p]" using v by simp
    from netipxLawsD(4) [OF assms this] obtain s where "nx_IPSet N [AddPrefix p] = (s, None)" "sem s = prefixAddrs p"
      by auto
    with Some True cmp size over show ?thesis
      by (simp add: validateSubnetIPv4CIDR_def rangeAllowed_def rangeAddrs_def Let_def)
  qed (simp add: Some validateSubnetIPv4CIDR_def rangeAllowed_def Let_def)
qed (simp add: validateSubnetIPv4CIDR_def rangeAllowed_def Let_def)

lemma isAlnum_iff: "isAlnum c = (c \<in> set ''0123456789ABCDEFGHIJKLMNOPQRSTUVWXYZabcdefghijklmnopqrstuvwxyz'')"
proof -
  have "list_all (\<lambda>c. isAlnum c = (c \<in> set ''0123456789ABCDEFGHIJKLMNOPQRSTUVWXYZabcdefghijklmnopqrstuvwxyz'')) (enum_class.enum :: char list)"
    by code_simp
  then show ?thesis by (simp only: list_all_iff enum_UNIV) blast
qed

lemma strings_Contains_hyphens: "strings_Contains l ''--'' = (\<not> successively (\<lambda>c d. \<not> (c = CHR ''-'' \<and> d = CHR ''-'')) l)"
  by (induction l rule: induct_list012) (auto simp: HasPrefix_def)

lemma validateVPCLabel_iff: "(validateVPCLabel l p = None) = labelAllowed l"
proof -
  have "list_all (\<lambda>c. c = CHR ''-'' \<or> isAlnum c) l = (set l \<subseteq> set (CHR ''-'' # ''0123456789ABCDEFGHIJKLMNOPQRSTUVWXYZabcdefghijklmnopqrstuvwxyz''))"
    unfolding isAlnum_iff list_all_iff by (simp only: list.set insert_iff subset_iff Ball_def)
  then show ?thesis
    unfolding validateVPCLabel_def labelAllowed_def strings_Contains_hyphens by (simp only: atLeastAtMost_iff) (auto simp: Suc_le_eq)
qed

lemma validateIPv6Range_iff: "(validateIPv6Range r p = None) = range6Allowed r"
  unfolding validateIPv6Range_def range6Allowed_def Let_def
  by (cases r; cases "the r") (auto split: option.split sum.split)

lemma validateRanges_none: "(validateRanges p rs = []) = list_all range6Allowed rs"
proof -
  have "(toList (validateIPv6Range r q) = []) = range6Allowed r" for r q
    using validateIPv6Range_iff [of r q] by (auto simp: toList_def split: option.split)
  then have "(validateRanges p rs = []) = list_all range6Allowed (map snd (enumerate 0 rs))"
    unfolding list.pred_map by (auto simp: validateRanges_def list_all_iff)
  then show ?thesis by simp
qed

lemma subnetLabel_errs:
  assumes "subnetLabel l p ls = (errs, ls')"
  shows "(errs = []) = (labelAllowed l \<and> l \<notin> set ls)" and "errs = [] \<Longrightarrow> ls' = ls @ [l]"
  using assms validateVPCLabel_iff [of l p] by (auto simp: subnetLabel_def split: option.splits if_splits)

lemma subnetLoop_keeps_errs: "errs \<noteq> [] \<Longrightarrow> subnetLoop N idx ss errs builder cidrs labels \<noteq> []"
  by (induction ss arbitrary: N idx errs builder cidrs labels) (auto simp: Let_def split: prod.splits sum.splits option.splits)

abbreviation disjointSubnets :: "VPCSubnetCreateOptions \<Rightarrow> VPCSubnetCreateOptions \<Rightarrow> bool" where
  "disjointSubnets s t \<equiv> rangeAddrs (sn_IPv4 s) \<inter> rangeAddrs (sn_IPv4 t) = {}"

lemma subnetLoop_spec:
  assumes laws: "netipxLaws N sem"
  shows "list_all itemValid builder \<Longrightarrow> sem cidrs = (\<Union>x\<in>set builder. itemAddrs sem x) \<Longrightarrow>
    (subnetLoop N idx ss errs builder cidrs labels = [])
      = (errs = [] \<and> list_all subnetAllowed ss \<and> distinct (map sn_Label ss) \<and> list_all (\<lambda>s. sn_Label s \<notin> set labels) ss
         \<and> sorted_wrt disjointSubnets ss \<and> list_all (\<lambda>s. sem cidrs \<inter> rangeAddrs (sn_IPv4 s) = {}) ss)"
proof (induction ss arbitrary: idx errs builder cidrs labels)
  case (Cons s ss)
  let ?path = "indexed ''spec.Subnets'' idx ''IPv4''" and ?lpath = "indexed ''spec.Subnets'' idx ''Label''"
  obtain labelErrs labels' where l: "subnetLabel (sn_Label s) ?lpath labels = (labelErrs, labels')" by (cases "subnetLabel (sn_Label s) ?lpath labels")
  have le: "(labelErrs = []) = (labelAllowed (sn_Label s) \<and> sn_Label s \<notin> set labels)"
    and ls: "labelErrs = [] \<Longrightarrow> labels' = labels @ [sn_Label s]"
    using subnetLabel_errs [OF l] by simp_all
  show ?case
  proof (cases "validateSubnetIPv4CIDR N (sn_IPv4 s) ?path")
    case (Inl e)
    then have "\<not> rangeAllowed (sn_IPv4 s)" using validateSubnetIPv4CIDR_spec [OF laws, of "sn_IPv4 s" ?path] by simp
    then show ?thesis using Inl l by (simp add: subnetLoop_keeps_errs subnetAllowed_def)
  next
    case (Inr x)
    then have ok: "rangeAllowed (sn_IPv4 s)" and sx: "sem x = rangeAddrs (sn_IPv4 s)"
      using validateSubnetIPv4CIDR_spec [OF laws, of "sn_IPv4 s" ?path] by simp_all
    have valid: "list_all itemValid (builder @ [AddSet x])" using Cons.prems(1) by simp
    from netipxLawsD(4) [OF laws this] obtain c where c: "nx_IPSet N (builder @ [AddSet x]) = (c, None)"
      and sc: "sem c = (\<Union>y\<in>set (builder @ [AddSet x]). itemAddrs sem y)" by blast
    have sc': "sem c = sem cidrs \<union> rangeAddrs (sn_IPv4 s)" using sc Cons.prems(2) sx by auto
    have over: "nx_Overlaps N cidrs x = (sem cidrs \<inter> rangeAddrs (sn_IPv4 s) \<noteq> {})" using netipxLawsD(5) [OF laws] sx by simp
    show ?thesis
    proof (cases "labelErrs = []")
      case True
      have "(\<forall>t\<in>set ss. sn_Label t \<notin> set labels \<and> sn_Label t \<noteq> sn_Label s)
          = ((\<forall>t\<in>set ss. sn_Label t \<notin> set labels) \<and> sn_Label s \<notin> sn_Label ` set ss)" by (simp add: image_iff) metis
      with True show ?thesis
        by (auto simp: Inr l c over Cons.IH [OF valid sc] validateRanges_none le ls sc' ok subnetAllowed_def list_all_iff Int_Un_distrib2 Let_def)
    qed (auto simp: Inr l c over Cons.IH [OF valid sc] le ls sc' ok subnetAllowed_def list_all_iff Let_def)
  qed
qed simp

lemma validateSubnets_iff:
  assumes "netipxLaws N sem"
  shows "(validateLinodeVPCSubnets N spec = [])
           = (list_all subnetAllowed (vpc_Subnets spec) \<and> distinct (map sn_Label (vpc_Subnets spec)) \<and> sorted_wrt disjointSubnets (vpc_Subnets spec))"
proof -
  have "sem (nx_EmptySet N) = {}" using assms by (rule netipxLawsD(3))
  then show ?thesis unfolding validateLinodeVPCSubnets_def by (subst subnetLoop_spec [OF assms]) (simp_all add: list_all_iff)
qed


text \<open>The laws hold of the sets of addresses themselves.\<close>

definition netipxSets :: "ip set netipx" where
  "netipxSets = \<lparr>nx_ComparePrefix = (\<lambda>p q. if p = q then 0 else 1), nx_MaskSize = (\<lambda>p. int (snd p)), nx_EmptySet = {},
     nx_IPSet = (\<lambda>items. (\<Union>x\<in>set items. itemAddrs id x, None)), nx_Overlaps = (\<lambda>s t. s \<inter> t \<noteq> {}),
     nx_OverlapsPrefix = (\<lambda>s p. s \<inter> prefixAddrs p \<noteq> {}), nx_PrefixesText = (\<lambda>_. [])\<rparr>"

lemma netipxSets_laws: "netipxLaws netipxSets id"
  by (simp add: netipxLaws_def netipxSets_def)

definition sampleSubnet :: "string \<Rightarrow> string \<Rightarrow> VPCSubnetCreateOptions" where
  "sampleSubnet label cidr = \<lparr>sn_Label = label, sn_IPv4 = cidr, sn_IPv6 = [], sn_IPv6Range = [], sn_SubnetID = 0, sn_Retain = False\<rparr>"

definition sampleVPC :: LinodeVPCSpec where
  "sampleVPC = \<lparr>vpc_VPCID = None, vpc_Description = [], vpc_Region = ''us-sea'', vpc_IPv6 = [], vpc_IPv4 = [], vpc_IPv6Range = [], vpc_IPv4Range = [],
     vpc_Subnets = [sampleSubnet ''a'' ''10.0.0.0/24'', sampleSubnet ''b'' ''10.0.2.0/24''], vpc_Retain = False, vpc_CredentialsRef = None\<rparr>"

lemma sample_prefixes:
  "ParsePrefix ''10.0.0.0/24'' = Some ([10, 0, 0, 0], 24)" "ParsePrefix ''10.0.2.0/24'' = Some ([10, 0, 2, 0], 24)"
  by code_simp+

lemma prefixAddrs_v4:
  "a \<in> prefixAddrs ([b0, b1, b2, b3], n) \<Longrightarrow> \<exists>a0 a1 a2 a3. a = [a0, a1, a2, a3] \<and> maskIP n [a0, a1, a2, a3] = maskIP n [b0, b1, b2, b3]"
  by (auto simp: prefixAddrs_def length_Suc_conv numeral_eq_Suc)

lemma sample_disjoint:
  "prefixAddrs ([10, 0, 0, 0], 24) \<inter> prefixAddrs ([192, 168, 128, 0], 17) = {}"
  "prefixAddrs ([10, 0, 2, 0], 24) \<inter> prefixAddrs ([192, 168, 128, 0], 17) = {}"
  "prefixAddrs ([10, 0, 0, 0], 24) \<inter> prefixAddrs ([10, 0, 2, 0], 24) = {}"
  by (auto dest!: prefixAddrs_v4 simp: maskIP_def Let_def)

lemma sample_allowed:
  "list_all subnetAllowed (vpc_Subnets sampleVPC) \<and> distinct (map sn_Label (vpc_Subnets sampleVPC)) \<and> sorted_wrt disjointSubnets (vpc_Subnets sampleVPC)"
proof -
  have "Masked ([10, 0, 0, 0], 24) = ([10, 0, 0, 0], 24)" "Masked ([10, 0, 2, 0], 24) = ([10, 0, 2, 0], 24)"
    by (simp_all add: Masked_def maskIP_def Let_def)
  moreover have "labelAllowed ''a''" "labelAllowed ''b''" by (simp_all add: labelAllowed_def)
  ultimately show ?thesis
    by (simp add: sampleVPC_def sampleSubnet_def subnetAllowed_def rangeAllowed_def rangeAddrs_def sample_prefixes reserved_prefix sample_disjoint)
qed



text \<open>
A public range is accepted, although the validator has a message for ranges outside the private address space.
\<close>

theorem public_subnet_accepted: "validateLinodeVPCSubnets netipxSets (sampleVPC\<lparr>vpc_Subnets := [sampleSubnet ''a'' ''9.9.9.0/24'']\<rparr>) = []"
proof -
  have "ParsePrefix ''9.9.9.0/24'' = Some ([9, 9, 9, 0], 24)" by code_simp
  moreover have "prefixAddrs ([9, 9, 9, 0], 24) \<inter> prefixAddrs ([192, 168, 128, 0], 17) = {}"
    by (auto dest!: prefixAddrs_v4 simp: maskIP_def Let_def)
  moreover have "Masked ([9, 9, 9, 0], 24) = ([9, 9, 9, 0], 24)" by (simp add: Masked_def maskIP_def Let_def)
  moreover have "labelAllowed ''a''" by (simp add: labelAllowed_def)
  ultimately show ?thesis
    unfolding validateSubnets_iff [OF netipxSets_laws]
    by (simp add: sampleSubnet_def subnetAllowed_def rangeAllowed_def rangeAddrs_def reserved_prefix)
qed


section \<open>Defaults\<close>

text \<open>
The defaults of an access key are stable: filling them in again changes nothing, and a key with its
defaults names a secret and, when it lives in a namespace, the secret's namespace.
\<close>

theorem key_default_stable:
  "key_Default (key_Default k) = key_Default k \<and> gs_Name (ky_GeneratedSecret (lok_Spec (key_Default k))) \<noteq> []
     \<and> (gs_Namespace (ky_GeneratedSecret (lok_Spec (key_Default k))) = []) = (gs_Namespace (ky_GeneratedSecret (lok_Spec k)) = [] \<and> om_Namespace (lok_Meta k) = [])"
  by (simp add: key_Default_def defaultKeySecretName_def Let_def)

end
