(* ===== verification/ClientSetup.thy ===== *)
theory ClientSetup
  imports GoStd ApiMeta
begin

text \<open>
  How the clients of the services get their settings: \<open>validateEnvironment\<close> of \<open>cmd/main.go\<close>, the
  constructors of \<open>cloud/scope/common.go\<close> and the version in the user agent. The libraries the constructors
  call are a parameter; a client is the record of its settings.
\<close>

record ClientConfig =
  cfg_Token :: string
  cfg_BaseUrl :: string
  cfg_RootCertificatePath :: string
  cfg_Timeout :: duration

record LinodeClientSettings =
  cli_Token :: string
  cli_BaseUrl :: string
  cli_RootCertificatePath :: string
  cli_SystemCerts :: bool
  cli_Timeout :: duration
  cli_UserAgent :: string
  cli_RetryCount :: "int option"

record client_lib =
  clib_SystemCertPool :: "error option"
  clib_NewClient :: "error option"
  clib_SetRootCertificate :: "string \<Rightarrow> error option"
  clib_UseURL :: "string \<Rightarrow> error option"
  clib_LoadAWSConfig :: "error option"
  clib_NewSession :: "error option"


section \<open>The environment of the process\<close>

text \<open>An unset variable reads as the empty string; \<open>LookupEnv\<close> sees the difference. \<open>os.Exit(1)\<close> is None.\<close>

type_synonym environ = "string \<rightharpoonup> string"

definition Getenv :: "environ \<Rightarrow> string \<Rightarrow> string" where
  "Getenv e k = (case e k of None \<Rightarrow> [] | Some v \<Rightarrow> v)"

definition clientTimeout :: "environ \<Rightarrow> int" where
  "clientTimeout e = (case e ''LINODE_CLIENT_TIMEOUT'' of
     None \<Rightarrow> 0
   | Some raw \<Rightarrow> (case Atoi raw of Inr timeout \<Rightarrow> if 0 < timeout then timeout else 0 | Inl _ \<Rightarrow> 0))"

definition validateEnvironment :: "environ \<Rightarrow> (ClientConfig \<times> ClientConfig) option" where
  "validateEnvironment e =
     (let linodeToken = Getenv e ''LINODE_TOKEN'';
          dnsToken = Getenv e ''LINODE_DNS_TOKEN'';
          linodeDNSToken = (if dnsToken = [] then linodeToken else dnsToken);
          linodeClientTimeout = clientTimeout e;
          timeout = (if 0 < linodeClientTimeout then wrap64 (linodeClientTimeout * second) else 0) in
      if linodeToken = [] then None
      else Some (\<lparr>cfg_Token = linodeToken, cfg_BaseUrl = [], cfg_RootCertificatePath = [], cfg_Timeout = timeout\<rparr>,
                 \<lparr>cfg_Token = linodeDNSToken, cfg_BaseUrl = Getenv e ''LINODE_DNS_URL'', cfg_RootCertificatePath = Getenv e ''LINODE_DNS_CA'',
                  cfg_Timeout = timeout\<rparr>))"


section \<open>Constructors\<close>

definition GetVersion :: "string \<Rightarrow> string" where
  "GetVersion version = (if version = [] then ''dev'' else version)"

definition defaultClientTimeout :: duration where
  "defaultClientTimeout = second * 10"

text \<open>An option is a function on the client, as in the source.\<close>

definition WithRetryCount :: "int \<Rightarrow> LinodeClientSettings \<Rightarrow> LinodeClientSettings" where
  "WithRetryCount c client = client\<lparr>cli_RetryCount := Some c\<rparr>"

definition CreateLinodeClient ::
  "client_lib \<Rightarrow> string \<Rightarrow> ClientConfig \<Rightarrow> (LinodeClientSettings \<Rightarrow> LinodeClientSettings) list \<Rightarrow> LinodeClientSettings res" where
  "CreateLinodeClient L version config opts =
     (let ca = cfg_RootCertificatePath config; url = cfg_BaseUrl config;
          wrap = (\<lambda>text err. case err of None \<Rightarrow> None | Some e \<Rightarrow> Some (ErrWrap text e));
          certErr = (if ca = [] then wrap ''failed to load system cert pool: '' (clib_SystemCertPool L) else None);
          newErr = wrap ''failed to create linode client: '' (clib_NewClient L);
          rootErr = (if ca \<noteq> [] then wrap ''failed to set root certificate path: '' (clib_SetRootCertificate L ca) else None);
          urlErr = (if url \<noteq> [] then wrap ''failed to set base URL: '' (clib_UseURL L url) else None) in
      if cfg_Token config = [] then Inl (ErrNew ''token cannot be empty'')
      else (case List.map_filter id [certErr, newErr, rootErr, urlErr] of
        err # _ \<Rightarrow> Inl err
      | [] \<Rightarrow> Inr (fold (\<lambda>opt client. opt client) opts
          \<lparr>cli_Token = cfg_Token config, cli_BaseUrl = url, cli_RootCertificatePath = ca, cli_SystemCerts = (ca = []),
           cli_Timeout = (if cfg_Timeout config \<noteq> 0 then cfg_Timeout config else defaultClientTimeout),
           cli_UserAgent = ''CAPL/'' @ GetVersion version, cli_RetryCount = None\<rparr>)))"

record S3ClientSettings =
  s3c_Access :: string
  s3c_Secret :: string
  s3c_Endpoint :: string
  s3c_UsePathStyle :: bool
  s3c_Expires :: duration

definition defaultObjectStorageSignedUrlExpiry :: duration where
  "defaultObjectStorageSignedUrlExpiry = 15 * minute"

text \<open>\<open>strings.EqualFold\<close> with an ASCII word of letters that no other character folds to.\<close>

definition foldCase :: "char \<Rightarrow> char" where
  "foldCase c = (let n = of_char c :: nat in if 65 \<le> n \<and> n \<le> 90 then char_of (n + 32) else c)"

definition EqualFold :: "string \<Rightarrow> string \<Rightarrow> bool" where
  "EqualFold s t = (map foldCase s = map foldCase t)"

definition secretData :: "(string \<rightharpoonup> string) \<Rightarrow> string \<Rightarrow> string" where
  "secretData m k = (case m k of None \<Rightarrow> [] | Some v \<Rightarrow> v)"

definition CreateS3Clients :: "client_lib \<Rightarrow> environ \<Rightarrow> (string \<rightharpoonup> string) \<Rightarrow> S3ClientSettings res" where
  "CreateS3Clients L e objectStoreCredentials = (case clib_LoadAWSConfig L of
     Some err \<Rightarrow> Inl (ErrWrap ''load s3 config: '' err)
   | None \<Rightarrow> Inr \<lparr>s3c_Access = secretData objectStoreCredentials ''access'', s3c_Secret = secretData objectStoreCredentials ''secret'',
       s3c_Endpoint = secretData objectStoreCredentials ''endpoint'',
       s3c_UsePathStyle = EqualFold (Getenv e ''LINODE_OBJECT_STORAGE_USE_PATH_STYLE'') ''true'',
       s3c_Expires = defaultObjectStorageSignedUrlExpiry\<rparr>)"

record EdgeRCConfig =
  erc_Host :: string
  erc_AccessToken :: string
  erc_ClientToken :: string
  erc_ClientSecret :: string
  erc_MaxBody :: int

definition maxBody :: int where "maxBody = 131072"

definition setUpEdgeDNSInterface :: "client_lib \<Rightarrow> environ \<Rightarrow> EdgeRCConfig res" where
  "setUpEdgeDNSInterface L e = (case clib_NewSession L of
     Some err \<Rightarrow> Inl err
   | None \<Rightarrow> Inr \<lparr>erc_Host = Getenv e ''AKAMAI_HOST'', erc_AccessToken = Getenv e ''AKAMAI_ACCESS_TOKEN'',
       erc_ClientToken = Getenv e ''AKAMAI_CLIENT_TOKEN'', erc_ClientSecret = Getenv e ''AKAMAI_CLIENT_SECRET'', erc_MaxBody = maxBody\<rparr>)"


section \<open>What the settings satisfy\<close>

definition libOK :: "client_lib \<Rightarrow> bool" where
  "libOK L = (clib_SystemCertPool L = None \<and> clib_NewClient L = None \<and> (\<forall>p. clib_SetRootCertificate L p = None) \<and> (\<forall>u. clib_UseURL L u = None))"

lemma CreateLinodeClient_ok:
  assumes "libOK L" and "cfg_Token config \<noteq> []"
  shows "\<exists>c. CreateLinodeClient L v config [WithRetryCount 0] = Inr c \<and> cli_Token c = cfg_Token config \<and> cli_RetryCount c = Some 0
     \<and> cli_Timeout c = (if cfg_Timeout config = 0 then defaultClientTimeout else cfg_Timeout config)"
  using assms by (simp add: CreateLinodeClient_def WithRetryCount_def libOK_def List.map_filter_simps Let_def)

text \<open>
A process that starts has a token for each client: while the libraries succeed, the clients of the API and of
the DNS service are created from its configuration, with these tokens, without retries and with a positive
timeout, the default one unless \<open>LINODE_CLIENT_TIMEOUT\<close> gives another.
\<close>

lemma configured_clients:
  assumes "validateEnvironment e = Some (linode, dns)" and "libOK L" and "clientTimeout e \<le> 9223372036"
  shows "\<exists>c d. CreateLinodeClient L v linode [WithRetryCount 0] = Inr c \<and> CreateLinodeClient L v dns [WithRetryCount 0] = Inr d
     \<and> cli_Token c = Getenv e ''LINODE_TOKEN'' \<and> cli_Token c \<noteq> [] \<and> cli_Token d \<noteq> [] \<and> cli_RetryCount c = Some 0 \<and> cli_RetryCount d = Some 0
     \<and> cli_Timeout c = cli_Timeout d
     \<and> cli_Timeout c = (if clientTimeout e = 0 then defaultClientTimeout else clientTimeout e * second)"
proof -
  have nonneg: "0 \<le> clientTimeout e" by (simp add: clientTimeout_def split: option.split sum.split)
  with assms(3) have w: "wrap64 (clientTimeout e * second) = clientTimeout e * second" by (intro wrap64_id) (simp add: int64_def second_def)
  have time: "cfg_Timeout linode = clientTimeout e * second" "cfg_Timeout dns = clientTimeout e * second"
    using assms(1) nonneg w by (auto simp: validateEnvironment_def Let_def split: if_splits)
  have token: "cfg_Token linode = Getenv e ''LINODE_TOKEN''" "cfg_Token linode \<noteq> []" "cfg_Token dns \<noteq> []"
    using assms(1) by (auto simp: validateEnvironment_def Let_def split: if_splits)
  have "second \<noteq> 0" by (simp add: second_def)
  with CreateLinodeClient_ok [OF assms(2) token(2), of v] CreateLinodeClient_ok [OF assms(2) token(3), of v] token time
  show ?thesis by auto
qed

text \<open>A larger number of seconds overflows the duration, and the timeout is negative.\<close>

lemma client_timeout_overflow:
  assumes "e ''LINODE_TOKEN'' = Some ''t''" and "clientTimeout e = 9223372037"
  shows "\<exists>linode dns. validateEnvironment e = Some (linode, dns) \<and> cfg_Timeout linode < 0"
  using assms by (simp add: validateEnvironment_def Getenv_def wrap64_def second_def Let_def)

end
