(* ===== verification/GoFlag.thy ===== *)
theory GoFlag
  imports GoStd
begin

text \<open>
  The parts of Go's standard library that read the command line and the switches of the environment:
  \<open>strconv.ParseBool\<close>, \<open>strconv.ParseInt\<close> with base 0, and the loop of \<open>flag.Parse\<close> for a flag set that
  exits on errors. A command line printed from settings is read back.
\<close>

section \<open>Booleans and integers\<close>

text \<open>The value beside an error is false.\<close>

definition ParseBool :: "string \<Rightarrow> bool \<times> error option" where
  "ParseBool s =
     (if s \<in> {''1'', ''t'', ''T'', ''TRUE'', ''true'', ''True''} then (True, None)
      else if s \<in> {''0'', ''f'', ''F'', ''FALSE'', ''false'', ''False''} then (False, None)
      else (False, Some (ErrWrap ''strconv.ParseBool: '' (ErrSentinel ErrSyntax))))"

definition lowerCode :: "char \<Rightarrow> nat" where
  "lowerCode c = (let n = of_char c in if 65 \<le> n \<and> n \<le> 90 then n + 32 else n)"

definition digitAt :: "char \<Rightarrow> nat option" where
  "digitAt c = (if isDigit c then Some (digitVal c)
     else if 97 \<le> lowerCode c \<and> lowerCode c \<le> 122 then Some (lowerCode c - 97 + 10) else None)"

text \<open>The digits of a number, with underscores skipped; the places of the underscores are checked apart.\<close>

fun uintDigits :: "nat \<Rightarrow> nat \<Rightarrow> string \<Rightarrow> nat option" where
  "uintDigits base acc [] = Some acc"
| "uintDigits base acc (c # t) =
     (if c = CHR ''_'' then uintDigits base acc t
      else case digitAt c of None \<Rightarrow> None | Some d \<Rightarrow> if d < base then uintDigits base (acc * base + d) t else None)"

text \<open>The state is the kind of the last character: a digit, an underscore, another one, or none yet.\<close>

datatype uscore = UNone | UDigit | UScore | UOther

fun underscoreLoop :: "bool \<Rightarrow> uscore \<Rightarrow> string \<Rightarrow> bool" where
  "underscoreLoop hex i [] = (i \<noteq> UScore)"
| "underscoreLoop hex i (c # t) =
     (if isDigit c \<or> hex \<and> 97 \<le> lowerCode c \<and> lowerCode c \<le> 102 then underscoreLoop hex UDigit t
      else if c = CHR ''_'' then (if i \<noteq> UDigit then False else underscoreLoop hex UScore t)
      else if i = UScore then False else underscoreLoop hex UOther t)"

definition baseLetter :: "char \<Rightarrow> nat option" where
  "baseLetter c = (if lowerCode c = 98 then Some 2 else if lowerCode c = 111 then Some 8 else if lowerCode c = 120 then Some 16 else None)"

definition underscoreOK :: "string \<Rightarrow> bool" where
  "underscoreOK s = (case s of
     z # c # t \<Rightarrow> if z = CHR ''0'' \<and> baseLetter c \<noteq> None then underscoreLoop (baseLetter c = Some 16) UDigit t else underscoreLoop False UNone s
   | _ \<Rightarrow> underscoreLoop False UNone s)"

definition splitBase :: "string \<Rightarrow> nat \<times> string" where
  "splitBase s = (case s of
     [] \<Rightarrow> (10, s)
   | z # t \<Rightarrow> if z \<noteq> CHR ''0'' then (10, s)
       else (case t of c # d # r \<Rightarrow> (case baseLetter c of Some b \<Rightarrow> (b, d # r) | None \<Rightarrow> (8, t)) | _ \<Rightarrow> (8, t)))"

definition ParseUint0 :: "string \<Rightarrow> nat option" where
  "ParseUint0 s =
     (let (base, t) = splitBase s in
      if s = [] then None
      else case uintDigits base 0 t of
        None \<Rightarrow> None
      | Some n \<Rightarrow> if CHR ''_'' \<in> set t \<and> \<not> underscoreOK s then None else Some n)"

definition ParseInt0 :: "string \<Rightarrow> int option" where
  "ParseInt0 s =
     (let (neg, ds) = (case s of [] \<Rightarrow> (False, [])
        | c # t \<Rightarrow> if c = CHR ''-'' then (True, t) else if c = CHR ''+'' then (False, t) else (False, s))
      in case ParseUint0 ds of
        None \<Rightarrow> None
      | Some n \<Rightarrow> let v = (if neg then - int n else int n) in if int64 v then Some v else None)"


section \<open>The flag package\<close>

text \<open>
  A flag of the program stores into its settings. A flag that a library registers is known by whether it is
  boolean and by what its setter accepts.
\<close>

datatype 'v flag_var =
    StringVar "string \<Rightarrow> 'v \<Rightarrow> 'v"
  | BoolVar "bool \<Rightarrow> 'v \<Rightarrow> 'v"
  | IntVar "int \<Rightarrow> 'v \<Rightarrow> 'v"
  | ForeignVar bool "string \<Rightarrow> bool"

fun isBoolFlag :: "'v flag_var \<Rightarrow> bool" where
  "isBoolFlag (BoolVar _) = True"
| "isBoolFlag (ForeignVar b _) = b"
| "isBoolFlag _ = False"

fun setVar :: "'v flag_var \<Rightarrow> string \<Rightarrow> 'v \<Rightarrow> 'v option" where
  "setVar (StringVar f) s v = Some (f s v)"
| "setVar (BoolVar f) s v = (case ParseBool s of (b, None) \<Rightarrow> Some (f b v) | _ \<Rightarrow> None)"
| "setVar (IntVar f) s v = (case ParseInt0 s of Some i \<Rightarrow> Some (f i v) | None \<Rightarrow> None)"
| "setVar (ForeignVar _ ok) s v = (if ok s then Some v else None)"

datatype token = NonFlag | Terminator | BadSyntax | FlagToken string "string option"

definition scanFlag :: "string \<Rightarrow> token" where
  "scanFlag s =
     (case s of
        m # c # t \<Rightarrow>
          (let name = (if c = CHR ''-'' then t else c # t) in
           if m \<noteq> CHR ''-'' then NonFlag
           else if c = CHR ''-'' \<and> t = [] then Terminator
           else if name = [] \<or> hd name = CHR ''-'' \<or> hd name = CHR ''='' then BadSyntax
           else case dropWhile (\<lambda>x. x \<noteq> CHR ''='') name of
             [] \<Rightarrow> FlagToken name None
           | _ # value \<Rightarrow> FlagToken (takeWhile (\<lambda>x. x \<noteq> CHR ''='') name) (Some value))
      | _ \<Rightarrow> NonFlag)"

text \<open>Inl is the exit status of the process: 2 for an error, 0 for a request for help.\<close>

fun parseArgs :: "(string \<rightharpoonup> 'v flag_var) \<Rightarrow> 'v \<Rightarrow> string list \<Rightarrow> int + 'v" where
  "parseArgs fs v [] = Inr v"
| "parseArgs fs v (s # rest) =
     (case scanFlag s of
        NonFlag \<Rightarrow> Inr v
      | Terminator \<Rightarrow> Inr v
      | BadSyntax \<Rightarrow> Inl 2
      | FlagToken name given \<Rightarrow>
          (case fs name of
             None \<Rightarrow> Inl (if name = ''help'' \<or> name = ''h'' then 0 else 2)
           | Some fl \<Rightarrow>
               if isBoolFlag fl then
                 (case setVar fl (case given of None \<Rightarrow> ''true'' | Some x \<Rightarrow> x) v of None \<Rightarrow> Inl 2 | Some v' \<Rightarrow> parseArgs fs v' rest)
               else case given of
                 Some x \<Rightarrow> (case setVar fl x v of None \<Rightarrow> Inl 2 | Some v' \<Rightarrow> parseArgs fs v' rest)
               | None \<Rightarrow> (case rest of
                     [] \<Rightarrow> Inl 2
                   | x # rest' \<Rightarrow> (case setVar fl x v of None \<Rightarrow> Inl 2 | Some v' \<Rightarrow> parseArgs fs v' rest'))))"


section \<open>What is printed is read back\<close>

lemma uintDigits_decimal: "list_all isDigit s \<Longrightarrow> uintDigits 10 acc s = Some (foldl (\<lambda>a c. 10 * a + digitVal c) acc s)"
proof (induction s arbitrary: acc)
  case (Cons c t)
  then have "isDigit c" by simp
  then have "c \<noteq> CHR ''_''" and "digitVal c < 10" by (auto simp: isDigit_def digitVal_def)
  with Cons show ?case by (simp add: digitAt_def mult.commute)
qed simp

lemma showNat_hd: "0 < n \<Longrightarrow> hd (showNat n) \<noteq> CHR ''0''"
proof (induction n rule: showNat.induct)
  case (1 n)
  show ?case
  proof (cases "n < 10")
    case True
    with digit_facts(3) [of n] "1.prems" have "(of_char (digit n) :: nat) \<noteq> of_char (CHR ''0'')" by simp
    then have "digit n \<noteq> CHR ''0''" by metis
    with True show ?thesis by (subst showNat.simps) auto
  next
    case False
    with 1 show ?thesis by (subst showNat.simps) (simp add: hd_append)
  qed
qed

lemma ParseUint0_showNat: "ParseUint0 (showNat n) = Some n"
proof (cases "n = 0")
  case True
  moreover have "ParseUint0 (showNat 0) = Some 0" by code_simp
  ultimately show ?thesis by simp
next
  case False
  then obtain c t where ct: "showNat n = c # t" and c: "c \<noteq> CHR ''0''" using showNat_hd [of n] by (cases "showNat n") auto
  have digits: "list_all isDigit (showNat n)" by (rule showNat_digits)
  then have "CHR ''_'' \<notin> set (showNat n)" by (auto simp: list_all_iff isDigit_def)
  moreover have "splitBase (showNat n) = (10, showNat n)" using ct c by (simp add: splitBase_def)
  moreover have "uintDigits 10 0 (showNat n) = Some n"
    using uintDigits_decimal [OF digits, of 0] readNat_showNat [of n] by (simp add: readNat_def)
  ultimately show ?thesis by (simp add: ParseUint0_def)
qed

lemma ParseInt0_Itoa: "int64 i \<Longrightarrow> ParseInt0 (Itoa i) = Some i"
proof (cases "i < 0")
  case True
  moreover assume "int64 i"
  ultimately show ?thesis by (simp add: ParseInt0_def Itoa_def ParseUint0_showNat)
next
  case False
  assume i: "int64 i"
  obtain c t where ct: "showNat (nat i) = c # t" by (cases "showNat (nat i)") simp_all
  have "isDigit c" using showNat_digits [of "nat i"] ct by simp
  with False i ct isDigit_not_sign [of c] ParseUint0_showNat [of "nat i"] show ?thesis by (simp add: ParseInt0_def Itoa_def)
qed

definition showBool :: "bool \<Rightarrow> string" where
  "showBool b = (if b then ''true'' else ''false'')"

lemma ParseBool_showBool [simp]: "ParseBool (showBool b) = (b, None)"
  by (simp add: ParseBool_def showBool_def)

definition showFlag :: "string \<times> string \<Rightarrow> string" where
  "showFlag nv = ''--'' @ fst nv @ ''='' @ snd nv"

definition flagName :: "string \<Rightarrow> bool" where
  "flagName n = (n \<noteq> [] \<and> hd n \<noteq> CHR ''-'' \<and> CHR ''='' \<notin> set n)"

lemma scanFlag_showFlag:
  assumes "flagName n"
  shows "scanFlag (showFlag (n, v)) = FlagToken n (Some v)"
proof -
  have hd: "hd (n @ ''='' @ v) \<noteq> CHR ''-''" "hd (n @ ''='' @ v) \<noteq> CHR ''=''" and ne: "n @ ''='' @ v \<noteq> []"
    using assms by (auto simp: flagName_def) (metis hd_append2 hd_in_set)
  have "dropWhile (\<lambda>x. x \<noteq> CHR ''='') (n @ ''='' @ v) = CHR ''='' # v" "takeWhile (\<lambda>x. x \<noteq> CHR ''='') (n @ ''='' @ v) = n"
    using assms by (auto simp: flagName_def dropWhile_append takeWhile_append)
  with hd ne show ?thesis by (simp add: scanFlag_def showFlag_def Let_def)
qed

text \<open>A command line of settings is read as the sequence of their assignments.\<close>

lemma parseArgs_settings:
  assumes "list_all (\<lambda>(n, x). flagName n \<and> fs n \<noteq> None) nvs"
  shows "parseArgs fs v (map showFlag nvs @ rest) =
    (case fold (\<lambda>(n, x) r. Option.bind r (setVar (the (fs n)) x)) nvs (Some v) of None \<Rightarrow> Inl 2 | Some v' \<Rightarrow> parseArgs fs v' rest)"
  using assms
proof (induction nvs arbitrary: v)
  case (Cons nx nvs)
  have none: "fold (\<lambda>(n, x) r. Option.bind r (setVar (the (fs n)) x)) ms None = None" for ms
    by (induction ms) auto
  obtain n x where nx: "nx = (n, x)" by (cases nx)
  with Cons.prems obtain fl where "flagName n" and fl: "fs n = Some fl" by auto
  with nx have "scanFlag (showFlag nx) = FlagToken n (Some x)" by (simp add: scanFlag_showFlag)
  with fl nx Cons show ?case by (auto simp: none split: option.split)
qed simp

text \<open>What every setter keeps, the command line keeps.\<close>

lemma parseArgs_inv:
  assumes step: "\<And>n fl x v v'. fs n = Some fl \<Longrightarrow> setVar fl x v = Some v' \<Longrightarrow> I v \<Longrightarrow> I v'"
    and "I v" and "parseArgs fs v args = Inr w"
  shows "I w"
  using assms(2,3)
proof (induction args arbitrary: v rule: length_induct)
  case (1 args)
  have IH: "I w" if "length r < length args" and "fs n = Some fl" and "setVar fl x v = Some v'" and "parseArgs fs v' r = Inr w" for n fl x v' r
    using "1.IH" step that "1.prems"(1) by blast
  show ?case
  proof (cases args)
    case Nil
    with "1.prems" show ?thesis by simp
  next
    case (Cons s rest)
    show ?thesis
    proof (cases "scanFlag s")
      case (FlagToken n given)
      with "1.prems" Cons obtain fl where fl: "fs n = Some fl" by (cases "fs n") auto
      define x where "x = (case given of None \<Rightarrow> (if isBoolFlag fl then ''true'' else hd rest) | Some y \<Rightarrow> y)"
      define r where "r = (if given = None \<and> \<not> isBoolFlag fl then tl rest else rest)"
      have "\<exists>v'. setVar fl x v = Some v' \<and> parseArgs fs v' r = Inr w"
        using "1.prems"(2) FlagToken Cons fl unfolding x_def r_def by (auto split: option.splits if_splits list.splits)
      moreover have "length r < length args" unfolding r_def Cons by (cases rest) auto
      ultimately show ?thesis using IH [OF _ fl] by blast
    qed (use "1.prems" Cons in auto)
  qed
qed

end
