(* ===== verification/Watches.thy ===== *)
theory Watches
  imports ClusterCtl Samples
begin

text \<open>
  What wakes the controllers: the \<open>SetupWithManager\<close> methods of \<open>internal/controller\<close>, as the data they give to
  the builder of controller-runtime (the resource, its concurrency, the event filter and the watched kinds), and
  their update predicates. The predicates of controller-runtime and of Cluster API and the way the builder
  applies them are a parameter, whose documented behaviour is \<open>predLaws\<close>.
\<close>

section \<open>Events and predicates\<close>

datatype wobject =
    W kobj
  | WAddressSet AddressSet
  | WFirewallRule FirewallRule
  | WCluster Cluster
  | WMachine Machine

datatype event =
    CreateEvent wobject
  | UpdateEvent "wobject option" "wobject option"
  | DeleteEvent wobject
  | GenericEvent wobject

type_synonym pred = "event \<Rightarrow> bool"

record funcs =
  CreateFunc :: "(wobject \<Rightarrow> bool) option"
  UpdateFunc :: "(wobject option \<Rightarrow> wobject option \<Rightarrow> bool) option"
  DeleteFunc :: "(wobject \<Rightarrow> bool) option"
  GenericFunc :: "(wobject \<Rightarrow> bool) option"

definition onlyUpdate :: "(wobject option \<Rightarrow> wobject option \<Rightarrow> bool) \<Rightarrow> funcs" where
  "onlyUpdate f = \<lparr>CreateFunc = None, UpdateFunc = Some f, DeleteFunc = None, GenericFunc = None\<rparr>"

record pred_lib =
  pl_And :: "pred list \<Rightarrow> pred"
  pl_Or :: "pred list \<Rightarrow> pred"
  pl_Funcs :: "funcs \<Rightarrow> pred"
  pl_HasFilterLabel :: "string \<Rightarrow> pred"
  pl_NotPausedAndHasFilterLabel :: "string \<Rightarrow> pred"
  pl_GenerationChanged :: pred
  pl_AnnotationChanged :: pred
  pl_ResourceVersionChanged :: pred
  pl_ClusterPausedTransitionsOrInfrastructureProvisioned :: pred
  pl_Deliver :: "pred list \<Rightarrow> pred list \<Rightarrow> event \<Rightarrow> bool"

record setup_lib =
  sl_Mapper :: "string \<Rightarrow> error option"
  sl_Complete :: "string \<Rightarrow> error option"


section \<open>What a controller watches\<close>

datatype mapper =
    ClusterToTypedObjects string
  | ClusterToInfrastructure string
  | MachineToInfrastructure string
  | FindObjectsForObject
  | MachineToLinodeCluster
  | LinodeMachineToLinodeCluster
  | LinodeClusterToLinodeMachines

datatype source = For string | Owns string | Watching string mapper "pred list"

record controller_setup =
  st_MaxConcurrentReconciles :: int
  st_EventFilter :: "pred list"
  st_Sources :: "source list"

fun ownPreds :: "source \<Rightarrow> pred list" where
  "ownPreds (Watching _ _ ps) = ps"
| "ownPreds _ = []"

text \<open>The builder decides with the filter of the controller and the predicates of the watch.\<close>

definition delivered :: "pred_lib \<Rightarrow> controller_setup \<Rightarrow> source \<Rightarrow> event \<Rightarrow> bool" where
  "delivered P S src e = pl_Deliver P (st_EventFilter S) (ownPreds src) e"

text \<open>The mapper from clusters is made first, the controller is built last.\<close>

definition withMapper :: "setup_lib \<Rightarrow> string \<Rightarrow> string \<Rightarrow> controller_setup \<Rightarrow> controller_setup res" where
  "withMapper L kind plural S =
     (case sl_Mapper L kind of
        Some err \<Rightarrow> Inl (ErrWrap (''failed to create mapper for '' @ plural @ '': '') err)
      | None \<Rightarrow> (case sl_Complete L kind of
          Some err \<Rightarrow> Inl (ErrWrap ''failed to build controller: '' err)
        | None \<Rightarrow> Inr S))"

definition clusterWatch :: "pred_lib \<Rightarrow> string \<Rightarrow> source" where
  "clusterWatch P kind = Watching ''Cluster'' (ClusterToTypedObjects kind) [pl_ClusterPausedTransitionsOrInfrastructureProvisioned P]"


section \<open>The controllers\<close>

text \<open>An update by which the resource gets its ID is not worth a reconciliation.\<close>

definition fwUpdateFunc :: "wobject option \<Rightarrow> wobject option \<Rightarrow> bool" where
  "fwUpdateFunc old new = (case (old, new) of
     (Some (W (OFirewall x)), Some (W (OFirewall y))) \<Rightarrow> \<not> (fw_FirewallID (lfw_Spec x) = None \<and> fw_FirewallID (lfw_Spec y) \<noteq> None)
   | _ \<Rightarrow> True)"

definition pgUpdateFunc :: "wobject option \<Rightarrow> wobject option \<Rightarrow> bool" where
  "pgUpdateFunc old new = (case (old, new) of
     (Some (W (OPlacementGroup x)), Some (W (OPlacementGroup y))) \<Rightarrow> \<not> (pg_PGID (lpg_Spec x) = None \<and> pg_PGID (lpg_Spec y) \<noteq> None)
   | _ \<Rightarrow> True)"

definition vpcUpdateFunc :: "wobject option \<Rightarrow> wobject option \<Rightarrow> bool" where
  "vpcUpdateFunc old new = (case (old, new) of
     (Some (W (OVPC x)), Some (W (OVPC y))) \<Rightarrow> \<not> (vpc_VPCID (lv_Spec x) = None \<and> vpc_VPCID (lv_Spec y) \<noteq> None)
   | _ \<Rightarrow> True)"

definition lmUpdateFunc :: "wobject option \<Rightarrow> wobject option \<Rightarrow> bool" where
  "lmUpdateFunc old new = (case (old, new) of
     (Some (W (OMachine x)), Some (W (OMachine y))) \<Rightarrow> \<not> (lms_ProviderID (lm_Spec x) = None \<and> lms_ProviderID (lm_Spec y) \<noteq> None)
   | _ \<Rightarrow> True)"

definition changedFilter :: "pred_lib \<Rightarrow> string \<Rightarrow> (wobject option \<Rightarrow> wobject option \<Rightarrow> bool) \<Rightarrow> pred" where
  "changedFilter P watchFilter upd =
     pl_And P [pl_HasFilterLabel P watchFilter, pl_Or P [pl_GenerationChanged P, pl_AnnotationChanged P], pl_Funcs P (onlyUpdate upd)]"

definition fw_SetupWithManager :: "pred_lib \<Rightarrow> setup_lib \<Rightarrow> string \<Rightarrow> int \<Rightarrow> controller_setup res" where
  "fw_SetupWithManager P L watchFilter conc = withMapper L ''LinodeFirewall'' ''LinodeFirewalls''
     \<lparr>st_MaxConcurrentReconciles = conc, st_EventFilter = [changedFilter P watchFilter fwUpdateFunc],
      st_Sources = [For ''LinodeFirewall'', clusterWatch P ''LinodeFirewall'',
        Watching ''AddressSet'' FindObjectsForObject [pl_ResourceVersionChanged P],
        Watching ''FirewallRule'' FindObjectsForObject [pl_ResourceVersionChanged P]]\<rparr>"

definition pg_SetupWithManager :: "pred_lib \<Rightarrow> setup_lib \<Rightarrow> string \<Rightarrow> int \<Rightarrow> controller_setup res" where
  "pg_SetupWithManager P L watchFilter conc = withMapper L ''LinodePlacementGroup'' ''LinodePlacementGroups''
     \<lparr>st_MaxConcurrentReconciles = conc, st_EventFilter = [changedFilter P watchFilter pgUpdateFunc],
      st_Sources = [For ''LinodePlacementGroup'', clusterWatch P ''LinodePlacementGroup'']\<rparr>"

definition vpc_SetupWithManager :: "pred_lib \<Rightarrow> setup_lib \<Rightarrow> string \<Rightarrow> int \<Rightarrow> controller_setup res" where
  "vpc_SetupWithManager P L watchFilter conc = withMapper L ''LinodeVPC'' ''LinodeVPCs''
     \<lparr>st_MaxConcurrentReconciles = conc, st_EventFilter = [changedFilter P watchFilter vpcUpdateFunc],
      st_Sources = [For ''LinodeVPC'', clusterWatch P ''LinodeVPC'']\<rparr>"

definition m_SetupWithManager :: "pred_lib \<Rightarrow> setup_lib \<Rightarrow> string \<Rightarrow> int \<Rightarrow> controller_setup res" where
  "m_SetupWithManager P L watchFilter conc = withMapper L ''LinodeMachine'' ''LinodeMachines''
     \<lparr>st_MaxConcurrentReconciles = conc, st_EventFilter = [pl_And P [pl_HasFilterLabel P watchFilter, pl_Funcs P (onlyUpdate lmUpdateFunc)]],
      st_Sources = [For ''LinodeMachine'', Watching ''Machine'' (MachineToInfrastructure ''LinodeMachine'') [],
        Watching ''LinodeCluster'' LinodeClusterToLinodeMachines [], clusterWatch P ''LinodeMachine'']\<rparr>"

definition quietFilter :: "pred_lib \<Rightarrow> string \<Rightarrow> pred" where
  "quietFilter P watchFilter = pl_And P [pl_NotPausedAndHasFilterLabel P watchFilter, pl_GenerationChanged P]"

definition bk_SetupWithManager :: "pred_lib \<Rightarrow> setup_lib \<Rightarrow> string \<Rightarrow> int \<Rightarrow> controller_setup res" where
  "bk_SetupWithManager P L watchFilter conc = withMapper L ''LinodeObjectStorageBucket'' ''LinodeObjectStorageBuckets''
     \<lparr>st_MaxConcurrentReconciles = conc, st_EventFilter = [quietFilter P watchFilter],
      st_Sources = [For ''LinodeObjectStorageBucket'', Owns ''Secret'', clusterWatch P ''LinodeObjectStorageBucket'']\<rparr>"

definition ky_SetupWithManager :: "pred_lib \<Rightarrow> setup_lib \<Rightarrow> string \<Rightarrow> int \<Rightarrow> controller_setup res" where
  "ky_SetupWithManager P L watchFilter conc = withMapper L ''LinodeObjectStorageKey'' ''LinodeObjectStorageKeys''
     \<lparr>st_MaxConcurrentReconciles = conc, st_EventFilter = [quietFilter P watchFilter],
      st_Sources = [For ''LinodeObjectStorageKey'', Owns ''Secret'', clusterWatch P ''LinodeObjectStorageKey'']\<rparr>"

text \<open>Only the update of a control plane machine wakes its cluster; a cluster and a template have no mapper of their own.\<close>

definition metaOf :: "wobject \<Rightarrow> ObjectMeta" where
  "metaOf x = (case x of
     W ob \<Rightarrow> (case ob of OFirewall f \<Rightarrow> lfw_Meta f | OVPC v \<Rightarrow> lv_Meta v | OPlacementGroup p \<Rightarrow> lpg_Meta p | OCluster c \<Rightarrow> lc_Meta c
       | OMachine m \<Rightarrow> lm_Meta m | OMachineTemplate t \<Rightarrow> lmt_Meta t | OBucket b \<Rightarrow> lobj_Meta b | OKey k \<Rightarrow> lok_Meta k | OSecret s \<Rightarrow> sec_Meta s)
   | WAddressSet a \<Rightarrow> ads_Meta a | WFirewallRule r \<Rightarrow> frl_Meta r | WCluster c \<Rightarrow> cl_Meta c | WMachine m \<Rightarrow> mc_Meta m)"

definition controlPlaneUpdate :: funcs where
  "controlPlaneUpdate =
     \<lparr>CreateFunc = Some (\<lambda>_. False),
      UpdateFunc = Some (\<lambda>old new. case (old, new) of (Some _, Some y) \<Rightarrow> om_Labels (metaOf y) MachineControlPlaneLabel \<noteq> None | _ \<Rightarrow> False),
      DeleteFunc = Some (\<lambda>_. False), GenericFunc = Some (\<lambda>_. False)\<rparr>"

definition c_SetupWithManager :: "pred_lib \<Rightarrow> setup_lib \<Rightarrow> string \<Rightarrow> int \<Rightarrow> controller_setup res" where
  "c_SetupWithManager P L watchFilter conc =
     (case sl_Complete L ''LinodeCluster'' of
        Some err \<Rightarrow> Inl (ErrWrap ''failed to build controller: '' err)
      | None \<Rightarrow> Inr \<lparr>st_MaxConcurrentReconciles = conc, st_EventFilter = [pl_HasFilterLabel P watchFilter],
          st_Sources = [For ''LinodeCluster'',
            Watching ''Cluster'' (ClusterToInfrastructure ''LinodeCluster'') [pl_ClusterPausedTransitionsOrInfrastructureProvisioned P],
            Watching ''Machine'' MachineToLinodeCluster [pl_Funcs P controlPlaneUpdate],
            Watching ''LinodeMachine'' LinodeMachineToLinodeCluster []]\<rparr>)"

definition mt_SetupWithManager :: "setup_lib \<Rightarrow> int \<Rightarrow> controller_setup res" where
  "mt_SetupWithManager L conc =
     (case sl_Complete L ''LinodeMachineTemplate'' of
        Some err \<Rightarrow> Inl err
      | None \<Rightarrow> Inr \<lparr>st_MaxConcurrentReconciles = conc, st_EventFilter = [], st_Sources = [For ''LinodeMachineTemplate'']\<rparr>)"


section \<open>Which events are delivered\<close>

text \<open>
  The documented behaviour of the libraries: \<open>gen\<close> is the generation of an object, which the API server counts up.
  A missing function of \<open>predicate.Funcs\<close> accepts; the builder asks the event filter for every watch.
\<close>

abbreviation ann :: "wobject \<Rightarrow> (string \<rightharpoonup> string)" where
  "ann x \<equiv> om_Annotations (metaOf x)"

definition predLaws :: "pred_lib \<Rightarrow> (wobject \<Rightarrow> int) \<Rightarrow> bool" where
  "predLaws P gen =
     ((\<forall>ps e. pl_And P ps e = list_all (\<lambda>p. p e) ps) \<and> (\<forall>ps e. pl_Or P ps e = list_ex (\<lambda>p. p e) ps) \<and>
      (\<forall>fs old new. pl_Funcs P fs (UpdateEvent old new) = (case UpdateFunc fs of None \<Rightarrow> True | Some f \<Rightarrow> f old new)) \<and>
      (\<forall>x y. pl_GenerationChanged P (UpdateEvent (Some x) (Some y)) = (gen x \<noteq> gen y)) \<and>
      (\<forall>x y. pl_AnnotationChanged P (UpdateEvent (Some x) (Some y)) = (ann x \<noteq> ann y)) \<and>
      (\<forall>fs ps e. pl_Deliver P fs ps e = list_all (\<lambda>p. p e) (fs @ ps)))"

lemma withMapper_Inr: "withMapper L k pl S = Inr T \<Longrightarrow> T = S"
  by (simp add: withMapper_def split: option.splits)

lemmas setup_filters = fw_SetupWithManager_def pg_SetupWithManager_def vpc_SetupWithManager_def m_SetupWithManager_def bk_SetupWithManager_def ky_SetupWithManager_def

lemma setup_filter:
  "fw_SetupWithManager P L w c = Inr S \<Longrightarrow> st_EventFilter S = [changedFilter P w fwUpdateFunc]"
  "pg_SetupWithManager P L w c = Inr S \<Longrightarrow> st_EventFilter S = [changedFilter P w pgUpdateFunc]"
  "vpc_SetupWithManager P L w c = Inr S \<Longrightarrow> st_EventFilter S = [changedFilter P w vpcUpdateFunc]"
  "m_SetupWithManager P L w c = Inr S \<Longrightarrow> st_EventFilter S = [pl_And P [pl_HasFilterLabel P w, pl_Funcs P (onlyUpdate lmUpdateFunc)]]"
  "bk_SetupWithManager P L w c = Inr S \<Longrightarrow> st_EventFilter S = [quietFilter P w]"
  "ky_SetupWithManager P L w c = Inr S \<Longrightarrow> st_EventFilter S = [quietFilter P w]"
  unfolding setup_filters by (auto dest!: withMapper_Inr)

lemma delivered_changed:
  assumes "predLaws P gen" and "st_EventFilter S = [changedFilter P w upd]"
  shows "delivered P S src (UpdateEvent (Some x) (Some y)) =
    (pl_HasFilterLabel P w (UpdateEvent (Some x) (Some y)) \<and> (gen x \<noteq> gen y \<or> ann x \<noteq> ann y) \<and> upd (Some x) (Some y)
      \<and> list_all (\<lambda>p. p (UpdateEvent (Some x) (Some y))) (ownPreds src))"
  using assms by (auto simp: delivered_def predLaws_def changedFilter_def onlyUpdate_def)

lemma delivered_quiet:
  assumes "predLaws P gen" and "st_EventFilter S = [quietFilter P w]"
  shows "delivered P S src (UpdateEvent (Some x) (Some y)) =
    (pl_NotPausedAndHasFilterLabel P w (UpdateEvent (Some x) (Some y)) \<and> gen x \<noteq> gen y
      \<and> list_all (\<lambda>p. p (UpdateEvent (Some x) (Some y))) (ownPreds src))"
  using assms by (auto simp: delivered_def predLaws_def quietFilter_def)

lemma delivered_machine:
  assumes "predLaws P gen" and "m_SetupWithManager P L w c = Inr S"
  shows "delivered P S src (UpdateEvent (Some x) (Some y)) =
    (pl_HasFilterLabel P w (UpdateEvent (Some x) (Some y)) \<and> lmUpdateFunc (Some x) (Some y)
      \<and> list_all (\<lambda>p. p (UpdateEvent (Some x) (Some y))) (ownPreds src))"
  using assms setup_filter(4) [OF assms(2)] by (auto simp: delivered_def predLaws_def onlyUpdate_def)


lemma unchanged_dropped:
  assumes "predLaws P gen" and "gen x = gen y" and "ann x = ann y"
    and "Inr S \<in> {fw_SetupWithManager P L w c, pg_SetupWithManager P L w c, vpc_SetupWithManager P L w c, bk_SetupWithManager P L w c, ky_SetupWithManager P L w c}"
  shows "\<not> delivered P S src (UpdateEvent (Some x) (Some y))"
  using assms(2-) by (auto simp: delivered_changed [OF assms(1)] delivered_quiet [OF assms(1)] dest!: setup_filter [OF sym])

lemmas idUpdates = fwUpdateFunc_def pgUpdateFunc_def vpcUpdateFunc_def lmUpdateFunc_def

text \<open>
  The firewall, VPC, placement group, bucket and key controllers watch clusters for the moment their
  infrastructure is provisioned. That is a change of the status of the cluster, which leaves its generation and
  its annotations alone, and the filter of the controller drops it.
\<close>

lemma provisioning_not_delivered:
  assumes "predLaws P gen" and "gen (WCluster cl) = gen (WCluster cl')" and "cl_Meta cl = cl_Meta cl'"
    and "Inr S \<in> {fw_SetupWithManager P L w c, pg_SetupWithManager P L w c, vpc_SetupWithManager P L w c, bk_SetupWithManager P L w c, ky_SetupWithManager P L w c}"
  shows "\<not> delivered P S src (UpdateEvent (Some (WCluster cl)) (Some (WCluster cl')))"
  using assms(3) by (intro unchanged_dropped [OF assms(1,2) _ assms(4)]) (simp add: metaOf_def)

text \<open>
  A change of annotations only, such as the end of a pause, never reaches the bucket and the key controller; nor
  does an update of a secret they own, whose generation is never counted up.
\<close>

lemma annotation_not_delivered:
  assumes "predLaws P gen" and "gen x = gen y"
    and "bk_SetupWithManager P L w c = Inr S \<or> ky_SetupWithManager P L w c = Inr S"
  shows "\<not> delivered P S src (UpdateEvent (Some x) (Some y))"
  using assms(2,3) by (auto simp: delivered_quiet [OF assms(1)] dest!: setup_filter)


section \<open>Properties\<close>

text \<open>
  What the rule of each controller is stated with: the update passes the filter label and the predicates of the watch,
  and it changes the generation, which the API server counts up with the spec, or the annotations.
\<close>

definition passes :: "pred_lib \<Rightarrow> string \<Rightarrow> source \<Rightarrow> event \<Rightarrow> bool" where
  "passes P w src e = (pl_HasFilterLabel P w e \<and> list_all (\<lambda>p. p e) (ownPreds src))"

definition changed :: "(wobject \<Rightarrow> int) \<Rightarrow> wobject \<Rightarrow> wobject \<Rightarrow> bool" where
  "changed gen x y = (gen x \<noteq> gen y \<or> ann x \<noteq> ann y)"

lemmas deliveredWhen = passes_def changed_def

lemma delivered_cluster:
  assumes "predLaws P gen" and "c_SetupWithManager P L w c = Inr S"
  shows "delivered P S src (UpdateEvent x y) = passes P w src (UpdateEvent x y)"
  using assms by (auto simp: delivered_def predLaws_def c_SetupWithManager_def passes_def split: option.splits)

text \<open>
C28: Which updates wake a controller, on each of its watches and while the libraries behave as documented. The
controllers of firewalls, placement groups and VPCs get an update of their resource exactly when it has the filter
label, passes the predicates of the watch, changes the generation or the annotations, and is not the one by which the
resource gets its ID. The machine controller gets every update of a machine with the filter label but the one by which
the machine gets its provider ID, and the cluster controller every update of a cluster with the label, changes of
the metadata and the status included. For the firewall, placement group, VPC, bucket and key controllers no update,
of whatever object they watch, is delivered that leaves the generation and the annotations alone, as their own writes
of the status do.
\<close>

theorem own_writes_not_delivered:
  assumes laws: "predLaws P gen"
  shows "(fw_SetupWithManager P L w c = Inr S \<longrightarrow> (let x = W (OFirewall f); y = W (OFirewall f'); e = UpdateEvent (Some x) (Some y) in
        delivered P S src e = (passes P w src e \<and> changed gen x y \<and> (fw_FirewallID (lfw_Spec f) = None \<longrightarrow> fw_FirewallID (lfw_Spec f') = None))))
    \<and> (pg_SetupWithManager P L w c = Inr S \<longrightarrow> (let x = W (OPlacementGroup p); y = W (OPlacementGroup p'); e = UpdateEvent (Some x) (Some y) in
        delivered P S src e = (passes P w src e \<and> changed gen x y \<and> (pg_PGID (lpg_Spec p) = None \<longrightarrow> pg_PGID (lpg_Spec p') = None))))
    \<and> (vpc_SetupWithManager P L w c = Inr S \<longrightarrow> (let x = W (OVPC v); y = W (OVPC v'); e = UpdateEvent (Some x) (Some y) in
        delivered P S src e = (passes P w src e \<and> changed gen x y \<and> (vpc_VPCID (lv_Spec v) = None \<longrightarrow> vpc_VPCID (lv_Spec v') = None))))
    \<and> (m_SetupWithManager P L w c = Inr S \<longrightarrow> (let e = UpdateEvent (Some (W (OMachine m))) (Some (W (OMachine m'))) in
        delivered P S src e = (passes P w src e \<and> (lms_ProviderID (lm_Spec m) = None \<longrightarrow> lms_ProviderID (lm_Spec m') = None))))
    \<and> (c_SetupWithManager P L w c = Inr S \<longrightarrow> (let e = UpdateEvent (Some (W (OCluster k))) (Some (W (OCluster k'))) in
        delivered P S src e = passes P w src e))
    \<and> (Inr S \<in> {fw_SetupWithManager P L w c, pg_SetupWithManager P L w c, vpc_SetupWithManager P L w c, bk_SetupWithManager P L w c, ky_SetupWithManager P L w c}
      \<and> \<not> changed gen x y \<longrightarrow> \<not> delivered P S src (UpdateEvent (Some x) (Some y)))"
  by (intro conjI impI; (elim conjE)?)
    (auto simp: Let_def delivered_cluster [OF laws] delivered_changed [OF laws] delivered_machine [OF laws] idUpdates deliveredWhen
      dest: setup_filter unchanged_dropped [OF laws])

text \<open>A library with the documented behaviour: \<open>hasLabel\<close> is the label of Cluster API for watch filters, of the new object.\<close>

fun eventObject :: "event \<Rightarrow> wobject option" where
  "eventObject (UpdateEvent _ new) = new"
| "eventObject (CreateEvent x) = Some x"
| "eventObject (DeleteEvent x) = Some x"
| "eventObject (GenericEvent x) = Some x"

definition hasLabel :: "string \<Rightarrow> pred" where
  "hasLabel w e = (w = [] \<or> (case eventObject e of None \<Rightarrow> False | Some x \<Rightarrow> om_Labels (metaOf x) ''cluster.x-k8s.io/watch-filter'' = Some w))"

definition onUpdate :: "(wobject option \<Rightarrow> wobject option \<Rightarrow> bool) \<Rightarrow> pred" where
  "onUpdate f e = (case e of UpdateEvent old new \<Rightarrow> f old new | _ \<Rightarrow> True)"

definition differ :: "(wobject \<Rightarrow> 'a) \<Rightarrow> pred" where
  "differ g = onUpdate (\<lambda>old new. case (old, new) of (Some x, Some y) \<Rightarrow> g x \<noteq> g y | _ \<Rightarrow> False)"

definition preds1 :: pred_lib where
  "preds1 = \<lparr>pl_And = \<lambda>ps e. list_all (\<lambda>p. p e) ps, pl_Or = \<lambda>ps e. list_ex (\<lambda>p. p e) ps,
     pl_Funcs = \<lambda>fs. onUpdate (\<lambda>old new. case UpdateFunc fs of None \<Rightarrow> True | Some f \<Rightarrow> f old new),
     pl_HasFilterLabel = hasLabel, pl_NotPausedAndHasFilterLabel = hasLabel, pl_GenerationChanged = differ (\<lambda>_. 1 :: int),
     pl_AnnotationChanged = differ ann, pl_ResourceVersionChanged = \<lambda>_. True,
     pl_ClusterPausedTransitionsOrInfrastructureProvisioned = \<lambda>_. True,
     pl_Deliver = \<lambda>fs ps e. list_all (\<lambda>p. p e) (fs @ ps)\<rparr>"

definition setups1 :: setup_lib where
  "setups1 = \<lparr>sl_Mapper = \<lambda>_. None, sl_Complete = \<lambda>_. None\<rparr>"

lemma predLaws_preds1: "predLaws preds1 (\<lambda>_. 1)"
  by (auto simp: predLaws_def preds1_def differ_def onUpdate_def)

theorem own_writes_not_delivered_witness:
  "\<exists>S T. m_SetupWithManager preds1 setups1 [] 10 = Inr S \<and> fw_SetupWithManager preds1 setups1 [] 10 = Inr T
    \<and> \<not> delivered preds1 S (For ''LinodeMachine'') (UpdateEvent (Some (W (OMachine (lm1\<lparr>lm_Spec := lmSpec1\<lparr>lms_ProviderID := None\<rparr>\<rparr>)))) (Some (W (OMachine lm1))))
    \<and> delivered preds1 S (For ''LinodeMachine'') (UpdateEvent (Some (W (OMachine lm1))) (Some (W (OMachine lm1))))
    \<and> \<not> delivered preds1 T (clusterWatch preds1 ''LinodeFirewall'') (UpdateEvent (Some (WCluster cl1)) (Some (WCluster cl1)))
    \<and> delivered preds1 T (clusterWatch preds1 ''LinodeFirewall'')
        (UpdateEvent (Some (WCluster cl1)) (Some (WCluster (cl1\<lparr>cl_Meta := (cl_Meta cl1)\<lparr>om_Annotations := [''a'' \<mapsto> ''b'']\<rparr>\<rparr>))))"
proof -
  obtain S where S: "m_SetupWithManager preds1 setups1 [] 10 = Inr S" by (simp add: m_SetupWithManager_def withMapper_def setups1_def)
  obtain T where T: "fw_SetupWithManager preds1 setups1 [] 10 = Inr T" by (simp add: fw_SetupWithManager_def withMapper_def setups1_def)
  note law = own_writes_not_delivered [OF predLaws_preds1]
  have "\<not> delivered preds1 S (For ''LinodeMachine'') (UpdateEvent (Some (W (OMachine (lm1\<lparr>lm_Spec := lmSpec1\<lparr>lms_ProviderID := None\<rparr>\<rparr>)))) (Some (W (OMachine lm1))))"
    using law S by (simp add: Let_def lm1_def lmSpec1_def)
  moreover have "\<not> delivered preds1 T (clusterWatch preds1 ''LinodeFirewall'') (UpdateEvent (Some (WCluster cl1)) (Some (WCluster cl1)))"
    using law T unfolding changed_def by (metis (no_types, lifting) insertI1)
  moreover have "delivered preds1 S (For ''LinodeMachine'') (UpdateEvent (Some (W (OMachine lm1))) (Some (W (OMachine lm1))))"
    using law S by (simp add: Let_def passes_def preds1_def hasLabel_def lm1_def lmSpec1_def)
  moreover have "delivered preds1 T (clusterWatch preds1 ''LinodeFirewall'')
        (UpdateEvent (Some (WCluster cl1)) (Some (WCluster (cl1\<lparr>cl_Meta := (cl_Meta cl1)\<lparr>om_Annotations := [''a'' \<mapsto> ''b'']\<rparr>\<rparr>))))"
    unfolding delivered_changed [OF predLaws_preds1 setup_filter(1) [OF T]] by (simp add: preds1_def hasLabel_def fwUpdateFunc_def clusterWatch_def metaOf_def cl1_def meta0_def fun_eq_iff)
  ultimately show ?thesis using S T by blast
qed

end
