(* ===== verification/Tracing.thy ===== *)
theory Tracing
  imports World
begin

text \<open>
  The instrumentation of \<open>observability\<close>: the helpers and the span decorators of \<open>wrappers\<close>, and the wrappers
  around the reconcilers and around the Kubernetes client. A dynamically typed value is a sum of the types
  the decorators ask for; what a wrapper does to its span is the list of its calls. The tracer itself, from
  OpenTelemetry, only receives them.
\<close>

section \<open>Values, helpers and spans\<close>

record object_info =
  oi_Name :: string
  oi_Namespace :: string
  oi_UID :: string
  oi_Group :: string
  oi_Version :: string
  oi_Kind :: string

record DomainRecordUpdateOptions =
  dru_Type :: string
  dru_Name :: string
  dru_Target :: string
  dru_Priority :: "int option"
  dru_Weight :: "int option"
  dru_Port :: "int option"
  dru_Service :: "string option"
  dru_Protocol :: "string option"
  dru_TTLSec :: int
  dru_Tag :: "string option"

datatype any =
    AInt int
  | AString string
  | AObject object_info
  | AKey NamespacedName
  | APatch string
  | ARequest NamespacedName
  | AResult Result
  | ARecordUpdate DomainRecordUpdateOptions
  | AError "error option"
  | AOther

text \<open>\<open>GetValue[T]\<close>: the type argument is the partial projection of the sum to the type.\<close>

definition GetValue :: "(any \<Rightarrow> 't option) \<Rightarrow> (string \<rightharpoonup> any) \<Rightarrow> string \<Rightarrow> 't option" where
  "GetValue T m key = (case m key of None \<Rightarrow> None | Some val \<Rightarrow> T val)"

definition Optional :: "'t \<Rightarrow> 't option \<Rightarrow> 't" where
  "Optional zero val = (case val of None \<Rightarrow> zero | Some v \<Rightarrow> v)"

fun asInt :: "any \<Rightarrow> int option" where "asInt (AInt i) = Some i" | "asInt _ = None"
fun asString :: "any \<Rightarrow> string option" where "asString (AString s) = Some s" | "asString _ = None"
fun asObject :: "any \<Rightarrow> object_info option" where "asObject (AObject x) = Some x" | "asObject _ = None"
fun asKey :: "any \<Rightarrow> NamespacedName option" where "asKey (AKey k) = Some k" | "asKey _ = None"
fun asPatch :: "any \<Rightarrow> string option" where "asPatch (APatch t) = Some t" | "asPatch _ = None"
fun asRequest :: "any \<Rightarrow> NamespacedName option" where "asRequest (ARequest r) = Some r" | "asRequest _ = None"
fun asResult :: "any \<Rightarrow> Result option" where "asResult (AResult r) = Some r" | "asResult _ = None"
fun asRecordUpdate :: "any \<Rightarrow> DomainRecordUpdateOptions option" where "asRecordUpdate (ARecordUpdate r) = Some r" | "asRecordUpdate _ = None"

datatype attrval = KInt int | KString string

type_synonym attrs = "(string \<times> attrval) list"

datatype span_call = SetAttributes attrs | RecordError error | EndSpan

record span =
  sp_Name :: string
  sp_Calls :: "span_call list"

type_synonym decorator = "(string \<rightharpoonup> any) \<Rightarrow> (string \<rightharpoonup> any) \<Rightarrow> attrs"

definition whenSome :: "'t option \<Rightarrow> ('t \<Rightarrow> attrs) \<Rightarrow> attrs" where
  "whenSome v f = (case v of None \<Rightarrow> [] | Some x \<Rightarrow> f x)"


section \<open>The text of a duration\<close>

text \<open>
  \<open>time.Duration.String\<close>: the fraction without its trailing zeros, then the seconds, minutes and hours. The
  sign of a microsecond is two bytes of UTF-8.
\<close>

definition fmtFrac :: "nat \<Rightarrow> nat \<Rightarrow> string" where
  "fmtFrac v prec =
     (let ds = showNat (v mod 10 ^ prec);
          frac = rev (dropWhile (\<lambda>c. c = CHR ''0'') (rev (replicate (prec - length ds) CHR ''0'' @ ds))) in
      showNat (v div 10 ^ prec) @ (if prec = 0 \<or> frac = [] then [] else CHR ''.'' # frac))"

definition Duration_String :: "duration \<Rightarrow> string" where
  "Duration_String d =
     (let u = nat \<bar>d\<bar>; secs = u div 10 ^ 9; sec_part = fmtFrac (u mod (60 * 10 ^ 9)) 9 @ ''s''; minutes = secs div 60; hours = minutes div 60;
          body = (if u = 0 then ''0s''
             else if u < 10 ^ 3 then fmtFrac u 0 @ ''ns''
             else if u < 10 ^ 6 then fmtFrac u 3 @ [CHR 0xC2, CHR 0xB5] @ ''s''
             else if u < 10 ^ 9 then fmtFrac u 6 @ ''ms''
             else (if hours = 0 then [] else showNat hours @ ''h'') @ (if minutes = 0 then [] else showNat (minutes mod 60) @ ''m'') @ sec_part) in
      if d < 0 then CHR ''-'' # body else body)"


section \<open>The decorators\<close>

definition runtimereconciler_DefaultDecorator :: decorator where
  "runtimereconciler_DefaultDecorator params results =
     whenSome (GetValue asRequest params ''r1'') (\<lambda>req.
       [(''request.name'', KString (nn_Name req)), (''request.namespace'', KString (nn_Namespace req))])
     @ whenSome (GetValue asResult params ''r1'') (\<lambda>res. [(''result.requeue_after'', KString (Duration_String (RequeueAfter res)))])"

definition runtimeclient_DefaultDecorator :: decorator where
  "runtimeclient_DefaultDecorator params results =
     whenSome (GetValue asObject params ''obj'') (\<lambda>x.
       [(''object.metadata.name'', KString (oi_Name x)), (''object.metadata.namespace'', KString (oi_Namespace x)),
        (''object.metadata.uid'', KString (oi_UID x)), (''object.group'', KString (oi_Group x)),
        (''object.version'', KString (oi_Version x)), (''object.kind'', KString (oi_Kind x))])
     @ whenSome (GetValue asKey params ''key'') (\<lambda>key.
       [(''key.metadata.name'', KString (nn_Name key)), (''key.metadata.namespace'', KString (nn_Namespace key))])
     @ whenSome (GetValue asPatch params ''key'') (\<lambda>typ. [(''patch.type'', KString typ)])"

definition intParams :: "(string \<times> string) list" where
  "intParams = [(''nodebalancerID'', ''req.nodebalancer_id''), (''configID'', ''req.config_id''), (''domainID'', ''req.domain_id''),
     (''diskID'', ''req.disk_id''), (''nodeID'', ''req.node_id''), (''domainRecordID'', ''req.domain_record_id''),
     (''linodeID'', ''req.linode_id''), (''keyID'', ''req.key_id''), (''vpcID'', ''req.vpc_id''), (''size'', ''req.size'')]"

definition stringParams :: "(string \<times> string) list" where
  "stringParams = [(''imageID'', ''req.image_id''), (''cluster'', ''req.cluster''), (''label'', ''req.label''),
     (''regionID'', ''req.region_id''), (''typeID'', ''req.type_id'')]"

definition linodeclient_DefaultDecorator :: decorator where
  "linodeclient_DefaultDecorator params results =
     concat (map (\<lambda>(p, a). whenSome (GetValue asInt params p) (\<lambda>val. [(a, KInt val)])) intParams)
     @ concat (map (\<lambda>(p, a). whenSome (GetValue asString params p) (\<lambda>val. [(a, KString val)])) stringParams)
     @ whenSome (GetValue asRecordUpdate params ''recordReq'') (\<lambda>val.
         [(''req.domain_record_update_options.name'', KString (dru_Name val)),
          (''req.domain_record_update_options.target'', KString (dru_Target val)),
          (''req.domain_record_update_options.type'', KString (dru_Type val)),
          (''req.domain_record_update_options.protocol'', KString (Optional [] (dru_Protocol val))),
          (''req.domain_record_update_options.service'', KString (Optional [] (dru_Service val))),
          (''req.domain_record_update_options.tag'', KString (Optional [] (dru_Tag val))),
          (''req.domain_record_update_options.ttl_sec'', KInt (dru_TTLSec val)),
          (''req.domain_record_update_options.port'', KInt (Optional 0 (dru_Port val))),
          (''req.domain_record_update_options.priority'', KInt (Optional 0 (dru_Priority val))),
          (''req.domain_record_update_options.weight'', KInt (Optional 0 (dru_Weight val)))])"


section \<open>The tracer provider\<close>

text \<open>
  What \<open>tracing.Setup\<close> leaves in the globals of OpenTelemetry, for an exporter that could be made or not; the
  function that shuts the provider down is there exactly when it could.
\<close>

record ('x, 'r) otel_globals =
  og_Provider :: "('x \<times> 'r option) option"
  og_Propagator :: string

definition tracing_Setup :: "error + 'x \<Rightarrow> 'r option \<Rightarrow> ('x, 'r) otel_globals \<Rightarrow> ('x option \<times> error option) \<times> ('x, 'r) otel_globals" where
  "tracing_Setup exporter res globals = (case exporter of
     Inl err \<Rightarrow> ((None, Some err), globals)
   | Inr x \<Rightarrow> ((Some x, None), globals\<lparr>og_Provider := Some (x, res), og_Propagator := ''tracecontext''\<rparr>))"


section \<open>The wrappers\<close>

text \<open>
  The deferred function of every wrapped method. The state of the wrapped component comes with the spans that
  have ended, the latest first.
\<close>

definition deferredCalls :: "decorator option \<Rightarrow> (string \<rightharpoonup> any) \<Rightarrow> (string \<rightharpoonup> any) \<Rightarrow> error option \<Rightarrow> span_call list" where
  "deferredCalls deco params results err =
     (case deco of None \<Rightarrow> [] | Some d \<Rightarrow> [SetAttributes (d params results)])
     @ (case err of None \<Rightarrow> [] | Some e \<Rightarrow> [RecordError e, SetAttributes [(''event'', KString ''error''), (''message'', KString (errText e))]])
     @ [EndSpan]"

definition withTracing :: "decorator option \<Rightarrow> string \<Rightarrow> (string \<rightharpoonup> any) \<Rightarrow> ('a \<Rightarrow> (string \<rightharpoonup> any)) \<Rightarrow> ('a \<Rightarrow> error option)
    \<Rightarrow> ('s \<times> span list, 'a) m \<Rightarrow> ('s \<times> span list, 'a) m" where
  "withTracing deco name params results errOf base = do {
     r \<leftarrow> base;
     _ \<leftarrow> modify (\<lambda>(s, spans). (s, \<lparr>sp_Name = name, sp_Calls = deferredCalls deco params (results r) (errOf r)\<rparr> # spans));
     ret r
   }"

text \<open>A panic of the wrapped reconciler passes the deferred function while the results have their zero values.\<close>

definition returned :: "outcome \<Rightarrow> outcome" where
  "returned r = (if snd r = Some (ErrSentinel ErrPanic) then (noResult, None) else r)"

definition RuntimeReconciler_Reconcile ::
  "decorator option \<Rightarrow> (NamespacedName \<Rightarrow> ('s \<times> span list, outcome) m) \<Rightarrow> NamespacedName \<Rightarrow> ('s \<times> span list, outcome) m" where
  "RuntimeReconciler_Reconcile deco base r1 =
     withTracing deco ''_sourceWrappers.RuntimeReconciler.Reconcile'' [''ctx'' \<mapsto> AOther, ''r1'' \<mapsto> ARequest r1]
       (\<lambda>r. [''r2'' \<mapsto> AResult (fst (returned r)), ''err'' \<mapsto> AError (snd (returned r))]) (\<lambda>r. snd (returned r)) (base r1)"

type_synonym 's kop = "('s \<times> span list, error option) m"

definition clientCall :: "decorator option \<Rightarrow> string \<Rightarrow> (string \<rightharpoonup> any) \<Rightarrow> 's kop \<Rightarrow> 's kop" where
  "clientCall deco method params = withTracing deco (''_sourceWrappers.RuntimeClient.'' @ method) params (\<lambda>e. [''err'' \<mapsto> AError e]) id"

text \<open>An apply configuration and a list are no objects; the options are ignored by the decorator.\<close>

definition RuntimeClient_Apply :: "decorator option \<Rightarrow> 's kop \<Rightarrow> 's kop" where
  "RuntimeClient_Apply deco = clientCall deco ''Apply'' [''ctx'' \<mapsto> AOther, ''obj'' \<mapsto> AOther, ''opts'' \<mapsto> AOther]"

definition RuntimeClient_Create :: "decorator option \<Rightarrow> (object_info \<Rightarrow> 's kop) \<Rightarrow> object_info \<Rightarrow> 's kop" where
  "RuntimeClient_Create deco base x = clientCall deco ''Create'' [''ctx'' \<mapsto> AOther, ''obj'' \<mapsto> AObject x, ''opts'' \<mapsto> AOther] (base x)"

definition RuntimeClient_Delete :: "decorator option \<Rightarrow> (object_info \<Rightarrow> 's kop) \<Rightarrow> object_info \<Rightarrow> 's kop" where
  "RuntimeClient_Delete deco base x = clientCall deco ''Delete'' [''ctx'' \<mapsto> AOther, ''obj'' \<mapsto> AObject x, ''opts'' \<mapsto> AOther] (base x)"

definition RuntimeClient_DeleteAllOf :: "decorator option \<Rightarrow> (object_info \<Rightarrow> 's kop) \<Rightarrow> object_info \<Rightarrow> 's kop" where
  "RuntimeClient_DeleteAllOf deco base x =
     clientCall deco ''DeleteAllOf'' [''ctx'' \<mapsto> AOther, ''obj'' \<mapsto> AObject x, ''opts'' \<mapsto> AOther] (base x)"

definition RuntimeClient_Get :: "decorator option \<Rightarrow> (NamespacedName \<Rightarrow> object_info \<Rightarrow> 's kop) \<Rightarrow> NamespacedName \<Rightarrow> object_info \<Rightarrow> 's kop" where
  "RuntimeClient_Get deco base key x =
     clientCall deco ''Get'' [''ctx'' \<mapsto> AOther, ''key'' \<mapsto> AKey key, ''obj'' \<mapsto> AObject x, ''opts'' \<mapsto> AOther] (base key x)"

definition RuntimeClient_List :: "decorator option \<Rightarrow> 's kop \<Rightarrow> 's kop" where
  "RuntimeClient_List deco = clientCall deco ''List'' [''ctx'' \<mapsto> AOther, ''list'' \<mapsto> AOther, ''opts'' \<mapsto> AOther]"

definition RuntimeClient_Patch :: "decorator option \<Rightarrow> (object_info \<Rightarrow> string \<Rightarrow> 's kop) \<Rightarrow> object_info \<Rightarrow> string \<Rightarrow> 's kop" where
  "RuntimeClient_Patch deco base x patch =
     clientCall deco ''Patch'' [''ctx'' \<mapsto> AOther, ''obj'' \<mapsto> AObject x, ''patch'' \<mapsto> APatch patch, ''opts'' \<mapsto> AOther] (base x patch)"

definition RuntimeClient_Update :: "decorator option \<Rightarrow> (object_info \<Rightarrow> 's kop) \<Rightarrow> object_info \<Rightarrow> 's kop" where
  "RuntimeClient_Update deco base x = clientCall deco ''Update'' [''ctx'' \<mapsto> AOther, ''obj'' \<mapsto> AObject x, ''opts'' \<mapsto> AOther] (base x)"


section \<open>Tracing changes nothing\<close>

text \<open>A component that knows nothing of spans.\<close>

definition untraced :: "('s, 'a) m \<Rightarrow> ('s \<times> span list, 'a) m" where
  "untraced = zoom fst (\<lambda>t s. (t, snd s))"

definition endedOnce :: "span_call list \<Rightarrow> bool" where
  "endedOnce cs = (last cs = EndSpan \<and> EndSpan \<notin> set (butlast cs))"

lemma endedOnce_deferred: "endedOnce (deferredCalls deco params results err)"
  by (auto simp: endedOnce_def deferredCalls_def butlast_append split: option.split)

lemma RecordError_deferred: "RecordError e \<in> set (deferredCalls deco params results err) \<longleftrightarrow> err = Some e"
  by (auto simp: deferredCalls_def split: option.split)

lemma run_withTracing:
  "State_Monad.run_state (withTracing deco name params results errOf (untraced m)) (s, spans) =
     (case State_Monad.run_state m s of (r, t) \<Rightarrow>
        (r, t, \<lparr>sp_Name = name, sp_Calls = deferredCalls deco params (results r) (errOf r)\<rparr> # spans))"
  by (simp add: withTracing_def untraced_def zoom_def State_Monad.bind_def State_Monad.update_def State_Monad.get_def State_Monad.set_def split: prod.split)

text \<open>
Tracing a reconciler changes neither what it answers nor what it does: its outcome and its state are those of
the reconciler alone, and one more span has ended, exactly once and after everything else was reported, which
names the request and records an error exactly when the reconciler returned it.
\<close>

theorem reconcile_traced:
  "\<exists>sp. State_Monad.run_state (RuntimeReconciler_Reconcile (Some runtimereconciler_DefaultDecorator) (\<lambda>req. untraced (base req)) req) (s, spans)
      = (fst (State_Monad.run_state (base req) s), snd (State_Monad.run_state (base req) s), sp # spans)
    \<and> endedOnce (sp_Calls sp)
    \<and> hd (sp_Calls sp) = SetAttributes [(''request.name'', KString (nn_Name req)), (''request.namespace'', KString (nn_Namespace req))]
    \<and> (\<forall>e. RecordError e \<in> set (sp_Calls sp) \<longleftrightarrow> snd (returned (fst (State_Monad.run_state (base req) s))) = Some e)"
  by (simp add: RuntimeReconciler_Reconcile_def run_withTracing endedOnce_deferred RecordError_deferred split: prod.split)
    (simp add: deferredCalls_def runtimereconciler_DefaultDecorator_def GetValue_def whenSome_def)

text \<open>
  The result of a reconciliation is never reported: the decorator looks for it under the name of the request and
  among the parameters.
\<close>

lemma requeue_never_reported:
  "''result.requeue_after'' \<notin> fst ` set (runtimereconciler_DefaultDecorator [''ctx'' \<mapsto> AOther, ''r1'' \<mapsto> ARequest r1] results)"
  by (simp add: runtimereconciler_DefaultDecorator_def GetValue_def whenSome_def)

text \<open>The type of a patch is never reported: the decorator looks for the patch under the name of the key, which is a name.\<close>

lemma patch_never_reported:
  "''patch.type'' \<notin> fst ` set (runtimeclient_DefaultDecorator [''ctx'' \<mapsto> AOther, ''obj'' \<mapsto> AObject x, ''patch'' \<mapsto> APatch p, ''opts'' \<mapsto> AOther] results)"
  by (simp add: runtimeclient_DefaultDecorator_def GetValue_def whenSome_def)

text \<open>The span of an update of an instance does not say which: the parameter is called \<open>linodeId\<close>, with another case.\<close>

lemma instance_update_unidentified:
  "linodeclient_DefaultDecorator [''ctx'' \<mapsto> AOther, ''linodeId'' \<mapsto> AInt i, ''opts'' \<mapsto> AOther] results = []"
  by (simp add: linodeclient_DefaultDecorator_def intParams_def stringParams_def GetValue_def whenSome_def)

end
