(* ===== verification/Manager.thy ===== *)
theory Manager
  imports ClientSetup GoFlag Watches Tracing
begin

text \<open>
  The process of \<open>cmd/main.go\<close>: the flags, the manager with its controllers, webhooks and health checks, and
  how the process ends. The manager of controller-runtime and the exporter of OpenTelemetry are parameters.
  Inl is the exit status of a process that ends before its manager runs.
\<close>

section \<open>Flags\<close>

record flagVars =
  machineWatchFilter :: string
  clusterWatchFilter :: string
  objectStorageBucketWatchFilter :: string
  objectStorageKeyWatchFilter :: string
  metricsAddr :: string
  secureMetrics :: bool
  enableLeaderElection :: bool
  probeAddr :: string
  restConfigQPS :: int
  restConfigBurst :: int
  linodeClusterConcurrency :: int
  linodeMachineConcurrency :: int
  linodeObjectStorageBucketConcurrency :: int
  linodeVPCConcurrency :: int
  linodePlacementGroupConcurrency :: int
  linodeFirewallConcurrency :: int
  linodeMachineTemplateConcurrency :: int

definition concurrencyDefault :: int where "concurrencyDefault = 10"
definition qpsDefault :: int where "qpsDefault = 20"
definition burstDefault :: int where "burstDefault = 30"

definition flagDefaults :: flagVars where
  "flagDefaults = \<lparr>machineWatchFilter = [], clusterWatchFilter = [], objectStorageBucketWatchFilter = [], objectStorageKeyWatchFilter = [],
     metricsAddr = ''0'', secureMetrics = False, enableLeaderElection = False, probeAddr = '':8081'', restConfigQPS = qpsDefault,
     restConfigBurst = burstDefault, linodeClusterConcurrency = concurrencyDefault, linodeMachineConcurrency = concurrencyDefault,
     linodeObjectStorageBucketConcurrency = concurrencyDefault, linodeVPCConcurrency = concurrencyDefault,
     linodePlacementGroupConcurrency = concurrencyDefault, linodeFirewallConcurrency = concurrencyDefault,
     linodeMachineTemplateConcurrency = concurrencyDefault\<rparr>"

abbreviation stored :: "(('a \<Rightarrow> 'a) \<Rightarrow> 'v \<Rightarrow> 'v) \<Rightarrow> 'a \<Rightarrow> 'v \<Rightarrow> 'v" where
  "stored upd x \<equiv> upd (\<lambda>_. x)"

definition registeredFlags :: "(string \<times> flagVars flag_var) list" where
  "registeredFlags =
    [(''machine-watch-filter'', StringVar (stored machineWatchFilter_update)),
     (''cluster-watch-filter'', StringVar (stored clusterWatchFilter_update)),
     (''object-storage-bucket-watch-filter'', StringVar (stored objectStorageBucketWatchFilter_update)),
     (''metrics-bind-address'', StringVar (stored metricsAddr_update)),
     (''metrics-secure'', BoolVar (stored secureMetrics_update)),
     (''health-probe-bind-address'', StringVar (stored probeAddr_update)),
     (''leader-elect'', BoolVar (stored enableLeaderElection_update)),
     (''kube-api-qps'', IntVar (stored restConfigQPS_update)),
     (''kube-api-burst'', IntVar (stored restConfigBurst_update)),
     (''linodecluster-concurrency'', IntVar (stored linodeClusterConcurrency_update)),
     (''linodemachine-concurrency'', IntVar (stored linodeMachineConcurrency_update)),
     (''linodeobjectstoragebucket-concurrency'', IntVar (stored linodeObjectStorageBucketConcurrency_update)),
     (''linodevpc-concurrency'', IntVar (stored linodeVPCConcurrency_update)),
     (''linodeplacementgroup-concurrency'', IntVar (stored linodePlacementGroupConcurrency_update)),
     (''linodefirewall-concurrency'', IntVar (stored linodeFirewallConcurrency_update)),
     (''linodemachinetemplate-concurrency'', IntVar (stored linodeMachineTemplateConcurrency_update))]"

text \<open>
  \<open>foreign\<close> are the flags that libraries register, among them the logger's, under names that this program does not
  use: whether they are boolean and which values they take. A library that registered one of the names below would
  make Go's flag package panic at the start of the process, before any argument is read; the model does not cover such
  a build, and what \<open>foreign\<close> says of the names below has no meaning.
\<close>

type_synonym foreign_flags = "string \<rightharpoonup> bool \<times> (string \<Rightarrow> bool)"

definition flagSet :: "foreign_flags \<Rightarrow> string \<rightharpoonup> flagVars flag_var" where
  "flagSet foreign name = (case map_of registeredFlags name of
     Some fl \<Rightarrow> Some fl
   | None \<Rightarrow> map_option (\<lambda>(isBool, ok). ForeignVar isBool ok) (foreign name))"

definition parseFlags :: "foreign_flags \<Rightarrow> string list \<Rightarrow> int + flagVars" where
  "parseFlags foreign args = parseArgs (flagSet foreign) flagDefaults args"


section \<open>The manager\<close>

record manager_options =
  mo_QPS :: int
  mo_Burst :: int
  mo_UserAgent :: string
  mo_MetricsBindAddress :: string
  mo_SecureServing :: bool
  mo_NextProtos :: "string list option"
  mo_MetricsAuth :: bool
  mo_HealthProbeBindAddress :: string
  mo_LeaderElection :: bool
  mo_LeaderElectionID :: string

record reconciler =
  rec_Kind :: string
  rec_WatchFilterValue :: string
  rec_LinodeClientConfig :: "ClientConfig option"
  rec_DnsClientConfig :: "ClientConfig option"
  rec_GzipCompressionEnabled :: bool
  rec_Setup :: controller_setup

record manager =
  mgr_Options :: manager_options
  mgr_Controllers :: "reconciler list"
  mgr_Webhooks :: "string list"
  mgr_Healthz :: "string list"
  mgr_Readyz :: "string list"

text \<open>\<open>NewManager\<close> gives an error or a pointer, which may be nil; \<open>GetConfigOrDie\<close> ends the process when there is none.\<close>

record manager_lib =
  ml_ConfigFound :: bool
  ml_NewManager :: "manager_options \<Rightarrow> error option \<times> bool"
  ml_Webhook :: "string \<Rightarrow> error option"
  ml_AddHealthzCheck :: "string \<Rightarrow> error option"
  ml_AddReadyzCheck :: "string \<Rightarrow> error option"
  ml_Start :: "manager \<Rightarrow> error option"

text \<open>
  Go's \<open>float32(n)\<close> of an \<open>int\<close>: the nearest number with a significand of 24 bits, the even one of two. It is an
  integer again.
\<close>

fun excessBits :: "nat \<Rightarrow> nat" where
  "excessBits m = (if m < 2 ^ 24 then 0 else Suc (excessBits (m div 2)))"

declare excessBits.simps [simp del]

definition float32 :: "int \<Rightarrow> int" where
  "float32 n =
     (let unit = 2 ^ excessBits (nat \<bar>n\<bar>); q = \<bar>n\<bar> div unit; r = \<bar>n\<bar> mod unit
      in sgn n * unit * (if unit < 2 * r \<or> unit = 2 * r \<and> odd q then q + 1 else q))"

lemma float32_exact: "\<bar>n\<bar> < 2 ^ 24 \<Longrightarrow> float32 n = n"
proof -
  assume "\<bar>n\<bar> < 2 ^ 24"
  then have "excessBits (nat \<bar>n\<bar>) = 0" by (simp add: excessBits.simps [of "nat \<bar>n\<bar>"] nat_less_iff)
  then show ?thesis by (simp add: float32_def mult_sgn_abs)
qed

lemma float32_rounds: "float32 16777217 = 16777216" "float32 16777219 = 16777220" "float32 (- 9223372036854775807) = - (2 ^ 63)"
  by (simp_all add: float32_def excessBits.simps)

definition managerOptions :: "string \<Rightarrow> flagVars \<Rightarrow> manager_options" where
  "managerOptions version flags =
     \<lparr>mo_QPS = float32 (restConfigQPS flags), mo_Burst = restConfigBurst flags, mo_UserAgent = ''CAPL/'' @ GetVersion version,
      mo_MetricsBindAddress = metricsAddr flags, mo_SecureServing = secureMetrics flags,
      mo_NextProtos = (if secureMetrics flags then None else Some [''http/1.2'']), mo_MetricsAuth = secureMetrics flags,
      mo_HealthProbeBindAddress = probeAddr flags, mo_LeaderElection = enableLeaderElection flags,
      mo_LeaderElectionID = ''3cfd31c3.cluster.x-k8s.io''\<rparr>"

text \<open>Each controller is built, or the process ends.\<close>

definition register :: "reconciler \<Rightarrow> controller_setup res \<Rightarrow> manager \<Rightarrow> int + manager" where
  "register r setupResult mgr = (case setupResult of
     Inl _ \<Rightarrow> Inl 1
   | Inr S \<Rightarrow> Inr (mgr\<lparr>mgr_Controllers := mgr_Controllers mgr @ [r\<lparr>rec_Setup := S\<rparr>]\<rparr>))"

definition reconcilerOf :: "string \<Rightarrow> string \<Rightarrow> ClientConfig option \<Rightarrow> ClientConfig option \<Rightarrow> bool \<Rightarrow> reconciler" where
  "reconcilerOf kind watchFilter config dns gzip =
     \<lparr>rec_Kind = kind, rec_WatchFilterValue = watchFilter, rec_LinodeClientConfig = config, rec_DnsClientConfig = dns,
      rec_GzipCompressionEnabled = gzip, rec_Setup = \<lparr>st_MaxConcurrentReconciles = 0, st_EventFilter = [], st_Sources = []\<rparr>\<rparr>"

definition bindX :: "int + 'a \<Rightarrow> ('a \<Rightarrow> int + 'b) \<Rightarrow> int + 'b" where
  "bindX r f = (case r of Inl c \<Rightarrow> Inl c | Inr x \<Rightarrow> f x)"

fun foldX :: "('a \<Rightarrow> int + 'a) list \<Rightarrow> 'a \<Rightarrow> int + 'a" where
  "foldX [] x = Inr x"
| "foldX (f # fs) x = bindX (f x) (foldX fs)"

definition setupControllers :: "pred_lib \<Rightarrow> setup_lib \<Rightarrow> environ \<Rightarrow> flagVars \<Rightarrow> ClientConfig \<Rightarrow> ClientConfig \<Rightarrow> manager \<Rightarrow> int + manager" where
  "setupControllers P L e flags config dns mgr =
     (let useGzip = fst (ParseBool (Getenv e ''GZIP_COMPRESSION_ENABLED'')) in
      foldX
       [register (reconcilerOf ''LinodeCluster'' (clusterWatchFilter flags) (Some config) (Some dns) False)
          (c_SetupWithManager P L (clusterWatchFilter flags) (linodeClusterConcurrency flags)),
        register (reconcilerOf ''LinodeMachine'' (machineWatchFilter flags) (Some config) None useGzip)
          (m_SetupWithManager P L (machineWatchFilter flags) (linodeMachineConcurrency flags)),
        register (reconcilerOf ''LinodeVPC'' (clusterWatchFilter flags) (Some config) None False)
          (vpc_SetupWithManager P L (clusterWatchFilter flags) (linodeVPCConcurrency flags)),
        register (reconcilerOf ''LinodeObjectStorageBucket'' (objectStorageBucketWatchFilter flags) (Some config) None False)
          (bk_SetupWithManager P L (objectStorageBucketWatchFilter flags) (linodeObjectStorageBucketConcurrency flags)),
        register (reconcilerOf ''LinodePlacementGroup'' (clusterWatchFilter flags) (Some config) None False)
          (pg_SetupWithManager P L (clusterWatchFilter flags) (linodePlacementGroupConcurrency flags)),
        register (reconcilerOf ''LinodeObjectStorageKey'' (objectStorageKeyWatchFilter flags) (Some config) None False)
          (ky_SetupWithManager P L (objectStorageKeyWatchFilter flags) (linodeObjectStorageBucketConcurrency flags)),
        register (reconcilerOf ''LinodeFirewall'' (clusterWatchFilter flags) (Some config) None False)
          (fw_SetupWithManager P L (clusterWatchFilter flags) (linodeFirewallConcurrency flags)),
        register (reconcilerOf ''LinodeMachineTemplate'' [] None None False)
          (mt_SetupWithManager L (linodeMachineTemplateConcurrency flags))] mgr)"

definition exitOn :: "error option \<Rightarrow> ('a \<Rightarrow> 'a) \<Rightarrow> 'a \<Rightarrow> int + 'a" where
  "exitOn err f x = (case err of Some _ \<Rightarrow> Inl 1 | None \<Rightarrow> Inr (f x))"

definition setupWebhooks :: "manager_lib \<Rightarrow> manager \<Rightarrow> int + manager" where
  "setupWebhooks M = foldX (map (\<lambda>kind. exitOn (ml_Webhook M kind) (mgr_Webhooks_update (\<lambda>ks. ks @ [kind])))
     [''LinodeCluster'', ''LinodeClusterTemplate'', ''LinodeMachine'', ''LinodeMachineTemplate'', ''LinodeVPC'',
      ''LinodeObjectStorageBucket'', ''LinodePlacementGroup'', ''LinodeObjectStorageKey'', ''LinodeFirewall''])"

definition setupHealthChecks :: "manager_lib \<Rightarrow> manager \<Rightarrow> int + manager" where
  "setupHealthChecks M = foldX
     [exitOn (ml_AddHealthzCheck M ''healthz'') (mgr_Healthz_update (\<lambda>cs. cs @ [''healthz''])),
      exitOn (ml_AddReadyzCheck M ''readyz'') (mgr_Readyz_update (\<lambda>cs. cs @ [''readyz'']))]"

definition webhooksEnabled :: "environ \<Rightarrow> bool" where
  "webhooksEnabled e =
     (let webhooksEnv = Getenv e ''ENABLE_WEBHOOKS'' in
      if webhooksEnv \<noteq> [] then fst (ParseBool webhooksEnv) else True)"

definition setupManager ::
  "pred_lib \<Rightarrow> setup_lib \<Rightarrow> manager_lib \<Rightarrow> string \<Rightarrow> environ \<Rightarrow> flagVars \<Rightarrow> ClientConfig \<Rightarrow> ClientConfig \<Rightarrow> int + manager" where
  "setupManager P L M version e flags config dns =
     (let opts = managerOptions version flags; (err, isNil) = ml_NewManager M opts in
      if \<not> ml_ConfigFound M \<or> err \<noteq> None \<or> isNil then Inl 1
      else foldX
        [setupControllers P L e flags config dns,
         if webhooksEnabled e then setupWebhooks M else Inr,
         setupHealthChecks M]
        \<lparr>mgr_Options = opts, mgr_Controllers = [], mgr_Webhooks = [], mgr_Healthz = [], mgr_Readyz = []\<rparr>)"


section \<open>Observability and the end of the process\<close>

text \<open>
  What is logged of the environment, which is a list of texts, and whether the exporter is shut down at the end:
  a failed setup is logged only.
\<close>

definition Cut :: "string \<Rightarrow> char \<Rightarrow> (string \<times> string) option" where
  "Cut s sep = (case dropWhile (\<lambda>c. c \<noteq> sep) s of [] \<Rightarrow> None | _ # v \<Rightarrow> Some (takeWhile (\<lambda>c. c \<noteq> sep) s, v))"

definition otelAttrs :: "string list \<Rightarrow> string list" where
  "otelAttrs environment = concat (map (\<lambda>kv. case Cut kv (CHR ''='') of
     None \<Rightarrow> []
   | Some (k, v) \<Rightarrow> if take 5 k = ''OTEL_'' then [k, v] else []) environment)"

record observability =
  ob_ServiceName :: string
  ob_ServiceVersion :: string
  ob_PodName :: string
  ob_NodeName :: string
  ob_Logged :: "string list"
  ob_Shutdown :: bool

definition setupObservability :: "error option \<Rightarrow> string \<Rightarrow> environ \<Rightarrow> string list \<Rightarrow> observability" where
  "setupObservability tracingErr version e environment =
     \<lparr>ob_ServiceName = ''cluster-api-provider-linode.linode.com'', ob_ServiceVersion = GetVersion version,
      ob_PodName = Getenv e ''K8S_POD_NAME'', ob_NodeName = Getenv e ''K8S_NODE_NAME'', ob_Logged = otelAttrs environment,
      ob_Shutdown = (tracingErr = None)\<rparr>"

definition started ::
  "pred_lib \<Rightarrow> setup_lib \<Rightarrow> manager_lib \<Rightarrow> foreign_flags \<Rightarrow> string \<Rightarrow> environ \<Rightarrow> string list \<Rightarrow> int + manager" where
  "started P L M foreign version e args = bindX (parseFlags foreign args) (\<lambda>flags.
     case validateEnvironment e of
       None \<Rightarrow> Inl 1
     | Some (config, dns) \<Rightarrow> setupManager P L M version e flags config dns)"

text \<open>The exit status of the process.\<close>

definition main :: "pred_lib \<Rightarrow> setup_lib \<Rightarrow> manager_lib \<Rightarrow> foreign_flags \<Rightarrow> string \<Rightarrow> environ \<Rightarrow> string list \<Rightarrow> int" where
  "main P L M foreign version e args = (case started P L M foreign version e args of
     Inl code \<Rightarrow> code
   | Inr mgr \<Rightarrow> (case ml_Start M mgr of Some _ \<Rightarrow> 1 | None \<Rightarrow> 0))"


section \<open>The command line\<close>

text \<open>The settings printed as flags, in the order in which they are registered.\<close>

definition printFlags :: "flagVars \<Rightarrow> (string \<times> string) list" where
  "printFlags fv =
    [(''machine-watch-filter'', machineWatchFilter fv), (''cluster-watch-filter'', clusterWatchFilter fv),
     (''object-storage-bucket-watch-filter'', objectStorageBucketWatchFilter fv), (''metrics-bind-address'', metricsAddr fv),
     (''metrics-secure'', showBool (secureMetrics fv)), (''health-probe-bind-address'', probeAddr fv),
     (''leader-elect'', showBool (enableLeaderElection fv)), (''kube-api-qps'', Itoa (restConfigQPS fv)),
     (''kube-api-burst'', Itoa (restConfigBurst fv)), (''linodecluster-concurrency'', Itoa (linodeClusterConcurrency fv)),
     (''linodemachine-concurrency'', Itoa (linodeMachineConcurrency fv)),
     (''linodeobjectstoragebucket-concurrency'', Itoa (linodeObjectStorageBucketConcurrency fv)),
     (''linodevpc-concurrency'', Itoa (linodeVPCConcurrency fv)),
     (''linodeplacementgroup-concurrency'', Itoa (linodePlacementGroupConcurrency fv)),
     (''linodefirewall-concurrency'', Itoa (linodeFirewallConcurrency fv)),
     (''linodemachinetemplate-concurrency'', Itoa (linodeMachineTemplateConcurrency fv))]"

definition numbersOf :: "flagVars \<Rightarrow> int list" where
  "numbersOf fv = [restConfigQPS fv, restConfigBurst fv, linodeClusterConcurrency fv, linodeMachineConcurrency fv,
     linodeObjectStorageBucketConcurrency fv, linodeVPCConcurrency fv, linodePlacementGroupConcurrency fv, linodeFirewallConcurrency fv,
     linodeMachineTemplateConcurrency fv]"

lemma flagSet_registered: "map_of registeredFlags n = Some fl \<Longrightarrow> flagSet foreign n = Some fl"
  by (simp add: flagSet_def)

lemma printFlags_registered: "list_all (\<lambda>(n, x). flagName n \<and> map_of registeredFlags n \<noteq> None) (printFlags fv)"
  by (simp add: printFlags_def registeredFlags_def flagName_def)

lemma map_of_registered:
  "list_all (\<lambda>(n, x). flagSet foreign n = map_of registeredFlags n) (printFlags fv)"
  using printFlags_registered [of fv] by (auto simp: list_all_iff flagSet_def)

text \<open>No flag stores the watch filter of the object storage keys.\<close>

definition keyFilterKept :: "flagVars flag_var \<Rightarrow> bool" where
  "keyFilterKept fl = (\<forall>x v v'. setVar fl x v = Some v' \<longrightarrow> objectStorageKeyWatchFilter v' = objectStorageKeyWatchFilter v)"

lemma keyFilterKept_vars:
  "(\<And>x v. objectStorageKeyWatchFilter (f x v) = objectStorageKeyWatchFilter v) \<Longrightarrow> keyFilterKept (StringVar f)"
  "(\<And>x v. objectStorageKeyWatchFilter (g x v) = objectStorageKeyWatchFilter v) \<Longrightarrow> keyFilterKept (BoolVar g)"
  "(\<And>x v. objectStorageKeyWatchFilter (h x v) = objectStorageKeyWatchFilter v) \<Longrightarrow> keyFilterKept (IntVar h)"
  "keyFilterKept (ForeignVar b ok)"
  by (auto simp: keyFilterKept_def split: prod.splits option.splits if_splits)

lemma keyFilterKept_flagSet:
  assumes "flagSet foreign n = Some fl"
  shows "keyFilterKept fl"
proof -
  have "list_all (\<lambda>(n, fl). keyFilterKept fl) registeredFlags"
    by (simp add: registeredFlags_def keyFilterKept_vars)
  then have "map_of registeredFlags n = Some fl \<Longrightarrow> keyFilterKept fl" by (auto simp: list_all_iff dest: map_of_SomeD)
  with assms show ?thesis by (auto simp: flagSet_def keyFilterKept_vars split: option.splits)
qed

lemma key_filter_never_set:
  assumes "parseFlags foreign args = Inr flags"
  shows "objectStorageKeyWatchFilter flags = []"
proof (rule parseArgs_inv [where I = "\<lambda>v. objectStorageKeyWatchFilter v = []"])
  show "parseArgs (flagSet foreign) flagDefaults args = Inr flags" using assms by (simp add: parseFlags_def)
  show "objectStorageKeyWatchFilter flagDefaults = []" by (simp add: flagDefaults_def)
  show "objectStorageKeyWatchFilter v' = []"
    if "flagSet foreign n = Some fl" and "setVar fl x v = Some v'" and "objectStorageKeyWatchFilter v = []" for n fl x v v'
    using keyFilterKept_flagSet [OF that(1)] that(2,3) by (simp add: keyFilterKept_def)
qed

text \<open>
C32: Every setting but the watch filter of the keys can be given on the command line: the flags printed from
settings whose numbers have 64 bits are parsed to these settings, whatever flags the libraries register.
\<close>

theorem flags_roundtrip:
  assumes "list_all int64 (numbersOf fv)"
  shows "parseFlags foreign (map showFlag (printFlags fv)) = Inr (fv\<lparr>objectStorageKeyWatchFilter := []\<rparr>)"
proof -
  have names: "list_all (\<lambda>(n, x). flagName n \<and> flagSet foreign n \<noteq> None) (printFlags fv)"
    using printFlags_registered [of fv] map_of_registered [of foreign fv] by (fastforce simp: list_all_iff)
  have "fold (\<lambda>(n, x) r. Option.bind r (setVar (the (flagSet foreign n)) x)) (printFlags fv) (Some flagDefaults)
      = fold (\<lambda>(n, x) r. Option.bind r (setVar (the (map_of registeredFlags n)) x)) (printFlags fv) (Some flagDefaults)"
    using map_of_registered [of foreign fv] by (intro List.fold_cong) (auto simp: list_all_iff)
  also have "\<dots> = Some (fv\<lparr>objectStorageKeyWatchFilter := []\<rparr>)"
    using assms by (simp add: printFlags_def registeredFlags_def numbersOf_def ParseInt0_Itoa flagDefaults_def)
  finally show ?thesis
    using parseArgs_settings [OF names, of flagDefaults "[]"] by (simp add: parseFlags_def)
qed

definition flags1 :: flagVars where
  "flags1 = flagDefaults\<lparr>clusterWatchFilter := ''blue'', secureMetrics := True, linodeMachineConcurrency := 3\<rparr>"

lemma flags1_numbers: "list_all int64 (numbersOf flags1)"
  by (simp add: flags1_def flagDefaults_def numbersOf_def int64_def concurrencyDefault_def qpsDefault_def burstDefault_def)

theorem flags_roundtrip_witness:
  "list_all int64 (numbersOf flags1) \<and> hd (tl (map showFlag (printFlags flags1))) = ''--cluster-watch-filter=blue''
    \<and> parseFlags Map.empty (map showFlag (printFlags flags1)) = Inr flags1"
proof -
  have "flags1\<lparr>objectStorageKeyWatchFilter := []\<rparr> = flags1" by (simp add: flags1_def flagDefaults_def)
  moreover have "hd (tl (map showFlag (printFlags flags1))) = ''--cluster-watch-filter=blue''" by (simp add: printFlags_def showFlag_def flags1_def)
  ultimately show ?thesis using flags_roundtrip [OF flags1_numbers, of Map.empty] flags1_numbers by simp
qed


section \<open>Starting the process\<close>

lemma foldX_Inr [simp]: "foldX (f # fs) x = Inr y \<longleftrightarrow> (\<exists>z. f x = Inr z \<and> foldX fs z = Inr y)"
  by (simp add: bindX_def split: sum.split)

declare foldX.simps(2) [simp del]

lemma register_Inr: "register r sr mgr = Inr mgr' \<longleftrightarrow> (\<exists>S. sr = Inr S \<and> mgr' = mgr\<lparr>mgr_Controllers := mgr_Controllers mgr @ [r\<lparr>rec_Setup := S\<rparr>]\<rparr>)"
  by (auto simp: register_def split: sum.split)

lemma exitOn_Inr [simp]: "exitOn err f x = Inr y \<longleftrightarrow> err = None \<and> y = f x"
  by (auto simp: exitOn_def split: option.split)

definition built :: "setup_lib \<Rightarrow> string \<Rightarrow> bool" where
  "built L kind = (sl_Mapper L kind = None \<and> sl_Complete L kind = None)"

lemma withMapper_built: "(\<exists>T. withMapper L kind plural S = Inr T) \<longleftrightarrow> built L kind"
  by (auto simp: withMapper_def built_def split: option.split)

definition servesKind :: "string \<Rightarrow> int \<Rightarrow> controller_setup \<Rightarrow> bool" where
  "servesKind kind conc S = (st_MaxConcurrentReconciles S = conc \<and> For kind \<in> set (st_Sources S))"

lemma setup_serves:
  "c_SetupWithManager P L w n = Inr S \<Longrightarrow> servesKind ''LinodeCluster'' n S" "m_SetupWithManager P L w n = Inr S \<Longrightarrow> servesKind ''LinodeMachine'' n S"
  "vpc_SetupWithManager P L w n = Inr S \<Longrightarrow> servesKind ''LinodeVPC'' n S" "bk_SetupWithManager P L w n = Inr S \<Longrightarrow> servesKind ''LinodeObjectStorageBucket'' n S"
  "pg_SetupWithManager P L w n = Inr S \<Longrightarrow> servesKind ''LinodePlacementGroup'' n S" "ky_SetupWithManager P L w n = Inr S \<Longrightarrow> servesKind ''LinodeObjectStorageKey'' n S"
  "fw_SetupWithManager P L w n = Inr S \<Longrightarrow> servesKind ''LinodeFirewall'' n S" "mt_SetupWithManager L n = Inr S \<Longrightarrow> servesKind ''LinodeMachineTemplate'' n S"
  by (auto simp: servesKind_def setup_filters c_SetupWithManager_def mt_SetupWithManager_def dest!: withMapper_Inr split: option.splits)

definition mappedKinds :: "string list" where
  "mappedKinds = [''LinodeMachine'', ''LinodeVPC'', ''LinodeObjectStorageBucket'', ''LinodePlacementGroup'', ''LinodeObjectStorageKey'', ''LinodeFirewall'']"

text \<open>What the libraries must do for a manager with these flags.\<close>

definition libsOK :: "setup_lib \<Rightarrow> manager_lib \<Rightarrow> manager_options \<Rightarrow> bool \<Rightarrow> bool" where
  "libsOK L M opts hooks =
     (ml_ConfigFound M \<and> ml_NewManager M opts = (None, False) \<and> list_all (built L) mappedKinds
      \<and> sl_Complete L ''LinodeCluster'' = None \<and> sl_Complete L ''LinodeMachineTemplate'' = None
      \<and> (hooks \<longrightarrow> list_all (\<lambda>k. ml_Webhook M k = None) (''LinodeCluster'' # ''LinodeClusterTemplate'' # ''LinodeMachineTemplate'' # mappedKinds))
      \<and> ml_AddHealthzCheck M ''healthz'' = None \<and> ml_AddReadyzCheck M ''readyz'' = None)"

lemma setup_built:
  "(\<exists>S. c_SetupWithManager P L w n = Inr S) \<longleftrightarrow> sl_Complete L ''LinodeCluster'' = None" "(\<exists>S. m_SetupWithManager P L w n = Inr S) \<longleftrightarrow> built L ''LinodeMachine''"
  "(\<exists>S. vpc_SetupWithManager P L w n = Inr S) \<longleftrightarrow> built L ''LinodeVPC''" "(\<exists>S. bk_SetupWithManager P L w n = Inr S) \<longleftrightarrow> built L ''LinodeObjectStorageBucket''"
  "(\<exists>S. pg_SetupWithManager P L w n = Inr S) \<longleftrightarrow> built L ''LinodePlacementGroup''" "(\<exists>S. ky_SetupWithManager P L w n = Inr S) \<longleftrightarrow> built L ''LinodeObjectStorageKey''"
  "(\<exists>S. fw_SetupWithManager P L w n = Inr S) \<longleftrightarrow> built L ''LinodeFirewall''"
  "(\<exists>S. mt_SetupWithManager L n = Inr S) \<longleftrightarrow> sl_Complete L ''LinodeMachineTemplate'' = None"
  unfolding setup_filters withMapper_built by (auto simp: c_SetupWithManager_def mt_SetupWithManager_def split: option.split)

definition controllerOrder :: "flagVars \<Rightarrow> (string \<times> string \<times> int) list" where
  "controllerOrder flags =
    [(''LinodeCluster'', clusterWatchFilter flags, linodeClusterConcurrency flags),
     (''LinodeMachine'', machineWatchFilter flags, linodeMachineConcurrency flags),
     (''LinodeVPC'', clusterWatchFilter flags, linodeVPCConcurrency flags),
     (''LinodeObjectStorageBucket'', objectStorageBucketWatchFilter flags, linodeObjectStorageBucketConcurrency flags),
     (''LinodePlacementGroup'', clusterWatchFilter flags, linodePlacementGroupConcurrency flags),
     (''LinodeObjectStorageKey'', [], linodeObjectStorageBucketConcurrency flags),
     (''LinodeFirewall'', clusterWatchFilter flags, linodeFirewallConcurrency flags),
     (''LinodeMachineTemplate'', [], linodeMachineTemplateConcurrency flags)]"

lemma setupControllers_ok:
  "(\<exists>mgr'. setupControllers P L e flags config dns mgr = Inr mgr')
    \<longleftrightarrow> list_all (built L) mappedKinds \<and> sl_Complete L ''LinodeCluster'' = None \<and> sl_Complete L ''LinodeMachineTemplate'' = None"
proof -
  have "(\<exists>mgr'. setupControllers P L e flags config dns mgr = Inr mgr')
    \<longleftrightarrow> (\<exists>S. c_SetupWithManager P L (clusterWatchFilter flags) (linodeClusterConcurrency flags) = Inr S)
      \<and> (\<exists>S. m_SetupWithManager P L (machineWatchFilter flags) (linodeMachineConcurrency flags) = Inr S)
      \<and> (\<exists>S. vpc_SetupWithManager P L (clusterWatchFilter flags) (linodeVPCConcurrency flags) = Inr S)
      \<and> (\<exists>S. bk_SetupWithManager P L (objectStorageBucketWatchFilter flags) (linodeObjectStorageBucketConcurrency flags) = Inr S)
      \<and> (\<exists>S. pg_SetupWithManager P L (clusterWatchFilter flags) (linodePlacementGroupConcurrency flags) = Inr S)
      \<and> (\<exists>S. ky_SetupWithManager P L (objectStorageKeyWatchFilter flags) (linodeObjectStorageBucketConcurrency flags) = Inr S)
      \<and> (\<exists>S. fw_SetupWithManager P L (clusterWatchFilter flags) (linodeFirewallConcurrency flags) = Inr S)
      \<and> (\<exists>S. mt_SetupWithManager L (linodeMachineTemplateConcurrency flags) = Inr S)"
    by (auto simp: setupControllers_def register_Inr Let_def)
  also have "\<dots> \<longleftrightarrow> list_all (built L) mappedKinds \<and> sl_Complete L ''LinodeCluster'' = None \<and> sl_Complete L ''LinodeMachineTemplate'' = None"
    unfolding setup_built by (auto simp: mappedKinds_def)
  finally show ?thesis .
qed

text \<open>
  What a controller is after a successful setup: its kind, its filter and concurrency, the configuration of its client,
  and the setup that its kind has for this filter and this concurrency.
\<close>

definition setupFor :: "pred_lib \<Rightarrow> setup_lib \<Rightarrow> (string \<times> (string \<Rightarrow> int \<Rightarrow> controller_setup res)) list" where
  "setupFor P L =
    [(''LinodeCluster'', c_SetupWithManager P L), (''LinodeMachine'', m_SetupWithManager P L), (''LinodeVPC'', vpc_SetupWithManager P L),
     (''LinodeObjectStorageBucket'', bk_SetupWithManager P L), (''LinodePlacementGroup'', pg_SetupWithManager P L),
     (''LinodeObjectStorageKey'', ky_SetupWithManager P L), (''LinodeFirewall'', fw_SetupWithManager P L),
     (''LinodeMachineTemplate'', \<lambda>_. mt_SetupWithManager L)]"

definition wired :: "pred_lib \<Rightarrow> setup_lib \<Rightarrow> ClientConfig \<Rightarrow> reconciler \<Rightarrow> string \<times> string \<times> int \<Rightarrow> bool" where
  "wired P L config r k = (case k of (kind, watchFilter, conc) \<Rightarrow>
     rec_Kind r = kind \<and> rec_WatchFilterValue r = watchFilter \<and> servesKind kind conc (rec_Setup r)
     \<and> map_option (\<lambda>setup. setup watchFilter conc) (map_of (setupFor P L) kind) = Some (Inr (rec_Setup r))
     \<and> rec_LinodeClientConfig r = (if kind = ''LinodeMachineTemplate'' then None else Some config))"

lemma setupControllers_wired:
  assumes "setupControllers P L e flags config dns mgr = Inr mgr'" and "objectStorageKeyWatchFilter flags = []"
  shows "\<exists>rs. mgr' = mgr\<lparr>mgr_Controllers := mgr_Controllers mgr @ rs\<rparr> \<and> list_all2 (wired P L config) rs (controllerOrder flags)"
  using assms by (intro exI [where x = "drop (length (mgr_Controllers mgr)) (mgr_Controllers mgr')"])
    (auto simp: setupControllers_def register_Inr Let_def controllerOrder_def wired_def reconcilerOf_def setupFor_def dest: setup_serves)

definition webhookOrder :: "string list" where
  "webhookOrder = [''LinodeCluster'', ''LinodeClusterTemplate'', ''LinodeMachine'', ''LinodeMachineTemplate'', ''LinodeVPC'',
     ''LinodeObjectStorageBucket'', ''LinodePlacementGroup'', ''LinodeObjectStorageKey'', ''LinodeFirewall'']"

lemma setupWebhooks_Inr:
  "setupWebhooks M mgr = Inr mgr' \<longleftrightarrow> list_all (\<lambda>k. ml_Webhook M k = None) webhookOrder \<and> mgr' = mgr\<lparr>mgr_Webhooks := mgr_Webhooks mgr @ webhookOrder\<rparr>"
  by (auto simp: setupWebhooks_def webhookOrder_def)

lemma setupHealthChecks_Inr:
  "setupHealthChecks M mgr = Inr mgr' \<longleftrightarrow> ml_AddHealthzCheck M ''healthz'' = None \<and> ml_AddReadyzCheck M ''readyz'' = None
    \<and> mgr' = mgr\<lparr>mgr_Healthz := mgr_Healthz mgr @ [''healthz''], mgr_Readyz := mgr_Readyz mgr @ [''readyz'']\<rparr>"
  by (auto simp: setupHealthChecks_def)

lemma setupManager_ok:
  "(\<exists>mgr. setupManager P L M version e flags config dns = Inr mgr) \<longleftrightarrow> libsOK L M (managerOptions version flags) (webhooksEnabled e)"
proof -
  have hooks: "list_all (\<lambda>k. ml_Webhook M k = None) webhookOrder
      \<longleftrightarrow> list_all (\<lambda>k. ml_Webhook M k = None) (''LinodeCluster'' # ''LinodeClusterTemplate'' # ''LinodeMachineTemplate'' # mappedKinds)"
    by (auto simp: webhookOrder_def mappedKinds_def)
  have "(\<exists>mgr. setupManager P L M version e flags config dns = Inr mgr)
    \<longleftrightarrow> ml_ConfigFound M \<and> ml_NewManager M (managerOptions version flags) = (None, False)
      \<and> (\<exists>mgr'. setupControllers P L e flags config dns \<lparr>mgr_Options = managerOptions version flags, mgr_Controllers = [], mgr_Webhooks = [], mgr_Healthz = [], mgr_Readyz = []\<rparr> = Inr mgr')
      \<and> (webhooksEnabled e \<longrightarrow> list_all (\<lambda>k. ml_Webhook M k = None) webhookOrder)
      \<and> ml_AddHealthzCheck M ''healthz'' = None \<and> ml_AddReadyzCheck M ''readyz'' = None"
    by (cases "ml_NewManager M (managerOptions version flags)") (auto simp: setupManager_def setupWebhooks_Inr setupHealthChecks_Inr)
  then show ?thesis unfolding setupControllers_ok hooks by (auto simp: libsOK_def)
qed

lemma setupManager_wired:
  assumes "setupManager P L M version e flags config dns = Inr mgr" and "objectStorageKeyWatchFilter flags = []"
  shows "mgr_Options mgr = managerOptions version flags \<and> list_all2 (wired P L config) (mgr_Controllers mgr) (controllerOrder flags)
    \<and> mgr_Webhooks mgr = (if webhooksEnabled e then webhookOrder else []) \<and> mgr_Healthz mgr = [''healthz''] \<and> mgr_Readyz mgr = [''readyz'']"
  using assms by (auto simp: setupManager_def Let_def setupWebhooks_Inr setupHealthChecks_Inr split: prod.splits if_splits
    dest!: setupControllers_wired [OF _ assms(2)])

text \<open>The values of \<open>ENABLE_WEBHOOKS\<close> with which the webhooks are registered: unset, or a true value of \<open>strconv.ParseBool\<close>.\<close>

definition hooksWanted :: "environ \<Rightarrow> bool" where
  "hooksWanted e = (Getenv e ''ENABLE_WEBHOOKS'' \<in> set [[], ''1'', ''t'', ''T'', ''true'', ''TRUE'', ''True''])"

lemma webhooksEnabled_iff: "webhooksEnabled e = hooksWanted e"
  by (simp add: webhooksEnabled_def hooksWanted_def ParseBool_def Let_def)

text \<open>
C29: The process starts completely or not at all: it gets a manager exactly when its flags parse, it has a token and
the libraries do their part for every controller, for every webhook if webhooks are enabled, and for the health
checks; and its manager then has one controller for each of the eight kinds, each set up with the watch filter and the
concurrency of its flags and, but for the templates, a client with the token; both health checks; and all nine
webhooks if they are enabled, none otherwise. They are enabled exactly when \<open>ENABLE_WEBHOOKS\<close> is unset, empty or one of
the six true values: a value that is no truth value disables them (\<open>invalid_switch_disables_webhooks\<close>).
\<close>

theorem startup_complete:
  "((\<exists>mgr. started P L M foreign version e args = Inr mgr)
      \<longleftrightarrow> (\<exists>flags. parseFlags foreign args = Inr flags \<and> Getenv e ''LINODE_TOKEN'' \<noteq> []
            \<and> libsOK L M (managerOptions version flags) (hooksWanted e)))
    \<and> (started P L M foreign version e args = Inr mgr
      \<longrightarrow> (\<exists>flags config. parseFlags foreign args = Inr flags \<and> cfg_Token config = Getenv e ''LINODE_TOKEN'' \<and> cfg_Token config \<noteq> []
          \<and> mgr_Options mgr = managerOptions version flags \<and> list_all2 (wired P L config) (mgr_Controllers mgr) (controllerOrder flags)
          \<and> mgr_Webhooks mgr = (if hooksWanted e then webhookOrder else []) \<and> mgr_Healthz mgr = [''healthz''] \<and> mgr_Readyz mgr = [''readyz'']))"
proof (intro conjI impI)
  have env: "validateEnvironment e = None \<longleftrightarrow> Getenv e ''LINODE_TOKEN'' = []" by (simp add: validateEnvironment_def Let_def)
  show "(\<exists>mgr. started P L M foreign version e args = Inr mgr)
      \<longleftrightarrow> (\<exists>flags. parseFlags foreign args = Inr flags \<and> Getenv e ''LINODE_TOKEN'' \<noteq> []
            \<and> libsOK L M (managerOptions version flags) (hooksWanted e))"
    using env setupManager_ok [of P L M version e] unfolding webhooksEnabled_iff
    by (cases "parseFlags foreign args"; cases "validateEnvironment e") (auto simp: started_def bindX_def)
  assume run: "started P L M foreign version e args = Inr mgr"
  then obtain flags config dns where flags: "parseFlags foreign args = Inr flags" and config: "validateEnvironment e = Some (config, dns)"
    and mgr: "setupManager P L M version e flags config dns = Inr mgr"
    by (auto simp: started_def bindX_def split: sum.splits option.splits)
  have "cfg_Token config = Getenv e ''LINODE_TOKEN''" "cfg_Token config \<noteq> []"
    using config by (auto simp: validateEnvironment_def Let_def split: if_splits)
  with flags setupManager_wired [OF mgr key_filter_never_set [OF flags], unfolded webhooksEnabled_iff]
  show "\<exists>flags config. parseFlags foreign args = Inr flags \<and> cfg_Token config = Getenv e ''LINODE_TOKEN'' \<and> cfg_Token config \<noteq> []
      \<and> mgr_Options mgr = managerOptions version flags \<and> list_all2 (wired P L config) (mgr_Controllers mgr) (controllerOrder flags)
      \<and> mgr_Webhooks mgr = (if hooksWanted e then webhookOrder else []) \<and> mgr_Healthz mgr = [''healthz''] \<and> mgr_Readyz mgr = [''readyz'']"
    by blast
qed

definition managers1 :: manager_lib where
  "managers1 = \<lparr>ml_ConfigFound = True, ml_NewManager = \<lambda>_. (None, False), ml_Webhook = \<lambda>_. None, ml_AddHealthzCheck = \<lambda>_. None,
     ml_AddReadyzCheck = \<lambda>_. None, ml_Start = \<lambda>_. None\<rparr>"

definition environ1 :: environ where
  "environ1 = [''LINODE_TOKEN'' \<mapsto> ''secret'']"

lemma parseFlags1: "parseFlags Map.empty [''--leader-elect'', ''--linodemachine-concurrency'', ''0x20''] =
    Inr (flagDefaults\<lparr>enableLeaderElection := True, linodeMachineConcurrency := 32\<rparr>)"
proof -
  have "scanFlag ''--leader-elect'' = FlagToken ''leader-elect'' None" "scanFlag ''--linodemachine-concurrency'' = FlagToken ''linodemachine-concurrency'' None"
    "ParseInt0 ''0x20'' = Some 32" "ParseBool ''true'' = (True, None)" by code_simp+
  then show ?thesis by (simp add: parseFlags_def flagSet_def registeredFlags_def flagDefaults_def)
qed

theorem startup_complete_witness:
  "\<exists>mgr. started preds1 setups1 managers1 Map.empty ''v1'' environ1 [''--leader-elect'', ''--linodemachine-concurrency'', ''0x20''] = Inr mgr
    \<and> length (mgr_Controllers mgr) = 8 \<and> mo_LeaderElection (mgr_Options mgr) \<and> ''LinodeVPC'' \<in> set (mgr_Webhooks mgr)
    \<and> st_MaxConcurrentReconciles (rec_Setup (mgr_Controllers mgr ! 1)) = 32"
proof -
  let ?args = "[''--leader-elect'', ''--linodemachine-concurrency'', ''0x20'']"
  have "libsOK setups1 managers1 opts True" for opts by (simp add: libsOK_def setups1_def managers1_def built_def mappedKinds_def)
  moreover have hooks: "hooksWanted environ1" and "Getenv environ1 ''LINODE_TOKEN'' \<noteq> []" by (simp_all add: hooksWanted_def environ1_def Getenv_def)
  ultimately obtain mgr where mgr: "started preds1 setups1 managers1 Map.empty ''v1'' environ1 ?args = Inr mgr"
    using startup_complete [of preds1 setups1 managers1 Map.empty "''v1''" environ1 ?args] parseFlags1 by auto
  define flags where flags: "flags = flagDefaults\<lparr>enableLeaderElection := True, linodeMachineConcurrency := 32\<rparr>"
  note up = startup_complete [of preds1 setups1 managers1 Map.empty "''v1''" environ1 ?args mgr, THEN conjunct2, rule_format, OF mgr]
  then obtain config where "mgr_Options mgr = managerOptions ''v1'' flags" and wired: "list_all2 (wired preds1 setups1 config) (mgr_Controllers mgr) (controllerOrder flags)"
    and "mgr_Webhooks mgr = (if hooksWanted environ1 then webhookOrder else [])"
    unfolding parseFlags1 flags by auto
  moreover have "length (mgr_Controllers mgr) = 8" using list_all2_lengthD [OF wired] by (simp add: controllerOrder_def)
  moreover have "st_MaxConcurrentReconciles (rec_Setup (mgr_Controllers mgr ! 1)) = 32"
    using list_all2_nthD2 [OF wired, of 1] flags by (simp add: controllerOrder_def wired_def servesKind_def)
  ultimately show ?thesis using mgr hooks by (simp add: managerOptions_def webhookOrder_def flags)
qed

text \<open>A value of \<open>ENABLE_WEBHOOKS\<close> that is no truth value switches the webhooks off; the message says that they stay on.\<close>

lemma invalid_switch_disables_webhooks:
  assumes "e ''ENABLE_WEBHOOKS'' = Some v" and "v \<noteq> []" and "snd (ParseBool v) \<noteq> None"
  shows "\<not> webhooksEnabled e"
  using assms by (auto simp: webhooksEnabled_def Getenv_def ParseBool_def split: if_splits)

text \<open>HTTP/2 is disabled for the metrics endpoint only where it does not use TLS, and stays on where it does.\<close>

lemma http2_enabled_with_tls: "mo_SecureServing (managerOptions version flags) \<Longrightarrow> mo_NextProtos (managerOptions version flags) = None"
  by (simp add: managerOptions_def)

text \<open>The log of a start has the variables of OpenTelemetry as pairs of a name and a value.\<close>

lemma otelAttrs_example: "otelAttrs [''PATH=/bin'', ''OTEL_SDK=a=b'', ''OTEL_NONE''] = [''OTEL_SDK'', ''a=b'']"
  by code_simp

end
