(* ===== verification/TracedClient.thy ===== *)
theory TracedClient
  imports Tracing
begin

text \<open>
  The traced client of the Linode API (\<open>observability/wrappers/linodeclient\<close>): the interfaces of \<open>clients/clients.go\<close>
  as records of operations, the 62 methods of \<open>LinodeClientWithTracing\<close>, each with the name of its span and the
  parameters it reports, and \<open>NewLinodeClientWithTracing\<close>. Values of linodego are only passed on; no wrapper
  but \<open>UpdateDomainRecord\<close> shows one of them to the decorator. \<open>SetToken\<close> and \<open>OnAfterResponse\<close> have no wrapper:
  they are those of the embedded client.
\<close>

section \<open>The interfaces\<close>

typedecl goval

type_synonym 's answering = "('s, goval \<times> error option) m"
type_synonym 's failing = "('s, error option) m"

record 's LinodeNodeBalancerClient =
  lc_CreateNodeBalancer :: "goval \<Rightarrow> 's answering"
  lc_GetNodeBalancer :: "int \<Rightarrow> 's answering"
  lc_ListNodeBalancers :: "goval \<Rightarrow> 's answering"
  lc_ListNodeBalancerNodes :: "int \<Rightarrow> int \<Rightarrow> goval \<Rightarrow> 's answering"
  lc_GetNodeBalancerConfig :: "int \<Rightarrow> int \<Rightarrow> 's answering"
  lc_CreateNodeBalancerConfig :: "int \<Rightarrow> goval \<Rightarrow> 's answering"
  lc_DeleteNodeBalancerNode :: "int \<Rightarrow> int \<Rightarrow> int \<Rightarrow> 's failing"
  lc_DeleteNodeBalancer :: "int \<Rightarrow> 's failing"
  lc_CreateNodeBalancerNode :: "int \<Rightarrow> int \<Rightarrow> goval \<Rightarrow> 's answering"

record 's LinodeInstanceClient =
  lc_GetInstanceIPAddresses :: "int \<Rightarrow> 's answering"
  lc_ListInstances :: "goval \<Rightarrow> 's answering"
  lc_CreateInstance :: "goval \<Rightarrow> 's answering"
  lc_BootInstance :: "int \<Rightarrow> goval \<Rightarrow> 's failing"
  lc_ListInstanceConfigs :: "int \<Rightarrow> goval \<Rightarrow> 's answering"
  lc_UpdateInstanceConfig :: "int \<Rightarrow> int \<Rightarrow> goval \<Rightarrow> 's answering"
  lc_UpdateInstance :: "int \<Rightarrow> goval \<Rightarrow> 's answering"
  lc_CreateInstanceDisk :: "int \<Rightarrow> goval \<Rightarrow> 's answering"
  lc_GetInstance :: "int \<Rightarrow> 's answering"
  lc_DeleteInstance :: "int \<Rightarrow> 's failing"
  lc_GetRegion :: "string \<Rightarrow> 's answering"
  lc_GetImage :: "string \<Rightarrow> 's answering"
  lc_GetType :: "string \<Rightarrow> 's answering"
  lc_ListInstanceFirewalls :: "int \<Rightarrow> goval \<Rightarrow> 's answering"
  lc_UpdateInstanceFirewalls :: "int \<Rightarrow> goval \<Rightarrow> 's answering"

record 's LinodeVPCClient =
  lc_GetVPC :: "int \<Rightarrow> 's answering"
  lc_ListVPCs :: "goval \<Rightarrow> 's answering"
  lc_CreateVPC :: "goval \<Rightarrow> 's answering"
  lc_UpdateVPC :: "int \<Rightarrow> goval \<Rightarrow> 's answering"
  lc_DeleteVPC :: "int \<Rightarrow> 's failing"
  lc_CreateVPCSubnet :: "goval \<Rightarrow> int \<Rightarrow> 's answering"
  lc_DeleteVPCSubnet :: "int \<Rightarrow> int \<Rightarrow> 's failing"

record 's LinodeObjectStorageClient =
  lc_GetObjectStorageBucket :: "string \<Rightarrow> string \<Rightarrow> 's answering"
  lc_CreateObjectStorageBucket :: "goval \<Rightarrow> 's answering"
  lc_GetObjectStorageBucketAccess :: "string \<Rightarrow> string \<Rightarrow> 's answering"
  lc_UpdateObjectStorageBucketAccess :: "string \<Rightarrow> string \<Rightarrow> goval \<Rightarrow> 's failing"
  lc_GetObjectStorageKey :: "int \<Rightarrow> 's answering"
  lc_CreateObjectStorageKey :: "goval \<Rightarrow> 's answering"
  lc_DeleteObjectStorageKey :: "int \<Rightarrow> 's failing"
  lc_DeleteObjectStorageBucket :: "string \<Rightarrow> string \<Rightarrow> 's failing"

record 's LinodeDNSClient =
  lc_CreateDomainRecord :: "int \<Rightarrow> goval \<Rightarrow> 's answering"
  lc_UpdateDomainRecord :: "int \<Rightarrow> int \<Rightarrow> DomainRecordUpdateOptions \<Rightarrow> 's answering"
  lc_ListDomainRecords :: "int \<Rightarrow> goval \<Rightarrow> 's answering"
  lc_ListDomains :: "goval \<Rightarrow> 's answering"
  lc_DeleteDomainRecord :: "int \<Rightarrow> int \<Rightarrow> 's failing"

record 's LinodePlacementGroupClient =
  lc_GetPlacementGroup :: "int \<Rightarrow> 's answering"
  lc_ListPlacementGroups :: "goval \<Rightarrow> 's answering"
  lc_CreatePlacementGroup :: "goval \<Rightarrow> 's answering"
  lc_DeletePlacementGroup :: "int \<Rightarrow> 's failing"
  lc_UpdatePlacementGroup :: "int \<Rightarrow> goval \<Rightarrow> 's answering"
  lc_AssignPlacementGroupLinodes :: "int \<Rightarrow> goval \<Rightarrow> 's answering"
  lc_UnassignPlacementGroupLinodes :: "int \<Rightarrow> goval \<Rightarrow> 's answering"

record 's LinodeFirewallClient =
  lc_CreateFirewall :: "goval \<Rightarrow> 's answering"
  lc_GetFirewall :: "int \<Rightarrow> 's answering"
  lc_ListFirewalls :: "goval \<Rightarrow> 's answering"
  lc_GetFirewallDevice :: "int \<Rightarrow> int \<Rightarrow> 's answering"
  lc_GetFirewallRules :: "int \<Rightarrow> 's answering"
  lc_UpdateFirewall :: "int \<Rightarrow> goval \<Rightarrow> 's answering"
  lc_UpdateFirewallRules :: "int \<Rightarrow> goval \<Rightarrow> 's answering"
  lc_DeleteFirewall :: "int \<Rightarrow> 's failing"
  lc_DeleteFirewallDevice :: "int \<Rightarrow> int \<Rightarrow> 's failing"

record 's LinodeInterfacesClient =
  lc_ListInterfaces :: "int \<Rightarrow> goval \<Rightarrow> 's answering"
  lc_ListInterfaceFirewalls :: "int \<Rightarrow> int \<Rightarrow> goval \<Rightarrow> 's answering"

record 's LinodeClient =
  as_LinodeNodeBalancerClient :: "'s LinodeNodeBalancerClient"
  as_LinodeInstanceClient :: "'s LinodeInstanceClient"
  as_LinodeVPCClient :: "'s LinodeVPCClient"
  as_LinodeObjectStorageClient :: "'s LinodeObjectStorageClient"
  as_LinodeDNSClient :: "'s LinodeDNSClient"
  as_LinodePlacementGroupClient :: "'s LinodePlacementGroupClient"
  as_LinodeFirewallClient :: "'s LinodeFirewallClient"
  as_LinodeInterfacesClient :: "'s LinodeInterfacesClient"


section \<open>The methods\<close>

text \<open>
  Every method starts a span of its name, calls the method of the embedded client with its own arguments and
  ends the span in the deferred function, as \<open>withTracing\<close> does.
\<close>

definition answeringCall :: "decorator option \<Rightarrow> string \<Rightarrow> string \<Rightarrow> (string \<rightharpoonup> any) \<Rightarrow> ('s \<times> span list) answering \<Rightarrow> ('s \<times> span list) answering" where
  "answeringCall deco method res params =
     withTracing deco (''_sourceClients.LinodeClient.'' @ method) params (\<lambda>(_, err). [res \<mapsto> AOther, ''err'' \<mapsto> AError err]) snd"

definition failingCall :: "decorator option \<Rightarrow> string \<Rightarrow> (string \<rightharpoonup> any) \<Rightarrow> ('s \<times> span list) failing \<Rightarrow> ('s \<times> span list) failing" where
  "failingCall deco method params = withTracing deco (''_sourceClients.LinodeClient.'' @ method) params (\<lambda>err. [''err'' \<mapsto> AError err]) id"

definition Traced_AssignPlacementGroupLinodes :: "decorator option \<Rightarrow> ('s \<times> span list) LinodeClient \<Rightarrow> int \<Rightarrow> goval \<Rightarrow> ('s \<times> span list) answering" where
  "Traced_AssignPlacementGroupLinodes deco base pgID options =
     answeringCall deco ''AssignPlacementGroupLinodes'' ''pp1'' [''ctx'' \<mapsto> AOther, ''id'' \<mapsto> AInt pgID, ''options'' \<mapsto> AOther]
       (lc_AssignPlacementGroupLinodes (as_LinodePlacementGroupClient base) pgID options)"

definition Traced_BootInstance :: "decorator option \<Rightarrow> ('s \<times> span list) LinodeClient \<Rightarrow> int \<Rightarrow> goval \<Rightarrow> ('s \<times> span list) failing" where
  "Traced_BootInstance deco base linodeID copts =
     failingCall deco ''BootInstance'' [''ctx'' \<mapsto> AOther, ''linodeID'' \<mapsto> AInt linodeID, ''copts'' \<mapsto> AOther]
       (lc_BootInstance (as_LinodeInstanceClient base) linodeID copts)"

definition Traced_CreateDomainRecord :: "decorator option \<Rightarrow> ('s \<times> span list) LinodeClient \<Rightarrow> int \<Rightarrow> goval \<Rightarrow> ('s \<times> span list) answering" where
  "Traced_CreateDomainRecord deco base domainID recordReq =
     answeringCall deco ''CreateDomainRecord'' ''dp1'' [''ctx'' \<mapsto> AOther, ''domainID'' \<mapsto> AInt domainID, ''recordReq'' \<mapsto> AOther]
       (lc_CreateDomainRecord (as_LinodeDNSClient base) domainID recordReq)"

definition Traced_CreateFirewall :: "decorator option \<Rightarrow> ('s \<times> span list) LinodeClient \<Rightarrow> goval \<Rightarrow> ('s \<times> span list) answering" where
  "Traced_CreateFirewall deco base opts =
     answeringCall deco ''CreateFirewall'' ''fp1'' [''ctx'' \<mapsto> AOther, ''opts'' \<mapsto> AOther]
       (lc_CreateFirewall (as_LinodeFirewallClient base) opts)"

definition Traced_CreateInstance :: "decorator option \<Rightarrow> ('s \<times> span list) LinodeClient \<Rightarrow> goval \<Rightarrow> ('s \<times> span list) answering" where
  "Traced_CreateInstance deco base opts =
     answeringCall deco ''CreateInstance'' ''ip1'' [''ctx'' \<mapsto> AOther, ''opts'' \<mapsto> AOther]
       (lc_CreateInstance (as_LinodeInstanceClient base) opts)"

definition Traced_CreateInstanceDisk :: "decorator option \<Rightarrow> ('s \<times> span list) LinodeClient \<Rightarrow> int \<Rightarrow> goval \<Rightarrow> ('s \<times> span list) answering" where
  "Traced_CreateInstanceDisk deco base linodeID opts =
     answeringCall deco ''CreateInstanceDisk'' ''ip1'' [''ctx'' \<mapsto> AOther, ''linodeID'' \<mapsto> AInt linodeID, ''opts'' \<mapsto> AOther]
       (lc_CreateInstanceDisk (as_LinodeInstanceClient base) linodeID opts)"

definition Traced_CreateNodeBalancer :: "decorator option \<Rightarrow> ('s \<times> span list) LinodeClient \<Rightarrow> goval \<Rightarrow> ('s \<times> span list) answering" where
  "Traced_CreateNodeBalancer deco base opts =
     answeringCall deco ''CreateNodeBalancer'' ''np1'' [''ctx'' \<mapsto> AOther, ''opts'' \<mapsto> AOther]
       (lc_CreateNodeBalancer (as_LinodeNodeBalancerClient base) opts)"

definition Traced_CreateNodeBalancerConfig :: "decorator option \<Rightarrow> ('s \<times> span list) LinodeClient \<Rightarrow> int \<Rightarrow> goval \<Rightarrow> ('s \<times> span list) answering" where
  "Traced_CreateNodeBalancerConfig deco base nodebalancerID opts =
     answeringCall deco ''CreateNodeBalancerConfig'' ''np1'' [''ctx'' \<mapsto> AOther, ''nodebalancerID'' \<mapsto> AInt nodebalancerID, ''opts'' \<mapsto> AOther]
       (lc_CreateNodeBalancerConfig (as_LinodeNodeBalancerClient base) nodebalancerID opts)"

definition Traced_CreateNodeBalancerNode :: "decorator option \<Rightarrow> ('s \<times> span list) LinodeClient \<Rightarrow> int \<Rightarrow> int \<Rightarrow> goval \<Rightarrow> ('s \<times> span list) answering" where
  "Traced_CreateNodeBalancerNode deco base nodebalancerID configID opts =
     answeringCall deco ''CreateNodeBalancerNode'' ''np1'' [''ctx'' \<mapsto> AOther, ''nodebalancerID'' \<mapsto> AInt nodebalancerID, ''configID'' \<mapsto> AInt configID, ''opts'' \<mapsto> AOther]
       (lc_CreateNodeBalancerNode (as_LinodeNodeBalancerClient base) nodebalancerID configID opts)"

definition Traced_CreateObjectStorageBucket :: "decorator option \<Rightarrow> ('s \<times> span list) LinodeClient \<Rightarrow> goval \<Rightarrow> ('s \<times> span list) answering" where
  "Traced_CreateObjectStorageBucket deco base opts =
     answeringCall deco ''CreateObjectStorageBucket'' ''op1'' [''ctx'' \<mapsto> AOther, ''opts'' \<mapsto> AOther]
       (lc_CreateObjectStorageBucket (as_LinodeObjectStorageClient base) opts)"

definition Traced_CreateObjectStorageKey :: "decorator option \<Rightarrow> ('s \<times> span list) LinodeClient \<Rightarrow> goval \<Rightarrow> ('s \<times> span list) answering" where
  "Traced_CreateObjectStorageKey deco base opts =
     answeringCall deco ''CreateObjectStorageKey'' ''op1'' [''ctx'' \<mapsto> AOther, ''opts'' \<mapsto> AOther]
       (lc_CreateObjectStorageKey (as_LinodeObjectStorageClient base) opts)"

definition Traced_CreatePlacementGroup :: "decorator option \<Rightarrow> ('s \<times> span list) LinodeClient \<Rightarrow> goval \<Rightarrow> ('s \<times> span list) answering" where
  "Traced_CreatePlacementGroup deco base opts =
     answeringCall deco ''CreatePlacementGroup'' ''pp1'' [''ctx'' \<mapsto> AOther, ''opts'' \<mapsto> AOther]
       (lc_CreatePlacementGroup (as_LinodePlacementGroupClient base) opts)"

definition Traced_CreateVPC :: "decorator option \<Rightarrow> ('s \<times> span list) LinodeClient \<Rightarrow> goval \<Rightarrow> ('s \<times> span list) answering" where
  "Traced_CreateVPC deco base opts =
     answeringCall deco ''CreateVPC'' ''vp1'' [''ctx'' \<mapsto> AOther, ''opts'' \<mapsto> AOther]
       (lc_CreateVPC (as_LinodeVPCClient base) opts)"

definition Traced_CreateVPCSubnet :: "decorator option \<Rightarrow> ('s \<times> span list) LinodeClient \<Rightarrow> goval \<Rightarrow> int \<Rightarrow> ('s \<times> span list) answering" where
  "Traced_CreateVPCSubnet deco base opts vpcID =
     answeringCall deco ''CreateVPCSubnet'' ''vp1'' [''ctx'' \<mapsto> AOther, ''opts'' \<mapsto> AOther, ''vpcID'' \<mapsto> AInt vpcID]
       (lc_CreateVPCSubnet (as_LinodeVPCClient base) opts vpcID)"

definition Traced_DeleteDomainRecord :: "decorator option \<Rightarrow> ('s \<times> span list) LinodeClient \<Rightarrow> int \<Rightarrow> int \<Rightarrow> ('s \<times> span list) failing" where
  "Traced_DeleteDomainRecord deco base domainID domainRecordID =
     failingCall deco ''DeleteDomainRecord'' [''ctx'' \<mapsto> AOther, ''domainID'' \<mapsto> AInt domainID, ''domainRecordID'' \<mapsto> AInt domainRecordID]
       (lc_DeleteDomainRecord (as_LinodeDNSClient base) domainID domainRecordID)"

definition Traced_DeleteFirewall :: "decorator option \<Rightarrow> ('s \<times> span list) LinodeClient \<Rightarrow> int \<Rightarrow> ('s \<times> span list) failing" where
  "Traced_DeleteFirewall deco base firewallID =
     failingCall deco ''DeleteFirewall'' [''ctx'' \<mapsto> AOther, ''firewallID'' \<mapsto> AInt firewallID]
       (lc_DeleteFirewall (as_LinodeFirewallClient base) firewallID)"

definition Traced_DeleteFirewallDevice :: "decorator option \<Rightarrow> ('s \<times> span list) LinodeClient \<Rightarrow> int \<Rightarrow> int \<Rightarrow> ('s \<times> span list) failing" where
  "Traced_DeleteFirewallDevice deco base firewallID deviceID =
     failingCall deco ''DeleteFirewallDevice'' [''ctx'' \<mapsto> AOther, ''firewallID'' \<mapsto> AInt firewallID, ''deviceID'' \<mapsto> AInt deviceID]
       (lc_DeleteFirewallDevice (as_LinodeFirewallClient base) firewallID deviceID)"

definition Traced_DeleteInstance :: "decorator option \<Rightarrow> ('s \<times> span list) LinodeClient \<Rightarrow> int \<Rightarrow> ('s \<times> span list) failing" where
  "Traced_DeleteInstance deco base linodeID =
     failingCall deco ''DeleteInstance'' [''ctx'' \<mapsto> AOther, ''linodeID'' \<mapsto> AInt linodeID]
       (lc_DeleteInstance (as_LinodeInstanceClient base) linodeID)"

definition Traced_DeleteNodeBalancer :: "decorator option \<Rightarrow> ('s \<times> span list) LinodeClient \<Rightarrow> int \<Rightarrow> ('s \<times> span list) failing" where
  "Traced_DeleteNodeBalancer deco base nodebalancerID =
     failingCall deco ''DeleteNodeBalancer'' [''ctx'' \<mapsto> AOther, ''nodebalancerID'' \<mapsto> AInt nodebalancerID]
       (lc_DeleteNodeBalancer (as_LinodeNodeBalancerClient base) nodebalancerID)"

definition Traced_DeleteNodeBalancerNode :: "decorator option \<Rightarrow> ('s \<times> span list) LinodeClient \<Rightarrow> int \<Rightarrow> int \<Rightarrow> int \<Rightarrow> ('s \<times> span list) failing" where
  "Traced_DeleteNodeBalancerNode deco base nodebalancerID configID nodeID =
     failingCall deco ''DeleteNodeBalancerNode'' [''ctx'' \<mapsto> AOther, ''nodebalancerID'' \<mapsto> AInt nodebalancerID, ''configID'' \<mapsto> AInt configID, ''nodeID'' \<mapsto> AInt nodeID]
       (lc_DeleteNodeBalancerNode (as_LinodeNodeBalancerClient base) nodebalancerID configID nodeID)"

definition Traced_DeleteObjectStorageBucket :: "decorator option \<Rightarrow> ('s \<times> span list) LinodeClient \<Rightarrow> string \<Rightarrow> string \<Rightarrow> ('s \<times> span list) failing" where
  "Traced_DeleteObjectStorageBucket deco base regionID label =
     failingCall deco ''DeleteObjectStorageBucket'' [''ctx'' \<mapsto> AOther, ''regionID'' \<mapsto> AString regionID, ''label'' \<mapsto> AString label]
       (lc_DeleteObjectStorageBucket (as_LinodeObjectStorageClient base) regionID label)"

definition Traced_DeleteObjectStorageKey :: "decorator option \<Rightarrow> ('s \<times> span list) LinodeClient \<Rightarrow> int \<Rightarrow> ('s \<times> span list) failing" where
  "Traced_DeleteObjectStorageKey deco base keyID =
     failingCall deco ''DeleteObjectStorageKey'' [''ctx'' \<mapsto> AOther, ''keyID'' \<mapsto> AInt keyID]
       (lc_DeleteObjectStorageKey (as_LinodeObjectStorageClient base) keyID)"

definition Traced_DeletePlacementGroup :: "decorator option \<Rightarrow> ('s \<times> span list) LinodeClient \<Rightarrow> int \<Rightarrow> ('s \<times> span list) failing" where
  "Traced_DeletePlacementGroup deco base pgID =
     failingCall deco ''DeletePlacementGroup'' [''ctx'' \<mapsto> AOther, ''id'' \<mapsto> AInt pgID]
       (lc_DeletePlacementGroup (as_LinodePlacementGroupClient base) pgID)"

definition Traced_DeleteVPC :: "decorator option \<Rightarrow> ('s \<times> span list) LinodeClient \<Rightarrow> int \<Rightarrow> ('s \<times> span list) failing" where
  "Traced_DeleteVPC deco base vpcID =
     failingCall deco ''DeleteVPC'' [''ctx'' \<mapsto> AOther, ''vpcID'' \<mapsto> AInt vpcID]
       (lc_DeleteVPC (as_LinodeVPCClient base) vpcID)"

definition Traced_DeleteVPCSubnet :: "decorator option \<Rightarrow> ('s \<times> span list) LinodeClient \<Rightarrow> int \<Rightarrow> int \<Rightarrow> ('s \<times> span list) failing" where
  "Traced_DeleteVPCSubnet deco base vpcID subnetID =
     failingCall deco ''DeleteVPCSubnet'' [''ctx'' \<mapsto> AOther, ''vpcID'' \<mapsto> AInt vpcID, ''subnetID'' \<mapsto> AInt subnetID]
       (lc_DeleteVPCSubnet (as_LinodeVPCClient base) vpcID subnetID)"

definition Traced_GetFirewall :: "decorator option \<Rightarrow> ('s \<times> span list) LinodeClient \<Rightarrow> int \<Rightarrow> ('s \<times> span list) answering" where
  "Traced_GetFirewall deco base firewallID =
     answeringCall deco ''GetFirewall'' ''fp1'' [''ctx'' \<mapsto> AOther, ''firewallID'' \<mapsto> AInt firewallID]
       (lc_GetFirewall (as_LinodeFirewallClient base) firewallID)"

definition Traced_GetFirewallDevice :: "decorator option \<Rightarrow> ('s \<times> span list) LinodeClient \<Rightarrow> int \<Rightarrow> int \<Rightarrow> ('s \<times> span list) answering" where
  "Traced_GetFirewallDevice deco base firewallID deviceID =
     answeringCall deco ''GetFirewallDevice'' ''fp1'' [''ctx'' \<mapsto> AOther, ''firewallID'' \<mapsto> AInt firewallID, ''deviceID'' \<mapsto> AInt deviceID]
       (lc_GetFirewallDevice (as_LinodeFirewallClient base) firewallID deviceID)"

definition Traced_GetFirewallRules :: "decorator option \<Rightarrow> ('s \<times> span list) LinodeClient \<Rightarrow> int \<Rightarrow> ('s \<times> span list) answering" where
  "Traced_GetFirewallRules deco base firewallID =
     answeringCall deco ''GetFirewallRules'' ''fp1'' [''ctx'' \<mapsto> AOther, ''firewallID'' \<mapsto> AInt firewallID]
       (lc_GetFirewallRules (as_LinodeFirewallClient base) firewallID)"

definition Traced_GetImage :: "decorator option \<Rightarrow> ('s \<times> span list) LinodeClient \<Rightarrow> string \<Rightarrow> ('s \<times> span list) answering" where
  "Traced_GetImage deco base imageID =
     answeringCall deco ''GetImage'' ''ip1'' [''ctx'' \<mapsto> AOther, ''imageID'' \<mapsto> AString imageID]
       (lc_GetImage (as_LinodeInstanceClient base) imageID)"

definition Traced_GetInstance :: "decorator option \<Rightarrow> ('s \<times> span list) LinodeClient \<Rightarrow> int \<Rightarrow> ('s \<times> span list) answering" where
  "Traced_GetInstance deco base linodeID =
     answeringCall deco ''GetInstance'' ''ip1'' [''ctx'' \<mapsto> AOther, ''linodeID'' \<mapsto> AInt linodeID]
       (lc_GetInstance (as_LinodeInstanceClient base) linodeID)"

definition Traced_GetInstanceIPAddresses :: "decorator option \<Rightarrow> ('s \<times> span list) LinodeClient \<Rightarrow> int \<Rightarrow> ('s \<times> span list) answering" where
  "Traced_GetInstanceIPAddresses deco base linodeID =
     answeringCall deco ''GetInstanceIPAddresses'' ''ip1'' [''ctx'' \<mapsto> AOther, ''linodeID'' \<mapsto> AInt linodeID]
       (lc_GetInstanceIPAddresses (as_LinodeInstanceClient base) linodeID)"

definition Traced_GetNodeBalancer :: "decorator option \<Rightarrow> ('s \<times> span list) LinodeClient \<Rightarrow> int \<Rightarrow> ('s \<times> span list) answering" where
  "Traced_GetNodeBalancer deco base nodebalancerID =
     answeringCall deco ''GetNodeBalancer'' ''np1'' [''ctx'' \<mapsto> AOther, ''nodebalancerID'' \<mapsto> AInt nodebalancerID]
       (lc_GetNodeBalancer (as_LinodeNodeBalancerClient base) nodebalancerID)"

definition Traced_GetNodeBalancerConfig :: "decorator option \<Rightarrow> ('s \<times> span list) LinodeClient \<Rightarrow> int \<Rightarrow> int \<Rightarrow> ('s \<times> span list) answering" where
  "Traced_GetNodeBalancerConfig deco base nodebalancerID configID =
     answeringCall deco ''GetNodeBalancerConfig'' ''np1'' [''ctx'' \<mapsto> AOther, ''nodebalancerID'' \<mapsto> AInt nodebalancerID, ''configID'' \<mapsto> AInt configID]
       (lc_GetNodeBalancerConfig (as_LinodeNodeBalancerClient base) nodebalancerID configID)"

definition Traced_GetObjectStorageBucket :: "decorator option \<Rightarrow> ('s \<times> span list) LinodeClient \<Rightarrow> string \<Rightarrow> string \<Rightarrow> ('s \<times> span list) answering" where
  "Traced_GetObjectStorageBucket deco base regionID label =
     answeringCall deco ''GetObjectStorageBucket'' ''op1'' [''ctx'' \<mapsto> AOther, ''regionID'' \<mapsto> AString regionID, ''label'' \<mapsto> AString label]
       (lc_GetObjectStorageBucket (as_LinodeObjectStorageClient base) regionID label)"

definition Traced_GetObjectStorageBucketAccess :: "decorator option \<Rightarrow> ('s \<times> span list) LinodeClient \<Rightarrow> string \<Rightarrow> string \<Rightarrow> ('s \<times> span list) answering" where
  "Traced_GetObjectStorageBucketAccess deco base clusterOrRegionID label =
     answeringCall deco ''GetObjectStorageBucketAccess'' ''op1'' [''ctx'' \<mapsto> AOther, ''clusterOrRegionID'' \<mapsto> AString clusterOrRegionID, ''label'' \<mapsto> AString label]
       (lc_GetObjectStorageBucketAccess (as_LinodeObjectStorageClient base) clusterOrRegionID label)"

definition Traced_GetObjectStorageKey :: "decorator option \<Rightarrow> ('s \<times> span list) LinodeClient \<Rightarrow> int \<Rightarrow> ('s \<times> span list) answering" where
  "Traced_GetObjectStorageKey deco base keyID =
     answeringCall deco ''GetObjectStorageKey'' ''op1'' [''ctx'' \<mapsto> AOther, ''keyID'' \<mapsto> AInt keyID]
       (lc_GetObjectStorageKey (as_LinodeObjectStorageClient base) keyID)"

definition Traced_GetPlacementGroup :: "decorator option \<Rightarrow> ('s \<times> span list) LinodeClient \<Rightarrow> int \<Rightarrow> ('s \<times> span list) answering" where
  "Traced_GetPlacementGroup deco base pgID =
     answeringCall deco ''GetPlacementGroup'' ''pp1'' [''ctx'' \<mapsto> AOther, ''id'' \<mapsto> AInt pgID]
       (lc_GetPlacementGroup (as_LinodePlacementGroupClient base) pgID)"

definition Traced_GetRegion :: "decorator option \<Rightarrow> ('s \<times> span list) LinodeClient \<Rightarrow> string \<Rightarrow> ('s \<times> span list) answering" where
  "Traced_GetRegion deco base regionID =
     answeringCall deco ''GetRegion'' ''rp1'' [''ctx'' \<mapsto> AOther, ''regionID'' \<mapsto> AString regionID]
       (lc_GetRegion (as_LinodeInstanceClient base) regionID)"

definition Traced_GetType :: "decorator option \<Rightarrow> ('s \<times> span list) LinodeClient \<Rightarrow> string \<Rightarrow> ('s \<times> span list) answering" where
  "Traced_GetType deco base typeID =
     answeringCall deco ''GetType'' ''lp1'' [''ctx'' \<mapsto> AOther, ''typeID'' \<mapsto> AString typeID]
       (lc_GetType (as_LinodeInstanceClient base) typeID)"

definition Traced_GetVPC :: "decorator option \<Rightarrow> ('s \<times> span list) LinodeClient \<Rightarrow> int \<Rightarrow> ('s \<times> span list) answering" where
  "Traced_GetVPC deco base vpcID =
     answeringCall deco ''GetVPC'' ''vp1'' [''ctx'' \<mapsto> AOther, ''vpcID'' \<mapsto> AInt vpcID]
       (lc_GetVPC (as_LinodeVPCClient base) vpcID)"

definition Traced_ListDomainRecords :: "decorator option \<Rightarrow> ('s \<times> span list) LinodeClient \<Rightarrow> int \<Rightarrow> goval \<Rightarrow> ('s \<times> span list) answering" where
  "Traced_ListDomainRecords deco base domainID opts =
     answeringCall deco ''ListDomainRecords'' ''da1'' [''ctx'' \<mapsto> AOther, ''domainID'' \<mapsto> AInt domainID, ''opts'' \<mapsto> AOther]
       (lc_ListDomainRecords (as_LinodeDNSClient base) domainID opts)"

definition Traced_ListDomains :: "decorator option \<Rightarrow> ('s \<times> span list) LinodeClient \<Rightarrow> goval \<Rightarrow> ('s \<times> span list) answering" where
  "Traced_ListDomains deco base opts =
     answeringCall deco ''ListDomains'' ''da1'' [''ctx'' \<mapsto> AOther, ''opts'' \<mapsto> AOther]
       (lc_ListDomains (as_LinodeDNSClient base) opts)"

definition Traced_ListFirewalls :: "decorator option \<Rightarrow> ('s \<times> span list) LinodeClient \<Rightarrow> goval \<Rightarrow> ('s \<times> span list) answering" where
  "Traced_ListFirewalls deco base options =
     answeringCall deco ''ListFirewalls'' ''fa1'' [''ctx'' \<mapsto> AOther, ''options'' \<mapsto> AOther]
       (lc_ListFirewalls (as_LinodeFirewallClient base) options)"

definition Traced_ListInstanceConfigs :: "decorator option \<Rightarrow> ('s \<times> span list) LinodeClient \<Rightarrow> int \<Rightarrow> goval \<Rightarrow> ('s \<times> span list) answering" where
  "Traced_ListInstanceConfigs deco base linodeID opts =
     answeringCall deco ''ListInstanceConfigs'' ''ia1'' [''ctx'' \<mapsto> AOther, ''linodeID'' \<mapsto> AInt linodeID, ''opts'' \<mapsto> AOther]
       (lc_ListInstanceConfigs (as_LinodeInstanceClient base) linodeID opts)"

definition Traced_ListInstanceFirewalls :: "decorator option \<Rightarrow> ('s \<times> span list) LinodeClient \<Rightarrow> int \<Rightarrow> goval \<Rightarrow> ('s \<times> span list) answering" where
  "Traced_ListInstanceFirewalls deco base linodeID opts =
     answeringCall deco ''ListInstanceFirewalls'' ''fa1'' [''ctx'' \<mapsto> AOther, ''linodeID'' \<mapsto> AInt linodeID, ''opts'' \<mapsto> AOther]
       (lc_ListInstanceFirewalls (as_LinodeInstanceClient base) linodeID opts)"

definition Traced_ListInstances :: "decorator option \<Rightarrow> ('s \<times> span list) LinodeClient \<Rightarrow> goval \<Rightarrow> ('s \<times> span list) answering" where
  "Traced_ListInstances deco base opts =
     answeringCall deco ''ListInstances'' ''ia1'' [''ctx'' \<mapsto> AOther, ''opts'' \<mapsto> AOther]
       (lc_ListInstances (as_LinodeInstanceClient base) opts)"

definition Traced_ListInterfaceFirewalls :: "decorator option \<Rightarrow> ('s \<times> span list) LinodeClient \<Rightarrow> int \<Rightarrow> int \<Rightarrow> goval \<Rightarrow> ('s \<times> span list) answering" where
  "Traced_ListInterfaceFirewalls deco base linodeID interfaceID opts =
     answeringCall deco ''ListInterfaceFirewalls'' ''fa1'' [''ctx'' \<mapsto> AOther, ''linodeID'' \<mapsto> AInt linodeID, ''interfaceID'' \<mapsto> AInt interfaceID, ''opts'' \<mapsto> AOther]
       (lc_ListInterfaceFirewalls (as_LinodeInterfacesClient base) linodeID interfaceID opts)"

definition Traced_ListInterfaces :: "decorator option \<Rightarrow> ('s \<times> span list) LinodeClient \<Rightarrow> int \<Rightarrow> goval \<Rightarrow> ('s \<times> span list) answering" where
  "Traced_ListInterfaces deco base linodeID opts =
     answeringCall deco ''ListInterfaces'' ''la1'' [''ctx'' \<mapsto> AOther, ''linodeID'' \<mapsto> AInt linodeID, ''opts'' \<mapsto> AOther]
       (lc_ListInterfaces (as_LinodeInterfacesClient base) linodeID opts)"

definition Traced_ListNodeBalancerNodes :: "decorator option \<Rightarrow> ('s \<times> span list) LinodeClient \<Rightarrow> int \<Rightarrow> int \<Rightarrow> goval \<Rightarrow> ('s \<times> span list) answering" where
  "Traced_ListNodeBalancerNodes deco base nodebalancerID configID opts =
     answeringCall deco ''ListNodeBalancerNodes'' ''na1'' [''ctx'' \<mapsto> AOther, ''nodebalancerID'' \<mapsto> AInt nodebalancerID, ''configID'' \<mapsto> AInt configID, ''opts'' \<mapsto> AOther]
       (lc_ListNodeBalancerNodes (as_LinodeNodeBalancerClient base) nodebalancerID configID opts)"

definition Traced_ListNodeBalancers :: "decorator option \<Rightarrow> ('s \<times> span list) LinodeClient \<Rightarrow> goval \<Rightarrow> ('s \<times> span list) answering" where
  "Traced_ListNodeBalancers deco base opts =
     answeringCall deco ''ListNodeBalancers'' ''na1'' [''ctx'' \<mapsto> AOther, ''opts'' \<mapsto> AOther]
       (lc_ListNodeBalancers (as_LinodeNodeBalancerClient base) opts)"

definition Traced_ListPlacementGroups :: "decorator option \<Rightarrow> ('s \<times> span list) LinodeClient \<Rightarrow> goval \<Rightarrow> ('s \<times> span list) answering" where
  "Traced_ListPlacementGroups deco base options =
     answeringCall deco ''ListPlacementGroups'' ''pa1'' [''ctx'' \<mapsto> AOther, ''options'' \<mapsto> AOther]
       (lc_ListPlacementGroups (as_LinodePlacementGroupClient base) options)"

definition Traced_ListVPCs :: "decorator option \<Rightarrow> ('s \<times> span list) LinodeClient \<Rightarrow> goval \<Rightarrow> ('s \<times> span list) answering" where
  "Traced_ListVPCs deco base opts =
     answeringCall deco ''ListVPCs'' ''va1'' [''ctx'' \<mapsto> AOther, ''opts'' \<mapsto> AOther]
       (lc_ListVPCs (as_LinodeVPCClient base) opts)"

definition Traced_UnassignPlacementGroupLinodes :: "decorator option \<Rightarrow> ('s \<times> span list) LinodeClient \<Rightarrow> int \<Rightarrow> goval \<Rightarrow> ('s \<times> span list) answering" where
  "Traced_UnassignPlacementGroupLinodes deco base pgID options =
     answeringCall deco ''UnassignPlacementGroupLinodes'' ''pp1'' [''ctx'' \<mapsto> AOther, ''id'' \<mapsto> AInt pgID, ''options'' \<mapsto> AOther]
       (lc_UnassignPlacementGroupLinodes (as_LinodePlacementGroupClient base) pgID options)"

definition Traced_UpdateDomainRecord :: "decorator option \<Rightarrow> ('s \<times> span list) LinodeClient \<Rightarrow> int \<Rightarrow> int \<Rightarrow> DomainRecordUpdateOptions \<Rightarrow> ('s \<times> span list) answering" where
  "Traced_UpdateDomainRecord deco base domainID domainRecordID recordReq =
     answeringCall deco ''UpdateDomainRecord'' ''dp1'' [''ctx'' \<mapsto> AOther, ''domainID'' \<mapsto> AInt domainID, ''domainRecordID'' \<mapsto> AInt domainRecordID, ''recordReq'' \<mapsto> ARecordUpdate recordReq]
       (lc_UpdateDomainRecord (as_LinodeDNSClient base) domainID domainRecordID recordReq)"

definition Traced_UpdateFirewall :: "decorator option \<Rightarrow> ('s \<times> span list) LinodeClient \<Rightarrow> int \<Rightarrow> goval \<Rightarrow> ('s \<times> span list) answering" where
  "Traced_UpdateFirewall deco base firewallID opts =
     answeringCall deco ''UpdateFirewall'' ''fp1'' [''ctx'' \<mapsto> AOther, ''firewallID'' \<mapsto> AInt firewallID, ''opts'' \<mapsto> AOther]
       (lc_UpdateFirewall (as_LinodeFirewallClient base) firewallID opts)"

definition Traced_UpdateFirewallRules :: "decorator option \<Rightarrow> ('s \<times> span list) LinodeClient \<Rightarrow> int \<Rightarrow> goval \<Rightarrow> ('s \<times> span list) answering" where
  "Traced_UpdateFirewallRules deco base firewallID rules =
     answeringCall deco ''UpdateFirewallRules'' ''fp1'' [''ctx'' \<mapsto> AOther, ''firewallID'' \<mapsto> AInt firewallID, ''rules'' \<mapsto> AOther]
       (lc_UpdateFirewallRules (as_LinodeFirewallClient base) firewallID rules)"

definition Traced_UpdateInstance :: "decorator option \<Rightarrow> ('s \<times> span list) LinodeClient \<Rightarrow> int \<Rightarrow> goval \<Rightarrow> ('s \<times> span list) answering" where
  "Traced_UpdateInstance deco base linodeId opts =
     answeringCall deco ''UpdateInstance'' ''ip1'' [''ctx'' \<mapsto> AOther, ''linodeId'' \<mapsto> AInt linodeId, ''opts'' \<mapsto> AOther]
       (lc_UpdateInstance (as_LinodeInstanceClient base) linodeId opts)"

definition Traced_UpdateInstanceConfig :: "decorator option \<Rightarrow> ('s \<times> span list) LinodeClient \<Rightarrow> int \<Rightarrow> int \<Rightarrow> goval \<Rightarrow> ('s \<times> span list) answering" where
  "Traced_UpdateInstanceConfig deco base linodeID configID opts =
     answeringCall deco ''UpdateInstanceConfig'' ''ip1'' [''ctx'' \<mapsto> AOther, ''linodeID'' \<mapsto> AInt linodeID, ''configID'' \<mapsto> AInt configID, ''opts'' \<mapsto> AOther]
       (lc_UpdateInstanceConfig (as_LinodeInstanceClient base) linodeID configID opts)"

definition Traced_UpdateInstanceFirewalls :: "decorator option \<Rightarrow> ('s \<times> span list) LinodeClient \<Rightarrow> int \<Rightarrow> goval \<Rightarrow> ('s \<times> span list) answering" where
  "Traced_UpdateInstanceFirewalls deco base linodeID opts =
     answeringCall deco ''UpdateInstanceFirewalls'' ''fa1'' [''ctx'' \<mapsto> AOther, ''linodeID'' \<mapsto> AInt linodeID, ''opts'' \<mapsto> AOther]
       (lc_UpdateInstanceFirewalls (as_LinodeInstanceClient base) linodeID opts)"

definition Traced_UpdateObjectStorageBucketAccess :: "decorator option \<Rightarrow> ('s \<times> span list) LinodeClient \<Rightarrow> string \<Rightarrow> string \<Rightarrow> goval \<Rightarrow> ('s \<times> span list) failing" where
  "Traced_UpdateObjectStorageBucketAccess deco base clusterOrRegionID label opts =
     failingCall deco ''UpdateObjectStorageBucketAccess'' [''ctx'' \<mapsto> AOther, ''clusterOrRegionID'' \<mapsto> AString clusterOrRegionID, ''label'' \<mapsto> AString label, ''opts'' \<mapsto> AOther]
       (lc_UpdateObjectStorageBucketAccess (as_LinodeObjectStorageClient base) clusterOrRegionID label opts)"

definition Traced_UpdatePlacementGroup :: "decorator option \<Rightarrow> ('s \<times> span list) LinodeClient \<Rightarrow> int \<Rightarrow> goval \<Rightarrow> ('s \<times> span list) answering" where
  "Traced_UpdatePlacementGroup deco base pgID options =
     answeringCall deco ''UpdatePlacementGroup'' ''pp1'' [''ctx'' \<mapsto> AOther, ''id'' \<mapsto> AInt pgID, ''options'' \<mapsto> AOther]
       (lc_UpdatePlacementGroup (as_LinodePlacementGroupClient base) pgID options)"

definition Traced_UpdateVPC :: "decorator option \<Rightarrow> ('s \<times> span list) LinodeClient \<Rightarrow> int \<Rightarrow> goval \<Rightarrow> ('s \<times> span list) answering" where
  "Traced_UpdateVPC deco base vpcID opts =
     answeringCall deco ''UpdateVPC'' ''vp1'' [''ctx'' \<mapsto> AOther, ''vpcID'' \<mapsto> AInt vpcID, ''opts'' \<mapsto> AOther]
       (lc_UpdateVPC (as_LinodeVPCClient base) vpcID opts)"

definition NewLinodeClientWithTracing :: "('s \<times> span list) LinodeClient \<Rightarrow> decorator option list \<Rightarrow> ('s \<times> span list) LinodeClient" where
  "NewLinodeClientWithTracing base spanDecorator =
     (let deco = (case spanDecorator of Some d # _ \<Rightarrow> Some d | _ \<Rightarrow> None) in
      \<lparr>as_LinodeNodeBalancerClient = \<lparr>lc_CreateNodeBalancer = Traced_CreateNodeBalancer deco base,
        lc_GetNodeBalancer = Traced_GetNodeBalancer deco base,
        lc_ListNodeBalancers = Traced_ListNodeBalancers deco base,
        lc_ListNodeBalancerNodes = Traced_ListNodeBalancerNodes deco base,
        lc_GetNodeBalancerConfig = Traced_GetNodeBalancerConfig deco base,
        lc_CreateNodeBalancerConfig = Traced_CreateNodeBalancerConfig deco base,
        lc_DeleteNodeBalancerNode = Traced_DeleteNodeBalancerNode deco base,
        lc_DeleteNodeBalancer = Traced_DeleteNodeBalancer deco base,
        lc_CreateNodeBalancerNode = Traced_CreateNodeBalancerNode deco base\<rparr>,
      as_LinodeInstanceClient = \<lparr>lc_GetInstanceIPAddresses = Traced_GetInstanceIPAddresses deco base,
        lc_ListInstances = Traced_ListInstances deco base,
        lc_CreateInstance = Traced_CreateInstance deco base,
        lc_BootInstance = Traced_BootInstance deco base,
        lc_ListInstanceConfigs = Traced_ListInstanceConfigs deco base,
        lc_UpdateInstanceConfig = Traced_UpdateInstanceConfig deco base,
        lc_UpdateInstance = Traced_UpdateInstance deco base,
        lc_CreateInstanceDisk = Traced_CreateInstanceDisk deco base,
        lc_GetInstance = Traced_GetInstance deco base,
        lc_DeleteInstance = Traced_DeleteInstance deco base,
        lc_GetRegion = Traced_GetRegion deco base,
        lc_GetImage = Traced_GetImage deco base,
        lc_GetType = Traced_GetType deco base,
        lc_ListInstanceFirewalls = Traced_ListInstanceFirewalls deco base,
        lc_UpdateInstanceFirewalls = Traced_UpdateInstanceFirewalls deco base\<rparr>,
      as_LinodeVPCClient = \<lparr>lc_GetVPC = Traced_GetVPC deco base,
        lc_ListVPCs = Traced_ListVPCs deco base,
        lc_CreateVPC = Traced_CreateVPC deco base,
        lc_UpdateVPC = Traced_UpdateVPC deco base,
        lc_DeleteVPC = Traced_DeleteVPC deco base,
        lc_CreateVPCSubnet = Traced_CreateVPCSubnet deco base,
        lc_DeleteVPCSubnet = Traced_DeleteVPCSubnet deco base\<rparr>,
      as_LinodeObjectStorageClient = \<lparr>lc_GetObjectStorageBucket = Traced_GetObjectStorageBucket deco base,
        lc_CreateObjectStorageBucket = Traced_CreateObjectStorageBucket deco base,
        lc_GetObjectStorageBucketAccess = Traced_GetObjectStorageBucketAccess deco base,
        lc_UpdateObjectStorageBucketAccess = Traced_UpdateObjectStorageBucketAccess deco base,
        lc_GetObjectStorageKey = Traced_GetObjectStorageKey deco base,
        lc_CreateObjectStorageKey = Traced_CreateObjectStorageKey deco base,
        lc_DeleteObjectStorageKey = Traced_DeleteObjectStorageKey deco base,
        lc_DeleteObjectStorageBucket = Traced_DeleteObjectStorageBucket deco base\<rparr>,
      as_LinodeDNSClient = \<lparr>lc_CreateDomainRecord = Traced_CreateDomainRecord deco base,
        lc_UpdateDomainRecord = Traced_UpdateDomainRecord deco base,
        lc_ListDomainRecords = Traced_ListDomainRecords deco base,
        lc_ListDomains = Traced_ListDomains deco base,
        lc_DeleteDomainRecord = Traced_DeleteDomainRecord deco base\<rparr>,
      as_LinodePlacementGroupClient = \<lparr>lc_GetPlacementGroup = Traced_GetPlacementGroup deco base,
        lc_ListPlacementGroups = Traced_ListPlacementGroups deco base,
        lc_CreatePlacementGroup = Traced_CreatePlacementGroup deco base,
        lc_DeletePlacementGroup = Traced_DeletePlacementGroup deco base,
        lc_UpdatePlacementGroup = Traced_UpdatePlacementGroup deco base,
        lc_AssignPlacementGroupLinodes = Traced_AssignPlacementGroupLinodes deco base,
        lc_UnassignPlacementGroupLinodes = Traced_UnassignPlacementGroupLinodes deco base\<rparr>,
      as_LinodeFirewallClient = \<lparr>lc_CreateFirewall = Traced_CreateFirewall deco base,
        lc_GetFirewall = Traced_GetFirewall deco base,
        lc_ListFirewalls = Traced_ListFirewalls deco base,
        lc_GetFirewallDevice = Traced_GetFirewallDevice deco base,
        lc_GetFirewallRules = Traced_GetFirewallRules deco base,
        lc_UpdateFirewall = Traced_UpdateFirewall deco base,
        lc_UpdateFirewallRules = Traced_UpdateFirewallRules deco base,
        lc_DeleteFirewall = Traced_DeleteFirewall deco base,
        lc_DeleteFirewallDevice = Traced_DeleteFirewallDevice deco base\<rparr>,
      as_LinodeInterfacesClient = \<lparr>lc_ListInterfaces = Traced_ListInterfaces deco base,
        lc_ListInterfaceFirewalls = Traced_ListInterfaceFirewalls deco base\<rparr>\<rparr>)"


section \<open>The traced client answers as the client\<close>

text \<open>A client that knows nothing of spans, and what a client does when nobody looks at its spans.\<close>

definition unobserved :: "span list \<Rightarrow> ('s \<times> span list, 'a) m \<Rightarrow> ('s, 'a) m" where
  "unobserved spans m = State_Monad.State (\<lambda>s. case State_Monad.run_state m (s, spans) of (r, t, _) \<Rightarrow> (r, t))"

definition plainClient :: "'s LinodeClient \<Rightarrow> ('s \<times> span list) LinodeClient" where
  "plainClient c =
      \<lparr>as_LinodeNodeBalancerClient = \<lparr>lc_CreateNodeBalancer = \<lambda>opts. untraced (lc_CreateNodeBalancer (as_LinodeNodeBalancerClient c) opts),
        lc_GetNodeBalancer = \<lambda>nodebalancerID. untraced (lc_GetNodeBalancer (as_LinodeNodeBalancerClient c) nodebalancerID),
        lc_ListNodeBalancers = \<lambda>opts. untraced (lc_ListNodeBalancers (as_LinodeNodeBalancerClient c) opts),
        lc_ListNodeBalancerNodes = \<lambda>nodebalancerID configID opts. untraced (lc_ListNodeBalancerNodes (as_LinodeNodeBalancerClient c) nodebalancerID configID opts),
        lc_GetNodeBalancerConfig = \<lambda>nodebalancerID configID. untraced (lc_GetNodeBalancerConfig (as_LinodeNodeBalancerClient c) nodebalancerID configID),
        lc_CreateNodeBalancerConfig = \<lambda>nodebalancerID opts. untraced (lc_CreateNodeBalancerConfig (as_LinodeNodeBalancerClient c) nodebalancerID opts),
        lc_DeleteNodeBalancerNode = \<lambda>nodebalancerID configID nodeID. untraced (lc_DeleteNodeBalancerNode (as_LinodeNodeBalancerClient c) nodebalancerID configID nodeID),
        lc_DeleteNodeBalancer = \<lambda>nodebalancerID. untraced (lc_DeleteNodeBalancer (as_LinodeNodeBalancerClient c) nodebalancerID),
        lc_CreateNodeBalancerNode = \<lambda>nodebalancerID configID opts. untraced (lc_CreateNodeBalancerNode (as_LinodeNodeBalancerClient c) nodebalancerID configID opts)\<rparr>,
      as_LinodeInstanceClient = \<lparr>lc_GetInstanceIPAddresses = \<lambda>linodeID. untraced (lc_GetInstanceIPAddresses (as_LinodeInstanceClient c) linodeID),
        lc_ListInstances = \<lambda>opts. untraced (lc_ListInstances (as_LinodeInstanceClient c) opts),
        lc_CreateInstance = \<lambda>opts. untraced (lc_CreateInstance (as_LinodeInstanceClient c) opts),
        lc_BootInstance = \<lambda>linodeID copts. untraced (lc_BootInstance (as_LinodeInstanceClient c) linodeID copts),
        lc_ListInstanceConfigs = \<lambda>linodeID opts. untraced (lc_ListInstanceConfigs (as_LinodeInstanceClient c) linodeID opts),
        lc_UpdateInstanceConfig = \<lambda>linodeID configID opts. untraced (lc_UpdateInstanceConfig (as_LinodeInstanceClient c) linodeID configID opts),
        lc_UpdateInstance = \<lambda>linodeId opts. untraced (lc_UpdateInstance (as_LinodeInstanceClient c) linodeId opts),
        lc_CreateInstanceDisk = \<lambda>linodeID opts. untraced (lc_CreateInstanceDisk (as_LinodeInstanceClient c) linodeID opts),
        lc_GetInstance = \<lambda>linodeID. untraced (lc_GetInstance (as_LinodeInstanceClient c) linodeID),
        lc_DeleteInstance = \<lambda>linodeID. untraced (lc_DeleteInstance (as_LinodeInstanceClient c) linodeID),
        lc_GetRegion = \<lambda>regionID. untraced (lc_GetRegion (as_LinodeInstanceClient c) regionID),
        lc_GetImage = \<lambda>imageID. untraced (lc_GetImage (as_LinodeInstanceClient c) imageID),
        lc_GetType = \<lambda>typeID. untraced (lc_GetType (as_LinodeInstanceClient c) typeID),
        lc_ListInstanceFirewalls = \<lambda>linodeID opts. untraced (lc_ListInstanceFirewalls (as_LinodeInstanceClient c) linodeID opts),
        lc_UpdateInstanceFirewalls = \<lambda>linodeID opts. untraced (lc_UpdateInstanceFirewalls (as_LinodeInstanceClient c) linodeID opts)\<rparr>,
      as_LinodeVPCClient = \<lparr>lc_GetVPC = \<lambda>vpcID. untraced (lc_GetVPC (as_LinodeVPCClient c) vpcID),
        lc_ListVPCs = \<lambda>opts. untraced (lc_ListVPCs (as_LinodeVPCClient c) opts),
        lc_CreateVPC = \<lambda>opts. untraced (lc_CreateVPC (as_LinodeVPCClient c) opts),
        lc_UpdateVPC = \<lambda>vpcID opts. untraced (lc_UpdateVPC (as_LinodeVPCClient c) vpcID opts),
        lc_DeleteVPC = \<lambda>vpcID. untraced (lc_DeleteVPC (as_LinodeVPCClient c) vpcID),
        lc_CreateVPCSubnet = \<lambda>opts vpcID. untraced (lc_CreateVPCSubnet (as_LinodeVPCClient c) opts vpcID),
        lc_DeleteVPCSubnet = \<lambda>vpcID subnetID. untraced (lc_DeleteVPCSubnet (as_LinodeVPCClient c) vpcID subnetID)\<rparr>,
      as_LinodeObjectStorageClient = \<lparr>lc_GetObjectStorageBucket = \<lambda>regionID label. untraced (lc_GetObjectStorageBucket (as_LinodeObjectStorageClient c) regionID label),
        lc_CreateObjectStorageBucket = \<lambda>opts. untraced (lc_CreateObjectStorageBucket (as_LinodeObjectStorageClient c) opts),
        lc_GetObjectStorageBucketAccess = \<lambda>clusterOrRegionID label. untraced (lc_GetObjectStorageBucketAccess (as_LinodeObjectStorageClient c) clusterOrRegionID label),
        lc_UpdateObjectStorageBucketAccess = \<lambda>clusterOrRegionID label opts. untraced (lc_UpdateObjectStorageBucketAccess (as_LinodeObjectStorageClient c) clusterOrRegionID label opts),
        lc_GetObjectStorageKey = \<lambda>keyID. untraced (lc_GetObjectStorageKey (as_LinodeObjectStorageClient c) keyID),
        lc_CreateObjectStorageKey = \<lambda>opts. untraced (lc_CreateObjectStorageKey (as_LinodeObjectStorageClient c) opts),
        lc_DeleteObjectStorageKey = \<lambda>keyID. untraced (lc_DeleteObjectStorageKey (as_LinodeObjectStorageClient c) keyID),
        lc_DeleteObjectStorageBucket = \<lambda>regionID label. untraced (lc_DeleteObjectStorageBucket (as_LinodeObjectStorageClient c) regionID label)\<rparr>,
      as_LinodeDNSClient = \<lparr>lc_CreateDomainRecord = \<lambda>domainID recordReq. untraced (lc_CreateDomainRecord (as_LinodeDNSClient c) domainID recordReq),
        lc_UpdateDomainRecord = \<lambda>domainID domainRecordID recordReq. untraced (lc_UpdateDomainRecord (as_LinodeDNSClient c) domainID domainRecordID recordReq),
        lc_ListDomainRecords = \<lambda>domainID opts. untraced (lc_ListDomainRecords (as_LinodeDNSClient c) domainID opts),
        lc_ListDomains = \<lambda>opts. untraced (lc_ListDomains (as_LinodeDNSClient c) opts),
        lc_DeleteDomainRecord = \<lambda>domainID domainRecordID. untraced (lc_DeleteDomainRecord (as_LinodeDNSClient c) domainID domainRecordID)\<rparr>,
      as_LinodePlacementGroupClient = \<lparr>lc_GetPlacementGroup = \<lambda>pgID. untraced (lc_GetPlacementGroup (as_LinodePlacementGroupClient c) pgID),
        lc_ListPlacementGroups = \<lambda>options. untraced (lc_ListPlacementGroups (as_LinodePlacementGroupClient c) options),
        lc_CreatePlacementGroup = \<lambda>opts. untraced (lc_CreatePlacementGroup (as_LinodePlacementGroupClient c) opts),
        lc_DeletePlacementGroup = \<lambda>pgID. untraced (lc_DeletePlacementGroup (as_LinodePlacementGroupClient c) pgID),
        lc_UpdatePlacementGroup = \<lambda>pgID options. untraced (lc_UpdatePlacementGroup (as_LinodePlacementGroupClient c) pgID options),
        lc_AssignPlacementGroupLinodes = \<lambda>pgID options. untraced (lc_AssignPlacementGroupLinodes (as_LinodePlacementGroupClient c) pgID options),
        lc_UnassignPlacementGroupLinodes = \<lambda>pgID options. untraced (lc_UnassignPlacementGroupLinodes (as_LinodePlacementGroupClient c) pgID options)\<rparr>,
      as_LinodeFirewallClient = \<lparr>lc_CreateFirewall = \<lambda>opts. untraced (lc_CreateFirewall (as_LinodeFirewallClient c) opts),
        lc_GetFirewall = \<lambda>firewallID. untraced (lc_GetFirewall (as_LinodeFirewallClient c) firewallID),
        lc_ListFirewalls = \<lambda>options. untraced (lc_ListFirewalls (as_LinodeFirewallClient c) options),
        lc_GetFirewallDevice = \<lambda>firewallID deviceID. untraced (lc_GetFirewallDevice (as_LinodeFirewallClient c) firewallID deviceID),
        lc_GetFirewallRules = \<lambda>firewallID. untraced (lc_GetFirewallRules (as_LinodeFirewallClient c) firewallID),
        lc_UpdateFirewall = \<lambda>firewallID opts. untraced (lc_UpdateFirewall (as_LinodeFirewallClient c) firewallID opts),
        lc_UpdateFirewallRules = \<lambda>firewallID rules. untraced (lc_UpdateFirewallRules (as_LinodeFirewallClient c) firewallID rules),
        lc_DeleteFirewall = \<lambda>firewallID. untraced (lc_DeleteFirewall (as_LinodeFirewallClient c) firewallID),
        lc_DeleteFirewallDevice = \<lambda>firewallID deviceID. untraced (lc_DeleteFirewallDevice (as_LinodeFirewallClient c) firewallID deviceID)\<rparr>,
      as_LinodeInterfacesClient = \<lparr>lc_ListInterfaces = \<lambda>linodeID opts. untraced (lc_ListInterfaces (as_LinodeInterfacesClient c) linodeID opts),
        lc_ListInterfaceFirewalls = \<lambda>linodeID interfaceID opts. untraced (lc_ListInterfaceFirewalls (as_LinodeInterfacesClient c) linodeID interfaceID opts)\<rparr>\<rparr>"

definition unobservedClient :: "span list \<Rightarrow> ('s \<times> span list) LinodeClient \<Rightarrow> 's LinodeClient" where
  "unobservedClient spans c =
      \<lparr>as_LinodeNodeBalancerClient = \<lparr>lc_CreateNodeBalancer = \<lambda>opts. unobserved spans (lc_CreateNodeBalancer (as_LinodeNodeBalancerClient c) opts),
        lc_GetNodeBalancer = \<lambda>nodebalancerID. unobserved spans (lc_GetNodeBalancer (as_LinodeNodeBalancerClient c) nodebalancerID),
        lc_ListNodeBalancers = \<lambda>opts. unobserved spans (lc_ListNodeBalancers (as_LinodeNodeBalancerClient c) opts),
        lc_ListNodeBalancerNodes = \<lambda>nodebalancerID configID opts. unobserved spans (lc_ListNodeBalancerNodes (as_LinodeNodeBalancerClient c) nodebalancerID configID opts),
        lc_GetNodeBalancerConfig = \<lambda>nodebalancerID configID. unobserved spans (lc_GetNodeBalancerConfig (as_LinodeNodeBalancerClient c) nodebalancerID configID),
        lc_CreateNodeBalancerConfig = \<lambda>nodebalancerID opts. unobserved spans (lc_CreateNodeBalancerConfig (as_LinodeNodeBalancerClient c) nodebalancerID opts),
        lc_DeleteNodeBalancerNode = \<lambda>nodebalancerID configID nodeID. unobserved spans (lc_DeleteNodeBalancerNode (as_LinodeNodeBalancerClient c) nodebalancerID configID nodeID),
        lc_DeleteNodeBalancer = \<lambda>nodebalancerID. unobserved spans (lc_DeleteNodeBalancer (as_LinodeNodeBalancerClient c) nodebalancerID),
        lc_CreateNodeBalancerNode = \<lambda>nodebalancerID configID opts. unobserved spans (lc_CreateNodeBalancerNode (as_LinodeNodeBalancerClient c) nodebalancerID configID opts)\<rparr>,
      as_LinodeInstanceClient = \<lparr>lc_GetInstanceIPAddresses = \<lambda>linodeID. unobserved spans (lc_GetInstanceIPAddresses (as_LinodeInstanceClient c) linodeID),
        lc_ListInstances = \<lambda>opts. unobserved spans (lc_ListInstances (as_LinodeInstanceClient c) opts),
        lc_CreateInstance = \<lambda>opts. unobserved spans (lc_CreateInstance (as_LinodeInstanceClient c) opts),
        lc_BootInstance = \<lambda>linodeID copts. unobserved spans (lc_BootInstance (as_LinodeInstanceClient c) linodeID copts),
        lc_ListInstanceConfigs = \<lambda>linodeID opts. unobserved spans (lc_ListInstanceConfigs (as_LinodeInstanceClient c) linodeID opts),
        lc_UpdateInstanceConfig = \<lambda>linodeID configID opts. unobserved spans (lc_UpdateInstanceConfig (as_LinodeInstanceClient c) linodeID configID opts),
        lc_UpdateInstance = \<lambda>linodeId opts. unobserved spans (lc_UpdateInstance (as_LinodeInstanceClient c) linodeId opts),
        lc_CreateInstanceDisk = \<lambda>linodeID opts. unobserved spans (lc_CreateInstanceDisk (as_LinodeInstanceClient c) linodeID opts),
        lc_GetInstance = \<lambda>linodeID. unobserved spans (lc_GetInstance (as_LinodeInstanceClient c) linodeID),
        lc_DeleteInstance = \<lambda>linodeID. unobserved spans (lc_DeleteInstance (as_LinodeInstanceClient c) linodeID),
        lc_GetRegion = \<lambda>regionID. unobserved spans (lc_GetRegion (as_LinodeInstanceClient c) regionID),
        lc_GetImage = \<lambda>imageID. unobserved spans (lc_GetImage (as_LinodeInstanceClient c) imageID),
        lc_GetType = \<lambda>typeID. unobserved spans (lc_GetType (as_LinodeInstanceClient c) typeID),
        lc_ListInstanceFirewalls = \<lambda>linodeID opts. unobserved spans (lc_ListInstanceFirewalls (as_LinodeInstanceClient c) linodeID opts),
        lc_UpdateInstanceFirewalls = \<lambda>linodeID opts. unobserved spans (lc_UpdateInstanceFirewalls (as_LinodeInstanceClient c) linodeID opts)\<rparr>,
      as_LinodeVPCClient = \<lparr>lc_GetVPC = \<lambda>vpcID. unobserved spans (lc_GetVPC (as_LinodeVPCClient c) vpcID),
        lc_ListVPCs = \<lambda>opts. unobserved spans (lc_ListVPCs (as_LinodeVPCClient c) opts),
        lc_CreateVPC = \<lambda>opts. unobserved spans (lc_CreateVPC (as_LinodeVPCClient c) opts),
        lc_UpdateVPC = \<lambda>vpcID opts. unobserved spans (lc_UpdateVPC (as_LinodeVPCClient c) vpcID opts),
        lc_DeleteVPC = \<lambda>vpcID. unobserved spans (lc_DeleteVPC (as_LinodeVPCClient c) vpcID),
        lc_CreateVPCSubnet = \<lambda>opts vpcID. unobserved spans (lc_CreateVPCSubnet (as_LinodeVPCClient c) opts vpcID),
        lc_DeleteVPCSubnet = \<lambda>vpcID subnetID. unobserved spans (lc_DeleteVPCSubnet (as_LinodeVPCClient c) vpcID subnetID)\<rparr>,
      as_LinodeObjectStorageClient = \<lparr>lc_GetObjectStorageBucket = \<lambda>regionID label. unobserved spans (lc_GetObjectStorageBucket (as_LinodeObjectStorageClient c) regionID label),
        lc_CreateObjectStorageBucket = \<lambda>opts. unobserved spans (lc_CreateObjectStorageBucket (as_LinodeObjectStorageClient c) opts),
        lc_GetObjectStorageBucketAccess = \<lambda>clusterOrRegionID label. unobserved spans (lc_GetObjectStorageBucketAccess (as_LinodeObjectStorageClient c) clusterOrRegionID label),
        lc_UpdateObjectStorageBucketAccess = \<lambda>clusterOrRegionID label opts. unobserved spans (lc_UpdateObjectStorageBucketAccess (as_LinodeObjectStorageClient c) clusterOrRegionID label opts),
        lc_GetObjectStorageKey = \<lambda>keyID. unobserved spans (lc_GetObjectStorageKey (as_LinodeObjectStorageClient c) keyID),
        lc_CreateObjectStorageKey = \<lambda>opts. unobserved spans (lc_CreateObjectStorageKey (as_LinodeObjectStorageClient c) opts),
        lc_DeleteObjectStorageKey = \<lambda>keyID. unobserved spans (lc_DeleteObjectStorageKey (as_LinodeObjectStorageClient c) keyID),
        lc_DeleteObjectStorageBucket = \<lambda>regionID label. unobserved spans (lc_DeleteObjectStorageBucket (as_LinodeObjectStorageClient c) regionID label)\<rparr>,
      as_LinodeDNSClient = \<lparr>lc_CreateDomainRecord = \<lambda>domainID recordReq. unobserved spans (lc_CreateDomainRecord (as_LinodeDNSClient c) domainID recordReq),
        lc_UpdateDomainRecord = \<lambda>domainID domainRecordID recordReq. unobserved spans (lc_UpdateDomainRecord (as_LinodeDNSClient c) domainID domainRecordID recordReq),
        lc_ListDomainRecords = \<lambda>domainID opts. unobserved spans (lc_ListDomainRecords (as_LinodeDNSClient c) domainID opts),
        lc_ListDomains = \<lambda>opts. unobserved spans (lc_ListDomains (as_LinodeDNSClient c) opts),
        lc_DeleteDomainRecord = \<lambda>domainID domainRecordID. unobserved spans (lc_DeleteDomainRecord (as_LinodeDNSClient c) domainID domainRecordID)\<rparr>,
      as_LinodePlacementGroupClient = \<lparr>lc_GetPlacementGroup = \<lambda>pgID. unobserved spans (lc_GetPlacementGroup (as_LinodePlacementGroupClient c) pgID),
        lc_ListPlacementGroups = \<lambda>options. unobserved spans (lc_ListPlacementGroups (as_LinodePlacementGroupClient c) options),
        lc_CreatePlacementGroup = \<lambda>opts. unobserved spans (lc_CreatePlacementGroup (as_LinodePlacementGroupClient c) opts),
        lc_DeletePlacementGroup = \<lambda>pgID. unobserved spans (lc_DeletePlacementGroup (as_LinodePlacementGroupClient c) pgID),
        lc_UpdatePlacementGroup = \<lambda>pgID options. unobserved spans (lc_UpdatePlacementGroup (as_LinodePlacementGroupClient c) pgID options),
        lc_AssignPlacementGroupLinodes = \<lambda>pgID options. unobserved spans (lc_AssignPlacementGroupLinodes (as_LinodePlacementGroupClient c) pgID options),
        lc_UnassignPlacementGroupLinodes = \<lambda>pgID options. unobserved spans (lc_UnassignPlacementGroupLinodes (as_LinodePlacementGroupClient c) pgID options)\<rparr>,
      as_LinodeFirewallClient = \<lparr>lc_CreateFirewall = \<lambda>opts. unobserved spans (lc_CreateFirewall (as_LinodeFirewallClient c) opts),
        lc_GetFirewall = \<lambda>firewallID. unobserved spans (lc_GetFirewall (as_LinodeFirewallClient c) firewallID),
        lc_ListFirewalls = \<lambda>options. unobserved spans (lc_ListFirewalls (as_LinodeFirewallClient c) options),
        lc_GetFirewallDevice = \<lambda>firewallID deviceID. unobserved spans (lc_GetFirewallDevice (as_LinodeFirewallClient c) firewallID deviceID),
        lc_GetFirewallRules = \<lambda>firewallID. unobserved spans (lc_GetFirewallRules (as_LinodeFirewallClient c) firewallID),
        lc_UpdateFirewall = \<lambda>firewallID opts. unobserved spans (lc_UpdateFirewall (as_LinodeFirewallClient c) firewallID opts),
        lc_UpdateFirewallRules = \<lambda>firewallID rules. unobserved spans (lc_UpdateFirewallRules (as_LinodeFirewallClient c) firewallID rules),
        lc_DeleteFirewall = \<lambda>firewallID. unobserved spans (lc_DeleteFirewall (as_LinodeFirewallClient c) firewallID),
        lc_DeleteFirewallDevice = \<lambda>firewallID deviceID. unobserved spans (lc_DeleteFirewallDevice (as_LinodeFirewallClient c) firewallID deviceID)\<rparr>,
      as_LinodeInterfacesClient = \<lparr>lc_ListInterfaces = \<lambda>linodeID opts. unobserved spans (lc_ListInterfaces (as_LinodeInterfacesClient c) linodeID opts),
        lc_ListInterfaceFirewalls = \<lambda>linodeID interfaceID opts. unobserved spans (lc_ListInterfaceFirewalls (as_LinodeInterfacesClient c) linodeID interfaceID opts)\<rparr>\<rparr>"

text \<open>
  One call of a method: it leaves one more span, which has its name, has ended once and after everything else
  was reported, and records an error exactly when the client returned it.
\<close>

definition spanned :: "string \<Rightarrow> ('a \<Rightarrow> error option) \<Rightarrow> ('s \<times> span list, 'a) m \<Rightarrow> bool" where
  "spanned method errOf m = (\<forall>s spans. case State_Monad.run_state m (s, spans) of (r, _, spans') \<Rightarrow>
     (\<exists>sp. spans' = sp # spans \<and> sp_Name sp = ''_sourceClients.LinodeClient.'' @ method \<and> endedOnce (sp_Calls sp)
       \<and> (\<forall>e. RecordError e \<in> set (sp_Calls sp) \<longleftrightarrow> errOf r = Some e)))"

definition spanned_LinodeNodeBalancerClient :: "('s \<times> span list) LinodeNodeBalancerClient \<Rightarrow> bool" where
  "spanned_LinodeNodeBalancerClient c = (
     (\<forall>opts. spanned ''CreateNodeBalancer'' snd (lc_CreateNodeBalancer c opts)) \<and>
     (\<forall>nodebalancerID. spanned ''GetNodeBalancer'' snd (lc_GetNodeBalancer c nodebalancerID)) \<and>
     (\<forall>opts. spanned ''ListNodeBalancers'' snd (lc_ListNodeBalancers c opts)) \<and>
     (\<forall>nodebalancerID configID opts. spanned ''ListNodeBalancerNodes'' snd (lc_ListNodeBalancerNodes c nodebalancerID configID opts)) \<and>
     (\<forall>nodebalancerID configID. spanned ''GetNodeBalancerConfig'' snd (lc_GetNodeBalancerConfig c nodebalancerID configID)) \<and>
     (\<forall>nodebalancerID opts. spanned ''CreateNodeBalancerConfig'' snd (lc_CreateNodeBalancerConfig c nodebalancerID opts)) \<and>
     (\<forall>nodebalancerID configID nodeID. spanned ''DeleteNodeBalancerNode'' id (lc_DeleteNodeBalancerNode c nodebalancerID configID nodeID)) \<and>
     (\<forall>nodebalancerID. spanned ''DeleteNodeBalancer'' id (lc_DeleteNodeBalancer c nodebalancerID)) \<and>
     (\<forall>nodebalancerID configID opts. spanned ''CreateNodeBalancerNode'' snd (lc_CreateNodeBalancerNode c nodebalancerID configID opts)))"

definition spanned_LinodeInstanceClient :: "('s \<times> span list) LinodeInstanceClient \<Rightarrow> bool" where
  "spanned_LinodeInstanceClient c = (
     (\<forall>linodeID. spanned ''GetInstanceIPAddresses'' snd (lc_GetInstanceIPAddresses c linodeID)) \<and>
     (\<forall>opts. spanned ''ListInstances'' snd (lc_ListInstances c opts)) \<and>
     (\<forall>opts. spanned ''CreateInstance'' snd (lc_CreateInstance c opts)) \<and>
     (\<forall>linodeID copts. spanned ''BootInstance'' id (lc_BootInstance c linodeID copts)) \<and>
     (\<forall>linodeID opts. spanned ''ListInstanceConfigs'' snd (lc_ListInstanceConfigs c linodeID opts)) \<and>
     (\<forall>linodeID configID opts. spanned ''UpdateInstanceConfig'' snd (lc_UpdateInstanceConfig c linodeID configID opts)) \<and>
     (\<forall>linodeId opts. spanned ''UpdateInstance'' snd (lc_UpdateInstance c linodeId opts)) \<and>
     (\<forall>linodeID opts. spanned ''CreateInstanceDisk'' snd (lc_CreateInstanceDisk c linodeID opts)) \<and>
     (\<forall>linodeID. spanned ''GetInstance'' snd (lc_GetInstance c linodeID)) \<and>
     (\<forall>linodeID. spanned ''DeleteInstance'' id (lc_DeleteInstance c linodeID)) \<and>
     (\<forall>regionID. spanned ''GetRegion'' snd (lc_GetRegion c regionID)) \<and>
     (\<forall>imageID. spanned ''GetImage'' snd (lc_GetImage c imageID)) \<and>
     (\<forall>typeID. spanned ''GetType'' snd (lc_GetType c typeID)) \<and>
     (\<forall>linodeID opts. spanned ''ListInstanceFirewalls'' snd (lc_ListInstanceFirewalls c linodeID opts)) \<and>
     (\<forall>linodeID opts. spanned ''UpdateInstanceFirewalls'' snd (lc_UpdateInstanceFirewalls c linodeID opts)))"

definition spanned_LinodeVPCClient :: "('s \<times> span list) LinodeVPCClient \<Rightarrow> bool" where
  "spanned_LinodeVPCClient c = (
     (\<forall>vpcID. spanned ''GetVPC'' snd (lc_GetVPC c vpcID)) \<and>
     (\<forall>opts. spanned ''ListVPCs'' snd (lc_ListVPCs c opts)) \<and>
     (\<forall>opts. spanned ''CreateVPC'' snd (lc_CreateVPC c opts)) \<and>
     (\<forall>vpcID opts. spanned ''UpdateVPC'' snd (lc_UpdateVPC c vpcID opts)) \<and>
     (\<forall>vpcID. spanned ''DeleteVPC'' id (lc_DeleteVPC c vpcID)) \<and>
     (\<forall>opts vpcID. spanned ''CreateVPCSubnet'' snd (lc_CreateVPCSubnet c opts vpcID)) \<and>
     (\<forall>vpcID subnetID. spanned ''DeleteVPCSubnet'' id (lc_DeleteVPCSubnet c vpcID subnetID)))"

definition spanned_LinodeObjectStorageClient :: "('s \<times> span list) LinodeObjectStorageClient \<Rightarrow> bool" where
  "spanned_LinodeObjectStorageClient c = (
     (\<forall>regionID label. spanned ''GetObjectStorageBucket'' snd (lc_GetObjectStorageBucket c regionID label)) \<and>
     (\<forall>opts. spanned ''CreateObjectStorageBucket'' snd (lc_CreateObjectStorageBucket c opts)) \<and>
     (\<forall>clusterOrRegionID label. spanned ''GetObjectStorageBucketAccess'' snd (lc_GetObjectStorageBucketAccess c clusterOrRegionID label)) \<and>
     (\<forall>clusterOrRegionID label opts. spanned ''UpdateObjectStorageBucketAccess'' id (lc_UpdateObjectStorageBucketAccess c clusterOrRegionID label opts)) \<and>
     (\<forall>keyID. spanned ''GetObjectStorageKey'' snd (lc_GetObjectStorageKey c keyID)) \<and>
     (\<forall>opts. spanned ''CreateObjectStorageKey'' snd (lc_CreateObjectStorageKey c opts)) \<and>
     (\<forall>keyID. spanned ''DeleteObjectStorageKey'' id (lc_DeleteObjectStorageKey c keyID)) \<and>
     (\<forall>regionID label. spanned ''DeleteObjectStorageBucket'' id (lc_DeleteObjectStorageBucket c regionID label)))"

definition spanned_LinodeDNSClient :: "('s \<times> span list) LinodeDNSClient \<Rightarrow> bool" where
  "spanned_LinodeDNSClient c = (
     (\<forall>domainID recordReq. spanned ''CreateDomainRecord'' snd (lc_CreateDomainRecord c domainID recordReq)) \<and>
     (\<forall>domainID domainRecordID recordReq. spanned ''UpdateDomainRecord'' snd (lc_UpdateDomainRecord c domainID domainRecordID recordReq)) \<and>
     (\<forall>domainID opts. spanned ''ListDomainRecords'' snd (lc_ListDomainRecords c domainID opts)) \<and>
     (\<forall>opts. spanned ''ListDomains'' snd (lc_ListDomains c opts)) \<and>
     (\<forall>domainID domainRecordID. spanned ''DeleteDomainRecord'' id (lc_DeleteDomainRecord c domainID domainRecordID)))"

definition spanned_LinodePlacementGroupClient :: "('s \<times> span list) LinodePlacementGroupClient \<Rightarrow> bool" where
  "spanned_LinodePlacementGroupClient c = (
     (\<forall>pgID. spanned ''GetPlacementGroup'' snd (lc_GetPlacementGroup c pgID)) \<and>
     (\<forall>options. spanned ''ListPlacementGroups'' snd (lc_ListPlacementGroups c options)) \<and>
     (\<forall>opts. spanned ''CreatePlacementGroup'' snd (lc_CreatePlacementGroup c opts)) \<and>
     (\<forall>pgID. spanned ''DeletePlacementGroup'' id (lc_DeletePlacementGroup c pgID)) \<and>
     (\<forall>pgID options. spanned ''UpdatePlacementGroup'' snd (lc_UpdatePlacementGroup c pgID options)) \<and>
     (\<forall>pgID options. spanned ''AssignPlacementGroupLinodes'' snd (lc_AssignPlacementGroupLinodes c pgID options)) \<and>
     (\<forall>pgID options. spanned ''UnassignPlacementGroupLinodes'' snd (lc_UnassignPlacementGroupLinodes c pgID options)))"

definition spanned_LinodeFirewallClient :: "('s \<times> span list) LinodeFirewallClient \<Rightarrow> bool" where
  "spanned_LinodeFirewallClient c = (
     (\<forall>opts. spanned ''CreateFirewall'' snd (lc_CreateFirewall c opts)) \<and>
     (\<forall>firewallID. spanned ''GetFirewall'' snd (lc_GetFirewall c firewallID)) \<and>
     (\<forall>options. spanned ''ListFirewalls'' snd (lc_ListFirewalls c options)) \<and>
     (\<forall>firewallID deviceID. spanned ''GetFirewallDevice'' snd (lc_GetFirewallDevice c firewallID deviceID)) \<and>
     (\<forall>firewallID. spanned ''GetFirewallRules'' snd (lc_GetFirewallRules c firewallID)) \<and>
     (\<forall>firewallID opts. spanned ''UpdateFirewall'' snd (lc_UpdateFirewall c firewallID opts)) \<and>
     (\<forall>firewallID rules. spanned ''UpdateFirewallRules'' snd (lc_UpdateFirewallRules c firewallID rules)) \<and>
     (\<forall>firewallID. spanned ''DeleteFirewall'' id (lc_DeleteFirewall c firewallID)) \<and>
     (\<forall>firewallID deviceID. spanned ''DeleteFirewallDevice'' id (lc_DeleteFirewallDevice c firewallID deviceID)))"

definition spanned_LinodeInterfacesClient :: "('s \<times> span list) LinodeInterfacesClient \<Rightarrow> bool" where
  "spanned_LinodeInterfacesClient c = (
     (\<forall>linodeID opts. spanned ''ListInterfaces'' snd (lc_ListInterfaces c linodeID opts)) \<and>
     (\<forall>linodeID interfaceID opts. spanned ''ListInterfaceFirewalls'' snd (lc_ListInterfaceFirewalls c linodeID interfaceID opts)))"

definition spannedClient :: "('s \<times> span list) LinodeClient \<Rightarrow> bool" where
  "spannedClient c = (
     spanned_LinodeNodeBalancerClient (as_LinodeNodeBalancerClient c) \<and>
     spanned_LinodeInstanceClient (as_LinodeInstanceClient c) \<and>
     spanned_LinodeVPCClient (as_LinodeVPCClient c) \<and>
     spanned_LinodeObjectStorageClient (as_LinodeObjectStorageClient c) \<and>
     spanned_LinodeDNSClient (as_LinodeDNSClient c) \<and>
     spanned_LinodePlacementGroupClient (as_LinodePlacementGroupClient c) \<and>
     spanned_LinodeFirewallClient (as_LinodeFirewallClient c) \<and>
     spanned_LinodeInterfacesClient (as_LinodeInterfacesClient c))"

lemmas traced_defs =
  Traced_AssignPlacementGroupLinodes_def
  Traced_BootInstance_def
  Traced_CreateDomainRecord_def
  Traced_CreateFirewall_def
  Traced_CreateInstance_def
  Traced_CreateInstanceDisk_def
  Traced_CreateNodeBalancer_def
  Traced_CreateNodeBalancerConfig_def
  Traced_CreateNodeBalancerNode_def
  Traced_CreateObjectStorageBucket_def
  Traced_CreateObjectStorageKey_def
  Traced_CreatePlacementGroup_def
  Traced_CreateVPC_def
  Traced_CreateVPCSubnet_def
  Traced_DeleteDomainRecord_def
  Traced_DeleteFirewall_def
  Traced_DeleteFirewallDevice_def
  Traced_DeleteInstance_def
  Traced_DeleteNodeBalancer_def
  Traced_DeleteNodeBalancerNode_def
  Traced_DeleteObjectStorageBucket_def
  Traced_DeleteObjectStorageKey_def
  Traced_DeletePlacementGroup_def
  Traced_DeleteVPC_def
  Traced_DeleteVPCSubnet_def
  Traced_GetFirewall_def
  Traced_GetFirewallDevice_def
  Traced_GetFirewallRules_def
  Traced_GetImage_def
  Traced_GetInstance_def
  Traced_GetInstanceIPAddresses_def
  Traced_GetNodeBalancer_def
  Traced_GetNodeBalancerConfig_def
  Traced_GetObjectStorageBucket_def
  Traced_GetObjectStorageBucketAccess_def
  Traced_GetObjectStorageKey_def
  Traced_GetPlacementGroup_def
  Traced_GetRegion_def
  Traced_GetType_def
  Traced_GetVPC_def
  Traced_ListDomainRecords_def
  Traced_ListDomains_def
  Traced_ListFirewalls_def
  Traced_ListInstanceConfigs_def
  Traced_ListInstanceFirewalls_def
  Traced_ListInstances_def
  Traced_ListInterfaceFirewalls_def
  Traced_ListInterfaces_def
  Traced_ListNodeBalancerNodes_def
  Traced_ListNodeBalancers_def
  Traced_ListPlacementGroups_def
  Traced_ListVPCs_def
  Traced_UnassignPlacementGroupLinodes_def
  Traced_UpdateDomainRecord_def
  Traced_UpdateFirewall_def
  Traced_UpdateFirewallRules_def
  Traced_UpdateInstance_def
  Traced_UpdateInstanceConfig_def
  Traced_UpdateInstanceFirewalls_def
  Traced_UpdateObjectStorageBucketAccess_def
  Traced_UpdatePlacementGroup_def
  Traced_UpdateVPC_def

lemmas spanned_defs = spannedClient_def spanned_LinodeNodeBalancerClient_def spanned_LinodeInstanceClient_def spanned_LinodeVPCClient_def spanned_LinodeObjectStorageClient_def spanned_LinodeDNSClient_def spanned_LinodePlacementGroupClient_def spanned_LinodeFirewallClient_def spanned_LinodeInterfacesClient_def

lemma unobserved_traced: "unobserved spans (withTracing deco name params results errOf (untraced m)) = m"
  by (rule State_Monad.state.expand) (simp add: unobserved_def run_withTracing fun_eq_iff split: prod.split)

lemma unobserved_calls [simp]:
  "unobserved spans (answeringCall deco method res params (untraced a)) = a"
  "unobserved spans (failingCall deco method params (untraced f)) = f"
  by (simp_all add: answeringCall_def failingCall_def unobserved_traced)

lemma spanned_calls [simp]:
  "spanned method snd (answeringCall deco method res params (untraced a))"
  "spanned method id (failingCall deco method params (untraced f))"
  by (simp_all add: spanned_def answeringCall_def failingCall_def run_withTracing endedOnce_deferred RecordError_deferred split: prod.split)

text \<open>
C31: The traced client of the Linode API answers and acts as the client it wraps, method by method, with any decorator
or none: without its spans it is that client. Every call leaves exactly one span, which bears the name of the
method, has ended once and last, and records an error exactly when the call returned it.
\<close>

theorem traced_client_equivalent:
  "unobservedClient spans (NewLinodeClientWithTracing (plainClient c) decos) = c
   \<and> spannedClient (NewLinodeClientWithTracing (plainClient c) decos)"
  by (simp add: unobservedClient_def NewLinodeClientWithTracing_def plainClient_def spanned_defs traced_defs Let_def)

end
