(* ===== verification/GoMemory.thy ===== *)
theory GoMemory
  imports Main
begin

text \<open>
  Go memory for the deep copies of \<open>api/v1alpha2/zz_generated.deepcopy.go\<close>: values with pointers, slices and maps
  over a store of cells, the types that say how a value is read, and the statements the generated functions
  consist of. The locale \<open>reader\<close> has what reading promises (it depends on its own cells only), the locale
  \<open>deep_copier\<close> what a deep copy promises, with the independence of copy and original proved once.
\<close>

named_theorems deep_rules \<open>compositional rules for deep copies\<close>

section \<open>Values, cells and types\<close>

text \<open>
  A slice is a window of an array; a struct has the fields of its declaration in their order. A cell is never
  freed or reused while a value points to it, so the store only grows: an address is an index.
\<close>

datatype gv =
    VInt int
  | VBool bool
  | VString string
  | VNil
  | VPtr nat
  | VSlice nat nat nat
  | VMap nat
  | VStruct "(string \<times> gv) list"

datatype cell = CVal gv | CArr "gv list" | CMap "(string \<times> gv) list"

type_synonym mem = "cell list"

definition cellAt :: "mem \<Rightarrow> nat \<Rightarrow> cell option" where
  "cellAt h a = (if a < length h then Some (h ! a) else None)"

datatype gotype =
    TyInt
  | TyBool
  | TyString
  | TyPtr gotype
  | TySlice gotype
  | TyMap gotype
  | TyStruct "(string \<times> gotype) list"

text \<open>What a value stands for, with every pointer followed.\<close>

datatype gotree =
    TInt int
  | TBool bool
  | TString string
  | TNil
  | TPtr gotree
  | TSlice "gotree list"
  | TMap "(string \<times> gotree) list"
  | TStruct "(string \<times> gotree) list"


section \<open>Reading\<close>

text \<open>A reader yields what a value stands for and the addresses it has followed; \<open>None\<close> for a value of another type.\<close>

type_synonym reader = "mem \<Rightarrow> gv \<Rightarrow> (gotree \<times> nat list) option"

definition readPtr :: "reader \<Rightarrow> reader" where
  "readPtr r h v = (case v of
     VNil \<Rightarrow> Some (TNil, [])
   | VPtr a \<Rightarrow> (case cellAt h a of
       Some (CVal x) \<Rightarrow> map_option (\<lambda>(t, as). (TPtr t, a # as)) (r h x)
     | _ \<Rightarrow> None)
   | _ \<Rightarrow> None)"

primrec readList :: "reader \<Rightarrow> mem \<Rightarrow> gv list \<Rightarrow> (gotree list \<times> nat list) option" where
  "readList r h [] = Some ([], [])"
| "readList r h (v # vs) = (case r h v of
     None \<Rightarrow> None
   | Some (t, as) \<Rightarrow> map_option (\<lambda>(ts, bs). (t # ts, as @ bs)) (readList r h vs))"

definition readSlice :: "reader \<Rightarrow> reader" where
  "readSlice r h v = (case v of
     VNil \<Rightarrow> Some (TNil, [])
   | VSlice a off n \<Rightarrow> (case cellAt h a of
       Some (CArr xs) \<Rightarrow> if off + n \<le> length xs
         then map_option (\<lambda>(ts, as). (TSlice ts, a # as)) (readList r h (take n (drop off xs))) else None
     | _ \<Rightarrow> None)
   | _ \<Rightarrow> None)"

definition readMap :: "reader \<Rightarrow> reader" where
  "readMap r h v = (case v of
     VNil \<Rightarrow> Some (TNil, [])
   | VMap a \<Rightarrow> (case cellAt h a of
       Some (CMap kvs) \<Rightarrow> map_option (\<lambda>(ts, as). (TMap (zip (map fst kvs) ts), a # as)) (readList r h (map snd kvs))
     | _ \<Rightarrow> None)
   | _ \<Rightarrow> None)"

fun readFields :: "(string \<times> reader) list \<Rightarrow> mem \<Rightarrow> (string \<times> gv) list \<Rightarrow> ((string \<times> gotree) list \<times> nat list) option" where
  "readFields [] h [] = Some ([], [])"
| "readFields ((n, r) # rs) h ((m, v) # vs) = (if m \<noteq> n then None else case r h v of
     None \<Rightarrow> None
   | Some (t, as) \<Rightarrow> map_option (\<lambda>(ts, bs). ((n, t) # ts, as @ bs)) (readFields rs h vs))"
| "readFields _ _ _ = None"

definition readStruct :: "(string \<times> reader) list \<Rightarrow> reader" where
  "readStruct rs h v = (case v of VStruct vs \<Rightarrow> map_option (\<lambda>(ts, as). (TStruct ts, as)) (readFields rs h vs) | _ \<Rightarrow> None)"

primrec read :: "gotype \<Rightarrow> reader" where
  "read TyInt = (\<lambda>h v. case v of VInt i \<Rightarrow> Some (TInt i, []) | _ \<Rightarrow> None)"
| "read TyBool = (\<lambda>h v. case v of VBool b \<Rightarrow> Some (TBool b, []) | _ \<Rightarrow> None)"
| "read TyString = (\<lambda>h v. case v of VString s \<Rightarrow> Some (TString s, []) | _ \<Rightarrow> None)"
| "read (TyPtr T) = readPtr (read T)"
| "read (TySlice T) = readSlice (read T)"
| "read (TyMap T) = readMap (read T)"
| "read (TyStruct fs) = readStruct (map (map_prod id read) fs)"

text \<open>What a reader promises: the value lies in allocated cells, and no other cell matters.\<close>

definition agree :: "nat list \<Rightarrow> mem \<Rightarrow> mem \<Rightarrow> bool" where
  "agree as h h' = (\<forall>a \<in> set as. cellAt h' a = cellAt h a)"

definition within :: "mem \<Rightarrow> nat list \<Rightarrow> bool" where
  "within h as = (\<forall>a \<in> set as. a < length h)"

lemma agree_simps [simp]:
  "agree [] h h'"
  "agree (a # as) h h' = (cellAt h' a = cellAt h a \<and> agree as h h')"
  "agree (as @ bs) h h' = (agree as h h' \<and> agree bs h h')"
  by (auto simp: agree_def)

lemma within_simps [simp]:
  "within h []"
  "within h (a # as) = (a < length h \<and> within h as)"
  "within h (as @ bs) = (within h as \<and> within h bs)"
  by (auto simp: within_def)

lemma within_mono: "within h as \<Longrightarrow> length h \<le> length h' \<Longrightarrow> within h' as"
  by (auto simp: within_def)

lemma agree_grown: "within h as \<Longrightarrow> agree as h (h @ ys)"
  by (auto simp: agree_def within_def cellAt_def nth_append)

lemma agree_written: "a \<notin> set as \<Longrightarrow> agree as h (h[a := x])"
  by (auto simp: agree_def cellAt_def nth_list_update intro: nth_list_update_neq)

lemma cellAt_bound: "cellAt h a = Some c \<Longrightarrow> a < length h"
  by (simp add: cellAt_def split: if_splits)

locale reader =
  fixes r :: reader
  assumes frame: "r h v = Some (t, as) \<Longrightarrow> agree as h h' \<Longrightarrow> r h' v = Some (t, as)"
    and bound: "r h v = Some (t, as) \<Longrightarrow> within h as"
begin

lemma list_frame: "readList r h vs = Some (ts, as) \<Longrightarrow> agree as h h' \<Longrightarrow> readList r h' vs = Some (ts, as)"
  by (induction vs arbitrary: ts as) (auto split: option.splits dest: frame [where h' = h'])

lemma list_bound: "readList r h vs = Some (ts, as) \<Longrightarrow> within h as"
  by (induction vs arbitrary: ts as) (auto split: option.splits dest: bound)

lemma grown: "r h v = Some (t, as) \<Longrightarrow> r (h @ ys) v = Some (t, as)"
  by (blast intro: frame agree_grown bound)

lemma list_grown: "readList r h vs = Some (ts, as) \<Longrightarrow> readList r (h @ ys) vs = Some (ts, as)"
  by (blast intro: list_frame agree_grown list_bound)

lemma written: "r h v = Some (t, as) \<Longrightarrow> a \<notin> set as \<Longrightarrow> r (h[a := x]) v = Some (t, as)"
  by (blast intro: frame agree_written)

end

lemma reader_Ptr:
  assumes "reader r"
  shows "reader (readPtr r)"
proof
  show "readPtr r h' v = Some (t, as)" if "readPtr r h v = Some (t, as)" and "agree as h h'" for h h' v t as
    using that by (auto simp: readPtr_def split: gv.splits option.splits cell.splits dest: reader.frame [OF assms, where h' = h'])
  show "within h as" if "readPtr r h v = Some (t, as)" for h v t as
    using that by (auto simp: readPtr_def split: gv.splits option.splits cell.splits dest: reader.bound [OF assms] cellAt_bound)
qed

lemma reader_Slice:
  assumes "reader r"
  shows "reader (readSlice r)"
proof
  show "readSlice r h' v = Some (t, as)" if "readSlice r h v = Some (t, as)" and "agree as h h'" for h h' v t as
    using that by (auto simp: readSlice_def split: gv.splits option.splits cell.splits if_splits dest: reader.list_frame [OF assms, where h' = h'])
  show "within h as" if "readSlice r h v = Some (t, as)" for h v t as
    using that by (auto simp: readSlice_def split: gv.splits option.splits cell.splits if_splits dest: reader.list_bound [OF assms] cellAt_bound)
qed

lemma reader_Map:
  assumes "reader r"
  shows "reader (readMap r)"
proof
  show "readMap r h' v = Some (t, as)" if "readMap r h v = Some (t, as)" and "agree as h h'" for h h' v t as
    using that by (auto simp: readMap_def split: gv.splits option.splits cell.splits dest: reader.list_frame [OF assms, where h' = h'])
  show "within h as" if "readMap r h v = Some (t, as)" for h v t as
    using that by (auto simp: readMap_def split: gv.splits option.splits cell.splits dest: reader.list_bound [OF assms] cellAt_bound)
qed

lemma reader_fields:
  assumes "list_all reader (map snd rs)" and "readFields rs h vs = Some (ts, as)"
  shows "agree as h h' \<Longrightarrow> readFields rs h' vs = Some (ts, as)" and "within h as"
  using assms by (induction rs h vs arbitrary: ts as rule: readFields.induct)
    (auto split: option.splits if_splits dest: reader.frame [where h' = h'] reader.bound)

lemma reader_Struct:
  assumes "list_all reader (map snd rs)"
  shows "reader (readStruct rs)"
proof
  show "readStruct rs h' v = Some (t, as)" if "readStruct rs h v = Some (t, as)" and "agree as h h'" for h h' v t as
    using that by (auto simp: readStruct_def split: gv.splits dest: reader_fields(1) [OF assms, where h' = h'])
  show "within h as" if "readStruct rs h v = Some (t, as)" for h v t as
    using that by (auto simp: readStruct_def split: gv.splits dest: reader_fields(2) [OF assms])
qed

lemma reader_read: "reader (read T)"
proof (induction T)
  case (TyStruct fs)
  then show ?case by (auto simp: list_all_iff intro!: reader_Struct)
next
  case (TyPtr T)
  then show ?case by (simp add: reader_Ptr)
next
  case (TySlice T)
  then show ?case by (simp add: reader_Slice)
next
  case (TyMap T)
  then show ?case by (simp add: reader_Map)
qed (unfold_locales, auto split: gv.splits)

interpretation rd: reader "read T" for T
  by (rule reader_read)


section \<open>The statements of deep copies\<close>

text \<open>
  A function \<open>DeepCopyInto\<close> maps the memory and the value of \<open>*in\<close> to the value it leaves in \<open>*out\<close> and the memory
  afterwards. A new cell, slice or map is entered with its final contents.
\<close>

type_synonym copier = "mem \<Rightarrow> gv \<Rightarrow> gv \<times> mem"

text \<open>\<open>out.X = in.X\<close>, \<open>**out = **in\<close>, and the elements of \<open>copy(*out, *in)\<close> and of \<open>(*out)[key] = val\<close>.\<close>

definition same :: copier where
  "same h v = (v, h)"

text \<open>\<open>if in.X != nil { *out = new(T); ... }\<close>\<close>

definition copyPtr :: "copier \<Rightarrow> copier" where
  "copyPtr c h v = (case v of
     VPtr a \<Rightarrow> (case cellAt h a of
       Some (CVal x) \<Rightarrow> (case c h x of (y, h') \<Rightarrow> (VPtr (length h'), h' @ [CVal y]))
     | _ \<Rightarrow> (v, h))
   | _ \<Rightarrow> (v, h))"

primrec copyList :: "copier \<Rightarrow> mem \<Rightarrow> gv list \<Rightarrow> gv list \<times> mem" where
  "copyList c h [] = ([], h)"
| "copyList c h (x # xs) = (case c h x of (y, h') \<Rightarrow> (case copyList c h' xs of (ys, h'') \<Rightarrow> (y # ys, h'')))"

text \<open>\<open>if in.X != nil { *out = make([]T, len(*in)); for i := range *in { ... } }\<close>\<close>

definition copySlice :: "copier \<Rightarrow> copier" where
  "copySlice c h v = (case v of
     VSlice a off n \<Rightarrow> (case cellAt h a of
       Some (CArr xs) \<Rightarrow> (case copyList c h (take n (drop off xs)) of (ys, h') \<Rightarrow> (VSlice (length h') 0 n, h' @ [CArr ys]))
     | _ \<Rightarrow> (v, h))
   | _ \<Rightarrow> (v, h))"

text \<open>\<open>if in.X != nil { *out = make(map[string]T, len(*in)); for key, val := range *in { ... } }\<close>\<close>

definition copyMap :: "copier \<Rightarrow> copier" where
  "copyMap c h v = (case v of
     VMap a \<Rightarrow> (case cellAt h a of
       Some (CMap kvs) \<Rightarrow> (case copyList c h (map snd kvs) of (ys, h') \<Rightarrow> (VMap (length h'), h' @ [CMap (zip (map fst kvs) ys)]))
     | _ \<Rightarrow> (v, h))
   | _ \<Rightarrow> (v, h))"

text \<open>\<open>*out = *in\<close>, then the statements for some of the fields, each from the field of \<open>in\<close> to that of \<open>out\<close>.\<close>

definition setField :: "string \<Rightarrow> gv \<Rightarrow> (string \<times> gv) list \<Rightarrow> (string \<times> gv) list" where
  "setField n v = map (\<lambda>(m, x). (m, if m = n then v else x))"

primrec copyFields :: "(string \<times> copier) list \<Rightarrow> mem \<Rightarrow> (string \<times> gv) list \<Rightarrow> (string \<times> gv) list \<Rightarrow> (string \<times> gv) list \<times> mem" where
  "copyFields [] h ins outs = (outs, h)"
| "copyFields (s # ss) h ins outs = (case map_of ins (fst s) of
     None \<Rightarrow> copyFields ss h ins outs
   | Some v \<Rightarrow> (case snd s h v of (y, h') \<Rightarrow> copyFields ss h' ins (setField (fst s) y outs)))"

definition copyInto :: "(string \<times> copier) list \<Rightarrow> copier" where
  "copyInto ss h v = (case v of VStruct vs \<Rightarrow> (case copyFields ss h vs vs of (ws, h') \<Rightarrow> (VStruct ws, h')) | _ \<Rightarrow> (v, h))"

text \<open>\<open>DeepCopy\<close> and \<open>DeepCopyObject\<close>, the same for every type.\<close>

definition newCopy :: "copier \<Rightarrow> copier" where
  "newCopy deepCopyInto h p = (if p = VNil then (VNil, h) else copyPtr deepCopyInto h p)"

definition asObject :: "copier \<Rightarrow> copier" where
  "asObject deepCopy h p = (case deepCopy h p of (c, h') \<Rightarrow> if c \<noteq> VNil then (c, h') else (VNil, h'))"


section \<open>What a deep copy promises\<close>

definition fresh :: "mem \<Rightarrow> nat list \<Rightarrow> bool" where
  "fresh h as = (\<forall>a \<in> set as. length h \<le> a)"

lemma fresh_simps [simp]:
  "fresh h []"
  "fresh h (a # as) = (length h \<le> a \<and> fresh h as)"
  "fresh h (as @ bs) = (fresh h as \<and> fresh h bs)"
  by (auto simp: fresh_def)

lemma fresh_grown: "fresh (h @ ys) as \<Longrightarrow> fresh h as"
  by (auto simp: fresh_def)

locale deep_copier =
  fixes T :: gotype and c :: copier
  assumes copied: "read T h v = Some (t, as) \<Longrightarrow> \<exists>v' ys bs. c h v = (v', h @ ys) \<and> read T (h @ ys) v' = Some (t, bs) \<and> fresh h bs"
begin

text \<open>
  The copy stands for the same; the original is as it was; they have no cell in common; and whatever is written
  to a cell of the one, the other stands for what it did.
\<close>

lemma independent:
  assumes "read T h v = Some (t, as)" and "c h v = (v', h')"
  shows "\<exists>bs. read T h' v = Some (t, as) \<and> read T h' v' = Some (t, bs) \<and> set as \<inter> set bs = {}
    \<and> (\<forall>a x. a \<in> set bs \<longrightarrow> read T (h'[a := x]) v = Some (t, as))
    \<and> (\<forall>a x. a \<in> set as \<longrightarrow> read T (h'[a := x]) v' = Some (t, bs))"
proof -
  obtain ys bs where h': "h' = h @ ys" and copy: "read T h' v' = Some (t, bs)" and "fresh h bs"
    using copied [OF assms(1)] assms(2) by auto
  moreover have orig: "read T h' v = Some (t, as)" unfolding h' by (rule rd.grown [OF assms(1)])
  moreover have "within h as" by (rule rd.bound [OF assms(1)])
  ultimately have "set as \<inter> set bs = {}" by (force simp: within_def fresh_def)
  with orig copy show ?thesis by (blast intro: rd.written)
qed

lemma list_copied:
  "readList (read T) h vs = Some (ts, as) \<Longrightarrow>
   \<exists>ws ys bs. copyList c h vs = (ws, h @ ys) \<and> readList (read T) (h @ ys) ws = Some (ts, bs) \<and> fresh h bs"
proof (induction vs arbitrary: h ts as)
  case (Cons v vs)
  then obtain t as1 ts' as2 where v: "read T h v = Some (t, as1)" and vs: "readList (read T) h vs = Some (ts', as2)" and ts: "ts = t # ts'"
    by (auto split: option.splits)
  obtain v' ys bs where c: "c h v = (v', h @ ys)" "read T (h @ ys) v' = Some (t, bs)" "fresh h bs"
    using copied [OF v] by auto
  obtain ws zs ds where cs: "copyList c (h @ ys) vs = (ws, (h @ ys) @ zs)" "readList (read T) ((h @ ys) @ zs) ws = Some (ts', ds)" "fresh (h @ ys) ds"
    using Cons.IH [OF rd.list_grown [OF vs]] by blast
  show ?case
    using c cs ts rd.grown [OF c(2), of zs] fresh_grown [OF cs(3)] by (auto intro!: exI [of _ "ys @ zs"])
qed simp

end

primrec plain :: "gotype \<Rightarrow> bool" where
  "plain TyInt = True"
| "plain TyBool = True"
| "plain TyString = True"
| "plain (TyPtr _) = False"
| "plain (TySlice _) = False"
| "plain (TyMap _) = False"
| "plain (TyStruct fs) = list_all snd (map (map_prod id plain) fs)"

lemma plain_fields:
  assumes "readFields (map (map_prod id read) fs) h vs = Some (ts, as)" and "\<And>n T v t as. (n, T) \<in> set fs \<Longrightarrow> read T h v = Some (t, as) \<Longrightarrow> as = []"
  shows "as = []"
  using assms
proof (induction fs arbitrary: vs ts as)
  case Nil
  then show ?case by (cases vs) auto
next
  case (Cons f fs)
  then show ?case by (cases f; cases vs) (fastforce split: option.splits if_splits)+
qed

lemma plain_read: "plain T \<Longrightarrow> read T h v = Some (t, as) \<Longrightarrow> as = []"
proof (induction T arbitrary: v t as)
  case (TyStruct fs)
  have "x = []" if "(n, T) \<in> set fs" "read T h w = Some (u, x)" for n T w u x
    using TyStruct.IH [of "(n, T)" T w u x] that TyStruct.prems(1) by (force simp: list_all_iff)
  with TyStruct.prems(2) show ?case by (auto simp: readStruct_def split: gv.splits dest!: plain_fields)
qed (auto split: gv.splits)


section \<open>Rules\<close>

lemma deep_same [deep_rules]: "plain T \<Longrightarrow> deep_copier T same"
  by unfold_locales (auto simp: same_def dest: plain_read)

lemma deep_Ptr [deep_rules]: "deep_copier T c \<Longrightarrow> deep_copier (TyPtr T) (copyPtr c)"
proof
  fix h v t as
  assume deep: "deep_copier T c" and "read (TyPtr T) h v = Some (t, as)"
  then consider "v = VNil" "t = TNil" | a x t' bs where "v = VPtr a" "cellAt h a = Some (CVal x)" "read T h x = Some (t', bs)" "t = TPtr t'"
    by (auto simp: readPtr_def split: gv.splits option.splits cell.splits)
  then show "\<exists>v' ys bs. copyPtr c h v = (v', h @ ys) \<and> read (TyPtr T) (h @ ys) v' = Some (t, bs) \<and> fresh h bs"
  proof cases
    case 1
    then show ?thesis by (simp add: copyPtr_def readPtr_def)
  next
    case 2
    from deep_copier.copied [OF deep 2(3)] obtain y ys ds
      where y: "c h x = (y, h @ ys)" "read T (h @ ys) y = Some (t', ds)" "fresh h ds" by auto
    from rd.grown [OF y(2), of "[CVal y]"] have "read T (h @ ys @ [CVal y]) y = Some (t', ds)" by simp
    with 2 y show ?thesis by (auto simp: copyPtr_def readPtr_def cellAt_def nth_append intro!: exI [of _ "ys @ [CVal y]"])
  qed
qed

lemma readList_length: "readList r h vs = Some (ts, as) \<Longrightarrow> length ts = length vs"
  by (induction vs arbitrary: ts as) (auto split: option.splits)

lemma deep_Slice [deep_rules]: "deep_copier T c \<Longrightarrow> deep_copier (TySlice T) (copySlice c)"
proof
  fix h v t as
  assume deep: "deep_copier T c" and "read (TySlice T) h v = Some (t, as)"
  then consider "v = VNil" "t = TNil"
    | a off n xs ts bs where "v = VSlice a off n" "cellAt h a = Some (CArr xs)" "off + n \<le> length xs"
        "readList (read T) h (take n (drop off xs)) = Some (ts, bs)" "t = TSlice ts"
    by (auto simp: readSlice_def split: gv.splits option.splits cell.splits if_splits)
  then show "\<exists>v' ys bs. copySlice c h v = (v', h @ ys) \<and> read (TySlice T) (h @ ys) v' = Some (t, bs) \<and> fresh h bs"
  proof cases
    case 1
    then show ?thesis by (simp add: copySlice_def readSlice_def)
  next
    case 2
    from deep_copier.list_copied [OF deep 2(4)] obtain ws ys ds
      where w: "copyList c h (take n (drop off xs)) = (ws, h @ ys)" "readList (read T) (h @ ys) ws = Some (ts, ds)" "fresh h ds" by auto
    from rd.list_grown [OF w(2), of "[CArr ws]"] have "readList (read T) (h @ ys @ [CArr ws]) ws = Some (ts, ds)" by simp
    moreover have "length ws = n" using readList_length [OF w(2)] readList_length [OF 2(4)] 2(3) by simp
    ultimately show ?thesis
      using 2 w by (auto simp: copySlice_def readSlice_def cellAt_def nth_append intro!: exI [of _ "ys @ [CArr ws]"])
  qed
qed

lemma deep_Map [deep_rules]: "deep_copier T c \<Longrightarrow> deep_copier (TyMap T) (copyMap c)"
proof
  fix h v t as
  assume deep: "deep_copier T c" and "read (TyMap T) h v = Some (t, as)"
  then consider "v = VNil" "t = TNil"
    | a kvs ts bs where "v = VMap a" "cellAt h a = Some (CMap kvs)" "readList (read T) h (map snd kvs) = Some (ts, bs)" "t = TMap (zip (map fst kvs) ts)"
    by (auto simp: readMap_def split: gv.splits option.splits cell.splits)
  then show "\<exists>v' ys bs. copyMap c h v = (v', h @ ys) \<and> read (TyMap T) (h @ ys) v' = Some (t, bs) \<and> fresh h bs"
  proof cases
    case 1
    then show ?thesis by (simp add: copyMap_def readMap_def)
  next
    case 2
    from deep_copier.list_copied [OF deep 2(3)] obtain ws ys ds
      where w: "copyList c h (map snd kvs) = (ws, h @ ys)" "readList (read T) (h @ ys) ws = Some (ts, ds)" "fresh h ds" by auto
    let ?m = "CMap (zip (map fst kvs) ws)"
    from rd.list_grown [OF w(2), of "[?m]"] have "readList (read T) (h @ ys @ [?m]) ws = Some (ts, ds)" by simp
    moreover have "length ws = length kvs" using readList_length [OF w(2)] readList_length [OF 2(3)] by simp
    ultimately show ?thesis
      using 2 w by (auto simp: copyMap_def readMap_def cellAt_def nth_append intro!: exI [of _ "ys @ [?m]"])
  qed
qed

text \<open>
  A struct: the statements follow the fields in the order of their declaration, each is a deep copy for the type
  of its field, and a field without a statement has no pointers.
\<close>

fun fieldsDeep :: "(string \<times> gotype) list \<Rightarrow> (string \<times> copier) list \<Rightarrow> bool" where
  "fieldsDeep [] ss = (ss = [])"
| "fieldsDeep ((n, T) # fs) [] = (plain T \<and> fieldsDeep fs [])"
| "fieldsDeep ((n, T) # fs) ((m, c) # ss) = (if m = n then deep_copier T c \<and> fieldsDeep fs ss else plain T \<and> fieldsDeep fs ((m, c) # ss))"

lemma setField_append: "n \<notin> fst ` set ws \<Longrightarrow> n \<notin> fst ` set vs \<Longrightarrow> setField n y (ws @ (n, v) # vs) = (ws @ [(n, y)]) @ vs"
  by (force simp: setField_def intro!: map_idI)

lemma fields_grown:
  "readFields (map (map_prod id read) fs) h vs = Some (ts, as) \<Longrightarrow> readFields (map (map_prod id read) fs) (h @ ys) vs = Some (ts, as)"
  by (rule reader_fields(1)) (auto simp: list_all_iff reader_read intro!: agree_grown reader_fields(2) [of "map (map_prod id read) fs"])

text \<open>The statements for the rest of the fields, when those of \<open>pre\<close> have been copied to \<open>ws\<close>.\<close>

definition fieldsCopied :: "(string \<times> gotype) list \<Rightarrow> (string \<times> copier) list \<Rightarrow> bool" where
  "fieldsCopied fs ss = (\<forall>h vs ts as pre ws.
     readFields (map (map_prod id read) fs) h vs = Some (ts, as) \<longrightarrow> distinct (map fst (pre @ vs)) \<longrightarrow> map fst ws = map fst pre \<longrightarrow>
     (\<exists>us ys bs. copyFields ss h (pre @ vs) (ws @ vs) = (ws @ us, h @ ys)
       \<and> readFields (map (map_prod id read) fs) (h @ ys) us = Some (ts, bs) \<and> fresh h bs))"

lemma fieldsCopiedD:
  assumes "fieldsCopied fs ss" and "readFields (map (map_prod id read) fs) h vs = Some (ts, as)"
    and "distinct (map fst (pre @ vs))" and "map fst ws = map fst pre"
  obtains us ys bs where "copyFields ss h (pre @ vs) (ws @ vs) = (ws @ us, h @ ys)"
    and "readFields (map (map_prod id read) fs) (h @ ys) us = Some (ts, bs)" and "fresh h bs"
  using assms unfolding fieldsCopied_def by blast

lemma readFields_Cons:
  assumes "readFields (map (map_prod id read) ((n, T) # fs)) h vs = Some (ts, as)"
  obtains v vs' t ts' as1 as2 where "vs = (n, v) # vs'" and "ts = (n, t) # ts'" and "as = as1 @ as2" and "read T h v = Some (t, as1)"
    and "readFields (map (map_prod id read) fs) h vs' = Some (ts', as2)"
  using assms by (cases vs) (auto split: option.splits if_splits)

lemma fieldsCopied_plain:
  assumes "plain T" and rest: "fieldsCopied fs ss"
  shows "fieldsCopied ((n, T) # fs) ss"
  unfolding fieldsCopied_def
proof (intro allI impI)
  fix h vs ts as pre and ws :: "(string \<times> gv) list"
  assume reads: "readFields (map (map_prod id read) ((n, T) # fs)) h vs = Some (ts, as)"
    and dist: "distinct (map fst (pre @ vs))" and names: "map fst ws = map fst pre"
  from reads obtain v vs' t ts' as1 as2 where vs: "vs = (n, v) # vs'" "ts = (n, t) # ts'" and v: "read T h v = Some (t, as1)"
    and vs': "readFields (map (map_prod id read) fs) h vs' = Some (ts', as2)" by (rule readFields_Cons)
  have "as1 = []" by (rule plain_read [OF assms(1) v])
  obtain us ys bs where "copyFields ss h ((pre @ [(n, v)]) @ vs') ((ws @ [(n, v)]) @ vs') = ((ws @ [(n, v)]) @ us, h @ ys)"
    and "readFields (map (map_prod id read) fs) (h @ ys) us = Some (ts', bs)" and "fresh h bs"
    using fieldsCopiedD [OF rest vs', of "pre @ [(n, v)]" "ws @ [(n, v)]"] dist names vs by auto
  with rd.grown [OF v, of ys] \<open>as1 = []\<close> vs show "\<exists>us ys bs. copyFields ss h (pre @ vs) (ws @ vs) = (ws @ us, h @ ys)
       \<and> readFields (map (map_prod id read) ((n, T) # fs)) (h @ ys) us = Some (ts, bs) \<and> fresh h bs"
    by (auto intro!: exI [of _ "(n, v) # us"] exI [of _ ys])
qed

lemma fieldsCopied_deep:
  assumes "deep_copier T c" and rest: "fieldsCopied fs ss"
  shows "fieldsCopied ((n, T) # fs) ((n, c) # ss)"
  unfolding fieldsCopied_def
proof (intro allI impI)
  fix h vs ts as pre and ws :: "(string \<times> gv) list"
  assume reads: "readFields (map (map_prod id read) ((n, T) # fs)) h vs = Some (ts, as)"
    and dist: "distinct (map fst (pre @ vs))" and names: "map fst ws = map fst pre"
  from reads obtain v vs' t ts' as1 as2 where vs: "vs = (n, v) # vs'" "ts = (n, t) # ts'" and v: "read T h v = Some (t, as1)"
    and vs': "readFields (map (map_prod id read) fs) h vs' = Some (ts', as2)" by (rule readFields_Cons)
  obtain y ys ds where y: "c h v = (y, h @ ys)" "read T (h @ ys) y = Some (t, ds)" "fresh h ds"
    using deep_copier.copied [OF assms(1) v] by auto
  obtain us zs bs where u: "copyFields ss (h @ ys) ((pre @ [(n, v)]) @ vs') ((ws @ [(n, y)]) @ vs') = ((ws @ [(n, y)]) @ us, (h @ ys) @ zs)"
    "readFields (map (map_prod id read) fs) ((h @ ys) @ zs) us = Some (ts', bs)" "fresh (h @ ys) bs"
    using fieldsCopiedD [OF rest fields_grown [OF vs', of ys], of "pre @ [(n, v)]" "ws @ [(n, y)]"] dist names vs by auto
  have out: "n \<notin> fst ` set ws" "n \<notin> fst ` set vs'" "n \<notin> fst ` set pre"
    using dist names vs by (auto simp flip: set_map)
  then have "map_of (pre @ vs) n = Some v" "setField n y (ws @ vs) = (ws @ [(n, y)]) @ vs'"
    using vs by (auto simp: map_add_def setField_append split: option.split dest!: map_of_SomeD intro: rev_image_eqI)
  with u y rd.grown [OF y(2), of zs] fresh_grown [OF u(3)] vs
  show "\<exists>us ys bs. copyFields ((n, c) # ss) h (pre @ vs) (ws @ vs) = (ws @ us, h @ ys)
       \<and> readFields (map (map_prod id read) ((n, T) # fs)) (h @ ys) us = Some (ts, bs) \<and> fresh h bs"
    by (auto intro!: exI [of _ "(n, y) # us"] exI [of _ "ys @ zs"])
qed

lemma fields_copied: "fieldsDeep fs ss \<Longrightarrow> fieldsCopied fs ss"
proof (induction fs ss rule: fieldsDeep.induct)
  case (1 ss)
  then show ?case by (auto simp: fieldsCopied_def elim: readFields.elims)
qed (auto intro: fieldsCopied_plain fieldsCopied_deep split: if_splits)

lemma readFields_names: "readFields rs h vs = Some (ts, as) \<Longrightarrow> map fst vs = map fst rs"
  by (induction rs h vs arbitrary: ts as rule: readFields.induct) (auto split: option.splits if_splits)

lemma deep_Into [deep_rules]:
  assumes "distinct (map fst fs)" and "fieldsDeep fs ss"
  shows "deep_copier (TyStruct fs) (copyInto ss)"
proof
  fix h v t as
  assume "read (TyStruct fs) h v = Some (t, as)"
  then obtain vs ts where v: "v = VStruct vs" "t = TStruct ts" and vs: "readFields (map (map_prod id read) fs) h vs = Some (ts, as)"
    by (auto simp: readStruct_def split: gv.splits)
  have "distinct (map fst vs)" using readFields_names [OF vs] assms(1) by (simp add: comp_def map_prod_def split_def)
  then obtain us ys bs where "copyFields ss h vs vs = (us, h @ ys)" "readFields (map (map_prod id read) fs) (h @ ys) us = Some (ts, bs)" "fresh h bs"
    using fieldsCopiedD [OF fields_copied [OF assms(2)] vs, of "[]" "[]"] by auto
  with v show "\<exists>v' ys bs. copyInto ss h v = (v', h @ ys) \<and> read (TyStruct fs) (h @ ys) v' = Some (t, bs) \<and> fresh h bs"
    by (auto simp: copyInto_def readStruct_def)
qed

lemma deep_newCopy [deep_rules]: "deep_copier T c \<Longrightarrow> deep_copier (TyPtr T) (newCopy c)"
proof -
  have "newCopy c = copyPtr c" by (simp add: newCopy_def copyPtr_def fun_eq_iff)
  then show "deep_copier T c \<Longrightarrow> deep_copier (TyPtr T) (newCopy c)" by (simp add: deep_Ptr)
qed

lemma deep_asObject [deep_rules]: "deep_copier T c \<Longrightarrow> deep_copier T (asObject c)"
proof -
  have "asObject c = c" by (auto simp: asObject_def fun_eq_iff split: prod.split)
  then show "deep_copier T c \<Longrightarrow> deep_copier T (asObject c)" by simp
qed

end
