(* ===== verification/DeepCopies.thy ===== *)
theory DeepCopies
  imports GoMemory
begin

text \<open>
  The deep copies of \<open>api/v1alpha2/zz_generated.deepcopy.go\<close>: for each of the 76 structs of the API its type, from
  its declaration, and its methods \<open>DeepCopyInto\<close>, \<open>DeepCopy\<close> and, for objects, \<open>DeepCopyObject\<close>, from the generated
  file. That the methods suit the types is what the lemmas show: no field with a pointer, slice or map was
  left out when the file was generated, and none is copied as something else.

  The layout of the types of other packages and their own deep copies are parameters. The generated code
  relies on two things: types that it copies by assignment have no pointers, and the others copy themselves.
  A \<open>metav1.Time\<close> copies itself by assignment and shares its time zone, a pointer that package \<open>time\<close> never writes through:
  the layout of the type has the time zone as a value.
\<close>

record ext_types =
  layout :: "string \<Rightarrow> gotype"
  extCopy :: "string \<Rightarrow> copier"

definition plainTypes :: "string list" where
  "plainTypes = [''metav1.TypeMeta'', ''metav1.Duration'', ''corev1.ObjectReference'', ''corev1.SecretReference'', ''corev1.SecretType'',
     ''clusterv1.APIEndpoint'', ''clusterv1.MachineAddress'', ''linodego.ConfigInterfacePurpose'', ''linodego.InstanceStatus'',
     ''linodego.InterfaceGeneration'', ''linodego.NetworkProtocol'', ''linodego.VPCIPv4Range'', ''linodego.VPCIPv6Range'']"

definition copiedTypes :: "string list" where
  "copiedTypes = [''metav1.ObjectMeta'', ''metav1.ListMeta'', ''metav1.Condition'', ''metav1.Time'', ''resource.Quantity'']"

definition extLaws :: "ext_types \<Rightarrow> bool" where
  "extLaws X = (list_all (\<lambda>n. plain (layout X n)) plainTypes \<and> list_all (\<lambda>n. deep_copier (layout X n) (extCopy X n)) copiedTypes)"

lemma extLawsD:
  assumes "extLaws X"
  shows "n \<in> set plainTypes \<Longrightarrow> plain (layout X n)" and "n \<in> set copiedTypes \<Longrightarrow> deep_copier (layout X n) (extCopy X n)"
  using assms by (simp_all add: extLaws_def list_all_iff)

lemmas extLawsE = extLawsD [unfolded plainTypes_def copiedTypes_def]


section \<open>\<open>addressset_types.go\<close>\<close>

definition AddressSetSpec_type :: "gotype" where
  "AddressSetSpec_type = TyStruct [(''IPv4'', TyPtr (TySlice TyString)), (''IPv6'', TyPtr (TySlice TyString))]"

definition AddressSetStatus_type :: "gotype" where
  "AddressSetStatus_type = TyStruct []"

definition AddressSet_type :: "ext_types \<Rightarrow> gotype" where
  "AddressSet_type X = TyStruct [(''TypeMeta'', layout X ''metav1.TypeMeta''), (''ObjectMeta'', layout X ''metav1.ObjectMeta''),
     (''Spec'', AddressSetSpec_type), (''Status'', AddressSetStatus_type)]"

definition AddressSetList_type :: "ext_types \<Rightarrow> gotype" where
  "AddressSetList_type X = TyStruct [(''TypeMeta'', layout X ''metav1.TypeMeta''), (''ListMeta'', layout X ''metav1.ListMeta''),
     (''Items'', TySlice (AddressSet_type X))]"

definition AddressSetSpec_DeepCopyInto :: copier where
  "AddressSetSpec_DeepCopyInto = copyInto [(''IPv4'', copyPtr (copySlice same)), (''IPv6'', copyPtr (copySlice same))]"

definition AddressSetSpec_DeepCopy :: copier where
  "AddressSetSpec_DeepCopy = newCopy AddressSetSpec_DeepCopyInto"

definition AddressSetStatus_DeepCopyInto :: copier where
  "AddressSetStatus_DeepCopyInto = copyInto []"

definition AddressSetStatus_DeepCopy :: copier where
  "AddressSetStatus_DeepCopy = newCopy AddressSetStatus_DeepCopyInto"

definition AddressSet_DeepCopyInto :: "ext_types \<Rightarrow> copier" where
  "AddressSet_DeepCopyInto X = copyInto [(''TypeMeta'', same), (''ObjectMeta'', extCopy X ''metav1.ObjectMeta''),
     (''Spec'', AddressSetSpec_DeepCopyInto), (''Status'', same)]"

definition AddressSet_DeepCopy :: "ext_types \<Rightarrow> copier" where
  "AddressSet_DeepCopy X = newCopy (AddressSet_DeepCopyInto X)"

definition AddressSet_DeepCopyObject :: "ext_types \<Rightarrow> copier" where
  "AddressSet_DeepCopyObject X = asObject (AddressSet_DeepCopy X)"

definition AddressSetList_DeepCopyInto :: "ext_types \<Rightarrow> copier" where
  "AddressSetList_DeepCopyInto X = copyInto [(''TypeMeta'', same), (''ListMeta'', extCopy X ''metav1.ListMeta''),
     (''Items'', copySlice (AddressSet_DeepCopyInto X))]"

definition AddressSetList_DeepCopy :: "ext_types \<Rightarrow> copier" where
  "AddressSetList_DeepCopy X = newCopy (AddressSetList_DeepCopyInto X)"

definition AddressSetList_DeepCopyObject :: "ext_types \<Rightarrow> copier" where
  "AddressSetList_DeepCopyObject X = asObject (AddressSetList_DeepCopy X)"

lemmas addressset_deep_defs =
  AddressSetSpec_type_def AddressSetSpec_DeepCopyInto_def
  AddressSetStatus_type_def AddressSetStatus_DeepCopyInto_def
  AddressSet_type_def AddressSet_DeepCopyInto_def
  AddressSetList_type_def AddressSetList_DeepCopyInto_def

lemma addressset_deep [deep_rules]:
  assumes "extLaws X"
  shows "deep_copier AddressSetSpec_type AddressSetSpec_DeepCopyInto"
    and "deep_copier AddressSetStatus_type AddressSetStatus_DeepCopyInto"
    and "deep_copier (AddressSet_type X) (AddressSet_DeepCopyInto X)"
    and "deep_copier (AddressSetList_type X) (AddressSetList_DeepCopyInto X)"
  using assms by (simp_all add: addressset_deep_defs deep_rules extLawsE)


section \<open>\<open>firewallrule_types.go\<close>\<close>

definition NetworkAddresses_type :: "gotype" where
  "NetworkAddresses_type = TyStruct [(''IPv4'', TyPtr (TySlice TyString)), (''IPv6'', TyPtr (TySlice TyString))]"

definition FirewallRuleSpec_type :: "ext_types \<Rightarrow> gotype" where
  "FirewallRuleSpec_type X = TyStruct [(''Action'', TyString), (''Label'', TyString), (''Description'', TyString), (''Ports'', TyString),
     (''Protocol'', layout X ''linodego.NetworkProtocol''), (''Addresses'', TyPtr NetworkAddresses_type),
     (''AddressSetRefs'', TySlice (TyPtr (layout X ''corev1.ObjectReference'')))]"

definition FirewallRuleStatus_type :: "gotype" where
  "FirewallRuleStatus_type = TyStruct []"

definition FirewallRule_type :: "ext_types \<Rightarrow> gotype" where
  "FirewallRule_type X = TyStruct [(''TypeMeta'', layout X ''metav1.TypeMeta''), (''ObjectMeta'', layout X ''metav1.ObjectMeta''),
     (''Spec'', FirewallRuleSpec_type X), (''Status'', FirewallRuleStatus_type)]"

definition FirewallRuleList_type :: "ext_types \<Rightarrow> gotype" where
  "FirewallRuleList_type X = TyStruct [(''TypeMeta'', layout X ''metav1.TypeMeta''), (''ListMeta'', layout X ''metav1.ListMeta''),
     (''Items'', TySlice (FirewallRule_type X))]"

definition NetworkAddresses_DeepCopyInto :: copier where
  "NetworkAddresses_DeepCopyInto = copyInto [(''IPv4'', copyPtr (copySlice same)), (''IPv6'', copyPtr (copySlice same))]"

definition NetworkAddresses_DeepCopy :: copier where
  "NetworkAddresses_DeepCopy = newCopy NetworkAddresses_DeepCopyInto"

definition FirewallRuleSpec_DeepCopyInto :: copier where
  "FirewallRuleSpec_DeepCopyInto = copyInto [(''Addresses'', copyPtr NetworkAddresses_DeepCopyInto),
     (''AddressSetRefs'', copySlice (copyPtr same))]"

definition FirewallRuleSpec_DeepCopy :: copier where
  "FirewallRuleSpec_DeepCopy = newCopy FirewallRuleSpec_DeepCopyInto"

definition FirewallRuleStatus_DeepCopyInto :: copier where
  "FirewallRuleStatus_DeepCopyInto = copyInto []"

definition FirewallRuleStatus_DeepCopy :: copier where
  "FirewallRuleStatus_DeepCopy = newCopy FirewallRuleStatus_DeepCopyInto"

definition FirewallRule_DeepCopyInto :: "ext_types \<Rightarrow> copier" where
  "FirewallRule_DeepCopyInto X = copyInto [(''TypeMeta'', same), (''ObjectMeta'', extCopy X ''metav1.ObjectMeta''),
     (''Spec'', FirewallRuleSpec_DeepCopyInto), (''Status'', same)]"

definition FirewallRule_DeepCopy :: "ext_types \<Rightarrow> copier" where
  "FirewallRule_DeepCopy X = newCopy (FirewallRule_DeepCopyInto X)"

definition FirewallRule_DeepCopyObject :: "ext_types \<Rightarrow> copier" where
  "FirewallRule_DeepCopyObject X = asObject (FirewallRule_DeepCopy X)"

definition FirewallRuleList_DeepCopyInto :: "ext_types \<Rightarrow> copier" where
  "FirewallRuleList_DeepCopyInto X = copyInto [(''TypeMeta'', same), (''ListMeta'', extCopy X ''metav1.ListMeta''),
     (''Items'', copySlice (FirewallRule_DeepCopyInto X))]"

definition FirewallRuleList_DeepCopy :: "ext_types \<Rightarrow> copier" where
  "FirewallRuleList_DeepCopy X = newCopy (FirewallRuleList_DeepCopyInto X)"

definition FirewallRuleList_DeepCopyObject :: "ext_types \<Rightarrow> copier" where
  "FirewallRuleList_DeepCopyObject X = asObject (FirewallRuleList_DeepCopy X)"

lemmas firewallrule_deep_defs =
  NetworkAddresses_type_def NetworkAddresses_DeepCopyInto_def
  FirewallRuleSpec_type_def FirewallRuleSpec_DeepCopyInto_def
  FirewallRuleStatus_type_def FirewallRuleStatus_DeepCopyInto_def
  FirewallRule_type_def FirewallRule_DeepCopyInto_def
  FirewallRuleList_type_def FirewallRuleList_DeepCopyInto_def

lemma firewallrule_deep [deep_rules]:
  assumes "extLaws X"
  shows "deep_copier NetworkAddresses_type NetworkAddresses_DeepCopyInto"
    and "deep_copier (FirewallRuleSpec_type X) FirewallRuleSpec_DeepCopyInto"
    and "deep_copier FirewallRuleStatus_type FirewallRuleStatus_DeepCopyInto"
    and "deep_copier (FirewallRule_type X) (FirewallRule_DeepCopyInto X)"
    and "deep_copier (FirewallRuleList_type X) (FirewallRuleList_DeepCopyInto X)"
  using assms by (simp_all add: firewallrule_deep_defs deep_rules extLawsE)


section \<open>\<open>linodefirewall_types.go\<close>\<close>

definition LinodeFirewallSpec_type :: "ext_types \<Rightarrow> gotype" where
  "LinodeFirewallSpec_type X = TyStruct [(''FirewallID'', TyPtr TyInt), (''Enabled'', TyBool),
     (''InboundRules'', TySlice (FirewallRuleSpec_type X)), (''InboundRuleRefs'', TySlice (TyPtr (layout X ''corev1.ObjectReference''))),
     (''InboundPolicy'', TyString), (''OutboundRules'', TySlice (FirewallRuleSpec_type X)),
     (''OutboundRuleRefs'', TySlice (TyPtr (layout X ''corev1.ObjectReference''))), (''OutboundPolicy'', TyString),
     (''CredentialsRef'', TyPtr (layout X ''corev1.SecretReference''))]"

definition LinodeFirewallStatus_type :: "ext_types \<Rightarrow> gotype" where
  "LinodeFirewallStatus_type X = TyStruct [(''Conditions'', TySlice (layout X ''metav1.Condition'')), (''Ready'', TyBool),
     (''FailureReason'', TyPtr TyString), (''FailureMessage'', TyPtr TyString)]"

definition LinodeFirewall_type :: "ext_types \<Rightarrow> gotype" where
  "LinodeFirewall_type X = TyStruct [(''TypeMeta'', layout X ''metav1.TypeMeta''), (''ObjectMeta'', layout X ''metav1.ObjectMeta''),
     (''Spec'', LinodeFirewallSpec_type X), (''Status'', LinodeFirewallStatus_type X)]"

definition LinodeFirewallList_type :: "ext_types \<Rightarrow> gotype" where
  "LinodeFirewallList_type X = TyStruct [(''TypeMeta'', layout X ''metav1.TypeMeta''), (''ListMeta'', layout X ''metav1.ListMeta''),
     (''Items'', TySlice (LinodeFirewall_type X))]"

definition LinodeFirewallSpec_DeepCopyInto :: copier where
  "LinodeFirewallSpec_DeepCopyInto = copyInto [(''FirewallID'', copyPtr same),
     (''InboundRules'', copySlice FirewallRuleSpec_DeepCopyInto), (''InboundRuleRefs'', copySlice (copyPtr same)),
     (''OutboundRules'', copySlice FirewallRuleSpec_DeepCopyInto), (''OutboundRuleRefs'', copySlice (copyPtr same)),
     (''CredentialsRef'', copyPtr same)]"

definition LinodeFirewallSpec_DeepCopy :: copier where
  "LinodeFirewallSpec_DeepCopy = newCopy LinodeFirewallSpec_DeepCopyInto"

definition LinodeFirewallStatus_DeepCopyInto :: "ext_types \<Rightarrow> copier" where
  "LinodeFirewallStatus_DeepCopyInto X = copyInto [(''Conditions'', copySlice (extCopy X ''metav1.Condition'')),
     (''FailureReason'', copyPtr same), (''FailureMessage'', copyPtr same)]"

definition LinodeFirewallStatus_DeepCopy :: "ext_types \<Rightarrow> copier" where
  "LinodeFirewallStatus_DeepCopy X = newCopy (LinodeFirewallStatus_DeepCopyInto X)"

definition LinodeFirewall_DeepCopyInto :: "ext_types \<Rightarrow> copier" where
  "LinodeFirewall_DeepCopyInto X = copyInto [(''TypeMeta'', same), (''ObjectMeta'', extCopy X ''metav1.ObjectMeta''),
     (''Spec'', LinodeFirewallSpec_DeepCopyInto), (''Status'', LinodeFirewallStatus_DeepCopyInto X)]"

definition LinodeFirewall_DeepCopy :: "ext_types \<Rightarrow> copier" where
  "LinodeFirewall_DeepCopy X = newCopy (LinodeFirewall_DeepCopyInto X)"

definition LinodeFirewall_DeepCopyObject :: "ext_types \<Rightarrow> copier" where
  "LinodeFirewall_DeepCopyObject X = asObject (LinodeFirewall_DeepCopy X)"

definition LinodeFirewallList_DeepCopyInto :: "ext_types \<Rightarrow> copier" where
  "LinodeFirewallList_DeepCopyInto X = copyInto [(''TypeMeta'', same), (''ListMeta'', extCopy X ''metav1.ListMeta''),
     (''Items'', copySlice (LinodeFirewall_DeepCopyInto X))]"

definition LinodeFirewallList_DeepCopy :: "ext_types \<Rightarrow> copier" where
  "LinodeFirewallList_DeepCopy X = newCopy (LinodeFirewallList_DeepCopyInto X)"

definition LinodeFirewallList_DeepCopyObject :: "ext_types \<Rightarrow> copier" where
  "LinodeFirewallList_DeepCopyObject X = asObject (LinodeFirewallList_DeepCopy X)"

lemmas linodefirewall_deep_defs =
  LinodeFirewallSpec_type_def LinodeFirewallSpec_DeepCopyInto_def
  LinodeFirewallStatus_type_def LinodeFirewallStatus_DeepCopyInto_def
  LinodeFirewall_type_def LinodeFirewall_DeepCopyInto_def
  LinodeFirewallList_type_def LinodeFirewallList_DeepCopyInto_def

lemma linodefirewall_deep [deep_rules]:
  assumes "extLaws X"
  shows "deep_copier (LinodeFirewallSpec_type X) LinodeFirewallSpec_DeepCopyInto"
    and "deep_copier (LinodeFirewallStatus_type X) (LinodeFirewallStatus_DeepCopyInto X)"
    and "deep_copier (LinodeFirewall_type X) (LinodeFirewall_DeepCopyInto X)"
    and "deep_copier (LinodeFirewallList_type X) (LinodeFirewallList_DeepCopyInto X)"
  using assms by (simp_all add: linodefirewall_deep_defs deep_rules extLawsE)


section \<open>\<open>linodecluster_types.go\<close>\<close>

definition LinodeNBPortConfig_type :: "gotype" where
  "LinodeNBPortConfig_type = TyStruct [(''Port'', TyInt), (''NodeBalancerConfigID'', TyPtr TyInt)]"

definition NetworkSpec_type :: "gotype" where
  "NetworkSpec_type = TyStruct [(''LoadBalancerType'', TyString), (''DNSProvider'', TyString), (''DNSRootDomain'', TyString),
     (''DNSUniqueIdentifier'', TyString), (''DNSTTLSec'', TyInt), (''DNSSubDomainOverride'', TyString),
     (''ApiserverLoadBalancerPort'', TyInt), (''NodeBalancerID'', TyPtr TyInt), (''NodeBalancerFirewallID'', TyPtr TyInt),
     (''ApiserverNodeBalancerConfigID'', TyPtr TyInt), (''AdditionalPorts'', TySlice LinodeNBPortConfig_type),
     (''SubnetName'', TyString), (''UseVlan'', TyBool), (''NodeBalancerBackendIPv4Range'', TyString), (''EnableVPCBackends'', TyBool)]"

definition ObjectStore_type :: "ext_types \<Rightarrow> gotype" where
  "ObjectStore_type X = TyStruct [(''PresignedURLDuration'', TyPtr (layout X ''metav1.Duration'')),
     (''CredentialsRef'', layout X ''corev1.SecretReference''),
     (''SecondaryCredentialsRef'', TyPtr (layout X ''corev1.SecretReference''))]"

definition LinodeClusterSpec_type :: "ext_types \<Rightarrow> gotype" where
  "LinodeClusterSpec_type X = TyStruct [(''Region'', TyString), (''ControlPlaneEndpoint'', layout X ''clusterv1.APIEndpoint''),
     (''Network'', NetworkSpec_type), (''VPCRef'', TyPtr (layout X ''corev1.ObjectReference'')), (''VPCID'', TyPtr TyInt),
     (''NodeBalancerFirewallRef'', TyPtr (layout X ''corev1.ObjectReference'')), (''ObjectStore'', TyPtr (ObjectStore_type X)),
     (''CredentialsRef'', TyPtr (layout X ''corev1.SecretReference''))]"

definition LinodeClusterStatus_type :: "ext_types \<Rightarrow> gotype" where
  "LinodeClusterStatus_type X = TyStruct [(''Conditions'', TySlice (layout X ''metav1.Condition'')), (''Ready'', TyBool),
     (''FailureReason'', TyPtr TyString), (''FailureMessage'', TyPtr TyString)]"

definition LinodeCluster_type :: "ext_types \<Rightarrow> gotype" where
  "LinodeCluster_type X = TyStruct [(''TypeMeta'', layout X ''metav1.TypeMeta''), (''ObjectMeta'', layout X ''metav1.ObjectMeta''),
     (''Spec'', LinodeClusterSpec_type X), (''Status'', LinodeClusterStatus_type X)]"

definition LinodeClusterList_type :: "ext_types \<Rightarrow> gotype" where
  "LinodeClusterList_type X = TyStruct [(''TypeMeta'', layout X ''metav1.TypeMeta''), (''ListMeta'', layout X ''metav1.ListMeta''),
     (''Items'', TySlice (LinodeCluster_type X))]"

definition LinodeNBPortConfig_DeepCopyInto :: copier where
  "LinodeNBPortConfig_DeepCopyInto = copyInto [(''NodeBalancerConfigID'', copyPtr same)]"

definition LinodeNBPortConfig_DeepCopy :: copier where
  "LinodeNBPortConfig_DeepCopy = newCopy LinodeNBPortConfig_DeepCopyInto"

definition NetworkSpec_DeepCopyInto :: copier where
  "NetworkSpec_DeepCopyInto = copyInto [(''NodeBalancerID'', copyPtr same), (''NodeBalancerFirewallID'', copyPtr same),
     (''ApiserverNodeBalancerConfigID'', copyPtr same), (''AdditionalPorts'', copySlice LinodeNBPortConfig_DeepCopyInto)]"

definition NetworkSpec_DeepCopy :: copier where
  "NetworkSpec_DeepCopy = newCopy NetworkSpec_DeepCopyInto"

definition ObjectStore_DeepCopyInto :: copier where
  "ObjectStore_DeepCopyInto = copyInto [(''PresignedURLDuration'', copyPtr same), (''CredentialsRef'', same),
     (''SecondaryCredentialsRef'', copyPtr same)]"

definition ObjectStore_DeepCopy :: copier where
  "ObjectStore_DeepCopy = newCopy ObjectStore_DeepCopyInto"

definition LinodeClusterSpec_DeepCopyInto :: copier where
  "LinodeClusterSpec_DeepCopyInto = copyInto [(''ControlPlaneEndpoint'', same), (''Network'', NetworkSpec_DeepCopyInto),
     (''VPCRef'', copyPtr same), (''VPCID'', copyPtr same), (''NodeBalancerFirewallRef'', copyPtr same),
     (''ObjectStore'', copyPtr ObjectStore_DeepCopyInto), (''CredentialsRef'', copyPtr same)]"

definition LinodeClusterSpec_DeepCopy :: copier where
  "LinodeClusterSpec_DeepCopy = newCopy LinodeClusterSpec_DeepCopyInto"

definition LinodeClusterStatus_DeepCopyInto :: "ext_types \<Rightarrow> copier" where
  "LinodeClusterStatus_DeepCopyInto X = copyInto [(''Conditions'', copySlice (extCopy X ''metav1.Condition'')),
     (''FailureReason'', copyPtr same), (''FailureMessage'', copyPtr same)]"

definition LinodeClusterStatus_DeepCopy :: "ext_types \<Rightarrow> copier" where
  "LinodeClusterStatus_DeepCopy X = newCopy (LinodeClusterStatus_DeepCopyInto X)"

definition LinodeCluster_DeepCopyInto :: "ext_types \<Rightarrow> copier" where
  "LinodeCluster_DeepCopyInto X = copyInto [(''TypeMeta'', same), (''ObjectMeta'', extCopy X ''metav1.ObjectMeta''),
     (''Spec'', LinodeClusterSpec_DeepCopyInto), (''Status'', LinodeClusterStatus_DeepCopyInto X)]"

definition LinodeCluster_DeepCopy :: "ext_types \<Rightarrow> copier" where
  "LinodeCluster_DeepCopy X = newCopy (LinodeCluster_DeepCopyInto X)"

definition LinodeCluster_DeepCopyObject :: "ext_types \<Rightarrow> copier" where
  "LinodeCluster_DeepCopyObject X = asObject (LinodeCluster_DeepCopy X)"

definition LinodeClusterList_DeepCopyInto :: "ext_types \<Rightarrow> copier" where
  "LinodeClusterList_DeepCopyInto X = copyInto [(''TypeMeta'', same), (''ListMeta'', extCopy X ''metav1.ListMeta''),
     (''Items'', copySlice (LinodeCluster_DeepCopyInto X))]"

definition LinodeClusterList_DeepCopy :: "ext_types \<Rightarrow> copier" where
  "LinodeClusterList_DeepCopy X = newCopy (LinodeClusterList_DeepCopyInto X)"

definition LinodeClusterList_DeepCopyObject :: "ext_types \<Rightarrow> copier" where
  "LinodeClusterList_DeepCopyObject X = asObject (LinodeClusterList_DeepCopy X)"

lemmas linodecluster_deep_defs =
  LinodeNBPortConfig_type_def LinodeNBPortConfig_DeepCopyInto_def
  NetworkSpec_type_def NetworkSpec_DeepCopyInto_def
  ObjectStore_type_def ObjectStore_DeepCopyInto_def
  LinodeClusterSpec_type_def LinodeClusterSpec_DeepCopyInto_def
  LinodeClusterStatus_type_def LinodeClusterStatus_DeepCopyInto_def
  LinodeCluster_type_def LinodeCluster_DeepCopyInto_def
  LinodeClusterList_type_def LinodeClusterList_DeepCopyInto_def

lemma linodecluster_deep [deep_rules]:
  assumes "extLaws X"
  shows "deep_copier LinodeNBPortConfig_type LinodeNBPortConfig_DeepCopyInto"
    and "deep_copier NetworkSpec_type NetworkSpec_DeepCopyInto"
    and "deep_copier (ObjectStore_type X) ObjectStore_DeepCopyInto"
    and "deep_copier (LinodeClusterSpec_type X) LinodeClusterSpec_DeepCopyInto"
    and "deep_copier (LinodeClusterStatus_type X) (LinodeClusterStatus_DeepCopyInto X)"
    and "deep_copier (LinodeCluster_type X) (LinodeCluster_DeepCopyInto X)"
    and "deep_copier (LinodeClusterList_type X) (LinodeClusterList_DeepCopyInto X)"
  using assms by (simp_all add: linodecluster_deep_defs deep_rules extLawsE)


section \<open>\<open>linodeclustertemplate_types.go\<close>\<close>

definition LinodeClusterTemplateResource_type :: "ext_types \<Rightarrow> gotype" where
  "LinodeClusterTemplateResource_type X = TyStruct [(''Spec'', LinodeClusterSpec_type X)]"

definition LinodeClusterTemplateSpec_type :: "ext_types \<Rightarrow> gotype" where
  "LinodeClusterTemplateSpec_type X = TyStruct [(''Template'', LinodeClusterTemplateResource_type X)]"

definition LinodeClusterTemplate_type :: "ext_types \<Rightarrow> gotype" where
  "LinodeClusterTemplate_type X = TyStruct [(''TypeMeta'', layout X ''metav1.TypeMeta''),
     (''ObjectMeta'', layout X ''metav1.ObjectMeta''), (''Spec'', LinodeClusterTemplateSpec_type X)]"

definition LinodeClusterTemplateList_type :: "ext_types \<Rightarrow> gotype" where
  "LinodeClusterTemplateList_type X = TyStruct [(''TypeMeta'', layout X ''metav1.TypeMeta''),
     (''ListMeta'', layout X ''metav1.ListMeta''), (''Items'', TySlice (LinodeClusterTemplate_type X))]"

definition LinodeClusterTemplateResource_DeepCopyInto :: copier where
  "LinodeClusterTemplateResource_DeepCopyInto = copyInto [(''Spec'', LinodeClusterSpec_DeepCopyInto)]"

definition LinodeClusterTemplateResource_DeepCopy :: copier where
  "LinodeClusterTemplateResource_DeepCopy = newCopy LinodeClusterTemplateResource_DeepCopyInto"

definition LinodeClusterTemplateSpec_DeepCopyInto :: copier where
  "LinodeClusterTemplateSpec_DeepCopyInto = copyInto [(''Template'', LinodeClusterTemplateResource_DeepCopyInto)]"

definition LinodeClusterTemplateSpec_DeepCopy :: copier where
  "LinodeClusterTemplateSpec_DeepCopy = newCopy LinodeClusterTemplateSpec_DeepCopyInto"

definition LinodeClusterTemplate_DeepCopyInto :: "ext_types \<Rightarrow> copier" where
  "LinodeClusterTemplate_DeepCopyInto X = copyInto [(''TypeMeta'', same), (''ObjectMeta'', extCopy X ''metav1.ObjectMeta''),
     (''Spec'', LinodeClusterTemplateSpec_DeepCopyInto)]"

definition LinodeClusterTemplate_DeepCopy :: "ext_types \<Rightarrow> copier" where
  "LinodeClusterTemplate_DeepCopy X = newCopy (LinodeClusterTemplate_DeepCopyInto X)"

definition LinodeClusterTemplate_DeepCopyObject :: "ext_types \<Rightarrow> copier" where
  "LinodeClusterTemplate_DeepCopyObject X = asObject (LinodeClusterTemplate_DeepCopy X)"

definition LinodeClusterTemplateList_DeepCopyInto :: "ext_types \<Rightarrow> copier" where
  "LinodeClusterTemplateList_DeepCopyInto X = copyInto [(''TypeMeta'', same), (''ListMeta'', extCopy X ''metav1.ListMeta''),
     (''Items'', copySlice (LinodeClusterTemplate_DeepCopyInto X))]"

definition LinodeClusterTemplateList_DeepCopy :: "ext_types \<Rightarrow> copier" where
  "LinodeClusterTemplateList_DeepCopy X = newCopy (LinodeClusterTemplateList_DeepCopyInto X)"

definition LinodeClusterTemplateList_DeepCopyObject :: "ext_types \<Rightarrow> copier" where
  "LinodeClusterTemplateList_DeepCopyObject X = asObject (LinodeClusterTemplateList_DeepCopy X)"

lemmas linodeclustertemplate_deep_defs =
  LinodeClusterTemplateResource_type_def LinodeClusterTemplateResource_DeepCopyInto_def
  LinodeClusterTemplateSpec_type_def LinodeClusterTemplateSpec_DeepCopyInto_def
  LinodeClusterTemplate_type_def LinodeClusterTemplate_DeepCopyInto_def
  LinodeClusterTemplateList_type_def LinodeClusterTemplateList_DeepCopyInto_def

lemma linodeclustertemplate_deep [deep_rules]:
  assumes "extLaws X"
  shows "deep_copier (LinodeClusterTemplateResource_type X) LinodeClusterTemplateResource_DeepCopyInto"
    and "deep_copier (LinodeClusterTemplateSpec_type X) LinodeClusterTemplateSpec_DeepCopyInto"
    and "deep_copier (LinodeClusterTemplate_type X) (LinodeClusterTemplate_DeepCopyInto X)"
    and "deep_copier (LinodeClusterTemplateList_type X) (LinodeClusterTemplateList_DeepCopyInto X)"
  using assms by (simp_all add: linodeclustertemplate_deep_defs deep_rules extLawsE)


section \<open>\<open>linodemachine_types.go\<close>\<close>

definition VPCIPv4_type :: "gotype" where
  "VPCIPv4_type = TyStruct [(''VPC'', TyString), (''NAT1To1'', TyString)]"

definition InstanceConfigInterfaceCreateOptions_type :: "ext_types \<Rightarrow> gotype" where
  "InstanceConfigInterfaceCreateOptions_type X = TyStruct [(''IPAMAddress'', TyString), (''Label'', TyString),
     (''Purpose'', layout X ''linodego.ConfigInterfacePurpose''), (''Primary'', TyBool), (''SubnetID'', TyPtr TyInt),
     (''IPv4'', TyPtr VPCIPv4_type), (''IPRanges'', TySlice TyString)]"

definition InterfaceDefaultRoute_type :: "gotype" where
  "InterfaceDefaultRoute_type = TyStruct [(''IPv4'', TyPtr TyBool), (''IPv6'', TyPtr TyBool)]"

definition PublicInterfaceIPv4AddressCreateOptions_type :: "gotype" where
  "PublicInterfaceIPv4AddressCreateOptions_type = TyStruct [(''Address'', TyString), (''Primary'', TyPtr TyBool)]"

definition PublicInterfaceIPv4CreateOptions_type :: "gotype" where
  "PublicInterfaceIPv4CreateOptions_type = TyStruct [(''Addresses'', TySlice PublicInterfaceIPv4AddressCreateOptions_type)]"

definition PublicInterfaceIPv6RangeCreateOptions_type :: "gotype" where
  "PublicInterfaceIPv6RangeCreateOptions_type = TyStruct [(''Range'', TyString)]"

definition PublicInterfaceIPv6CreateOptions_type :: "gotype" where
  "PublicInterfaceIPv6CreateOptions_type = TyStruct [(''Ranges'', TySlice PublicInterfaceIPv6RangeCreateOptions_type)]"

definition PublicInterfaceCreateOptions_type :: "gotype" where
  "PublicInterfaceCreateOptions_type = TyStruct [(''IPv4'', TyPtr PublicInterfaceIPv4CreateOptions_type),
     (''IPv6'', TyPtr PublicInterfaceIPv6CreateOptions_type)]"

definition VPCInterfaceIPv4AddressCreateOptions_type :: "gotype" where
  "VPCInterfaceIPv4AddressCreateOptions_type = TyStruct [(''Address'', TyString), (''Primary'', TyPtr TyBool),
     (''NAT1To1Address'', TyPtr TyString), (''NAT1To1AddressLegacy'', TyPtr TyString)]"

definition VPCInterfaceIPv4RangeCreateOptions_type :: "gotype" where
  "VPCInterfaceIPv4RangeCreateOptions_type = TyStruct [(''Range'', TyString)]"

definition VPCInterfaceIPv4CreateOptions_type :: "gotype" where
  "VPCInterfaceIPv4CreateOptions_type = TyStruct [(''Addresses'', TySlice VPCInterfaceIPv4AddressCreateOptions_type),
     (''Ranges'', TySlice VPCInterfaceIPv4RangeCreateOptions_type)]"

definition VPCInterfaceIPv6SLAACCreateOptions_type :: "gotype" where
  "VPCInterfaceIPv6SLAACCreateOptions_type = TyStruct [(''Range'', TyString)]"

definition VPCInterfaceIPv6RangeCreateOptions_type :: "gotype" where
  "VPCInterfaceIPv6RangeCreateOptions_type = TyStruct [(''Range'', TyString)]"

definition VPCInterfaceIPv6CreateOptions_type :: "gotype" where
  "VPCInterfaceIPv6CreateOptions_type = TyStruct [(''SLAAC'', TySlice VPCInterfaceIPv6SLAACCreateOptions_type),
     (''Ranges'', TySlice VPCInterfaceIPv6RangeCreateOptions_type), (''IsPublic'', TyPtr TyBool), (''IsPublicLegacy'', TyPtr TyBool)]"

definition VPCInterfaceCreateOptions_type :: "gotype" where
  "VPCInterfaceCreateOptions_type = TyStruct [(''SubnetID'', TyPtr TyInt), (''SubnetIDLegacy'', TyPtr TyInt),
     (''IPv4'', TyPtr VPCInterfaceIPv4CreateOptions_type), (''IPv6'', TyPtr VPCInterfaceIPv6CreateOptions_type)]"

definition VLANInterface_type :: "gotype" where
  "VLANInterface_type = TyStruct [(''VLANLabel'', TyString), (''VLANLabelLegacy'', TyString), (''IPAMAddress'', TyPtr TyString),
     (''IPAMAddressLegacy'', TyPtr TyString)]"

definition LinodeInterfaceCreateOptions_type :: "gotype" where
  "LinodeInterfaceCreateOptions_type = TyStruct [(''FirewallID'', TyPtr TyInt), (''FirewallIDLegacy'', TyPtr TyInt),
     (''DefaultRoute'', TyPtr InterfaceDefaultRoute_type), (''DefaultRouteLegacy'', TyPtr InterfaceDefaultRoute_type),
     (''Public'', TyPtr PublicInterfaceCreateOptions_type), (''VPC'', TyPtr VPCInterfaceCreateOptions_type),
     (''VLAN'', TyPtr VLANInterface_type)]"

definition InstanceDisk_type :: "ext_types \<Rightarrow> gotype" where
  "InstanceDisk_type X = TyStruct [(''DiskID'', TyInt), (''Size'', layout X ''resource.Quantity''), (''Label'', TyString),
     (''Filesystem'', TyString)]"

definition InstanceDisks_type :: "ext_types \<Rightarrow> gotype" where
  "InstanceDisks_type X = TyStruct [(''SDB'', TyPtr (InstanceDisk_type X)), (''SDC'', TyPtr (InstanceDisk_type X)),
     (''SDD'', TyPtr (InstanceDisk_type X)), (''SDE'', TyPtr (InstanceDisk_type X)), (''SDF'', TyPtr (InstanceDisk_type X)),
     (''SDG'', TyPtr (InstanceDisk_type X)), (''SDH'', TyPtr (InstanceDisk_type X))]"

definition InstanceConfiguration_type :: "gotype" where
  "InstanceConfiguration_type = TyStruct [(''Kernel'', TyString)]"

definition IPv6CreateOptions_type :: "gotype" where
  "IPv6CreateOptions_type = TyStruct [(''EnableSLAAC'', TyPtr TyBool), (''EnableRanges'', TyPtr TyBool),
     (''IsPublicIPv6'', TyPtr TyBool)]"

definition LinodeMachineSpec_type :: "ext_types \<Rightarrow> gotype" where
  "LinodeMachineSpec_type X = TyStruct [(''ProviderID'', TyPtr TyString), (''InstanceID'', TyPtr TyInt), (''Region'', TyString),
     (''Type'', TyString), (''Group'', TyString), (''RootPass'', TyString), (''AuthorizedKeys'', TySlice TyString),
     (''AuthorizedUsers'', TySlice TyString), (''BackupID'', TyInt), (''Image'', TyString),
     (''Interfaces'', TySlice (InstanceConfigInterfaceCreateOptions_type X)),
     (''LinodeInterfaces'', TySlice LinodeInterfaceCreateOptions_type), (''BackupsEnabled'', TyBool), (''PrivateIP'', TyPtr TyBool),
     (''Tags'', TySlice TyString), (''FirewallID'', TyInt), (''OSDisk'', TyPtr (InstanceDisk_type X)),
     (''DataDisks'', TyPtr (InstanceDisks_type X)), (''DiskEncryption'', TyString),
     (''CredentialsRef'', TyPtr (layout X ''corev1.SecretReference'')), (''Configuration'', TyPtr InstanceConfiguration_type),
     (''PlacementGroupRef'', TyPtr (layout X ''corev1.ObjectReference'')),
     (''FirewallRef'', TyPtr (layout X ''corev1.ObjectReference'')), (''VPCRef'', TyPtr (layout X ''corev1.ObjectReference'')),
     (''VPCID'', TyPtr TyInt), (''IPv6Options'', TyPtr IPv6CreateOptions_type), (''NetworkHelper'', TyPtr TyBool),
     (''InterfaceGeneration'', layout X ''linodego.InterfaceGeneration'')]"

definition InstanceMetadataOptions_type :: "gotype" where
  "InstanceMetadataOptions_type = TyStruct [(''UserData'', TyString)]"

definition LinodeMachineStatus_type :: "ext_types \<Rightarrow> gotype" where
  "LinodeMachineStatus_type X = TyStruct [(''Conditions'', TySlice (layout X ''metav1.Condition'')), (''Ready'', TyBool),
     (''Addresses'', TySlice (layout X ''clusterv1.MachineAddress'')), (''CloudinitMetadataSupport'', TyBool),
     (''InstanceState'', TyPtr (layout X ''linodego.InstanceStatus'')), (''FailureReason'', TyPtr TyString),
     (''FailureMessage'', TyPtr TyString), (''Tags'', TySlice TyString)]"

definition LinodeMachine_type :: "ext_types \<Rightarrow> gotype" where
  "LinodeMachine_type X = TyStruct [(''TypeMeta'', layout X ''metav1.TypeMeta''), (''ObjectMeta'', layout X ''metav1.ObjectMeta''),
     (''Spec'', LinodeMachineSpec_type X), (''Status'', LinodeMachineStatus_type X)]"

definition LinodeMachineList_type :: "ext_types \<Rightarrow> gotype" where
  "LinodeMachineList_type X = TyStruct [(''TypeMeta'', layout X ''metav1.TypeMeta''), (''ListMeta'', layout X ''metav1.ListMeta''),
     (''Items'', TySlice (LinodeMachine_type X))]"

definition VPCIPv4_DeepCopyInto :: copier where
  "VPCIPv4_DeepCopyInto = copyInto []"

definition VPCIPv4_DeepCopy :: copier where
  "VPCIPv4_DeepCopy = newCopy VPCIPv4_DeepCopyInto"

definition InstanceConfigInterfaceCreateOptions_DeepCopyInto :: copier where
  "InstanceConfigInterfaceCreateOptions_DeepCopyInto = copyInto [(''SubnetID'', copyPtr same), (''IPv4'', copyPtr same),
     (''IPRanges'', copySlice same)]"

definition InstanceConfigInterfaceCreateOptions_DeepCopy :: copier where
  "InstanceConfigInterfaceCreateOptions_DeepCopy = newCopy InstanceConfigInterfaceCreateOptions_DeepCopyInto"

definition InterfaceDefaultRoute_DeepCopyInto :: copier where
  "InterfaceDefaultRoute_DeepCopyInto = copyInto [(''IPv4'', copyPtr same), (''IPv6'', copyPtr same)]"

definition InterfaceDefaultRoute_DeepCopy :: copier where
  "InterfaceDefaultRoute_DeepCopy = newCopy InterfaceDefaultRoute_DeepCopyInto"

definition PublicInterfaceIPv4AddressCreateOptions_DeepCopyInto :: copier where
  "PublicInterfaceIPv4AddressCreateOptions_DeepCopyInto = copyInto [(''Primary'', copyPtr same)]"

definition PublicInterfaceIPv4AddressCreateOptions_DeepCopy :: copier where
  "PublicInterfaceIPv4AddressCreateOptions_DeepCopy = newCopy PublicInterfaceIPv4AddressCreateOptions_DeepCopyInto"

definition PublicInterfaceIPv4CreateOptions_DeepCopyInto :: copier where
  "PublicInterfaceIPv4CreateOptions_DeepCopyInto = copyInto [
     (''Addresses'', copySlice PublicInterfaceIPv4AddressCreateOptions_DeepCopyInto)]"

definition PublicInterfaceIPv4CreateOptions_DeepCopy :: copier where
  "PublicInterfaceIPv4CreateOptions_DeepCopy = newCopy PublicInterfaceIPv4CreateOptions_DeepCopyInto"

definition PublicInterfaceIPv6RangeCreateOptions_DeepCopyInto :: copier where
  "PublicInterfaceIPv6RangeCreateOptions_DeepCopyInto = copyInto []"

definition PublicInterfaceIPv6RangeCreateOptions_DeepCopy :: copier where
  "PublicInterfaceIPv6RangeCreateOptions_DeepCopy = newCopy PublicInterfaceIPv6RangeCreateOptions_DeepCopyInto"

definition PublicInterfaceIPv6CreateOptions_DeepCopyInto :: copier where
  "PublicInterfaceIPv6CreateOptions_DeepCopyInto = copyInto [(''Ranges'', copySlice same)]"

definition PublicInterfaceIPv6CreateOptions_DeepCopy :: copier where
  "PublicInterfaceIPv6CreateOptions_DeepCopy = newCopy PublicInterfaceIPv6CreateOptions_DeepCopyInto"

definition PublicInterfaceCreateOptions_DeepCopyInto :: copier where
  "PublicInterfaceCreateOptions_DeepCopyInto = copyInto [(''IPv4'', copyPtr PublicInterfaceIPv4CreateOptions_DeepCopyInto),
     (''IPv6'', copyPtr PublicInterfaceIPv6CreateOptions_DeepCopyInto)]"

definition PublicInterfaceCreateOptions_DeepCopy :: copier where
  "PublicInterfaceCreateOptions_DeepCopy = newCopy PublicInterfaceCreateOptions_DeepCopyInto"

definition VPCInterfaceIPv4AddressCreateOptions_DeepCopyInto :: copier where
  "VPCInterfaceIPv4AddressCreateOptions_DeepCopyInto = copyInto [(''Primary'', copyPtr same), (''NAT1To1Address'', copyPtr same),
     (''NAT1To1AddressLegacy'', copyPtr same)]"

definition VPCInterfaceIPv4AddressCreateOptions_DeepCopy :: copier where
  "VPCInterfaceIPv4AddressCreateOptions_DeepCopy = newCopy VPCInterfaceIPv4AddressCreateOptions_DeepCopyInto"

definition VPCInterfaceIPv4RangeCreateOptions_DeepCopyInto :: copier where
  "VPCInterfaceIPv4RangeCreateOptions_DeepCopyInto = copyInto []"

definition VPCInterfaceIPv4RangeCreateOptions_DeepCopy :: copier where
  "VPCInterfaceIPv4RangeCreateOptions_DeepCopy = newCopy VPCInterfaceIPv4RangeCreateOptions_DeepCopyInto"

definition VPCInterfaceIPv4CreateOptions_DeepCopyInto :: copier where
  "VPCInterfaceIPv4CreateOptions_DeepCopyInto = copyInto [(''Addresses'', copySlice VPCInterfaceIPv4AddressCreateOptions_DeepCopyInto),
     (''Ranges'', copySlice same)]"

definition VPCInterfaceIPv4CreateOptions_DeepCopy :: copier where
  "VPCInterfaceIPv4CreateOptions_DeepCopy = newCopy VPCInterfaceIPv4CreateOptions_DeepCopyInto"

definition VPCInterfaceIPv6SLAACCreateOptions_DeepCopyInto :: copier where
  "VPCInterfaceIPv6SLAACCreateOptions_DeepCopyInto = copyInto []"

definition VPCInterfaceIPv6SLAACCreateOptions_DeepCopy :: copier where
  "VPCInterfaceIPv6SLAACCreateOptions_DeepCopy = newCopy VPCInterfaceIPv6SLAACCreateOptions_DeepCopyInto"

definition VPCInterfaceIPv6RangeCreateOptions_DeepCopyInto :: copier where
  "VPCInterfaceIPv6RangeCreateOptions_DeepCopyInto = copyInto []"

definition VPCInterfaceIPv6RangeCreateOptions_DeepCopy :: copier where
  "VPCInterfaceIPv6RangeCreateOptions_DeepCopy = newCopy VPCInterfaceIPv6RangeCreateOptions_DeepCopyInto"

definition VPCInterfaceIPv6CreateOptions_DeepCopyInto :: copier where
  "VPCInterfaceIPv6CreateOptions_DeepCopyInto = copyInto [(''SLAAC'', copySlice same), (''Ranges'', copySlice same),
     (''IsPublic'', copyPtr same), (''IsPublicLegacy'', copyPtr same)]"

definition VPCInterfaceIPv6CreateOptions_DeepCopy :: copier where
  "VPCInterfaceIPv6CreateOptions_DeepCopy = newCopy VPCInterfaceIPv6CreateOptions_DeepCopyInto"

definition VPCInterfaceCreateOptions_DeepCopyInto :: copier where
  "VPCInterfaceCreateOptions_DeepCopyInto = copyInto [(''SubnetID'', copyPtr same), (''SubnetIDLegacy'', copyPtr same),
     (''IPv4'', copyPtr VPCInterfaceIPv4CreateOptions_DeepCopyInto), (''IPv6'', copyPtr VPCInterfaceIPv6CreateOptions_DeepCopyInto)]"

definition VPCInterfaceCreateOptions_DeepCopy :: copier where
  "VPCInterfaceCreateOptions_DeepCopy = newCopy VPCInterfaceCreateOptions_DeepCopyInto"

definition VLANInterface_DeepCopyInto :: copier where
  "VLANInterface_DeepCopyInto = copyInto [(''IPAMAddress'', copyPtr same), (''IPAMAddressLegacy'', copyPtr same)]"

definition VLANInterface_DeepCopy :: copier where
  "VLANInterface_DeepCopy = newCopy VLANInterface_DeepCopyInto"

definition LinodeInterfaceCreateOptions_DeepCopyInto :: copier where
  "LinodeInterfaceCreateOptions_DeepCopyInto = copyInto [(''FirewallID'', copyPtr same), (''FirewallIDLegacy'', copyPtr same),
     (''DefaultRoute'', copyPtr InterfaceDefaultRoute_DeepCopyInto),
     (''DefaultRouteLegacy'', copyPtr InterfaceDefaultRoute_DeepCopyInto),
     (''Public'', copyPtr PublicInterfaceCreateOptions_DeepCopyInto), (''VPC'', copyPtr VPCInterfaceCreateOptions_DeepCopyInto),
     (''VLAN'', copyPtr VLANInterface_DeepCopyInto)]"

definition LinodeInterfaceCreateOptions_DeepCopy :: copier where
  "LinodeInterfaceCreateOptions_DeepCopy = newCopy LinodeInterfaceCreateOptions_DeepCopyInto"

definition InstanceDisk_DeepCopyInto :: "ext_types \<Rightarrow> copier" where
  "InstanceDisk_DeepCopyInto X = copyInto [(''Size'', extCopy X ''resource.Quantity'')]"

definition InstanceDisk_DeepCopy :: "ext_types \<Rightarrow> copier" where
  "InstanceDisk_DeepCopy X = newCopy (InstanceDisk_DeepCopyInto X)"

definition InstanceDisks_DeepCopyInto :: "ext_types \<Rightarrow> copier" where
  "InstanceDisks_DeepCopyInto X = copyInto [(''SDB'', copyPtr (InstanceDisk_DeepCopyInto X)),
     (''SDC'', copyPtr (InstanceDisk_DeepCopyInto X)), (''SDD'', copyPtr (InstanceDisk_DeepCopyInto X)),
     (''SDE'', copyPtr (InstanceDisk_DeepCopyInto X)), (''SDF'', copyPtr (InstanceDisk_DeepCopyInto X)),
     (''SDG'', copyPtr (InstanceDisk_DeepCopyInto X)), (''SDH'', copyPtr (InstanceDisk_DeepCopyInto X))]"

definition InstanceDisks_DeepCopy :: "ext_types \<Rightarrow> copier" where
  "InstanceDisks_DeepCopy X = newCopy (InstanceDisks_DeepCopyInto X)"

definition InstanceConfiguration_DeepCopyInto :: copier where
  "InstanceConfiguration_DeepCopyInto = copyInto []"

definition InstanceConfiguration_DeepCopy :: copier where
  "InstanceConfiguration_DeepCopy = newCopy InstanceConfiguration_DeepCopyInto"

definition IPv6CreateOptions_DeepCopyInto :: copier where
  "IPv6CreateOptions_DeepCopyInto = copyInto [(''EnableSLAAC'', copyPtr same), (''EnableRanges'', copyPtr same),
     (''IsPublicIPv6'', copyPtr same)]"

definition IPv6CreateOptions_DeepCopy :: copier where
  "IPv6CreateOptions_DeepCopy = newCopy IPv6CreateOptions_DeepCopyInto"

definition LinodeMachineSpec_DeepCopyInto :: "ext_types \<Rightarrow> copier" where
  "LinodeMachineSpec_DeepCopyInto X = copyInto [(''ProviderID'', copyPtr same), (''InstanceID'', copyPtr same),
     (''AuthorizedKeys'', copySlice same), (''AuthorizedUsers'', copySlice same),
     (''Interfaces'', copySlice InstanceConfigInterfaceCreateOptions_DeepCopyInto),
     (''LinodeInterfaces'', copySlice LinodeInterfaceCreateOptions_DeepCopyInto), (''PrivateIP'', copyPtr same),
     (''Tags'', copySlice same), (''OSDisk'', copyPtr (InstanceDisk_DeepCopyInto X)),
     (''DataDisks'', copyPtr (InstanceDisks_DeepCopyInto X)), (''CredentialsRef'', copyPtr same), (''Configuration'', copyPtr same),
     (''PlacementGroupRef'', copyPtr same), (''FirewallRef'', copyPtr same), (''VPCRef'', copyPtr same), (''VPCID'', copyPtr same),
     (''IPv6Options'', copyPtr IPv6CreateOptions_DeepCopyInto), (''NetworkHelper'', copyPtr same)]"

definition LinodeMachineSpec_DeepCopy :: "ext_types \<Rightarrow> copier" where
  "LinodeMachineSpec_DeepCopy X = newCopy (LinodeMachineSpec_DeepCopyInto X)"

definition InstanceMetadataOptions_DeepCopyInto :: copier where
  "InstanceMetadataOptions_DeepCopyInto = copyInto []"

definition InstanceMetadataOptions_DeepCopy :: copier where
  "InstanceMetadataOptions_DeepCopy = newCopy InstanceMetadataOptions_DeepCopyInto"

definition LinodeMachineStatus_DeepCopyInto :: "ext_types \<Rightarrow> copier" where
  "LinodeMachineStatus_DeepCopyInto X = copyInto [(''Conditions'', copySlice (extCopy X ''metav1.Condition'')),
     (''Addresses'', copySlice same), (''InstanceState'', copyPtr same), (''FailureReason'', copyPtr same),
     (''FailureMessage'', copyPtr same), (''Tags'', copySlice same)]"

definition LinodeMachineStatus_DeepCopy :: "ext_types \<Rightarrow> copier" where
  "LinodeMachineStatus_DeepCopy X = newCopy (LinodeMachineStatus_DeepCopyInto X)"

definition LinodeMachine_DeepCopyInto :: "ext_types \<Rightarrow> copier" where
  "LinodeMachine_DeepCopyInto X = copyInto [(''TypeMeta'', same), (''ObjectMeta'', extCopy X ''metav1.ObjectMeta''),
     (''Spec'', LinodeMachineSpec_DeepCopyInto X), (''Status'', LinodeMachineStatus_DeepCopyInto X)]"

definition LinodeMachine_DeepCopy :: "ext_types \<Rightarrow> copier" where
  "LinodeMachine_DeepCopy X = newCopy (LinodeMachine_DeepCopyInto X)"

definition LinodeMachine_DeepCopyObject :: "ext_types \<Rightarrow> copier" where
  "LinodeMachine_DeepCopyObject X = asObject (LinodeMachine_DeepCopy X)"

definition LinodeMachineList_DeepCopyInto :: "ext_types \<Rightarrow> copier" where
  "LinodeMachineList_DeepCopyInto X = copyInto [(''TypeMeta'', same), (''ListMeta'', extCopy X ''metav1.ListMeta''),
     (''Items'', copySlice (LinodeMachine_DeepCopyInto X))]"

definition LinodeMachineList_DeepCopy :: "ext_types \<Rightarrow> copier" where
  "LinodeMachineList_DeepCopy X = newCopy (LinodeMachineList_DeepCopyInto X)"

definition LinodeMachineList_DeepCopyObject :: "ext_types \<Rightarrow> copier" where
  "LinodeMachineList_DeepCopyObject X = asObject (LinodeMachineList_DeepCopy X)"

lemmas linodemachine_deep_defs =
  VPCIPv4_type_def VPCIPv4_DeepCopyInto_def
  InstanceConfigInterfaceCreateOptions_type_def InstanceConfigInterfaceCreateOptions_DeepCopyInto_def
  InterfaceDefaultRoute_type_def InterfaceDefaultRoute_DeepCopyInto_def
  PublicInterfaceIPv4AddressCreateOptions_type_def PublicInterfaceIPv4AddressCreateOptions_DeepCopyInto_def
  PublicInterfaceIPv4CreateOptions_type_def PublicInterfaceIPv4CreateOptions_DeepCopyInto_def
  PublicInterfaceIPv6RangeCreateOptions_type_def PublicInterfaceIPv6RangeCreateOptions_DeepCopyInto_def
  PublicInterfaceIPv6CreateOptions_type_def PublicInterfaceIPv6CreateOptions_DeepCopyInto_def
  PublicInterfaceCreateOptions_type_def PublicInterfaceCreateOptions_DeepCopyInto_def
  VPCInterfaceIPv4AddressCreateOptions_type_def VPCInterfaceIPv4AddressCreateOptions_DeepCopyInto_def
  VPCInterfaceIPv4RangeCreateOptions_type_def VPCInterfaceIPv4RangeCreateOptions_DeepCopyInto_def
  VPCInterfaceIPv4CreateOptions_type_def VPCInterfaceIPv4CreateOptions_DeepCopyInto_def
  VPCInterfaceIPv6SLAACCreateOptions_type_def VPCInterfaceIPv6SLAACCreateOptions_DeepCopyInto_def
  VPCInterfaceIPv6RangeCreateOptions_type_def VPCInterfaceIPv6RangeCreateOptions_DeepCopyInto_def
  VPCInterfaceIPv6CreateOptions_type_def VPCInterfaceIPv6CreateOptions_DeepCopyInto_def
  VPCInterfaceCreateOptions_type_def VPCInterfaceCreateOptions_DeepCopyInto_def
  VLANInterface_type_def VLANInterface_DeepCopyInto_def
  LinodeInterfaceCreateOptions_type_def LinodeInterfaceCreateOptions_DeepCopyInto_def
  InstanceDisk_type_def InstanceDisk_DeepCopyInto_def
  InstanceDisks_type_def InstanceDisks_DeepCopyInto_def
  InstanceConfiguration_type_def InstanceConfiguration_DeepCopyInto_def
  IPv6CreateOptions_type_def IPv6CreateOptions_DeepCopyInto_def
  LinodeMachineSpec_type_def LinodeMachineSpec_DeepCopyInto_def
  InstanceMetadataOptions_type_def InstanceMetadataOptions_DeepCopyInto_def
  LinodeMachineStatus_type_def LinodeMachineStatus_DeepCopyInto_def
  LinodeMachine_type_def LinodeMachine_DeepCopyInto_def
  LinodeMachineList_type_def LinodeMachineList_DeepCopyInto_def

lemma linodemachine_deep [deep_rules]:
  assumes "extLaws X"
  shows "deep_copier VPCIPv4_type VPCIPv4_DeepCopyInto"
    and "deep_copier (InstanceConfigInterfaceCreateOptions_type X) InstanceConfigInterfaceCreateOptions_DeepCopyInto"
    and "deep_copier InterfaceDefaultRoute_type InterfaceDefaultRoute_DeepCopyInto"
    and "deep_copier PublicInterfaceIPv4AddressCreateOptions_type PublicInterfaceIPv4AddressCreateOptions_DeepCopyInto"
    and "deep_copier PublicInterfaceIPv4CreateOptions_type PublicInterfaceIPv4CreateOptions_DeepCopyInto"
    and "deep_copier PublicInterfaceIPv6RangeCreateOptions_type PublicInterfaceIPv6RangeCreateOptions_DeepCopyInto"
    and "deep_copier PublicInterfaceIPv6CreateOptions_type PublicInterfaceIPv6CreateOptions_DeepCopyInto"
    and "deep_copier PublicInterfaceCreateOptions_type PublicInterfaceCreateOptions_DeepCopyInto"
    and "deep_copier VPCInterfaceIPv4AddressCreateOptions_type VPCInterfaceIPv4AddressCreateOptions_DeepCopyInto"
    and "deep_copier VPCInterfaceIPv4RangeCreateOptions_type VPCInterfaceIPv4RangeCreateOptions_DeepCopyInto"
    and "deep_copier VPCInterfaceIPv4CreateOptions_type VPCInterfaceIPv4CreateOptions_DeepCopyInto"
    and "deep_copier VPCInterfaceIPv6SLAACCreateOptions_type VPCInterfaceIPv6SLAACCreateOptions_DeepCopyInto"
    and "deep_copier VPCInterfaceIPv6RangeCreateOptions_type VPCInterfaceIPv6RangeCreateOptions_DeepCopyInto"
    and "deep_copier VPCInterfaceIPv6CreateOptions_type VPCInterfaceIPv6CreateOptions_DeepCopyInto"
    and "deep_copier VPCInterfaceCreateOptions_type VPCInterfaceCreateOptions_DeepCopyInto"
    and "deep_copier VLANInterface_type VLANInterface_DeepCopyInto"
    and "deep_copier LinodeInterfaceCreateOptions_type LinodeInterfaceCreateOptions_DeepCopyInto"
    and "deep_copier (InstanceDisk_type X) (InstanceDisk_DeepCopyInto X)"
    and "deep_copier (InstanceDisks_type X) (InstanceDisks_DeepCopyInto X)"
    and "deep_copier InstanceConfiguration_type InstanceConfiguration_DeepCopyInto"
    and "deep_copier IPv6CreateOptions_type IPv6CreateOptions_DeepCopyInto"
    and "deep_copier (LinodeMachineSpec_type X) (LinodeMachineSpec_DeepCopyInto X)"
    and "deep_copier InstanceMetadataOptions_type InstanceMetadataOptions_DeepCopyInto"
    and "deep_copier (LinodeMachineStatus_type X) (LinodeMachineStatus_DeepCopyInto X)"
    and "deep_copier (LinodeMachine_type X) (LinodeMachine_DeepCopyInto X)"
    and "deep_copier (LinodeMachineList_type X) (LinodeMachineList_DeepCopyInto X)"
  using assms by (simp_all add: linodemachine_deep_defs deep_rules extLawsE)


section \<open>\<open>linodemachinetemplate_types.go\<close>\<close>

definition LinodeMachineTemplateResource_type :: "ext_types \<Rightarrow> gotype" where
  "LinodeMachineTemplateResource_type X = TyStruct [(''Spec'', LinodeMachineSpec_type X)]"

definition LinodeMachineTemplateSpec_type :: "ext_types \<Rightarrow> gotype" where
  "LinodeMachineTemplateSpec_type X = TyStruct [(''Template'', LinodeMachineTemplateResource_type X)]"

definition LinodeMachineTemplateStatus_type :: "ext_types \<Rightarrow> gotype" where
  "LinodeMachineTemplateStatus_type X = TyStruct [(''Conditions'', TySlice (layout X ''metav1.Condition'')),
     (''Tags'', TySlice TyString), (''FirewallID'', TyInt)]"

definition LinodeMachineTemplate_type :: "ext_types \<Rightarrow> gotype" where
  "LinodeMachineTemplate_type X = TyStruct [(''TypeMeta'', layout X ''metav1.TypeMeta''),
     (''ObjectMeta'', layout X ''metav1.ObjectMeta''), (''Spec'', LinodeMachineTemplateSpec_type X),
     (''Status'', LinodeMachineTemplateStatus_type X)]"

definition LinodeMachineTemplateList_type :: "ext_types \<Rightarrow> gotype" where
  "LinodeMachineTemplateList_type X = TyStruct [(''TypeMeta'', layout X ''metav1.TypeMeta''),
     (''ListMeta'', layout X ''metav1.ListMeta''), (''Items'', TySlice (LinodeMachineTemplate_type X))]"

definition LinodeMachineTemplateResource_DeepCopyInto :: "ext_types \<Rightarrow> copier" where
  "LinodeMachineTemplateResource_DeepCopyInto X = copyInto [(''Spec'', LinodeMachineSpec_DeepCopyInto X)]"

definition LinodeMachineTemplateResource_DeepCopy :: "ext_types \<Rightarrow> copier" where
  "LinodeMachineTemplateResource_DeepCopy X = newCopy (LinodeMachineTemplateResource_DeepCopyInto X)"

definition LinodeMachineTemplateSpec_DeepCopyInto :: "ext_types \<Rightarrow> copier" where
  "LinodeMachineTemplateSpec_DeepCopyInto X = copyInto [(''Template'', LinodeMachineTemplateResource_DeepCopyInto X)]"

definition LinodeMachineTemplateSpec_DeepCopy :: "ext_types \<Rightarrow> copier" where
  "LinodeMachineTemplateSpec_DeepCopy X = newCopy (LinodeMachineTemplateSpec_DeepCopyInto X)"

definition LinodeMachineTemplateStatus_DeepCopyInto :: "ext_types \<Rightarrow> copier" where
  "LinodeMachineTemplateStatus_DeepCopyInto X = copyInto [(''Conditions'', copySlice (extCopy X ''metav1.Condition'')),
     (''Tags'', copySlice same)]"

definition LinodeMachineTemplateStatus_DeepCopy :: "ext_types \<Rightarrow> copier" where
  "LinodeMachineTemplateStatus_DeepCopy X = newCopy (LinodeMachineTemplateStatus_DeepCopyInto X)"

definition LinodeMachineTemplate_DeepCopyInto :: "ext_types \<Rightarrow> copier" where
  "LinodeMachineTemplate_DeepCopyInto X = copyInto [(''TypeMeta'', same), (''ObjectMeta'', extCopy X ''metav1.ObjectMeta''),
     (''Spec'', LinodeMachineTemplateSpec_DeepCopyInto X), (''Status'', LinodeMachineTemplateStatus_DeepCopyInto X)]"

definition LinodeMachineTemplate_DeepCopy :: "ext_types \<Rightarrow> copier" where
  "LinodeMachineTemplate_DeepCopy X = newCopy (LinodeMachineTemplate_DeepCopyInto X)"

definition LinodeMachineTemplate_DeepCopyObject :: "ext_types \<Rightarrow> copier" where
  "LinodeMachineTemplate_DeepCopyObject X = asObject (LinodeMachineTemplate_DeepCopy X)"

definition LinodeMachineTemplateList_DeepCopyInto :: "ext_types \<Rightarrow> copier" where
  "LinodeMachineTemplateList_DeepCopyInto X = copyInto [(''TypeMeta'', same), (''ListMeta'', extCopy X ''metav1.ListMeta''),
     (''Items'', copySlice (LinodeMachineTemplate_DeepCopyInto X))]"

definition LinodeMachineTemplateList_DeepCopy :: "ext_types \<Rightarrow> copier" where
  "LinodeMachineTemplateList_DeepCopy X = newCopy (LinodeMachineTemplateList_DeepCopyInto X)"

definition LinodeMachineTemplateList_DeepCopyObject :: "ext_types \<Rightarrow> copier" where
  "LinodeMachineTemplateList_DeepCopyObject X = asObject (LinodeMachineTemplateList_DeepCopy X)"

lemmas linodemachinetemplate_deep_defs =
  LinodeMachineTemplateResource_type_def LinodeMachineTemplateResource_DeepCopyInto_def
  LinodeMachineTemplateSpec_type_def LinodeMachineTemplateSpec_DeepCopyInto_def
  LinodeMachineTemplateStatus_type_def LinodeMachineTemplateStatus_DeepCopyInto_def
  LinodeMachineTemplate_type_def LinodeMachineTemplate_DeepCopyInto_def
  LinodeMachineTemplateList_type_def LinodeMachineTemplateList_DeepCopyInto_def

lemma linodemachinetemplate_deep [deep_rules]:
  assumes "extLaws X"
  shows "deep_copier (LinodeMachineTemplateResource_type X) (LinodeMachineTemplateResource_DeepCopyInto X)"
    and "deep_copier (LinodeMachineTemplateSpec_type X) (LinodeMachineTemplateSpec_DeepCopyInto X)"
    and "deep_copier (LinodeMachineTemplateStatus_type X) (LinodeMachineTemplateStatus_DeepCopyInto X)"
    and "deep_copier (LinodeMachineTemplate_type X) (LinodeMachineTemplate_DeepCopyInto X)"
    and "deep_copier (LinodeMachineTemplateList_type X) (LinodeMachineTemplateList_DeepCopyInto X)"
  using assms by (simp_all add: linodemachinetemplate_deep_defs deep_rules extLawsE)


section \<open>\<open>linodeobjectstoragebucket_types.go\<close>\<close>

definition LinodeObjectStorageBucketSpec_type :: "ext_types \<Rightarrow> gotype" where
  "LinodeObjectStorageBucketSpec_type X = TyStruct [(''Region'', TyString), (''ACL'', TyString), (''CorsEnabled'', TyBool),
     (''CredentialsRef'', TyPtr (layout X ''corev1.SecretReference'')), (''AccessKeyRef'', TyPtr (layout X ''corev1.ObjectReference'')),
     (''ForceDeleteBucket'', TyBool)]"

definition LinodeObjectStorageBucketStatus_type :: "ext_types \<Rightarrow> gotype" where
  "LinodeObjectStorageBucketStatus_type X = TyStruct [(''Conditions'', TySlice (layout X ''metav1.Condition'')), (''Ready'', TyBool),
     (''FailureMessage'', TyPtr TyString), (''FailureReason'', TyPtr TyString), (''Hostname'', TyPtr TyString),
     (''CreationTime'', TyPtr (layout X ''metav1.Time''))]"

definition LinodeObjectStorageBucket_type :: "ext_types \<Rightarrow> gotype" where
  "LinodeObjectStorageBucket_type X = TyStruct [(''TypeMeta'', layout X ''metav1.TypeMeta''),
     (''ObjectMeta'', layout X ''metav1.ObjectMeta''), (''Spec'', LinodeObjectStorageBucketSpec_type X),
     (''Status'', LinodeObjectStorageBucketStatus_type X)]"

definition LinodeObjectStorageBucketList_type :: "ext_types \<Rightarrow> gotype" where
  "LinodeObjectStorageBucketList_type X = TyStruct [(''TypeMeta'', layout X ''metav1.TypeMeta''),
     (''ListMeta'', layout X ''metav1.ListMeta''), (''Items'', TySlice (LinodeObjectStorageBucket_type X))]"

definition LinodeObjectStorageBucketSpec_DeepCopyInto :: copier where
  "LinodeObjectStorageBucketSpec_DeepCopyInto = copyInto [(''CredentialsRef'', copyPtr same), (''AccessKeyRef'', copyPtr same)]"

definition LinodeObjectStorageBucketSpec_DeepCopy :: copier where
  "LinodeObjectStorageBucketSpec_DeepCopy = newCopy LinodeObjectStorageBucketSpec_DeepCopyInto"

definition LinodeObjectStorageBucketStatus_DeepCopyInto :: "ext_types \<Rightarrow> copier" where
  "LinodeObjectStorageBucketStatus_DeepCopyInto X = copyInto [(''Conditions'', copySlice (extCopy X ''metav1.Condition'')),
     (''FailureMessage'', copyPtr same), (''FailureReason'', copyPtr same), (''Hostname'', copyPtr same),
     (''CreationTime'', copyPtr (extCopy X ''metav1.Time''))]"

definition LinodeObjectStorageBucketStatus_DeepCopy :: "ext_types \<Rightarrow> copier" where
  "LinodeObjectStorageBucketStatus_DeepCopy X = newCopy (LinodeObjectStorageBucketStatus_DeepCopyInto X)"

definition LinodeObjectStorageBucket_DeepCopyInto :: "ext_types \<Rightarrow> copier" where
  "LinodeObjectStorageBucket_DeepCopyInto X = copyInto [(''TypeMeta'', same), (''ObjectMeta'', extCopy X ''metav1.ObjectMeta''),
     (''Spec'', LinodeObjectStorageBucketSpec_DeepCopyInto), (''Status'', LinodeObjectStorageBucketStatus_DeepCopyInto X)]"

definition LinodeObjectStorageBucket_DeepCopy :: "ext_types \<Rightarrow> copier" where
  "LinodeObjectStorageBucket_DeepCopy X = newCopy (LinodeObjectStorageBucket_DeepCopyInto X)"

definition LinodeObjectStorageBucket_DeepCopyObject :: "ext_types \<Rightarrow> copier" where
  "LinodeObjectStorageBucket_DeepCopyObject X = asObject (LinodeObjectStorageBucket_DeepCopy X)"

definition LinodeObjectStorageBucketList_DeepCopyInto :: "ext_types \<Rightarrow> copier" where
  "LinodeObjectStorageBucketList_DeepCopyInto X = copyInto [(''TypeMeta'', same), (''ListMeta'', extCopy X ''metav1.ListMeta''),
     (''Items'', copySlice (LinodeObjectStorageBucket_DeepCopyInto X))]"

definition LinodeObjectStorageBucketList_DeepCopy :: "ext_types \<Rightarrow> copier" where
  "LinodeObjectStorageBucketList_DeepCopy X = newCopy (LinodeObjectStorageBucketList_DeepCopyInto X)"

definition LinodeObjectStorageBucketList_DeepCopyObject :: "ext_types \<Rightarrow> copier" where
  "LinodeObjectStorageBucketList_DeepCopyObject X = asObject (LinodeObjectStorageBucketList_DeepCopy X)"

lemmas linodeobjectstoragebucket_deep_defs =
  LinodeObjectStorageBucketSpec_type_def LinodeObjectStorageBucketSpec_DeepCopyInto_def
  LinodeObjectStorageBucketStatus_type_def LinodeObjectStorageBucketStatus_DeepCopyInto_def
  LinodeObjectStorageBucket_type_def LinodeObjectStorageBucket_DeepCopyInto_def
  LinodeObjectStorageBucketList_type_def LinodeObjectStorageBucketList_DeepCopyInto_def

lemma linodeobjectstoragebucket_deep [deep_rules]:
  assumes "extLaws X"
  shows "deep_copier (LinodeObjectStorageBucketSpec_type X) LinodeObjectStorageBucketSpec_DeepCopyInto"
    and "deep_copier (LinodeObjectStorageBucketStatus_type X) (LinodeObjectStorageBucketStatus_DeepCopyInto X)"
    and "deep_copier (LinodeObjectStorageBucket_type X) (LinodeObjectStorageBucket_DeepCopyInto X)"
    and "deep_copier (LinodeObjectStorageBucketList_type X) (LinodeObjectStorageBucketList_DeepCopyInto X)"
  using assms by (simp_all add: linodeobjectstoragebucket_deep_defs deep_rules extLawsE)


section \<open>\<open>linodeobjectstoragekey_types.go\<close>\<close>

definition BucketAccessRef_type :: "gotype" where
  "BucketAccessRef_type = TyStruct [(''BucketName'', TyString), (''Permissions'', TyString), (''Region'', TyString)]"

definition GeneratedSecret_type :: "ext_types \<Rightarrow> gotype" where
  "GeneratedSecret_type X = TyStruct [(''Name'', TyString), (''Namespace'', TyString), (''Type'', layout X ''corev1.SecretType''),
     (''Format'', TyMap TyString)]"

definition LinodeObjectStorageKeySpec_type :: "ext_types \<Rightarrow> gotype" where
  "LinodeObjectStorageKeySpec_type X = TyStruct [(''BucketAccess'', TySlice BucketAccessRef_type),
     (''CredentialsRef'', TyPtr (layout X ''corev1.SecretReference'')), (''KeyGeneration'', TyPtr TyInt),
     (''GeneratedSecret'', GeneratedSecret_type X), (''SecretType'', layout X ''corev1.SecretType''),
     (''SecretDataFormat'', TyMap TyString)]"

definition LinodeObjectStorageKeyStatus_type :: "ext_types \<Rightarrow> gotype" where
  "LinodeObjectStorageKeyStatus_type X = TyStruct [(''Conditions'', TySlice (layout X ''metav1.Condition'')), (''Ready'', TyBool),
     (''FailureMessage'', TyPtr TyString), (''FailureReason'', TyPtr TyString), (''CreationTime'', TyPtr (layout X ''metav1.Time'')),
     (''LastKeyGeneration'', TyPtr TyInt), (''AccessKeyRef'', TyPtr TyInt)]"

definition LinodeObjectStorageKey_type :: "ext_types \<Rightarrow> gotype" where
  "LinodeObjectStorageKey_type X = TyStruct [(''TypeMeta'', layout X ''metav1.TypeMeta''),
     (''ObjectMeta'', layout X ''metav1.ObjectMeta''), (''Spec'', LinodeObjectStorageKeySpec_type X),
     (''Status'', LinodeObjectStorageKeyStatus_type X)]"

definition LinodeObjectStorageKeyList_type :: "ext_types \<Rightarrow> gotype" where
  "LinodeObjectStorageKeyList_type X = TyStruct [(''TypeMeta'', layout X ''metav1.TypeMeta''),
     (''ListMeta'', layout X ''metav1.ListMeta''), (''Items'', TySlice (LinodeObjectStorageKey_type X))]"

definition BucketAccessRef_DeepCopyInto :: copier where
  "BucketAccessRef_DeepCopyInto = copyInto []"

definition BucketAccessRef_DeepCopy :: copier where
  "BucketAccessRef_DeepCopy = newCopy BucketAccessRef_DeepCopyInto"

definition GeneratedSecret_DeepCopyInto :: copier where
  "GeneratedSecret_DeepCopyInto = copyInto [(''Format'', copyMap same)]"

definition GeneratedSecret_DeepCopy :: copier where
  "GeneratedSecret_DeepCopy = newCopy GeneratedSecret_DeepCopyInto"

definition LinodeObjectStorageKeySpec_DeepCopyInto :: copier where
  "LinodeObjectStorageKeySpec_DeepCopyInto = copyInto [(''BucketAccess'', copySlice same), (''CredentialsRef'', copyPtr same),
     (''KeyGeneration'', copyPtr same), (''GeneratedSecret'', GeneratedSecret_DeepCopyInto), (''SecretDataFormat'', copyMap same)]"

definition LinodeObjectStorageKeySpec_DeepCopy :: copier where
  "LinodeObjectStorageKeySpec_DeepCopy = newCopy LinodeObjectStorageKeySpec_DeepCopyInto"

definition LinodeObjectStorageKeyStatus_DeepCopyInto :: "ext_types \<Rightarrow> copier" where
  "LinodeObjectStorageKeyStatus_DeepCopyInto X = copyInto [(''Conditions'', copySlice (extCopy X ''metav1.Condition'')),
     (''FailureMessage'', copyPtr same), (''FailureReason'', copyPtr same), (''CreationTime'', copyPtr (extCopy X ''metav1.Time'')),
     (''LastKeyGeneration'', copyPtr same), (''AccessKeyRef'', copyPtr same)]"

definition LinodeObjectStorageKeyStatus_DeepCopy :: "ext_types \<Rightarrow> copier" where
  "LinodeObjectStorageKeyStatus_DeepCopy X = newCopy (LinodeObjectStorageKeyStatus_DeepCopyInto X)"

definition LinodeObjectStorageKey_DeepCopyInto :: "ext_types \<Rightarrow> copier" where
  "LinodeObjectStorageKey_DeepCopyInto X = copyInto [(''TypeMeta'', same), (''ObjectMeta'', extCopy X ''metav1.ObjectMeta''),
     (''Spec'', LinodeObjectStorageKeySpec_DeepCopyInto), (''Status'', LinodeObjectStorageKeyStatus_DeepCopyInto X)]"

definition LinodeObjectStorageKey_DeepCopy :: "ext_types \<Rightarrow> copier" where
  "LinodeObjectStorageKey_DeepCopy X = newCopy (LinodeObjectStorageKey_DeepCopyInto X)"

definition LinodeObjectStorageKey_DeepCopyObject :: "ext_types \<Rightarrow> copier" where
  "LinodeObjectStorageKey_DeepCopyObject X = asObject (LinodeObjectStorageKey_DeepCopy X)"

definition LinodeObjectStorageKeyList_DeepCopyInto :: "ext_types \<Rightarrow> copier" where
  "LinodeObjectStorageKeyList_DeepCopyInto X = copyInto [(''TypeMeta'', same), (''ListMeta'', extCopy X ''metav1.ListMeta''),
     (''Items'', copySlice (LinodeObjectStorageKey_DeepCopyInto X))]"

definition LinodeObjectStorageKeyList_DeepCopy :: "ext_types \<Rightarrow> copier" where
  "LinodeObjectStorageKeyList_DeepCopy X = newCopy (LinodeObjectStorageKeyList_DeepCopyInto X)"

definition LinodeObjectStorageKeyList_DeepCopyObject :: "ext_types \<Rightarrow> copier" where
  "LinodeObjectStorageKeyList_DeepCopyObject X = asObject (LinodeObjectStorageKeyList_DeepCopy X)"

lemmas linodeobjectstoragekey_deep_defs =
  BucketAccessRef_type_def BucketAccessRef_DeepCopyInto_def
  GeneratedSecret_type_def GeneratedSecret_DeepCopyInto_def
  LinodeObjectStorageKeySpec_type_def LinodeObjectStorageKeySpec_DeepCopyInto_def
  LinodeObjectStorageKeyStatus_type_def LinodeObjectStorageKeyStatus_DeepCopyInto_def
  LinodeObjectStorageKey_type_def LinodeObjectStorageKey_DeepCopyInto_def
  LinodeObjectStorageKeyList_type_def LinodeObjectStorageKeyList_DeepCopyInto_def

lemma linodeobjectstoragekey_deep [deep_rules]:
  assumes "extLaws X"
  shows "deep_copier BucketAccessRef_type BucketAccessRef_DeepCopyInto"
    and "deep_copier (GeneratedSecret_type X) GeneratedSecret_DeepCopyInto"
    and "deep_copier (LinodeObjectStorageKeySpec_type X) LinodeObjectStorageKeySpec_DeepCopyInto"
    and "deep_copier (LinodeObjectStorageKeyStatus_type X) (LinodeObjectStorageKeyStatus_DeepCopyInto X)"
    and "deep_copier (LinodeObjectStorageKey_type X) (LinodeObjectStorageKey_DeepCopyInto X)"
    and "deep_copier (LinodeObjectStorageKeyList_type X) (LinodeObjectStorageKeyList_DeepCopyInto X)"
  using assms by (simp_all add: linodeobjectstoragekey_deep_defs deep_rules extLawsE)


section \<open>\<open>linodeplacementgroup_types.go\<close>\<close>

definition LinodePlacementGroupSpec_type :: "ext_types \<Rightarrow> gotype" where
  "LinodePlacementGroupSpec_type X = TyStruct [(''PGID'', TyPtr TyInt), (''Region'', TyString), (''PlacementGroupPolicy'', TyString),
     (''PlacementGroupType'', TyString), (''CredentialsRef'', TyPtr (layout X ''corev1.SecretReference''))]"

definition LinodePlacementGroupStatus_type :: "ext_types \<Rightarrow> gotype" where
  "LinodePlacementGroupStatus_type X = TyStruct [(''Conditions'', TySlice (layout X ''metav1.Condition'')), (''Ready'', TyBool),
     (''FailureReason'', TyPtr TyString), (''FailureMessage'', TyPtr TyString)]"

definition LinodePlacementGroup_type :: "ext_types \<Rightarrow> gotype" where
  "LinodePlacementGroup_type X = TyStruct [(''TypeMeta'', layout X ''metav1.TypeMeta''),
     (''ObjectMeta'', layout X ''metav1.ObjectMeta''), (''Spec'', LinodePlacementGroupSpec_type X),
     (''Status'', LinodePlacementGroupStatus_type X)]"

definition LinodePlacementGroupList_type :: "ext_types \<Rightarrow> gotype" where
  "LinodePlacementGroupList_type X = TyStruct [(''TypeMeta'', layout X ''metav1.TypeMeta''),
     (''ListMeta'', layout X ''metav1.ListMeta''), (''Items'', TySlice (LinodePlacementGroup_type X))]"

definition LinodePlacementGroupSpec_DeepCopyInto :: copier where
  "LinodePlacementGroupSpec_DeepCopyInto = copyInto [(''PGID'', copyPtr same), (''CredentialsRef'', copyPtr same)]"

definition LinodePlacementGroupSpec_DeepCopy :: copier where
  "LinodePlacementGroupSpec_DeepCopy = newCopy LinodePlacementGroupSpec_DeepCopyInto"

definition LinodePlacementGroupStatus_DeepCopyInto :: "ext_types \<Rightarrow> copier" where
  "LinodePlacementGroupStatus_DeepCopyInto X = copyInto [(''Conditions'', copySlice (extCopy X ''metav1.Condition'')),
     (''FailureReason'', copyPtr same), (''FailureMessage'', copyPtr same)]"

definition LinodePlacementGroupStatus_DeepCopy :: "ext_types \<Rightarrow> copier" where
  "LinodePlacementGroupStatus_DeepCopy X = newCopy (LinodePlacementGroupStatus_DeepCopyInto X)"

definition LinodePlacementGroup_DeepCopyInto :: "ext_types \<Rightarrow> copier" where
  "LinodePlacementGroup_DeepCopyInto X = copyInto [(''TypeMeta'', same), (''ObjectMeta'', extCopy X ''metav1.ObjectMeta''),
     (''Spec'', LinodePlacementGroupSpec_DeepCopyInto), (''Status'', LinodePlacementGroupStatus_DeepCopyInto X)]"

definition LinodePlacementGroup_DeepCopy :: "ext_types \<Rightarrow> copier" where
  "LinodePlacementGroup_DeepCopy X = newCopy (LinodePlacementGroup_DeepCopyInto X)"

definition LinodePlacementGroup_DeepCopyObject :: "ext_types \<Rightarrow> copier" where
  "LinodePlacementGroup_DeepCopyObject X = asObject (LinodePlacementGroup_DeepCopy X)"

definition LinodePlacementGroupList_DeepCopyInto :: "ext_types \<Rightarrow> copier" where
  "LinodePlacementGroupList_DeepCopyInto X = copyInto [(''TypeMeta'', same), (''ListMeta'', extCopy X ''metav1.ListMeta''),
     (''Items'', copySlice (LinodePlacementGroup_DeepCopyInto X))]"

definition LinodePlacementGroupList_DeepCopy :: "ext_types \<Rightarrow> copier" where
  "LinodePlacementGroupList_DeepCopy X = newCopy (LinodePlacementGroupList_DeepCopyInto X)"

definition LinodePlacementGroupList_DeepCopyObject :: "ext_types \<Rightarrow> copier" where
  "LinodePlacementGroupList_DeepCopyObject X = asObject (LinodePlacementGroupList_DeepCopy X)"

lemmas linodeplacementgroup_deep_defs =
  LinodePlacementGroupSpec_type_def LinodePlacementGroupSpec_DeepCopyInto_def
  LinodePlacementGroupStatus_type_def LinodePlacementGroupStatus_DeepCopyInto_def
  LinodePlacementGroup_type_def LinodePlacementGroup_DeepCopyInto_def
  LinodePlacementGroupList_type_def LinodePlacementGroupList_DeepCopyInto_def

lemma linodeplacementgroup_deep [deep_rules]:
  assumes "extLaws X"
  shows "deep_copier (LinodePlacementGroupSpec_type X) LinodePlacementGroupSpec_DeepCopyInto"
    and "deep_copier (LinodePlacementGroupStatus_type X) (LinodePlacementGroupStatus_DeepCopyInto X)"
    and "deep_copier (LinodePlacementGroup_type X) (LinodePlacementGroup_DeepCopyInto X)"
    and "deep_copier (LinodePlacementGroupList_type X) (LinodePlacementGroupList_DeepCopyInto X)"
  using assms by (simp_all add: linodeplacementgroup_deep_defs deep_rules extLawsE)


section \<open>\<open>linodevpc_types.go\<close>\<close>

definition VPCCreateOptionsIPv6_type :: "gotype" where
  "VPCCreateOptionsIPv6_type = TyStruct [(''Range'', TyPtr TyString), (''AllocationClass'', TyPtr TyString),
     (''AllocationClassLegacy'', TyPtr TyString)]"

definition VPCSubnetCreateOptionsIPv6_type :: "gotype" where
  "VPCSubnetCreateOptionsIPv6_type = TyStruct [(''Range'', TyPtr TyString)]"

definition VPCSubnetCreateOptions_type :: "ext_types \<Rightarrow> gotype" where
  "VPCSubnetCreateOptions_type X = TyStruct [(''Label'', TyString), (''IPv4'', TyString),
     (''IPv6'', TySlice (layout X ''linodego.VPCIPv6Range'')), (''IPv6Range'', TySlice VPCSubnetCreateOptionsIPv6_type),
     (''SubnetID'', TyInt), (''Retain'', TyBool)]"

definition LinodeVPCSpec_type :: "ext_types \<Rightarrow> gotype" where
  "LinodeVPCSpec_type X = TyStruct [(''VPCID'', TyPtr TyInt), (''Description'', TyString), (''Region'', TyString),
     (''IPv6'', TySlice (layout X ''linodego.VPCIPv6Range'')), (''IPv4'', TySlice (layout X ''linodego.VPCIPv4Range'')),
     (''IPv6Range'', TySlice VPCCreateOptionsIPv6_type), (''IPv4Range'', TySlice TyString),
     (''Subnets'', TySlice (VPCSubnetCreateOptions_type X)), (''Retain'', TyBool),
     (''CredentialsRef'', TyPtr (layout X ''corev1.SecretReference''))]"

definition LinodeVPCStatus_type :: "ext_types \<Rightarrow> gotype" where
  "LinodeVPCStatus_type X = TyStruct [(''Conditions'', TySlice (layout X ''metav1.Condition'')), (''Ready'', TyBool),
     (''FailureReason'', TyPtr TyString), (''FailureMessage'', TyPtr TyString)]"

definition LinodeVPC_type :: "ext_types \<Rightarrow> gotype" where
  "LinodeVPC_type X = TyStruct [(''TypeMeta'', layout X ''metav1.TypeMeta''), (''ObjectMeta'', layout X ''metav1.ObjectMeta''),
     (''Spec'', LinodeVPCSpec_type X), (''Status'', LinodeVPCStatus_type X)]"

definition LinodeVPCList_type :: "ext_types \<Rightarrow> gotype" where
  "LinodeVPCList_type X = TyStruct [(''TypeMeta'', layout X ''metav1.TypeMeta''), (''ListMeta'', layout X ''metav1.ListMeta''),
     (''Items'', TySlice (LinodeVPC_type X))]"

definition VPCCreateOptionsIPv6_DeepCopyInto :: copier where
  "VPCCreateOptionsIPv6_DeepCopyInto = copyInto [(''Range'', copyPtr same), (''AllocationClass'', copyPtr same),
     (''AllocationClassLegacy'', copyPtr same)]"

definition VPCCreateOptionsIPv6_DeepCopy :: copier where
  "VPCCreateOptionsIPv6_DeepCopy = newCopy VPCCreateOptionsIPv6_DeepCopyInto"

definition VPCSubnetCreateOptionsIPv6_DeepCopyInto :: copier where
  "VPCSubnetCreateOptionsIPv6_DeepCopyInto = copyInto [(''Range'', copyPtr same)]"

definition VPCSubnetCreateOptionsIPv6_DeepCopy :: copier where
  "VPCSubnetCreateOptionsIPv6_DeepCopy = newCopy VPCSubnetCreateOptionsIPv6_DeepCopyInto"

definition VPCSubnetCreateOptions_DeepCopyInto :: copier where
  "VPCSubnetCreateOptions_DeepCopyInto = copyInto [(''IPv6'', copySlice same),
     (''IPv6Range'', copySlice VPCSubnetCreateOptionsIPv6_DeepCopyInto)]"

definition VPCSubnetCreateOptions_DeepCopy :: copier where
  "VPCSubnetCreateOptions_DeepCopy = newCopy VPCSubnetCreateOptions_DeepCopyInto"

definition LinodeVPCSpec_DeepCopyInto :: copier where
  "LinodeVPCSpec_DeepCopyInto = copyInto [(''VPCID'', copyPtr same), (''IPv6'', copySlice same), (''IPv4'', copySlice same),
     (''IPv6Range'', copySlice VPCCreateOptionsIPv6_DeepCopyInto), (''IPv4Range'', copySlice same),
     (''Subnets'', copySlice VPCSubnetCreateOptions_DeepCopyInto), (''CredentialsRef'', copyPtr same)]"

definition LinodeVPCSpec_DeepCopy :: copier where
  "LinodeVPCSpec_DeepCopy = newCopy LinodeVPCSpec_DeepCopyInto"

definition LinodeVPCStatus_DeepCopyInto :: "ext_types \<Rightarrow> copier" where
  "LinodeVPCStatus_DeepCopyInto X = copyInto [(''Conditions'', copySlice (extCopy X ''metav1.Condition'')),
     (''FailureReason'', copyPtr same), (''FailureMessage'', copyPtr same)]"

definition LinodeVPCStatus_DeepCopy :: "ext_types \<Rightarrow> copier" where
  "LinodeVPCStatus_DeepCopy X = newCopy (LinodeVPCStatus_DeepCopyInto X)"

definition LinodeVPC_DeepCopyInto :: "ext_types \<Rightarrow> copier" where
  "LinodeVPC_DeepCopyInto X = copyInto [(''TypeMeta'', same), (''ObjectMeta'', extCopy X ''metav1.ObjectMeta''),
     (''Spec'', LinodeVPCSpec_DeepCopyInto), (''Status'', LinodeVPCStatus_DeepCopyInto X)]"

definition LinodeVPC_DeepCopy :: "ext_types \<Rightarrow> copier" where
  "LinodeVPC_DeepCopy X = newCopy (LinodeVPC_DeepCopyInto X)"

definition LinodeVPC_DeepCopyObject :: "ext_types \<Rightarrow> copier" where
  "LinodeVPC_DeepCopyObject X = asObject (LinodeVPC_DeepCopy X)"

definition LinodeVPCList_DeepCopyInto :: "ext_types \<Rightarrow> copier" where
  "LinodeVPCList_DeepCopyInto X = copyInto [(''TypeMeta'', same), (''ListMeta'', extCopy X ''metav1.ListMeta''),
     (''Items'', copySlice (LinodeVPC_DeepCopyInto X))]"

definition LinodeVPCList_DeepCopy :: "ext_types \<Rightarrow> copier" where
  "LinodeVPCList_DeepCopy X = newCopy (LinodeVPCList_DeepCopyInto X)"

definition LinodeVPCList_DeepCopyObject :: "ext_types \<Rightarrow> copier" where
  "LinodeVPCList_DeepCopyObject X = asObject (LinodeVPCList_DeepCopy X)"

lemmas linodevpc_deep_defs =
  VPCCreateOptionsIPv6_type_def VPCCreateOptionsIPv6_DeepCopyInto_def
  VPCSubnetCreateOptionsIPv6_type_def VPCSubnetCreateOptionsIPv6_DeepCopyInto_def
  VPCSubnetCreateOptions_type_def VPCSubnetCreateOptions_DeepCopyInto_def
  LinodeVPCSpec_type_def LinodeVPCSpec_DeepCopyInto_def
  LinodeVPCStatus_type_def LinodeVPCStatus_DeepCopyInto_def
  LinodeVPC_type_def LinodeVPC_DeepCopyInto_def
  LinodeVPCList_type_def LinodeVPCList_DeepCopyInto_def

lemma linodevpc_deep [deep_rules]:
  assumes "extLaws X"
  shows "deep_copier VPCCreateOptionsIPv6_type VPCCreateOptionsIPv6_DeepCopyInto"
    and "deep_copier VPCSubnetCreateOptionsIPv6_type VPCSubnetCreateOptionsIPv6_DeepCopyInto"
    and "deep_copier (VPCSubnetCreateOptions_type X) VPCSubnetCreateOptions_DeepCopyInto"
    and "deep_copier (LinodeVPCSpec_type X) LinodeVPCSpec_DeepCopyInto"
    and "deep_copier (LinodeVPCStatus_type X) (LinodeVPCStatus_DeepCopyInto X)"
    and "deep_copier (LinodeVPC_type X) (LinodeVPC_DeepCopyInto X)"
    and "deep_copier (LinodeVPCList_type X) (LinodeVPCList_DeepCopyInto X)"
  using assms by (simp_all add: linodevpc_deep_defs deep_rules extLawsE)


section \<open>The objects of the API\<close>

text \<open>The types that are \<open>runtime.Object\<close>: a call of \<open>DeepCopyObject\<close> goes to the method of its type.\<close>

datatype api_object =
    OAddressSet
  | OAddressSetList
  | OFirewallRule
  | OFirewallRuleList
  | OLinodeCluster
  | OLinodeClusterList
  | OLinodeClusterTemplate
  | OLinodeClusterTemplateList
  | OLinodeFirewall
  | OLinodeFirewallList
  | OLinodeMachine
  | OLinodeMachineList
  | OLinodeMachineTemplate
  | OLinodeMachineTemplateList
  | OLinodeObjectStorageBucket
  | OLinodeObjectStorageBucketList
  | OLinodeObjectStorageKey
  | OLinodeObjectStorageKeyList
  | OLinodePlacementGroup
  | OLinodePlacementGroupList
  | OLinodeVPC
  | OLinodeVPCList

fun objectType :: "ext_types \<Rightarrow> api_object \<Rightarrow> gotype" where
  "objectType X OAddressSet = AddressSet_type X"
| "objectType X OAddressSetList = AddressSetList_type X"
| "objectType X OFirewallRule = FirewallRule_type X"
| "objectType X OFirewallRuleList = FirewallRuleList_type X"
| "objectType X OLinodeCluster = LinodeCluster_type X"
| "objectType X OLinodeClusterList = LinodeClusterList_type X"
| "objectType X OLinodeClusterTemplate = LinodeClusterTemplate_type X"
| "objectType X OLinodeClusterTemplateList = LinodeClusterTemplateList_type X"
| "objectType X OLinodeFirewall = LinodeFirewall_type X"
| "objectType X OLinodeFirewallList = LinodeFirewallList_type X"
| "objectType X OLinodeMachine = LinodeMachine_type X"
| "objectType X OLinodeMachineList = LinodeMachineList_type X"
| "objectType X OLinodeMachineTemplate = LinodeMachineTemplate_type X"
| "objectType X OLinodeMachineTemplateList = LinodeMachineTemplateList_type X"
| "objectType X OLinodeObjectStorageBucket = LinodeObjectStorageBucket_type X"
| "objectType X OLinodeObjectStorageBucketList = LinodeObjectStorageBucketList_type X"
| "objectType X OLinodeObjectStorageKey = LinodeObjectStorageKey_type X"
| "objectType X OLinodeObjectStorageKeyList = LinodeObjectStorageKeyList_type X"
| "objectType X OLinodePlacementGroup = LinodePlacementGroup_type X"
| "objectType X OLinodePlacementGroupList = LinodePlacementGroupList_type X"
| "objectType X OLinodeVPC = LinodeVPC_type X"
| "objectType X OLinodeVPCList = LinodeVPCList_type X"

fun deepCopyObject :: "ext_types \<Rightarrow> api_object \<Rightarrow> copier" where
  "deepCopyObject X OAddressSet = AddressSet_DeepCopyObject X"
| "deepCopyObject X OAddressSetList = AddressSetList_DeepCopyObject X"
| "deepCopyObject X OFirewallRule = FirewallRule_DeepCopyObject X"
| "deepCopyObject X OFirewallRuleList = FirewallRuleList_DeepCopyObject X"
| "deepCopyObject X OLinodeCluster = LinodeCluster_DeepCopyObject X"
| "deepCopyObject X OLinodeClusterList = LinodeClusterList_DeepCopyObject X"
| "deepCopyObject X OLinodeClusterTemplate = LinodeClusterTemplate_DeepCopyObject X"
| "deepCopyObject X OLinodeClusterTemplateList = LinodeClusterTemplateList_DeepCopyObject X"
| "deepCopyObject X OLinodeFirewall = LinodeFirewall_DeepCopyObject X"
| "deepCopyObject X OLinodeFirewallList = LinodeFirewallList_DeepCopyObject X"
| "deepCopyObject X OLinodeMachine = LinodeMachine_DeepCopyObject X"
| "deepCopyObject X OLinodeMachineList = LinodeMachineList_DeepCopyObject X"
| "deepCopyObject X OLinodeMachineTemplate = LinodeMachineTemplate_DeepCopyObject X"
| "deepCopyObject X OLinodeMachineTemplateList = LinodeMachineTemplateList_DeepCopyObject X"
| "deepCopyObject X OLinodeObjectStorageBucket = LinodeObjectStorageBucket_DeepCopyObject X"
| "deepCopyObject X OLinodeObjectStorageBucketList = LinodeObjectStorageBucketList_DeepCopyObject X"
| "deepCopyObject X OLinodeObjectStorageKey = LinodeObjectStorageKey_DeepCopyObject X"
| "deepCopyObject X OLinodeObjectStorageKeyList = LinodeObjectStorageKeyList_DeepCopyObject X"
| "deepCopyObject X OLinodePlacementGroup = LinodePlacementGroup_DeepCopyObject X"
| "deepCopyObject X OLinodePlacementGroupList = LinodePlacementGroupList_DeepCopyObject X"
| "deepCopyObject X OLinodeVPC = LinodeVPC_DeepCopyObject X"
| "deepCopyObject X OLinodeVPCList = LinodeVPCList_DeepCopyObject X"

lemmas deepCopy_defs =
  AddressSet_DeepCopy_def AddressSet_DeepCopyObject_def
  AddressSetList_DeepCopy_def AddressSetList_DeepCopyObject_def
  FirewallRule_DeepCopy_def FirewallRule_DeepCopyObject_def
  FirewallRuleList_DeepCopy_def FirewallRuleList_DeepCopyObject_def
  LinodeCluster_DeepCopy_def LinodeCluster_DeepCopyObject_def
  LinodeClusterList_DeepCopy_def LinodeClusterList_DeepCopyObject_def
  LinodeClusterTemplate_DeepCopy_def LinodeClusterTemplate_DeepCopyObject_def
  LinodeClusterTemplateList_DeepCopy_def LinodeClusterTemplateList_DeepCopyObject_def
  LinodeFirewall_DeepCopy_def LinodeFirewall_DeepCopyObject_def
  LinodeFirewallList_DeepCopy_def LinodeFirewallList_DeepCopyObject_def
  LinodeMachine_DeepCopy_def LinodeMachine_DeepCopyObject_def
  LinodeMachineList_DeepCopy_def LinodeMachineList_DeepCopyObject_def
  LinodeMachineTemplate_DeepCopy_def LinodeMachineTemplate_DeepCopyObject_def
  LinodeMachineTemplateList_DeepCopy_def LinodeMachineTemplateList_DeepCopyObject_def
  LinodeObjectStorageBucket_DeepCopy_def LinodeObjectStorageBucket_DeepCopyObject_def
  LinodeObjectStorageBucketList_DeepCopy_def LinodeObjectStorageBucketList_DeepCopyObject_def
  LinodeObjectStorageKey_DeepCopy_def LinodeObjectStorageKey_DeepCopyObject_def
  LinodeObjectStorageKeyList_DeepCopy_def LinodeObjectStorageKeyList_DeepCopyObject_def
  LinodePlacementGroup_DeepCopy_def LinodePlacementGroup_DeepCopyObject_def
  LinodePlacementGroupList_DeepCopy_def LinodePlacementGroupList_DeepCopyObject_def
  LinodeVPC_DeepCopy_def LinodeVPC_DeepCopyObject_def
  LinodeVPCList_DeepCopy_def LinodeVPCList_DeepCopyObject_def

lemma deepCopyObject_deep: "extLaws X \<Longrightarrow> deep_copier (TyPtr (objectType X k)) (deepCopyObject X k)"
  by (cases k) (simp_all add: deepCopy_defs deep_rules)

text \<open>Types of the API alone need nothing of other packages.\<close>

interpretation addressSetSpec: deep_copier AddressSetSpec_type AddressSetSpec_DeepCopyInto
  by (simp add: addressset_deep_defs deep_rules)

interpretation interfaceIPv4: deep_copier VPCInterfaceIPv4CreateOptions_type VPCInterfaceIPv4CreateOptions_DeepCopyInto
  by (simp add: linodemachine_deep_defs deep_rules)


section \<open>Properties\<close>

text \<open>
C30: The generated deep copy of every object of the API is complete and independent: the copy of an object stands for
what the object stands for, with every pointer followed; the object is as it was; the two have no cell in
common; and whatever is written to a cell of the one, the other stands for what it did.
\<close>

theorem deep_copies_independent:
  assumes "extLaws X" and "read (TyPtr (objectType X k)) h p = Some (t, as)" and "deepCopyObject X k h p = (q, h')"
  shows "\<exists>bs. read (TyPtr (objectType X k)) h' p = Some (t, as) \<and> read (TyPtr (objectType X k)) h' q = Some (t, bs) \<and> set as \<inter> set bs = {}
    \<and> (\<forall>a x. a \<in> set bs \<longrightarrow> read (TyPtr (objectType X k)) (h'[a := x]) p = Some (t, as))
    \<and> (\<forall>a x. a \<in> set as \<longrightarrow> read (TyPtr (objectType X k)) (h'[a := x]) q = Some (t, bs))"
  using deep_copier.independent [OF deepCopyObject_deep [OF assms(1)] assms(2,3)] .

text \<open>An address set with labels and one range, and an excerpt of the metadata types.\<close>

definition ext1 :: ext_types where
  "ext1 = \<lparr>layout = (\<lambda>n. if n = ''metav1.ObjectMeta'' then TyStruct [(''Name'', TyString), (''Labels'', TyMap TyString)]
       else if n = ''metav1.TypeMeta'' then TyStruct [(''Kind'', TyString), (''APIVersion'', TyString)] else TyString),
     extCopy = (\<lambda>n. if n = ''metav1.ObjectMeta'' then copyInto [(''Labels'', copyMap same)] else same)\<rparr>"

definition mem1 :: mem where
  "mem1 = [CVal (VStruct [(''TypeMeta'', VStruct [(''Kind'', VString ''AddressSet''), (''APIVersion'', VString ''v1alpha2'')]),
       (''ObjectMeta'', VStruct [(''Name'', VString ''lan''), (''Labels'', VMap 3)]),
       (''Spec'', VStruct [(''IPv4'', VPtr 1), (''IPv6'', VNil)]), (''Status'', VStruct [])]),
     CVal (VSlice 2 0 1), CArr [VString ''10.0.0.0/8''], CMap [(''zone'', VString ''a'')]]"

definition tree1 :: gotree where
  "tree1 = TPtr (TStruct [(''TypeMeta'', TStruct [(''Kind'', TString ''AddressSet''), (''APIVersion'', TString ''v1alpha2'')]),
     (''ObjectMeta'', TStruct [(''Name'', TString ''lan''), (''Labels'', TMap [(''zone'', TString ''a'')])]),
     (''Spec'', TStruct [(''IPv4'', TPtr (TSlice [TString ''10.0.0.0/8''])), (''IPv6'', TNil)]), (''Status'', TStruct [])])"

lemma ext1_laws: "extLaws ext1"
  by (simp add: extLaws_def plainTypes_def copiedTypes_def ext1_def deep_rules)

lemma mem1_read: "read (TyPtr (objectType ext1 OAddressSet)) mem1 (VPtr 0) = Some (tree1, [0, 3, 1, 2])"
  by (simp add: addressset_deep_defs readPtr_def readStruct_def readSlice_def readMap_def cellAt_def ext1_def mem1_def tree1_def)

lemma mem1_copy: "fst (deepCopyObject ext1 OAddressSet mem1 (VPtr 0)) = VPtr 7"
  by (simp add: deepCopy_defs addressset_deep_defs asObject_def newCopy_def copyPtr_def copyInto_def copySlice_def copyMap_def setField_def
      same_def cellAt_def ext1_def mem1_def)

theorem deep_copies_independent_witness:
  "\<exists>bs. let h' = snd (deepCopyObject ext1 OAddressSet mem1 (VPtr 0)); T = TyPtr (objectType ext1 OAddressSet) in
     read T h' (VPtr 7) = Some (tree1, bs) \<and> set [0, 3, 1, 2] \<inter> set bs = {} \<and> read T (h'[2 := CArr []]) (VPtr 7) = Some (tree1, bs)"
  using deep_copies_independent [OF ext1_laws mem1_read prod.collapse [symmetric]] unfolding mem1_copy Let_def by auto

end
