(* ===== verification/Spec2Isabelle.thy ===== *)
theory Spec2Isabelle
  imports MachineRuns MachineProgress Fleet ResourceRuns VpcRuns Conditions Vpc VlanIPs ClusterRuns ClusterProgress Deletions ObjectStorageProps MachineTemplate WebhooksProps Manager TracedClient DeepCopies
begin

text \<open>
  \<^bold>\<open>The program.\<close> The Cluster API provider for Linode is a Kubernetes operator. For each of its resources a
  controller compares the resource with the Linode API and makes the one follow the other: machines
  (\<open>LinodeMachine\<close>, an instance with its disks, interfaces and bootstrap data), clusters (\<open>LinodeCluster\<close>, a
  NodeBalancer or DNS records in front of the control plane), VPCs, firewalls with their rules and address sets,
  placement groups, object storage buckets and access keys, and machine templates. Admission webhooks check the
  resources before they are stored. All controllers have one shape: \<open>Reconcile\<close> fetches the object, builds a scope
  (\<open>cloud/scope\<close>) and calls \<open>reconcile\<close>, which adds the finalizer, applies or deletes, and closes the scope in a
  deferred function that patches the object; the work on the API is in the controllers' helpers and in
  \<open>cloud/services\<close>; \<open>util\<close> holds what they share.

  \<^bold>\<open>The model.\<close> A handler is a computation in a state monad (theory Prelude) over a \<open>world\<close>: the scope or object it
  works on, the history of events, and the two package variables of \<open>util\<close>, the POST counters and the VLAN addresses.
  Every call that leaves the program is one event with its arguments (theory World: Kubernetes, the services of
  \<open>clients/clients.go\<close>, S3, clock, random numbers, map order), and an environment record answers it as a function of
  the history so far. The theorems hold for every environment unless they say what they assume of it, so an answer
  may change from call to call and other actors may interfere between any two events. Libraries without effects
  (finalizer helpers, error classification, quantities, templates) are functions of the same record. \<open>env0\<close> is one
  environment, on which the theorems with hypotheses are applied.

  Conventions: \<open>(T, error)\<close> is a sum type, a pointer is an option, a nil slice is the empty list, \<open>int\<close> wraps at 64
  bits where an overflow is possible, a map is a partial function whose keys are listed in an order the environment
  picks. A panic is the error \<open>ErrPanic\<close>, which no handler stops: it skips everything but the deferred functions. A
  handler that changes its object before a failure keeps the change, as the Go code does with its pointers. Log
  messages, events of the recorder and metrics are left out.

  \<^bold>\<open>Theories.\<close>
  \<^item> Prelude: errors, results, the monad, weakest preconditions (\<open>wp\<close>) and step invariants (\<open>keeps\<close>); the locale
    \<open>preorder_rel\<close> gives the rules of \<open>keeps\<close> for every reflexive and transitive relation on states and is
    interpreted for each relation a component keeps.
  \<^item> GoStd: strings, numbers, times, addresses, the order of map keys.
  \<^item> ApiMeta, ApiNet, ApiCluster, ApiMachine (\<open>api/v1alpha2\<close>): the resources; the locale \<open>condition_owner\<close> states what
    \<open>SetCondition\<close> promises and is interpreted for every resource. LinodeApi: the data of the Linode API.
  \<^item> World: events, environments and histories, with the rules for histories that only grow (\<open>adds\<close>, \<open>calm\<close>).
  \<^item> Util, VlanIPs (\<open>util\<close>): errors, provider IDs, filters, rate limits, delays; the allocator of VLAN addresses, an
    instance of the locale \<open>fresh_allocator\<close>.
  \<^item> ClientSetup (\<open>cmd/main.go\<close>, \<open>cloud/scope/common.go\<close>): the settings of the clients. GoFlag, Watches,
    Manager: Go's flag package, the \<open>SetupWithManager\<close> methods of the controllers and the rest of \<open>cmd/main.go\<close>,
    with controller-runtime as a parameter. Tracing and TracedClient: the instrumentation of \<open>observability\<close>; the
    latter has every method of the traced client of the Linode API. Scope, MachineScope and the
    first parts of LoadBalancer, ObjectStorage and MachineTemplate: \<open>cloud/scope\<close>. Reconcile: what the controllers share.
  \<^item> Firewall, Vpc, PlacementGroup: their controllers with helpers, each with its properties.
  \<^item> MachineConfig, MachineInstance, Machine: the machine controller and its helpers, with the bootstrap data of
    \<open>object_storage_objects.go\<close>; MachineSafety and MachineProps: its properties.
  \<^item> LoadBalancer, Domains (\<open>cloud/services\<close>), ClusterCtl: the cluster controller; DomainsProps and ClusterProps.
  \<^item> ObjectStorage, ObjectStorageCtl: services and controllers of buckets and keys; ObjectStorageProps.
  \<^item> MachineTemplate: the controller of machine templates. Webhooks and WebhooksProps: \<open>internal/webhook/v1alpha2\<close>.
  \<^item> Runs: any number of reconciliations of one resource with the interference of others between them; its locale
    \<open>id_guard\<close> says when a guard by an ID in the spec grants at most one creation, and is interpreted in MachineRuns,
    ClusterRuns, ResourceRuns (placement groups, firewalls) and VpcRuns. MachineProgress and ClusterProgress: to readiness.
    Deletions: to the end of a deletion.
    Fleet: several machines that share the POST counter. Conditions: the locale \<open>typed_status\<close>, interpreted for the
    seven resources with conditions.
  \<^item> GoMemory, DeepCopies (\<open>zz_generated.deepcopy.go\<close>): memory with pointers, slices and maps, and the deep copies of
    all 76 structs of the API over it, checked against the declared types. In the other theories resources are
    values and a deep copy is the value itself; these two justify that. The locales \<open>reader\<close> and \<open>deep_copier\<close> state what
    reading and copying promise; they are interpreted for every type and for the copies that need no other package.
  \<^item> Samples: objects for the examples. This theory: what spans several components.

  \<^bold>\<open>What is shown.\<close> For deletions: no finalizer is given up before the thing it guards is known to be gone, in every
  branch and for every answer (machines, clusters, VPCs, firewalls, placement groups, buckets, keys), and a VPC or
  placement group that is in use is not deleted. For creations: a reconciliation of a machine changes only its own
  instance; any sequence of reconciliations of one machine, cluster, placement group, firewall or VPC is granted at most
  one instance, NodeBalancer, group, firewall or VPC; no machine that shares a token creates an instance beyond the rate
  limit; no disk, VLAN address or subnet twice. For progress: while the API serves an instance, two reconciliations
  make its machine ready, and while it serves NodeBalancers, one makes a cluster ready;
  one makes an admitted VPC ready, each subnet with the ID of the one created for it; and once the API lets go of what a
  deleted machine, cluster, VPC, firewall or placement group stands for, one completes the deletion. For the state: no reconciliation leaves two conditions
  of one type. For the process: it starts with all its controllers, webhooks and checks or not at all, the
  controllers are not woken by what they write themselves, tracing changes nothing that the wrapped clients do, and a
  deep copy shares nothing with its original. For results: firewall rules, DNS entries, backend nodes, bootstrap data, root disks, generated
  secrets and admitted specs are compared with a direct description of what they should be. Round trips, bounds
  and termination concern the command line, provider IDs, rate limits, chunks of addresses and the search for a VLAN address. Several
  lemmas show where the code gets stuck or loses an error; they have no claim number.

  \<^bold>\<open>Loops.\<close> Loops over slices are recursions over lists. The search for a VLAN address and the two page loops over a
  bucket may run for ever and are partial functions; they are shown to return while there is room and for every
  listing that ends, and not to return for a versioned bucket whose listing keeps being refused. A retry on
  conflict is bounded by the steps of the library. There is no fuel.

  \<^bold>\<open>Not modelled.\<close> Scheme registration (no logic), mocks and the test framework (generated, not part of the process),
  the \<open>ValidateUpdate\<close> and \<open>ValidateDelete\<close> methods that accept everything, Kubernetes events, contexts and their
  deadlines (a call that runs out of time is an error the environment returns), and concurrency inside the process
  beyond the mutexes of \<open>util\<close>, which make each of its operations one step. Libraries (controller-runtime, Cluster API,
  linodego, the S3 and Akamai clients, netipx, OpenTelemetry) are parameters, with what the code relies on as named
  hypotheses of the properties.
\<close>


section \<open>The webhook of access keys, the key controller and the deletion of buckets\<close>

definition secretOf :: "LinodeObjectStorageKey \<Rightarrow> NamespacedName" where
  "secretOf k = (let gs = ky_GeneratedSecret (lok_Spec k) in \<lparr>nn_Namespace = gs_Namespace gs, nn_Name = gs_Name gs\<rparr>)"

lemma secretOf_default:
  "gs_Name (ky_GeneratedSecret (lok_Spec k)) = [] \<Longrightarrow> gs_Namespace (ky_GeneratedSecret (lok_Spec k)) = [] \<Longrightarrow>
   secretOf (key_Default k) = \<lparr>nn_Namespace = om_Namespace (lok_Meta k), nn_Name = om_Name (lok_Meta k) @ ''-obj-key''\<rparr>"
  by (simp add: secretOf_def key_Default_def defaultKeySecretName_def Let_def)

definition secretNamed :: "NamespacedName \<Rightarrow> Secret res \<Rightarrow> bool" where
  "secretNamed nn r = (case r of Inl _ \<Rightarrow> True | Inr s \<Rightarrow> \<lparr>nn_Namespace = om_Namespace (sec_Meta s), nn_Name = om_Name (sec_Meta s)\<rparr> = nn)"

text \<open>Steps whose result does not matter.\<close>

lemma wp_any: "(\<And>x t. wp (f x) Q t) \<Longrightarrow> wp (State_Monad.bind m f) Q s"
  by (rule wp_seq [where P = "\<lambda>_ _. True"]) (simp add: wp_def split: prod.splits)

lemma wp_anyE: "(\<And>x t. wp (f x) Q t) \<Longrightarrow> (\<And>e t. Q (Inl e) t) \<Longrightarrow> wp (bindE m f) Q s"
  unfolding bindE_def by (rule wp_any) (simp add: wp_return split: sum.split)

lemma wp_GenerateKeySecret_name: "wp (GenerateKeySecret E (Some lk)) (\<lambda>r t. secretNamed (secretOf (ks_Key (obj s))) r) s"
  unfolding GenerateKeySecret_def option.case
  apply (rule wp_getsI)
  unfolding wp_Let Let_def
  by (intro wp_anyE wp_any) (auto simp: wp_return secretNamed_def secretOf_def Let_def split: sum.split)

text \<open>
C33: a key that leaves its secret to the defaults and the deletion of a bucket that references the key agree:
the secret which the key controller builds is the one that the deletion of the bucket reads.
\<close>

theorem default_secret_found:
  assumes "gs_Name (ky_GeneratedSecret (lok_Spec k)) = []" and "gs_Namespace (ky_GeneratedSecret (lok_Spec k)) = []"
    and "bk_AccessKeyRef (lobj_Spec (bs_Bucket (obj s))) = Some \<lparr>obr_Kind = kind, obr_Namespace = om_Namespace (lok_Meta k), obr_Name = om_Name (lok_Meta k)\<rparr>"
    and "om_Namespace (lok_Meta k) \<noteq> []" and "ks_Key (obj u) = key_Default k"
  shows "wp (createS3ClientWithAccessKey E) (\<lambda>_ t. K8s (KGet KSecret (secretOf (key_Default k))) \<in> set (tr t)) s
    \<and> wp (GenerateKeySecret E (Some lk)) (\<lambda>r t. secretNamed (secretOf (key_Default k)) r) u"
proof
  show "wp (createS3ClientWithAccessKey E) (\<lambda>_ t. K8s (KGet KSecret (secretOf (key_Default k))) \<in> set (tr t)) s"
    using assms by (simp add: createS3ClientWithAccessKey_def secretOf_default wp_rules Let_def split: sum.splits option.splits)
  show "wp (GenerateKeySecret E (Some lk)) (\<lambda>r t. secretNamed (secretOf (key_Default k)) r) u"
    using wp_GenerateKeySecret_name [of E lk u] assms(5) by simp
qed

definition defaultKey :: LinodeObjectStorageKey where
  "defaultKey = lok_Spec_update (ky_GeneratedSecret_update (gs_Name_update (\<lambda>_. []) \<circ> gs_Namespace_update (\<lambda>_. []))) key1"

definition keyBucket :: LinodeObjectStorageBucket where
  "keyBucket = lobj_Spec_update (bk_AccessKeyRef_update (\<lambda>_. Some \<lparr>obr_Kind = [], obr_Namespace = ''ns'', obr_Name = ''k''\<rparr>)) bucket1"

theorem default_secret_found_witness:
  "wp (createS3ClientWithAccessKey env0) (\<lambda>_ t. K8s (KGet KSecret (secretOf (key_Default defaultKey))) \<in> set (tr t)) (start \<lparr>bs_Bucket = keyBucket\<rparr>)
    \<and> wp (GenerateKeySecret env0 (Some \<lparr>lky_ID = 1, lky_AccessKey = ''a'', lky_SecretKey = ''s''\<rparr>)) (\<lambda>r t. secretNamed (secretOf (key_Default defaultKey)) r) (start \<lparr>ks_Key = key_Default defaultKey\<rparr>)"
  by (rule default_secret_found [where kind = "[]"]) (simp_all add: defaultKey_def keyBucket_def key1_def)

text \<open>
A secret in the default format has no entry \<open>endpoint\<close>, which the deletion of a bucket takes as the address of
the object store.
\<close>

lemma default_secret_no_endpoint:
  assumes "gs_Format (ky_GeneratedSecret (lok_Spec (ks_Key (obj s)))) = []"
  shows "wp (GenerateKeySecret E (Some lk)) (\<lambda>r t. case r of Inl _ \<Rightarrow> True | Inr secret \<Rightarrow> sec_Data secret ''endpoint'' = None) s"
proof -
  have "permuteKeys p [] = ([] :: (string \<times> string) list)" for p using length_permuteKeys [of p "[]"] by simp
  with assms show ?thesis by (simp add: GenerateKeySecret_def wp_rules Let_def split: sum.split)
qed

text \<open>Another name for the secret is not seen by the deletion of the bucket.\<close>

lemma custom_secret_not_read:
  assumes "tr s = []" and "bk_AccessKeyRef (lobj_Spec (bs_Bucket (obj s))) = Some \<lparr>obr_Kind = kind, obr_Namespace = ns, obr_Name = om_Name (lok_Meta k)\<rparr>"
    and "gs_Name (ky_GeneratedSecret (lok_Spec k)) \<notin> {[], om_Name (lok_Meta k) @ ''-obj-key''}"
  shows "wp (createS3ClientWithAccessKey E) (\<lambda>_ t. K8s (KGet KSecret (secretOf (key_Default k))) \<notin> set (tr t)) s"
  using assms by (simp add: createS3ClientWithAccessKey_def secretOf_def key_Default_def wp_rules Let_def split: sum.splits option.splits)


section \<open>The webhook of machines and the size of the root disk\<close>

text \<open>
The webhook lets the data disks fill the plan and leaves no room for the default swap disk: the root disk
of such a machine gets a negative size.
\<close>

definition fullPlan :: LinodeMachineSpec where
  "fullPlan = lmSpec1\<lparr>lms_DataDisks := Some \<lparr>dks_SDB = None, dks_SDC = Some \<lparr>dk_DiskID = 0, dk_Size = 81920000000, dk_Label = [], dk_Filesystem = []\<rparr>,
     dks_SDD = None, dks_SDE = None, dks_SDF = None, dks_SDG = None, dks_SDH = None\<rparr>\<rparr>"

lemma admitted_root_disk_negative:
  assumes "lm_Spec (ms_LinodeMachine (obj s)) = fullPlan" and "\<And>h ty. ine_GetTypeDisk (ine E) h ty = Inr 81920"
    and "lib_ScaledMega (lib E) 81920000000 = 81920"
  shows "validateLinodeMachineDisks E (Some 81920) fullPlan = None \<and> wp (calculateRootDisk E) (\<lambda>r t. r = Inr (Some (- 512))) s"
  using assms
  by (simp add: validateLinodeMachineDisks_def validateDataDisks_def validateDisk_def fullPlan_def lmSpec1_def calculateRootDisk_def diskMega_def
      defaultSwapDiskSize_def wp_rules wrap64_def Let_def)

text \<open>A quantity in megabytes is rounded up, so each of the disks may take one megabyte more than the webhook counted.\<close>

definition megaOf :: "int \<Rightarrow> int" where
  "megaOf n = (n + 999999) div 1000000"

lemma megaOf_bounds: "n \<le> 1000000 * megaOf n" "1000000 * megaOf n \<le> n + 999999"
  unfolding megaOf_def
  using div_mult_mod_eq [of "n + 999999" 1000000] pos_mod_sign [of 1000000 "n + 999999"] pos_mod_bound [of 1000000 "n + 999999"] by linarith+

lemma sum_megaOf: "1000000 * sum_list (map megaOf xs) \<le> sum_list xs + 999999 * int (length xs)"
proof (induction xs)
  case (Cons n xs)
  with megaOf_bounds(2) [of n] show ?case by (simp add: algebra_simps)
qed simp

lemma dataDiskSize_sizes:
  assumes "\<And>n. lib_ScaledMega (lib E) n = megaOf n"
  shows "dataDiskSize E ds = (if dks_SDB ds = None then defaultSwapDiskSize else 0)
    + sum_list (map megaOf (sizesOf [dks_SDB ds, dks_SDC ds, dks_SDD ds, dks_SDE ds, dks_SDF ds, dks_SDG ds, dks_SDH ds]))"
proof -
  have opt: "optMega E d = sum_list (map megaOf (sizesOf [d]))" for d
    using assms by (cases d) (simp_all add: diskMega_def)
  have cons: "sizesOf (d # xs) = sizesOf [d] @ sizesOf xs" for d xs by (cases d) simp_all
  show ?thesis
    unfolding dataDiskSize_def cons [of _ "_ # _"] map_append sum_list_append list.map sum_list.Cons opt [symmetric]
    by (cases "dks_SDB ds") (simp_all add: assms diskMega_def)
qed

lemma length_sizesOf: "length (sizesOf xs) \<le> length xs"
proof (induction xs)
  case (Cons d xs)
  then show ?case by (cases d) simp_all
qed simp

lemma set_sizesOf: "Some d \<in> set xs \<Longrightarrow> dk_Size d \<in> set (sizesOf xs)"
proof (induction xs)
  case (Cons e xs)
  then show ?case by (cases e) auto
qed simp

text \<open>
C26: The webhook and the machine controller together: for an admitted machine with data disks and without an OS disk,
while the API reports the plan's disk that the webhook saw (of less than \<open>2^62\<close> megabytes) and quantities scale to megabytes
by rounding up, the controller asks for a root disk of exactly what the data disks leave. This is never more than the
plan and at most six megabytes (the roundings) and the size of a default swap disk below zero. The bound is not
zero: see \<open>admitted_root_disk_negative\<close>. With an OS disk the root disk is the OS disk and these bounds do not apply.
\<close>

theorem admitted_root_disk:
  assumes adm: "validateLinodeMachineDisks E (Some disk) (lm_Spec (lmOf s)) = None"
    and os: "lms_OSDisk (lm_Spec (lmOf s)) = None" "lms_DataDisks (lm_Spec (lmOf s)) = Some ds"
    and mega: "\<And>n. lib_ScaledMega (lib E) n = megaOf n" and plan: "\<And>h ty. ine_GetTypeDisk (ine E) h ty = Inr disk" "0 \<le> disk" "disk < 2 ^ 62"
  shows "wp (calculateRootDisk E) (\<lambda>r t. r = Inr (Some (disk - dataDiskSize E ds))) s
    \<and> disk - dataDiskSize E ds \<le> disk \<and> - (if dks_SDB ds = None then 518 else 6) \<le> disk - dataDiskSize E ds"
proof -
  let ?xs = "[dks_SDB ds, dks_SDC ds, dks_SDD ds, dks_SDE ds, dks_SDF ds, dks_SDG ds, dks_SDH ds]"
  have sizes: "diskSizes (lm_Spec (lmOf s)) = sizesOf ?xs" by (simp only: diskSizes_def os option.case sizesOf_simps)
  from adm have pos: "\<And>n. n \<in> set (sizesOf ?xs) \<Longrightarrow> 1 \<le> n" and fits: "sizesOf ?xs = [] \<or> sum_list (sizesOf ?xs) \<le> disk * 1000000"
    unfolding machine_disks_admitted sizes list_all_iff by blast+
  have "length (sizesOf ?xs) \<le> 7" using length_sizesOf [of ?xs] by simp
  then have "1000000 * sum_list (map megaOf (sizesOf ?xs)) \<le> disk * 1000000 + 999999 * 7"
    using fits sum_megaOf [of "sizesOf ?xs"] plan(2) by (cases "sizesOf ?xs = []") simp_all
  moreover have "0 \<le> megaOf n" if "n \<in> set (sizesOf ?xs)" for n using megaOf_bounds(1) [of n] pos [OF that] by linarith
  then have "0 \<le> sum_list (map megaOf (sizesOf ?xs))" by (intro sum_list_nonneg) auto
  ultimately obtain n where n: "dataDiskSize E ds = (if dks_SDB ds = None then 512 else 0) + n" "0 \<le> n" "1000000 * n \<le> disk * 1000000 + 999999 * 7"
    using dataDiskSize_sizes [OF mega] unfolding defaultSwapDiskSize_def by blast
  then have bounds: "0 \<le> dataDiskSize E ds" "dataDiskSize E ds \<le> disk + (if dks_SDB ds = None then 518 else 6)" by auto
  have "0 \<le> diskMega E d" if "Some d \<in> set ?xs" for d
    using megaOf_bounds(1) [of "dk_Size d"] pos [OF set_sizesOf [OF that]] by (simp add: diskMega_def mega)
  then have "wp (calculateRootDisk E) (\<lambda>r t. r = Inr (Some (disk - dataDiskSize E ds))) s"
    using bounds plan by (intro wp_calculateRootDisk os) (auto split: if_splits)
  with bounds show ?thesis by (simp split: if_splits)
qed

definition envMega :: env where
  "envMega = env0\<lparr>lib := lib0\<lparr>lib_ScaledMega := megaOf\<rparr>\<rparr>"

theorem admitted_root_disk_witness:
  "wp (calculateRootDisk envMega) (\<lambda>r t. r = Inr (Some (81920 - dataDiskSize envMega disks1))) (start scope2)
    \<and> 81920 - dataDiskSize envMega disks1 \<le> 81920 \<and> - (if dks_SDB disks1 = None then 518 else 6) \<le> 81920 - dataDiskSize envMega disks1"
  by (rule admitted_root_disk)
    (simp_all add: envMega_def env0_defs scope2_def scope1_def lm1_def lmSpec1_def disks1_def validateLinodeMachineDisks_def validateDataDisks_def validateDisk_def)


section \<open>The webhook and the controller of VPCs\<close>

text \<open>An API that has no such VPC yet and creates one with a subnet for each that is asked for, in this order.\<close>

definition vpcServes :: "env \<Rightarrow> bool" where
  "vpcServes E = (\<forall>h.
     (\<forall>flt. vpe_ListVPCs (vpe E) h flt = Inr []) \<and>
     (\<forall>opts. \<exists>vpc. vpe_CreateVPC (vpe E) h opts = Inr vpc \<and> map lsn_Label (lvpc_Subnets vpc) = map lso_Label (lvo_Subnets opts)) \<and>
     (\<forall>ob. k_Patch (k8s E) h ob = None))"

lemma vpcServesD:
  assumes "vpcServes E"
  shows "vpe_ListVPCs (vpe E) h flt = Inr []" and "k_Patch (k8s E) h ob = None"
    and "\<exists>vpc. vpe_CreateVPC (vpe E) h opts = Inr vpc \<and> map lsn_Label (lvpc_Subnets vpc) = map lso_Label (lvo_Subnets opts)"
  using assms by (simp_all add: vpcServes_def)

text \<open>With distinct labels the search by label finds for each subnet the one that was created for it.\<close>

lemma find_by_label:
  "distinct (map sn_Label sns) \<Longrightarrow> map lsn_Label vs = map sn_Label sns \<Longrightarrow>
   map (\<lambda>sn. find (\<lambda>v. sn_Label sn = lsn_Label v) vs) sns = map Some vs"
proof (induction sns arbitrary: vs)
  case (Cons sn sns)
  then obtain v vs' where "vs = v # vs'" by (cases vs) auto
  moreover have "map (\<lambda>sn. find (\<lambda>v. sn_Label sn = lsn_Label v) (v # vs')) sns = map (\<lambda>sn. find (\<lambda>v. sn_Label sn = lsn_Label v) vs') sns"
    using Cons.prems \<open>vs = v # vs'\<close> by (auto intro!: map_cong) (metis image_eqI)
  moreover have "map (\<lambda>sn. find (\<lambda>v. sn_Label sn = lsn_Label v) vs') sns = map Some vs'"
    using Cons.prems \<open>vs = v # vs'\<close> by (intro Cons.IH) auto
  ultimately show ?case using Cons.prems by (simp del: find.simps(2)) simp
qed simp

lemma updateVPCSpecSubnets_IDs:
  assumes "distinct (map sn_Label (vpc_Subnets spec))" and "map lsn_Label (lvpc_Subnets vpc) = map sn_Label (vpc_Subnets spec)"
  shows "map sn_SubnetID (vpc_Subnets (updateVPCSpecSubnets vpc spec)) = map lsn_ID (lvpc_Subnets vpc)"
proof -
  have "map (\<lambda>sn. case f sn of None \<Rightarrow> sn_SubnetID sn | Some v \<Rightarrow> lsn_ID v) sns = map lsn_ID vs" if "map f sns = map Some vs" for f sns vs
    using that by (induction sns arbitrary: vs) (auto simp: Cons_eq_map_conv)
  from this [OF find_by_label [OF assms]] show ?thesis
    by (simp add: updateVPCSpecSubnets_def setSubnetFields_def comp_def option.case_distrib [of sn_SubnetID] cong: option.case_cong)
qed

text \<open>
  What the creation leaves: the history has a request for a VPC with the labels and ranges of the spec's subnets, and
  the resource has the ID of the VPC with which the API answered this request, and for each subnet the ID of the one
  in this answer.
\<close>

definition vpcRealised :: "env \<Rightarrow> LinodeVPCSpec \<Rightarrow> LinodeVPCSpec \<Rightarrow> hist \<Rightarrow> bool" where
  "vpcRealised E spec spec' h' = (\<exists>new h opts vpc. h' = new @ VPC (CCreateVPC opts) # h \<and> vpe_CreateVPC (vpe E) h opts = Inr vpc
     \<and> map lso_Label (lvo_Subnets opts) = map sn_Label (vpc_Subnets spec) \<and> map lso_IPv4 (lvo_Subnets opts) = map sn_IPv4 (vpc_Subnets spec)
     \<and> vpc_VPCID spec' = Some (lvpc_ID vpc) \<and> map sn_SubnetID (vpc_Subnets spec') = map lsn_ID (lvpc_Subnets vpc))"

lemma vpcRealised_Cons: "vpcRealised E spec spec' h \<Longrightarrow> vpcRealised E spec spec' (c # h)"
  unfolding vpcRealised_def by (metis append_Cons)

lemma wp_reconcileVPC_new:
  assumes "vpcServes E" and "distinct (map sn_Label (vpc_Subnets spec))" and "lv_Spec (vpcOf s) = spec" and "vpc_VPCID spec = None"
  shows "wp (reconcileVPC E) (\<lambda>r t. r = None \<and> vpcRealised E spec (lv_Spec (vpcOf t)) (tr t)) s"
proof -
  obtain c where config: "linodeVPCSpecToVPCCreateConfig spec = Some c" and subnets: "lvo_Subnets c = map subnetCreateOption (vpc_Subnets spec)"
    by (simp add: linodeVPCSpecToVPCCreateConfig_def)
  let ?opts = "c\<lparr>lvo_Label := om_Name (lv_Meta (vpcOf s))\<rparr>"
  have labels: "map lso_Label (lvo_Subnets ?opts) = map sn_Label (vpc_Subnets spec)" "map lso_IPv4 (lvo_Subnets ?opts) = map sn_IPv4 (vpc_Subnets spec)"
    by (simp_all add: subnets subnetCreateOption_def comp_def)
  have made: "vpcRealised E spec (updateVPCSpecSubnets vpc (setVPCFields vpc spec)) (VPC (CCreateVPC ?opts) # h)"
    if "vpe_CreateVPC (vpe E) h ?opts = Inr vpc" "map lsn_Label (lvpc_Subnets vpc) = map lso_Label (lvo_Subnets ?opts)" for h vpc
  proof -
    have "map sn_SubnetID (vpc_Subnets (updateVPCSpecSubnets vpc (setVPCFields vpc spec))) = map lsn_ID (lvpc_Subnets vpc)"
      using assms(2) that(2) unfolding labels by (intro updateVPCSpecSubnets_IDs) (simp_all add: setVPCFields_def)
    moreover have "vpc_VPCID (updateVPCSpecSubnets vpc (setVPCFields vpc spec)) = Some (lvpc_ID vpc)"
      by (simp add: updateVPCSpecSubnets_def setVPCFields_def)
    ultimately show ?thesis unfolding vpcRealised_def using that(1) labels by (metis append_Nil)
  qed
  have "\<forall>f. \<exists>vpc. vpe_CreateVPC (vpe E) (VPC (CListVPCs f) # tr s) ?opts = Inr vpc \<and> map lsn_Label (lvpc_Subnets vpc) = map lso_Label (lvo_Subnets ?opts)"
    using vpcServesD(3) [OF assms(1)] by blast
  from choice [OF this] obtain vpc where vpc: "vpe_CreateVPC (vpe E) (VPC (CListVPCs f) # tr s) ?opts = Inr (vpc f)"
      "map lsn_Label (lvpc_Subnets (vpc f)) = map lso_Label (lvo_Subnets ?opts)" for f by blast
  show ?thesis
    unfolding reconcileVPC_def
    by (simp add: wp_rules assms(3,4) config Let_def Filter_String_def Filter_MarshalJSON_def vpcServesD(1) [OF assms(1)] vpc(1))
      (rule made [OF vpc])
qed

text \<open>
C27: The webhook and the VPC controller together: a VPC resource with admitted subnets, with no VPC ID and no
\<open>credentialsRef\<close>, and not being deleted, is ready after one reconciliation, provided that the API lists no VPC, answers the
creation with a VPC that has a subnet for each one asked for, in this order, and the API server accepts the patches
(\<open>vpcServes\<close>). It then has the ID of the VPC with which the API answered the request for it, which had the labels
and ranges of the spec, and each of its subnets has the ID of the subnet that was created for it. This needs the
webhook: the controller finds the created subnets by their labels.
\<close>

theorem admitted_vpc_realised:
  assumes "netipxLaws N sem" and "validateLinodeVPCSubnets N (lv_Spec (vpcOf s)) = []" and "vpcServes E"
    and new: "om_DeletionTimestamp (lv_Meta (vpcOf s)) = None" "vpc_VPCID (lv_Spec (vpcOf s)) = None" "vpc_CredentialsRef (lv_Spec (vpcOf s)) = None"
  shows "wp (vpc_reconcile E T) (\<lambda>r t. r = (noResult, None) \<and> vpc_Ready (lv_Status (vpcOf t)) \<and>
     vpcRealised E (lv_Spec (vpcOf s)) (lv_Spec (vpcOf t)) (tr t)) s"
proof -
  have "distinct (map sn_Label (vpc_Subnets (lv_Spec (vpcOf s))))" using assms(1,2) validateSubnets_iff by blast
  note created = wp_mono [OF wp_reconcileVPC_new [OF assms(3) this]]
  show ?thesis
    by (auto simp: vpc_reconcile_def vpc_reconcileBody_def vpc_reconcileCreate_def vpc_deferred_def scope_cred_defs
        VPCScope_AddFinalizer_def VPCScope_Close_def vpcRequeueUnlessStale_def vpcServesD(2) [OF assms(3)] new wp_rules Let_def
        split: prod.split intro!: created vpcRealised_Cons)
qed

definition newScope :: VPCScope where
  "newScope = vs_LinodeVPC_update (\<lambda>v. v\<lparr>lv_Meta := meta0, lv_Spec := sampleVPC\<rparr>) vpcScope1"

definition envMakesVPC :: env where
  "envMakesVPC = env0\<lparr>vpe := vpe0\<lparr>vpe_CreateVPC := \<lambda>_ opts. Inr \<lparr>lvpc_ID = 7, lvpc_Label = lvo_Label opts, lvpc_IPv4 = [], lvpc_IPv6 = [],
     lvpc_Subnets = map (\<lambda>(i, so). \<lparr>lsn_ID = int i + 1, lsn_Label = lso_Label so, lsn_IPv4 = lso_IPv4 so, lsn_IPv6 = [], lsn_Linodes = []\<rparr>)
       (enumerate 0 (lvo_Subnets opts)), lvpc_Updated = 0\<rparr>\<rparr>\<rparr>"

lemma envMakesVPC_serves: "vpcServes envMakesVPC"
proof -
  have "map (\<lambda>x. lso_Label (snd x)) (enumerate n sos) = map lso_Label sos" for n and sos :: "LSubnetCreateOptions list"
    by (induction sos arbitrary: n) simp_all
  then show ?thesis by (simp add: vpcServes_def envMakesVPC_def env0_defs comp_def split_def)
qed

theorem admitted_vpc_realised_witness:
  "wp (vpc_reconcile envMakesVPC 0) (\<lambda>r t. r = (noResult, None) \<and> vpc_Ready (lv_Status (vpcOf t)) \<and>
     vpcRealised envMakesVPC sampleVPC (lv_Spec (vpcOf t)) (tr t)) (start newScope)"
proof -
  have new: "lv_Spec (vpcOf (start newScope)) = sampleVPC" "om_DeletionTimestamp (lv_Meta (vpcOf (start newScope))) = None"
    by (simp_all add: newScope_def meta0_def)
  have "validateLinodeVPCSubnets netipxSets (lv_Spec (vpcOf (start newScope))) = []"
    unfolding new using validateSubnets_iff [OF netipxSets_laws] sample_allowed by blast
  from admitted_vpc_realised [OF netipxSets_laws this envMakesVPC_serves new(2)] show ?thesis
    unfolding new by (simp add: sampleVPC_def)
qed

end
